(* ===== verification/Prelude.thy ===== *)
theory Prelude
  imports Main "HOL-Library.Monad_Syntax"
begin

text \<open>
  Shared vocabulary of the development: Go strings and slices, the loops the Go code writes over
  slices, and the interface of a collection whose entries are found by name.

  A Go \<open>string\<close> is a byte string, and a HOL \<open>char\<close> is a byte, so a Go string is a \<open>string\<close> here
  and its \<open>len\<close> is \<open>length\<close>.  A slice is a list; \<open>append(s[:i], s[i+1:]...)\<close> is \<open>remove_at\<close>.
\<close>

section \<open>Collections of rewrite rules\<close>

named_theorems go_slice \<open>facts on slices: searching, removing and updating by index\<close>
named_theorems go_loop \<open>facts on loops that stop at the first error\<close>

section \<open>Go strings\<close>

abbreviation byte_of :: "char \<Rightarrow> nat" where
  "byte_of c \<equiv> of_char c"

text \<open>\<open>strings.ToLower\<close> on ASCII text, byte by byte: the letters A to Z are folded, every other byte is kept.  Go also
  folds the letters outside ASCII, so what is said of a name with such letters in upper case holds only of code that
  does not fold it; the names that are folded here (functions, types, schemas, the word \<open>excluded\<close>) are ASCII in every
  schema of the engines themselves.  Where a folded name is turned into Go, the Unicode tables are an argument.\<close>

definition lower_byte :: "char \<Rightarrow> char" where
  "lower_byte c =
     (if 65 \<le> byte_of c \<and> byte_of c \<le> 90 then char_of (byte_of c + 32) else c)"

definition ToLower :: "string \<Rightarrow> string" where
  "ToLower s = map lower_byte s"

text \<open>\<open>strings.EqualFold\<close> on ASCII text compares the lower-case spellings.  Only the letters K and S have a case partner
  outside ASCII, so against a word without them, such as \<open>EXCLUDED\<close>, this is the function itself on any text.\<close>

definition EqualFold :: "string \<Rightarrow> string \<Rightarrow> bool" where
  "EqualFold s t \<longleftrightarrow> ToLower s = ToLower t"

lemma lower_byte_idem [simp]: "lower_byte (lower_byte c) = lower_byte c"
  by (simp add: lower_byte_def)

lemma ToLower_idem [simp]: "ToLower (ToLower s) = ToLower s"
  by (simp add: ToLower_def)

lemma length_ToLower [simp]: "length (ToLower s) = length s"
  by (simp add: ToLower_def)

lemma EqualFold_refl [simp]: "EqualFold s s"
  by (simp add: EqualFold_def)

lemma EqualFold_sym: "EqualFold s t \<longleftrightarrow> EqualFold t s"
  by (auto simp: EqualFold_def)

text \<open>\<open>strings.Join\<close>.\<close>

fun Join :: "string list \<Rightarrow> string \<Rightarrow> string" where
  "Join [] sep = []"
| "Join [x] sep = x"
| "Join (x # y # xs) sep = x @ sep @ Join (y # xs) sep"

text \<open>
  \<open>strconv.Quote\<close>, which \<open>%q\<close> prints with: quotes and backslashes are escaped, the control bytes
  are written as escapes and every other byte is kept.
\<close>

definition hex_digit :: "nat \<Rightarrow> char" where
  "hex_digit n = char_of (if n < 10 then n + 48 else n + 87)"

definition quote_byte :: "char \<Rightarrow> string" where
  "quote_byte c =
     (let b = byte_of c in
      if c = CHR 0x22 \<or> c = CHR 0x5C then [CHR 0x5C, c]
      else if b = 7 then [CHR 0x5C, CHR ''a''] else if b = 8 then [CHR 0x5C, CHR ''b'']
      else if b = 12 then [CHR 0x5C, CHR ''f''] else if b = 10 then [CHR 0x5C, CHR ''n'']
      else if b = 13 then [CHR 0x5C, CHR ''r''] else if b = 9 then [CHR 0x5C, CHR ''t'']
      else if b = 11 then [CHR 0x5C, CHR ''v'']
      else if b < 32 \<or> b = 127 then [CHR 0x5C, CHR ''x'', hex_digit (b div 16), hex_digit (b mod 16)]
      else [c])"

definition Quote :: "string \<Rightarrow> string" where
  "Quote s = [CHR 0x22] @ concat (map quote_byte s) @ [CHR 0x22]"

section \<open>Searching a slice\<close>

text \<open>The index a loop finds when it stops at the first match.\<close>

primrec find_idx :: "('a \<Rightarrow> bool) \<Rightarrow> 'a list \<Rightarrow> nat option" where
  "find_idx P [] = None"
| "find_idx P (x # xs) = (if P x then Some 0 else map_option Suc (find_idx P xs))"

text \<open>The index a loop ends with when it overwrites \<open>idx\<close> at every match.\<close>

primrec find_last_idx :: "('a \<Rightarrow> bool) \<Rightarrow> 'a list \<Rightarrow> nat option" where
  "find_last_idx P [] = None"
| "find_last_idx P (x # xs) =
     (case find_last_idx P xs of Some i \<Rightarrow> Some (Suc i) | None \<Rightarrow> if P x then Some 0 else None)"

definition remove_at :: "nat \<Rightarrow> 'a list \<Rightarrow> 'a list" where
  "remove_at i xs = take i xs @ drop (Suc i) xs"

lemma find_idx_SomeD:
  "find_idx P xs = Some i \<Longrightarrow> i < length xs \<and> P (xs ! i) \<and> (\<forall>j < i. \<not> P (xs ! j))"
proof (induction xs arbitrary: i)
  case Nil
  then show ?case by simp
next
  case (Cons x xs)
  show ?case
  proof (cases "P x")
    case True
    with Cons.prems show ?thesis by simp
  next
    case False
    with Cons.prems obtain k where k: "find_idx P xs = Some k" "i = Suc k" by auto
    with Cons.IH [OF k(1)] False show ?thesis by (auto simp: less_Suc_eq_0_disj)
  qed
qed

lemma find_idx_less [go_slice]: "find_idx P xs = Some i \<Longrightarrow> i < length xs"
  by (simp add: find_idx_SomeD)

lemma find_idx_pred [go_slice]: "find_idx P xs = Some i \<Longrightarrow> P (xs ! i)"
  by (simp add: find_idx_SomeD)

lemma find_idx_None_iff [go_slice]: "find_idx P xs = None \<longleftrightarrow> (\<forall>x \<in> set xs. \<not> P x)"
  by (induction xs) auto

lemma find_idx_append:
  "find_idx P (xs @ ys) =
     (case find_idx P xs of Some i \<Rightarrow> Some i
      | None \<Rightarrow> map_option (\<lambda>i. i + length xs) (find_idx P ys))"
  by (induction xs) (simp_all add: option.map_comp comp_def option.map_ident split: option.splits)

lemma find_idx_map: "find_idx P (map f xs) = find_idx (P \<circ> f) xs"
  by (induction xs) auto

lemma find_idx_cong: "(\<And>x. x \<in> set xs \<Longrightarrow> P x = Q x) \<Longrightarrow> find_idx P xs = find_idx Q xs"
  by (induction xs) auto

lemma find_last_idx_None_iff [go_slice]: "find_last_idx P xs = None \<longleftrightarrow> (\<forall>x \<in> set xs. \<not> P x)"
  by (induction xs) (auto split: option.splits)

lemma find_last_idx_SomeD:
  "find_last_idx P xs = Some i \<Longrightarrow> i < length xs \<and> P (xs ! i)"
  by (induction xs arbitrary: i) (auto split: option.splits if_splits)

text \<open>On a slice with one match the two searches agree.\<close>

lemma find_last_idx_distinct:
  "distinct (map f xs) \<Longrightarrow> find_last_idx (\<lambda>x. f x = k) xs = find_idx (\<lambda>x. f x = k) xs"
proof (induction xs)
  case (Cons x xs)
  then have tail: "find_last_idx (\<lambda>x. f x = k) xs = find_idx (\<lambda>x. f x = k) xs"
    by simp
  show ?case
  proof (cases "f x = k")
    case True
    with Cons.prems have "\<forall>y \<in> set xs. f y \<noteq> k"
      by (metis distinct.simps(2) image_eqI list.map(2) set_map)
    then have "find_idx (\<lambda>x. f x = k) xs = None"
      by (simp add: find_idx_None_iff)
    with True tail show ?thesis by simp
  next
    case False
    with tail show ?thesis by (simp split: option.split)
  qed
qed simp

section \<open>Removing and replacing by index\<close>

lemma length_remove_at [simp]: "i < length xs \<Longrightarrow> length (remove_at i xs) = length xs - 1"
  by (simp add: remove_at_def)

lemma set_remove_at_subset: "set (remove_at i xs) \<subseteq> set xs"
  unfolding remove_at_def by (auto dest: in_set_takeD in_set_dropD)

lemma in_set_remove_atD [dest]: "x \<in> set (remove_at i xs) \<Longrightarrow> x \<in> set xs"
  using set_remove_at_subset by fastforce

lemma map_remove_at: "map f (remove_at i xs) = remove_at i (map f xs)"
  by (simp add: remove_at_def take_map drop_map)

lemma distinct_remove_at: "distinct xs \<Longrightarrow> distinct (remove_at i xs)"
  unfolding remove_at_def
  by (simp add: set_take_disj_set_drop_if_distinct)

lemma remove_at_notin: "distinct xs \<Longrightarrow> i < length xs \<Longrightarrow> xs ! i \<notin> set (remove_at i xs)"
proof -
  assume "distinct xs" "i < length xs"
  moreover from \<open>i < length xs\<close> have "xs = take i xs @ xs ! i # drop (Suc i) xs"
    by (simp add: id_take_nth_drop)
  ultimately show ?thesis
    unfolding remove_at_def by (metis distinct.simps(2) distinct_append not_distinct_conv_prefix
        Un_iff set_append in_set_conv_decomp_first)
qed

lemma remove_at_append_last [simp]: "remove_at (length xs) (xs @ [x]) = xs"
  by (simp add: remove_at_def)

lemma remove_at_append: "i < length xs \<Longrightarrow> remove_at i (xs @ ys) = remove_at i xs @ ys"
  by (simp add: remove_at_def)

lemma list_update_same_key: "f y = f (xs ! i) \<Longrightarrow> map f (xs[i := y]) = map f xs"
  by (cases "i < length xs") (metis list_update_id map_update nth_map, simp add: list_update_beyond)

lemma find_idx_key: "find_idx (\<lambda>x. f x = k) xs = find_idx (\<lambda>m. m = k) (map f xs)"
  by (simp add: find_idx_map comp_def)

lemma find_idx_same_key:
  "f y = f (xs ! i) \<Longrightarrow> find_idx (\<lambda>x. f x = k) (xs[i := y]) = find_idx (\<lambda>x. f x = k) xs"
  by (simp add: find_idx_key [of f] list_update_same_key)

section \<open>Loops that stop at the first error\<close>

text \<open>
  A Go loop whose body returns an \<open>error\<close>: the state is threaded through the iterations, and at the
  first error the loop returns it together with the state reached so far, as the mutations the body
  made stay made.
\<close>

fun each :: "('a \<Rightarrow> 's \<Rightarrow> 's \<times> 'e option) \<Rightarrow> 'a list \<Rightarrow> 's \<Rightarrow> 's \<times> 'e option" where
  "each f [] s = (s, None)"
| "each f (x # xs) s =
     (case f x s of (s', Some e) \<Rightarrow> (s', Some e) | (s', None) \<Rightarrow> each f xs s')"

lemma each_invariant [go_loop]:
  assumes "\<And>x s. x \<in> set xs \<Longrightarrow> I s \<Longrightarrow> I (fst (f x s))"
  shows "I s \<Longrightarrow> I (fst (each f xs s))"
  using assms
proof (induction xs arbitrary: s)
  case (Cons x xs)
  then have "I (fst (f x s))" by simp
  with Cons show ?case by (cases "f x s") (auto split: option.splits)
qed simp

lemma each_append:
  "each f (xs @ ys) s =
     (case each f xs s of (s', Some e) \<Rightarrow> (s', Some e) | (s', None) \<Rightarrow> each f ys s')"
  by (induction xs arbitrary: s) (auto split: prod.splits option.splits)

lemma each_cong [fundef_cong]:
  "xs = ys \<Longrightarrow> s = t \<Longrightarrow> (\<And>x u. x \<in> set ys \<Longrightarrow> f x u = g x u) \<Longrightarrow> each f xs s = each g ys t"
proof (induction xs arbitrary: ys s t)
  case (Cons x xs)
  then obtain zs where ys: "ys = x # zs" "zs = xs" by auto
  from Cons.prems ys have head: "f x t = g x t" by simp
  have "each f xs u = each g zs u" for u
    using Cons.IH [OF ys(2) [symmetric] refl] Cons.prems(3) ys by simp
  with head show ?case
    by (simp add: ys(1) Cons.prems(2) split: prod.split option.split)
qed simp

text \<open>An outcome without an error, for examples whose state cannot be compared by computation.\<close>

lemma ran_ok: "snd r = None \<Longrightarrow> r = (fst r, None)"
  by (simp add: prod_eq_iff)

lemma ran_err: "snd r = Some e \<Longrightarrow> r = (fst r, Some e)"
  by (simp add: prod_eq_iff)

section \<open>Collections searched by name\<close>

text \<open>
  The catalog keeps its schemas, tables and types in slices and finds them by a linear search on
  their names.  \<open>name_index\<close> is the contract of such a collection: the search returns the first
  position with the name, adding appends and deleting removes one position.  The lemmas proved in
  the locale are what the operations of the catalog rely on.
\<close>

locale name_index =
  fixes names :: "'s \<Rightarrow> 'k list"
    and lookup :: "'s \<Rightarrow> 'k \<Rightarrow> nat option"
    and add :: "'a \<Rightarrow> 's \<Rightarrow> 's"
    and del :: "nat \<Rightarrow> 's \<Rightarrow> 's"
    and name_of :: "'a \<Rightarrow> 'k"
  assumes lookup_law: "lookup s n = find_idx (\<lambda>m. m = n) (names s)"
    and names_add: "names (add x s) = names s @ [name_of x]"
    and names_del: "names (del i s) = remove_at i (names s)"
begin

lemma lookup_None_iff: "lookup s n = None \<longleftrightarrow> n \<notin> set (names s)"
  by (auto simp: lookup_law find_idx_None_iff)

lemma lookup_SomeD: "lookup s n = Some i \<Longrightarrow> i < length (names s) \<and> names s ! i = n"
  by (auto simp: lookup_law dest: find_idx_SomeD)

lemma lookup_add_new:
  "lookup s (name_of x) = None \<Longrightarrow> lookup (add x s) (name_of x) = Some (length (names s))"
  by (simp add: lookup_law names_add find_idx_append)

lemma lookup_add_old: "lookup s n = Some i \<Longrightarrow> lookup (add x s) n = Some i"
  by (simp add: lookup_law names_add find_idx_append)

lemma lookup_add_other: "n \<noteq> name_of x \<Longrightarrow> lookup (add x s) n = lookup s n"
  by (simp add: lookup_law names_add find_idx_append split: option.split)

lemma distinct_add:
  "distinct (names s) \<Longrightarrow> lookup s (name_of x) = None \<Longrightarrow> distinct (names (add x s))"
  by (simp add: names_add lookup_None_iff)

lemma distinct_del: "distinct (names s) \<Longrightarrow> distinct (names (del i s))"
  by (simp add: names_del distinct_remove_at)

lemma lookup_del_gone:
  "distinct (names s) \<Longrightarrow> lookup s n = Some i \<Longrightarrow> lookup (del i s) n = None"
  using lookup_SomeD [of s n i] remove_at_notin [of "names s" i]
  by (auto simp: lookup_None_iff names_del)

lemma names_add_del: "names (del (length (names s)) (add x s)) = names s"
  by (simp add: names_del names_add)

end

end
