(* ===== verification/Sqlerr.thy ===== *)
theory Sqlerr
  imports Prelude
begin

text \<open>
  The errors of \<open>internal/sql/sqlerr/errors.go\<close>.  A Go \<open>error\<close> returned by the modelled code is
  either a \<open>*sqlerr.Error\<close>, an error made by \<open>fmt.Errorf\<close> or \<open>errors.New\<close>, or the code does not
  return at all but panics (a nil dereference, an index out of range): each is a constructor of
  \<open>error\<close>, so that every early return and every panic of the source is a value.
\<close>

text \<open>The sentinels \<open>Exists\<close>, \<open>NotFound\<close> and \<open>NotUnique\<close>.\<close>

datatype sentinel = Exists | NotFound | NotUnique

record sqlerr =
  Err :: "sentinel option"
  Code :: string
  Message :: string
  Location :: nat
  Line :: nat
  Column :: nat

datatype error =
    SqlErr sqlerr
  | PlainErr string
  | Panic string

definition sentinel_text :: "sentinel \<Rightarrow> string" where
  "sentinel_text k =
     (case k of Exists \<Rightarrow> ''already exists'' | NotFound \<Rightarrow> ''does not exist''
      | NotUnique \<Rightarrow> ''is not unique'')"

text \<open>\<open>(*Error).Error\<close>.\<close>

definition Error_Error :: "sqlerr \<Rightarrow> string" where
  "Error_Error e =
     (case Err e of Some k \<Rightarrow> Message e @ '' '' @ sentinel_text k | None \<Rightarrow> Message e)"

definition mk_err :: "sentinel \<Rightarrow> string \<Rightarrow> string \<Rightarrow> sqlerr" where
  "mk_err k code msg = \<lparr>Err = Some k, Code = code, Message = msg, Location = 0, Line = 0, Column = 0\<rparr>"

definition ColumnExists :: "string \<Rightarrow> string \<Rightarrow> sqlerr" where
  "ColumnExists rel col =
     mk_err Exists ''42701'' (''column '' @ Quote col @ '' of relation '' @ Quote rel)"

definition ColumnNotFound :: "string \<Rightarrow> string \<Rightarrow> sqlerr" where
  "ColumnNotFound rel col =
     mk_err NotFound ''42703'' (''column '' @ Quote col @ '' of relation '' @ Quote rel)"

definition RelationExists :: "string \<Rightarrow> sqlerr" where
  "RelationExists rel = mk_err Exists ''42P07'' (''relation '' @ Quote rel)"

definition RelationNotFound :: "string \<Rightarrow> sqlerr" where
  "RelationNotFound rel = mk_err NotFound ''42P01'' (''relation '' @ Quote rel)"

definition SchemaExists :: "string \<Rightarrow> sqlerr" where
  "SchemaExists name = mk_err Exists ''42P06'' (''schema '' @ Quote name)"

definition SchemaNotFound :: "string \<Rightarrow> sqlerr" where
  "SchemaNotFound sch = mk_err NotFound ''3F000'' (''schema '' @ Quote sch)"

definition TypeExists :: "string \<Rightarrow> sqlerr" where
  "TypeExists typ = mk_err Exists ''42710'' (''type '' @ Quote typ)"

definition TypeNotFound :: "string \<Rightarrow> sqlerr" where
  "TypeNotFound typ = mk_err NotFound ''42704'' (''type '' @ Quote typ)"

definition FunctionNotFound :: "string \<Rightarrow> sqlerr" where
  "FunctionNotFound fn = mk_err NotFound ''42704'' (''function '' @ Quote fn)"

definition FunctionNotUnique :: "string \<Rightarrow> sqlerr" where
  "FunctionNotUnique fn = mk_err NotUnique [] (''function name '' @ Quote fn)"

text \<open>\<open>errors.Is(err, sqlerr.NotFound)\<close> unwraps a \<open>*sqlerr.Error\<close> to its sentinel.\<close>

fun is_not_found :: "error \<Rightarrow> bool" where
  "is_not_found (SqlErr e) = (Err e = Some NotFound)"
| "is_not_found (PlainErr _) = False"
| "is_not_found (Panic _) = False"

lemmas sqlerr_defs =
  ColumnExists_def ColumnNotFound_def RelationExists_def RelationNotFound_def SchemaExists_def
  SchemaNotFound_def TypeExists_def TypeNotFound_def FunctionNotFound_def FunctionNotUnique_def

lemma Err_mk_err [simp]: "Err (mk_err k c m) = Some k"
  by (simp add: mk_err_def)

lemma Err_simps [simp]:
  "Err (ColumnNotFound r c) = Some NotFound" "Err (RelationNotFound r) = Some NotFound"
  "Err (SchemaNotFound r) = Some NotFound" "Err (TypeNotFound r) = Some NotFound"
  "Err (FunctionNotFound r) = Some NotFound" "Err (FunctionNotUnique r) = Some NotUnique"
  "Err (RelationExists r) = Some Exists" "Err (TypeExists r) = Some Exists"
  "Err (SchemaExists r) = Some Exists" "Err (ColumnExists r c) = Some Exists"
  by (simp_all add: sqlerr_defs)

text \<open>
  \<open>checkMissing\<close> of \<open>internal/sql/catalog/table.go\<close>: with \<open>IF EXISTS\<close> an object that does not exist
  is not an error.  \<open>None\<close> is Go's nil error.
\<close>

definition checkMissing :: "error \<Rightarrow> bool \<Rightarrow> error option" where
  "checkMissing err missingOK =
     (case err of SqlErr serr \<Rightarrow> if Err serr = Some NotFound \<and> missingOK then None else Some err
      | _ \<Rightarrow> Some err)"

lemma checkMissing_eq:
  "checkMissing err ok = (if is_not_found err \<and> ok then None else Some err)"
  by (cases err) (auto simp: checkMissing_def)

end
