(* ===== verification/Ast.thy ===== *)
theory Ast
  imports Prelude
begin

text \<open>
  The nodes of \<open>internal/sql/ast\<close> that the schema statements carry to the catalog.  A Go pointer field
  the code checks for nil, or dereferences without a check, is an \<open>option\<close>; a pointer the parsers
  always set is the value it points at.  Pointers that are only compared (the \<open>*List\<close> fields of a
  \<open>TypeName\<close>) are addresses, so that struct equality on a \<open>TypeName\<close> compares them as Go does.
\<close>

record tableName =
  tn_Catalog :: string
  tn_Schema :: string
  tn_Name :: string

record typeName =
  ty_Catalog :: string
  ty_Schema :: string
  ty_Name :: string
  ty_Spelling :: string
  ty_Canonical :: string
  ty_Names :: "nat option"
  ty_TypeOid :: nat
  ty_Setof :: bool
  ty_PctType :: bool
  ty_Typmods :: "nat option"
  ty_Typemod :: int
  ty_ArrayBounds :: "nat option"
  ty_Location :: nat

record funcName =
  fn_Catalog :: string
  fn_Schema :: string
  fn_Name :: string

datatype funcParamMode =
    FuncParamIn | FuncParamOut | FuncParamInOut | FuncParamVariadic | FuncParamTable
  | FuncParamDefault

text \<open>The composite literals \<open>ast.TableName{Name: n}\<close> and \<open>ast.TypeName{Name: n}\<close>: every other
  field has its zero value.\<close>

definition named_table :: "string \<Rightarrow> tableName" where
  "named_table n = \<lparr>tn_Catalog = [], tn_Schema = [], tn_Name = n\<rparr>"

definition named_type :: "string \<Rightarrow> typeName" where
  "named_type n =
     \<lparr>ty_Catalog = [], ty_Schema = [], ty_Name = n, ty_Spelling = [], ty_Canonical = [],
      ty_Names = None, ty_TypeOid = 0, ty_Setof = False, ty_PctType = False, ty_Typmods = None,
      ty_Typemod = 0, ty_ArrayBounds = None, ty_Location = 0\<rparr>"

lemma named_table_sel [simp]:
  "tn_Name (named_table n) = n" "tn_Schema (named_table n) = []"
  by (simp_all add: named_table_def)

lemma named_type_sel [simp]:
  "ty_Name (named_type n) = n" "ty_Schema (named_type n) = []"
  by (simp_all add: named_type_def)

text \<open>Nodes of a value list: the code keeps the \<open>*ast.String\<close> items and skips the rest.\<close>

datatype valNode = StringNode string | OtherNode

record columnDef =
  cd_Colname :: string
  cd_TypeName :: typeName
  cd_IsNotNull :: bool
  cd_IsUnsigned :: bool
  cd_IsArray :: bool
  cd_ArrayDims :: int
  cd_Vals :: "valNode list option"
  cd_Length :: "int option"
  cd_IsHidden :: bool
  cd_Comment :: string

datatype alterTableType =
    AT_AddColumn | AT_AlterColumnType | AT_DropColumn | AT_DropNotNull | AT_SetNotNull
  | AT_Other

record alterTableCmd =
  cmd_Subtype :: alterTableType
  cmd_Name :: "string option"
  cmd_Def :: "columnDef option"
  cmd_MissingOk :: bool

text \<open>An item of \<open>AlterTableStmt.Cmds\<close> that is not an \<open>*ast.AlterTableCmd\<close> is skipped.\<close>

datatype alterItem = AlterTableCmd alterTableCmd | OtherItem

record funcParam =
  fp_Name :: "string option"
  fp_Type :: typeName
  fp_HasDefExpr :: bool
  fp_Mode :: funcParamMode

record funcSpec =
  fs_Name :: funcName
  fs_Args :: "typeName list"
  fs_HasArgs :: bool

record rangeVar =
  rv_Catalogname :: "string option"
  rv_Schemaname :: "string option"
  rv_Relname :: "string option"

text \<open>
  The statements \<open>Catalog.Update\<close> dispatches on.  \<open>'q\<close> is the type of the query nodes of
  \<open>CREATE TABLE AS\<close> and \<open>CREATE VIEW\<close>, which only the compiler interprets.  \<open>IgnoredStmt\<close> stands for
  every node type \<open>Update\<close> has no case for.
\<close>

record createTableStmt =
  ct_IfNotExists :: bool
  ct_Name :: tableName
  ct_Cols :: "columnDef list"
  ct_ReferTable :: "tableName option"
  ct_Comment :: string
  ct_Inherits :: "tableName list"
  ct_Using :: string

record alterTypeAddValueStmt =
  av_Type :: typeName
  av_NewValue :: "string option"
  av_NewValHasNeighbor :: bool
  av_NewValNeighbor :: "string option"
  av_NewValIsAfter :: bool
  av_SkipIfNewValExists :: bool

datatype 'q stmt =
    AlterTableStmt tableName "alterItem list" bool
  | AlterTableSetSchemaStmt tableName "string option" bool
  | AlterTypeAddValueStmt alterTypeAddValueStmt
  | AlterTypeRenameValueStmt typeName "string option" "string option"
  | AlterTypeSetSchemaStmt typeName "string option"
  | CommentOnColumnStmt tableName string "string option"
  | CommentOnSchemaStmt string "string option"
  | CommentOnTableStmt tableName "string option"
  | CommentOnTypeStmt typeName "string option"
  | CommentOnViewStmt tableName "string option"
  | CompositeTypeStmt typeName
  | CreateEnumStmt typeName "valNode list"
  | CreateExtensionStmt "string option"
  | CreateFunctionStmt funcName "funcParam list" "typeName option" bool
  | CreateSchemaStmt "string option" bool
  | CreateTableStmt createTableStmt
  | CreateTableAsStmt 'q rangeVar
  | ViewStmt 'q rangeVar bool
  | DropFunctionStmt "funcSpec list" bool
  | DropSchemaStmt "string list" bool
  | DropTableStmt "tableName list" bool
  | DropTypeStmt "typeName list" bool
  | RenameColumnStmt tableName string "string option" bool
  | RenameTableStmt tableName "string option" bool
  | RenameTypeStmt typeName "string option"
  | ListStmt "'q stmt list"
  | IgnoredStmt

text \<open>\<open>sameType\<close> of \<open>internal/sql/catalog/types.go\<close>: \<open>pg_catalog\<close> is searched by default, so it
  compares as no schema.\<close>

definition type_schema :: "typeName \<Rightarrow> string" where
  "type_schema a = (if ty_Schema a = ''pg_catalog'' then [] else ty_Schema a)"

definition sameType :: "typeName \<Rightarrow> typeName \<Rightarrow> bool" where
  "sameType a b =
     (if ty_Catalog a \<noteq> ty_Catalog b then False
      else if type_schema a \<noteq> type_schema b then False
      else if ty_Name a \<noteq> ty_Name b then False
      else True)"

lemma sameType_refl [simp]: "sameType a a"
  by (simp add: sameType_def)

lemma sameType_sym: "sameType a b \<longleftrightarrow> sameType b a"
  by (auto simp: sameType_def)

lemma sameType_trans: "sameType a b \<Longrightarrow> sameType b d \<Longrightarrow> sameType a d"
  by (auto simp: sameType_def split: if_splits)

text \<open>\<open>stringSlice\<close> of \<open>internal/sql/catalog/types.go\<close>.\<close>

fun stringSlice :: "valNode list \<Rightarrow> string list" where
  "stringSlice [] = []"
| "stringSlice (StringNode s # xs) = s # stringSlice xs"
| "stringSlice (OtherNode # xs) = stringSlice xs"

end
