(* ===== verification/Catalog_State.thy ===== *)
theory Catalog_State
  imports Sqlerr Ast
begin

text \<open>
  The state of \<open>internal/sql/catalog\<close>: the types of \<open>catalog.go\<close>, \<open>schema.go\<close>, \<open>table.go\<close>,
  \<open>types.go\<close> and \<open>func.go\<close>, the lookups the operations start from, and the well-formedness
  invariant of a catalog.

  Go keeps the columns of a table as pointers, and \<open>CREATE TABLE ... INHERITS\<close> puts the very pointers
  of the parent into the child.  Columns therefore live in an explicit store: a \<open>*Column\<close> is an index
  into \<open>c_Heap\<close>, which only grows.  A \<open>*Schema\<close> is its index in \<open>c_Schemas\<close> and a \<open>*Table\<close> its index
  in the schema's \<open>Tables\<close>: no operation holds one of these across a removal from the slice it is in,
  and no table or schema is reachable along two paths.
\<close>

section \<open>Data\<close>

record column =
  col_Name :: string
  col_Type :: typeName
  col_IsNotNull :: bool
  col_IsUnsigned :: bool
  col_IsArray :: bool
  col_ArrayDims :: int
  col_Comment :: string
  col_Length :: "int option"
  col_linkedType :: bool

record table =
  tbl_Rel :: tableName
  tbl_Columns :: "nat list"
  tbl_Comment :: string

datatype ctype =
    Enum (enum_Name: string) (enum_Vals: "string list") (enum_Comment: string)
  | CompositeType string string

record argument =
  arg_Name :: string
  arg_Type :: typeName
  arg_HasDefault :: bool
  arg_Mode :: funcParamMode

record func =
  f_Name :: string
  f_Args :: "argument list"
  f_ReturnType :: "typeName option"
  f_Comment :: string
  f_Desc :: string
  f_ReturnTypeNullable :: bool

record schema =
  s_Name :: string
  s_Tables :: "table list"
  s_Types :: "ctype list"
  s_Funcs :: "func list"
  s_Comment :: string

text \<open>
  \<open>c_LoadExtension\<close> is the engine's hook, \<open>None\<close> when it is nil; \<open>c_Extensions\<close> is the key set of the
  map; \<open>c_Heap\<close> is the store of columns.
\<close>

record catalog =
  c_Comment :: string
  c_DefaultSchema :: string
  c_Name :: string
  c_Schemas :: "schema list"
  c_SearchPath :: "string list"
  c_LoadExtension :: "(string \<Rightarrow> schema option) option"
  c_Extensions :: "string set"
  c_Heap :: "column list"

type_synonym outcome = "catalog \<times> error option"

definition empty_schema :: "string \<Rightarrow> schema" where
  "empty_schema n = \<lparr>s_Name = n, s_Tables = [], s_Types = [], s_Funcs = [], s_Comment = []\<rparr>"

text \<open>\<open>New\<close>.\<close>

definition New :: "string \<Rightarrow> catalog" where
  "New defaultSchema =
     \<lparr>c_Comment = [], c_DefaultSchema = defaultSchema, c_Name = [],
      c_Schemas = (if defaultSchema \<noteq> [] then [empty_schema defaultSchema] else []),
      c_SearchPath = [], c_LoadExtension = None, c_Extensions = {}, c_Heap = []\<rparr>"

abbreviation table_name :: "table \<Rightarrow> string" where
  "table_name t \<equiv> tn_Name (tbl_Rel t)"

fun type_name :: "ctype \<Rightarrow> string" where
  "type_name (Enum n _ _) = n"
| "type_name (CompositeType n _) = n"

text \<open>\<open>SetComment\<close> of \<open>Enum\<close> and of \<open>CompositeType\<close>.\<close>

fun SetComment :: "string \<Rightarrow> ctype \<Rightarrow> ctype" where
  "SetComment c (Enum n vs _) = Enum n vs c"
| "SetComment c (CompositeType n _) = CompositeType n c"

lemma type_name_SetComment [simp]: "type_name (SetComment c t) = type_name t"
  by (cases t) simp_all

section \<open>Writing through pointers\<close>

definition upd_schema :: "nat \<Rightarrow> (schema \<Rightarrow> schema) \<Rightarrow> catalog \<Rightarrow> catalog" where
  "upd_schema i f c = c\<lparr>c_Schemas := (c_Schemas c)[i := f (c_Schemas c ! i)]\<rparr>"

definition upd_table :: "nat \<Rightarrow> nat \<Rightarrow> (table \<Rightarrow> table) \<Rightarrow> catalog \<Rightarrow> catalog" where
  "upd_table i j f = upd_schema i (\<lambda>s. s\<lparr>s_Tables := (s_Tables s)[j := f (s_Tables s ! j)]\<rparr>)"

definition upd_col :: "nat \<Rightarrow> (column \<Rightarrow> column) \<Rightarrow> catalog \<Rightarrow> catalog" where
  "upd_col a f c = c\<lparr>c_Heap := (c_Heap c)[a := f (c_Heap c ! a)]\<rparr>"

definition alloc_cols :: "column list \<Rightarrow> catalog \<Rightarrow> catalog" where
  "alloc_cols cols c = c\<lparr>c_Heap := c_Heap c @ cols\<rparr>"

definition fresh_addrs :: "catalog \<Rightarrow> column list \<Rightarrow> nat list" where
  "fresh_addrs c cols = [length (c_Heap c) ..< length (c_Heap c) + length cols]"

definition the_schema :: "catalog \<Rightarrow> nat \<Rightarrow> schema" where
  "the_schema c i = c_Schemas c ! i"

definition the_table :: "catalog \<Rightarrow> nat \<Rightarrow> nat \<Rightarrow> table" where
  "the_table c i j = s_Tables (c_Schemas c ! i) ! j"

text \<open>The columns of a table as values: what \<open>table.Columns\<close> holds behind its pointers.\<close>

definition cols_of :: "catalog \<Rightarrow> table \<Rightarrow> column list" where
  "cols_of c t = map (\<lambda>a. c_Heap c ! a) (tbl_Columns t)"

section \<open>Lookups\<close>

text \<open>A reference without a schema means the default schema.\<close>

definition ns_of :: "catalog \<Rightarrow> string \<Rightarrow> string" where
  "ns_of c ns = (if ns = [] then c_DefaultSchema c else ns)"

definition getSchema :: "catalog \<Rightarrow> string \<Rightarrow> error + nat" where
  "getSchema c name =
     (case find_idx (\<lambda>s. s_Name s = name) (c_Schemas c) of
        Some i \<Rightarrow> Inr i | None \<Rightarrow> Inl (SqlErr (SchemaNotFound name)))"

definition schema_getTable :: "schema \<Rightarrow> tableName \<Rightarrow> error + nat" where
  "schema_getTable s rel =
     (case find_idx (\<lambda>t. table_name t = tn_Name rel) (s_Tables s) of
        Some i \<Rightarrow> Inr i | None \<Rightarrow> Inl (SqlErr (RelationNotFound (tn_Name rel))))"

definition schema_getType :: "schema \<Rightarrow> typeName \<Rightarrow> error + nat" where
  "schema_getType s rel =
     (case find_idx (\<lambda>t. type_name t = ty_Name rel) (s_Types s) of
        Some i \<Rightarrow> Inr i | None \<Rightarrow> Inl (SqlErr (TypeNotFound (ty_Name rel))))"

definition getTable :: "catalog \<Rightarrow> tableName \<Rightarrow> error + (nat \<times> nat)" where
  "getTable c tableName =
     (case find_idx (\<lambda>s. s_Name s = ns_of c (tn_Schema tableName)) (c_Schemas c) of
        None \<Rightarrow> Inl (SqlErr (SchemaNotFound (ns_of c (tn_Schema tableName))))
      | Some i \<Rightarrow>
          (case schema_getTable (c_Schemas c ! i) tableName of
             Inl e \<Rightarrow> Inl e | Inr j \<Rightarrow> Inr (i, j)))"

definition getType :: "catalog \<Rightarrow> typeName \<Rightarrow> error + (nat \<times> nat)" where
  "getType c rel =
     (case getSchema c (ns_of c (ty_Schema rel)) of
        Inl e \<Rightarrow> Inl e
      | Inr i \<Rightarrow>
          (case schema_getType (c_Schemas c ! i) rel of Inl e \<Rightarrow> Inl e | Inr j \<Rightarrow> Inr (i, j)))"

text \<open>\<open>GetTable\<close> of \<open>public.go\<close>: the table found, by value.\<close>

definition GetTable :: "catalog \<Rightarrow> tableName \<Rightarrow> error + table" where
  "GetTable c rel =
     (case getTable c rel of Inl e \<Rightarrow> Inl e | Inr (i, j) \<Rightarrow> Inr (the_table c i j))"

lemma getSchema_Inr:
  "getSchema c n = Inr i \<Longrightarrow> i < length (c_Schemas c) \<and> s_Name (c_Schemas c ! i) = n"
  by (auto simp: getSchema_def split: option.splits dest: find_idx_SomeD)

lemma getSchema_Inl: "getSchema c n = Inl e \<Longrightarrow> e = SqlErr (SchemaNotFound n)"
  by (auto simp: getSchema_def split: option.splits)

lemma schema_getTable_Inr:
  "schema_getTable s rel = Inr j \<Longrightarrow>
     j < length (s_Tables s) \<and> table_name (s_Tables s ! j) = tn_Name rel"
  by (auto simp: schema_getTable_def split: option.splits dest: find_idx_SomeD)

lemma schema_getTable_Inl:
  "schema_getTable s rel = Inl e \<Longrightarrow>
     e = SqlErr (RelationNotFound (tn_Name rel)) \<and> tn_Name rel \<notin> table_name ` set (s_Tables s)"
  by (auto simp: schema_getTable_def find_idx_None_iff split: option.splits)

lemma schema_getType_Inr:
  "schema_getType s rel = Inr j \<Longrightarrow>
     j < length (s_Types s) \<and> type_name (s_Types s ! j) = ty_Name rel"
  by (auto simp: schema_getType_def split: option.splits dest: find_idx_SomeD)

lemma schema_getType_Inl:
  "schema_getType s rel = Inl e \<Longrightarrow>
     e = SqlErr (TypeNotFound (ty_Name rel)) \<and> ty_Name rel \<notin> type_name ` set (s_Types s)"
  by (auto simp: schema_getType_def find_idx_None_iff split: option.splits)

lemma getTable_via_schema:
  "getTable c rel =
     (case getSchema c (ns_of c (tn_Schema rel)) of
        Inl e \<Rightarrow> Inl e
      | Inr i \<Rightarrow> (case schema_getTable (c_Schemas c ! i) rel of Inl e \<Rightarrow> Inl e | Inr j \<Rightarrow> Inr (i, j)))"
  by (simp add: getTable_def getSchema_def split: option.split)

lemma getTable_Inr:
  "getTable c rel = Inr (i, j) \<Longrightarrow>
     i < length (c_Schemas c) \<and> s_Name (c_Schemas c ! i) = ns_of c (tn_Schema rel) \<and>
     j < length (s_Tables (c_Schemas c ! i)) \<and>
     table_name (s_Tables (c_Schemas c ! i) ! j) = tn_Name rel"
  by (auto simp: getTable_via_schema split: sum.splits
      dest: getSchema_Inr schema_getTable_Inr)

lemma getTable_Inl: "getTable c rel = Inl e \<Longrightarrow> is_not_found e"
  by (fastforce simp: getTable_via_schema split: sum.splits
      dest: getSchema_Inl schema_getTable_Inl)

section \<open>The slices of the catalog as collections searched by name\<close>

definition table_idx :: "schema \<Rightarrow> string \<Rightarrow> nat option" where
  "table_idx s n = find_idx (\<lambda>t. table_name t = n) (s_Tables s)"

definition type_idx :: "schema \<Rightarrow> string \<Rightarrow> nat option" where
  "type_idx s n = find_idx (\<lambda>t. type_name t = n) (s_Types s)"

definition schema_idx :: "catalog \<Rightarrow> string \<Rightarrow> nat option" where
  "schema_idx c n = find_idx (\<lambda>s. s_Name s = n) (c_Schemas c)"

definition add_table :: "table \<Rightarrow> schema \<Rightarrow> schema" where
  "add_table t s = s\<lparr>s_Tables := s_Tables s @ [t]\<rparr>"

definition del_table :: "nat \<Rightarrow> schema \<Rightarrow> schema" where
  "del_table i s = s\<lparr>s_Tables := remove_at i (s_Tables s)\<rparr>"

definition add_type :: "ctype \<Rightarrow> schema \<Rightarrow> schema" where
  "add_type t s = s\<lparr>s_Types := s_Types s @ [t]\<rparr>"

definition del_type :: "nat \<Rightarrow> schema \<Rightarrow> schema" where
  "del_type i s = s\<lparr>s_Types := remove_at i (s_Types s)\<rparr>"

definition add_schema :: "schema \<Rightarrow> catalog \<Rightarrow> catalog" where
  "add_schema s c = c\<lparr>c_Schemas := c_Schemas c @ [s]\<rparr>"

definition del_schema :: "nat \<Rightarrow> catalog \<Rightarrow> catalog" where
  "del_schema i c = c\<lparr>c_Schemas := remove_at i (c_Schemas c)\<rparr>"

interpretation tables: name_index "\<lambda>s. map table_name (s_Tables s)" table_idx add_table del_table
  table_name
  by unfold_locales
    (simp_all add: table_idx_def add_table_def del_table_def find_idx_map comp_def map_remove_at)

interpretation types: name_index "\<lambda>s. map type_name (s_Types s)" type_idx add_type del_type
  type_name
  by unfold_locales
    (simp_all add: type_idx_def add_type_def del_type_def find_idx_map comp_def map_remove_at)

interpretation schemas: name_index "\<lambda>c. map s_Name (c_Schemas c)" schema_idx add_schema del_schema
  s_Name
  by unfold_locales
    (simp_all add: schema_idx_def add_schema_def del_schema_def find_idx_map comp_def map_remove_at)

lemma getSchema_idx:
  "getSchema c n =
     (case schema_idx c n of Some i \<Rightarrow> Inr i | None \<Rightarrow> Inl (SqlErr (SchemaNotFound n)))"
  by (simp add: getSchema_def schema_idx_def)

lemma schema_getTable_idx:
  "schema_getTable s rel =
     (case table_idx s (tn_Name rel) of Some i \<Rightarrow> Inr i
      | None \<Rightarrow> Inl (SqlErr (RelationNotFound (tn_Name rel))))"
  by (simp add: schema_getTable_def table_idx_def)

lemma schema_getType_idx:
  "schema_getType s rel =
     (case type_idx s (ty_Name rel) of Some i \<Rightarrow> Inr i
      | None \<Rightarrow> Inl (SqlErr (TypeNotFound (ty_Name rel))))"
  by (simp add: schema_getType_def type_idx_def)

end
