(* ===== verification/Catalog_Inv.thy ===== *)
theory Catalog_Inv
  imports Catalog_State
begin

text \<open>
  The well-formedness invariant of a catalog and the contract every operation on it meets.

  A catalog is well formed when, in each schema, no two tables and no two types have the same name,
  and every column pointer of a table is in the store.  \<open>step_ok\<close> relates the state before and after
  a mutation: the invariant is kept, the configuration fields are untouched and the store only grows.
  \<open>catalog_op\<close> is the contract of a whole operation; what it gives for loops and for sequences of
  statements is proved once in the locale.
\<close>

named_theorems step_intro \<open>the single mutations meet the step contract\<close>

section \<open>The invariant\<close>

definition schema_ok :: "nat \<Rightarrow> schema \<Rightarrow> bool" where
  "schema_ok n s \<longleftrightarrow>
     distinct (map table_name (s_Tables s)) \<and> distinct (map type_name (s_Types s)) \<and>
     (\<forall>t \<in> set (s_Tables s). \<forall>a \<in> set (tbl_Columns t). a < n)"

definition catalog_ok :: "catalog \<Rightarrow> bool" where
  "catalog_ok c \<longleftrightarrow> (\<forall>s \<in> set (c_Schemas c). schema_ok (length (c_Heap c)) s)"

definition config_of :: "catalog \<Rightarrow>
    string \<times> string \<times> string \<times> string list \<times> (string \<Rightarrow> schema option) option" where
  "config_of c =
     (c_Comment c, c_DefaultSchema c, c_Name c, c_SearchPath c, c_LoadExtension c)"

definition step_ok :: "catalog \<Rightarrow> catalog \<Rightarrow> bool" where
  "step_ok c c' \<longleftrightarrow>
     (catalog_ok c \<longrightarrow> catalog_ok c') \<and> config_of c' = config_of c \<and>
     length (c_Heap c) \<le> length (c_Heap c')"

lemma schema_ok_mono: "schema_ok n s \<Longrightarrow> n \<le> m \<Longrightarrow> schema_ok m s"
  by (auto simp: schema_ok_def intro: less_le_trans)

lemma schema_ok_empty [simp]: "schema_ok n (empty_schema m)"
  by (simp add: schema_ok_def empty_schema_def)

lemma catalog_ok_New [simp]: "catalog_ok (New d)"
  by (simp add: catalog_ok_def New_def)

lemma catalog_ok_schema:
  "catalog_ok c \<Longrightarrow> i < length (c_Schemas c) \<Longrightarrow> schema_ok (length (c_Heap c)) (c_Schemas c ! i)"
  by (simp add: catalog_ok_def)

lemma step_ok_refl [simp, intro]: "step_ok c c"
  by (simp add: step_ok_def)

lemma step_ok_trans: "step_ok c d \<Longrightarrow> step_ok d e \<Longrightarrow> step_ok c e"
  by (auto simp: step_ok_def)

section \<open>Single mutations\<close>

lemma heap_upd_schema [simp]: "c_Heap (upd_schema i f c) = c_Heap c"
  by (simp add: upd_schema_def)

lemma heap_upd_table [simp]: "c_Heap (upd_table i j f c) = c_Heap c"
  by (simp add: upd_table_def)

lemma schemas_upd_col [simp]: "c_Schemas (upd_col a f c) = c_Schemas c"
  by (simp add: upd_col_def)

lemma length_heap_upd_col [simp]: "length (c_Heap (upd_col a f c)) = length (c_Heap c)"
  by (simp add: upd_col_def)

lemma schemas_alloc_cols [simp]: "c_Schemas (alloc_cols cs c) = c_Schemas c"
  by (simp add: alloc_cols_def)

lemma heap_alloc_cols [simp]: "c_Heap (alloc_cols cs c) = c_Heap c @ cs"
  by (simp add: alloc_cols_def)

lemma schemas_upd_schema:
  "c_Schemas (upd_schema i f c) = (c_Schemas c)[i := f (c_Schemas c ! i)]"
  by (simp add: upd_schema_def)

lemma config_upd [simp]:
  "config_of (upd_schema i f c) = config_of c" "config_of (upd_table i j g c) = config_of c"
  "config_of (upd_col a h c) = config_of c" "config_of (alloc_cols cs c) = config_of c"
  "config_of (add_schema s c) = config_of c" "config_of (del_schema i c) = config_of c"
  by (simp_all add: config_of_def upd_schema_def upd_table_def upd_col_def alloc_cols_def
      add_schema_def del_schema_def)

lemma step_upd_schema [step_intro]:
  assumes "i < length (c_Schemas c) \<Longrightarrow> schema_ok (length (c_Heap c)) (c_Schemas c ! i)
           \<Longrightarrow> schema_ok (length (c_Heap c)) (f (c_Schemas c ! i))"
  shows "step_ok c (upd_schema i f c)"
proof -
  have "catalog_ok (upd_schema i f c)" if ok: "catalog_ok c"
  proof (cases "i < length (c_Schemas c)")
    case True
    with ok assms catalog_ok_schema [OF ok True] show ?thesis
      by (auto simp: catalog_ok_def schemas_upd_schema dest!: set_update_subset_insert [THEN subsetD])
  next
    case False
    with ok show ?thesis by (simp add: catalog_ok_def schemas_upd_schema list_update_beyond)
  qed
  then show ?thesis by (simp add: step_ok_def)
qed

lemma step_upd_col [step_intro]: "step_ok c (upd_col a f c)"
  by (simp add: step_ok_def catalog_ok_def)

lemma step_alloc_cols [step_intro]: "step_ok c (alloc_cols cs c)"
  by (auto simp: step_ok_def catalog_ok_def intro: schema_ok_mono)

lemma step_add_schema [step_intro]:
  "schema_ok (length (c_Heap c)) s \<Longrightarrow> step_ok c (add_schema s c)"
  by (auto simp: step_ok_def catalog_ok_def add_schema_def config_of_def)

lemma step_del_schema [step_intro]: "step_ok c (del_schema i c)"
  by (auto simp: step_ok_def catalog_ok_def del_schema_def config_of_def)

text \<open>What the mutations of one schema need for its invariant.\<close>

lemma schema_ok_add_table:
  assumes "schema_ok n s" and "schema_getTable s rel = Inl e" and "table_name t = tn_Name rel"
    and "\<forall>a \<in> set (tbl_Columns t). a < n"
  shows "schema_ok n (add_table t s)"
proof -
  from assms(2,3) have "table_idx s (table_name t) = None"
    by (simp add: schema_getTable_idx split: option.splits)
  with assms(1) have "distinct (map table_name (s_Tables (add_table t s)))"
    by (intro tables.distinct_add) (auto simp: schema_ok_def)
  with assms show ?thesis by (auto simp: schema_ok_def add_table_def)
qed

lemma schema_ok_del_table: "schema_ok n s \<Longrightarrow> schema_ok n (del_table i s)"
  using tables.distinct_del [of s i] by (auto simp: schema_ok_def del_table_def)

lemma schema_ok_add_type:
  assumes "schema_ok n s" and "schema_getType s rel = Inl e" and "type_name t = ty_Name rel"
  shows "schema_ok n (add_type t s)"
proof -
  from assms(2,3) have "type_idx s (type_name t) = None"
    by (simp add: schema_getType_idx split: option.splits)
  with assms(1) have "distinct (map type_name (s_Types (add_type t s)))"
    by (intro types.distinct_add) (auto simp: schema_ok_def)
  with assms(1) show ?thesis by (auto simp: schema_ok_def add_type_def)
qed

lemma schema_ok_del_type: "schema_ok n s \<Longrightarrow> schema_ok n (del_type i s)"
  using types.distinct_del [of s i] by (auto simp: schema_ok_def del_type_def)

lemma schema_ok_replace_table:
  assumes "schema_ok n s" and "table_name t = table_name (s_Tables s ! j)"
    and "\<forall>a \<in> set (tbl_Columns t). a < n"
  shows "schema_ok n (s\<lparr>s_Tables := (s_Tables s)[j := t]\<rparr>)"
  using assms list_update_same_key [of table_name t "s_Tables s" j]
  by (auto simp: schema_ok_def dest!: set_update_subset_insert [THEN subsetD])

lemma schema_ok_replace_type:
  assumes "schema_ok n s" and "type_name t = type_name (s_Types s ! j)"
  shows "schema_ok n (s\<lparr>s_Types := (s_Types s)[j := t]\<rparr>)"
  using assms list_update_same_key [of type_name t "s_Types s" j]
  by (auto simp: schema_ok_def)

lemma schema_ok_rename_type:
  assumes "schema_ok n s" and "schema_getType s rel = Inl e" and "type_name t = ty_Name rel"
  shows "schema_ok n (s\<lparr>s_Types := (s_Types s)[j := t]\<rparr>)"
proof -
  from schema_getType_Inl [OF assms(2)] assms(3)
  have "type_name t \<notin> set (map type_name (s_Types s))" by simp
  with assms(1) show ?thesis
    by (auto simp: schema_ok_def map_update intro: distinct_list_update)
qed

lemma schema_ok_frame [simp]:
  "schema_ok n (s\<lparr>s_Comment := m\<rparr>) = schema_ok n s" "schema_ok n (s\<lparr>s_Funcs := fs\<rparr>) = schema_ok n s"
  by (simp_all add: schema_ok_def)

lemma step_upd_table [step_intro]:
  assumes "\<lbrakk>i < length (c_Schemas c); j < length (s_Tables (c_Schemas c ! i))\<rbrakk> \<Longrightarrow>
       table_name (f (the_table c i j)) = table_name (the_table c i j) \<and>
       set (tbl_Columns (f (the_table c i j)))
         \<subseteq> set (tbl_Columns (the_table c i j)) \<union> {..<length (c_Heap c)}"
  shows "step_ok c (upd_table i j f c)"
  unfolding upd_table_def
proof (rule step_upd_schema)
  let ?s = "c_Schemas c ! i"
  assume i: "i < length (c_Schemas c)" and ok: "schema_ok (length (c_Heap c)) ?s"
  show "schema_ok (length (c_Heap c)) (?s\<lparr>s_Tables := (s_Tables ?s)[j := f (s_Tables ?s ! j)]\<rparr>)"
  proof (cases "j < length (s_Tables ?s)")
    case True
    with ok have "\<forall>a \<in> set (tbl_Columns (the_table c i j)). a < length (c_Heap c)"
      by (auto simp: schema_ok_def the_table_def)
    with assms [OF i True] have "\<forall>a \<in> set (tbl_Columns (f (s_Tables ?s ! j))). a < length (c_Heap c)"
      by (auto simp: the_table_def dest!: subsetD)
    with ok assms [OF i True] show ?thesis
      by (intro schema_ok_replace_table) (auto simp: the_table_def)
  next
    case False
    with ok show ?thesis by (simp add: list_update_beyond)
  qed
qed

lemma getTable_upd_table:
  assumes "table_name (f (the_table c i j)) = table_name (the_table c i j)"
    and "k < length (c_Schemas c)"
  shows "schema_getTable (c_Schemas (upd_table i j f c) ! k) rel = schema_getTable (c_Schemas c ! k) rel"
  using assms by (cases "k = i") (simp_all add: upd_table_def schemas_upd_schema schema_getTable_def
      the_table_def find_idx_same_key)

section \<open>What an operation on types leaves alone\<close>

text \<open>The names and the tables of every schema: what an operation on types or functions does not touch.\<close>

definition tables_frame :: "catalog \<Rightarrow> catalog \<Rightarrow> bool" where
  "tables_frame c c' \<longleftrightarrow>
     map (\<lambda>s. (s_Name s, s_Tables s)) (c_Schemas c') = map (\<lambda>s. (s_Name s, s_Tables s)) (c_Schemas c)"

lemma tables_frame_refl [simp, intro]: "tables_frame c c"
  by (simp add: tables_frame_def)

lemma tables_frame_trans: "tables_frame c d \<Longrightarrow> tables_frame d e \<Longrightarrow> tables_frame c e"
  by (simp add: tables_frame_def)

lemma tables_frame_upd_col [simp]: "tables_frame c (upd_col a f d) = tables_frame c d"
  by (simp add: tables_frame_def)

lemma tables_frame_alloc [simp]: "tables_frame c (alloc_cols cs d) = tables_frame c d"
  by (simp add: tables_frame_def)

lemma tables_frame_upd_schema [intro]:
  "(\<And>s. s_Name (f s) = s_Name s \<and> s_Tables (f s) = s_Tables s) \<Longrightarrow> tables_frame c (upd_schema i f c)"
  using list_update_same_key [of "\<lambda>s. (s_Name s, s_Tables s)" "f (c_Schemas c ! i)" "c_Schemas c" i]
  by (simp add: tables_frame_def schemas_upd_schema)

lemma tables_frame_fold:
  "tables_frame c d \<Longrightarrow> (\<And>x e. tables_frame e (f x e)) \<Longrightarrow> tables_frame c (fold f xs d)"
proof (induction xs arbitrary: d)
  case (Cons x xs)
  from tables_frame_trans [OF Cons.prems(1) Cons.prems(2)] show ?case
    using Cons.IH Cons.prems(2) by simp
qed simp

lemma tables_frame_each:
  "(\<And>x e. tables_frame e (fst (f x e))) \<Longrightarrow> tables_frame c (fst (each f xs c))"
  by (rule each_invariant [where I = "tables_frame c"]) (auto intro: tables_frame_trans)

lemma tables_frame_length: "tables_frame c d \<Longrightarrow> length (c_Schemas d) = length (c_Schemas c)"
  unfolding tables_frame_def by (metis length_map)

lemma tables_frame_nth:
  assumes "tables_frame c d" and "i < length (c_Schemas c)"
  shows "s_Tables (c_Schemas d ! i) = s_Tables (c_Schemas c ! i)"
    and "s_Name (c_Schemas d ! i) = s_Name (c_Schemas c ! i)"
proof -
  have "map (\<lambda>s. (s_Name s, s_Tables s)) (c_Schemas d) ! i
      = map (\<lambda>s. (s_Name s, s_Tables s)) (c_Schemas c) ! i"
    using assms(1) by (simp add: tables_frame_def)
  with assms show "s_Tables (c_Schemas d ! i) = s_Tables (c_Schemas c ! i)"
    and "s_Name (c_Schemas d ! i) = s_Name (c_Schemas c ! i)"
    by (simp_all add: tables_frame_length)
qed

lemma tables_frame_getTable:
  "tables_frame c d \<Longrightarrow> i < length (c_Schemas c) \<Longrightarrow>
     schema_getTable (c_Schemas d ! i) rel = schema_getTable (c_Schemas c ! i) rel"
  by (simp add: schema_getTable_def tables_frame_nth)

lemma tables_frame_getSchema:
  assumes "tables_frame c d"
  shows "getSchema d n = getSchema c n"
proof -
  have "map s_Name (c_Schemas d) = map s_Name (c_Schemas c)"
    using arg_cong [OF assms [unfolded tables_frame_def], of "map fst"] by (simp add: comp_def)
  then show ?thesis
    using find_idx_map [of "\<lambda>m. m = n" s_Name "c_Schemas d"]
      find_idx_map [of "\<lambda>m. m = n" s_Name "c_Schemas c"]
    by (simp add: getSchema_def comp_def)
qed

section \<open>The contract of an operation\<close>

locale catalog_op =
  fixes run :: "catalog \<Rightarrow> outcome"
  assumes run_step: "step_ok c (fst (run c))"
begin

lemma keeps_ok: "catalog_ok c \<Longrightarrow> catalog_ok (fst (run c))"
  using run_step by (auto simp: step_ok_def)

lemma keeps_config: "config_of (fst (run c)) = config_of c"
  using run_step by (auto simp: step_ok_def)

lemma heap_grows: "length (c_Heap c) \<le> length (c_Heap (fst (run c)))"
  using run_step by (auto simp: step_ok_def)

end

lemma catalog_op_each:
  assumes "\<And>x. catalog_op (f x)"
  shows "catalog_op (each f xs)"
proof
  fix c
  show "step_ok c (fst (each f xs c))"
    by (rule each_invariant [where I = "step_ok c"])
       (use assms catalog_op.run_step step_ok_trans in blast, simp)
qed

lemma catalog_opI: "(\<And>c. step_ok c (fst (f c))) \<Longrightarrow> catalog_op f"
  by unfold_locales

lemma fold_step:
  "(\<And>x d. step_ok d (f x d)) \<Longrightarrow> step_ok c (fold f xs c)"
  by (induction xs arbitrary: c) (auto intro: step_ok_trans)

lemma fold_step_after:
  "step_ok c d \<Longrightarrow> (\<And>x e. step_ok e (f x e)) \<Longrightarrow> step_ok c (fold f xs d)"
  by (rule step_ok_trans, assumption, rule fold_step) simp

end
