(* ===== verification/Catalog_Types.thy ===== *)
theory Catalog_Types
  imports Catalog_Inv
begin

text \<open>
  The operations of \<open>internal/sql/catalog/types.go\<close>: creating, altering, moving, renaming and dropping
  enums and composite types.
\<close>

section \<open>Operations\<close>

definition createEnum :: "typeName \<Rightarrow> valNode list \<Rightarrow> catalog \<Rightarrow> outcome" where
  "createEnum ty vals c =
     (case getSchema c (ns_of c (ty_Schema ty)) of
        Inl e \<Rightarrow> (c, Some e)
      | Inr i \<Rightarrow>
          (case schema_getTable (the_schema c i) (named_table (ty_Name ty)) of
             Inr _ \<Rightarrow> (c, Some (SqlErr (RelationExists (ty_Name ty))))
           | Inl _ \<Rightarrow>
               (case schema_getType (the_schema c i) ty of
                  Inr _ \<Rightarrow> (c, Some (SqlErr (TypeExists (ty_Name ty))))
                | Inl _ \<Rightarrow>
                    (upd_schema i (add_type (Enum (ty_Name ty) (stringSlice vals) [])) c, None))))"

definition createCompositeType :: "typeName \<Rightarrow> catalog \<Rightarrow> outcome" where
  "createCompositeType ty c =
     (case getSchema c (ns_of c (ty_Schema ty)) of
        Inl e \<Rightarrow> (c, Some e)
      | Inr i \<Rightarrow>
          (case schema_getTable (the_schema c i) (named_table (ty_Name ty)) of
             Inr _ \<Rightarrow> (c, Some (SqlErr (RelationExists (ty_Name ty))))
           | Inl _ \<Rightarrow>
               (case schema_getType (the_schema c i) ty of
                  Inr _ \<Rightarrow> (c, Some (SqlErr (TypeExists (ty_Name ty))))
                | Inl _ \<Rightarrow> (upd_schema i (add_type (CompositeType (ty_Name ty) [])) c, None))))"

text \<open>Writing to the type at position \<open>j\<close> of schema \<open>i\<close>.\<close>

definition upd_type :: "nat \<Rightarrow> nat \<Rightarrow> (ctype \<Rightarrow> ctype) \<Rightarrow> catalog \<Rightarrow> catalog" where
  "upd_type i j f = upd_schema i (\<lambda>s. s\<lparr>s_Types := (s_Types s)[j := f (s_Types s ! j)]\<rparr>)"

text \<open>The loop of \<open>alterTypeRenameValue\<close> over the values, and the errors after it.  The two searches
  do not stop at a match, so each keeps the last index.\<close>

definition rename_value :: "string list \<Rightarrow> string option \<Rightarrow> string option \<Rightarrow> error + string list" where
  "rename_value vals oldValue newValue =
     (case oldValue of
        None \<Rightarrow> Inl (Panic ''nil dereference'')
      | Some old \<Rightarrow>
          (case newValue of
             None \<Rightarrow>
               if vals = [] then Inl (PlainErr (''type *ast.TypeName does not have value '' @ old))
               else Inl (Panic ''nil dereference'')
           | Some new \<Rightarrow>
               (case find_last_idx (\<lambda>v. v = old) vals of
                  None \<Rightarrow> Inl (PlainErr (''type *ast.TypeName does not have value '' @ old))
                | Some oldIndex \<Rightarrow>
                    if find_last_idx (\<lambda>v. v = new) vals \<noteq> None
                    then Inl (PlainErr (''type *ast.TypeName already has value '' @ new))
                    else Inr (vals[oldIndex := new]))))"

definition alterTypeRenameValue ::
    "typeName \<Rightarrow> string option \<Rightarrow> string option \<Rightarrow> catalog \<Rightarrow> outcome" where
  "alterTypeRenameValue ty oldValue newValue c =
     (case getSchema c (ns_of c (ty_Schema ty)) of
        Inl e \<Rightarrow> (c, Some e)
      | Inr i \<Rightarrow>
          (case schema_getType (the_schema c i) ty of
             Inl e \<Rightarrow> (c, Some e)
           | Inr j \<Rightarrow>
               (case s_Types (the_schema c i) ! j of
                  CompositeType _ _ \<Rightarrow> (c, Some (PlainErr ''type is not an enum: *ast.TypeName''))
                | Enum n vals cm \<Rightarrow>
                    (case rename_value vals oldValue newValue of
                       Inl e \<Rightarrow> (c, Some e)
                     | Inr vals' \<Rightarrow> (upd_type i j (\<lambda>_. Enum n vals' cm) c, None)))))"

text \<open>
  \<open>alterTypeAddValue\<close> after the enum is found.  \<open>Inr None\<close> is the early return of
  \<open>IF NOT EXISTS\<close>.  Go inserts by \<open>append(vals[:i+1], vals[i:]...)\<close> and then overwrites position \<open>i\<close>.
\<close>

definition insert_index :: "string list \<Rightarrow> string \<Rightarrow> bool \<Rightarrow> nat option" where
  "insert_index vals neighbor isAfter =
     map_option (\<lambda>i. if isAfter then i + 1 else i) (find_idx (\<lambda>v. v = neighbor) vals)"

definition insert_value :: "string list \<Rightarrow> nat \<Rightarrow> string \<Rightarrow> string list" where
  "insert_value vals insertIndex new =
     (if insertIndex = length vals then vals @ [new]
      else (take (insertIndex + 1) vals @ drop insertIndex vals)[insertIndex := new])"

definition add_value ::
    "string \<Rightarrow> string list \<Rightarrow> alterTypeAddValueStmt \<Rightarrow> error + string list option" where
  "add_value enumName vals stmt =
     (case av_NewValue stmt of
        None \<Rightarrow> Inl (Panic ''nil dereference'')
      | Some new \<Rightarrow>
          if find_last_idx (\<lambda>v. v = new) vals \<noteq> None then
            if \<not> av_SkipIfNewValExists stmt
            then Inl (PlainErr (''enum '' @ enumName @ '' already has value '' @ new))
            else Inr None
          else if av_NewValHasNeighbor stmt then
            (case av_NewValNeighbor stmt of
               None \<Rightarrow> Inl (Panic ''nil dereference'')
             | Some neighbor \<Rightarrow>
                 (case insert_index vals neighbor (av_NewValIsAfter stmt) of
                    None \<Rightarrow>
                      Inl (PlainErr (''enum '' @ enumName @ '' unable to find existing neighbor value ''
                             @ neighbor @ '' for new value '' @ new))
                  | Some k \<Rightarrow> Inr (Some (insert_value vals k new))))
          else Inr (Some (insert_value vals (length vals) new)))"

definition alterTypeAddValue :: "alterTypeAddValueStmt \<Rightarrow> catalog \<Rightarrow> outcome" where
  "alterTypeAddValue stmt c =
     (case getSchema c (ns_of c (ty_Schema (av_Type stmt))) of
        Inl e \<Rightarrow> (c, Some e)
      | Inr i \<Rightarrow>
          (case schema_getType (the_schema c i) (av_Type stmt) of
             Inl e \<Rightarrow> (c, Some e)
           | Inr j \<Rightarrow>
               (case s_Types (the_schema c i) ! j of
                  CompositeType _ _ \<Rightarrow> (c, Some (PlainErr ''type is not an enum: *ast.TypeName''))
                | Enum n vals cm \<Rightarrow>
                    (case add_value n vals stmt of
                       Inl e \<Rightarrow> (c, Some e)
                     | Inr None \<Rightarrow> (c, None)
                     | Inr (Some vals') \<Rightarrow> (upd_type i j (\<lambda>_. Enum n vals' cm) c, None)))))"

text \<open>Every column pointer of the catalog, in the order of the nested loops over schemas, tables and
  columns.\<close>

definition all_columns :: "catalog \<Rightarrow> nat list" where
  "all_columns c = concat (map (\<lambda>s. concat (map tbl_Columns (s_Tables s))) (c_Schemas c))"

definition move_column_type :: "typeName \<Rightarrow> string \<Rightarrow> nat \<Rightarrow> catalog \<Rightarrow> catalog" where
  "move_column_type oldType newSchema a =
     upd_col a (\<lambda>col. if col_Type col = oldType
                      then col\<lparr>col_Type := (col_Type col)\<lparr>ty_Schema := newSchema\<rparr>\<rparr> else col)"

definition alterTypeSetSchema :: "typeName \<Rightarrow> string option \<Rightarrow> catalog \<Rightarrow> outcome" where
  "alterTypeSetSchema ty newSchemaName c =
     (case getSchema c (ns_of c (ty_Schema ty)) of
        Inl e \<Rightarrow> (c, Some e)
      | Inr i \<Rightarrow>
          (case schema_getType (the_schema c i) ty of
             Inl e \<Rightarrow> (c, Some e)
           | Inr idx \<Rightarrow>
               (case newSchemaName of
                  None \<Rightarrow> (c, Some (Panic ''nil dereference''))
                | Some ns \<Rightarrow>
                    (case getSchema c ns of
                       Inl e \<Rightarrow> (c, Some e)
                     | Inr k \<Rightarrow>
                         (case schema_getTable (the_schema c k) (named_table (ty_Name ty)) of
                            Inr _ \<Rightarrow> (c, Some (SqlErr (RelationExists (ty_Name ty))))
                          | Inl _ \<Rightarrow>
                              (case schema_getType (the_schema c k) ty of
                                 Inr _ \<Rightarrow> (c, Some (SqlErr (TypeExists (ty_Name ty))))
                               | Inl _ \<Rightarrow>
                                   (let typ = s_Types (the_schema c i) ! idx;
                                        c1 = upd_schema k (add_type typ) (upd_schema i (del_type idx) c)
                                    in (fold (move_column_type ty ns) (all_columns c1) c1, None)))))))) "

definition drop_one_type :: "bool \<Rightarrow> typeName \<Rightarrow> catalog \<Rightarrow> outcome" where
  "drop_one_type ifExists name c =
     (case getSchema c (ns_of c (ty_Schema name)) of
        Inl e \<Rightarrow> if is_not_found e \<and> ifExists then (c, None) else (c, Some e)
      | Inr i \<Rightarrow>
          (case schema_getType (the_schema c i) name of
             Inl e \<Rightarrow> if is_not_found e \<and> ifExists then (c, None) else (c, Some e)
           | Inr idx \<Rightarrow> (upd_schema i (del_type idx) c, None)))"

definition dropType :: "typeName list \<Rightarrow> bool \<Rightarrow> catalog \<Rightarrow> outcome" where
  "dropType names ifExists = each (drop_one_type ifExists) names"

text \<open>
  \<open>renameType\<close> is called with a statement of its own, and also by \<open>renameColumn\<close> and \<open>renameTable\<close>
  with \<open>Type: &tbl.Columns[idx].Type\<close>, a pointer into the very column whose type the last loop
  overwrites.  \<open>TypeAt a\<close> is that pointer: \<open>*stmt.Type\<close> is read again at each iteration.
\<close>

datatype typeRef = TypeVal typeName | TypeAt nat

fun deref_type :: "catalog \<Rightarrow> typeRef \<Rightarrow> typeName" where
  "deref_type c (TypeVal ty) = ty"
| "deref_type c (TypeAt a) = col_Type (c_Heap c ! a)"

fun renamed :: "string \<Rightarrow> ctype \<Rightarrow> ctype" where
  "renamed newName (CompositeType _ cm) = CompositeType newName cm"
| "renamed newName (Enum _ vs cm) = Enum newName vs cm"

definition rename_column_type :: "typeRef \<Rightarrow> string \<Rightarrow> nat \<Rightarrow> catalog \<Rightarrow> catalog" where
  "rename_column_type r newName a c =
     (if col_Type (c_Heap c ! a) = deref_type c r
      then upd_col a (\<lambda>col. col\<lparr>col_Type := (col_Type col)\<lparr>ty_Name := newName\<rparr>\<rparr>) c
      else c)"

definition renameType :: "typeRef \<Rightarrow> string option \<Rightarrow> catalog \<Rightarrow> outcome" where
  "renameType r newNameOpt c =
     (case newNameOpt of
        None \<Rightarrow> (c, Some (PlainErr ''rename type: empty name''))
      | Some newName \<Rightarrow>
          (case getSchema c (ns_of c (ty_Schema (deref_type c r))) of
             Inl e \<Rightarrow> (c, Some e)
           | Inr i \<Rightarrow>
               (case schema_getType (the_schema c i) (deref_type c r) of
                  Inl e \<Rightarrow> (c, Some e)
                | Inr idx \<Rightarrow>
                    (case schema_getTable (the_schema c i) (named_table newName) of
                       Inr _ \<Rightarrow> (c, Some (SqlErr (RelationExists newName)))
                     | Inl _ \<Rightarrow>
                         (case schema_getType (the_schema c i) (named_type newName) of
                            Inr _ \<Rightarrow> (c, Some (SqlErr (TypeExists newName)))
                          | Inl _ \<Rightarrow>
                              (let c1 = upd_type i idx (renamed newName) c
                               in (fold (rename_column_type r newName) (all_columns c1) c1, None)))))))"

section \<open>The operations meet the contract\<close>

lemmas type_lookup_dests =
  getSchema_Inr [THEN conjunct1] schema_getTable_Inr [THEN conjunct1] schema_getType_Inr [THEN conjunct1]

lemma type_name_renamed [simp]: "type_name (renamed n t) = n"
  by (cases t) simp_all

lemma createEnum_op: "catalog_op (createEnum ty vals)"
  by (rule catalog_opI)
     (auto simp: createEnum_def the_schema_def split: sum.split
       intro!: step_intro schema_ok_add_type dest: getSchema_Inr)

lemma createCompositeType_op: "catalog_op (createCompositeType ty)"
  by (rule catalog_opI)
     (auto simp: createCompositeType_def the_schema_def split: sum.split
       intro!: step_intro schema_ok_add_type dest: getSchema_Inr)

lemma step_upd_type [step_intro]:
  assumes "type_name (f (s_Types (c_Schemas c ! i) ! j)) = type_name (s_Types (c_Schemas c ! i) ! j)"
  shows "step_ok c (upd_type i j f c)"
  unfolding upd_type_def
  by (intro step_upd_schema schema_ok_replace_type) (use assms in auto)

lemma alterTypeRenameValue_op: "catalog_op (alterTypeRenameValue ty old new)"
  by (rule catalog_opI)
     (auto simp: alterTypeRenameValue_def the_schema_def split: sum.split ctype.split
       intro!: step_intro dest: getSchema_Inr)

lemma alterTypeAddValue_op: "catalog_op (alterTypeAddValue stmt)"
  by (rule catalog_opI)
     (auto simp: alterTypeAddValue_def the_schema_def split: sum.split ctype.split option.split
       intro!: step_intro dest: getSchema_Inr)

lemma step_move_column_type: "step_ok c (move_column_type ty ns a c)"
  by (simp add: move_column_type_def step_upd_col)

lemma step_rename_column_type: "step_ok c (rename_column_type r n a c)"
  by (simp add: rename_column_type_def step_upd_col)

text \<open>The two lookups of \<open>alterTypeSetSchema\<close> cannot find the same schema: the type would be there.\<close>

lemma alterTypeSetSchema_op: "catalog_op (alterTypeSetSchema ty ns)"
proof (rule catalog_opI)
  fix c
  have move: "step_ok c (upd_schema k (add_type (s_Types (c_Schemas c ! i) ! idx))
                 (upd_schema i (del_type idx) c))"
    if i: "i < length (c_Schemas c)" and k: "k < length (c_Schemas c)"
      and found: "schema_getType (c_Schemas c ! i) ty = Inr idx"
      and free: "schema_getType (c_Schemas c ! k) ty = Inl e" for i k idx e
  proof (rule step_ok_trans)
    show "step_ok c (upd_schema i (del_type idx) c)"
      using i by (intro step_upd_schema) (auto intro: schema_ok_del_type)
    have "i \<noteq> k" using found free by auto
    show "step_ok (upd_schema i (del_type idx) c)
        (upd_schema k (add_type (s_Types (c_Schemas c ! i) ! idx)) (upd_schema i (del_type idx) c))"
      using k free schema_getType_Inr [OF found] \<open>i \<noteq> k\<close>
      by (intro step_upd_schema) (auto simp: schemas_upd_schema intro: schema_ok_add_type)
  qed
  show "step_ok c (fst (alterTypeSetSchema ty ns c))"
    by (auto simp: alterTypeSetSchema_def the_schema_def Let_def split: sum.split option.split
        intro!: fold_step_after step_move_column_type move dest: getSchema_Inr)
qed

lemma drop_one_type_op: "catalog_op (drop_one_type ie name)"
  by (rule catalog_opI)
     (auto simp: drop_one_type_def the_schema_def split: sum.split
       intro!: step_upd_schema schema_ok_del_type dest: getSchema_Inr)

lemma dropType_op: "catalog_op (dropType names ie)"
  unfolding dropType_def by (rule catalog_op_each) (rule drop_one_type_op)

lemma renameType_op: "catalog_op (renameType r n)"
proof (rule catalog_opI)
  fix c
  have ren: "step_ok c (upd_type i idx (renamed new) c)"
    if "i < length (c_Schemas c)" and "schema_getType (c_Schemas c ! i) (named_type new) = Inl e"
    for i idx new e
    unfolding upd_type_def using that
    by (intro step_upd_schema schema_ok_rename_type [where rel = "named_type new"]) auto
  show "step_ok c (fst (renameType r n c))"
    by (auto simp: renameType_def the_schema_def Let_def split: sum.split option.split
        intro!: fold_step_after step_rename_column_type ren dest: getSchema_Inr)
qed

section \<open>The operations leave the tables alone\<close>

lemma frame_add_type [intro]: "tables_frame c (upd_schema i (add_type t) c)"
  by (rule tables_frame_upd_schema) (simp add: add_type_def)

lemma frame_del_type [intro]: "tables_frame c (upd_schema i (del_type j) c)"
  by (rule tables_frame_upd_schema) (simp add: del_type_def)

lemma frame_upd_type [intro]: "tables_frame c (upd_type i j f c)"
  unfolding upd_type_def by (rule tables_frame_upd_schema) simp

lemma createEnum_frame: "tables_frame c (fst (createEnum ty vals c))"
  by (auto simp: createEnum_def split: sum.split)

lemma dropType_frame: "tables_frame c (fst (dropType names ie c))"
  unfolding dropType_def
  by (rule tables_frame_each) (auto simp: drop_one_type_def split: sum.split)

lemma renameType_frame: "tables_frame c (fst (renameType r n c))"
  by (auto simp: renameType_def rename_column_type_def Let_def split: sum.split option.split
      intro!: tables_frame_fold)

end
