(* ===== verification/Catalog_Funcs.thy ===== *)
theory Catalog_Funcs
  imports Catalog_Inv
begin

text \<open>
  Functions of the catalog: \<open>internal/sql/catalog/func.go\<close>, the function lookups of \<open>schema.go\<close>,
  \<open>extension.go\<close>, and overload resolution (\<open>ListFuncsByName\<close>, \<open>ResolveFuncCall\<close>) of \<open>public.go\<close>.
\<close>

section \<open>Operations\<close>

definition InArgs :: "func \<Rightarrow> argument list" where
  "InArgs f =
     filter (\<lambda>a. case arg_Mode a of FuncParamTable \<Rightarrow> False | FuncParamOut \<Rightarrow> False | _ \<Rightarrow> True) (f_Args f)"

definition OutArgs :: "func \<Rightarrow> argument list" where
  "OutArgs f = filter (\<lambda>a. arg_Mode a = FuncParamOut) (f_Args f)"

text \<open>
  \<open>(*Schema).getFunc\<close>.  The loop counts the in-arguments but compares the types of \<open>s.Funcs[i].Args[j]\<close>,
  the first arguments of any mode.
\<close>

definition func_matches :: "string \<Rightarrow> typeName list \<Rightarrow> func \<Rightarrow> bool" where
  "func_matches name tns f \<longleftrightarrow>
     EqualFold (f_Name f) name \<and> length (InArgs f) = length tns \<and>
     list_all2 (\<lambda>a tn. sameType (arg_Type a) tn) (take (length (InArgs f)) (f_Args f)) tns"

definition getFunc :: "schema \<Rightarrow> funcName \<Rightarrow> typeName list \<Rightarrow> error + nat" where
  "getFunc s rel tns =
     (case find_idx (func_matches (fn_Name rel) tns) (s_Funcs s) of
        Some i \<Rightarrow> Inr i | None \<Rightarrow> Inl (SqlErr (RelationNotFound (fn_Name rel))))"

text \<open>\<open>(*Schema).getFuncByName\<close>: the second match is an error.\<close>

fun by_name_loop :: "string \<Rightarrow> func list \<Rightarrow> nat \<Rightarrow> nat option \<Rightarrow> error + nat" where
  "by_name_loop name [] i None = Inl (SqlErr (RelationNotFound name))"
| "by_name_loop name [] i (Some idx) = Inr idx"
| "by_name_loop name (f # fs) i idx =
     (if ToLower (f_Name f) = ToLower name then
        (case idx of Some _ \<Rightarrow> Inl (SqlErr (FunctionNotUnique name))
         | None \<Rightarrow> by_name_loop name fs (Suc i) (Some i))
      else by_name_loop name fs (Suc i) idx)"

definition getFuncByName :: "schema \<Rightarrow> funcName \<Rightarrow> error + nat" where
  "getFuncByName s rel = by_name_loop (fn_Name rel) (s_Funcs s) 0 None"

definition func_of_stmt :: "funcName \<Rightarrow> funcParam list \<Rightarrow> typeName option \<Rightarrow> func" where
  "func_of_stmt fnm params ret =
     \<lparr>f_Name = fn_Name fnm,
      f_Args = map (\<lambda>p. \<lparr>arg_Name = (case fp_Name p of Some n \<Rightarrow> n | None \<Rightarrow> []), arg_Type = fp_Type p,
                        arg_HasDefault = fp_HasDefExpr p, arg_Mode = fp_Mode p\<rparr>) params,
      f_ReturnType = ret, f_Comment = [], f_Desc = [], f_ReturnTypeNullable = False\<rparr>"

definition createFunction ::
    "funcName \<Rightarrow> funcParam list \<Rightarrow> typeName option \<Rightarrow> bool \<Rightarrow> catalog \<Rightarrow> outcome" where
  "createFunction fnm params ret replace c =
     (case getSchema c (ns_of c (fn_Schema fnm)) of
        Inl e \<Rightarrow> (c, Some e)
      | Inr i \<Rightarrow>
          (let fn = func_of_stmt fnm params ret in
           case getFunc (the_schema c i) fnm (map fp_Type params) of
             Inr idx \<Rightarrow>
               if \<not> replace then (c, Some (SqlErr (RelationExists (fn_Name fnm))))
               else (upd_schema i (\<lambda>s. s\<lparr>s_Funcs := (s_Funcs s)[idx := fn]\<rparr>) c, None)
           | Inl _ \<Rightarrow> (upd_schema i (\<lambda>s. s\<lparr>s_Funcs := s_Funcs s @ [fn]\<rparr>) c, None)))"

definition drop_one_function :: "bool \<Rightarrow> funcSpec \<Rightarrow> catalog \<Rightarrow> outcome" where
  "drop_one_function missingOk spec c =
     (case getSchema c (ns_of c (fn_Schema (fs_Name spec))) of
        Inl e \<Rightarrow> if is_not_found e \<and> missingOk then (c, None) else (c, Some e)
      | Inr i \<Rightarrow>
          (case (if fs_HasArgs spec then getFunc (the_schema c i) (fs_Name spec) (fs_Args spec)
                 else getFuncByName (the_schema c i) (fs_Name spec)) of
             Inl e \<Rightarrow> if is_not_found e \<and> missingOk then (c, None) else (c, Some e)
           | Inr idx \<Rightarrow> (upd_schema i (\<lambda>s. s\<lparr>s_Funcs := remove_at idx (s_Funcs s)\<rparr>) c, None)))"

definition dropFunction :: "funcSpec list \<Rightarrow> bool \<Rightarrow> catalog \<Rightarrow> outcome" where
  "dropFunction funcs missingOk = each (drop_one_function missingOk) funcs"

text \<open>\<open>loadExtension\<close>: the extension is recorded before its functions are added.\<close>

definition loadExtension :: "string \<Rightarrow> catalog \<Rightarrow> outcome" where
  "loadExtension name c =
     (if name \<in> c_Extensions c then (c, None)
      else
        (case c_LoadExtension c of
           None \<Rightarrow> (c, None)
         | Some load \<Rightarrow>
             (case load name of
                None \<Rightarrow> (c, None)
              | Some ext \<Rightarrow>
                  (let c1 = c\<lparr>c_Extensions := insert name (c_Extensions c)\<rparr> in
                   case getSchema c1 (c_DefaultSchema c1) of
                     Inl e \<Rightarrow> (c1, Some e)
                   | Inr i \<Rightarrow> (upd_schema i (\<lambda>s. s\<lparr>s_Funcs := s_Funcs s @ s_Funcs ext\<rparr>) c1, None)))))"

definition createExtension :: "string option \<Rightarrow> catalog \<Rightarrow> outcome" where
  "createExtension extname c =
     (case extname of None \<Rightarrow> (c, None) | Some n \<Rightarrow> loadExtension n c)"

section \<open>Overload resolution\<close>

definition schemasToSearch :: "catalog \<Rightarrow> string \<Rightarrow> string list" where
  "schemasToSearch c ns = c_SearchPath c @ [ns_of c ns]"

fun list_funcs :: "catalog \<Rightarrow> string \<Rightarrow> string list \<Rightarrow> error + func list" where
  "list_funcs c name [] = Inr []"
| "list_funcs c name (ns # rest) =
     (case getSchema c ns of
        Inl e \<Rightarrow> Inl e
      | Inr i \<Rightarrow>
          (case list_funcs c name rest of
             Inl e \<Rightarrow> Inl e
           | Inr fs \<Rightarrow>
               Inr (filter (\<lambda>f. ToLower (f_Name f) = ToLower name) (s_Funcs (the_schema c i)) @ fs)))"

definition ListFuncsByName :: "catalog \<Rightarrow> funcName \<Rightarrow> error + func list" where
  "ListFuncsByName c rel = list_funcs c (fn_Name rel) (schemasToSearch c (fn_Schema rel))"

text \<open>An argument of a call: named arguments are \<open>*ast.NamedArgExpr\<close>, whose \<open>Name\<close> may be nil.\<close>

datatype callArg = Positional | NamedArg "string option"

record funcCall =
  fc_Func :: funcName
  fc_Args :: "callArg list option"
  fc_Location :: nat

text \<open>The first loop of \<open>ResolveFuncCall\<close>: the number of positional arguments and the names of the
  named ones, or an error when a positional argument follows a named one.\<close>

fun split_args :: "nat \<Rightarrow> callArg list \<Rightarrow> nat \<Rightarrow> string option list \<Rightarrow> error + nat \<times> string option list" where
  "split_args loc [] p ns = Inr (p, ns)"
| "split_args loc (NamedArg n # as) p ns = split_args loc as p (ns @ [n])"
| "split_args loc (Positional # as) p ns =
     (if ns \<noteq> [] then
        Inl (SqlErr \<lparr>Err = None, Code = [],
               Message = ''positional argument cannot follow named argument'', Location = loc,
               Line = 0, Column = 0\<rparr>)
      else split_args loc as (Suc p) ns)"

definition count_defaults :: "argument list \<Rightarrow> nat" where
  "count_defaults args =
     length (filter arg_HasDefault args) + length (filter (\<lambda>a. arg_Mode a = FuncParamVariadic) args)"

definition is_variadic :: "argument list \<Rightarrow> bool" where
  "is_variadic args \<longleftrightarrow> list_ex (\<lambda>a. arg_Mode a = FuncParamVariadic) args"

definition known_names :: "argument list \<Rightarrow> string list" where
  "known_names args = filter (\<lambda>n. n \<noteq> []) (map arg_Name args)"

definition accepts :: "func \<Rightarrow> nat \<Rightarrow> string option list \<Rightarrow> bool" where
  "accepts f positional named =
     (let args = InArgs f; n = int (length named + positional);
          required = int (length args) - int (count_defaults args)
      in if (if is_variadic args then n < required else int (length args) < n \<or> n < required)
         then False
         else list_all (\<lambda>x. case x of None \<Rightarrow> True | Some m \<Rightarrow> m \<in> set (known_names args)) named)"

definition ResolveFuncCall :: "catalog \<Rightarrow> funcCall \<Rightarrow> error + func" where
  "ResolveFuncCall c call =
     (case ListFuncsByName c (fc_Func call) of
        Inl e \<Rightarrow> Inl (SqlErr (FunctionNotFound (fn_Name (fc_Func call))))
      | Inr [] \<Rightarrow> Inl (SqlErr (FunctionNotFound (fn_Name (fc_Func call))))
      | Inr funs \<Rightarrow>
          (case split_args (fc_Location call)
                  (case fc_Args call of None \<Rightarrow> [] | Some as \<Rightarrow> as) 0 [] of
             Inl e \<Rightarrow> Inl e
           | Inr (positional, named) \<Rightarrow>
               (case find (\<lambda>f. accepts f positional named) funs of
                  Some f \<Rightarrow> Inr f
                | None \<Rightarrow>
                    (case fc_Args call of
                       None \<Rightarrow> Inl (Panic ''nil dereference'')
                     | Some as \<Rightarrow>
                         Inl (SqlErr \<lparr>Err = None, Code = ''42883'',
                           Message = ''function '' @ fn_Name (fc_Func call) @ ''('' @
                             Join (replicate (length as) ''unknown'') '', '' @ '') does not exist'',
                           Location = fc_Location call, Line = 0, Column = 0\<rparr>)))))"

section \<open>The operations meet the contract\<close>

lemma createFunction_op: "catalog_op (createFunction fnm params ret rep)"
  by (rule catalog_opI)
     (auto simp: createFunction_def Let_def split: sum.split intro!: step_upd_schema
       dest: getSchema_Inr)

lemma drop_one_function_op: "catalog_op (drop_one_function mo spec)"
  by (rule catalog_opI)
     (auto simp: drop_one_function_def split: sum.split intro!: step_upd_schema dest: getSchema_Inr)

lemma dropFunction_op: "catalog_op (dropFunction fs mo)"
  unfolding dropFunction_def by (rule catalog_op_each) (rule drop_one_function_op)

lemma step_extensions: "step_ok c d \<Longrightarrow> step_ok c (d\<lparr>c_Extensions := X\<rparr>)"
  by (simp add: step_ok_def catalog_ok_def config_of_def)

lemma loadExtension_op: "catalog_op (loadExtension name)"
proof (rule catalog_opI)
  fix c
  have load: "step_ok c (upd_schema i (\<lambda>s. s\<lparr>s_Funcs := s_Funcs s @ fs\<rparr>) (c\<lparr>c_Extensions := X\<rparr>))"
    if "getSchema (c\<lparr>c_Extensions := X\<rparr>) n = Inr i" for i fs X n
    using getSchema_Inr [OF that]
    by (intro step_ok_trans [OF step_extensions step_upd_schema]) auto
  show "step_ok c (fst (loadExtension name c))"
    by (auto simp: loadExtension_def Let_def split: option.split sum.split
        intro: load step_extensions)
qed

lemma createExtension_op: "catalog_op (createExtension e)"
  by (rule catalog_opI)
     (auto simp: createExtension_def split: option.split intro: catalog_op.run_step loadExtension_op)

end
