(* ===== verification/Catalog_Tables.thy ===== *)
theory Catalog_Tables
  imports Catalog_Types Catalog_Funcs
begin

text \<open>
  The operations of \<open>internal/sql/catalog/table.go\<close> and \<open>view.go\<close>: creating, altering, moving, renaming
  and dropping tables and views.  A column pointer obtained from a table stays an index into the store,
  so a write through it is seen by every table that shares the column.
\<close>

section \<open>ALTER TABLE\<close>

text \<open>\<open>isExistColumn\<close>: \<open>Inr (Some i)\<close> for a position, \<open>Inr None\<close> for the -1 of a column that may be
  missing.  \<open>*cmd.Name\<close> is read in the loop and again for the error.\<close>

definition isExistColumn :: "catalog \<Rightarrow> table \<Rightarrow> alterTableCmd \<Rightarrow> error + nat option" where
  "isExistColumn c t cmd =
     (case cmd_Name cmd of
        None \<Rightarrow>
          if tbl_Columns t \<noteq> [] \<or> \<not> cmd_MissingOk cmd then Inl (Panic ''nil dereference'')
          else Inr None
      | Some name \<Rightarrow>
          (case find_idx (\<lambda>a. col_Name (c_Heap c ! a) = name) (tbl_Columns t) of
             Some i \<Rightarrow> Inr (Some i)
           | None \<Rightarrow>
               if \<not> cmd_MissingOk cmd then Inl (SqlErr (ColumnNotFound (table_name t) name))
               else Inr None))"

text \<open>\<open>defineColumn\<close>: a column with a list of values gets an enum of its own, named after the table and
  the column and created in the default schema.\<close>

definition column_of_def :: "columnDef \<Rightarrow> column" where
  "column_of_def d =
     \<lparr>col_Name = cd_Colname d, col_Type = cd_TypeName d, col_IsNotNull = cd_IsNotNull d,
      col_IsUnsigned = cd_IsUnsigned d, col_IsArray = cd_IsArray d, col_ArrayDims = cd_ArrayDims d,
      col_Comment = cd_Comment d, col_Length = cd_Length d, col_linkedType = False\<rparr>"

definition linked_name :: "string \<Rightarrow> string \<Rightarrow> string" where
  "linked_name tbl col = tbl @ ''_'' @ col"

definition defineColumn :: "tableName \<Rightarrow> columnDef \<Rightarrow> catalog \<Rightarrow> catalog \<times> (error + column)" where
  "defineColumn rel d c =
     (case cd_Vals d of
        None \<Rightarrow> (c, Inr (column_of_def d))
      | Some vals \<Rightarrow>
          (let typeName = named_type (linked_name (tn_Name rel) (cd_Colname d)) in
           case createEnum typeName vals c of
             (c', Some e) \<Rightarrow> (c', Inl e)
           | (c', None) \<Rightarrow>
               (c', Inr ((column_of_def d)\<lparr>col_Type := typeName, col_linkedType := True\<rparr>))))"

definition append_column :: "nat \<Rightarrow> nat \<Rightarrow> column \<Rightarrow> catalog \<Rightarrow> catalog" where
  "append_column i j col c =
     upd_table i j (\<lambda>t. t\<lparr>tbl_Columns := tbl_Columns t @ [length (c_Heap c)]\<rparr>) (alloc_cols [col] c)"

definition addColumn :: "nat \<Rightarrow> nat \<Rightarrow> alterTableCmd \<Rightarrow> catalog \<Rightarrow> outcome" where
  "addColumn i j cmd c =
     (case cmd_Def cmd of
        None \<Rightarrow> (c, Some (Panic ''nil dereference''))
      | Some d \<Rightarrow>
          if cd_Colname d \<in> col_Name ` set (cols_of c (the_table c i j)) then
            if \<not> cmd_MissingOk cmd
            then (c, Some (SqlErr (ColumnExists (table_name (the_table c i j)) (cd_Colname d))))
            else (c, None)
          else
            (case defineColumn (tbl_Rel (the_table c i j)) d c of
               (c', Inl e) \<Rightarrow> (c', Some e)
             | (c', Inr tc) \<Rightarrow> (append_column i j tc c', None)))"

definition alterColumnType :: "nat \<Rightarrow> nat \<Rightarrow> alterTableCmd \<Rightarrow> catalog \<Rightarrow> outcome" where
  "alterColumnType i j cmd c =
     (case isExistColumn c (the_table c i j) cmd of
        Inl e \<Rightarrow> (c, Some e)
      | Inr None \<Rightarrow> (c, None)
      | Inr (Some index) \<Rightarrow>
          (case cmd_Def cmd of
             None \<Rightarrow> (c, Some (Panic ''nil dereference''))
           | Some d \<Rightarrow>
               (upd_col (tbl_Columns (the_table c i j) ! index)
                  (\<lambda>col. col\<lparr>col_Type := cd_TypeName d, col_IsArray := cd_IsArray d,
                             col_ArrayDims := cd_ArrayDims d\<rparr>) c, None)))"

definition dropColumn :: "nat \<Rightarrow> nat \<Rightarrow> alterTableCmd \<Rightarrow> catalog \<Rightarrow> outcome" where
  "dropColumn i j cmd c =
     (case isExistColumn c (the_table c i j) cmd of
        Inl e \<Rightarrow> (c, Some e)
      | Inr None \<Rightarrow> (c, None)
      | Inr (Some index) \<Rightarrow>
          (let col = c_Heap c ! (tbl_Columns (the_table c i j) ! index) in
           case (if col_linkedType col then dropType [col_Type col] False c else (c, None)) of
             (c', Some e) \<Rightarrow> (c', Some e)
           | (c', None) \<Rightarrow>
               (upd_table i j (\<lambda>t. t\<lparr>tbl_Columns := remove_at index (tbl_Columns t)\<rparr>) c', None)))"

definition setNull :: "bool \<Rightarrow> nat \<Rightarrow> nat \<Rightarrow> alterTableCmd \<Rightarrow> catalog \<Rightarrow> outcome" where
  "setNull notNull i j cmd c =
     (case isExistColumn c (the_table c i j) cmd of
        Inl e \<Rightarrow> (c, Some e)
      | Inr None \<Rightarrow> (c, None)
      | Inr (Some index) \<Rightarrow>
          (upd_col (tbl_Columns (the_table c i j) ! index) (\<lambda>col. col\<lparr>col_IsNotNull := notNull\<rparr>) c, None))"

definition dropNotNull :: "nat \<Rightarrow> nat \<Rightarrow> alterTableCmd \<Rightarrow> catalog \<Rightarrow> outcome" where
  "dropNotNull = setNull False"

definition setNotNull :: "nat \<Rightarrow> nat \<Rightarrow> alterTableCmd \<Rightarrow> catalog \<Rightarrow> outcome" where
  "setNotNull = setNull True"

definition isStmtImplemented :: "alterItem list \<Rightarrow> bool" where
  "isStmtImplemented items =
     list_ex (\<lambda>it. case it of AlterTableCmd cmd \<Rightarrow> cmd_Subtype cmd \<noteq> AT_Other | OtherItem \<Rightarrow> False) items"

definition alter_item :: "nat \<Rightarrow> nat \<Rightarrow> alterItem \<Rightarrow> catalog \<Rightarrow> outcome" where
  "alter_item i j it c =
     (case it of
        OtherItem \<Rightarrow> (c, None)
      | AlterTableCmd cmd \<Rightarrow>
          (case cmd_Subtype cmd of
             AT_AddColumn \<Rightarrow> addColumn i j cmd c
           | AT_AlterColumnType \<Rightarrow> alterColumnType i j cmd c
           | AT_DropColumn \<Rightarrow> dropColumn i j cmd c
           | AT_DropNotNull \<Rightarrow> dropNotNull i j cmd c
           | AT_SetNotNull \<Rightarrow> setNotNull i j cmd c
           | AT_Other \<Rightarrow> (c, None)))"

definition alterTable :: "tableName \<Rightarrow> alterItem list \<Rightarrow> bool \<Rightarrow> catalog \<Rightarrow> outcome" where
  "alterTable tbl items missingOk c =
     (if \<not> isStmtImplemented items then (c, None)
      else
        (case getTable c tbl of
           Inl e \<Rightarrow> (c, checkMissing e missingOk)
         | Inr (i, j) \<Rightarrow> each (alter_item i j) items c))"

text \<open>\<open>alterTableSetSchema\<close> writes the new schema name into the table before it looks the schema up.\<close>

definition alterTableSetSchema :: "tableName \<Rightarrow> string option \<Rightarrow> bool \<Rightarrow> catalog \<Rightarrow> outcome" where
  "alterTableSetSchema tbl newSchemaName missingOk c =
     (case getSchema c (ns_of c (tn_Schema tbl)) of
        Inl e \<Rightarrow> (c, checkMissing e missingOk)
      | Inr i \<Rightarrow>
          (case schema_getTable (the_schema c i) tbl of
             Inl e \<Rightarrow> (c, checkMissing e missingOk)
           | Inr idx \<Rightarrow>
               (case newSchemaName of
                  None \<Rightarrow> (c, Some (Panic ''nil dereference''))
                | Some ns \<Rightarrow>
                    (let c1 = upd_table i idx
                                (\<lambda>t. t\<lparr>tbl_Rel := (tbl_Rel t)\<lparr>tn_Schema := ns\<rparr>\<rparr>) c in
                     case getSchema c1 ns of
                       Inl e \<Rightarrow> (c1, Some e)
                     | Inr k \<Rightarrow>
                         (case schema_getTable (the_schema c1 k) tbl of
                            Inr _ \<Rightarrow> (c1, Some (SqlErr (RelationExists (tn_Name tbl))))
                          | Inl _ \<Rightarrow>
                              (upd_schema k (add_table (the_table c1 i idx))
                                 (upd_schema i (del_table idx) c1), None))))))"

section \<open>CREATE TABLE\<close>

text \<open>
  The loop over the inherited tables: \<open>seen\<close> maps the name of an inherited column to its nullability,
  \<open>coltype\<close> to its type, and \<open>addrs\<close> are the columns of the new table so far.  The parent's own
  pointer is appended.
\<close>

record merge_state =
  m_seen :: "string \<rightharpoonup> bool"
  m_coltype :: "string \<rightharpoonup> typeName"
  m_addrs :: "nat list"

definition type_conflict :: "string \<Rightarrow> error" where
  "type_conflict n = PlainErr (''column '' @ Quote n @ '' has a type conflict'')"

definition merge_column :: "catalog \<Rightarrow> nat \<Rightarrow> merge_state \<Rightarrow> merge_state \<times> error option" where
  "merge_column c a m =
     (let col = c_Heap c ! a; n = col_Name col in
      case m_seen m n of
        Some notNull \<Rightarrow>
          (let m' = m\<lparr>m_seen := (m_seen m)(n \<mapsto> (notNull \<or> col_IsNotNull col))\<rparr> in
           case m_coltype m n of
             Some ty \<Rightarrow> if \<not> sameType ty (col_Type col) then (m', Some (type_conflict n)) else (m', None)
           | None \<Rightarrow> (m', None))
      | None \<Rightarrow>
          (\<lparr>m_seen = (m_seen m)(n \<mapsto> col_IsNotNull col), m_coltype = (m_coltype m)(n \<mapsto> col_Type col),
            m_addrs = m_addrs m @ [a]\<rparr>, None))"

definition merge_table :: "catalog \<Rightarrow> nat \<Rightarrow> tableName \<Rightarrow> merge_state \<Rightarrow> merge_state \<times> error option" where
  "merge_table c i inh m =
     (case schema_getTable (the_schema c i) inh of
        Inl e \<Rightarrow> (m, Some e)
      | Inr j \<Rightarrow> each (merge_column c) (tbl_Columns (the_table c i j)) m)"

definition inherit_columns :: "catalog \<Rightarrow> nat \<Rightarrow> tableName list \<Rightarrow> merge_state \<times> error option" where
  "inherit_columns c i inhs =
     each (merge_table c i) inhs \<lparr>m_seen = Map.empty, m_coltype = Map.empty, m_addrs = []\<rparr>"

text \<open>One column definition of the statement: a hidden one is dropped, one with the name of an inherited
  column is merged into it, any other is defined and allocated.\<close>

definition add_def :: "tableName \<Rightarrow> columnDef \<Rightarrow> catalog \<times> merge_state \<Rightarrow>
    (catalog \<times> merge_state) \<times> error option" where
  "add_def rel d cm =
     (let (c, m) = cm in
      if cd_IsHidden d then ((c, m), None)
      else
        (case m_seen m (cd_Colname d) of
           Some notNull \<Rightarrow>
             (let m' = m\<lparr>m_seen := (m_seen m)(cd_Colname d \<mapsto> (notNull \<or> cd_IsNotNull d))\<rparr> in
              case m_coltype m (cd_Colname d) of
                Some ty \<Rightarrow>
                  if \<not> sameType ty (cd_TypeName d)
                  then ((c, m'), Some (type_conflict (cd_Colname d))) else ((c, m'), None)
              | None \<Rightarrow> ((c, m'), None))
         | None \<Rightarrow>
             (case defineColumn rel d c of
                (c', Inl e) \<Rightarrow> ((c', m), Some e)
              | (c', Inr tc) \<Rightarrow>
                  ((alloc_cols [tc] c', m\<lparr>m_addrs := m_addrs m @ [length (c_Heap c')]\<rparr>), None))))"

text \<open>\<open>LIKE\<close>: the columns of the referenced table are copied.\<close>

definition refer_columns :: "tableName option \<Rightarrow> catalog \<Rightarrow> merge_state \<Rightarrow>
    (catalog \<times> merge_state) \<times> error option" where
  "refer_columns ref c m =
     (case ref of
        None \<Rightarrow> ((c, m), None)
      | Some rel \<Rightarrow>
          (case getTable c rel of
             Inl e \<Rightarrow> ((c, m), Some e)
           | Inr (i, j) \<Rightarrow>
               (let cols = cols_of c (the_table c i j) in
                ((alloc_cols cols c, m\<lparr>m_addrs := m_addrs m @ fresh_addrs c cols\<rparr>), None))))"

text \<open>The last loop: the nullability merged for an inherited name is written to the columns.\<close>

definition mark_not_null :: "(string \<rightharpoonup> bool) \<Rightarrow> nat \<Rightarrow> catalog \<Rightarrow> catalog" where
  "mark_not_null seen a c =
     (case seen (col_Name (c_Heap c ! a)) of
        Some notNull \<Rightarrow> upd_col a (\<lambda>col. col\<lparr>col_IsNotNull := notNull\<rparr>) c
      | None \<Rightarrow> c)"

definition create_body :: "nat \<Rightarrow> createTableStmt \<Rightarrow> catalog \<Rightarrow> outcome" where
  "create_body i stmt c =
     (case inherit_columns c i (ct_Inherits stmt) of
        (m, Some e) \<Rightarrow> (c, Some e)
      | (m, None) \<Rightarrow>
          (case refer_columns (ct_ReferTable stmt) c m of
             ((c1, m1), Some e) \<Rightarrow> (c1, Some e)
           | ((c1, m1), None) \<Rightarrow>
               (case each (add_def (ct_Name stmt)) (ct_Cols stmt) (c1, m1) of
                  ((c2, m2), Some e) \<Rightarrow> (c2, Some e)
                | ((c2, m2), None) \<Rightarrow>
                    (let c3 = fold (mark_not_null (m_seen m2)) (m_addrs m2) c2;
                         tbl = \<lparr>tbl_Rel = ct_Name stmt, tbl_Columns = m_addrs m2,
                                tbl_Comment = ct_Comment stmt\<rparr>
                     in (upd_schema i (add_table tbl) c3, None)))))"

definition createTable :: "createTableStmt \<Rightarrow> catalog \<Rightarrow> outcome" where
  "createTable stmt c0 =
     (case (if ct_Using stmt \<noteq> [] then loadExtension (ct_Using stmt) c0 else (c0, None)) of
        (c, Some e) \<Rightarrow> (c, Some e)
      | (c, None) \<Rightarrow>
          (case getSchema c (ns_of c (tn_Schema (ct_Name stmt))) of
             Inl e \<Rightarrow> (c, Some e)
           | Inr i \<Rightarrow>
               (case schema_getTable (the_schema c i) (ct_Name stmt) of
                  Inr _ \<Rightarrow>
                    if ct_IfNotExists stmt then (c, None)
                    else (c, Some (SqlErr (RelationExists (tn_Name (ct_Name stmt)))))
                | Inl _ \<Rightarrow> create_body i stmt c)))"

section \<open>DROP TABLE and the renames\<close>

definition linked_types :: "catalog \<Rightarrow> table \<Rightarrow> typeName list" where
  "linked_types c t = map col_Type (filter col_linkedType (cols_of c t))"

definition drop_one_table :: "bool \<Rightarrow> tableName \<Rightarrow> catalog \<Rightarrow> outcome" where
  "drop_one_table ifExists name c =
     (case getSchema c (ns_of c (tn_Schema name)) of
        Inl e \<Rightarrow> if is_not_found e \<and> ifExists then (c, None) else (c, Some e)
      | Inr i \<Rightarrow>
          (case schema_getTable (the_schema c i) name of
             Inl e \<Rightarrow> if is_not_found e \<and> ifExists then (c, None) else (c, Some e)
           | Inr idx \<Rightarrow>
               (case dropType (linked_types c (the_table c i idx)) False c of
                  (c', Some e) \<Rightarrow> (c', Some e)
                | (c', None) \<Rightarrow> (upd_schema i (del_table idx) c', None))))"

definition dropTable :: "tableName list \<Rightarrow> bool \<Rightarrow> catalog \<Rightarrow> outcome" where
  "dropTable names ifExists = each (drop_one_table ifExists) names"

text \<open>The loop of \<open>renameColumn\<close>: the last position with the old name, or an error at the first column
  that has the new one.\<close>

fun rename_loop :: "column list \<Rightarrow> string \<Rightarrow> string \<Rightarrow> string \<Rightarrow> nat \<Rightarrow> nat option \<Rightarrow> error + nat" where
  "rename_loop [] tbl old new i None = Inl (SqlErr (ColumnNotFound tbl old))"
| "rename_loop [] tbl old new i (Some idx) = Inr idx"
| "rename_loop (col # cols) tbl old new i idx =
     (if col_Name col = new then Inl (SqlErr (ColumnExists tbl new))
      else rename_loop cols tbl old new (Suc i) (if col_Name col = old then Some i else idx))"

definition renameColumn :: "tableName \<Rightarrow> string \<Rightarrow> string option \<Rightarrow> bool \<Rightarrow> catalog \<Rightarrow> outcome" where
  "renameColumn tbl colName newName missingOk c =
     (case getTable c tbl of
        Inl e \<Rightarrow> (c, checkMissing e missingOk)
      | Inr (i, j) \<Rightarrow>
          (let t = the_table c i j in
           case newName of
             None \<Rightarrow>
               if tbl_Columns t = [] then (c, Some (SqlErr (ColumnNotFound (table_name t) colName)))
               else (c, Some (Panic ''nil dereference''))
           | Some new \<Rightarrow>
               (case rename_loop (cols_of c t) (table_name t) colName new 0 None of
                  Inl e \<Rightarrow> (c, Some e)
                | Inr idx \<Rightarrow>
                    (let a = tbl_Columns t ! idx;
                         c1 = upd_col a (\<lambda>col. col\<lparr>col_Name := new\<rparr>) c
                     in if col_linkedType (c_Heap c1 ! a)
                        then renameType (TypeAt a) (Some (linked_name (table_name t) new)) c1
                        else (c1, None)))))"

definition rename_linked :: "string \<Rightarrow> nat \<Rightarrow> catalog \<Rightarrow> outcome" where
  "rename_linked newTable a c =
     (if col_linkedType (c_Heap c ! a)
      then renameType (TypeAt a) (Some (linked_name newTable (col_Name (c_Heap c ! a)))) c
      else (c, None))"

text \<open>\<open>renameTable\<close> reads \<open>*stmt.NewName\<close> before it checks the pointer for nil.\<close>

definition renameTable :: "tableName \<Rightarrow> string option \<Rightarrow> bool \<Rightarrow> catalog \<Rightarrow> outcome" where
  "renameTable tbl newName missingOk c =
     (case getTable c tbl of
        Inl e \<Rightarrow> (c, checkMissing e missingOk)
      | Inr (i, j) \<Rightarrow>
          (case newName of
             None \<Rightarrow> (c, Some (Panic ''nil dereference''))
           | Some new \<Rightarrow>
               (case schema_getTable (the_schema c i) (named_table new) of
                  Inr _ \<Rightarrow> (c, Some (SqlErr (RelationExists new)))
                | Inl _ \<Rightarrow>
                    (let c1 = upd_table i j (\<lambda>t. t\<lparr>tbl_Rel := (tbl_Rel t)\<lparr>tn_Name := new\<rparr>\<rparr>) c
                     in each (rename_linked new) (tbl_Columns (the_table c1 i j)) c1))))"

section \<open>CREATE TABLE AS and CREATE VIEW\<close>

text \<open>
  \<open>columnGenerator\<close> is the compiler: it types a query against the catalog and returns new columns.  It is
  a parameter, \<open>None\<close> when the interface is nil.
\<close>

type_synonym 'q columnGenerator = "(catalog \<Rightarrow> 'q \<Rightarrow> error + column list) option"

definition opt_str :: "string option \<Rightarrow> string" where
  "opt_str s = (case s of None \<Rightarrow> [] | Some x \<Rightarrow> x)"

definition rel_of_range :: "rangeVar \<Rightarrow> string \<Rightarrow> tableName" where
  "rel_of_range rv name =
     \<lparr>tn_Catalog = opt_str (rv_Catalogname rv), tn_Schema = opt_str (rv_Schemaname rv), tn_Name = name\<rparr>"

definition createTableAs :: "'q \<Rightarrow> rangeVar \<Rightarrow> 'q columnGenerator \<Rightarrow> catalog \<Rightarrow> outcome" where
  "createTableAs query rv colGen c =
     (case colGen of
        None \<Rightarrow> (c, Some (Panic ''nil dereference''))
      | Some gen \<Rightarrow>
          (case gen c query of
             Inl e \<Rightarrow> (c, Some e)
           | Inr cols \<Rightarrow>
               (case rv_Relname rv of
                  None \<Rightarrow> (c, Some (Panic ''nil dereference''))
                | Some name \<Rightarrow>
                    (let rel = rel_of_range rv name in
                     case getSchema c (ns_of c (tn_Schema rel)) of
                       Inl e \<Rightarrow> (c, Some e)
                     | Inr i \<Rightarrow>
                         (case schema_getTable (the_schema c i) rel of
                            Inr _ \<Rightarrow> (c, Some (SqlErr (RelationExists name)))
                          | Inl _ \<Rightarrow>
                              (upd_schema i (add_table \<lparr>tbl_Rel = rel, tbl_Columns = fresh_addrs c cols,
                                                        tbl_Comment = []\<rparr>)
                                 (alloc_cols cols c), None))))))"

definition createView :: "'q \<Rightarrow> rangeVar \<Rightarrow> bool \<Rightarrow> 'q columnGenerator \<Rightarrow> catalog \<Rightarrow> outcome" where
  "createView query rv replace colGen c =
     (case colGen of
        None \<Rightarrow> (c, Some (Panic ''nil dereference''))
      | Some gen \<Rightarrow>
          (case gen c query of
             Inl e \<Rightarrow> (c, Some e)
           | Inr cols \<Rightarrow>
               (case rv_Relname rv of
                  None \<Rightarrow> (c, Some (Panic ''nil dereference''))
                | Some name \<Rightarrow>
                    (let rel = rel_of_range rv name;
                         tbl = \<lparr>tbl_Rel = rel, tbl_Columns = fresh_addrs c cols, tbl_Comment = []\<rparr> in
                     case getSchema c (ns_of c (tn_Schema rel)) of
                       Inl e \<Rightarrow> (c, Some e)
                     | Inr i \<Rightarrow>
                         (case schema_getTable (the_schema c i) rel of
                            Inr existingIdx \<Rightarrow>
                              if \<not> replace then (c, Some (SqlErr (RelationExists name)))
                              else (upd_schema i (\<lambda>s. s\<lparr>s_Tables := (s_Tables s)[existingIdx := tbl]\<rparr>)
                                      (alloc_cols cols c), None)
                          | Inl _ \<Rightarrow> (upd_schema i (add_table tbl) (alloc_cols cols c), None))))))"

end
