(* ===== verification/Catalog_Tables_Ok.thy ===== *)
theory Catalog_Tables_Ok
  imports Catalog_Tables
begin

text \<open>
  Every operation on tables meets the contract \<open>catalog_op\<close>: it keeps the catalog well formed on
  success and on every error path, and changes neither the configuration nor the allocated addresses.
\<close>

section \<open>ALTER TABLE\<close>

lemma step_fst [intro]: "catalog_op f \<Longrightarrow> step_ok c (fst (f c))"
  by (rule catalog_op.run_step)

lemma defineColumn_step: "step_ok c (fst (defineColumn rel d c))"
  using catalog_op.run_step [OF createEnum_op]
  by (auto simp: defineColumn_def Let_def split: option.split prod.split)
     (metis fst_conv)+

lemma defineColumn_frame: "tables_frame c (fst (defineColumn rel d c))"
  using createEnum_frame
  by (auto simp: defineColumn_def Let_def split: option.split prod.split)
     (metis fst_conv)+

lemma append_column_step: "step_ok c (append_column i j col c)"
  unfolding append_column_def
  by (rule step_ok_trans [OF step_alloc_cols step_upd_table]) auto

lemma addColumn_op: "catalog_op (addColumn i j cmd)"
proof (rule catalog_opI)
  fix c
  have "step_ok c (fst (case defineColumn r d c of (c', Inl e) \<Rightarrow> (c', Some e)
           | (c', Inr tc) \<Rightarrow> (append_column i j tc c', None)))" for r d
    using defineColumn_step [of c r d]
    by (cases "defineColumn r d c")
       (auto split: sum.split intro: step_ok_trans append_column_step)
  then show "step_ok c (fst (addColumn i j cmd c))"
    by (auto simp: addColumn_def split: option.split)
qed

lemma alterColumnType_op: "catalog_op (alterColumnType i j cmd)"
  by (rule catalog_opI)
     (auto simp: alterColumnType_def split: sum.split option.split intro: step_upd_col)

lemma step_remove_column:
  "step_ok c (upd_table i j (\<lambda>t. t\<lparr>tbl_Columns := remove_at k (tbl_Columns t)\<rparr>) c)"
  by (rule step_upd_table) auto

lemma dropColumn_op: "catalog_op (dropColumn i j cmd)"
proof (rule catalog_opI)
  fix c
  have drop: "step_ok c (fst (case (if b then dropType ts False c else (c, None)) of
        (c', Some e) \<Rightarrow> (c', Some e)
      | (c', None) \<Rightarrow> (upd_table i j (\<lambda>t. t\<lparr>tbl_Columns := remove_at k (tbl_Columns t)\<rparr>) c', None)))"
    for b ts k
    using catalog_op.run_step [OF dropType_op [of ts False], of c]
    by (cases "dropType ts False c")
       (auto split: option.split intro: step_remove_column step_ok_trans)
  then show "step_ok c (fst (dropColumn i j cmd c))"
    by (auto simp: dropColumn_def Let_def split: sum.split option.split)
qed

lemma setNull_op: "catalog_op (setNull b i j cmd)"
  by (rule catalog_opI) (auto simp: setNull_def split: sum.split option.split intro: step_upd_col)

lemma alter_item_op: "catalog_op (alter_item i j it)"
  by (rule catalog_opI)
     (auto simp: alter_item_def dropNotNull_def setNotNull_def
       split: alterItem.split alterTableType.split
       intro: addColumn_op alterColumnType_op dropColumn_op setNull_op)

lemma alterTable_op: "catalog_op (alterTable tbl items mo)"
  by (rule catalog_opI)
     (auto simp: alterTable_def split: sum.split intro: catalog_op_each alter_item_op)

lemma step_set_rel_schema:
  "step_ok c (upd_table i j (\<lambda>t. t\<lparr>tbl_Rel := (tbl_Rel t)\<lparr>tn_Schema := ns\<rparr>\<rparr>) c)"
  by (rule step_upd_table) auto

lemma the_table_upd_table:
  "i < length (c_Schemas c) \<Longrightarrow> j < length (s_Tables (c_Schemas c ! i)) \<Longrightarrow>
     the_table (upd_table i j f c) i j = f (the_table c i j)"
  by (simp add: the_table_def upd_table_def schemas_upd_schema)

text \<open>Moving a table: its columns are in the store because the old schema was well formed.\<close>

lemma step_move_table:
  assumes i: "i < length (c_Schemas c)" and k: "k < length (c_Schemas c)"
    and found: "schema_getTable (c_Schemas c ! i) rel = Inr j"
    and free: "schema_getTable (c_Schemas c ! k) rel = Inl e"
  shows "step_ok c (upd_schema k (add_table (the_table c i j)) (upd_schema i (del_table j) c))"
proof -
  let ?d = "upd_schema i (del_table j) c"
  have del: "step_ok c ?d"
    by (rule step_upd_schema) (simp add: schema_ok_del_table)
  have "i \<noteq> k" using found free by auto
  have "catalog_ok (upd_schema k (add_table (the_table c i j)) ?d)" if ok: "catalog_ok c"
  proof -
    from schema_getTable_Inr [OF found] have j: "j < length (s_Tables (c_Schemas c ! i))"
      and name: "table_name (the_table c i j) = tn_Name rel" by (auto simp: the_table_def)
    have "\<forall>a \<in> set (tbl_Columns (the_table c i j)). a < length (c_Heap c)"
      using catalog_ok_schema [OF ok i] j by (auto simp: schema_ok_def the_table_def)
    then have "step_ok ?d (upd_schema k (add_table (the_table c i j)) ?d)"
      using free name \<open>i \<noteq> k\<close>
      by (intro step_upd_schema schema_ok_add_table) (auto simp: schemas_upd_schema)
    with del ok show ?thesis by (auto simp: step_ok_def)
  qed
  with del show ?thesis by (simp add: step_ok_def)
qed

lemma alterTableSetSchema_op: "catalog_op (alterTableSetSchema tbl ns mo)"
proof (rule catalog_opI)
  fix c
  let ?set = "\<lambda>i j n. upd_table i j (\<lambda>t. t\<lparr>tbl_Rel := (tbl_Rel t)\<lparr>tn_Schema := n\<rparr>\<rparr>) c"
  have move: "step_ok c (upd_schema k (add_table (the_table (?set i j n) i j))
                 (upd_schema i (del_table j) (?set i j n)))"
    if i: "getSchema c m = Inr i" and j: "schema_getTable (c_Schemas c ! i) tbl = Inr j"
      and k: "getSchema (?set i j n) n = Inr k"
      and e: "schema_getTable (c_Schemas (?set i j n) ! k) tbl = Inl e" for i j k n m e
  proof (rule step_ok_trans [OF step_set_rel_schema step_move_table])
    from getSchema_Inr [OF i] show "i < length (c_Schemas (?set i j n))"
      by (simp add: upd_table_def schemas_upd_schema)
    from getSchema_Inr [OF k] show "k < length (c_Schemas (?set i j n))" by simp
    from j getSchema_Inr [OF i] show "schema_getTable (c_Schemas (?set i j n) ! i) tbl = Inr j"
      by (simp add: getTable_upd_table)
    show "schema_getTable (c_Schemas (?set i j n) ! k) tbl = Inl e" by (rule e)
  qed
  show "step_ok c (fst (alterTableSetSchema tbl ns mo c))"
    by (auto simp: alterTableSetSchema_def the_schema_def Let_def split: sum.split option.split
        intro: move step_set_rel_schema)
qed

section \<open>CREATE TABLE\<close>

text \<open>The columns collected so far are all in the store.\<close>

definition addrs_ok :: "catalog \<Rightarrow> merge_state \<Rightarrow> bool" where
  "addrs_ok c m \<longleftrightarrow> (\<forall>a \<in> set (m_addrs m). a < length (c_Heap c))"

lemma merge_column_addrs:
  "addrs_ok c m \<Longrightarrow> a < length (c_Heap c) \<Longrightarrow> addrs_ok c (fst (merge_column c a m))"
  by (auto simp: merge_column_def addrs_ok_def Let_def split: option.split)

lemma inherit_columns_addrs:
  assumes ok: "catalog_ok c" and i: "i < length (c_Schemas c)"
  shows "addrs_ok c (fst (inherit_columns c i inhs))"
  unfolding inherit_columns_def
proof (rule each_invariant [where I = "addrs_ok c"])
  show "addrs_ok c \<lparr>m_seen = Map.empty, m_coltype = Map.empty, m_addrs = []\<rparr>"
    by (simp add: addrs_ok_def)
  fix inh m assume m: "addrs_ok c m"
  show "addrs_ok c (fst (merge_table c i inh m))"
  proof (cases "schema_getTable (c_Schemas c ! i) inh")
    case (Inr j)
    from schema_getTable_Inr [OF this] catalog_ok_schema [OF ok i]
    have "\<forall>a \<in> set (tbl_Columns (the_table c i j)). a < length (c_Heap c)"
      by (auto simp: schema_ok_def the_table_def)
    with m show ?thesis
      by (auto simp: merge_table_def the_schema_def Inr
          intro!: each_invariant [where I = "addrs_ok c"] merge_column_addrs)
  qed (use m in \<open>simp add: merge_table_def the_schema_def\<close>)
qed

text \<open>What the rest of \<open>CREATE TABLE\<close> keeps while it adds columns to the new table.\<close>

definition build_ok :: "catalog \<Rightarrow> catalog \<times> merge_state \<Rightarrow> bool" where
  "build_ok c cm \<longleftrightarrow> step_ok c (fst cm) \<and> tables_frame c (fst cm) \<and>
     (catalog_ok c \<longrightarrow> addrs_ok (fst cm) (snd cm))"

lemma addrs_ok_mono:
  "addrs_ok c m \<Longrightarrow> length (c_Heap c) \<le> length (c_Heap d) \<Longrightarrow> addrs_ok d m"
  by (auto simp: addrs_ok_def)

lemma step_ok_heap: "step_ok c d \<Longrightarrow> length (c_Heap c) \<le> length (c_Heap d)"
  by (simp add: step_ok_def)

lemma refer_columns_build:
  "(catalog_ok c \<longrightarrow> addrs_ok c m) \<Longrightarrow> build_ok c (fst (refer_columns ref c m))"
  by (auto simp: refer_columns_def build_ok_def addrs_ok_def fresh_addrs_def Let_def
      split: option.split sum.split intro: step_alloc_cols)

lemma build_ok_define:
  assumes b: "build_ok c (d, m)" and def: "defineColumn rel cd d = (d', r)"
  shows "build_ok c (d', m)"
    and "build_ok c (alloc_cols [tc] d', m\<lparr>m_addrs := m_addrs m @ [length (c_Heap d')]\<rparr>)"
proof -
  from defineColumn_step [of d rel cd] defineColumn_frame [of d rel cd] def
  have s: "step_ok d d'" and f: "tables_frame d d'" by simp_all
  with b show d': "build_ok c (d', m)"
    by (auto simp: build_ok_def intro: step_ok_trans tables_frame_trans addrs_ok_mono step_ok_heap)
  from d' show "build_ok c (alloc_cols [tc] d', m\<lparr>m_addrs := m_addrs m @ [length (c_Heap d')]\<rparr>)"
    by (auto simp: build_ok_def addrs_ok_def intro: step_ok_trans step_alloc_cols)
qed

lemma add_def_build: "build_ok c cm \<Longrightarrow> build_ok c (fst (add_def rel cd cm))"
proof (cases cm)
  case (Pair d m)
  assume "build_ok c cm"
  with Pair have b: "build_ok c (d, m)" by simp
  have seen: "build_ok c (d, m\<lparr>m_seen := x\<rparr>)" for x
    using b by (simp add: build_ok_def addrs_ok_def)
  show ?thesis
    using b seen by (auto simp: add_def_def Pair Let_def split: option.split prod.split sum.split
        intro: build_ok_define)
qed

lemma step_mark_not_null: "step_ok c (mark_not_null seen a c)"
  by (auto simp: mark_not_null_def split: option.split intro: step_upd_col)

lemma frame_mark_not_null: "tables_frame c (mark_not_null seen a c)"
  by (auto simp: mark_not_null_def split: option.split)

lemma length_heap_mark: "length (c_Heap (fold (mark_not_null seen) as c)) = length (c_Heap c)"
  by (induction as arbitrary: c) (auto simp: mark_not_null_def split: option.split)

lemma create_table_step:
  assumes b: "build_ok c (d, m)" and i: "i < length (c_Schemas c)"
    and free: "schema_getTable (c_Schemas c ! i) rel = Inl e" and name: "tn_Name (tbl_Rel t) = tn_Name rel"
    and addrs: "tbl_Columns t = m_addrs m"
  shows "step_ok c (upd_schema i (add_table t) (fold (mark_not_null seen) as d))"
proof -
  let ?d = "fold (mark_not_null seen) as d"
  from b have marked: "step_ok c ?d" and frame: "tables_frame c ?d"
    by (auto simp: build_ok_def intro: fold_step_after step_mark_not_null tables_frame_fold
        frame_mark_not_null)
  have "step_ok ?d (upd_schema i (add_table t) ?d)" if "catalog_ok c"
    using that b free i name addrs tables_frame_getTable [OF frame i]
    by (intro step_upd_schema schema_ok_add_table)
       (auto simp: build_ok_def addrs_ok_def length_heap_mark)
  with marked show ?thesis by (auto simp: step_ok_def)
qed

lemma create_body_step:
  assumes i: "i < length (c_Schemas c)" and free: "schema_getTable (c_Schemas c ! i) (ct_Name stmt) = Inl e"
  shows "step_ok c (fst (create_body i stmt c))"
proof -
  obtain m r where m: "inherit_columns c i (ct_Inherits stmt) = (m, r)" by fastforce
  have addrs: "catalog_ok c \<longrightarrow> addrs_ok c m"
    using inherit_columns_addrs [OF _ i, of "ct_Inherits stmt"] m by auto
  obtain cm1 r1 where cm1: "refer_columns (ct_ReferTable stmt) c m = (cm1, r1)" by fastforce
  have b1: "build_ok c cm1" using refer_columns_build [OF addrs, of "ct_ReferTable stmt"] cm1 by simp
  obtain cm2 r2 where cm2: "each (add_def (ct_Name stmt)) (ct_Cols stmt) cm1 = (cm2, r2)" by fastforce
  have "build_ok c (fst (each (add_def (ct_Name stmt)) (ct_Cols stmt) cm1))"
    by (rule each_invariant [where I = "build_ok c"]) (use b1 add_def_build in auto)
  with cm2 have b2: "build_ok c cm2" by simp
  from b1 b2 have "step_ok c (fst cm1)" "step_ok c (fst cm2)" by (simp_all add: build_ok_def)
  then show ?thesis
    using b2 cm1 cm2 m create_table_step [OF _ i free]
    by (cases cm1; cases cm2) (simp add: create_body_def Let_def split: option.split)
qed

lemma createTable_op: "catalog_op (createTable stmt)"
proof (rule catalog_opI)
  fix c0
  obtain c r where load: "(if ct_Using stmt \<noteq> [] then loadExtension (ct_Using stmt) c0 else (c0, None)) = (c, r)"
    by fastforce
  have c: "step_ok c0 c"
    using catalog_op.run_step [OF loadExtension_op, of c0 "ct_Using stmt"] load
    by (auto split: if_splits)
  have body: "step_ok c0 (fst (create_body i stmt c))"
    if "getSchema c n = Inr i" and "schema_getTable (c_Schemas c ! i) (ct_Name stmt) = Inl e" for i n e
    using c create_body_step [OF _ that(2)] getSchema_Inr [OF that(1)] by (blast intro: step_ok_trans)
  show "step_ok c0 (fst (createTable stmt c0))"
    using c by (auto simp: createTable_def load the_schema_def split: option.split sum.split intro: body)
qed

section \<open>DROP TABLE and the renames\<close>

lemma drop_one_table_op: "catalog_op (drop_one_table ie name)"
proof (rule catalog_opI)
  fix c
  have "step_ok c (fst (case dropType ts False c of (c', Some e) \<Rightarrow> (c', Some e)
        | (c', None) \<Rightarrow> (upd_schema i (del_table j) c', None)))" for ts i j
    using catalog_op.run_step [OF dropType_op [of ts False], of c]
    by (cases "dropType ts False c")
       (auto split: option.split intro!: step_ok_trans [OF _ step_upd_schema] schema_ok_del_table)
  then show "step_ok c (fst (drop_one_table ie name c))"
    by (auto simp: drop_one_table_def split: sum.split)
qed

lemma dropTable_op: "catalog_op (dropTable names ie)"
  unfolding dropTable_def by (rule catalog_op_each) (rule drop_one_table_op)

lemma renameColumn_op: "catalog_op (renameColumn tbl col new mo)"
proof (rule catalog_opI)
  fix c
  have "step_ok c (fst (renameType r n (upd_col a f c)))" for r n a f
    by (rule step_ok_trans [OF step_upd_col]) (rule catalog_op.run_step [OF renameType_op])
  then show "step_ok c (fst (renameColumn tbl col new mo c))"
    by (auto simp: renameColumn_def Let_def split: sum.split option.split intro: step_upd_col)
qed

lemma rename_linked_op: "catalog_op (rename_linked new a)"
  by (rule catalog_opI) (auto simp: rename_linked_def intro: renameType_op)

lemma step_rename_table:
  assumes "schema_getTable (c_Schemas c ! i) (named_table new) = Inl e"
  shows "step_ok c (upd_table i j (\<lambda>t. t\<lparr>tbl_Rel := (tbl_Rel t)\<lparr>tn_Name := new\<rparr>\<rparr>) c)"
  unfolding upd_table_def
proof (rule step_upd_schema)
  let ?s = "c_Schemas c ! i"
  let ?t = "(s_Tables ?s ! j)\<lparr>tbl_Rel := (tbl_Rel (s_Tables ?s ! j))\<lparr>tn_Name := new\<rparr>\<rparr>"
  assume ok: "schema_ok (length (c_Heap c)) ?s"
  show "schema_ok (length (c_Heap c)) (?s\<lparr>s_Tables := (s_Tables ?s)[j := ?t]\<rparr>)"
  proof (cases "j < length (s_Tables ?s)")
    case True
    from schema_getTable_Inl [OF assms] have "table_name ?t \<notin> set (map table_name (s_Tables ?s))"
      by simp
    with ok True nth_mem [OF True] show ?thesis
      by (auto simp: schema_ok_def map_update intro: distinct_list_update simp del: nth_mem
          dest!: set_update_subset_insert [THEN subsetD])
  next
    case False
    with ok show ?thesis by (simp add: list_update_beyond)
  qed
qed

lemma renameTable_op: "catalog_op (renameTable tbl new mo)"
proof (rule catalog_opI)
  fix c
  have "step_ok d (fst (each (rename_linked n) as d))" for n as d
    by (rule catalog_op.run_step [OF catalog_op_each [OF rename_linked_op]])
  then show "step_ok c (fst (renameTable tbl new mo c))"
    by (auto simp: renameTable_def the_schema_def Let_def split: sum.split option.split
        intro: step_ok_trans [OF step_rename_table])
qed

section \<open>CREATE TABLE AS and CREATE VIEW\<close>

lemma step_add_table_fresh:
  assumes "schema_getTable (c_Schemas c ! i) rel = Inl e" and "table_name t = tn_Name rel"
    and "tbl_Columns t = fresh_addrs c cols"
  shows "step_ok c (upd_schema i (add_table t) (alloc_cols cols c))"
  by (rule step_ok_trans [OF step_alloc_cols step_upd_schema], rule schema_ok_add_table)
     (use assms in \<open>auto simp: fresh_addrs_def\<close>)

lemma step_replace_table_fresh:
  assumes "schema_getTable (c_Schemas c ! i) rel = Inr j" and "table_name t = tn_Name rel"
    and "tbl_Columns t = fresh_addrs c cols"
  shows "step_ok c (upd_schema i (\<lambda>s. s\<lparr>s_Tables := (s_Tables s)[j := t]\<rparr>) (alloc_cols cols c))"
  by (rule step_ok_trans [OF step_alloc_cols step_upd_schema], rule schema_ok_replace_table)
     (use assms schema_getTable_Inr [OF assms(1)] in \<open>auto simp: fresh_addrs_def\<close>)

lemma createTableAs_op: "catalog_op (createTableAs q rv gen)"
  by (rule catalog_opI)
     (auto simp: createTableAs_def the_schema_def rel_of_range_def Let_def split: sum.split option.split
       intro: step_add_table_fresh)

lemma createView_op: "catalog_op (createView q rv rep gen)"
  by (rule catalog_opI)
     (auto simp: createView_def the_schema_def rel_of_range_def Let_def split: sum.split option.split
       intro: step_add_table_fresh step_replace_table_fresh)

end
