(* ===== verification/Catalog_Update.thy ===== *)
theory Catalog_Update
  imports Catalog_Tables_Ok
begin

text \<open>
  The rest of the catalog's operations (\<open>CREATE SCHEMA\<close> and \<open>DROP SCHEMA\<close> of \<open>schema.go\<close>, the comments
  of \<open>comment_on.go\<close>), the dispatch \<open>Update\<close> and the loop \<open>Build\<close> of \<open>catalog.go\<close>, the loop of
  \<open>parseCatalogLegacy\<close> in \<open>internal/compiler/compile.go\<close> that applies a schema file, and the
  catalogs those loops reach.
\<close>

section \<open>Schemas\<close>

definition createSchema :: "string option \<Rightarrow> bool \<Rightarrow> catalog \<Rightarrow> outcome" where
  "createSchema nameOpt ifNotExists c =
     (case nameOpt of
        None \<Rightarrow> (c, Some (PlainErr ''create schema: empty name''))
      | Some name \<Rightarrow>
          (case getSchema c name of
             Inr _ \<Rightarrow>
               if name = c_DefaultSchema c then (c, None)
               else if \<not> ifNotExists then (c, Some (SqlErr (SchemaExists name)))
               else (add_schema (empty_schema name) c, None)
           | Inl _ \<Rightarrow> (add_schema (empty_schema name) c, None)))"

definition drop_one_schema :: "bool \<Rightarrow> string \<Rightarrow> catalog \<Rightarrow> outcome" where
  "drop_one_schema missingOk name c =
     (case find_last_idx (\<lambda>s. s_Name s = name) (c_Schemas c) of
        None \<Rightarrow> if missingOk then (c, None) else (c, Some (SqlErr (SchemaNotFound name)))
      | Some idx \<Rightarrow> (del_schema idx c, None))"

definition dropSchema :: "string list \<Rightarrow> bool \<Rightarrow> catalog \<Rightarrow> outcome" where
  "dropSchema names missingOk = each (drop_one_schema missingOk) names"

section \<open>Comments\<close>

definition commentOnColumn :: "tableName \<Rightarrow> string \<Rightarrow> string option \<Rightarrow> catalog \<Rightarrow> outcome" where
  "commentOnColumn tbl col comment c =
     (case getTable c tbl of
        Inl e \<Rightarrow> (c, Some e)
      | Inr (i, j) \<Rightarrow>
          (case find_idx (\<lambda>a. col_Name (c_Heap c ! a) = col) (tbl_Columns (the_table c i j)) of
             Some k \<Rightarrow>
               (upd_col (tbl_Columns (the_table c i j) ! k)
                  (\<lambda>x. x\<lparr>col_Comment := opt_str comment\<rparr>) c, None)
           | None \<Rightarrow> (c, Some (SqlErr (ColumnNotFound (tn_Name tbl) col)))))"

definition commentOnSchema :: "string \<Rightarrow> string option \<Rightarrow> catalog \<Rightarrow> outcome" where
  "commentOnSchema name comment c =
     (case getSchema c name of
        Inl e \<Rightarrow> (c, Some e)
      | Inr i \<Rightarrow> (upd_schema i (\<lambda>s. s\<lparr>s_Comment := opt_str comment\<rparr>) c, None))"

definition commentOnTable :: "tableName \<Rightarrow> string option \<Rightarrow> catalog \<Rightarrow> outcome" where
  "commentOnTable tbl comment c =
     (case getTable c tbl of
        Inl e \<Rightarrow> (c, Some e)
      | Inr (i, j) \<Rightarrow> (upd_table i j (\<lambda>t. t\<lparr>tbl_Comment := opt_str comment\<rparr>) c, None))"

definition commentOnType :: "typeName \<Rightarrow> string option \<Rightarrow> catalog \<Rightarrow> outcome" where
  "commentOnType ty comment c =
     (case getType c ty of
        Inl e \<Rightarrow> (c, Some e)
      | Inr (i, j) \<Rightarrow> (upd_type i j (SetComment (opt_str comment)) c, None))"

definition commentOnView :: "tableName \<Rightarrow> string option \<Rightarrow> catalog \<Rightarrow> outcome" where
  "commentOnView view comment c =
     (case getTable c view of
        Inl e \<Rightarrow> (c, Some e)
      | Inr (i, j) \<Rightarrow> (upd_table i j (\<lambda>t. t\<lparr>tbl_Comment := opt_str comment\<rparr>) c, None))"

section \<open>Update, Build and the compiler's loop\<close>

fun update_stmt :: "'q columnGenerator \<Rightarrow> 'q stmt \<Rightarrow> catalog \<Rightarrow> outcome" where
  "update_stmt gen (AlterTableStmt t items mo) c = alterTable t items mo c"
| "update_stmt gen (AlterTableSetSchemaStmt t ns mo) c = alterTableSetSchema t ns mo c"
| "update_stmt gen (AlterTypeAddValueStmt s) c = alterTypeAddValue s c"
| "update_stmt gen (AlterTypeRenameValueStmt t old new) c = alterTypeRenameValue t old new c"
| "update_stmt gen (AlterTypeSetSchemaStmt t ns) c = alterTypeSetSchema t ns c"
| "update_stmt gen (CommentOnColumnStmt t col cm) c = commentOnColumn t col cm c"
| "update_stmt gen (CommentOnSchemaStmt n cm) c = commentOnSchema n cm c"
| "update_stmt gen (CommentOnTableStmt t cm) c = commentOnTable t cm c"
| "update_stmt gen (CommentOnTypeStmt t cm) c = commentOnType t cm c"
| "update_stmt gen (CommentOnViewStmt t cm) c = commentOnView t cm c"
| "update_stmt gen (CompositeTypeStmt t) c = createCompositeType t c"
| "update_stmt gen (CreateEnumStmt t vals) c = createEnum t vals c"
| "update_stmt gen (CreateExtensionStmt n) c = createExtension n c"
| "update_stmt gen (CreateFunctionStmt f ps ret rep) c = createFunction f ps ret rep c"
| "update_stmt gen (CreateSchemaStmt n ine) c = createSchema n ine c"
| "update_stmt gen (CreateTableStmt s) c = createTable s c"
| "update_stmt gen (CreateTableAsStmt q rv) c = createTableAs q rv gen c"
| "update_stmt gen (ViewStmt q rv rep) c = createView q rv rep gen c"
| "update_stmt gen (DropFunctionStmt fs mo) c = dropFunction fs mo c"
| "update_stmt gen (DropSchemaStmt ns mo) c = dropSchema ns mo c"
| "update_stmt gen (DropTableStmt ts ie) c = dropTable ts ie c"
| "update_stmt gen (DropTypeStmt ts ie) c = dropType ts ie c"
| "update_stmt gen (RenameColumnStmt t col new mo) c = renameColumn t col new mo c"
| "update_stmt gen (RenameTableStmt t new mo) c = renameTable t new mo c"
| "update_stmt gen (RenameTypeStmt t new) c = renameType (TypeVal t) new c"
| "update_stmt gen (ListStmt ss) c = each (update_stmt gen) ss c"
| "update_stmt gen IgnoredStmt c = (c, None)"

text \<open>A statement is \<open>None\<close> when its \<open>Raw\<close> is nil.\<close>

definition Update :: "'q columnGenerator \<Rightarrow> 'q stmt option \<Rightarrow> catalog \<Rightarrow> outcome" where
  "Update gen st c = (case st of None \<Rightarrow> (c, None) | Some n \<Rightarrow> update_stmt gen n c)"

definition Build :: "'q stmt option list \<Rightarrow> catalog \<Rightarrow> outcome" where
  "Build stmts = each (Update None) stmts"

text \<open>
  The inner loop of \<open>parseCatalogLegacy\<close>: an error is recorded and the next statement is applied to the
  catalog the failed one left behind.  A panic ends the run.
\<close>

fun apply_file :: "'q columnGenerator \<Rightarrow> 'q stmt option list \<Rightarrow> catalog \<Rightarrow> catalog \<times> error list" where
  "apply_file gen [] c = (c, [])"
| "apply_file gen (s # ss) c =
     (case Update gen s c of
        (c', None) \<Rightarrow> apply_file gen ss c'
      | (c', Some (Panic p)) \<Rightarrow> (c', [Panic p])
      | (c', Some e) \<Rightarrow> (case apply_file gen ss c' of (c'', es) \<Rightarrow> (c'', e # es)))"

text \<open>The catalogs that applying statements can reach, failing statements included.\<close>

inductive reachable :: "'q columnGenerator \<Rightarrow> catalog \<Rightarrow> catalog \<Rightarrow> bool" for gen c0 where
  start: "reachable gen c0 c0"
| step: "reachable gen c0 c \<Longrightarrow> Update gen st c = (c', r) \<Longrightarrow> reachable gen c0 c'"

inductive_cases reachableE: "reachable gen c0 c"

section \<open>Every operation meets the contract\<close>

lemma createSchema_op: "catalog_op (createSchema n ine)"
  by (rule catalog_opI)
     (auto simp: createSchema_def split: option.split sum.split intro: step_add_schema)

lemma dropSchema_op: "catalog_op (dropSchema ns mo)"
  unfolding dropSchema_def
  by (rule catalog_op_each, rule catalog_opI)
     (auto simp: drop_one_schema_def split: option.split intro: step_del_schema)

lemma commentOnColumn_op: "catalog_op (commentOnColumn t col cm)"
  by (rule catalog_opI)
     (auto simp: commentOnColumn_def split: option.split sum.split intro: step_upd_col)

lemma commentOnSchema_op: "catalog_op (commentOnSchema n cm)"
  by (rule catalog_opI) (auto simp: commentOnSchema_def split: sum.split intro!: step_upd_schema)

lemma commentOnTable_op: "catalog_op (commentOnTable t cm)"
  by (rule catalog_opI) (auto simp: commentOnTable_def split: sum.split intro!: step_upd_table)

lemma commentOnType_op: "catalog_op (commentOnType t cm)"
  by (rule catalog_opI) (auto simp: commentOnType_def split: sum.split intro!: step_upd_type)

lemma commentOnView_op: "catalog_op (commentOnView t cm)"
  by (rule catalog_opI) (auto simp: commentOnView_def split: sum.split intro!: step_upd_table)

lemmas handler_ops =
  alterTable_op alterTableSetSchema_op alterTypeAddValue_op alterTypeRenameValue_op
  alterTypeSetSchema_op commentOnColumn_op commentOnSchema_op commentOnTable_op commentOnType_op
  commentOnView_op createCompositeType_op createEnum_op createExtension_op createFunction_op
  createSchema_op createTable_op createTableAs_op createView_op dropFunction_op dropSchema_op
  dropTable_op dropType_op renameColumn_op renameTable_op renameType_op

lemma update_stmt_step: "step_ok c (fst (update_stmt gen st c))"
proof (induction gen st c rule: update_stmt.induct)
  case (26 gen ss c)
  have "step_ok c (fst (each (update_stmt gen) ss c))"
    by (rule each_invariant [where I = "step_ok c"]) (auto intro: step_ok_trans "26")
  then show ?case by simp
qed (simp_all add: handler_ops [THEN catalog_op.run_step])

interpretation upd: catalog_op "Update gen st" for gen st
  by unfold_locales (simp add: Update_def update_stmt_step split: option.split)

interpretation bld: catalog_op "Build stmts" for stmts
  unfolding Build_def by (rule catalog_op_each) (rule upd.catalog_op_axioms)

text \<open>C1: every statement, whether it succeeds or fails, keeps the catalog well formed: no schema ever
  holds two tables or two types of the same name, and no table points at a column that is not there.\<close>

theorem Update_keeps_ok:
  assumes "catalog_ok c"
  shows "catalog_ok (fst (Update gen st c))"
  using assms by (rule upd.keeps_ok)

text \<open>C2: every catalog reached from a well-formed one by any sequence of statements, failing ones
  included, is well formed, has the configuration it started with and still has every column that was
  allocated.\<close>

theorem reachable_ok:
  assumes "reachable gen c0 c" and "catalog_ok c0"
  shows "catalog_ok c \<and> config_of c = config_of c0 \<and> length (c_Heap c0) \<le> length (c_Heap c)"
  using assms
proof (induction rule: reachable.induct)
  case (step c st c' r)
  from step.hyps(2) have c': "c' = fst (Update gen st c)" by simp
  from step.IH [OF step.prems] show ?case
    unfolding c' using upd.keeps_ok upd.keeps_config upd.heap_grows le_trans by metis
qed simp

lemma apply_file_reachable:
  "reachable gen c0 c \<Longrightarrow> reachable gen c0 (fst (apply_file gen ss c))"
proof (induction ss arbitrary: c)
  case (Cons s ss)
  obtain c' r where u: "Update gen s c = (c', r)" by fastforce
  from reachable.step [OF Cons.prems u] have r': "reachable gen c0 c'" .
  with Cons.IH [OF r'] u show ?case
    by (auto split: option.split error.split prod.splits)
qed simp

lemma Build_reachable:
  fixes ss :: "'q stmt option list"
  assumes "reachable (None :: 'q columnGenerator) c0 c"
  shows "reachable (None :: 'q columnGenerator) c0 (fst (Build ss c))"
  unfolding Build_def
proof (rule each_invariant [where I = "reachable (None :: 'q columnGenerator) c0"])
  show "reachable (None :: 'q columnGenerator) c0 c" by (rule assms)
  show "reachable (None :: 'q columnGenerator) c0 (fst (Update None st d))"
    if "reachable (None :: 'q columnGenerator) c0 d" for st :: "'q stmt option" and d
    using reachable.step [OF that, of st "fst (Update None st d)" "snd (Update None st d)"] by simp
qed

end
