(* ===== verification/Catalog_Create.thy ===== *)
theory Catalog_Create
  imports Catalog_Update
begin

text \<open>
  What \<open>CREATE TABLE\<close> and \<open>DROP TABLE\<close> do to the catalog: the table that is created, the enums that are
  created with it, and that dropping the table undoes both.
\<close>

section \<open>The effect of the column definitions\<close>

text \<open>The column a definition gives, and the enums the definitions of a statement create.\<close>

definition spec_column :: "tableName \<Rightarrow> columnDef \<Rightarrow> column" where
  "spec_column rel d =
     (case cd_Vals d of None \<Rightarrow> column_of_def d
      | Some _ \<Rightarrow> (column_of_def d)\<lparr>col_Type := named_type (linked_name (tn_Name rel) (cd_Colname d)),
                                     col_linkedType := True\<rparr>)"

definition shown :: "columnDef list \<Rightarrow> columnDef list" where
  "shown ds = filter (\<lambda>d. \<not> cd_IsHidden d) ds"

fun enums_of :: "tableName \<Rightarrow> columnDef list \<Rightarrow> ctype list" where
  "enums_of rel [] = []"
| "enums_of rel (d # ds) =
     (if cd_IsHidden d then enums_of rel ds
      else (case cd_Vals d of None \<Rightarrow> enums_of rel ds
            | Some vals \<Rightarrow>
                Enum (linked_name (tn_Name rel) (cd_Colname d)) (stringSlice vals) [] # enums_of rel ds))"

definition add_enums :: "ctype list \<Rightarrow> catalog \<Rightarrow> catalog" where
  "add_enums ts c =
     (case getSchema c (c_DefaultSchema c) of
        Inl _ \<Rightarrow> c | Inr i \<Rightarrow> upd_schema i (\<lambda>s. s\<lparr>s_Types := s_Types s @ ts\<rparr>) c)"

text \<open>The types can be created one after the other in the default schema.\<close>

definition new_types :: "ctype list \<Rightarrow> catalog \<Rightarrow> bool" where
  "new_types ts c \<longleftrightarrow>
     ts = [] \<or> (\<exists>i. getSchema c (c_DefaultSchema c) = Inr i \<and> distinct (map type_name ts) \<and>
                   type_name ` set ts \<inter> type_name ` set (s_Types (c_Schemas c ! i)) = {})"

lemma getSchema_cong:
  "map s_Name (c_Schemas d) = map s_Name (c_Schemas c) \<Longrightarrow> getSchema d n = getSchema c n"
  using find_idx_map [of "\<lambda>m. m = n" s_Name "c_Schemas d"] find_idx_map [of "\<lambda>m. m = n" s_Name "c_Schemas c"]
  by (simp add: getSchema_def comp_def)

lemma getSchema_alloc [simp]: "getSchema (alloc_cols cs c) n = getSchema c n"
  by (simp add: getSchema_def)

lemma getSchema_upd_schema:
  "(\<And>s. s_Name (f s) = s_Name s) \<Longrightarrow> getSchema (upd_schema i f c) n = getSchema c n"
  by (rule getSchema_cong) (simp add: schemas_upd_schema list_update_same_key)

lemma default_upd [simp]:
  "c_DefaultSchema (upd_schema i f c) = c_DefaultSchema c"
  "c_DefaultSchema (alloc_cols cs c) = c_DefaultSchema c"
  by (simp_all add: upd_schema_def alloc_cols_def)

lemma getSchema_default_eq: "ns_of c [] = c_DefaultSchema c"
  by (simp add: ns_of_def)

lemma upd_schema_comp:
  "i < length (c_Schemas c) \<Longrightarrow> upd_schema i f (upd_schema i g c) = upd_schema i (f \<circ> g) c"
  by (simp add: upd_schema_def)

lemma upd_schema_commute:
  assumes "\<And>s. f (g s) = g (f s)"
  shows "upd_schema i f (upd_schema k g c) = upd_schema k g (upd_schema i f c)"
proof (cases "i = k")
  case True
  then show ?thesis
    by (cases "k < length (c_Schemas c)") (simp_all add: upd_schema_def assms list_update_beyond)
next
  case False
  then show ?thesis by (simp add: upd_schema_def list_update_swap)
qed

lemma upd_schema_alloc: "upd_schema i f (alloc_cols cs c) = alloc_cols cs (upd_schema i f c)"
  by (simp add: upd_schema_def alloc_cols_def)

lemma upd_schema_id: "(\<And>s. f s = s) \<Longrightarrow> upd_schema i f c = c"
  by (simp add: upd_schema_def)

lemma types_upd_schema:
  "(\<And>s. s_Types (g s) = s_Types s) \<Longrightarrow>
     s_Types (c_Schemas (upd_schema i g c) ! k) = s_Types (c_Schemas c ! k)"
  by (cases "i = k"; cases "k < length (c_Schemas c)")
     (simp_all add: schemas_upd_schema list_update_beyond)

lemma add_enums_Nil [simp]: "add_enums [] c = c"
  by (simp add: add_enums_def upd_schema_id split: sum.split)

lemma add_enums_alloc: "add_enums ts (alloc_cols cs c) = alloc_cols cs (add_enums ts c)"
  by (simp add: add_enums_def upd_schema_alloc split: sum.split)

lemma getSchema_add_enums [simp]: "getSchema (add_enums ts c) n = getSchema c n"
  by (simp add: add_enums_def getSchema_upd_schema split: sum.split)

lemma add_enums_sel [simp]:
  "c_Heap (add_enums ts c) = c_Heap c" "c_DefaultSchema (add_enums ts c) = c_DefaultSchema c"
  by (simp_all add: add_enums_def split: sum.split)

lemma add_enums_append: "add_enums us (add_enums ts c) = add_enums (ts @ us) c"
proof (cases "getSchema c (c_DefaultSchema c)")
  case (Inr i)
  with getSchema_Inr [OF Inr] show ?thesis
    by (simp add: add_enums_def getSchema_upd_schema upd_schema_comp comp_def)
qed (simp add: add_enums_def)

lemma add_enums_upd_tables:
  "(\<And>s X. g (s\<lparr>s_Types := X\<rparr>) = (g s)\<lparr>s_Types := X\<rparr>) \<Longrightarrow> (\<And>s. s_Types (g s) = s_Types s) \<Longrightarrow>
   (\<And>s. s_Name (g s) = s_Name s) \<Longrightarrow>
     add_enums ts (upd_schema k g c) = upd_schema k g (add_enums ts c)"
  by (auto simp: add_enums_def getSchema_upd_schema upd_schema_commute split: sum.split)

lemma createEnum_None:
  assumes "createEnum (named_type n) vals c = (c', None)"
  shows "c' = add_enums [Enum n (stringSlice vals) []] c \<and> new_types [Enum n (stringSlice vals) []] c"
proof -
  from assms obtain i e where i: "getSchema c (c_DefaultSchema c) = Inr i"
    and free: "schema_getType (c_Schemas c ! i) (named_type n) = Inl e"
    and c': "c' = upd_schema i (add_type (Enum n (stringSlice vals) [])) c"
    by (auto simp: createEnum_def getSchema_default_eq the_schema_def split: sum.splits)
  from schema_getType_Inl [OF free] i have "new_types [Enum n (stringSlice vals) []] c"
    by (auto simp: new_types_def)
  with i c' show ?thesis by (simp add: add_enums_def add_type_def [abs_def])
qed

lemma add_def_hidden: "cd_IsHidden d \<Longrightarrow> add_def rel d (c, m) = ((c, m), None)"
  by (simp add: add_def_def)

lemma add_def_new:
  "\<not> cd_IsHidden d \<Longrightarrow> m_seen m (cd_Colname d) = None \<Longrightarrow> add_def rel d (c, m) =
     (case defineColumn rel d c of
        (c', Inl e) \<Rightarrow> ((c', m), Some e)
      | (c', Inr tc) \<Rightarrow>
          ((alloc_cols [tc] c', m\<lparr>m_addrs := m_addrs m @ [length (c_Heap c')]\<rparr>), None))"
  by (simp add: add_def_def)

lemma defineColumn_Inr:
  assumes "defineColumn rel d c = (c', Inr tc)" and "\<not> cd_IsHidden d"
  shows "tc = spec_column rel d" and "c' = add_enums (enums_of rel [d]) c" and "new_types (enums_of rel [d]) c"
  using assms
  by (auto simp: defineColumn_def spec_column_def new_types_def Let_def split: option.splits prod.splits
      dest: createEnum_None)

lemma new_types_Cons:
  assumes "new_types ts c" and "new_types us (add_enums ts c)"
  shows "new_types (ts @ us) c"
proof (cases "ts = [] \<or> us = []")
  case False
  with assms(1) obtain i where i: "getSchema c (c_DefaultSchema c) = Inr i"
    and ts: "distinct (map type_name ts)" "type_name ` set ts \<inter> type_name ` set (s_Types (c_Schemas c ! i)) = {}"
    by (auto simp: new_types_def)
  from getSchema_Inr [OF i] have "s_Types (c_Schemas (add_enums ts c) ! i) = s_Types (c_Schemas c ! i) @ ts"
    by (simp add: add_enums_def i schemas_upd_schema)
  with assms(2) False i ts show ?thesis by (auto simp: new_types_def)
qed (use assms in \<open>auto\<close>)

lemma fresh_addrs_Cons:
  "length (c_Heap d) = Suc (length (c_Heap c)) \<Longrightarrow>
     fresh_addrs c (x # xs) = length (c_Heap c) # fresh_addrs d xs"
  by (simp add: fresh_addrs_def upt_conv_Cons del: upt_Suc)

lemma add_defs_effect:
  assumes "each (add_def rel) ds (c, m) = ((c', m'), None)" and "m_seen m = Map.empty"
  shows "c' = alloc_cols (map (spec_column rel) (shown ds)) (add_enums (enums_of rel ds) c) \<and>
    m' = m\<lparr>m_addrs := m_addrs m @ fresh_addrs c (map (spec_column rel) (shown ds))\<rparr> \<and>
    new_types (enums_of rel ds) c"
  using assms
proof (induction ds arbitrary: c m)
  case Nil
  then show ?case by (simp add: shown_def fresh_addrs_def alloc_cols_def new_types_def)
next
  case (Cons d ds)
  show ?case
  proof (cases "cd_IsHidden d")
    case True
    with Cons.prems have "each (add_def rel) ds (c, m) = ((c', m'), None)" by (simp add: add_def_hidden)
    from Cons.IH [OF this Cons.prems(2)] True show ?thesis by (simp add: shown_def)
  next
    case False
    obtain c1 r where def: "defineColumn rel d c = (c1, r)" by fastforce
    with Cons.prems False obtain tc where r: "r = Inr tc"
      by (cases r) (auto simp: add_def_new)
    note eff = defineColumn_Inr [OF def [unfolded r] False]
    let ?m = "m\<lparr>m_addrs := m_addrs m @ [length (c_Heap c1)]\<rparr>"
    have "each (add_def rel) ds (alloc_cols [tc] c1, ?m) = ((c', m'), None)"
      using Cons.prems False def r by (simp add: add_def_new)
    from Cons.IH [OF this] Cons.prems(2)
    have c': "c' = alloc_cols (map (spec_column rel) (shown ds)) (add_enums (enums_of rel ds) (alloc_cols [tc] c1))"
      and m': "m' = ?m\<lparr>m_addrs := m_addrs ?m @ fresh_addrs (alloc_cols [tc] c1) (map (spec_column rel) (shown ds))\<rparr>"
      and new: "new_types (enums_of rel ds) (alloc_cols [tc] c1)" by simp_all
    have enums: "enums_of rel (d # ds) = enums_of rel [d] @ enums_of rel ds"
      by (simp split: option.split)
    from new have "new_types (enums_of rel ds) c1" by (simp add: new_types_def)
    with eff have "new_types (enums_of rel (d # ds)) c"
      unfolding enums by (simp only: new_types_Cons)
    moreover have "c' = alloc_cols (map (spec_column rel) (shown (d # ds))) (add_enums (enums_of rel (d # ds)) c)"
      unfolding c' enums eff(1,2) using False
      by (simp only: add_enums_alloc add_enums_append [symmetric]) (simp add: alloc_cols_def shown_def)
    moreover have "m' = m\<lparr>m_addrs := m_addrs m @ fresh_addrs c (map (spec_column rel) (shown (d # ds)))\<rparr>"
      unfolding m' eff(1,2) using False
      by (simp add: shown_def fresh_addrs_Cons [of "alloc_cols [spec_column rel d] (add_enums (enums_of rel [d]) c)"])
    ultimately show ?thesis by blast
  qed
qed

section \<open>Creating and dropping a table\<close>

text \<open>A statement without \<open>USING\<close> and \<open>INHERITS\<close>, and one that also has no \<open>LIKE\<close>.\<close>

definition single_create :: "createTableStmt \<Rightarrow> bool" where
  "single_create stmt \<longleftrightarrow> ct_Using stmt = [] \<and> ct_Inherits stmt = []"

definition plain_create :: "createTableStmt \<Rightarrow> bool" where
  "plain_create stmt \<longleftrightarrow> ct_Using stmt = [] \<and> ct_Inherits stmt = [] \<and> ct_ReferTable stmt = None"

text \<open>The columns that \<open>LIKE\<close> copies, and those of a new table.\<close>

definition like_columns :: "createTableStmt \<Rightarrow> catalog \<Rightarrow> column list" where
  "like_columns stmt c =
     (case ct_ReferTable stmt of
        None \<Rightarrow> []
      | Some rel \<Rightarrow> (case GetTable c rel of Inl e \<Rightarrow> [] | Inr t \<Rightarrow> cols_of c t))"

definition new_columns :: "createTableStmt \<Rightarrow> column list" where
  "new_columns stmt = map (spec_column (ct_Name stmt)) (shown (ct_Cols stmt))"

definition created_columns :: "createTableStmt \<Rightarrow> catalog \<Rightarrow> column list" where
  "created_columns stmt c = like_columns stmt c @ new_columns stmt"

lemma plain_created: "plain_create stmt \<Longrightarrow> single_create stmt \<and> created_columns stmt c = new_columns stmt"
  by (simp add: plain_create_def single_create_def created_columns_def like_columns_def)

definition new_table :: "createTableStmt \<Rightarrow> catalog \<Rightarrow> table" where
  "new_table stmt c =
     \<lparr>tbl_Rel = ct_Name stmt, tbl_Columns = fresh_addrs c (created_columns stmt c), tbl_Comment = ct_Comment stmt\<rparr>"

lemma mark_none: "fold (mark_not_null Map.empty) as c = c"
  by (induction as) (simp_all add: mark_not_null_def)

lemma alloc_cols_append: "alloc_cols ds (alloc_cols cs c) = alloc_cols (cs @ ds) c"
  by (simp add: alloc_cols_def)

lemma fresh_addrs_append: "fresh_addrs c cs @ fresh_addrs (alloc_cols cs c) ds = fresh_addrs c (cs @ ds)"
  by (rule nth_equalityI) (auto simp: fresh_addrs_def alloc_cols_def nth_append)

lemma refer_columns_effect:
  assumes "refer_columns (ct_ReferTable stmt) c m = ((c1, m1), None)"
  shows "c1 = alloc_cols (like_columns stmt c) c" "m1 = m\<lparr>m_addrs := m_addrs m @ fresh_addrs c (like_columns stmt c)\<rparr>"
  using assms
  by (auto simp: refer_columns_def like_columns_def GetTable_def fresh_addrs_def alloc_cols_def Let_def
      split: option.splits sum.splits)

lemma createTable_effect:
  assumes single: "single_create stmt" and run: "createTable stmt c = (c', None)"
    and absent: "getTable c (ct_Name stmt) = Inl e"
  obtains i where "getSchema c (ns_of c (tn_Schema (ct_Name stmt))) = Inr i"
    and "schema_getTable (c_Schemas c ! i) (ct_Name stmt) = Inl e"
    and "new_types (enums_of (ct_Name stmt) (ct_Cols stmt)) c"
    and "c' = add_enums (enums_of (ct_Name stmt) (ct_Cols stmt))
                (upd_schema i (add_table (new_table stmt c)) (alloc_cols (created_columns stmt c) c))"
proof -
  from single run absent obtain i where i: "getSchema c (ns_of c (tn_Schema (ct_Name stmt))) = Inr i"
    and free: "schema_getTable (c_Schemas c ! i) (ct_Name stmt) = Inl e"
    and body: "create_body i stmt c = (c', None)"
    by (auto simp: createTable_def single_create_def getTable_via_schema the_schema_def split: sum.splits if_splits)
  let ?m = "\<lparr>m_seen = Map.empty, m_coltype = Map.empty, m_addrs = []\<rparr>"
  have inh: "inherit_columns c i (ct_Inherits stmt) = (?m, None)"
    using single by (simp add: single_create_def inherit_columns_def)
  from body obtain c1 m1 where like: "refer_columns (ct_ReferTable stmt) c ?m = ((c1, m1), None)"
    by (auto simp: create_body_def inh split: prod.splits option.splits)
  note ref = refer_columns_effect [OF like]
  obtain c2 m2 r where defs: "each (add_def (ct_Name stmt)) (ct_Cols stmt) (c1, m1) = ((c2, m2), r)"
    by (metis surj_pair)
  with body like have "r = None" by (cases r) (auto simp: create_body_def inh)
  note eff = add_defs_effect [OF defs [unfolded this]]
  have addrs: "m_addrs m2 = tbl_Columns (new_table stmt c)" and seen: "m_seen m2 = Map.empty"
    using eff ref fresh_addrs_append [of c "like_columns stmt c"] by (simp_all add: new_table_def created_columns_def new_columns_def)
  have c': "c' = upd_schema i (add_table (new_table stmt c)) c2"
    using body defs \<open>r = None\<close> like addrs seen
    by (auto simp: create_body_def inh mark_none Let_def) (simp add: new_table_def)
  have c2: "c2 = add_enums (enums_of (ct_Name stmt) (ct_Cols stmt)) (alloc_cols (created_columns stmt c) c)"
    using eff ref by (simp add: new_columns_def created_columns_def add_enums_alloc alloc_cols_append)
  have "c' = add_enums (enums_of (ct_Name stmt) (ct_Cols stmt))
                (upd_schema i (add_table (new_table stmt c)) (alloc_cols (created_columns stmt c) c))"
    unfolding c' c2 by (subst add_enums_upd_tables) (simp_all add: add_table_def)
  moreover have "new_types (enums_of (ct_Name stmt) (ct_Cols stmt)) c"
    using eff ref by (simp add: new_types_def)
  ultimately show thesis using i free that by simp
qed

lemma nth_fresh: "map (\<lambda>a. (c_Heap c @ cs) ! a) (fresh_addrs c cs) = cs"
  by (rule nth_equalityI) (simp_all add: fresh_addrs_def nth_append)

lemma add_enums_tables:
  "s_Tables (c_Schemas (add_enums ts c) ! i) = s_Tables (c_Schemas c ! i)"
  by (cases "getSchema c (c_DefaultSchema c)")
     (auto simp: add_enums_def schemas_upd_schema nth_list_update dest: getSchema_Inr)

text \<open>C8: after a successful \<open>CREATE TABLE\<close> without \<open>USING\<close> and \<open>INHERITS\<close> of a table that was not there, looking
  the table up gives a table whose columns are copies of those of the table after \<open>LIKE\<close>, if there is one, and then
  those of the statement, in order, without the hidden ones; a column with a list of values has the enum named after
  the table and the column.\<close>

theorem createTable_then_GetTable:
  assumes "ct_Using stmt = []" and "ct_Inherits stmt = []" and "createTable stmt c = (c', None)"
    and "getTable c (ct_Name stmt) = Inl e"
  shows "\<exists>t. GetTable c' (ct_Name stmt) = Inr t \<and> tbl_Rel t = ct_Name stmt \<and>
             tbl_Comment t = ct_Comment stmt \<and>
             cols_of c' t = like_columns stmt c @ map (spec_column (ct_Name stmt)) (shown (ct_Cols stmt))"
proof -
  from assms(1,2) have "single_create stmt" by (simp add: single_create_def)
  from createTable_effect [OF this assms(3,4)] obtain i where
    i: "getSchema c (ns_of c (tn_Schema (ct_Name stmt))) = Inr i"
    and free: "schema_getTable (c_Schemas c ! i) (ct_Name stmt) = Inl e"
    and c': "c' = add_enums (enums_of (ct_Name stmt) (ct_Cols stmt))
                (upd_schema i (add_table (new_table stmt c)) (alloc_cols (created_columns stmt c) c))" by blast
  have "ns_of c' n = ns_of c n" for n by (simp add: c' ns_of_def)
  then have i': "getSchema c' (ns_of c' (tn_Schema (ct_Name stmt))) = Inr i"
    using i by (simp add: c' getSchema_upd_schema add_table_def)
  have tabs: "s_Tables (c_Schemas c' ! i) = s_Tables (c_Schemas c ! i) @ [new_table stmt c]"
    using getSchema_Inr [OF i] by (simp add: c' add_enums_tables schemas_upd_schema add_table_def)
  have found: "schema_getTable (c_Schemas c' ! i) (ct_Name stmt) = Inr (length (s_Tables (c_Schemas c ! i)))"
    using free by (simp add: schema_getTable_def tabs find_idx_append new_table_def split: option.splits)
  have "GetTable c' (ct_Name stmt) = Inr (new_table stmt c)"
    by (simp add: GetTable_def getTable_via_schema i' found the_table_def tabs)
  moreover have "cols_of c' (new_table stmt c) = created_columns stmt c"
    using nth_fresh [of c "created_columns stmt c"] by (simp add: cols_of_def c' new_table_def)
  ultimately show ?thesis by (auto simp: new_table_def new_columns_def created_columns_def)
qed

lemma linked_types_new:
  assumes "cols_of c t = map (spec_column rel) (shown ds)"
  shows "linked_types c t = map (\<lambda>e. named_type (type_name e)) (enums_of rel ds)"
  unfolding linked_types_def assms
  by (induction ds) (auto simp: shown_def spec_column_def column_of_def_def split: option.split)

lemma drop_new_types:
  "new_types ts c \<Longrightarrow> dropType (map (\<lambda>e. named_type (type_name e)) ts) False (add_enums ts c) = (c, None)"
proof (induction ts)
  case Nil
  then show ?case by (simp add: dropType_def)
next
  case (Cons t ts)
  from Cons.prems obtain i where i: "getSchema c (c_DefaultSchema c) = Inr i"
    and fresh: "type_name t \<notin> type_name ` set (s_Types (c_Schemas c ! i))"
    and rest: "new_types ts c"
    by (auto simp: new_types_def)
  let ?d = "add_enums (t # ts) c" and ?n = "length (s_Types (c_Schemas c ! i))"
  from getSchema_Inr [OF i] have types: "s_Types (c_Schemas ?d ! i) = s_Types (c_Schemas c ! i) @ t # ts"
    by (simp add: add_enums_def i schemas_upd_schema)
  have "find_idx (\<lambda>u. type_name u = type_name t) (s_Types (c_Schemas c ! i)) = None"
    using fresh by (simp add: find_idx_None_iff image_iff eq_commute [of "type_name t"])
  then have "schema_getType (c_Schemas ?d ! i) (named_type (type_name t)) = Inr ?n"
    by (simp add: schema_getType_def types find_idx_append)
  then have "drop_one_type False (named_type (type_name t)) ?d = (upd_schema i (del_type ?n) ?d, None)"
    by (simp add: drop_one_type_def getSchema_default_eq i the_schema_def)
  also have "upd_schema i (del_type ?n) ?d = add_enums ts c"
    using getSchema_Inr [OF i]
    by (simp add: add_enums_def i upd_schema_comp upd_schema_def del_type_def remove_at_def)
  finally show ?case using Cons.IH [OF rest] by (simp add: dropType_def)
qed

text \<open>C28: \<open>DROP TABLE\<close> undoes a \<open>CREATE TABLE\<close> without \<open>USING\<close>, \<open>INHERITS\<close> and \<open>LIKE\<close>: right after a successful
  creation of a table that was not there, dropping it succeeds and gives back every schema as it was, the enums created for its columns
  removed with it; only the store has grown, by the columns of the dropped table.\<close>

theorem create_then_drop:
  assumes "plain_create stmt" and "createTable stmt c = (c', None)"
    and "getTable c (ct_Name stmt) = Inl e"
  shows "dropTable [ct_Name stmt] ie c' = (alloc_cols (new_columns stmt) c, None)"
proof -
  from plain_created [OF assms(1)] have single: "single_create stmt"
    and cols: "created_columns stmt d = new_columns stmt" for d by simp_all
  from createTable_effect [OF single assms(2,3)] obtain i where
    i: "getSchema c (ns_of c (tn_Schema (ct_Name stmt))) = Inr i"
    and free: "schema_getTable (c_Schemas c ! i) (ct_Name stmt) = Inl e"
    and new: "new_types (enums_of (ct_Name stmt) (ct_Cols stmt)) c"
    and c': "c' = add_enums (enums_of (ct_Name stmt) (ct_Cols stmt))
                (upd_schema i (add_table (new_table stmt c)) (alloc_cols (new_columns stmt) c))"
    unfolding cols by blast
  let ?d = "upd_schema i (add_table (new_table stmt c)) (alloc_cols (new_columns stmt) c)"
  let ?n = "length (s_Tables (c_Schemas c ! i))"
  have "ns_of c' n = ns_of c n" for n by (simp add: c' ns_of_def)
  then have i': "getSchema c' (ns_of c' (tn_Schema (ct_Name stmt))) = Inr i"
    using i by (simp add: c' getSchema_upd_schema add_table_def)
  have tabs: "s_Tables (c_Schemas c' ! i) = s_Tables (c_Schemas c ! i) @ [new_table stmt c]"
    using getSchema_Inr [OF i] by (simp add: c' add_enums_tables schemas_upd_schema add_table_def)
  have found: "schema_getTable (the_schema c' i) (ct_Name stmt) = Inr ?n"
    using free by (simp add: the_schema_def schema_getTable_def tabs find_idx_append new_table_def split: option.splits)
  have "cols_of c' (new_table stmt c) = map (spec_column (ct_Name stmt)) (shown (ct_Cols stmt))"
    using nth_fresh [of c "new_columns stmt"] by (simp add: cols_of_def c' new_table_def cols) (simp add: new_columns_def)
  from linked_types_new [OF this] have lt: "linked_types c' (the_table c' i ?n)
      = map (\<lambda>t. named_type (type_name t)) (enums_of (ct_Name stmt) (ct_Cols stmt))"
    by (simp add: the_table_def tabs)
  have "new_types (enums_of (ct_Name stmt) (ct_Cols stmt)) ?d"
    using new by (simp add: new_types_def getSchema_upd_schema types_upd_schema add_table_def)
  from drop_new_types [OF this] have "dropType (linked_types c' (the_table c' i ?n)) False c' = (?d, None)"
    unfolding lt by (simp only: c')
  then have "drop_one_table ie (ct_Name stmt) c' = (upd_schema i (del_table ?n) ?d, None)"
    by (simp add: drop_one_table_def i' found)
  also have "upd_schema i (del_table ?n) ?d = alloc_cols (new_columns stmt) c"
    using getSchema_Inr [OF i] by (simp add: upd_schema_def del_table_def add_table_def alloc_cols_def)
  finally show ?thesis by (simp add: dropTable_def)
qed

section \<open>Examples\<close>

text \<open>\<open>CREATE TABLE t (id int NOT NULL, mood ENUM('sad', 'ok'))\<close> on an empty catalog.\<close>

definition ex_col :: "string \<Rightarrow> string \<Rightarrow> bool \<Rightarrow> valNode list option \<Rightarrow> columnDef" where
  "ex_col n ty nn vals =
     \<lparr>cd_Colname = n, cd_TypeName = named_type ty, cd_IsNotNull = nn, cd_IsUnsigned = False,
      cd_IsArray = False, cd_ArrayDims = 0, cd_Vals = vals, cd_Length = None, cd_IsHidden = False,
      cd_Comment = []\<rparr>"

definition ex_create :: "string \<Rightarrow> columnDef list \<Rightarrow> string list \<Rightarrow> createTableStmt" where
  "ex_create n cols inhs =
     \<lparr>ct_IfNotExists = False, ct_Name = named_table n, ct_Cols = cols, ct_ReferTable = None,
      ct_Comment = [], ct_Inherits = map named_table inhs, ct_Using = []\<rparr>"

definition ex_t :: createTableStmt where
  "ex_t = ex_create ''t'' [ex_col ''id'' ''int'' True None,
            ex_col ''mood'' ''enum'' False (Some [StringNode ''sad'', StringNode ''ok''])] []"

lemma ex_t_runs:
  "plain_create ex_t" "snd (createTable ex_t (New ''public'')) = None"
  "getTable (New ''public'') (ct_Name ex_t) = Inl (SqlErr (RelationNotFound ''t''))"
  by code_simp+

lemma ex_t_pair: "createTable ex_t (New ''public'') = (fst (createTable ex_t (New ''public'')), None)"
  using ex_t_runs(2) by (rule ran_ok)

text \<open>\<open>CREATE TABLE w (LIKE t, n int)\<close> after it.\<close>

definition ex_like :: createTableStmt where
  "ex_like = (ex_create ''w'' [ex_col ''n'' ''int'' True None] [])\<lparr>ct_ReferTable := Some (named_table ''t'')\<rparr>"

lemma ex_like_runs:
  "ct_Using ex_like = []" "ct_Inherits ex_like = []"
  "snd (createTable ex_like (fst (createTable ex_t (New ''public'')))) = None"
  "getTable (fst (createTable ex_t (New ''public''))) (ct_Name ex_like) = Inl (SqlErr (RelationNotFound ''w''))"
  "map col_Name (like_columns ex_like (fst (createTable ex_t (New ''public''))) @
     map (spec_column (ct_Name ex_like)) (shown (ct_Cols ex_like))) = [''id'', ''mood'', ''n'']"
  by code_simp+

theorem createTable_then_GetTable_witness:
  "\<exists>t. GetTable (fst (createTable ex_like (fst (createTable ex_t (New ''public''))))) (ct_Name ex_like) = Inr t \<and>
       map col_Name (cols_of (fst (createTable ex_like (fst (createTable ex_t (New ''public''))))) t) = [''id'', ''mood'', ''n'']"
  using createTable_then_GetTable [OF ex_like_runs(1,2) ran_ok [OF ex_like_runs(3)] ex_like_runs(4)] ex_like_runs(5)
  by metis

theorem create_then_drop_witness:
  "dropTable [ct_Name ex_t] False (fst (createTable ex_t (New ''public''))) =
     (alloc_cols (new_columns ex_t) (New ''public''), None)"
  by (rule create_then_drop [OF ex_t_runs(1) ex_t_pair ex_t_runs(3)])

theorem Update_keeps_ok_witness:
  "catalog_ok (fst (Update (None :: unit columnGenerator) (Some (CreateTableStmt ex_t)) (New ''public'')))"
  by (rule Update_keeps_ok) simp

theorem reachable_ok_witness:
  "catalog_ok (fst (Update (None :: unit columnGenerator) (Some (CreateTableStmt ex_t)) (New ''public''))) \<and>
   config_of (fst (Update (None :: unit columnGenerator) (Some (CreateTableStmt ex_t)) (New ''public'')))
     = config_of (New ''public'') \<and>
   length (c_Heap (New ''public'')) \<le>
     length (c_Heap (fst (Update (None :: unit columnGenerator) (Some (CreateTableStmt ex_t)) (New ''public''))))"
proof -
  let ?u = "Update (None :: unit columnGenerator) (Some (CreateTableStmt ex_t)) (New ''public'')"
  have "reachable (None :: unit columnGenerator) (New ''public'') (fst ?u)"
    by (rule reachable.step [OF reachable.start, where r = "snd ?u"]) simp
  from reachable_ok [OF this] show ?thesis by simp
qed

end
