(* ===== verification/Catalog_Props.thy ===== *)
theory Catalog_Props
  imports Catalog_Create
begin

text \<open>
  The functional behaviour of the statements of the catalog, seen through its lookups: what a dropped
  or renamed table, a renamed type and an extended enum look like afterwards, which failing statements
  leave the catalog as it was, what overload resolution returns, and the corner cases in which a
  statement does less or more than its SQL says.
\<close>

section \<open>Dropping and renaming tables\<close>

lemma catalog_ok_tables:
  "catalog_ok c \<Longrightarrow> i < length (c_Schemas c) \<Longrightarrow> distinct (map table_name (s_Tables (c_Schemas c ! i)))"
  by (auto dest: catalog_ok_schema simp: schema_ok_def)

lemma del_table_gone:
  assumes "distinct (map table_name (s_Tables s))" and "schema_getTable s rel = Inr j"
  shows "schema_getTable (del_table j s) rel = Inl (SqlErr (RelationNotFound (tn_Name rel)))"
proof -
  from assms(2) have "table_idx s (tn_Name rel) = Some j"
    by (simp add: schema_getTable_idx split: option.splits)
  from tables.lookup_del_gone [OF assms(1) this] show ?thesis by (simp add: schema_getTable_idx)
qed

lemma ns_of_config: "config_of d = config_of c \<Longrightarrow> ns_of d n = ns_of c n"
  by (simp add: config_of_def ns_of_def)

lemma drop_one_table_gone:
  assumes ok: "catalog_ok c" and run: "drop_one_table ie rel c = (c', None)"
  shows "\<exists>e. getTable c' rel = Inl e \<and> is_not_found e"
proof (cases "getTable c rel")
  case (Inl e)
  with run have "c' = c"
    by (auto simp: drop_one_table_def getTable_via_schema the_schema_def split: sum.splits if_splits)
  with Inl show ?thesis by (auto dest: getTable_Inl)
next
  case (Inr ij)
  then obtain i j where i: "getSchema c (ns_of c (tn_Schema rel)) = Inr i"
    and j: "schema_getTable (c_Schemas c ! i) rel = Inr j"
    by (auto simp: getTable_via_schema split: sum.splits)
  with run obtain d where d: "dropType (linked_types c (the_table c i j)) False c = (d, None)"
    and c': "c' = upd_schema i (del_table j) d"
    by (auto simp: drop_one_table_def the_schema_def split: prod.splits option.splits)
  from d have frame: "tables_frame c d" by (metis dropType_frame fst_conv)
  have "ns_of c' n = ns_of c n" for n
    by (rule ns_of_config) (metis c' config_upd(1) catalog_op.keeps_config d dropType_op fst_conv)
  with i have i': "getSchema c' (ns_of c' (tn_Schema rel)) = Inr i"
    unfolding c' by (simp add: getSchema_upd_schema del_table_def tables_frame_getSchema [OF frame])
  note bound = getSchema_Inr [OF i, THEN conjunct1]
  have "schema_getTable (del_table j (c_Schemas d ! i)) rel = Inl (SqlErr (RelationNotFound (tn_Name rel)))"
    using catalog_ok_tables [OF ok bound] j tables_frame_getTable [OF frame bound]
    by (intro del_table_gone) (simp_all add: tables_frame_nth [OF frame bound])
  then show ?thesis
    using bound by (simp add: getTable_via_schema i') (simp add: c' schemas_upd_schema tables_frame_length [OF frame])
qed

text \<open>C27: after a successful \<open>DROP TABLE\<close>, with or without \<open>IF EXISTS\<close>, looking the table up reports that it
  does not exist.\<close>

theorem dropTable_then_GetTable:
  assumes "catalog_ok c" and "dropTable [rel] ie c = (c', None)"
  shows "\<exists>e. GetTable c' rel = Inl e \<and> is_not_found e"
proof -
  from assms(2) have "drop_one_table ie rel c = (c', None)"
    by (auto simp: dropTable_def split: prod.splits option.splits)
  from drop_one_table_gone [OF assms(1) this] show ?thesis by (auto simp: GetTable_def)
qed

theorem dropTable_then_GetTable_witness:
  "\<exists>e. GetTable (fst (dropTable [named_table ''t''] True (fst (createTable ex_t (New ''public''))))) (named_table ''t'')
         = Inl e \<and> is_not_found e"
proof (rule dropTable_then_GetTable)
  show "catalog_ok (fst (createTable ex_t (New ''public'')))" by code_simp
  have "snd (dropTable [named_table ''t''] True (fst (createTable ex_t (New ''public'')))) = None" by code_simp
  then show "dropTable [named_table ''t''] True (fst (createTable ex_t (New ''public''))) =
      (fst (dropTable [named_table ''t''] True (fst (createTable ex_t (New ''public'')))), None)"
    by (rule ran_ok)
qed

lemma rename_linked_frame: "tables_frame c (fst (rename_linked new a c))"
  by (simp add: rename_linked_def renameType_frame)

lemma rename_lookup:
  assumes "schema_getTable s rel = Inr j" and "schema_getTable s (named_table new) = Inl e"
    and "distinct (map table_name (s_Tables s))" and "table_name t = new"
  shows "schema_getTable (s\<lparr>s_Tables := (s_Tables s)[j := t]\<rparr>) (rel\<lparr>tn_Name := new\<rparr>) = Inr j"
    and "schema_getTable (s\<lparr>s_Tables := (s_Tables s)[j := t]\<rparr>) rel = Inl (SqlErr (RelationNotFound (tn_Name rel)))"
proof -
  let ?ns = "map table_name (s_Tables s)"
  from schema_getTable_Inr [OF assms(1)] have j: "j < length ?ns" "?ns ! j = tn_Name rel" by auto
  from schema_getTable_Inl [OF assms(2)] have new: "new \<notin> set ?ns" by auto
  have names: "map table_name ((s_Tables s)[j := t]) = ?ns[j := new]"
    using assms(4) by (simp add: map_update)
  have split: "?ns[j := new] = take j ?ns @ new # drop (Suc j) ?ns"
    using j by (simp add: upd_conv_take_nth_drop)
  have "find_idx (\<lambda>m. m = new) (take j ?ns @ new # drop (Suc j) ?ns) = Some j"
    using new j find_idx_None_iff [of "\<lambda>m. m = new" "take j ?ns"]
    by (auto simp: find_idx_append dest: in_set_takeD)
  then show "schema_getTable (s\<lparr>s_Tables := (s_Tables s)[j := t]\<rparr>) (rel\<lparr>tn_Name := new\<rparr>) = Inr j"
    by (simp add: schema_getTable_def find_idx_key [of table_name] names split)
  have "tn_Name rel \<notin> set (remove_at j ?ns)"
    using remove_at_notin [OF assms(3) j(1)] j(2) by simp
  moreover have "tn_Name rel \<noteq> new" using new j by (metis nth_mem)
  ultimately have "find_idx (\<lambda>m. m = tn_Name rel) (?ns[j := new]) = None"
    unfolding split by (auto simp: find_idx_None_iff remove_at_def)
  then show "schema_getTable (s\<lparr>s_Tables := (s_Tables s)[j := t]\<rparr>) rel = Inl (SqlErr (RelationNotFound (tn_Name rel)))"
    by (simp add: schema_getTable_def find_idx_key [of table_name] names)
qed

text \<open>C20: after a successful \<open>ALTER TABLE ... RENAME TO\<close> on a catalog that satisfies the invariant, looking the table up
  under its new name gives it with the columns it had, and under the old name the schema has no table any more; when a
  column has an enum of its own, that the enum is renamed too does not disturb either.\<close>

theorem renameTable_then_GetTable:
  assumes ok: "catalog_ok c" and old: "getTable c rel = Inr (i, j)"
    and run: "renameTable rel (Some new) mo c = (c', None)"
  shows "GetTable c' (rel\<lparr>tn_Name := new\<rparr>) =
           Inr ((the_table c i j)\<lparr>tbl_Rel := (tbl_Rel (the_table c i j))\<lparr>tn_Name := new\<rparr>\<rparr>) \<and>
         GetTable c' rel = Inl (SqlErr (RelationNotFound (tn_Name rel)))"
proof -
  from old have i: "getSchema c (ns_of c (tn_Schema rel)) = Inr i"
    and j: "schema_getTable (c_Schemas c ! i) rel = Inr j"
    by (auto simp: getTable_via_schema split: sum.splits)
  let ?f = "\<lambda>t. t\<lparr>tbl_Rel := (tbl_Rel t)\<lparr>tn_Name := new\<rparr>\<rparr>" and ?s = "c_Schemas c ! i"
  let ?d = "upd_table i j ?f c"
  from old run obtain e where free: "schema_getTable ?s (named_table new) = Inl e"
    and c': "c' = fst (each (rename_linked new) (tbl_Columns (the_table ?d i j)) ?d)"
    by (auto simp: renameTable_def the_schema_def Let_def split: sum.splits)
  have frame: "tables_frame ?d c'"
    unfolding c' by (rule tables_frame_each) (rule rename_linked_frame)
  have "config_of c' = config_of c"
    unfolding c' by (simp add: catalog_op.keeps_config [OF catalog_op_each [OF rename_linked_op]])
  then have ns: "ns_of c' n = ns_of c n" for n by (rule ns_of_config)
  note bound = getSchema_Inr [OF i, THEN conjunct1]
  have sd: "c_Schemas ?d ! i = ?s\<lparr>s_Tables := (s_Tables ?s)[j := ?f (s_Tables ?s ! j)]\<rparr>" "i < length (c_Schemas ?d)"
    using bound by (simp_all add: upd_table_def schemas_upd_schema)
  have i': "getSchema c' (ns_of c' (tn_Schema rel)) = Inr i"
    using i by (simp add: ns tables_frame_getSchema [OF frame] upd_table_def getSchema_upd_schema)
  note look = rename_lookup [OF j free catalog_ok_tables [OF ok bound], of "?f (s_Tables ?s ! j)", simplified]
  from schema_getTable_Inr [OF j] have "the_table c' i j = ?f (the_table c i j)"
    using tables_frame_nth(1) [OF frame sd(2)] by (simp add: the_table_def sd(1))
  then show ?thesis
    using look tables_frame_getTable [OF frame sd(2)] i'
    by (simp add: GetTable_def getTable_via_schema sd(1))
qed

theorem renameTable_then_GetTable_witness:
  "GetTable (fst (renameTable (named_table ''t'') (Some ''u'') False (fst (createTable ex_t (New ''public'')))))
      ((named_table ''t'')\<lparr>tn_Name := ''u''\<rparr>) =
     Inr ((the_table (fst (createTable ex_t (New ''public''))) 0 0)\<lparr>tbl_Rel :=
        (tbl_Rel (the_table (fst (createTable ex_t (New ''public''))) 0 0))\<lparr>tn_Name := ''u''\<rparr>\<rparr>) \<and>
   GetTable (fst (renameTable (named_table ''t'') (Some ''u'') False (fst (createTable ex_t (New ''public'')))))
      (named_table ''t'') = Inl (SqlErr (RelationNotFound (tn_Name (named_table ''t''))))"
proof (rule renameTable_then_GetTable)
  show "catalog_ok (fst (createTable ex_t (New ''public'')))" by code_simp
  show "getTable (fst (createTable ex_t (New ''public''))) (named_table ''t'') = Inr (0, 0)" by code_simp
  have "snd (renameTable (named_table ''t'') (Some ''u'') False (fst (createTable ex_t (New ''public'')))) = None"
    by code_simp
  then show "renameTable (named_table ''t'') (Some ''u'') False (fst (createTable ex_t (New ''public''))) =
      (fst (renameTable (named_table ''t'') (Some ''u'') False (fst (createTable ex_t (New ''public'')))), None)"
    by (rule ran_ok)
qed

section \<open>Types\<close>

lemma insert_value_eq:
  "k \<le> length vals \<Longrightarrow> insert_value vals k new = take k vals @ new # drop k vals"
proof (cases "k = length vals")
  case False
  assume "k \<le> length vals"
  with False have k: "k < length vals" by simp
  then have "(take k vals @ vals ! k # drop k vals)[k := new] = take k vals @ new # drop k vals"
    by (simp add: list_update_append)
  with k show ?thesis by (simp add: insert_value_def take_Suc_conv_app_nth)
qed (simp add: insert_value_def)

lemma insert_index_le: "insert_index vals nb after = Some k \<Longrightarrow> k \<le> length vals"
  by (auto simp: insert_index_def dest!: find_idx_less split: if_splits)

text \<open>Where the statement asks for the new value: next to its neighbour or at the end.\<close>

definition asked_position :: "alterTypeAddValueStmt \<Rightarrow> string list \<Rightarrow> nat \<Rightarrow> bool" where
  "asked_position stmt vals k \<longleftrightarrow>
     (if av_NewValHasNeighbor stmt
      then \<exists>nb i. av_NewValNeighbor stmt = Some nb \<and> i < length vals \<and> vals ! i = nb \<and>
             k = (if av_NewValIsAfter stmt then Suc i else i)
      else k = length vals)"

lemma add_value_Some:
  assumes "add_value n vals stmt = Inr (Some vals')"
  shows "\<exists>new k. av_NewValue stmt = Some new \<and> new \<notin> set vals \<and> asked_position stmt vals k \<and>
           vals' = take k vals @ new # drop k vals"
proof -
  from assms obtain new where new: "av_NewValue stmt = Some new" "new \<notin> set vals"
    by (auto simp: add_value_def find_last_idx_None_iff split: option.splits if_splits)
  show ?thesis
  proof (cases "av_NewValHasNeighbor stmt")
    case False
    with assms new show ?thesis
      by (auto simp: add_value_def asked_position_def insert_value_eq split: option.splits if_splits)
  next
    case True
    with assms new obtain nb k where nb: "av_NewValNeighbor stmt = Some nb"
      and k: "insert_index vals nb (av_NewValIsAfter stmt) = Some k" and v: "vals' = insert_value vals k new"
      by (auto simp: add_value_def split: option.splits if_splits)
    from k nb True have "asked_position stmt vals k"
      by (auto simp: insert_index_def asked_position_def dest!: find_idx_SomeD)
    with new v insert_index_le [OF k] show ?thesis by (auto simp: insert_value_eq)
  qed
qed

text \<open>A successful \<open>ALTER TYPE ... ADD VALUE\<close> either finds the value there already (and was told to skip
  it), or inserts the new value, which the enum did not have, right before or after its neighbour or
  at the end; the other values keep their order, and nothing else in the catalog changes.\<close>

theorem alterTypeAddValue_effect:
  assumes "getType c (av_Type stmt) = Inr (i, j)"
    and "s_Types (the_schema c i) ! j = Enum n vals cm"
    and "alterTypeAddValue stmt c = (c', None)"
  shows "(c' = c \<and> av_SkipIfNewValExists stmt \<and> (\<exists>new \<in> set vals. av_NewValue stmt = Some new)) \<or>
         (\<exists>new k. av_NewValue stmt = Some new \<and> new \<notin> set vals \<and> asked_position stmt vals k \<and>
            c' = upd_type i j (\<lambda>_. Enum n (take k vals @ new # drop k vals) cm) c)"
proof -
  from assms(1) have i: "getSchema c (ns_of c (ty_Schema (av_Type stmt))) = Inr i"
    and j: "schema_getType (the_schema c i) (av_Type stmt) = Inr j"
    by (auto simp: getType_def the_schema_def split: sum.splits)
  with assms(2,3) consider (skip) "add_value n vals stmt = Inr None" "c' = c"
    | (add) vals' where "add_value n vals stmt = Inr (Some vals')" "c' = upd_type i j (\<lambda>_. Enum n vals' cm) c"
    by (auto simp: alterTypeAddValue_def split: sum.splits option.splits)
  then show ?thesis
  proof cases
    case skip
    then show ?thesis
      by (auto simp: add_value_def find_last_idx_None_iff split: option.splits if_splits)
  next
    case add
    with add_value_Some [OF add(1)] show ?thesis by metis
  qed
qed

definition ex_enum :: catalog where
  "ex_enum = fst (createEnum (named_type ''mood'') [StringNode ''sad'', StringNode ''happy''] (New ''public''))"

definition ex_add :: alterTypeAddValueStmt where
  "ex_add = \<lparr>av_Type = named_type ''mood'', av_NewValue = Some ''ok'', av_NewValHasNeighbor = True,
     av_NewValNeighbor = Some ''happy'', av_NewValIsAfter = False, av_SkipIfNewValExists = False\<rparr>"

theorem alterTypeAddValue_effect_witness:
  "(fst (alterTypeAddValue ex_add ex_enum) = ex_enum \<and> av_SkipIfNewValExists ex_add \<and>
      (\<exists>new \<in> set [''sad'', ''happy'']. av_NewValue ex_add = Some new)) \<or>
   (\<exists>new k. av_NewValue ex_add = Some new \<and> new \<notin> set [''sad'', ''happy''] \<and>
      asked_position ex_add [''sad'', ''happy''] k \<and>
      fst (alterTypeAddValue ex_add ex_enum) =
        upd_type 0 0 (\<lambda>_. Enum ''mood'' (take k [''sad'', ''happy''] @ new # drop k [''sad'', ''happy'']) []) ex_enum)"
proof (rule alterTypeAddValue_effect)
  show "getType ex_enum (av_Type ex_add) = Inr (0, 0)" by code_simp
  show "s_Types (the_schema ex_enum 0) ! 0 = Enum ''mood'' [''sad'', ''happy''] []" by code_simp
  have "snd (alterTypeAddValue ex_add ex_enum) = None" by code_simp
  then show "alterTypeAddValue ex_add ex_enum = (fst (alterTypeAddValue ex_add ex_enum), None)" by (rule ran_ok)
qed

text \<open>A successful \<open>ALTER TYPE ... RENAME VALUE\<close> replaces one occurrence of the old value by the new one,
  at the same position; the new value was not in the enum, so an enum without repeated values stays
  without.\<close>

theorem alterTypeRenameValue_effect:
  assumes "getType c ty = Inr (i, j)" and "s_Types (the_schema c i) ! j = Enum n vals cm"
    and "alterTypeRenameValue ty (Some old) (Some new) c = (c', None)"
  shows "\<exists>k < length vals. vals ! k = old \<and> new \<notin> set vals \<and>
           c' = upd_type i j (\<lambda>_. Enum n (vals[k := new]) cm) c \<and>
           (distinct vals \<longrightarrow> distinct (vals[k := new]))"
proof -
  from assms(1) have i: "getSchema c (ns_of c (ty_Schema ty)) = Inr i"
    and j: "schema_getType (the_schema c i) ty = Inr j"
    by (auto simp: getType_def the_schema_def split: sum.splits)
  with assms(2,3) obtain k where k: "find_last_idx (\<lambda>v. v = old) vals = Some k"
    and new: "find_last_idx (\<lambda>v. v = new) vals = None"
    and c': "c' = upd_type i j (\<lambda>_. Enum n (vals[k := new]) cm) c"
    by (auto simp: alterTypeRenameValue_def rename_value_def split: sum.splits option.splits if_splits)
  from new have "new \<notin> set vals" by (auto simp: find_last_idx_None_iff)
  with find_last_idx_SomeD [OF k] c' show ?thesis by (auto intro: distinct_list_update)
qed

theorem alterTypeRenameValue_effect_witness:
  "\<exists>k < length [''sad'', ''happy'']. [''sad'', ''happy''] ! k = ''sad'' \<and> ''blue'' \<notin> set [''sad'', ''happy''] \<and>
     fst (alterTypeRenameValue (named_type ''mood'') (Some ''sad'') (Some ''blue'') ex_enum) =
       upd_type 0 0 (\<lambda>_. Enum ''mood'' ([''sad'', ''happy''][k := ''blue'']) []) ex_enum \<and>
     (distinct [''sad'', ''happy''] \<longrightarrow> distinct ([''sad'', ''happy''][k := ''blue'']))"
proof (rule alterTypeRenameValue_effect)
  show "getType ex_enum (named_type ''mood'') = Inr (0, 0)" by code_simp
  show "s_Types (the_schema ex_enum 0) ! 0 = Enum ''mood'' [''sad'', ''happy''] []" by code_simp
  have "snd (alterTypeRenameValue (named_type ''mood'') (Some ''sad'') (Some ''blue'') ex_enum) = None" by code_simp
  then show "alterTypeRenameValue (named_type ''mood'') (Some ''sad'') (Some ''blue'') ex_enum =
     (fst (alterTypeRenameValue (named_type ''mood'') (Some ''sad'') (Some ''blue'') ex_enum), None)" by (rule ran_ok)
qed

text \<open>The loop of \<open>renameType\<close> over the columns, for a type given by the statement itself.  Visiting a
  shared column twice does no harm, as it no longer has the old type.\<close>

lemma rename_columns_fold:
  assumes "ty_Name ty \<noteq> new" and "\<forall>a \<in> set as. a < length (c_Heap c)"
  shows "c_Heap (fold (rename_column_type (TypeVal ty) new) as c) ! b =
           (if b \<in> set as \<and> col_Type (c_Heap c ! b) = ty
            then (c_Heap c ! b)\<lparr>col_Type := ty\<lparr>ty_Name := new\<rparr>\<rparr> else c_Heap c ! b)"
  using assms(2)
proof (induction as arbitrary: c)
  case (Cons a as)
  from assms(1) have "ty\<lparr>ty_Name := new\<rparr> \<noteq> ty" by (metis typeName.select_convs(3) typeName.surjective typeName.update_convs(3))
  moreover have "\<forall>x \<in> set as. x < length (c_Heap (rename_column_type (TypeVal ty) new a c))"
    using Cons.prems by (simp add: rename_column_type_def)
  ultimately show ?case
    using Cons.IH Cons.prems by (auto simp: rename_column_type_def upd_col_def nth_list_update)
qed simp

lemma catalog_ok_columns: "catalog_ok c \<Longrightarrow> a \<in> set (all_columns c) \<Longrightarrow> a < length (c_Heap c)"
  by (fastforce simp: catalog_ok_def schema_ok_def all_columns_def)

text \<open>A successful \<open>ALTER TYPE ... RENAME TO\<close> renames the type in its schema, and of all the columns in the
  catalog exactly those whose type is the renamed one get the new name; every other column, and every
  table, stays as it was.\<close>

theorem renameType_effect:
  assumes ok: "catalog_ok c" and run: "renameType (TypeVal ty) (Some new) c = (c', None)"
  shows "\<exists>i j. getType c ty = Inr (i, j) \<and> tables_frame c c' \<and>
     (\<forall>a. c_Heap c' ! a =
        (if a \<in> set (all_columns c) \<and> col_Type (c_Heap c ! a) = ty
         then (c_Heap c ! a)\<lparr>col_Type := ty\<lparr>ty_Name := new\<rparr>\<rparr> else c_Heap c ! a))"
proof -
  from run obtain i j e where i: "getSchema c (ns_of c (ty_Schema ty)) = Inr i"
    and j: "schema_getType (the_schema c i) ty = Inr j"
    and free: "schema_getType (the_schema c i) (named_type new) = Inl e"
    and c': "c' = fold (rename_column_type (TypeVal ty) new) (all_columns (upd_type i j (renamed new) c))
                   (upd_type i j (renamed new) c)"
    by (auto simp: renameType_def Let_def split: sum.splits)
  let ?d = "upd_type i j (renamed new) c"
  have "map s_Tables (c_Schemas ?d) = map s_Tables (c_Schemas c)"
    using list_update_same_key [of s_Tables _ "c_Schemas c" i] by (simp add: upd_type_def schemas_upd_schema)
  from arg_cong [OF this, of "\<lambda>tss. concat (map (\<lambda>ts. concat (map tbl_Columns ts)) tss)"]
  have cols: "all_columns ?d = all_columns c" by (simp add: all_columns_def comp_def)
  have heap: "c_Heap ?d = c_Heap c" by (simp add: upd_type_def)
  from schema_getType_Inr [OF j] have "ty_Name ty \<in> type_name ` set (s_Types (the_schema c i))"
    by (metis image_eqI nth_mem)
  with schema_getType_Inl [OF free] have "ty_Name ty \<noteq> new" by auto
  note loop = rename_columns_fold [OF this, of "all_columns c" ?d]
  from loop catalog_ok_columns [OF ok] have
    "c_Heap c' ! a = (if a \<in> set (all_columns c) \<and> col_Type (c_Heap c ! a) = ty
         then (c_Heap c ! a)\<lparr>col_Type := ty\<lparr>ty_Name := new\<rparr>\<rparr> else c_Heap c ! a)" for a
    by (simp add: c' cols heap)
  moreover have "tables_frame c c'" using renameType_frame [of c "TypeVal ty" "Some new"] run by simp
  moreover have "getType c ty = Inr (i, j)" using i j by (simp add: getType_def the_schema_def)
  ultimately show ?thesis by blast
qed

text \<open>A table with a column of the enum.\<close>

definition ex_typed :: catalog where
  "ex_typed = fst (createTable (ex_create ''t'' [ex_col ''m'' ''mood'' False None] []) ex_enum)"

theorem renameType_effect_witness:
  "\<exists>i j. getType ex_typed (named_type ''mood'') = Inr (i, j) \<and>
     tables_frame ex_typed (fst (renameType (TypeVal (named_type ''mood'')) (Some ''m'') ex_typed)) \<and>
     (\<forall>a. c_Heap (fst (renameType (TypeVal (named_type ''mood'')) (Some ''m'') ex_typed)) ! a =
        (if a \<in> set (all_columns ex_typed) \<and> col_Type (c_Heap ex_typed ! a) = named_type ''mood''
         then (c_Heap ex_typed ! a)\<lparr>col_Type := (named_type ''mood'')\<lparr>ty_Name := ''m''\<rparr>\<rparr> else c_Heap ex_typed ! a))"
proof (rule renameType_effect)
  show "catalog_ok ex_typed" by code_simp
  have "snd (renameType (TypeVal (named_type ''mood'')) (Some ''m'') ex_typed) = None" by code_simp
  then show "renameType (TypeVal (named_type ''mood'')) (Some ''m'') ex_typed =
     (fst (renameType (TypeVal (named_type ''mood'')) (Some ''m'') ex_typed), None)" by (rule ran_ok)
qed

end
