(* ===== verification/Catalog_Corner.thy ===== *)
theory Catalog_Corner
  imports Catalog_Props
begin

text \<open>
  Errors and corner cases of the catalog: the statements that leave the catalog untouched when they
  fail, the ones that do not, overload resolution, and the cases in which a statement does less or
  more than its SQL says.
\<close>

section \<open>Failing statements\<close>

text \<open>The statements whose checks all come before their first write.\<close>

fun checks_first :: "'q stmt \<Rightarrow> bool" where
  "checks_first (AlterTypeAddValueStmt _) = True"
| "checks_first (AlterTypeRenameValueStmt _ _ _) = True"
| "checks_first (AlterTypeSetSchemaStmt _ _) = True"
| "checks_first (CommentOnColumnStmt _ _ _) = True"
| "checks_first (CommentOnSchemaStmt _ _) = True"
| "checks_first (CommentOnTableStmt _ _) = True"
| "checks_first (CommentOnTypeStmt _ _) = True"
| "checks_first (CommentOnViewStmt _ _) = True"
| "checks_first (CompositeTypeStmt _) = True"
| "checks_first (CreateEnumStmt _ _) = True"
| "checks_first (CreateFunctionStmt _ _ _ _) = True"
| "checks_first (CreateSchemaStmt _ _) = True"
| "checks_first (CreateTableAsStmt _ _) = True"
| "checks_first (ViewStmt _ _ _) = True"
| "checks_first (RenameTypeStmt _ _) = True"
| "checks_first (DropFunctionStmt fs _) = (length fs \<le> 1)"
| "checks_first (DropSchemaStmt ns _) = (length ns \<le> 1)"
| "checks_first (DropTypeStmt ts _) = (length ts \<le> 1)"
| "checks_first _ = False"

lemma each_single: "each f xs c = (c', Some e) \<Longrightarrow> length xs \<le> Suc 0 \<Longrightarrow> \<exists>x. f x c = (c', Some e)"
  by (cases xs) (auto split: prod.splits option.splits)

lemma drop_one_fails:
  "drop_one_function mo f c = (c', Some e) \<Longrightarrow> c' = c"
  "drop_one_schema mo n c = (c', Some e) \<Longrightarrow> c' = c"
  "drop_one_type mo ty c = (c', Some e) \<Longrightarrow> c' = c"
  by (auto simp: drop_one_function_def drop_one_schema_def drop_one_type_def
      split: sum.splits option.splits if_splits)

lemma alterTypes_fail:
  "alterTypeAddValue s c = (c', Some e) \<Longrightarrow> c' = c"
  "alterTypeRenameValue ty old new c = (c', Some e) \<Longrightarrow> c' = c"
  "alterTypeSetSchema ty ns c = (c', Some e) \<Longrightarrow> c' = c"
  "renameType r n c = (c', Some e) \<Longrightarrow> c' = c"
  by (auto simp: alterTypeAddValue_def alterTypeRenameValue_def alterTypeSetSchema_def renameType_def Let_def
      split: sum.splits option.splits ctype.splits)

lemma comments_fail:
  "commentOnColumn t col cm c = (c', Some e) \<Longrightarrow> c' = c"
  "commentOnSchema n cm c = (c', Some e) \<Longrightarrow> c' = c"
  "commentOnTable t cm c = (c', Some e) \<Longrightarrow> c' = c"
  "commentOnType ty cm c = (c', Some e) \<Longrightarrow> c' = c"
  "commentOnView t cm c = (c', Some e) \<Longrightarrow> c' = c"
  by (auto simp: commentOnColumn_def commentOnSchema_def commentOnTable_def commentOnType_def
      commentOnView_def split: sum.splits option.splits)

lemma creates_fail:
  "createCompositeType ty c = (c', Some e) \<Longrightarrow> c' = c"
  "createEnum ty vals c = (c', Some e) \<Longrightarrow> c' = c"
  "createFunction f ps ret rep c = (c', Some e) \<Longrightarrow> c' = c"
  "createSchema n ine c = (c', Some e) \<Longrightarrow> c' = c"
  "createTableAs q rv gen c = (c', Some e) \<Longrightarrow> c' = c"
  "createView q rv rep gen c = (c', Some e) \<Longrightarrow> c' = c"
  by (auto simp: createCompositeType_def createEnum_def createFunction_def createSchema_def
      createTableAs_def createView_def Let_def split: sum.splits option.splits if_splits)

lemmas fails_clean = alterTypes_fail comments_fail creates_fail

text \<open>C29: every statement on types, comments, functions, schemas, views and \<open>CREATE TABLE AS\<close> that fails
  leaves the catalog exactly as it was; so does a \<open>DROP\<close> of a single function, schema or type.\<close>

theorem failed_statement_no_effect:
  assumes "checks_first st" and "update_stmt gen st c = (c', Some e)"
  shows "c' = c"
  using assms
  by (cases st) (auto dest: fails_clean drop_one_fails each_single
      simp: dropFunction_def dropSchema_def dropType_def)

theorem failed_statement_no_effect_witness:
  "fst (update_stmt None (CreateEnumStmt (named_type ''mood'') [] :: unit stmt) ex_enum) = ex_enum"
proof (rule failed_statement_no_effect)
  show "checks_first (CreateEnumStmt (named_type ''mood'') [] :: unit stmt)" by simp
  have "snd (update_stmt None (CreateEnumStmt (named_type ''mood'') [] :: unit stmt) ex_enum)
      = Some (SqlErr (TypeExists ''mood''))" by code_simp
  then show "update_stmt None (CreateEnumStmt (named_type ''mood'') [] :: unit stmt) ex_enum =
     (fst (update_stmt None (CreateEnumStmt (named_type ''mood'') [] :: unit stmt) ex_enum),
      Some (SqlErr (TypeExists ''mood'')))" by (rule ran_err)
qed

section \<open>Overload resolution\<close>

lemma list_funcs_mem:
  "list_funcs c n nss = Inr fs \<Longrightarrow> f \<in> set fs \<longleftrightarrow>
     (\<exists>ns \<in> set nss. \<exists>i. getSchema c ns = Inr i \<and> f \<in> set (s_Funcs (the_schema c i)) \<and>
        ToLower (f_Name f) = ToLower n)"
  by (induction nss arbitrary: fs) (auto split: sum.splits)

lemma list_funcs_defined:
  "(\<forall>ns \<in> set nss. \<exists>i. getSchema c ns = Inr i) \<Longrightarrow> \<exists>fs. list_funcs c n nss = Inr fs"
  by (induction nss) (auto split: sum.split)

lemma split_args_counts:
  "split_args loc as p ns = Inr (p', ns') \<Longrightarrow>
     p' + length ns' = p + length ns + length as"
  by (induction loc as p ns rule: split_args.induct) (auto split: if_splits)

text \<open>The number of arguments a function takes: all of them, less those with a default.\<close>

definition arity_ok :: "func \<Rightarrow> nat \<Rightarrow> bool" where
  "arity_ok f n \<longleftrightarrow>
     int (length (InArgs f)) - int (count_defaults (InArgs f)) \<le> int n \<and>
     (is_variadic (InArgs f) \<or> n \<le> length (InArgs f))"

lemma accepts_arity: "accepts f p ns \<Longrightarrow> arity_ok f (p + length ns)"
  by (auto simp: accepts_def arity_ok_def Let_def split: if_splits)

lemma resolve_cases:
  assumes "ResolveFuncCall c call = Inr f"
  obtains funs p ns where "ListFuncsByName c (fc_Func call) = Inr funs" "f \<in> set funs"
    "split_args (fc_Location call) (case fc_Args call of None \<Rightarrow> [] | Some as \<Rightarrow> as) 0 [] = Inr (p, ns)"
    "accepts f p ns"
proof -
  from assms obtain funs where funs: "ListFuncsByName c (fc_Func call) = Inr funs" "funs \<noteq> []"
    by (auto simp: ResolveFuncCall_def split: sum.splits list.splits)
  then obtain g gs where gs: "funs = g # gs" by (cases funs) auto
  from assms funs(1) gs obtain p ns where
    "split_args (fc_Location call) (case fc_Args call of None \<Rightarrow> [] | Some as \<Rightarrow> as) 0 [] = Inr (p, ns)"
    "find (\<lambda>f. accepts f p ns) funs = Some f"
    by (auto simp: ResolveFuncCall_def split: sum.splits prod.splits option.splits)
  with funs(1) that show thesis by (metis find_Some_iff nth_mem)
qed

text \<open>C9: the function a call resolves to is one of a searched schema, has the called name up to case, takes
  that many arguments (counting defaults, and any number when it is variadic) and has a parameter for
  each argument passed by name.\<close>

theorem ResolveFuncCall_sound:
  assumes "ResolveFuncCall c call = Inr f"
  shows "(\<exists>ns \<in> set (schemasToSearch c (fn_Schema (fc_Func call))). \<exists>i.
            getSchema c ns = Inr i \<and> f \<in> set (s_Funcs (the_schema c i))) \<and>
         ToLower (f_Name f) = ToLower (fn_Name (fc_Func call)) \<and>
         (\<forall>as. fc_Args call = Some as \<longrightarrow> arity_ok f (length as)) \<and>
         (\<exists>p ns. split_args (fc_Location call) (case fc_Args call of None \<Rightarrow> [] | Some as \<Rightarrow> as) 0 [] = Inr (p, ns) \<and>
            (\<forall>n. Some n \<in> set ns \<longrightarrow> n \<in> set (known_names (InArgs f))))"
proof -
  from assms obtain funs p ns where funs: "ListFuncsByName c (fc_Func call) = Inr funs" "f \<in> set funs"
    and split: "split_args (fc_Location call) (case fc_Args call of None \<Rightarrow> [] | Some as \<Rightarrow> as) 0 [] = Inr (p, ns)"
    and acc: "accepts f p ns" by (rule resolve_cases)
  have "\<forall>as. fc_Args call = Some as \<longrightarrow> arity_ok f (length as)"
    using accepts_arity [OF acc] split_args_counts [OF split] by auto
  moreover have "\<forall>n. Some n \<in> set ns \<longrightarrow> n \<in> set (known_names (InArgs f))"
    using acc by (auto simp: accepts_def Let_def list_all_iff split: if_splits option.splits)
  ultimately show ?thesis
    using list_funcs_mem [OF funs(1) [unfolded ListFuncsByName_def], of f] funs(2) split by blast
qed

text \<open>C10: when every searched schema exists and one of them has a function of that name that accepts the
  arguments, the call resolves, and to a function that accepts them.\<close>

theorem ResolveFuncCall_complete:
  assumes schemas: "\<forall>ns \<in> set (schemasToSearch c (fn_Schema (fc_Func call))). \<exists>i. getSchema c ns = Inr i"
    and f: "ns \<in> set (schemasToSearch c (fn_Schema (fc_Func call)))" "getSchema c ns = Inr i"
      "f \<in> set (s_Funcs (the_schema c i))" "ToLower (f_Name f) = ToLower (fn_Name (fc_Func call))"
    and call: "fc_Args call = Some as" "split_args (fc_Location call) as 0 [] = Inr (p, named)"
    and acc: "accepts f p named"
  shows "\<exists>g. ResolveFuncCall c call = Inr g \<and> accepts g p named"
proof -
  from list_funcs_defined [OF schemas] obtain funs where funs: "ListFuncsByName c (fc_Func call) = Inr funs"
    by (auto simp: ListFuncsByName_def)
  from list_funcs_mem [OF this [unfolded ListFuncsByName_def], of f] f have mem: "f \<in> set funs" by blast
  then obtain h hs where hs: "funs = h # hs" by (cases funs) auto
  from mem acc obtain g where g: "find (\<lambda>f. accepts f p named) funs = Some g" "accepts g p named"
    by (cases "find (\<lambda>f. accepts f p named) funs") (auto simp: find_None_iff find_Some_iff)
  then have "ResolveFuncCall c call = Inr g"
    unfolding ResolveFuncCall_def using funs hs call by simp
  with g(2) show ?thesis by blast
qed

text \<open>\<open>CREATE FUNCTION add(a int, b int DEFAULT 1)\<close>, called as \<open>ADD(1)\<close>.\<close>

definition ex_params :: "funcParam list" where
  "ex_params = [\<lparr>fp_Name = Some ''a'', fp_Type = named_type ''int'', fp_HasDefExpr = False, fp_Mode = FuncParamIn\<rparr>,
                \<lparr>fp_Name = Some ''b'', fp_Type = named_type ''int'', fp_HasDefExpr = True, fp_Mode = FuncParamIn\<rparr>]"

definition ex_fn :: "string \<Rightarrow> funcName" where
  "ex_fn n = \<lparr>fn_Catalog = [], fn_Schema = [], fn_Name = n\<rparr>"

definition ex_funcs :: catalog where
  "ex_funcs = fst (createFunction (ex_fn ''add'') ex_params (Some (named_type ''int'')) False (New ''public''))"

definition ex_call :: funcCall where
  "ex_call = \<lparr>fc_Func = ex_fn ''ADD'', fc_Args = Some [Positional], fc_Location = 0\<rparr>"

definition ex_add_func :: func where
  "ex_add_func = func_of_stmt (ex_fn ''add'') ex_params (Some (named_type ''int''))"

theorem ResolveFuncCall_sound_witness:
  "(\<exists>ns \<in> set (schemasToSearch ex_funcs (fn_Schema (fc_Func ex_call))). \<exists>i.
      getSchema ex_funcs ns = Inr i \<and> ex_add_func \<in> set (s_Funcs (the_schema ex_funcs i))) \<and>
   ToLower (f_Name ex_add_func) = ToLower (fn_Name (fc_Func ex_call)) \<and> arity_ok ex_add_func 1"
proof -
  have "ResolveFuncCall ex_funcs ex_call = Inr ex_add_func" by code_simp
  note found = ResolveFuncCall_sound [OF this]
  moreover have "fc_Args ex_call = Some [Positional]" by code_simp
  with found have "arity_ok ex_add_func (length [Positional])" by blast
  then have "arity_ok ex_add_func 1" by simp
  ultimately show ?thesis by blast
qed

theorem ResolveFuncCall_complete_witness:
  "\<exists>g. ResolveFuncCall ex_funcs ex_call = Inr g \<and> accepts g 1 []"
proof (rule ResolveFuncCall_complete)
  have "schemasToSearch ex_funcs (fn_Schema (fc_Func ex_call)) = [''public'']"
    and 0: "getSchema ex_funcs ''public'' = Inr 0" by code_simp+
  then show "\<forall>ns \<in> set (schemasToSearch ex_funcs (fn_Schema (fc_Func ex_call))). \<exists>i. getSchema ex_funcs ns = Inr i"
    and "''public'' \<in> set (schemasToSearch ex_funcs (fn_Schema (fc_Func ex_call)))"
    by simp_all
  show "getSchema ex_funcs ''public'' = Inr 0" by (rule 0)
  show "ex_add_func \<in> set (s_Funcs (the_schema ex_funcs 0))" by code_simp
  show "ToLower (f_Name ex_add_func) = ToLower (fn_Name (fc_Func ex_call))" by code_simp
  show "fc_Args ex_call = Some [Positional]" by code_simp
  show "split_args (fc_Location ex_call) [Positional] 0 [] = Inr (1, [])" by code_simp
  show "accepts ex_add_func 1 []" by code_simp
qed

section \<open>Corner cases\<close>

lemma find_last_idx_snoc: "P x \<Longrightarrow> find_last_idx P (xs @ [x]) = Some (length xs)"
  by (induction xs) auto

text \<open>\<open>CREATE SCHEMA IF NOT EXISTS\<close> on a schema that exists (other than the default one) is not a no-op: it
  appends a second, empty schema of that name, and the next \<open>DROP SCHEMA\<close> removes the copy, so the
  schema and its tables survive being dropped.\<close>

theorem createSchema_if_not_exists_survives_drop:
  assumes "getSchema c n = Inr i" and "n \<noteq> c_DefaultSchema c"
  shows "dropSchema [n] mo (fst (createSchema (Some n) True c)) = (c, None)"
  using assms
  by (simp add: createSchema_def dropSchema_def drop_one_schema_def add_schema_def del_schema_def
      find_last_idx_snoc empty_schema_def)

definition ex_two_schemas :: catalog where
  "ex_two_schemas = fst (createSchema (Some ''s'') False (New ''public''))"

theorem createSchema_if_not_exists_survives_drop_witness:
  "dropSchema [''s''] False (fst (createSchema (Some ''s'') True ex_two_schemas)) = (ex_two_schemas, None)"
  by (rule createSchema_if_not_exists_survives_drop [where i = 1]) code_simp+

text \<open>\<open>ALTER TABLE ... SET SCHEMA\<close> to a schema that does not exist fails, but the table already carries the
  missing schema's name: the catalog has changed.\<close>

theorem alterTableSetSchema_missing_schema:
  assumes table: "getTable c rel = Inr (i, j)" and missing: "getSchema c ns = Inl e"
  shows "alterTableSetSchema rel (Some ns) mo c =
           (upd_table i j (\<lambda>t. t\<lparr>tbl_Rel := (tbl_Rel t)\<lparr>tn_Schema := ns\<rparr>\<rparr>) c, Some e)"
proof -
  from table have i: "getSchema c (ns_of c (tn_Schema rel)) = Inr i"
    and j: "schema_getTable (the_schema c i) rel = Inr j"
    by (auto simp: getTable_via_schema the_schema_def split: sum.splits)
  from missing have "getSchema (upd_table i j f c) ns = Inl e" for f
    by (simp add: upd_table_def getSchema_upd_schema)
  with i j show ?thesis by (simp add: alterTableSetSchema_def)
qed

theorem alterTableSetSchema_missing_schema_witness:
  "alterTableSetSchema (named_table ''t'') (Some ''nope'') False (fst (createTable ex_t (New ''public''))) =
     (upd_table 0 0 (\<lambda>t. t\<lparr>tbl_Rel := (tbl_Rel t)\<lparr>tn_Schema := ''nope''\<rparr>\<rparr>) (fst (createTable ex_t (New ''public''))),
      Some (SqlErr (SchemaNotFound ''nope'')))"
  by (rule alterTableSetSchema_missing_schema) code_simp+

text \<open>
  \<open>CREATE TABLE p (a int)\<close>, then \<open>CREATE TABLE k (a int NOT NULL) INHERITS (p)\<close>: the child holds the
  parent's own column pointer.
\<close>

definition ex_parent :: catalog where
  "ex_parent = fst (createTable (ex_create ''p'' [ex_col ''a'' ''int'' False None] []) (New ''public''))"

definition ex_child :: createTableStmt where
  "ex_child = ex_create ''k'' [ex_col ''a'' ''int'' True None] [''p'']"

text \<open>a child table that redeclares an inherited column \<open>NOT NULL\<close> makes the parent's column \<open>NOT NULL\<close> too,
  as the two tables share the column.\<close>

theorem inherits_changes_parent:
  "map col_IsNotNull (cols_of ex_parent (the_table ex_parent 0 0)) = [False] \<and>
   snd (createTable ex_child ex_parent) = None \<and>
   map col_IsNotNull (cols_of (fst (createTable ex_child ex_parent))
     (the_table (fst (createTable ex_child ex_parent)) 0 0)) = [True]"
proof (intro conjI)
  show "map col_IsNotNull (cols_of ex_parent (the_table ex_parent 0 0)) = [False]" by code_simp
  show "snd (createTable ex_child ex_parent) = None" by code_simp
  show "map col_IsNotNull (cols_of (fst (createTable ex_child ex_parent))
     (the_table (fst (createTable ex_child ex_parent)) 0 0)) = [True]" by code_simp
qed

text \<open>a function with an \<open>OUT\<close> parameter is never found as the function it is when it is created again: the
  lookup is given the types of all parameters but compares them with the number of in-parameters.  So
  creating it a second time, even without \<open>OR REPLACE\<close>, adds a second function instead of failing.\<close>

theorem createFunction_twice_with_out:
  assumes out: "\<exists>p \<in> set params. fp_Mode p = FuncParamOut"
    and only: "\<forall>g \<in> set (s_Funcs (the_schema c i)). EqualFold (f_Name g) (fn_Name fnm) \<longrightarrow>
                 g = func_of_stmt fnm params ret"
    and i: "getSchema c (ns_of c (fn_Schema fnm)) = Inr i"
  shows "createFunction fnm params ret rep c =
           (upd_schema i (\<lambda>s. s\<lparr>s_Funcs := s_Funcs s @ [func_of_stmt fnm params ret]\<rparr>) c, None)"
proof -
  let ?fn = "func_of_stmt fnm params ret"
  have "length (InArgs ?fn) < length params"
  proof -
    from out obtain p where p: "p \<in> set params" "fp_Mode p = FuncParamOut" by blast
    have "InArgs ?fn = filter (\<lambda>a. case arg_Mode a of FuncParamTable \<Rightarrow> False | FuncParamOut \<Rightarrow> False | _ \<Rightarrow> True) (f_Args ?fn)"
      by (simp add: InArgs_def)
    moreover have "\<exists>a \<in> set (f_Args ?fn). \<not> (case arg_Mode a of FuncParamTable \<Rightarrow> False | FuncParamOut \<Rightarrow> False | _ \<Rightarrow> True)"
      using p by (auto simp: func_of_stmt_def intro!: bexI [where x = p])
    ultimately have "length (InArgs ?fn) < length (f_Args ?fn)" using length_filter_less by metis
    then show ?thesis by (simp add: func_of_stmt_def)
  qed
  then have "\<forall>g \<in> set (s_Funcs (the_schema c i)). \<not> func_matches (fn_Name fnm) (map fp_Type params) g"
    using only by (auto simp: func_matches_def)
  then have "getFunc (the_schema c i) fnm (map fp_Type params) = Inl (SqlErr (RelationNotFound (fn_Name fnm)))"
    using find_idx_None_iff [of "func_matches (fn_Name fnm) (map fp_Type params)" "s_Funcs (the_schema c i)"]
    by (simp add: getFunc_def)
  with i show ?thesis by (simp add: createFunction_def)
qed

definition ex_out :: "funcParam list" where
  "ex_out = [\<lparr>fp_Name = Some ''r'', fp_Type = named_type ''int'', fp_HasDefExpr = False, fp_Mode = FuncParamOut\<rparr>]"

definition ex_out_func :: catalog where
  "ex_out_func = fst (createFunction (ex_fn ''f'') ex_out None False (New ''public''))"

theorem createFunction_twice_with_out_witness:
  "createFunction (ex_fn ''f'') ex_out None False ex_out_func =
     (upd_schema 0 (\<lambda>s. s\<lparr>s_Funcs := s_Funcs s @ [func_of_stmt (ex_fn ''f'') ex_out None]\<rparr>) ex_out_func, None)"
proof (rule createFunction_twice_with_out)
  show "\<exists>p \<in> set ex_out. fp_Mode p = FuncParamOut" by (simp add: ex_out_def)
  have "s_Funcs (the_schema ex_out_func 0) = [func_of_stmt (ex_fn ''f'') ex_out None]" by code_simp
  then show "\<forall>g \<in> set (s_Funcs (the_schema ex_out_func 0)). EqualFold (f_Name g) (fn_Name (ex_fn ''f'')) \<longrightarrow>
      g = func_of_stmt (ex_fn ''f'') ex_out None" by simp
  show "getSchema ex_out_func (ns_of ex_out_func (fn_Schema (ex_fn ''f''))) = Inr 0" by code_simp
qed

end
