(* ===== verification/GoStrings.thy ===== *)
theory GoStrings
  imports Sqlerr
begin

text \<open>
  The functions of Go's \<open>strings\<close>, \<open>strconv\<close> and \<open>bufio\<close> packages that the text-handling components
  call, on byte strings.  A slice expression \<open>s[i:j]\<close> panics when its bounds are out of range; an index
  that \<open>strings.Index\<close> does not find is \<open>None\<close> instead of -1.
\<close>

section \<open>Slices\<close>

definition substr :: "nat \<Rightarrow> nat \<Rightarrow> 'a list \<Rightarrow> 'a list" where
  "substr i j s = take (j - i) (drop i s)"

definition sub_slice :: "nat \<Rightarrow> nat \<Rightarrow> 'a list \<Rightarrow> error + 'a list" where
  "sub_slice i j s =
     (if i \<le> j \<and> j \<le> length s then Inr (substr i j s) else Inl (Panic ''slice bounds out of range''))"

lemma length_substr [simp]: "j \<le> length s \<Longrightarrow> length (substr i j s) = j - i"
  by (simp add: substr_def)

lemma substr_self [simp]: "substr i i s = []"
  by (simp add: substr_def)

lemma substr_full: "substr 0 (length s) s = s"
  by (simp add: substr_def)

lemma substr_append: "i \<le> j \<Longrightarrow> j \<le> k \<Longrightarrow> substr i j s @ substr j k s = substr i k s"
proof -
  assume "i \<le> j" "j \<le> k"
  then have "k - i = (j - i) + (k - j)" by simp
  then show ?thesis
    unfolding substr_def using \<open>i \<le> j\<close> by (simp only: take_add) simp
qed

lemma nth_substr: "i + k < j \<Longrightarrow> j \<le> length s \<Longrightarrow> substr i j s ! k = s ! (i + k)"
  by (simp add: substr_def)

section \<open>Prefixes, suffixes and searching\<close>

definition HasPrefix :: "string \<Rightarrow> string \<Rightarrow> bool" where
  "HasPrefix s p \<longleftrightarrow> take (length p) s = p"

definition HasSuffix :: "string \<Rightarrow> string \<Rightarrow> bool" where
  "HasSuffix s p \<longleftrightarrow> length p \<le> length s \<and> drop (length s - length p) s = p"

lemma HasPrefix_length: "HasPrefix s p \<Longrightarrow> length p \<le> length s"
  unfolding HasPrefix_def by (metis length_take min.cobounded1)

definition TrimPrefix :: "string \<Rightarrow> string \<Rightarrow> string" where
  "TrimPrefix s p = (if HasPrefix s p then drop (length p) s else s)"

definition TrimSuffix :: "string \<Rightarrow> string \<Rightarrow> string" where
  "TrimSuffix s p = (if HasSuffix s p then take (length s - length p) s else s)"

fun Index :: "string \<Rightarrow> string \<Rightarrow> nat option" where
  "Index [] sub = (if sub = [] then Some 0 else None)"
| "Index (c # s) sub = (if HasPrefix (c # s) sub then Some 0 else map_option Suc (Index s sub))"

definition IndexByte :: "string \<Rightarrow> char \<Rightarrow> nat option" where
  "IndexByte s b = find_idx (\<lambda>c. c = b) s"

definition Contains :: "string \<Rightarrow> string \<Rightarrow> bool" where
  "Contains s sub \<longleftrightarrow> Index s sub \<noteq> None"

text \<open>\<open>strings.ReplaceAll\<close> with a non-empty \<open>old\<close>, which is how the code calls it.\<close>

function ReplaceAll :: "string \<Rightarrow> string \<Rightarrow> string \<Rightarrow> string" where
  "ReplaceAll s old new =
     (if old = [] \<or> s = [] then s
      else if HasPrefix s old then new @ ReplaceAll (drop (length old) s) old new
      else hd s # ReplaceAll (tl s) old new)"
  by pat_completeness auto
termination by (relation "measure (\<lambda>(s, _, _). length s)") (auto simp: neq_Nil_conv)

declare ReplaceAll.simps [simp del]

text \<open>\<open>strings.Split\<close> with a one-byte separator: there is always at least one part.\<close>

fun split_byte :: "char \<Rightarrow> string \<Rightarrow> string list" where
  "split_byte b [] = [[]]"
| "split_byte b (c # s) =
     (if c = b then [] # split_byte b s
      else (case split_byte b s of [] \<Rightarrow> [[c]] | p # ps \<Rightarrow> (c # p) # ps))"

lemma split_byte_not_Nil [simp]: "split_byte b s \<noteq> []"
  by (cases "(b, s)" rule: split_byte.cases) (auto split: list.split)

lemma Join_split_byte: "Join (split_byte b s) [b] = s"
proof (induction s)
  case (Cons c s)
  obtain p ps where split: "split_byte b s = p # ps" by (meson neq_Nil_conv split_byte_not_Nil)
  with Cons show ?case by (cases ps) auto
qed simp

lemma Index_bound: "Index s sub = Some i \<Longrightarrow> i + length sub \<le> length s"
proof (induction s arbitrary: i)
  case (Cons c s)
  show ?case
  proof (cases "HasPrefix (c # s) sub")
    case True
    then have "length sub \<le> length (c # s)"
      unfolding HasPrefix_def by (metis length_take min.cobounded1)
    with True Cons.prems show ?thesis by simp
  next
    case False
    with Cons show ?thesis by auto
  qed
qed (simp split: if_splits)

section \<open>White space\<close>

text \<open>
  The UTF-8 encodings of the runes \<open>unicode.IsSpace\<close> accepts.  Encodings of runes are self-delimiting, so
  \<open>strings.TrimSpace\<close> strips these byte sequences from the two ends.
\<close>

definition space_runes :: "string list" where
  "space_runes =
     [[CHR 0x09], [CHR 0x0A], [CHR 0x0B], [CHR 0x0C], [CHR 0x0D], [CHR 0x20], [CHR 0xC2, CHR 0x85],
      [CHR 0xC2, CHR 0xA0], [CHR 0xE1, CHR 0x9A, CHR 0x80], [CHR 0xE2, CHR 0x80, CHR 0x80],
      [CHR 0xE2, CHR 0x80, CHR 0x81], [CHR 0xE2, CHR 0x80, CHR 0x82],
      [CHR 0xE2, CHR 0x80, CHR 0x83], [CHR 0xE2, CHR 0x80, CHR 0x84],
      [CHR 0xE2, CHR 0x80, CHR 0x85], [CHR 0xE2, CHR 0x80, CHR 0x86],
      [CHR 0xE2, CHR 0x80, CHR 0x87], [CHR 0xE2, CHR 0x80, CHR 0x88],
      [CHR 0xE2, CHR 0x80, CHR 0x89], [CHR 0xE2, CHR 0x80, CHR 0x8A],
      [CHR 0xE2, CHR 0x80, CHR 0xA8], [CHR 0xE2, CHR 0x80, CHR 0xA9],
      [CHR 0xE2, CHR 0x80, CHR 0xAF], [CHR 0xE2, CHR 0x81, CHR 0x9F],
      [CHR 0xE3, CHR 0x80, CHR 0x80]]"

lemma space_runes_length: "r \<in> set space_runes \<Longrightarrow> 0 < length r"
  by (auto simp: space_runes_def)

lemma space_runes_find: "find P space_runes = Some r \<Longrightarrow> s \<noteq> [] \<Longrightarrow> length s - length r < length s"
  by (auto simp: find_Some_iff intro!: diff_less space_runes_length)

function TrimLeftSpace :: "string \<Rightarrow> string" where
  "TrimLeftSpace s =
     (if s = [] then []
      else (case find (HasPrefix s) space_runes of
              None \<Rightarrow> s | Some r \<Rightarrow> TrimLeftSpace (drop (length r) s)))"
  by pat_completeness auto
termination
  by (relation "measure length") (auto intro: space_runes_find)

function TrimRightSpace :: "string \<Rightarrow> string" where
  "TrimRightSpace s =
     (if s = [] then []
      else (case find (HasSuffix s) space_runes of
              None \<Rightarrow> s | Some r \<Rightarrow> TrimRightSpace (take (length s - length r) s)))"
  by pat_completeness auto
termination
  by (relation "measure length") (auto intro: space_runes_find)

declare TrimLeftSpace.simps [simp del] TrimRightSpace.simps [simp del]

definition TrimSpace :: "string \<Rightarrow> string" where
  "TrimSpace s = TrimRightSpace (TrimLeftSpace s)"

section \<open>Numbers\<close>

definition is_digit_byte :: "char \<Rightarrow> bool" where
  "is_digit_byte c \<longleftrightarrow> 48 \<le> byte_of c \<and> byte_of c \<le> 57"

text \<open>\<open>%d\<close> and \<open>strconv.Itoa\<close> of a number that is not negative.\<close>

fun digits :: "nat \<Rightarrow> string" where
  "digits n = (if n < 10 then [char_of (n + 48)] else digits (n div 10) @ [char_of (n mod 10 + 48)])"

declare digits.simps [simp del]

definition Itoa :: "int \<Rightarrow> string" where
  "Itoa n = (if n < 0 then CHR ''-'' # digits (nat (- n)) else digits (nat n))"

text \<open>
  \<open>n, _ := strconv.Atoi(s)\<close> on a string of digits: a number above the largest \<open>int\<close> is clamped to it, as
  the error is dropped.
\<close>

definition max_int :: int where
  "max_int = 2 ^ 63 - 1"

definition digits_value :: "string \<Rightarrow> nat" where
  "digits_value s = foldl (\<lambda>n c. 10 * n + (byte_of c - 48)) 0 s"

definition Atoi_digits :: "string \<Rightarrow> int" where
  "Atoi_digits s = min (int (digits_value s)) max_int"

lemma digits_value_snoc [simp]: "digits_value (s @ [c]) = 10 * digits_value s + (byte_of c - 48)"
  by (simp add: digits_value_def)

lemma digits_value_digits: "digits_value (digits n) = n"
proof (induction n rule: digits.induct)
  case (1 n)
  have d: "m < 10 \<Longrightarrow> byte_of (char_of (m + 48) :: char) = m + 48" for m :: nat by simp
  show ?case
  proof (cases "n < 10")
    case True
    then show ?thesis using d [of n] by (subst digits.simps) (simp add: digits_value_def)
  next
    case False
    with 1 have "digits_value (digits (n div 10)) = n div 10" by simp
    then show ?thesis using False d [of "n mod 10"]
      by (subst digits.simps) (simp only: if_False digits_value_snoc, simp)
  qed
qed

text \<open>Printing a number and reading it back.\<close>

lemma Atoi_Itoa: "0 \<le> n \<Longrightarrow> n \<le> max_int \<Longrightarrow> Atoi_digits (Itoa n) = n"
  by (simp add: Atoi_digits_def Itoa_def digits_value_digits)

lemma Itoa_inj: "0 \<le> n \<Longrightarrow> 0 \<le> m \<Longrightarrow> Itoa n = Itoa m \<Longrightarrow> n = m"
  by (metis Itoa_def digits_value_digits linorder_not_less nat_eq_iff2 nat_0_le)

section \<open>Reading lines\<close>

text \<open>
  \<open>bufio.Scanner\<close> with \<open>ScanLines\<close>: the text up to each newline, without it and without a carriage return
  before it; an empty last line is not returned.  A line of 65536 bytes or more does not fit the
  buffer: \<open>Scan\<close> returns false there and \<open>Err\<close> reports \<open>ErrTooLong\<close>.
\<close>

definition max_token :: nat where
  "max_token = 65536"

definition drop_cr :: "string \<Rightarrow> string" where
  "drop_cr s = (if s \<noteq> [] \<and> last s = CHR 0x0D then butlast s else s)"

definition raw_lines :: "string \<Rightarrow> string list" where
  "raw_lines s =
     (let ls = split_byte CHR 0x0A s in if last ls = [] then butlast ls else ls)"

definition too_long :: error where
  "too_long = PlainErr ''bufio.Scanner: token too long''"

text \<open>The lines the scanner returns, and what \<open>Err\<close> returns afterwards.\<close>

definition scan_lines :: "string \<Rightarrow> string list \<times> error option" where
  "scan_lines s =
     (let ls = raw_lines s; good = takeWhile (\<lambda>l. length l < max_token) ls
      in (map drop_cr good, if length good = length ls then None else Some too_long))"

lemma scan_lines_all:
  "\<forall>l \<in> set (raw_lines s). length l < max_token \<Longrightarrow> scan_lines s = (map drop_cr (raw_lines s), None)"
  by (simp add: scan_lines_def Let_def takeWhile_eq_all_conv [THEN iffD2])

end
