(* ===== verification/Lexer.thy ===== *)
theory Lexer
  imports GoStrings
begin

text \<open>
  The dialects and the lexer of \<open>internal/sql/preprocess\<close> (\<open>dialect.go\<close>, \<open>lexer.go\<close>): skipping comments,
  string literals and quoted identifiers, and cutting a file into statements at its top-level
  semicolons.  Offsets are naturals; the -1 of a token that is not there is \<open>None\<close>.
\<close>

section \<open>Dialects\<close>

datatype style = StyleDollar | StyleQuestion | StyleOrdinal

record dialect =
  Style :: style
  AtSign :: bool
  DollarQuote :: bool
  DollarNumber :: bool
  Question :: bool
  Backtick :: bool
  HashComment :: bool
  DoubleQuoteString :: bool
  NestedBlockComment :: bool
  Backslash :: bool
  FoldIdentifier :: bool
  DollarName :: bool
  NoSlice :: bool

datatype engine =
    EngineMySQL | EnginePostgreSQL | EngineSQLite | EngineClickHouse | EngineGoogleSQL | EngineMSSQL
  | EngineDuckDB | OtherEngine string

definition zero_dialect :: dialect where
  "zero_dialect =
     \<lparr>Style = StyleDollar, AtSign = False, DollarQuote = False, DollarNumber = False, Question = False,
      Backtick = False, HashComment = False, DoubleQuoteString = False, NestedBlockComment = False,
      Backslash = False, FoldIdentifier = False, DollarName = False, NoSlice = False\<rparr>"

definition dialects :: "engine \<Rightarrow> dialect option" where
  "dialects engine =
     (case engine of
        EnginePostgreSQL \<Rightarrow>
          Some (zero_dialect\<lparr>Style := StyleDollar, AtSign := True, DollarQuote := True,
                  DollarNumber := True, NestedBlockComment := True, FoldIdentifier := True\<rparr>)
      | EngineMySQL \<Rightarrow>
          Some (zero_dialect\<lparr>Style := StyleQuestion, Question := True, Backtick := True,
                  HashComment := True, DoubleQuoteString := True, Backslash := True,
                  FoldIdentifier := True\<rparr>)
      | EngineSQLite \<Rightarrow>
          Some (zero_dialect\<lparr>Style := StyleOrdinal, AtSign := True, Question := True,
                  Backtick := True, Backslash := True\<rparr>)
      | EngineClickHouse \<Rightarrow>
          Some (zero_dialect\<lparr>Style := StyleQuestion, Question := True, Backtick := True,
                  Backslash := True\<rparr>)
      | EngineDuckDB \<Rightarrow>
          Some (zero_dialect\<lparr>Style := StyleDollar, AtSign := True, DollarQuote := True,
                  DollarNumber := True, DollarName := True, Question := True,
                  NestedBlockComment := True, FoldIdentifier := True, NoSlice := True\<rparr>)
      | _ \<Rightarrow> None)"

definition DialectFor :: "engine \<Rightarrow> dialect option" where
  "DialectFor engine = dialects engine"

definition dialect_hasNamedSupport :: "dialect \<Rightarrow> bool" where
  "dialect_hasNamedSupport d \<longleftrightarrow> Style d \<noteq> StyleQuestion"

section \<open>Bytes\<close>

record lexer =
  l_d :: dialect
  l_src :: string

abbreviation src_len :: "lexer \<Rightarrow> nat" where
  "src_len l \<equiv> length (l_src l)"

definition isIdentStart :: "char \<Rightarrow> bool" where
  "isIdentStart c \<longleftrightarrow>
     c = CHR ''_'' \<or> (97 \<le> byte_of c \<and> byte_of c \<le> 122) \<or> (65 \<le> byte_of c \<and> byte_of c \<le> 90) \<or>
     128 \<le> byte_of c"

definition isDigit :: "char \<Rightarrow> bool" where
  "isDigit c \<longleftrightarrow> 48 \<le> byte_of c \<and> byte_of c \<le> 57"

definition isIdentPart :: "char \<Rightarrow> bool" where
  "isIdentPart c \<longleftrightarrow> isIdentStart c \<or> (48 \<le> byte_of c \<and> byte_of c \<le> 57) \<or> c = CHR ''$''"

definition isSpace :: "char \<Rightarrow> bool" where
  "isSpace c \<longleftrightarrow>
     c = CHR '' '' \<or> c = CHR 0x09 \<or> c = CHR 0x0A \<or> c = CHR 0x0D \<or> c = CHR 0x0C \<or> c = CHR 0x0B"

text \<open>\<open>at\<close>, and \<open>at(i - k)\<close>, whose argument may be negative.\<close>

definition at :: "lexer \<Rightarrow> nat \<Rightarrow> char" where
  "at l i = (if src_len l \<le> i then CHR 0x00 else l_src l ! i)"

definition at_before :: "lexer \<Rightarrow> nat \<Rightarrow> nat \<Rightarrow> char" where
  "at_before l i k = (if i < k then CHR 0x00 else at l (i - k))"

section \<open>Skipping\<close>

definition isEscapeString :: "lexer \<Rightarrow> nat \<Rightarrow> bool" where
  "isEscapeString l i =
     (if \<not> DollarQuote (l_d l) then False
      else if at_before l i 1 \<noteq> CHR ''e'' \<and> at_before l i 1 \<noteq> CHR ''E'' then False
      else \<not> isIdentPart (at_before l i 2))"

function quoted_loop :: "lexer \<Rightarrow> char \<Rightarrow> bool \<Rightarrow> nat \<Rightarrow> nat" where
  "quoted_loop l quote backslash j =
     (if j < src_len l then
        if l_src l ! j = CHR 0x5C then quoted_loop l quote backslash (if backslash then j + 2 else j + 1)
        else if l_src l ! j = quote then
          if at l (j + 1) = quote then quoted_loop l quote backslash (j + 2) else j + 1
        else quoted_loop l quote backslash (j + 1)
      else src_len l)"
  by pat_completeness auto
termination by (relation "measure (\<lambda>(l, _, _, j). src_len l - j)") (auto split: if_splits)

definition skipQuoted :: "lexer \<Rightarrow> nat \<Rightarrow> char \<Rightarrow> bool \<Rightarrow> nat" where
  "skipQuoted l i quote backslash = quoted_loop l quote backslash (i + 1)"

definition skipLine :: "lexer \<Rightarrow> nat \<Rightarrow> nat" where
  "skipLine l i =
     (case IndexByte (drop i (l_src l)) CHR 0x0A of Some idx \<Rightarrow> i + idx + 1 | None \<Rightarrow> src_len l)"

function block_loop :: "lexer \<Rightarrow> nat \<Rightarrow> int \<Rightarrow> nat" where
  "block_loop l j depth =
     (if j + 1 < src_len l then
        if l_src l ! j = CHR ''/'' \<and> l_src l ! (j + 1) = CHR ''*'' then block_loop l (j + 2) (depth + 1)
        else if l_src l ! j = CHR ''*'' \<and> l_src l ! (j + 1) = CHR ''/'' then
          if depth - 1 = 0 \<or> \<not> NestedBlockComment (l_d l) then j + 2
          else block_loop l (j + 2) (depth - 1)
        else block_loop l (j + 1) depth
      else src_len l)"
  by pat_completeness auto
termination by (relation "measure (\<lambda>(l, j, _). src_len l - j)") auto

definition skipBlockComment :: "lexer \<Rightarrow> nat \<Rightarrow> nat" where
  "skipBlockComment l i = block_loop l i 0"

text \<open>\<open>dollarTag\<close>: the offset of the closing dollar of a tag that opens at \<open>i\<close>.  The test \<open>c == '$'\<close>
  inside the loop cannot hold, as the loop stops at a dollar.\<close>

function tag_loop :: "lexer \<Rightarrow> nat \<Rightarrow> nat \<Rightarrow> nat option" where
  "tag_loop l i j =
     (if j < src_len l \<and> l_src l ! j \<noteq> CHR ''$'' then
        if isDigit (l_src l ! j) \<and> j = i + 1 then None
        else if \<not> isIdentPart (l_src l ! j) \<or> l_src l ! j = CHR ''$'' then None
        else tag_loop l i (j + 1)
      else if src_len l \<le> j then None
      else Some j)"
  by pat_completeness auto
termination by (relation "measure (\<lambda>(l, _, j). src_len l - j)") auto

definition dollarTag :: "lexer \<Rightarrow> nat \<Rightarrow> string" where
  "dollarTag l i =
     (if at l i \<noteq> CHR ''$'' then []
      else (case tag_loop l i (i + 1) of None \<Rightarrow> [] | Some j \<Rightarrow> substr i (j + 1) (l_src l)))"

definition skipDollarQuoted :: "lexer \<Rightarrow> nat \<Rightarrow> nat option" where
  "skipDollarQuoted l i =
     (let tag = dollarTag l i in
      if tag = [] then None
      else (case Index (drop (i + length tag) (l_src l)) tag of
              Some idx \<Rightarrow> Some (i + length tag + idx + length tag)
            | None \<Rightarrow> Some (src_len l)))"

definition skip :: "lexer \<Rightarrow> nat \<Rightarrow> nat option" where
  "skip l i =
     (let c = at l i in
      if c = CHR 0x27 then Some (skipQuoted l i CHR 0x27 (Backslash (l_d l) \<or> isEscapeString l i))
      else if c = CHR 0x22 then
        Some (skipQuoted l i CHR 0x22 (DoubleQuoteString (l_d l) \<and> Backslash (l_d l)))
      else if c = CHR 0x60 then
        if \<not> Backtick (l_d l) then None else Some (skipQuoted l i CHR 0x60 False)
      else if c = CHR ''-'' then
        if at l (i + 1) = CHR ''-'' then Some (skipLine l i) else None
      else if c = CHR ''#'' then if HashComment (l_d l) then Some (skipLine l i) else None
      else if c = CHR ''/'' then
        if at l (i + 1) = CHR ''*'' then Some (skipBlockComment l i) else None
      else if c = CHR ''$'' then if DollarQuote (l_d l) then skipDollarQuoted l i else None
      else None)"

function identEnd :: "lexer \<Rightarrow> nat \<Rightarrow> nat" where
  "identEnd l j =
     (if j < src_len l \<and> isIdentPart (l_src l ! j) then identEnd l (j + 1) else j)"
  by pat_completeness auto
termination by (relation "measure (\<lambda>(l, j). src_len l - j)") auto

declare quoted_loop.simps [simp del] block_loop.simps [simp del] tag_loop.simps [simp del]
  identEnd.simps [simp del]

section \<open>A skip advances and stays in the source\<close>

lemma quoted_loop_bounds:
  "min j (src_len l) \<le> quoted_loop l q b j \<and> quoted_loop l q b j \<le> src_len l"
proof (induction l q b j rule: quoted_loop.induct)
  case (1 l q b j)
  note unfold = quoted_loop.simps [of l q b j]
  consider "src_len l \<le> j" | (esc) "j < src_len l" "l_src l ! j = CHR 0x5C"
    | (quote) "j < src_len l" "l_src l ! j \<noteq> CHR 0x5C" "l_src l ! j = q"
    | (other) "j < src_len l" "l_src l ! j \<noteq> CHR 0x5C" "l_src l ! j \<noteq> q"
    by linarith
  then show ?case
  proof cases
    case esc
    with "1.IH"(1) [OF esc] show ?thesis by (auto simp: unfold min_le_iff_disj split: if_splits)
  next
    case quote
    with "1.IH"(2) [OF quote] show ?thesis by (auto simp: unfold min_le_iff_disj)
  next
    case other
    with "1.IH"(3) [OF other] show ?thesis by (simp add: unfold)
  qed (simp add: unfold)
qed

lemma block_loop_bounds:
  "min j (src_len l) \<le> block_loop l j d \<and> block_loop l j d \<le> src_len l"
proof (induction l j d rule: block_loop.induct)
  case (1 l j d)
  note unfold = block_loop.simps [of l j d]
  consider (out) "\<not> j + 1 < src_len l"
    | (opn) "j + 1 < src_len l" "l_src l ! j = CHR ''/'' \<and> l_src l ! (j + 1) = CHR ''*''"
    | (cls) "j + 1 < src_len l" "\<not> (l_src l ! j = CHR ''/'' \<and> l_src l ! (j + 1) = CHR ''*'')"
        "l_src l ! j = CHR ''*'' \<and> l_src l ! (j + 1) = CHR ''/''"
    | (other) "j + 1 < src_len l" "\<not> (l_src l ! j = CHR ''/'' \<and> l_src l ! (j + 1) = CHR ''*'')"
        "\<not> (l_src l ! j = CHR ''*'' \<and> l_src l ! (j + 1) = CHR ''/'')"
    by linarith
  then show ?case
  proof cases
    case opn
    with "1.IH"(1) [OF opn] show ?thesis by (simp add: unfold)
  next
    case cls
    with "1.IH"(2) [OF cls] show ?thesis by (auto simp: unfold min_le_iff_disj)
  next
    case other
    from "1.IH"(3) [OF other] other(1) show ?thesis unfolding unfold if_not_P [OF other(2)] if_not_P [OF other(3)]
      by simp
  qed (simp add: unfold)
qed

lemma tag_loop_bounds: "tag_loop l i j = Some k \<Longrightarrow> j \<le> k \<and> k < src_len l"
proof (induction l i j rule: tag_loop.induct)
  case (1 l i j)
  then show ?case
    using tag_loop.simps [of l i j] by (auto split: if_splits)
qed

lemma skipQuoted_bounds:
  "i < src_len l \<Longrightarrow> i < skipQuoted l i q b \<and> skipQuoted l i q b \<le> src_len l"
  using quoted_loop_bounds [of "i + 1" l q b] by (auto simp: skipQuoted_def)

lemma skipLine_bounds: "i < src_len l \<Longrightarrow> i < skipLine l i \<and> skipLine l i \<le> src_len l"
  by (auto simp: skipLine_def IndexByte_def split: option.split dest!: find_idx_less)

lemma skipBlockComment_bounds:
  assumes "at l i = CHR ''/''" and "at l (i + 1) = CHR ''*''"
  shows "i < skipBlockComment l i \<and> skipBlockComment l i \<le> src_len l"
proof -
  from assms have "i + 1 < src_len l" "l_src l ! i = CHR ''/''" "l_src l ! (i + 1) = CHR ''*''"
    by (auto simp: at_def split: if_splits)
  then have "skipBlockComment l i = block_loop l (i + 2) 1"
    by (simp add: skipBlockComment_def block_loop.simps [of l i])
  with block_loop_bounds [of "i + 2" l 1] \<open>i + 1 < src_len l\<close> show ?thesis by simp
qed

lemma skipDollarQuoted_bounds:
  assumes "i < src_len l" and "skipDollarQuoted l i = Some j"
  shows "i < j \<and> j \<le> src_len l"
proof -
  let ?tag = "dollarTag l i"
  from assms(2) have tag: "?tag \<noteq> []" by (auto simp: skipDollarQuoted_def Let_def split: if_splits)
  then have pos: "0 < length ?tag" by simp
  from assms(2) tag consider "j = src_len l"
    | idx where "Index (drop (i + length ?tag) (l_src l)) ?tag = Some idx" "j = i + length ?tag + idx + length ?tag"
    by (auto simp: skipDollarQuoted_def Let_def split: option.splits)
  then show ?thesis
  proof cases
    case 2
    from Index_bound [OF 2(1)] pos show ?thesis unfolding 2(2) length_drop by arith
  qed (use assms(1) in simp)
qed

text \<open>The contract of \<open>skip\<close> that every loop of the lexer relies on to end.\<close>

lemma skip_advances:
  assumes "i < src_len l" and "skip l i = Some j"
  shows "i < j \<and> j \<le> src_len l"
  using assms(2) skipQuoted_bounds [OF assms(1)] skipLine_bounds [OF assms(1)]
    skipBlockComment_bounds [of l i] skipDollarQuoted_bounds [OF assms(1)]
  unfolding skip_def Let_def by (auto split: if_splits)

lemma identEnd_ge: "j \<le> identEnd l j"
proof (induction l j rule: identEnd.induct)
  case (1 l j)
  then show ?case using identEnd.simps [of l j] by auto
qed

lemma identEnd_le: "j \<le> src_len l \<Longrightarrow> identEnd l j \<le> src_len l"
proof (induction l j rule: identEnd.induct)
  case (1 l j)
  then show ?case using identEnd.simps [of l j] by auto
qed

end
