(* ===== verification/Statements.thy ===== *)
theory Statements
  imports Lexer
begin

text \<open>
  The loops of \<open>internal/sql/preprocess/lexer.go\<close> that walk a file over its skipped regions:
  \<open>skipSpace\<close>, \<open>statements\<close>, \<open>matchParen\<close> and \<open>splitArgs\<close>.  They all visit the same offsets, the
  top-level ones; \<open>tops\<close> is that walk on its own, and \<open>token_skip\<close> the interface it needs of \<open>skip\<close>.
\<close>

section \<open>The loops of the lexer\<close>

lemma skip_decreases: "i < src_len l \<Longrightarrow> skip l i = Some j \<Longrightarrow> src_len l - j < src_len l - i"
  using skip_advances [of i l j] by linarith

lemma line_decreases: "i < src_len l \<Longrightarrow> src_len l - skipLine l i < src_len l - i"
  using skipLine_bounds [of i l] by linarith

lemma block_decreases:
  "i < src_len l \<Longrightarrow> l_src l ! i = CHR ''/'' \<Longrightarrow> at l (Suc i) = CHR ''*'' \<Longrightarrow>
     src_len l - skipBlockComment l i < src_len l - i"
  using skipBlockComment_bounds [of l i] by (auto simp: at_def split: if_splits)

function skipSpace :: "lexer \<Rightarrow> nat \<Rightarrow> nat" where
  "skipSpace l i =
     (if i < src_len l then
        if isSpace (l_src l ! i) then skipSpace l (i + 1)
        else if l_src l ! i = CHR ''-'' \<and> at l (i + 1) = CHR ''-'' then skipSpace l (skipLine l i)
        else if l_src l ! i = CHR ''/'' \<and> at l (i + 1) = CHR ''*'' then skipSpace l (skipBlockComment l i)
        else if l_src l ! i = CHR ''#'' \<and> HashComment (l_d l) then skipSpace l (skipLine l i)
        else i
      else i)"
  by pat_completeness auto

termination
  by (relation "measure (\<lambda>(l, i). src_len l - i)") (auto intro: line_decreases block_decreases)

function statements_loop :: "lexer \<Rightarrow> nat \<Rightarrow> nat \<Rightarrow> (nat \<times> nat) list" where
  "statements_loop l i start =
     (if i < src_len l then
        (case skip l i of
           Some end' \<Rightarrow> statements_loop l end' start
         | None \<Rightarrow>
             if l_src l ! i = CHR '';'' then (start, i + 1) # statements_loop l (i + 1) (i + 1)
             else statements_loop l (i + 1) start)
      else if start < src_len l then [(start, src_len l)] else [])"
  by pat_completeness auto
termination
  by (relation "measure (\<lambda>(l, i, _). src_len l - i)") (auto intro: skip_decreases)

definition statements :: "lexer \<Rightarrow> (nat \<times> nat) list" where
  "statements l = statements_loop l 0 0"

function paren_loop :: "lexer \<Rightarrow> nat \<Rightarrow> int \<Rightarrow> nat option" where
  "paren_loop l j depth =
     (if j < src_len l then
        (case skip l j of
           Some end' \<Rightarrow> paren_loop l end' depth
         | None \<Rightarrow>
             if l_src l ! j = CHR ''('' then paren_loop l (j + 1) (depth + 1)
             else if l_src l ! j = CHR '')'' then
               if depth - 1 = 0 then Some j else paren_loop l (j + 1) (depth - 1)
             else paren_loop l (j + 1) depth)
      else None)"
  by pat_completeness auto
termination
  by (relation "measure (\<lambda>(l, j, _). src_len l - j)") (auto intro: skip_decreases)

definition matchParen :: "lexer \<Rightarrow> nat \<Rightarrow> nat option" where
  "matchParen l i = paren_loop l i 0"

text \<open>\<open>splitArgs\<close> is called with an end inside the source, so that the index is always in range; the model's
  loop also stops at the end of the source.  The loop of \<open>splitArgs\<close> returns the arguments before the tail and the offset at which the tail starts.\<close>

function args_loop :: "lexer \<Rightarrow> nat \<Rightarrow> nat \<Rightarrow> int \<Rightarrow> nat \<Rightarrow> string list \<times> nat" where
  "args_loop l end' j depth last' =
     (if j < end' \<and> j < src_len l then
        (case skip l j of
           Some stop \<Rightarrow> args_loop l end' (if end' < stop then end' else stop) depth last'
         | None \<Rightarrow>
             if l_src l ! j = CHR ''('' then args_loop l end' (j + 1) (depth + 1) last'
             else if l_src l ! j = CHR '')'' then args_loop l end' (j + 1) (depth - 1) last'
             else if l_src l ! j = CHR '','' \<and> depth = 0 then
               (case args_loop l end' (j + 1) depth (j + 1) of
                  (args, rest) \<Rightarrow> (substr last' j (l_src l) # args, rest))
             else args_loop l end' (j + 1) depth last')
      else ([], last'))"
  by pat_completeness auto
termination
  by (relation "measure (\<lambda>(l, end', j, _, _). min end' (src_len l) - j)") (auto dest: skip_advances)

definition splitArgs :: "lexer \<Rightarrow> nat \<Rightarrow> nat \<Rightarrow> string list" where
  "splitArgs l start end' =
     (case args_loop l end' start 0 start of
        (args, last') \<Rightarrow>
          (let tail = substr last' end' (l_src l)
           in if args = [] \<and> TrimSpace tail = [] then [] else args @ [tail]))"

declare skipSpace.simps [simp del] statements_loop.simps [simp del] paren_loop.simps [simp del]
  args_loop.simps [simp del]

section \<open>Walking over the top level\<close>

text \<open>The offsets a loop visits when it jumps over every skipped region.\<close>

function tops :: "(nat \<Rightarrow> nat option) \<Rightarrow> nat \<Rightarrow> nat \<Rightarrow> nat list" where
  "tops sk n i =
     (if i < n then
        (case sk i of Some j \<Rightarrow> if i < j then tops sk n j else [] | None \<Rightarrow> i # tops sk n (i + 1))
      else [])"
  by pat_completeness auto
termination by (relation "measure (\<lambda>(_, n, i). n - i)") auto

declare tops.simps [simp del]

text \<open>The spans between the given cut points.\<close>

fun cut_at :: "nat list \<Rightarrow> nat \<Rightarrow> nat \<Rightarrow> (nat \<times> nat) list" where
  "cut_at [] start n = (if start < n then [(start, n)] else [])"
| "cut_at (p # ps) start n = (start, p + 1) # cut_at ps (p + 1) n"

fun contiguous :: "(nat \<times> nat) list \<Rightarrow> nat \<Rightarrow> nat \<Rightarrow> bool" where
  "contiguous [] a b \<longleftrightarrow> a = b"
| "contiguous ((s, e) # rest) a b \<longleftrightarrow> s = a \<and> s < e \<and> contiguous rest e b"

lemma contiguous_le: "contiguous spans a b \<Longrightarrow> a \<le> b"
  by (induction spans a b rule: contiguous.induct) auto

lemma contiguous_bounds: "contiguous spans a b \<Longrightarrow> (s, e) \<in> set spans \<Longrightarrow> a \<le> s \<and> s < e \<and> e \<le> b"
proof (induction spans a b rule: contiguous.induct)
  case (2 s' e' rest a b)
  then show ?case using contiguous_le [of rest e' b] by fastforce
qed simp

text \<open>Contiguous spans give the text back.\<close>

lemma contiguous_concat:
  "contiguous spans a b \<Longrightarrow> concat (map (\<lambda>(s, e). substr s e xs) spans) = substr a b xs"
proof (induction spans a b rule: contiguous.induct)
  case (2 s e rest a b)
  then show ?case using contiguous_le [of rest e b] by (simp add: substr_append)
qed simp

lemma cut_at_contiguous:
  "sorted_wrt (<) ps \<Longrightarrow> \<forall>p \<in> set ps. start \<le> p \<and> p < n \<Longrightarrow> start \<le> n \<Longrightarrow>
     contiguous (cut_at ps start n) start n"
  by (induction ps start n rule: cut_at.induct) (auto simp: Suc_le_eq)

locale token_skip =
  fixes sk :: "nat \<Rightarrow> nat option" and n :: nat
  assumes advances: "i < n \<Longrightarrow> sk i = Some j \<Longrightarrow> i < j \<and> j \<le> n"
begin

lemma tops_Some: "i < n \<Longrightarrow> sk i = Some j \<Longrightarrow> tops sk n i = tops sk n j"
  using advances by (subst tops.simps) simp

lemma tops_None: "i < n \<Longrightarrow> sk i = None \<Longrightarrow> tops sk n i = i # tops sk n (i + 1)"
  by (subst tops.simps) simp

lemma tops_end: "n \<le> i \<Longrightarrow> tops sk n i = []"
  by (subst tops.simps) simp

lemma tops_range: "p \<in> set (tops sk n i) \<Longrightarrow> i \<le> p \<and> p < n \<and> sk p = None"
proof (induction sk n i rule: tops.induct)
  case (1 sk n i)
  then show ?case using tops.simps [of sk n i] by (auto split: if_splits option.splits)
qed

lemma tops_sorted: "sorted_wrt (<) (tops sk n i)"
proof (induction "n - i" arbitrary: i rule: less_induct)
  case less
  consider "n \<le> i" | j where "i < n" "sk i = Some j" | (none) "i < n" "sk i = None" by fastforce
  then show ?case
  proof cases
    case 2
    with advances [OF 2] have "n - j < n - i" by linarith
    from less [OF this] 2 show ?thesis by (simp add: tops_Some)
  next
    case none
    have "\<forall>x \<in> set (tops sk n (i + 1)). i < x" using tops_range [of _ "i + 1"] by fastforce
    with none less [of "i + 1"] show ?thesis by (simp add: tops_None)
  qed (simp add: tops_end)
qed

end

interpretation lex: token_skip "skip l" "src_len l" for l
  by unfold_locales (rule skip_advances)

definition toplevel :: "lexer \<Rightarrow> nat \<Rightarrow> nat list" where
  "toplevel l i = tops (skip l) (src_len l) i"

section \<open>Statements\<close>

lemma statements_loop_cut:
  "statements_loop l i start =
     cut_at (filter (\<lambda>p. l_src l ! p = CHR '';'') (toplevel l i)) start (src_len l)"
proof (induction l i start rule: statements_loop.induct)
  case (1 l i start)
  note unfold = statements_loop.simps [of l i start]
  consider "src_len l \<le> i" | (some) j where "i < src_len l" "skip l i = Some j"
    | (none) "i < src_len l" "skip l i = None" by fastforce
  then show ?case
  proof cases
    case some
    with "1.IH"(3) show ?thesis by (simp add: unfold toplevel_def lex.tops_Some)
  next
    case none
    with "1.IH"(1,2) show ?thesis by (simp add: unfold toplevel_def lex.tops_None)
  qed (simp add: unfold toplevel_def lex.tops_end)
qed

abbreviation cuts :: "lexer \<Rightarrow> nat list" where
  "cuts l \<equiv> filter (\<lambda>p. l_src l ! p = CHR '';'') (toplevel l 0)"

lemma cuts_sorted: "sorted_wrt (<) (cuts l)"
  by (simp add: toplevel_def lex.tops_sorted sorted_wrt_filter)

lemma cuts_range: "p \<in> set (cuts l) \<Longrightarrow> p < src_len l"
  using lex.tops_range by (auto simp: toplevel_def)

lemma statements_contiguous: "contiguous (statements l) 0 (src_len l)"
  unfolding statements_def statements_loop_cut
  using cuts_sorted cuts_range by (intro cut_at_contiguous) auto

text \<open>C34: the statements of a file are non-empty spans that follow one another from its first to its last
  byte: put together they are the file.\<close>

theorem statements_cover:
  "contiguous (statements l) 0 (src_len l) \<and>
   concat (map (\<lambda>(s, e). substr s e (l_src l)) (statements l)) = l_src l"
  using statements_contiguous [of l] contiguous_concat [OF statements_contiguous [of l], of "l_src l"]
  by (simp add: substr_full)

definition ex_lexer :: "engine \<Rightarrow> string \<Rightarrow> lexer" where
  "ex_lexer e s = \<lparr>l_d = the (DialectFor e), l_src = s\<rparr>"

section \<open>Parentheses\<close>

text \<open>How deep the parentheses at the given offsets are nested.\<close>

definition paren_depth :: "lexer \<Rightarrow> nat list \<Rightarrow> int" where
  "paren_depth l ps =
     int (length (filter (\<lambda>p. l_src l ! p = CHR ''('') ps)) - int (length (filter (\<lambda>p. l_src l ! p = CHR '')'') ps))"

lemma paren_loop_spec:
  "paren_loop l j d = Some k \<Longrightarrow>
     \<exists>ps qs. toplevel l j = ps @ k # qs \<and> l_src l ! k = CHR '')'' \<and> d + paren_depth l ps = 1"
proof (induction l j d rule: paren_loop.induct)
  case (1 l j d)
  note unfold = paren_loop.simps [of l j d]
  have top: "skip l j = None \<Longrightarrow> j < src_len l \<Longrightarrow> toplevel l j = j # toplevel l (j + 1)"
    by (simp add: toplevel_def lex.tops_None)
  have grow: "\<exists>ps qs. toplevel l j = ps @ k # qs \<and> l_src l ! k = CHR '')'' \<and> d + paren_depth l ps = 1"
    if "j < src_len l" "skip l j = None" "d' = d + paren_depth l [j]"
      and "\<exists>ps qs. toplevel l (j + 1) = ps @ k # qs \<and> l_src l ! k = CHR '')'' \<and> d' + paren_depth l ps = 1" for d'
  proof -
    from that(4) obtain ps qs where "toplevel l (j + 1) = ps @ k # qs" "l_src l ! k = CHR '')''"
      "d' + paren_depth l ps = 1" by blast
    with that top show ?thesis
      by (intro exI [of _ "j # ps"] exI [of _ qs]) (auto simp: paren_depth_def)
  qed
  from "1.prems" have j: "j < src_len l" by (auto simp: unfold split: if_splits)
  show ?case
  proof (cases "skip l j")
    case (Some e)
    with "1.IH"(4) [OF j Some] "1.prems" j show ?thesis
      by (simp add: unfold toplevel_def lex.tops_Some)
  next
    case None
    consider (opn) "l_src l ! j = CHR ''(''" | (hit) "l_src l ! j = CHR '')''" "d - 1 = 0"
      | (cls) "l_src l ! j = CHR '')''" "d - 1 \<noteq> 0" | (other) "l_src l ! j \<noteq> CHR ''(''" "l_src l ! j \<noteq> CHR '')''"
      by blast
    then show ?thesis
    proof cases
      case opn
      with "1.IH"(1) [OF j None opn] "1.prems" j None show ?thesis
        by (intro grow [of "d + 1"]) (simp_all add: unfold paren_depth_def)
    next
      case hit
      with "1.prems" j None top show ?thesis
        by (intro exI [of _ "[]"] exI [of _ "toplevel l (j + 1)"]) (simp add: unfold paren_depth_def)
    next
      case cls
      with "1.IH"(2) [OF j None _ cls] "1.prems" j None show ?thesis
        by (intro grow [of "d - 1"]) (simp_all add: unfold paren_depth_def)
    next
      case other
      with "1.IH"(3) [OF j None other] "1.prems" j None show ?thesis
        by (intro grow [of d]) (simp_all add: unfold paren_depth_def)
    qed
  qed
qed

lemma matchParen_bounds: "matchParen l i = Some k \<Longrightarrow> i \<le> k \<and> k < src_len l"
  unfolding matchParen_def
  using paren_loop_spec [of l i 0 k] lex.tops_range [of k l i] by (auto simp: toplevel_def)

text \<open>\<open>matchParen\<close> finds a closing parenthesis at the top level of the text after \<open>i\<close>, and the parentheses
  between the two are balanced.\<close>

theorem matchParen_balanced:
  assumes "matchParen l i = Some k"
  shows "l_src l ! k = CHR '')'' \<and> i \<le> k \<and> k < src_len l \<and>
         (\<exists>ps qs. toplevel l i = ps @ k # qs \<and> paren_depth l (ps @ [k]) = 0)"
proof -
  from paren_loop_spec [of l i 0 k] assms obtain ps qs where
    "toplevel l i = ps @ k # qs" "l_src l ! k = CHR '')''" "paren_depth l ps = 1"
    by (auto simp: matchParen_def)
  with matchParen_bounds [OF assms] show ?thesis by (auto simp: paren_depth_def)
qed

theorem matchParen_balanced_witness:
  "l_src (ex_lexer EngineSQLite ''((a))'') ! 4 = CHR '')'' \<and> 0 \<le> (4 :: nat) \<and>
   4 < src_len (ex_lexer EngineSQLite ''((a))'') \<and>
   (\<exists>ps qs. toplevel (ex_lexer EngineSQLite ''((a))'') 0 = ps @ 4 # qs \<and>
      paren_depth (ex_lexer EngineSQLite ''((a))'') (ps @ [4]) = 0)"
  by (rule matchParen_balanced) code_simp

end
