(* ===== verification/Scan.thy ===== *)
theory Scan
  imports Statements
begin

text \<open>
  \<open>internal/sql/preprocess/scan.go\<close>: finding the sqlc calls, the \<open>@name\<close> and \<open>$name\<close> references and the
  native placeholders of one statement.
\<close>

section \<open>Occurrences\<close>

datatype kind = kindArg | kindNarg | kindSlice | kindEmbed | kindNative

record occurrence =
  o_kind :: kind
  o_start :: nat
  o_end :: nat
  o_name :: string
  o_ident :: string
  o_number :: int
  o_explicit :: bool
  o_err :: "sqlerr option"

text \<open>The composite literal \<open>occurrence{kind: k, start: i, end: j}\<close>.\<close>

definition occ_at :: "kind \<Rightarrow> nat \<Rightarrow> nat \<Rightarrow> occurrence" where
  "occ_at k i j =
     \<lparr>o_kind = k, o_start = i, o_end = j, o_name = [], o_ident = [], o_number = 0,
      o_explicit = False, o_err = None\<rparr>"

definition message_err :: "string \<Rightarrow> nat \<Rightarrow> sqlerr" where
  "message_err msg loc = \<lparr>Err = None, Code = [], Message = msg, Location = loc, Line = 0, Column = 0\<rparr>"

section \<open>Arguments of a sqlc call\<close>

definition unquote :: "string \<Rightarrow> char \<Rightarrow> string option" where
  "unquote s quote =
     (if length s < 2 \<or> s ! 0 \<noteq> quote \<or> s ! (length s - 1) \<noteq> quote then None
      else
        (let inner = substr 1 (length s - 1) s in
         if IndexByte inner quote \<noteq> None then
           if Contains inner [quote, quote] then Some (ReplaceAll inner [quote, quote] [quote]) else None
         else Some inner))"

definition argument :: "dialect \<Rightarrow> string \<Rightarrow> (string \<times> string) option" where
  "argument d arg0 =
     (let arg = TrimSpace arg0 in
      if arg = [] then None
      else if arg ! 0 = CHR 0x27 then map_option (\<lambda>s. (s, s)) (unquote arg CHR 0x27)
      else if arg ! 0 = CHR 0x22 then
        (case unquote arg CHR 0x22 of
           None \<Rightarrow> None
         | Some s \<Rightarrow> if DoubleQuoteString d then Some (s, s) else Some (s, arg))
      else if arg ! 0 = CHR 0x60 then
        if \<not> Backtick d then None
        else (case unquote arg CHR 0x60 of None \<Rightarrow> None | Some s \<Rightarrow> Some (s, arg))
      else if \<not> isIdentStart (arg ! 0) then None
      else if list_ex (\<lambda>c. \<not> isIdentPart c \<and> c \<noteq> CHR ''.'') arg then None
      else
        (let name = ReplaceAll arg ''.'' [] in
         Some (if FoldIdentifier d then ToLower name else name, arg)))"

definition paramName :: "lexer \<Rightarrow> nat \<Rightarrow> nat \<Rightarrow> string" where
  "paramName l start end' =
     (let name = substr start end' (l_src l) in if FoldIdentifier (l_d l) then ToLower name else name)"

text \<open>The part of \<open>sqlcCall\<close> after the parentheses are found: \<open>fn\<close> is the lower-case name of the function.\<close>

definition sqlc_occurrence :: "lexer \<Rightarrow> nat \<Rightarrow> string \<Rightarrow> nat \<Rightarrow> nat \<Rightarrow> occurrence" where
  "sqlc_occurrence l start fn open' closing =
     (let occ = occ_at kindArg start (closing + 1);
          with_args = (\<lambda>k.
            (let occ1 = occ\<lparr>o_kind := k\<rparr>; args = splitArgs l (open' + 1) closing in
             if length args \<noteq> 1 then
               occ1\<lparr>o_err := Some (message_err (''expected 1 parameter to sqlc.'' @ fn @ ''; got '' @
                        Itoa (int (length args))) start)\<rparr>
             else
               (case argument (l_d l) (args ! 0) of
                  None \<Rightarrow>
                    occ1\<lparr>o_err := Some (message_err (''expected parameter to sqlc.'' @ fn @
                      '' to be string or reference; got '' @ Quote (TrimSpace (args ! 0))) start)\<rparr>
                | Some (name, ident) \<Rightarrow> occ1\<lparr>o_name := name, o_ident := ident\<rparr>)))
      in if fn = ''arg'' then with_args kindArg
         else if fn = ''narg'' then with_args kindNarg
         else if fn = ''slice'' then
           if NoSlice (l_d l) then
             occ\<lparr>o_err := Some (message_err (''sqlc.slice() is not supported by this engine: a Go slice binds as one list value, so pass it with sqlc.arg() and compare with = ANY(sqlc.arg(name))'') start)\<rparr>
           else with_args kindSlice
         else if fn = ''embed'' then with_args kindEmbed
         else occ\<lparr>o_err := Some ((FunctionNotFound (''sqlc.'' @ fn))\<lparr>Location := start\<rparr>)\<rparr>)"

definition sqlcCall :: "lexer \<Rightarrow> nat \<Rightarrow> nat \<Rightarrow> (occurrence \<times> nat) option" where
  "sqlcCall l start afterSqlc =
     (let i = skipSpace l afterSqlc in
      if at l i \<noteq> CHR ''.'' then None
      else
        (let i = skipSpace l (i + 1) in
         if \<not> isIdentStart (at l i) then None
         else
           (let nameEnd = identEnd l i;
                fn = ToLower (substr i nameEnd (l_src l));
                open' = skipSpace l nameEnd
            in if at l open' \<noteq> CHR ''('' then None
               else
                 (case matchParen l open' of
                    None \<Rightarrow> None
                  | Some closing \<Rightarrow>
                      (let occ = sqlc_occurrence l start fn open' closing in Some (occ, o_end occ))))))"

section \<open>Scanning a statement\<close>

function digitsEnd :: "lexer \<Rightarrow> nat \<Rightarrow> nat" where
  "digitsEnd l j = (if j < src_len l \<and> isDigit (l_src l ! j) then digitsEnd l (j + 1) else j)"
  by pat_completeness auto
termination by (relation "measure (\<lambda>(l, j). src_len l - j)") auto

declare digitsEnd.simps [simp del]

text \<open>One step of the loop of \<open>scan\<close> at an offset that no skipped region starts at: the occurrence found
  there, if any, and the offset to go on from.\<close>

definition scan_step :: "lexer \<Rightarrow> nat \<Rightarrow> occurrence option \<times> nat" where
  "scan_step l i =
     (let c = l_src l ! i in
      if isIdentStart c then
        (let j = identEnd l i in
         case (if EqualFold (substr i j (l_src l)) ''sqlc'' then sqlcCall l i j else None) of
           Some (occ, next) \<Rightarrow> (Some occ, next)
         | None \<Rightarrow> (None, j))
      else if c = CHR ''@'' \<and> AtSign (l_d l) \<and> isIdentStart (at l (i + 1)) then
        (let j = identEnd l (i + 1) in
         (Some ((occ_at kindArg i j)\<lparr>o_name := paramName l (i + 1) j, o_ident := substr i j (l_src l)\<rparr>), j))
      else if c = CHR ''$'' \<and> DollarName (l_d l) \<and> isIdentStart (at l (i + 1)) then
        (let j = identEnd l (i + 1) in
         (Some ((occ_at kindArg i j)\<lparr>o_name := paramName l (i + 1) j, o_ident := substr i j (l_src l)\<rparr>), j))
      else if c = CHR ''$'' \<and> DollarNumber (l_d l) \<and> isDigit (at l (i + 1)) then
        (let j = digitsEnd l (i + 1) in
         (Some ((occ_at kindNative i j)\<lparr>o_number := Atoi_digits (substr (i + 1) j (l_src l)),
                  o_explicit := True, o_ident := substr i j (l_src l)\<rparr>), j))
      else if c = CHR ''?'' \<and> Question (l_d l) then
        (let j = digitsEnd l (i + 1); occ = (occ_at kindNative i j)\<lparr>o_ident := substr i j (l_src l)\<rparr> in
         (Some (if i + 1 < j
                then occ\<lparr>o_number := Atoi_digits (substr (i + 1) j (l_src l)), o_explicit := True\<rparr>
                else occ), j))
      else (None, i + 1))"

lemma skipSpace_ge: "i \<le> skipSpace l i"
proof (induction l i rule: skipSpace.induct)
  case (1 l i)
  note unfold = skipSpace.simps [of l i]
  show ?case
  proof (cases "i < src_len l")
    case True
    have "l_src l ! i = CHR ''/'' \<Longrightarrow> at l (i + 1) = CHR ''*'' \<Longrightarrow> i < skipBlockComment l i"
      using skipBlockComment_bounds [of l i] True by (simp add: at_def)
    with 1 True skipLine_bounds [OF True] show ?thesis
      by (auto simp: unfold intro: order_trans [OF less_imp_le])
  qed (simp add: unfold)
qed

lemma digitsEnd_ge: "j \<le> digitsEnd l j"
proof (induction l j rule: digitsEnd.induct)
  case (1 l j)
  then show ?case using digitsEnd.simps [of l j] by auto
qed

lemma digitsEnd_le: "j \<le> src_len l \<Longrightarrow> digitsEnd l j \<le> src_len l"
proof (induction l j rule: digitsEnd.induct)
  case (1 l j)
  then show ?case using digitsEnd.simps [of l j] by auto
qed

lemma identEnd_gt: "j < src_len l \<Longrightarrow> isIdentStart (l_src l ! j) \<Longrightarrow> j < identEnd l j"
  using identEnd_ge [of "j + 1" l] identEnd.simps [of l j] by (simp add: isIdentPart_def)

lemma sqlc_occurrence_span [simp]:
  "o_start (sqlc_occurrence l s fn opn cls) = s" "o_end (sqlc_occurrence l s fn opn cls) = cls + 1"
  by (simp_all add: sqlc_occurrence_def occ_at_def Let_def split: option.split)

lemma sqlcCall_span:
  assumes "sqlcCall l s a = Some (occ, next)"
  shows "o_start occ = s \<and> o_end occ = next \<and> a < next \<and> next \<le> src_len l"
proof -
  let ?i = "skipSpace l (skipSpace l a + 1)"
  let ?o = "skipSpace l (identEnd l ?i)"
  from assms obtain cls where cls: "matchParen l ?o = Some cls" "next = cls + 1"
    "o_start occ = s" "o_end occ = next"
    by (auto simp: sqlcCall_def Let_def split: if_splits option.splits)
  have "a \<le> ?o"
    using skipSpace_ge [of a l] skipSpace_ge [of "skipSpace l a + 1" l] identEnd_ge [of ?i l]
      skipSpace_ge [of "identEnd l ?i" l] by linarith
  with cls matchParen_bounds [OF cls(1)] show ?thesis by simp
qed

lemma scan_step_advances:
  assumes "i < src_len l" and "scan_step l i = (oo, j)"
  shows "i < j \<and> j \<le> src_len l \<and> (\<forall>occ. oo = Some occ \<longrightarrow> o_start occ = i \<and> o_end occ = j)"
proof -
  have id: "isIdentStart (l_src l ! i) \<Longrightarrow> i < identEnd l i" using identEnd_gt [OF assms(1)] by simp
  have le: "identEnd l i \<le> src_len l" "identEnd l (i + 1) \<le> src_len l" "digitsEnd l (i + 1) \<le> src_len l"
    using identEnd_le digitsEnd_le assms(1) by simp_all
  have call: "sqlcCall l i (identEnd l i) = Some (occ, next) \<Longrightarrow>
      o_start occ = i \<and> o_end occ = next \<and> identEnd l i < next \<and> next \<le> src_len l" for occ "next"
    using sqlcCall_span by blast
  have ge: "i < identEnd l (i + 1)" "i < digitsEnd l (i + 1)"
    using identEnd_ge [of "i + 1" l] digitsEnd_ge [of "i + 1" l] by linarith+
  show ?thesis
    using assms(2) id le call ge assms(1)
    by (auto simp: scan_step_def occ_at_def Let_def split: if_splits option.splits)
qed

lemma scan_step_decreases:
  "(oo, j) = scan_step l i \<Longrightarrow> i < src_len l \<Longrightarrow> src_len l - j < src_len l - i"
  using scan_step_advances [of i l oo j] by (auto intro: diff_less_mono2)

function scan :: "lexer \<Rightarrow> nat \<Rightarrow> nat \<Rightarrow> occurrence list" where
  "scan l i end' =
     (if i < end' \<and> i < src_len l then
        (case skip l i of
           Some stop \<Rightarrow> scan l (if stop \<le> i then i + 1 else stop) end'
         | None \<Rightarrow>
             (case scan_step l i of
                (None, j) \<Rightarrow> scan l j end'
              | (Some occ, j) \<Rightarrow> occ # scan l j end'))
      else [])"
  by pat_completeness auto
termination
  by (relation "measure (\<lambda>(l, i, _). src_len l - i)")
     (auto intro: scan_step_decreases dest!: skip_advances [rotated] split: if_splits)

declare scan.simps [simp del]

section \<open>The occurrences of a statement\<close>

text \<open>Occurrences in source order that do not overlap and start before \<open>e\<close>.\<close>

fun ordered :: "occurrence list \<Rightarrow> nat \<Rightarrow> nat \<Rightarrow> nat \<Rightarrow> bool" where
  "ordered [] a e n \<longleftrightarrow> True"
| "ordered (occ # occs) a e n \<longleftrightarrow>
     a \<le> o_start occ \<and> o_start occ < o_end occ \<and> o_start occ < e \<and> o_end occ \<le> n \<and>
     ordered occs (o_end occ) e n"

lemma ordered_mono: "ordered occs a e n \<Longrightarrow> b \<le> a \<Longrightarrow> ordered occs b e n"
  by (cases occs) auto

lemma scan_ordered: "ordered (scan l i e) i e (src_len l)"
proof (induction l i e rule: scan.induct)
  case (1 l i e)
  note unfold = scan.simps [of l i e]
  show ?case
  proof (cases "i < e \<and> i < src_len l")
    case True
    show ?thesis
    proof (cases "skip l i")
      case (Some stop)
      with skip_advances [of i l stop] True have "\<not> stop \<le> i" by auto
      with "1.IH"(3) [OF True Some] Some True show ?thesis
        by (auto simp: unfold intro: ordered_mono)
    next
      case None
      obtain oo j where step: "scan_step l i = (oo, j)" by fastforce
      note adv = scan_step_advances [OF conjunct2 [OF True] step]
      show ?thesis
      proof (cases oo)
        case None
        with "1.IH"(1) [OF True \<open>skip l i = None\<close> step [symmetric] None] True step adv \<open>skip l i = None\<close>
        show ?thesis by (auto simp: unfold intro: ordered_mono)
      next
        case (Some occ)
        with "1.IH"(2) [OF True \<open>skip l i = None\<close> step [symmetric] Some] True step adv \<open>skip l i = None\<close>
        show ?thesis by (auto simp: unfold)
      qed
    qed
  qed (auto simp: unfold)
qed

text \<open>The constructs \<open>scan\<close> finds in a statement are in source order and do not overlap; each starts inside
  the statement and ends inside the file.\<close>

theorem scan_in_order:
  "ordered (scan l start end') start end' (src_len l)"
  by (rule scan_ordered)

end
