(* ===== verification/Named.thy ===== *)
theory Named
  imports Sqlerr "HOL-Library.Word" "HOL-Library.Finite_Map"
begin

unbundle bit_operations_syntax

text \<open>
  \<open>internal/sql/named\<close>: parameters with their nullability (\<open>param.go\<close>) and the set that hands out
  placeholder numbers (\<open>param_set.go\<close>).  Nullability is a bit set of one machine word.  A Go map is a
  finite map; positions are Go's \<open>int\<close>, which the counter would only exhaust after \<open>2 ^ 63\<close> parameters.
\<close>

section \<open>Parameters\<close>

type_synonym nullability = "64 word"

definition nullUnspecified :: nullability where "nullUnspecified = 0"
definition inferredNull :: nullability where "inferredNull = 1"
definition inferredNotNull :: nullability where "inferredNotNull = 2"
definition nullable :: nullability where "nullable = 4"
definition notNullable :: nullability where "notNullable = 8"

lemmas nullability_defs =
  nullUnspecified_def inferredNull_def inferredNotNull_def nullable_def notNullable_def

definition nullability_String :: "nullability \<Rightarrow> string" where
  "nullability_String n =
     (if n = nullUnspecified then ''NullUnspecified''
      else if n = inferredNull then ''InferredNull''
      else if n = inferredNotNull then ''InferredNotNull''
      else if n = nullable then ''Nullable''
      else if n = notNullable then ''NotNullable''
      else ''NullInvalid'')"

record param =
  p_name :: string
  p_nullability :: nullability
  p_isSqlcSlice :: bool

definition NewParam :: "string \<Rightarrow> param" where
  "NewParam name = \<lparr>p_name = name, p_nullability = nullUnspecified, p_isSqlcSlice = False\<rparr>"

definition NewInferredParam :: "string \<Rightarrow> bool \<Rightarrow> param" where
  "NewInferredParam name notNull =
     (if notNull then \<lparr>p_name = name, p_nullability = inferredNotNull, p_isSqlcSlice = False\<rparr>
      else \<lparr>p_name = name, p_nullability = inferredNull, p_isSqlcSlice = False\<rparr>)"

definition NewUserNullableParam :: "string \<Rightarrow> param" where
  "NewUserNullableParam name = \<lparr>p_name = name, p_nullability = nullable, p_isSqlcSlice = False\<rparr>"

definition NewSqlcSlice :: "string \<Rightarrow> param" where
  "NewSqlcSlice name = \<lparr>p_name = name, p_nullability = nullUnspecified, p_isSqlcSlice = True\<rparr>"

text \<open>The zero value of the struct, which a map lookup returns for a missing key.\<close>

definition zero_param :: param where
  "zero_param = \<lparr>p_name = [], p_nullability = 0, p_isSqlcSlice = False\<rparr>"

definition param_is :: "param \<Rightarrow> nullability \<Rightarrow> bool" where
  "param_is p n \<longleftrightarrow> p_nullability p AND n = n"

definition NotNull :: "param \<Rightarrow> bool" where
  "NotNull p =
     (if param_is p notNullable then True
      else if param_is p nullable then False
      else if param_is p inferredNotNull then True
      else if param_is p inferredNull then False
      else False)"

definition mergeParam :: "param \<Rightarrow> param \<Rightarrow> param" where
  "mergeParam a b =
     \<lparr>p_name = (if p_name a = [] then p_name b else p_name a),
      p_nullability = p_nullability a OR p_nullability b,
      p_isSqlcSlice = (p_isSqlcSlice a \<or> p_isSqlcSlice b)\<rparr>"

section \<open>The parameter set\<close>

record paramSet =
  hasNamedSupport :: bool
  namedParams :: "(string, param) fmap"
  namedLocs :: "(string, int list) fmap"
  positionToName :: "(int, string) fmap"
  argn :: int

definition NameFor :: "paramSet \<Rightarrow> int \<Rightarrow> string option" where
  "NameFor p idx = fmlookup (positionToName p) idx"

text \<open>The loop of \<open>nextArgNum\<close>: it ends because the map is finite.\<close>

function next_free :: "(int, string) fmap \<Rightarrow> int \<Rightarrow> int" where
  "next_free m n = (if fmlookup m n = None then n else next_free m (n + 1))"
  by pat_completeness auto
termination
proof (relation "measure (\<lambda>(m, n). card {k \<in> fset (fmdom m). n \<le> k})", simp)
  fix m :: "(int, string) fmap" and n
  assume "fmlookup m n \<noteq> None"
  then have "n \<in> {k \<in> fset (fmdom m). n \<le> k}" by (auto simp: fmdomI)
  moreover have "n \<notin> {k \<in> fset (fmdom m). n + 1 \<le> k}" by simp
  moreover have "{k \<in> fset (fmdom m). n + 1 \<le> k} \<subseteq> {k \<in> fset (fmdom m). n \<le> k}" by auto
  ultimately have "{k \<in> fset (fmdom m). n + 1 \<le> k} \<subset> {k \<in> fset (fmdom m). n \<le> k}" by blast
  then show "((m, n + 1), m, n) \<in> measure (\<lambda>(m, n). card {k \<in> fset (fmdom m). n \<le> k})"
    by (simp add: psubset_card_mono)
qed

declare next_free.simps [simp del]

definition nextArgNum :: "paramSet \<Rightarrow> paramSet \<times> int" where
  "nextArgNum p = (let n = next_free (positionToName p) (argn p) in (p\<lparr>argn := n\<rparr>, n))"

definition locs_of :: "paramSet \<Rightarrow> string \<Rightarrow> int list" where
  "locs_of p name = (case fmlookup (namedLocs p) name of None \<Rightarrow> [] | Some ls \<Rightarrow> ls)"

definition Add :: "param \<Rightarrow> paramSet \<Rightarrow> paramSet \<times> (error + int)" where
  "Add param p =
     (let name = p_name param;
          existing = fmlookup (namedParams p) name;
          p1 = p\<lparr>namedParams := fmupd name
                   (mergeParam (case existing of None \<Rightarrow> zero_param | Some q \<Rightarrow> q) param) (namedParams p)\<rparr>
      in if existing \<noteq> None \<and> hasNamedSupport p then
           (p1, case locs_of p name of [] \<Rightarrow> Inl (Panic ''index out of range'') | l # _ \<Rightarrow> Inr l)
         else
           (case nextArgNum p1 of (p2, n) \<Rightarrow>
              (p2\<lparr>positionToName := fmupd n name (positionToName p2),
                  namedLocs := fmupd name (locs_of p2 name @ [n]) (namedLocs p2)\<rparr>, Inr n)))"

definition FetchMerge :: "int \<Rightarrow> param \<Rightarrow> paramSet \<Rightarrow> param \<times> bool" where
  "FetchMerge idx mergeP p =
     (case fmlookup (positionToName p) idx of
        None \<Rightarrow> (mergeP, False)
      | Some name \<Rightarrow>
          if name = [] then (mergeP, False)
          else (case fmlookup (namedParams p) name of
                  None \<Rightarrow> (mergeP, False)
                | Some q \<Rightarrow> (mergeParam q mergeP, True)))"

text \<open>\<open>Nullable\<close> returns a set of numbers; a nil set gives none.\<close>

definition Nullable :: "paramSet option \<Rightarrow> int set" where
  "Nullable po =
     (case po of
        None \<Rightarrow> {}
      | Some p \<Rightarrow>
          {idx \<in> fset (fmdom (positionToName p)).
             case fmlookup (positionToName p) idx of
               None \<Rightarrow> False
             | Some name \<Rightarrow>
                 name \<noteq> [] \<and>
                 param_is (case fmlookup (namedParams p) name of None \<Rightarrow> zero_param | Some q \<Rightarrow> q) nullable})"

definition NewParamSet :: "(int, bool) fmap \<Rightarrow> bool \<Rightarrow> paramSet" where
  "NewParamSet positionsUsed named =
     \<lparr>hasNamedSupport = named, namedParams = fmempty, namedLocs = fmempty,
      positionToName = fmmap (\<lambda>_. []) (fmfilter (\<lambda>k. fmlookup positionsUsed k = Some True) positionsUsed),
      argn = 1\<rparr>"

section \<open>Nullability\<close>

lemma and_or_pow:
  fixes x y :: nullability
  shows "(x OR y) AND 2 ^ k = 2 ^ k \<longleftrightarrow> x AND 2 ^ k = 2 ^ k \<or> y AND 2 ^ k = 2 ^ k"
proof -
  have bit: "z AND 2 ^ k = 2 ^ k \<longleftrightarrow> (bit z k \<or> 64 \<le> k)" for z :: nullability
    by (auto simp: bit_eq_iff [of "z AND 2 ^ k" "2 ^ k"] bit_and_iff bit_exp_iff not_le)
  show ?thesis by (auto simp: bit bit_or_iff)
qed

lemma param_is_merge:
  "param_is (mergeParam a b) notNullable \<longleftrightarrow> param_is a notNullable \<or> param_is b notNullable"
  "param_is (mergeParam a b) nullable \<longleftrightarrow> param_is a nullable \<or> param_is b nullable"
  "param_is (mergeParam a b) inferredNotNull \<longleftrightarrow> param_is a inferredNotNull \<or> param_is b inferredNotNull"
  "param_is (mergeParam a b) inferredNull \<longleftrightarrow> param_is a inferredNull \<or> param_is b inferredNull"
  using and_or_pow [of "p_nullability a" "p_nullability b" 3] and_or_pow [of "p_nullability a" "p_nullability b" 2]
    and_or_pow [of "p_nullability a" "p_nullability b" 1] and_or_pow [of "p_nullability a" "p_nullability b" 0]
  by (simp_all add: param_is_def mergeParam_def nullability_defs)

text \<open>Merging two parameters combines what is known of them: the user's not-null wins over the user's
  nullable, which wins over an inferred not-null; the order of merging does not matter.\<close>

theorem NotNull_merge:
  "NotNull (mergeParam a b) =
     (if param_is a notNullable \<or> param_is b notNullable then True
      else if param_is a nullable \<or> param_is b nullable then False
      else param_is a inferredNotNull \<or> param_is b inferredNotNull)"
  by (auto simp: NotNull_def param_is_merge)

lemma mergeParam_zero [simp]: "mergeParam zero_param p = p"
  by (simp add: mergeParam_def zero_param_def)

lemma mergeParam_assoc: "mergeParam (mergeParam a b) c = mergeParam a (mergeParam b c)"
  by (simp add: mergeParam_def or.assoc)

lemma mergeParam_idem [simp]: "mergeParam p p = p"
  by (simp add: mergeParam_def)

section \<open>Handing out numbers\<close>

lemma next_free_unused: "fmlookup m (next_free m n) = None"
  by (induction m n rule: next_free.induct) (subst next_free.simps, simp)

lemma next_free_ge: "n \<le> next_free m n"
  by (induction m n rule: next_free.induct) (subst next_free.simps, force)

lemma next_free_least: "n \<le> k \<Longrightarrow> fmlookup m k = None \<Longrightarrow> next_free m n \<le> k"
proof (induction m n rule: next_free.induct)
  case (1 m n)
  show ?case
  proof (cases "fmlookup m n = None")
    case True
    then show ?thesis using 1 by (subst next_free.simps) simp
  next
    case False
    with 1 have "n \<noteq> k" by auto
    with 1 False show ?thesis by (subst next_free.simps) simp
  qed
qed

text \<open>
  The invariant of a parameter set: a name that has been added has its numbers, every number of a name is
  a position of that name, and every position below the counter is taken.
\<close>

definition set_ok :: "paramSet \<Rightarrow> bool" where
  "set_ok p \<longleftrightarrow>
     (\<forall>n. fmlookup (namedParams p) n \<noteq> None \<longleftrightarrow> locs_of p n \<noteq> []) \<and>
     (\<forall>n. \<forall>k \<in> set (locs_of p n). fmlookup (positionToName p) k = Some n) \<and>
     (\<forall>n q. fmlookup (namedParams p) n = Some q \<longrightarrow> p_name q = n) \<and>
     1 \<le> argn p \<and> (\<forall>k. 1 \<le> k \<longrightarrow> k < argn p \<longrightarrow> fmlookup (positionToName p) k \<noteq> None)"

lemma set_ok_New [simp]: "set_ok (NewParamSet used nm)"
  by (simp add: set_ok_def NewParamSet_def locs_of_def)

text \<open>The number a parameter gets: the first one it has, when names are shared, or the least free one.\<close>

lemma Add_reuse:
  assumes "set_ok p" and "fmlookup (namedParams p) (p_name q) \<noteq> None" and "hasNamedSupport p"
  shows "snd (Add q p) = Inr (hd (locs_of p (p_name q)))"
    and "positionToName (fst (Add q p)) = positionToName p"
  using assms by (auto simp: Add_def Let_def set_ok_def split: list.split)

lemma Add_fresh:
  assumes "\<not> (fmlookup (namedParams p) (p_name q) \<noteq> None \<and> hasNamedSupport p)"
  shows "snd (Add q p) = Inr (next_free (positionToName p) (argn p))"
    and "positionToName (fst (Add q p)) = fmupd (next_free (positionToName p) (argn p)) (p_name q) (positionToName p)"
  using assms by (auto simp: Add_def Let_def nextArgNum_def)

lemma below_next_free:
  assumes "set_ok p" and "1 \<le> k" and "k < next_free (positionToName p) (argn p)"
  shows "fmlookup (positionToName p) k \<noteq> None"
proof (cases "k < argn p")
  case True
  with assms show ?thesis by (auto simp: set_ok_def)
next
  case False
  then show ?thesis using next_free_least [of "argn p" k "positionToName p"] assms(3) by fastforce
qed

lemma Add_named: "namedParams (fst (Add q p)) = fmupd (p_name q)
     (mergeParam (case fmlookup (namedParams p) (p_name q) of None \<Rightarrow> zero_param | Some r \<Rightarrow> r) q) (namedParams p)"
  by (simp add: Add_def Let_def nextArgNum_def)

lemma Add_locs:
  "locs_of (fst (Add q p)) m =
     (if (fmlookup (namedParams p) (p_name q) \<noteq> None \<and> hasNamedSupport p) \<or> m \<noteq> p_name q then locs_of p m
      else locs_of p m @ [next_free (positionToName p) (argn p)])"
  by (auto simp: Add_def Let_def nextArgNum_def locs_of_def)

lemma set_ok_named: "set_ok p \<Longrightarrow> fmlookup (namedParams p) n = None \<longleftrightarrow> locs_of p n = []"
  unfolding set_ok_def by blast

lemma Add_keeps_ok: "set_ok p \<Longrightarrow> set_ok (fst (Add q p))"
proof -
  assume ok: "set_ok p"
  let ?p = "fst (Add q p)" and ?n = "next_free (positionToName p) (argn p)"
  have named: "fmlookup (namedParams ?p) n = None \<longleftrightarrow> locs_of ?p n = []" for n
    using set_ok_named [OF ok] by (auto simp: Add_named Add_locs)
  have names: "\<forall>n r. fmlookup (namedParams ?p) n = Some r \<longrightarrow> p_name r = n"
    using ok by (auto simp: Add_named set_ok_def mergeParam_def zero_param_def split: if_splits option.splits)
  show ?thesis
  proof (cases "fmlookup (namedParams p) (p_name q) \<noteq> None \<and> hasNamedSupport p")
    case True
    then have "argn ?p = argn p" by (simp add: Add_def Let_def)
    with ok named names True Add_reuse(2) [OF ok, of q] show ?thesis
      unfolding set_ok_def by (simp add: Add_locs)
  next
    case False
    then have arg: "argn ?p = ?n" by (auto simp: Add_def Let_def nextArgNum_def)
    have "fmlookup (positionToName p) ?n = None" by (rule next_free_unused)
    with ok have "?n \<notin> set (locs_of p m)" for m by (auto simp: set_ok_def)
    with ok have "\<forall>n. \<forall>k \<in> set (locs_of ?p n). fmlookup (positionToName ?p) k = Some n"
      by (auto simp: Add_locs Add_fresh(2) [OF False] set_ok_def)
    moreover have "1 \<le> argn ?p"
      using ok next_free_ge [of "argn p" "positionToName p"] by (simp add: set_ok_def arg)
    moreover have "\<forall>k. 1 \<le> k \<longrightarrow> k < argn ?p \<longrightarrow> fmlookup (positionToName ?p) k \<noteq> None"
      using below_next_free [OF ok] by (auto simp: arg Add_fresh(2) [OF False])
    ultimately show ?thesis using names unfolding set_ok_def by (simp add: named del: not_None_eq)
  qed
qed

text \<open>A parameter added to a set gets a number that the set then knows by the parameter's name.  With
  shared names a name that was added before gets the number it has and no position changes; otherwise
  the number is the least one from 1 that was not taken, so the numbers already in use, the ones the
  user wrote included, are never handed out again.\<close>

theorem Add_number:
  assumes "set_ok p"
  shows "if fmlookup (namedParams p) (p_name q) \<noteq> None \<and> hasNamedSupport p
         then \<exists>n. snd (Add q p) = Inr n \<and> fmlookup (positionToName p) n = Some (p_name q) \<and>
                positionToName (fst (Add q p)) = positionToName p
         else \<exists>n \<ge> 1. snd (Add q p) = Inr n \<and> fmlookup (positionToName p) n = None \<and>
                (\<forall>k. 1 \<le> k \<longrightarrow> k < n \<longrightarrow> fmlookup (positionToName p) k \<noteq> None) \<and>
                positionToName (fst (Add q p)) = fmupd n (p_name q) (positionToName p)"
proof (cases "fmlookup (namedParams p) (p_name q) \<noteq> None \<and> hasNamedSupport p")
  case True
  with assms have "locs_of p (p_name q) \<noteq> []" by (auto simp: set_ok_def)
  then have "fmlookup (positionToName p) (hd (locs_of p (p_name q))) = Some (p_name q)"
    using assms by (auto simp: set_ok_def)
  with True Add_reuse [OF assms] show ?thesis by simp
next
  case False
  have "1 \<le> next_free (positionToName p) (argn p)"
    using assms next_free_ge [of "argn p" "positionToName p"] by (simp add: set_ok_def)
  with Add_fresh [OF False] below_next_free [OF assms] next_free_unused show ?thesis
    unfolding if_not_P [OF False] by blast
qed

theorem Add_number_witness:
  "if fmlookup (namedParams (NewParamSet (fmap_of_list [(1, True)]) True)) (p_name (NewParam ''a'')) \<noteq> None \<and>
      hasNamedSupport (NewParamSet (fmap_of_list [(1, True)]) True)
   then \<exists>n. snd (Add (NewParam ''a'') (NewParamSet (fmap_of_list [(1, True)]) True)) = Inr n \<and>
          fmlookup (positionToName (NewParamSet (fmap_of_list [(1, True)]) True)) n = Some (p_name (NewParam ''a'')) \<and>
          positionToName (fst (Add (NewParam ''a'') (NewParamSet (fmap_of_list [(1, True)]) True))) =
            positionToName (NewParamSet (fmap_of_list [(1, True)]) True)
   else \<exists>n \<ge> 1. snd (Add (NewParam ''a'') (NewParamSet (fmap_of_list [(1, True)]) True)) = Inr n \<and>
          fmlookup (positionToName (NewParamSet (fmap_of_list [(1, True)]) True)) n = None \<and>
          (\<forall>k. 1 \<le> k \<longrightarrow> k < n \<longrightarrow>
             fmlookup (positionToName (NewParamSet (fmap_of_list [(1, True)]) True)) k \<noteq> None) \<and>
          positionToName (fst (Add (NewParam ''a'') (NewParamSet (fmap_of_list [(1, True)]) True))) =
            fmupd n (p_name (NewParam ''a'')) (positionToName (NewParamSet (fmap_of_list [(1, True)]) True))"
  by (rule Add_number) simp

lemma Add_position:
  assumes "set_ok p" and "snd (Add q p) = Inr n"
  shows "fmlookup (positionToName (fst (Add q p))) n = Some (p_name q)"
proof (cases "fmlookup (namedParams p) (p_name q) \<noteq> None \<and> hasNamedSupport p")
  case True
  with assms have "locs_of p (p_name q) \<noteq> []" by (auto simp: set_ok_def)
  then have "fmlookup (positionToName p) (hd (locs_of p (p_name q))) = Some (p_name q)"
    using assms(1) by (auto simp: set_ok_def)
  with True Add_reuse [OF assms(1)] assms(2) show ?thesis by simp
next
  case False
  with Add_fresh [OF False] assms(2) show ?thesis by simp
qed

lemma Add_defined: "set_ok p \<Longrightarrow> \<exists>n. snd (Add q p) = Inr n"
  using Add_reuse(1) [of p q] Add_fresh(1) [of p q] by blast

lemma Add_keeps_positions:
  assumes "set_ok p" and "fmlookup (positionToName p) k = Some n"
  shows "fmlookup (positionToName (fst (Add q p))) k = Some n"
proof (cases "fmlookup (namedParams p) (p_name q) \<noteq> None \<and> hasNamedSupport p")
  case True
  with Add_reuse(2) [OF assms(1)] assms(2) show ?thesis by simp
next
  case False
  have "k \<noteq> next_free (positionToName p) (argn p)"
    using next_free_unused [of "positionToName p" "argn p"] assms(2) by auto
  with Add_fresh(2) [OF False] assms(2) show ?thesis by simp
qed

text \<open>A parameter declared with \<open>sqlc.narg\<close> is reported as nullable under the number it got, and stays so
  whatever is added afterwards, under its own name or another.\<close>

theorem narg_stays_nullable:
  assumes ok: "set_ok p" and add: "Add q p = (p1, Inr n)" and q: "p_name q \<noteq> []" "param_is q nullable"
  shows "n \<in> Nullable (Some p1) \<and> n \<in> Nullable (Some (fst (Add r p1)))"
proof -
  have p1: "p1 = fst (Add q p)" and n: "snd (Add q p) = Inr n" using add by simp_all
  have ok1: "set_ok p1" unfolding p1 by (rule Add_keeps_ok [OF ok])
  have pos: "fmlookup (positionToName p1) n = Some (p_name q)"
    unfolding p1 by (rule Add_position [OF ok n])
  obtain s where s: "fmlookup (namedParams p1) (p_name q) = Some s" "param_is s nullable"
    using q(2) by (simp add: p1 Add_named param_is_merge)
  have mem: "n \<in> Nullable (Some p')"
    if "fmlookup (positionToName p') n = Some (p_name q)"
      and "\<exists>s. fmlookup (namedParams p') (p_name q) = Some s \<and> param_is s nullable" for p'
    using that q(1) fmdomI [OF that(1)] by (auto simp: Nullable_def)
  from mem [OF pos] s have "n \<in> Nullable (Some p1)" by blast
  moreover have "\<exists>t. fmlookup (namedParams (fst (Add r p1))) (p_name q) = Some t \<and> param_is t nullable"
    using s by (auto simp: Add_named param_is_merge)
  from mem [OF Add_keeps_positions [OF ok1 pos] this] have "n \<in> Nullable (Some (fst (Add r p1)))" .
  ultimately show ?thesis by blast
qed

theorem narg_stays_nullable_witness:
  "1 \<in> Nullable (Some (fst (Add (NewUserNullableParam ''a'') (NewParamSet fmempty True)))) \<and>
   1 \<in> Nullable (Some (fst (Add (NewParam ''a'') (fst (Add (NewUserNullableParam ''a'') (NewParamSet fmempty True))))))"
proof (rule narg_stays_nullable)
  show "set_ok (NewParamSet fmempty True)" by simp
  have "snd (Add (NewUserNullableParam ''a'') (NewParamSet fmempty True)) = Inr 1" by code_simp
  then show "Add (NewUserNullableParam ''a'') (NewParamSet fmempty True) =
      (fst (Add (NewUserNullableParam ''a'') (NewParamSet fmempty True)), Inr 1)" by (simp add: prod_eq_iff)
  show "p_name (NewUserNullableParam ''a'') \<noteq> []" by (simp add: NewUserNullableParam_def)
  show "param_is (NewUserNullableParam ''a'') nullable"
    by (simp add: NewUserNullableParam_def param_is_def)
qed

section \<open>The interface of the parameter set\<close>

text \<open>
  What the rewriting of queries relies on: adding never fails on a well-formed set, marks its number as
  used, and keeps the numbers in use.  \<open>add_all\<close> is the loop that numbers the occurrences of a statement.
\<close>

fun add_all :: "('p \<Rightarrow> 's \<Rightarrow> 's \<times> (error + int)) \<Rightarrow> 'p list \<Rightarrow> 's \<Rightarrow> 's \<times> (error + int list)" where
  "add_all add [] s = (s, Inr [])"
| "add_all add (q # qs) s =
     (case add q s of
        (s1, Inl e) \<Rightarrow> (s1, Inl e)
      | (s1, Inr n) \<Rightarrow>
          (case add_all add qs s1 of
             (s2, Inl e) \<Rightarrow> (s2, Inl e)
           | (s2, Inr ns) \<Rightarrow> (s2, Inr (n # ns))))"

locale numbering =
  fixes add :: "'p \<Rightarrow> 's \<Rightarrow> 's \<times> (error + int)"
    and inv :: "'s \<Rightarrow> bool"
    and name_at :: "'s \<Rightarrow> int \<Rightarrow> 'k option"
    and key :: "'p \<Rightarrow> 'k"
  assumes add_inv: "inv s \<Longrightarrow> inv (fst (add q s))"
    and add_defined: "inv s \<Longrightarrow> \<exists>n. snd (add q s) = Inr n"
    and add_at: "inv s \<Longrightarrow> snd (add q s) = Inr n \<Longrightarrow> name_at (fst (add q s)) n = Some (key q)"
    and add_keeps: "inv s \<Longrightarrow> name_at s k = Some v \<Longrightarrow> name_at (fst (add q s)) k = Some v"
begin

lemma add_all_inv: "inv s \<Longrightarrow> inv (fst (add_all add qs s))"
proof (induction qs arbitrary: s)
  case (Cons q qs)
  have "inv (fst (add_all add qs (fst (add q s))))" by (rule Cons.IH [OF add_inv [OF Cons.prems]])
  with add_inv [OF Cons.prems, of q] show ?case by (auto split: prod.splits sum.splits)
qed simp

lemma add_all_keeps:
  "inv s \<Longrightarrow> name_at s k = Some v \<Longrightarrow> name_at (fst (add_all add qs s)) k = Some v"
proof (induction qs arbitrary: s)
  case (Cons q qs)
  have "name_at (fst (add_all add qs (fst (add q s)))) k = Some v"
    using Cons.IH [OF add_inv [OF Cons.prems(1)] add_keeps [OF Cons.prems]] .
  moreover have "name_at (fst (add q s)) k = Some v" by (rule add_keeps [OF Cons.prems])
  ultimately show ?case by (auto split: prod.splits sum.splits)
qed simp

lemma add_all_defined:
  "inv s \<Longrightarrow> \<exists>ns. snd (add_all add qs s) = Inr ns \<and> length ns = length qs"
proof (induction qs arbitrary: s)
  case (Cons q qs)
  from add_defined [OF Cons.prems, of q] obtain n where "snd (add q s) = Inr n" by blast
  with Cons.IH [OF add_inv [OF Cons.prems, of q]] show ?case
    by (auto split: prod.splits sum.splits)
qed simp

text \<open>Every number of the run is known, at its end, by the name it was asked for.\<close>

lemma add_all_names:
  "inv s \<Longrightarrow> snd (add_all add qs s) = Inr ns \<Longrightarrow> i < length qs \<Longrightarrow>
     name_at (fst (add_all add qs s)) (ns ! i) = Some (key (qs ! i))"
proof (induction qs arbitrary: s ns i)
  case (Cons q qs)
  from add_defined [OF Cons.prems(1), of q] obtain n where n: "snd (add q s) = Inr n" by blast
  obtain s1 where s1: "add q s = (s1, Inr n)" using n by (metis prod.collapse)
  with add_inv [OF Cons.prems(1), of q] have inv1: "inv s1" by simp
  from add_all_defined [OF inv1, of qs] obtain ns1 where ns1: "snd (add_all add qs s1) = Inr ns1" by blast
  then have run: "add_all add (q # qs) s = (fst (add_all add qs s1), Inr (n # ns1))"
    by (auto simp: s1 split: prod.splits)
  with Cons.prems(2) have ns: "ns = n # ns1" by simp
  show ?case
  proof (cases i)
    case 0
    have "name_at s1 n = Some (key q)" using add_at [OF Cons.prems(1) n] s1 by simp
    with add_all_keeps [OF inv1] show ?thesis unfolding run by (simp add: 0 ns)
  next
    case (Suc j)
    with Cons.IH [OF inv1 ns1, of j] Cons.prems(3) show ?thesis unfolding run by (simp add: ns)
  qed
qed simp

end

interpretation params: numbering Add set_ok NameFor p_name
  by unfold_locales
     (auto simp: NameFor_def Add_keeps_ok Add_defined Add_position Add_keeps_positions)

text \<open>With shared names the set also promises that a name keeps the number it got first.\<close>

locale shared_numbering = numbering +
  fixes number_of :: "'b \<Rightarrow> 'c \<Rightarrow> int option"
  assumes add_number_of: "inv s \<Longrightarrow> snd (add q s) = Inr n \<Longrightarrow> number_of (fst (add q s)) (key q) = Some n"
    and number_of_keeps: "inv s \<Longrightarrow> number_of s k = Some n \<Longrightarrow> number_of (fst (add q s)) k = Some n"
begin

lemma number_of_keeps_all:
  "inv s \<Longrightarrow> number_of s k = Some n \<Longrightarrow> number_of (fst (add_all add qs s)) k = Some n"
proof (induction qs arbitrary: s)
  case (Cons q qs)
  have "number_of (fst (add_all add qs (fst (add q s)))) k = Some n"
    using Cons.IH [OF add_inv [OF Cons.prems(1)] number_of_keeps [OF Cons.prems]] .
  moreover have "number_of (fst (add q s)) k = Some n" by (rule number_of_keeps [OF Cons.prems])
  ultimately show ?case by (auto split: prod.splits sum.splits)
qed simp

lemma add_all_number_of:
  "inv s \<Longrightarrow> snd (add_all add qs s) = Inr ns \<Longrightarrow> i < length qs \<Longrightarrow>
     number_of (fst (add_all add qs s)) (key (qs ! i)) = Some (ns ! i)"
proof (induction qs arbitrary: s ns i)
  case (Cons q qs)
  from add_defined [OF Cons.prems(1), of q] obtain n where n: "snd (add q s) = Inr n" by blast
  obtain s1 where s1: "add q s = (s1, Inr n)" using n by (metis prod.collapse)
  with add_inv [OF Cons.prems(1), of q] have inv1: "inv s1" by simp
  from add_all_defined [OF inv1, of qs] obtain ns1 where ns1: "snd (add_all add qs s1) = Inr ns1" by blast
  then have run: "add_all add (q # qs) s = (fst (add_all add qs s1), Inr (n # ns1))"
    by (auto simp: s1 split: prod.splits)
  with Cons.prems(2) have ns: "ns = n # ns1" by simp
  show ?case
  proof (cases i)
    case 0
    have "number_of s1 (key q) = Some n" using add_number_of [OF Cons.prems(1) n] s1 by simp
    with number_of_keeps_all [OF inv1] show ?thesis unfolding run by (simp add: 0 ns)
  next
    case (Suc j)
    with Cons.IH [OF inv1 ns1, of j] Cons.prems(3) show ?thesis unfolding run by (simp add: ns)
  qed
qed simp

text \<open>Two parameters get one number exactly when they have one name.\<close>

lemma add_all_shares:
  assumes "inv s" and "snd (add_all add qs s) = Inr ns" and "i < length qs" and "j < length qs"
  shows "ns ! i = ns ! j \<longleftrightarrow> key (qs ! i) = key (qs ! j)"
  using add_all_number_of [OF assms(1-3)] add_all_number_of [OF assms(1,2,4)]
    add_all_names [OF assms(1-3)] add_all_names [OF assms(1,2,4)] by auto

end

definition number_of :: "paramSet \<Rightarrow> string \<Rightarrow> int option" where
  "number_of p name = (case locs_of p name of [] \<Rightarrow> None | l # _ \<Rightarrow> Some l)"

lemma Add_support [simp]: "hasNamedSupport (fst (Add q p)) = hasNamedSupport p"
  by (simp add: Add_def Let_def nextArgNum_def)

interpretation shared: shared_numbering Add "\<lambda>p. set_ok p \<and> hasNamedSupport p" NameFor p_name number_of
proof unfold_locales
  fix p :: paramSet and q n
  assume p: "set_ok p \<and> hasNamedSupport p" and n: "snd (Add q p) = Inr n"
  show "number_of (fst (Add q p)) (p_name q) = Some n"
  proof (cases "fmlookup (namedParams p) (p_name q) \<noteq> None")
    case True
    then have "locs_of p (p_name q) \<noteq> []" using p by (simp add: set_ok_named)
    with Add_reuse(1) [of p q] p n True show ?thesis
      by (auto simp: number_of_def Add_locs split: list.split)
  next
    case False
    then have "locs_of p (p_name q) = []" using p by (simp add: set_ok_named)
    with False n Add_fresh(1) [of p q] show ?thesis by (simp add: number_of_def Add_locs)
  qed
next
  fix p :: paramSet and k n q
  assume "set_ok p \<and> hasNamedSupport p" and "number_of p k = Some n"
  then show "number_of (fst (Add q p)) k = Some n"
    by (auto simp: number_of_def Add_locs split: list.splits)
qed (auto simp: NameFor_def Add_keeps_ok Add_defined Add_position Add_keeps_positions)

end
