(* ===== verification/Preprocess.thy ===== *)
theory Preprocess
  imports Scan Named Ast
begin

text \<open>
  \<open>internal/sql/preprocess/preprocess.go\<close>: numbering the placeholders of a statement, writing the native
  SQL that replaces each construct, and the record of edits that maps offsets back to the source.

  A slice expression of the source that can be out of range makes \<open>Dialected\<close> return a \<open>Panic\<close>.
\<close>

section \<open>Data\<close>

record embed =
  e_Table :: tableName
  e_Location :: nat
  e_param :: string

definition Orig :: "embed \<Rightarrow> string" where
  "Orig e = ''sqlc.embed('' @ e_param e @ '')''"

definition EmbedSet_Find :: "embed list \<Rightarrow> nat list \<Rightarrow> embed option" where
  "EmbedSet_Find es locations = find (\<lambda>e. list_ex (\<lambda>loc. loc = e_Location e) locations) es"

record statement =
  st_Start :: nat
  st_End :: nat
  st_Params :: paramSet
  st_Embeds :: "embed list"
  st_Slices :: "(nat, string) fmap"
  st_Numbers :: "(nat, int) fmap"
  st_Dollar :: bool
  st_ParamErr :: "error option"
  st_Err :: "sqlerr option"

record edit =
  oldStart :: nat
  oldEnd :: nat
  newStart :: nat
  newEnd :: nat

record result =
  r_Text :: string
  r_stmts :: "statement list"
  r_edits :: "edit list"

definition new_statement :: "nat \<Rightarrow> statement" where
  "new_statement start =
     \<lparr>st_Start = start, st_End = 0, st_Params = NewParamSet fmempty True, st_Embeds = [],
      st_Slices = fmempty, st_Numbers = fmempty, st_Dollar = False, st_ParamErr = None, st_Err = None\<rparr>"

text \<open>\<open>(*Result).Statement\<close>: the statement that covers an offset of the rewritten text.\<close>

definition Result_Statement :: "result \<Rightarrow> nat \<Rightarrow> statement" where
  "Result_Statement r location =
     (case find (\<lambda>s. location < st_End s) (r_stmts r) of Some s \<Rightarrow> s | None \<Rightarrow> new_statement 0)"

text \<open>\<open>(*Result).Origin\<close>, with the running difference between the two texts.\<close>

fun origin_loop :: "edit list \<Rightarrow> nat \<Rightarrow> int \<Rightarrow> int" where
  "origin_loop [] location delta = int location + delta"
| "origin_loop (e # es) location delta =
     (if location < newStart e then int location + delta
      else if location < newEnd e then int (oldStart e)
      else origin_loop es location
             (delta + ((int (oldEnd e) - int (oldStart e)) - (int (newEnd e) - int (newStart e)))))"

definition Origin :: "result \<Rightarrow> nat \<Rightarrow> int" where
  "Origin r location = origin_loop (r_edits r) location 0"

section \<open>Placeholders\<close>

definition firstError :: "occurrence list \<Rightarrow> sqlerr option" where
  "firstError occs = (case find (\<lambda>occ. o_err occ \<noteq> None) occs of None \<Rightarrow> None | Some occ \<Rightarrow> o_err occ)"

definition sliceMarkerLen :: "dialect \<Rightarrow> occurrence \<Rightarrow> nat" where
  "sliceMarkerLen d occ =
     (if o_kind occ \<noteq> kindSlice \<or> Style d = StyleDollar then 0
      else length ''/*SLICE:'' + length (o_name occ) + length ''*/'')"

text \<open>The numbers the user wrote, and whether some placeholder has none.\<close>

definition explicit_numbers :: "occurrence list \<Rightarrow> int list" where
  "explicit_numbers occs = map o_number (filter (\<lambda>occ. o_kind occ = kindNative \<and> o_explicit occ) occs)"

definition has_unnumbered :: "occurrence list \<Rightarrow> bool" where
  "has_unnumbered occs \<longleftrightarrow> list_ex (\<lambda>occ. o_kind occ = kindNative \<and> \<not> o_explicit occ) occs"

definition validatePlaceholders :: "occurrence list \<Rightarrow> bool \<times> error option" where
  "validatePlaceholders occs =
     (let seen = explicit_numbers occs; unnumbered = has_unnumbered occs in
      if seen \<noteq> [] \<and> unnumbered
      then (False, Some (PlainErr ''can not mix $1 format with ? format''))
      else
        (case find (\<lambda>i. i \<notin> set seen) [1..int (length (remdups seen))] of
           Some i \<Rightarrow>
             (\<not> unnumbered,
              Some (SqlErr \<lparr>Err = None, Code = ''42P18'',
                      Message = ''could not determine data type of parameter $'' @ Itoa i,
                      Location = 0, Line = 0, Column = 0\<rparr>))
         | None \<Rightarrow> (\<not> unnumbered, None)))"

definition param_of :: "occurrence \<Rightarrow> param" where
  "param_of occ =
     (case o_kind occ of
        kindNarg \<Rightarrow> NewUserNullableParam (o_name occ)
      | kindSlice \<Rightarrow> NewSqlcSlice (o_name occ)
      | _ \<Rightarrow> NewParam (o_name occ))"

text \<open>The loop that adds the parameters of the selected occurrences to the set and stores their numbers.\<close>

fun number_loop :: "(occurrence \<Rightarrow> bool) \<Rightarrow> occurrence list \<Rightarrow> paramSet \<Rightarrow>
    paramSet \<times> (error + occurrence list)" where
  "number_loop sel [] ps = (ps, Inr [])"
| "number_loop sel (occ # occs) ps =
     (if \<not> sel occ then
        (case number_loop sel occs ps of
           (ps', Inl e) \<Rightarrow> (ps', Inl e) | (ps', Inr os) \<Rightarrow> (ps', Inr (occ # os)))
      else
        (case Add (param_of occ) ps of
           (ps', Inl e) \<Rightarrow> (ps', Inl e)
         | (ps', Inr n) \<Rightarrow>
             (case number_loop sel occs ps' of
                (ps'', Inl e) \<Rightarrow> (ps'', Inl e)
              | (ps'', Inr os) \<Rightarrow> (ps'', Inr (occ\<lparr>o_number := n\<rparr> # os)))))"

text \<open>The first loop of the numbered dialects: the native placeholders are counted, and one without a number
  of its own takes its count.\<close>

fun count_natives :: "occurrence list \<Rightarrow> int \<Rightarrow> occurrence list" where
  "count_natives [] count = []"
| "count_natives (occ # occs) count =
     (if o_kind occ \<noteq> kindNative then occ # count_natives occs count
      else (if o_explicit occ then occ else occ\<lparr>o_number := count + 1\<rparr>) # count_natives occs (count + 1))"

definition native_numbers :: "occurrence list \<Rightarrow> int list" where
  "native_numbers occs = map o_number (filter (\<lambda>occ. o_kind occ = kindNative) occs)"

definition is_parameter :: "occurrence \<Rightarrow> bool" where
  "is_parameter occ \<longleftrightarrow> o_kind occ \<noteq> kindEmbed \<and> o_kind occ \<noteq> kindNative"

definition number :: "dialect \<Rightarrow> occurrence list \<Rightarrow> paramSet \<times> (error + occurrence list)" where
  "number d occs =
     (if Style d = StyleQuestion
      then number_loop (\<lambda>occ. o_kind occ \<noteq> kindEmbed) occs (NewParamSet fmempty False)
      else
        (let occs1 = count_natives occs 0 in
         number_loop is_parameter occs1
           (NewParamSet (fmap_of_list (map (\<lambda>n. (n, True)) (native_numbers occs1)))
              (dialect_hasNamedSupport d))))"

definition replacement :: "dialect \<Rightarrow> occurrence \<Rightarrow> string" where
  "replacement d occ =
     (case o_kind occ of
        kindEmbed \<Rightarrow> o_ident occ @ ''.*''
      | kindNative \<Rightarrow>
          if Style d = StyleDollar \<and> \<not> o_explicit occ then ''$'' @ Itoa (o_number occ) else o_ident occ
      | _ \<Rightarrow>
          (case Style d of
             StyleDollar \<Rightarrow> ''$'' @ Itoa (o_number occ)
           | StyleOrdinal \<Rightarrow>
               if o_kind occ = kindSlice then ''/*SLICE:'' @ o_name occ @ ''*/?''
               else ''?'' @ Itoa (o_number occ)
           | StyleQuestion \<Rightarrow>
               if o_kind occ = kindSlice then ''/*SLICE:'' @ o_name occ @ ''*/?'' else ''?''))"

section \<open>Rewriting\<close>

text \<open>What one occurrence adds to the record of its statement; \<open>ns\<close> is where its replacement starts.\<close>

definition note_occurrence :: "dialect \<Rightarrow> nat \<Rightarrow> occurrence \<Rightarrow> statement \<Rightarrow> statement" where
  "note_occurrence d ns occ stmt =
     (let stmt1 = (if o_kind occ \<noteq> kindEmbed
                   then stmt\<lparr>st_Numbers := fmupd (ns + sliceMarkerLen d occ) (o_number occ) (st_Numbers stmt)\<rparr>
                   else stmt)
      in case o_kind occ of
           kindEmbed \<Rightarrow>
             stmt1\<lparr>st_Embeds := st_Embeds stmt1 @
                      [\<lparr>e_Table = named_table (o_name occ), e_Location = ns, e_param = o_ident occ\<rparr>]\<rparr>
         | kindSlice \<Rightarrow>
             stmt1\<lparr>st_Slices := fmupd (ns + sliceMarkerLen d occ) (o_name occ) (st_Slices stmt1)\<rparr>
         | _ \<Rightarrow> stmt1)"

text \<open>The inner loop of \<open>Dialected\<close> over the occurrences of a statement: \<open>b\<close> is the builder and \<open>prev\<close> the
  offset up to which the source has been copied.\<close>

fun emit :: "dialect \<Rightarrow> string \<Rightarrow> occurrence list \<Rightarrow> nat \<Rightarrow> string \<Rightarrow> statement \<Rightarrow> edit list \<Rightarrow>
    error + nat \<times> string \<times> statement \<times> edit list" where
  "emit d src [] prev b stmt edits = Inr (prev, b, stmt, edits)"
| "emit d src (occ # occs) prev b stmt edits =
     (case sub_slice prev (o_start occ) src of
        Inl e \<Rightarrow> Inl e
      | Inr piece \<Rightarrow>
          (let b1 = b @ piece; ns = length b1; rep = replacement d occ; b2 = b1 @ rep; ne = length b2 in
           case sub_slice (o_start occ) (o_end occ) src of
             Inl e \<Rightarrow> Inl e
           | Inr old \<Rightarrow>
               emit d src occs (o_end occ) b2 (note_occurrence d ns occ stmt)
                 (if rep \<noteq> old
                  then edits @ [\<lparr>oldStart = o_start occ, oldEnd = o_end occ, newStart = ns, newEnd = ne\<rparr>]
                  else edits)))"

definition rewrite_statement :: "lexer \<Rightarrow> nat \<Rightarrow> nat \<Rightarrow> string \<Rightarrow> edit list \<Rightarrow>
    error + string \<times> statement \<times> edit list" where
  "rewrite_statement l start end' b edits =
     (let occs = scan l start end'; stmt = new_statement (length b) in
      case firstError occs of
        Some err \<Rightarrow>
          (let b1 = b @ substr start end' (l_src l) in
           Inr (b1, stmt\<lparr>st_End := length b1,
                         st_Err := Some (err\<lparr>Location := length b + (Location err - start)\<rparr>),
                         st_Params := NewParamSet fmempty (dialect_hasNamedSupport (l_d l)),
                         st_Dollar := True\<rparr>, edits))
      | None \<Rightarrow>
          (case validatePlaceholders occs of
             (dollar, perr) \<Rightarrow>
               (case number (l_d l) occs of
                  (ps, Inl e) \<Rightarrow> Inl e
                | (ps, Inr occs1) \<Rightarrow>
                    (case emit (l_d l) (l_src l) occs1 start b
                            (stmt\<lparr>st_Dollar := dollar, st_ParamErr := perr, st_Params := ps\<rparr>) edits of
                       Inl e \<Rightarrow> Inl e
                     | Inr (prev, b1, stmt1, edits1) \<Rightarrow>
                         (case sub_slice prev end' (l_src l) of
                            Inl e \<Rightarrow> Inl e
                          | Inr piece \<Rightarrow>
                              Inr (b1 @ piece, stmt1\<lparr>st_End := length (b1 @ piece)\<rparr>, edits1))))))"

text \<open>The outer loop over the statements.  Blank text after the last semicolon is copied but is not a
  statement.\<close>

fun rewrite_all :: "lexer \<Rightarrow> (nat \<times> nat) list \<Rightarrow> string \<Rightarrow> statement list \<Rightarrow> edit list \<Rightarrow> error + result" where
  "rewrite_all l [] b stmts edits = Inr \<lparr>r_Text = b, r_stmts = stmts, r_edits = edits\<rparr>"
| "rewrite_all l ((start, end') # spans) b stmts edits =
     (if spans = [] \<and> TrimSpace (substr start end' (l_src l)) = []
      then rewrite_all l spans (b @ substr start end' (l_src l)) stmts edits
      else
        (case rewrite_statement l start end' b edits of
           Inl e \<Rightarrow> Inl e
         | Inr (b1, stmt, edits1) \<Rightarrow> rewrite_all l spans b1 (stmts @ [stmt]) edits1))"

definition Dialected :: "dialect \<Rightarrow> string \<Rightarrow> error + result" where
  "Dialected d src = (let l = \<lparr>l_d = d, l_src = src\<rparr> in rewrite_all l (statements l) [] [] [])"

definition File :: "engine \<Rightarrow> string \<Rightarrow> error + result" where
  "File engine src =
     (case DialectFor engine of
        None \<Rightarrow> Inr \<lparr>r_Text = src, r_stmts = [], r_edits = []\<rparr>
      | Some d \<Rightarrow> Dialected d src)"

end
