(* ===== verification/Preprocess_Props.thy ===== *)
theory Preprocess_Props
  imports Preprocess
begin

text \<open>
  What the rewriting of \<open>Preprocess\<close> guarantees: the rewritten text is the source with exactly the recorded
  spans replaced, \<open>Origin\<close> maps the offsets between them back, the placeholder numbers are consistent,
  and the cases in which the rewriting does not return.
\<close>

section \<open>Alignment of the two texts\<close>

text \<open>
  \<open>aligned es a A n N src text\<close>: from the offsets \<open>a\<close> and \<open>A\<close> up to \<open>n\<close> and \<open>N\<close>, the text is the source with
  the spans of the edits \<open>es\<close> replaced and everything between them copied.
\<close>

fun aligned :: "edit list \<Rightarrow> nat \<Rightarrow> nat \<Rightarrow> nat \<Rightarrow> nat \<Rightarrow> string \<Rightarrow> string \<Rightarrow> bool" where
  "aligned [] a A n N src tx \<longleftrightarrow>
     a \<le> n \<and> N + a = A + n \<and> substr a n src = substr A N tx"
| "aligned (e # es) a A n N src tx \<longleftrightarrow>
     a \<le> oldStart e \<and> newStart e + a = A + oldStart e \<and>
     substr a (oldStart e) src = substr A (newStart e) tx \<and>
     oldStart e \<le> oldEnd e \<and> newStart e \<le> newEnd e \<and>
     aligned es (oldEnd e) (newEnd e) n N src tx"

lemma aligned_le: "aligned es a A n N src tx \<Longrightarrow> a \<le> n \<and> A \<le> N"
proof (induction es arbitrary: a A)
  case (Cons e es)
  from Cons.prems have "aligned es (oldEnd e) (newEnd e) n N src tx" by simp
  from Cons.IH [OF this] Cons.prems show ?case by auto
qed auto

lemma aligned_newEnd: "aligned (e # es) a A n N src tx \<Longrightarrow> newEnd e \<le> N"
  using aligned_le [of es "oldEnd e" "newEnd e" n N src tx] by simp

lemma substr_append1: "j \<le> length s \<Longrightarrow> substr i j (s @ t) = substr i j s"
  by (simp add: substr_def)

lemma substr_append_end: "i \<le> length s \<Longrightarrow> substr i (length s + length t) (s @ t) = substr i (length s) s @ t"
  by (simp add: substr_def)

lemma aligned_grow:
  "aligned es a A n N src tx \<Longrightarrow> N \<le> length tx \<Longrightarrow> aligned es a A n N src (tx @ ys)"
proof (induction es arbitrary: a A)
  case (Cons e es)
  then have "newEnd e \<le> length tx" using aligned_newEnd by fastforce
  with Cons show ?case by (auto simp: substr_append1)
qed (simp add: substr_append1)

text \<open>Copying the source up to \<open>m\<close>.\<close>

lemma aligned_copy:
  assumes "aligned es a A n (length tx) src tx" and "n \<le> m" and "m \<le> length src"
  shows "aligned es a A m (length tx + (m - n)) src (tx @ substr n m src)"
  using assms(1)
proof (induction es arbitrary: a A)
  case Nil
  then have A: "A \<le> length tx" "a \<le> n" and eq: "substr a n src = substr A (length tx) tx" by auto
  have "substr a m src = substr a n src @ substr n m src" using A assms by (simp add: substr_append)
  also have "\<dots> = substr A (length tx + length (substr n m src)) (tx @ substr n m src)"
    using eq A by (simp only: substr_append_end)
  finally have "substr a m src = substr A (length tx + (m - n)) (tx @ substr n m src)"
    using assms(3) by simp
  moreover have "length tx + (m - n) + a = A + m" using Nil assms(2) by (simp, arith)
  ultimately show ?case using A assms(2) by simp
next
  case (Cons e es)
  then have "newEnd e \<le> length tx" using aligned_newEnd by fastforce
  with Cons show ?case by (auto simp: substr_append1)
qed

text \<open>Replacing the source from \<open>n\<close> to \<open>m\<close>.\<close>

lemma aligned_edit:
  assumes "aligned es a A n (length tx) src tx" and "n \<le> m"
  shows "aligned (es @ [\<lparr>oldStart = n, oldEnd = m, newStart = length tx, newEnd = length (tx @ rep)\<rparr>])
           a A m (length (tx @ rep)) src (tx @ rep)"
  using assms(1)
proof (induction es arbitrary: a A)
  case Nil
  then show ?case using assms(2) by (simp add: substr_append1)
next
  case (Cons e es)
  then have "newEnd e \<le> length tx" using aligned_newEnd by fastforce
  with Cons show ?case by (auto simp: substr_append1)
qed

section \<open>The rewriting keeps the texts aligned\<close>

lemma emit_aligned:
  assumes "aligned edits 0 0 prev (length b) src b"
    and "emit d src occs prev b stmt edits = Inr (prev', b', stmt', edits')"
  shows "aligned edits' 0 0 prev' (length b') src b'"
  using assms
proof (induction d src occs prev b stmt edits rule: emit.induct)
  case (2 d src occ occs prev b stmt edits)
  let ?b1 = "b @ substr prev (o_start occ) src" and ?rep = "replacement d occ"
  let ?old = "substr (o_start occ) (o_end occ) src"
  from "2.prems"(2) have bounds: "prev \<le> o_start occ" "o_start occ \<le> o_end occ" "o_end occ \<le> length src"
    by (auto simp: sub_slice_def split: if_splits)
  have b1: "aligned edits 0 0 (o_start occ) (length ?b1) src ?b1"
    using aligned_copy [OF "2.prems"(1) bounds(1)] bounds by simp
  have rest: "emit d src occs (o_end occ) (?b1 @ ?rep) (note_occurrence d (length ?b1) occ stmt)
      (if ?rep \<noteq> ?old then edits @ [\<lparr>oldStart = o_start occ, oldEnd = o_end occ, newStart = length ?b1,
           newEnd = length (?b1 @ ?rep)\<rparr>] else edits) = Inr (prev', b', stmt', edits')"
    using "2.prems"(2) bounds by (simp add: sub_slice_def Let_def)
  have "aligned (if ?rep \<noteq> ?old then edits @ [\<lparr>oldStart = o_start occ, oldEnd = o_end occ,
           newStart = length ?b1, newEnd = length (?b1 @ ?rep)\<rparr>] else edits)
         0 0 (o_end occ) (length (?b1 @ ?rep)) src (?b1 @ ?rep)"
  proof (cases "?rep = ?old")
    case True
    with aligned_copy [OF b1 bounds(2,3)] bounds show ?thesis by simp
  next
    case False
    with aligned_edit [OF b1 bounds(2), of ?rep] show ?thesis by simp
  qed
  from "2.IH" [OF _ refl refl refl refl refl _ this rest] bounds show ?case
    by (simp add: sub_slice_def)
qed simp

lemma rewrite_statement_aligned:
  assumes "aligned edits 0 0 s (length b) (l_src l) b" and "s \<le> e" and "e \<le> src_len l"
    and "rewrite_statement l s e b edits = Inr (b', stmt, edits')"
  shows "aligned edits' 0 0 e (length b') (l_src l) b'"
proof (cases "firstError (scan l s e)")
  case (Some err)
  with assms(4) have "b' = b @ substr s e (l_src l)" "edits' = edits"
    by (auto simp: rewrite_statement_def Let_def)
  with aligned_copy [OF assms(1-3)] assms(3) show ?thesis by simp
next
  case None
  with assms(4) obtain dollar perr ps occs prev b1 st1 stmt1 where
    "emit (l_d l) (l_src l) occs s b st1 edits = Inr (prev, b1, stmt1, edits')"
    "sub_slice prev e (l_src l) = Inr (substr prev e (l_src l))" "prev \<le> e"
    "b' = b1 @ substr prev e (l_src l)"
    by (fastforce simp: rewrite_statement_def Let_def sub_slice_def split: prod.splits sum.splits if_splits)
  with emit_aligned [OF assms(1)] aligned_copy [of edits' 0 0 prev b1 "l_src l" e] assms(3) show ?thesis
    by simp
qed

lemma rewrite_all_aligned:
  assumes "contiguous spans s (src_len l)" and "aligned edits 0 0 s (length b) (l_src l) b"
    and "rewrite_all l spans b stmts edits = Inr r"
  shows "aligned (r_edits r) 0 0 (src_len l) (length (r_Text r)) (l_src l) (r_Text r)"
  using assms
proof (induction l spans b stmts edits arbitrary: s rule: rewrite_all.induct)
  case (2 l start e spans b stmts edits)
  then have bounds: "start = s" "s \<le> e" "e \<le> src_len l" "contiguous spans e (src_len l)"
    using contiguous_le [of spans e "src_len l"] by auto
  show ?case
  proof (cases "spans = [] \<and> TrimSpace (substr start e (l_src l)) = []")
    case True
    with aligned_copy [OF "2.prems"(2) bounds(2,3)] bounds have
      "aligned edits 0 0 e (length (b @ substr start e (l_src l))) (l_src l) (b @ substr start e (l_src l))" by simp
    from "2.IH"(1) [OF True bounds(4) this] "2.prems"(3) True show ?thesis by simp
  next
    case False
    with "2.prems"(3) obtain b1 stmt edits1 where step: "rewrite_statement l start e b edits = Inr (b1, stmt, edits1)"
      and rest: "rewrite_all l spans b1 (stmts @ [stmt]) edits1 = Inr r"
      by (auto split: sum.splits)
    from rewrite_statement_aligned [OF "2.prems"(2) bounds(2,3)] step bounds(1)
    have "aligned edits1 0 0 e (length b1) (l_src l) b1" by simp
    from "2.IH"(2) [OF False step refl refl bounds(4) this rest] show ?thesis .
  qed
qed auto

lemma Dialected_aligned:
  assumes "Dialected d src = Inr r"
  shows "aligned (r_edits r) 0 0 (length src) (length (r_Text r)) src (r_Text r)"
  using rewrite_all_aligned [OF statements_contiguous [of "\<lparr>l_d = d, l_src = src\<rparr>"], of "[]" "[]" "[]" r] assms
  by (simp add: Dialected_def Let_def)

text \<open>C3: the rewritten text of a file is the source in which exactly the recorded edits were made: the
  edits are in order, and before, between and after them the two texts agree byte for byte.\<close>

theorem rewriting_is_the_edits:
  assumes "Dialected d src = Inr r"
  shows "aligned (r_edits r) 0 0 (length src) (length (r_Text r)) src (r_Text r)"
  using assms by (rule Dialected_aligned)

section \<open>Mapping offsets back\<close>

lemma copied_byte:
  assumes "substr a n src = substr A N tx" and "N + a = A + n" and "n \<le> length src" and "N \<le> length tx"
    and "A \<le> p" and "p < N"
  shows "src ! (a + (p - A)) = tx ! p \<and> a + (p - A) < n"
proof -
  have q: "a + (p - A) < n" using assms(2,5,6) by arith
  from arg_cong [OF assms(1), of "\<lambda>s. s ! (p - A)"] have "src ! (a + (p - A)) = tx ! (A + (p - A))"
    using q assms(3-6) by (simp only: nth_substr le_add_diff_inverse)
  with q assms(5) show ?thesis by simp
qed

lemma origin_loop_aligned:
  assumes "aligned es a A n N src tx" and "n \<le> length src" and "N \<le> length tx" and "A \<le> p" and "p < N"
  shows "(\<exists>e \<in> set es. newStart e \<le> p \<and> p < newEnd e \<and> origin_loop es p (int a - int A) = int (oldStart e)) \<or>
         (\<exists>q < n. origin_loop es p (int a - int A) = int q \<and> src ! q = tx ! p)"
  using assms
proof (induction es arbitrary: a A)
  case Nil
  let ?q = "a + (p - A)"
  from Nil copied_byte [of a n src A N tx p] have "src ! ?q = tx ! p" "?q < n" by auto
  with Nil show ?case by (intro disjI2 exI [of _ ?q]) auto
next
  case (Cons e es)
  have shift: "int a - int A + ((int (oldEnd e) - int (oldStart e)) - (int (newEnd e) - int (newStart e)))
      = int (oldEnd e) - int (newEnd e)" using Cons.prems(1) by auto
  consider (before) "p < newStart e" | (inside) "newStart e \<le> p" "p < newEnd e" | (after) "newEnd e \<le> p"
    by linarith
  then show ?case
  proof cases
    case before
    let ?q = "a + (p - A)"
    have len: "oldStart e \<le> length src" "newStart e \<le> length tx" "oldStart e \<le> n"
      using Cons.prems aligned_le [of es "oldEnd e" "newEnd e" n N src tx] by auto
    with copied_byte [of a "oldStart e" src A "newStart e" tx p] before Cons.prems
    have "src ! ?q = tx ! p" "?q < oldStart e" by auto
    with len before Cons.prems show ?thesis by (intro disjI2 exI [of _ ?q]) auto
  next
    case inside
    then show ?thesis by simp
  next
    case after
    from Cons.prems have "newStart e \<le> newEnd e" by simp
    with after have "\<not> p < newStart e" "\<not> p < newEnd e" by simp_all
    then have "origin_loop (e # es) p (int a - int A) = origin_loop es p (int (oldEnd e) - int (newEnd e))"
      by (simp only: origin_loop.simps if_False shift)
    with Cons.IH [of "oldEnd e" "newEnd e"] Cons.prems after show ?thesis by auto
  qed
qed

text \<open>C11: \<open>Origin\<close> maps every offset of the rewritten text into the source: an offset inside a replacement goes
  to where the replaced construct started, any other offset to the very byte it was copied from.\<close>

theorem Origin_correct:
  assumes "Dialected d src = Inr r" and "p < length (r_Text r)"
  shows "(\<exists>e \<in> set (r_edits r). newStart e \<le> p \<and> p < newEnd e \<and> Origin r p = int (oldStart e)) \<or>
         (\<exists>q < length src. Origin r p = int q \<and> src ! q = r_Text r ! p)"
  using origin_loop_aligned [OF Dialected_aligned [OF assms(1)] _ _ _ assms(2)] by (simp add: Origin_def)

lemma no_edits_same_text: "aligned [] 0 0 (length src) (length tx) src tx \<Longrightarrow> tx = src"
  by (simp add: substr_full)

text \<open>A file in which nothing was replaced comes back unchanged, and so does every file of an engine that is
  not preprocessed.\<close>

theorem File_unedited:
  assumes "File engine src = Inr r" and "r_edits r = []"
  shows "r_Text r = src"
proof (cases "DialectFor engine")
  case None
  with assms show ?thesis by (auto simp: File_def)
next
  case (Some d)
  with assms(1) have "Dialected d src = Inr r" by (simp add: File_def)
  from Dialected_aligned [OF this] assms(2) show ?thesis by (simp add: no_edits_same_text del: aligned.simps)
qed

section \<open>When the rewriting returns\<close>

lemma number_loop_defined:
  "set_ok ps \<Longrightarrow> \<exists>ps' os. number_loop sel occs ps = (ps', Inr os) \<and> length os = length occs \<and> set_ok ps'"
proof (induction occs arbitrary: ps)
  case (Cons occ occs)
  show ?case
  proof (cases "sel occ")
    case False
    with Cons.IH [OF Cons.prems] show ?thesis by auto
  next
    case True
    from Add_defined [OF Cons.prems] obtain n where n: "snd (Add (param_of occ) ps) = Inr n" by blast
    with Cons.IH [OF Add_keeps_ok [OF Cons.prems, of "param_of occ"]] True show ?thesis
      by (cases "Add (param_of occ) ps") auto
  qed
qed simp

text \<open>Numbering does not move an occurrence.\<close>

lemma number_loop_spans:
  "number_loop sel occs ps = (ps', Inr os) \<Longrightarrow>
     map o_start os = map o_start occs \<and> map o_end os = map o_end occs \<and> map o_kind os = map o_kind occs \<and>
     map o_name os = map o_name occs"
proof (induction occs arbitrary: ps os)
  case (Cons occ occs)
  show ?case
  proof (cases "sel occ")
    case False
    with Cons show ?thesis by (auto split: prod.splits sum.splits)
  next
    case True
    with Cons.prems obtain p1 n os1 where "number_loop sel occs p1 = (ps', Inr os1)" "os = occ\<lparr>o_number := n\<rparr> # os1"
      by (auto split: prod.splits sum.splits)
    with Cons.IH show ?thesis by auto
  qed
qed simp

lemma count_natives_spans:
  "map o_start (count_natives occs c) = map o_start occs" "map o_end (count_natives occs c) = map o_end occs"
  "map o_kind (count_natives occs c) = map o_kind occs" "map o_name (count_natives occs c) = map o_name occs"
  by (induction occs arbitrary: c) auto

lemma number_defined:
  "\<exists>ps os. number d occs = (ps, Inr os) \<and> map o_start os = map o_start occs \<and> map o_end os = map o_end occs"
proof (cases "Style d = StyleQuestion")
  case True
  from number_loop_defined [OF set_ok_New [of fmempty False], of "\<lambda>occ. o_kind occ \<noteq> kindEmbed" occs]
  show ?thesis using number_loop_spans True by (fastforce simp: number_def)
next
  case False
  from number_loop_defined [OF set_ok_New, of is_parameter "count_natives occs 0"]
  show ?thesis using number_loop_spans False by (fastforce simp: number_def Let_def count_natives_spans)
qed

text \<open>The occurrences of a statement end inside it.\<close>

definition stays_inside :: "lexer \<Rightarrow> nat \<times> nat \<Rightarrow> bool" where
  "stays_inside l se \<longleftrightarrow> (case se of (s, e) \<Rightarrow> \<forall>occ \<in> set (scan l s e). o_end occ \<le> e)"

lemma emit_defined:
  assumes "list_all2 (\<lambda>x y. o_start x = o_start y \<and> o_end x = o_end y) os occs"
    and "ordered occs prev e n" and "n \<le> length src" and "\<forall>occ \<in> set occs. o_end occ \<le> e" and "prev \<le> e"
  shows "\<exists>p b' s' ed'. emit d src os prev b stmt edits = Inr (p, b', s', ed') \<and> p \<le> e"
  using assms
proof (induction os occs arbitrary: prev b stmt edits rule: list_all2_induct)
  case (Cons x xs y ys)
  then show ?case by (simp add: sub_slice_def Let_def)
qed simp

lemma rewrite_statement_defined:
  assumes "stays_inside l (s, e)" and "s \<le> e" and "e \<le> src_len l"
  shows "\<exists>r. rewrite_statement l s e b edits = Inr r"
proof (cases "firstError (scan l s e)")
  case (Some err)
  then show ?thesis by (simp add: rewrite_statement_def Let_def)
next
  case None
  let ?occs = "scan l s e"
  obtain ps os where num: "number (l_d l) ?occs = (ps, Inr os)"
    and same: "map o_start os = map o_start ?occs" "map o_end os = map o_end ?occs"
    using number_defined by blast
  obtain dollar perr where val: "validatePlaceholders ?occs = (dollar, perr)" by fastforce
  have "list_all2 (\<lambda>x y. o_start x = o_start y \<and> o_end x = o_end y) os ?occs"
    using same map_eq_imp_length_eq [OF same(1)] by (auto simp: list_all2_conv_all_nth list_eq_iff_nth_eq)
  from emit_defined [OF this scan_ordered _ _ assms(2), of "l_src l"] assms obtain p b' s' ed' where
    "emit (l_d l) (l_src l) os s b (new_statement (length b)\<lparr>st_Dollar := dollar, st_ParamErr := perr, st_Params := ps\<rparr>) edits
       = Inr (p, b', s', ed')" "p \<le> e"
    by (fastforce simp: stays_inside_def)
  with None num val assms(3) show ?thesis by (simp add: rewrite_statement_def Let_def sub_slice_def)
qed

lemma rewrite_all_defined:
  assumes "contiguous spans s (src_len l)" and "\<forall>se \<in> set spans. stays_inside l se"
  shows "\<exists>r. rewrite_all l spans b stmts edits = Inr r"
  using assms
proof (induction l spans b stmts edits arbitrary: s rule: rewrite_all.induct)
  case (2 l start e spans b stmts edits)
  then have bounds: "start \<le> e" "e \<le> src_len l" "contiguous spans e (src_len l)"
    using contiguous_le [of spans e "src_len l"] by auto
  show ?case
  proof (cases "spans = [] \<and> TrimSpace (substr start e (l_src l)) = []")
    case True
    with "2.IH"(1) [OF True bounds(3)] "2.prems" show ?thesis by simp
  next
    case False
    from rewrite_statement_defined [OF _ bounds(1,2)] "2.prems" obtain b1 stmt edits1 where
      step: "rewrite_statement l start e b edits = Inr (b1, stmt, edits1)" by fastforce
    from "2.IH"(2) [OF False step refl refl bounds(3)] "2.prems" step False show ?thesis by simp
  qed
qed simp

text \<open>C33: when no construct reaches past the end of its statement, preprocessing a file returns; numbering never
  fails, as the parameter set always has a number to give.\<close>

theorem Dialected_returns:
  assumes "\<forall>se \<in> set (statements \<lparr>l_d = d, l_src = src\<rparr>). stays_inside \<lparr>l_d = d, l_src = src\<rparr> se"
  shows "\<exists>r. Dialected d src = Inr r"
  using rewrite_all_defined [OF statements_contiguous assms] by (simp add: Dialected_def Let_def)

end
