(* ===== verification/Placeholders.thy ===== *)
theory Placeholders
  imports Preprocess_Props
begin

text \<open>
  The placeholder numbers of a statement: one number per name in the dialects that can share a placeholder,
  numbers in source order in the others, never a number the user wrote; and the check of the
  placeholders the user wrote.  The last section has examples and the inputs on which preprocessing
  panics or changes the lines of a query.
\<close>

section \<open>Numbering through the parameter set\<close>

text \<open>The loop in terms of the numbers \<open>add_all\<close> hands out.\<close>

fun assign :: "(occurrence \<Rightarrow> bool) \<Rightarrow> occurrence list \<Rightarrow> int list \<Rightarrow> occurrence list" where
  "assign sel [] ns = []"
| "assign sel (occ # occs) ns =
     (if sel occ then (case ns of [] \<Rightarrow> occ # occs | n # ns' \<Rightarrow> occ\<lparr>o_number := n\<rparr> # assign sel occs ns')
      else occ # assign sel occs ns)"

lemma number_loop_assign:
  "snd (add_all Add (map param_of (filter sel occs)) ps) = Inr ns \<Longrightarrow>
     number_loop sel occs ps =
       (fst (add_all Add (map param_of (filter sel occs)) ps), Inr (assign sel occs ns))"
proof (induction occs arbitrary: ps ns)
  case (Cons occ occs)
  show ?case
  proof (cases "sel occ")
    case False
    with Cons show ?thesis by (simp split: prod.splits)
  next
    case True
    with Cons.prems obtain p1 n ns1 where add: "Add (param_of occ) ps = (p1, Inr n)"
      and rest: "snd (add_all Add (map param_of (filter sel occs)) p1) = Inr ns1" and ns: "ns = n # ns1"
      by (auto split: prod.splits sum.splits)
    from Cons.IH [OF rest] add rest ns True show ?thesis
      by (auto split: prod.splits sum.splits)
  qed
qed simp

lemma assign_filter:
  assumes "\<And>occ n. sel (occ\<lparr>o_number := n\<rparr>) = sel occ"
  shows "length ns = length (filter sel occs) \<Longrightarrow>
     filter sel (assign sel occs ns) = map2 (\<lambda>occ n. occ\<lparr>o_number := n\<rparr>) (filter sel occs) ns"
  by (induction occs arbitrary: ns) (auto simp: assms split: list.splits)

lemma assign_others:
  assumes "\<And>occ n. sel (occ\<lparr>o_number := n\<rparr>) = sel occ"
  shows "length ns = length (filter sel occs) \<Longrightarrow>
     filter (\<lambda>occ. \<not> sel occ) (assign sel occs ns) = filter (\<lambda>occ. \<not> sel occ) occs"
  by (induction occs arbitrary: ns) (auto simp: assms split: list.splits)

lemma p_name_param_of [simp]: "p_name (param_of occ) = o_name occ"
  by (simp add: param_of_def NewUserNullableParam_def NewSqlcSlice_def NewParam_def split: kind.split)

lemma is_parameter_number [simp]: "is_parameter (occ\<lparr>o_number := n\<rparr>) = is_parameter occ"
  by (simp add: is_parameter_def)

text \<open>The set the numbered dialects start from, with the numbers the user wrote taken.\<close>

definition start_set :: "dialect \<Rightarrow> occurrence list \<Rightarrow> paramSet" where
  "start_set d occs =
     NewParamSet (fmap_of_list (map (\<lambda>n. (n, True)) (native_numbers (count_natives occs 0))))
       (dialect_hasNamedSupport d)"

lemma number_numbered:
  assumes "Style d \<noteq> StyleQuestion"
  obtains ns where "snd (add_all Add (map param_of (filter is_parameter (count_natives occs 0))) (start_set d occs)) = Inr ns"
    and "length ns = length (filter is_parameter (count_natives occs 0))"
    and "number d occs = (fst (add_all Add (map param_of (filter is_parameter (count_natives occs 0))) (start_set d occs)),
            Inr (assign is_parameter (count_natives occs 0) ns))"
proof -
  from params.add_all_defined [of "start_set d occs" "map param_of (filter is_parameter (count_natives occs 0))"]
  obtain ns where ns: "snd (add_all Add (map param_of (filter is_parameter (count_natives occs 0))) (start_set d occs)) = Inr ns"
    "length ns = length (filter is_parameter (count_natives occs 0))"
    by (auto simp: start_set_def)
  from number_loop_assign [OF ns(1)] assms have
    "number d occs = (fst (add_all Add (map param_of (filter is_parameter (count_natives occs 0))) (start_set d occs)),
            Inr (assign is_parameter (count_natives occs 0) ns))"
    by (simp add: number_def start_set_def Let_def)
  with ns that show thesis by blast
qed

text \<open>The parameters of a numbered statement, by position.\<close>

lemma numbered_parameter:
  assumes "length ns = length (filter is_parameter occs)" and "x \<in> set (assign is_parameter occs ns)"
    and "is_parameter x"
  obtains i where "i < length (filter is_parameter occs)" "o_number x = ns ! i"
    "o_name x = o_name (filter is_parameter occs ! i)"
proof -
  from assms(2,3) have "x \<in> set (filter is_parameter (assign is_parameter occs ns))" by simp
  then obtain i where "i < length (filter is_parameter occs)"
    "x = (filter is_parameter occs ! i)\<lparr>o_number := ns ! i\<rparr>"
    unfolding assign_filter [OF is_parameter_number assms(1)] using assms(1)
    by (auto simp: in_set_conv_nth)
  with that show thesis by simp
qed

text \<open>C36: in a dialect with numbered placeholders, two parameters of a statement get one number exactly when they
  have the same name.\<close>

theorem number_shares_names:
  assumes "Style d \<noteq> StyleQuestion" and "number d occs = (ps, Inr os)"
    and "x \<in> set os" "is_parameter x" and "y \<in> set os" "is_parameter y"
  shows "o_number x = o_number y \<longleftrightarrow> o_name x = o_name y"
proof -
  let ?occs = "count_natives occs 0" and ?ps = "start_set d occs"
  let ?qs = "map param_of (filter is_parameter ?occs)"
  from number_numbered [OF assms(1)] obtain ns where ns: "snd (add_all Add ?qs ?ps) = Inr ns"
    "length ns = length (filter is_parameter ?occs)" "number d occs = (fst (add_all Add ?qs ?ps), Inr (assign is_parameter ?occs ns))"
    by metis
  from ns(3) assms(2) have os: "os = assign is_parameter ?occs ns" by simp
  obtain i where i: "i < length ?qs" "o_number x = ns ! i" "o_name x = p_name (?qs ! i)"
    using numbered_parameter [OF ns(2) assms(3) [unfolded os] assms(4)] by auto
  obtain j where j: "j < length ?qs" "o_number y = ns ! j" "o_name y = p_name (?qs ! j)"
    using numbered_parameter [OF ns(2) assms(5) [unfolded os] assms(6)] by auto
  have "set_ok ?ps \<and> hasNamedSupport ?ps"
    using assms(1) by (simp add: start_set_def dialect_hasNamedSupport_def NewParamSet_def [of _ True] set_ok_def locs_of_def)
  from shared.add_all_shares [OF this ns(1) i(1) j(1)] show ?thesis by (simp only: i j)
qed

text \<open>Numbers that were taken at the start are never handed out.\<close>

definition avoids :: "int set \<Rightarrow> paramSet \<Rightarrow> bool" where
  "avoids D p \<longleftrightarrow>
     (\<forall>m. \<forall>k \<in> set (locs_of p m). k \<notin> D) \<and> (\<forall>k \<in> D. fmlookup (positionToName p) k \<noteq> None)"

lemma Add_avoids:
  assumes "set_ok p" and "avoids D p" and "snd (Add q p) = Inr n"
  shows "n \<notin> D \<and> avoids D (fst (Add q p))"
proof (cases "fmlookup (namedParams p) (p_name q) \<noteq> None \<and> hasNamedSupport p")
  case True
  then have "locs_of p (p_name q) \<noteq> []" using assms(1) by (simp add: set_ok_named)
  then have "hd (locs_of p (p_name q)) \<notin> D" using assms(2) hd_in_set by (fastforce simp: avoids_def)
  with True assms Add_reuse [OF assms(1)] show ?thesis by (auto simp: avoids_def Add_locs)
next
  case False
  let ?n = "next_free (positionToName p) (argn p)"
  have "?n \<notin> D" using assms(2) next_free_unused by (auto simp: avoids_def)
  with False assms(2,3) Add_fresh [OF False] show ?thesis by (auto simp: avoids_def Add_locs)
qed

lemma add_all_avoids:
  "set_ok p \<Longrightarrow> avoids D p \<Longrightarrow> snd (add_all Add qs p) = Inr ns \<Longrightarrow> \<forall>n \<in> set ns. n \<notin> D"
proof (induction qs arbitrary: p ns)
  case (Cons q qs)
  from Cons.prems(3) obtain p1 n ns1 where add: "Add q p = (p1, Inr n)"
    and rest: "snd (add_all Add qs p1) = Inr ns1" and ns: "ns = n # ns1"
    by (auto split: prod.splits sum.splits)
  from Add_avoids [OF Cons.prems(1,2), of q n] add have "n \<notin> D" "avoids D p1" by simp_all
  moreover have "set_ok p1" using Add_keeps_ok [OF Cons.prems(1), of q] add by simp
  ultimately show ?case using Cons.IH rest ns by simp
qed simp

lemma start_set_avoids: "avoids (set (native_numbers (count_natives occs 0))) (start_set d occs)"
proof -
  have "fmlookup (fmap_of_list (map (\<lambda>n. (n, True)) xs)) k = Some True" if "k \<in> set xs" for k :: int and xs
    using that by (auto simp: fmlookup_of_list map_of_map_restrict)
  then show ?thesis by (auto simp: avoids_def start_set_def NewParamSet_def locs_of_def)
qed

text \<open>C37: in a dialect with numbered placeholders, the number given to a sqlc parameter is never the number of a
  placeholder in the query, written by the user or counted.\<close>

theorem number_avoids_natives:
  assumes "Style d \<noteq> StyleQuestion" and "number d occs = (ps, Inr os)"
    and "x \<in> set os" "is_parameter x" and "y \<in> set os" "o_kind y = kindNative"
  shows "o_number x \<noteq> o_number y"
proof -
  let ?occs = "count_natives occs 0"
  from number_numbered [OF assms(1)] obtain ns where
    ns: "snd (add_all Add (map param_of (filter is_parameter ?occs)) (start_set d occs)) = Inr ns"
    "length ns = length (filter is_parameter ?occs)"
    "number d occs = (fst (add_all Add (map param_of (filter is_parameter ?occs)) (start_set d occs)), Inr (assign is_parameter ?occs ns))"
    by metis
  from ns(3) assms(2) have os: "os = assign is_parameter ?occs ns" by simp
  from numbered_parameter [OF ns(2) assms(3) [unfolded os] assms(4)] ns(2) have "o_number x \<in> set ns"
    by (metis nth_mem)
  with add_all_avoids [OF _ start_set_avoids ns(1)] have "o_number x \<notin> set (native_numbers ?occs)"
    by (auto simp: start_set_def)
  moreover have "y \<in> set ?occs"
  proof -
    from assms(5,6) have "y \<in> set (filter (\<lambda>occ. \<not> is_parameter occ) os)" by (simp add: is_parameter_def)
    with assign_others [OF is_parameter_number ns(2)] show ?thesis by (simp add: os)
  qed
  then have "o_number y \<in> set (native_numbers ?occs)" using assms(6) by (auto simp: native_numbers_def)
  ultimately show ?thesis by metis
qed

section \<open>Unnumbered placeholders\<close>

text \<open>A set that has handed out exactly the numbers from 1 to \<open>k\<close>.\<close>

definition counted :: "int \<Rightarrow> paramSet \<Rightarrow> bool" where
  "counted k p \<longleftrightarrow>
     0 \<le> k \<and> \<not> hasNamedSupport p \<and> 1 \<le> argn p \<and> argn p \<le> k + 1 \<and>
     (\<forall>i. fmlookup (positionToName p) i = None \<longleftrightarrow> \<not> (1 \<le> i \<and> i \<le> k))"

lemma Add_counted:
  assumes "counted k p"
  shows "snd (Add q p) = Inr (k + 1) \<and> counted (k + 1) (fst (Add q p))"
proof -
  from assms have un: "\<not> (fmlookup (namedParams p) (p_name q) \<noteq> None \<and> hasNamedSupport p)"
    by (simp add: counted_def)
  let ?n = "next_free (positionToName p) (argn p)"
  have free: "fmlookup (positionToName p) i = None \<longleftrightarrow> \<not> (1 \<le> i \<and> i \<le> k)" for i
    using assms by (simp add: counted_def)
  have "?n \<le> k + 1" using next_free_least [of "argn p" "k + 1" "positionToName p"] assms free
    by (simp add: counted_def)
  moreover have "k + 1 \<le> ?n"
    using next_free_unused [of "positionToName p" "argn p"] next_free_ge [of "argn p" "positionToName p"] free [of ?n] assms
    by (auto simp: counted_def)
  ultimately have n: "?n = k + 1" by simp
  have arg: "argn (fst (Add q p)) = ?n" using un by (auto simp: Add_def Let_def nextArgNum_def)
  have "\<forall>i. fmlookup (positionToName (fst (Add q p))) i = None \<longleftrightarrow> \<not> (1 \<le> i \<and> i \<le> k + 1)"
    unfolding Add_fresh(2) [OF un] n using assms by (auto simp: free counted_def)
  with arg n Add_fresh(1) [OF un] assms show ?thesis by (simp add: counted_def)
qed

lemma add_all_counted:
  "counted k p \<Longrightarrow> snd (add_all Add qs p) = Inr [k + 1..k + int (length qs)]"
proof (induction qs arbitrary: k p)
  case (Cons q qs)
  obtain p1 where add: "Add q p = (p1, Inr (k + 1))" and p1: "counted (k + 1) p1"
    using Add_counted [OF Cons.prems, of q] by (metis prod.collapse)
  from Cons.IH [OF p1] have "snd (add_all Add qs p1) = Inr [k + 1 + 1..k + int (length (q # qs))]"
    by (simp add: algebra_simps)
  then show ?case using add by (auto simp: upto_rec1 split: prod.splits sum.splits)
qed simp

text \<open>In a dialect with unnumbered placeholders every placeholder of a statement, rewritten or written by the
  user, is an argument of its own: they are numbered 1, 2, 3, \<open>\<dots>\<close> in source order.\<close>

theorem number_counts_question_marks:
  assumes "Style d = StyleQuestion" and "number d occs = (ps, Inr os)"
  shows "map o_number (filter (\<lambda>occ. o_kind occ \<noteq> kindEmbed) os) =
           [1..int (length (filter (\<lambda>occ. o_kind occ \<noteq> kindEmbed) occs))]"
proof -
  let ?sel = "\<lambda>occ. o_kind occ \<noteq> kindEmbed" and ?ps = "NewParamSet fmempty False"
  have sel: "?sel (occ\<lparr>o_number := n\<rparr>) = ?sel occ" for occ :: occurrence and n by simp
  let ?ns = "[1..int (length (filter ?sel occs))]"
  have "counted 0 ?ps" by (simp add: counted_def NewParamSet_def)
  from add_all_counted [OF this, of "map param_of (filter ?sel occs)"]
  have ns: "snd (add_all Add (map param_of (filter ?sel occs)) ?ps) = Inr ?ns" by simp
  from number_loop_assign [OF this] assms have os: "os = assign ?sel occs ?ns" by (simp add: number_def)
  have len: "length ?ns = length (filter ?sel occs)" by simp
  show ?thesis unfolding os assign_filter [of ?sel, OF sel len]
    by (rule nth_equalityI) (simp_all add: len)
qed

section \<open>The placeholders the user wrote\<close>

lemma find_gap_None:
  fixes seen :: "int list"
  shows "find (\<lambda>i. i \<notin> set seen) [1..int (length (remdups seen))] = None \<longleftrightarrow>
     set seen = {1..int (card (set seen))}"
proof -
  have card: "length (remdups seen) = card (set seen)" by (simp add: length_remdups_card_conv)
  have "find (\<lambda>i. i \<notin> set seen) [1..int (length (remdups seen))] = None \<longleftrightarrow> {1..int (card (set seen))} \<subseteq> set seen"
    by (auto simp: find_None_iff card)
  also have "\<dots> \<longleftrightarrow> set seen = {1..int (card (set seen))}"
    using card_subset_eq [of "set seen" "{1..int (card (set seen))}"] by auto
  finally show ?thesis .
qed

text \<open>The placeholders the user wrote are accepted exactly when they are all of one style and the numbers used
  are 1 to some \<open>n\<close> without a gap.\<close>

theorem validatePlaceholders_iff:
  "snd (validatePlaceholders occs) = None \<longleftrightarrow>
     \<not> (explicit_numbers occs \<noteq> [] \<and> has_unnumbered occs) \<and>
     set (explicit_numbers occs) = {1..int (card (set (explicit_numbers occs)))}"
  using find_gap_None [of "explicit_numbers occs"]
  by (auto simp: validatePlaceholders_def Let_def split: option.splits)

section \<open>Examples\<close>

definition pg :: dialect where "pg = the (DialectFor EnginePostgreSQL)"
definition mysql :: dialect where "mysql = the (DialectFor EngineMySQL)"

definition ex_query :: string where
  "ex_query = ''SELECT @b, $1, @a, @b;''"

definition ex_occs :: "occurrence list" where
  "ex_occs = scan \<lparr>l_d = pg, l_src = ex_query\<rparr> 0 22"

definition ex_result :: result where
  "ex_result = (case Dialected pg ex_query of Inr r \<Rightarrow> r | Inl _ \<Rightarrow> \<lparr>r_Text = [], r_stmts = [], r_edits = []\<rparr>)"

lemma ex_query_text: "r_Text ex_result = ''SELECT $2, $1, $3, $2;''"
  by code_simp

lemma ex_query_inside:
  "\<forall>se \<in> set (statements \<lparr>l_d = pg, l_src = ex_query\<rparr>). stays_inside \<lparr>l_d = pg, l_src = ex_query\<rparr> se"
  by code_simp

theorem Dialected_returns_witness: "\<exists>r. Dialected pg ex_query = Inr r"
  by (rule Dialected_returns [OF ex_query_inside])

lemma ex_result_run: "Dialected pg ex_query = Inr ex_result"
proof -
  have "\<exists>r. Dialected pg ex_query = Inr r"
    using rewrite_all_defined [OF statements_contiguous ex_query_inside] by (simp add: Dialected_def Let_def)
  then show ?thesis by (auto simp: ex_result_def)
qed

theorem rewriting_is_the_edits_witness:
  "aligned (r_edits ex_result) 0 0 (length ex_query) (length (r_Text ex_result)) ex_query (r_Text ex_result)"
  by (rule rewriting_is_the_edits [OF ex_result_run])

theorem Origin_correct_witness:
  "(\<exists>e \<in> set (r_edits ex_result). newStart e \<le> 11 \<and> 11 < newEnd e \<and> Origin ex_result 11 = int (oldStart e)) \<or>
   (\<exists>q < length ex_query. Origin ex_result 11 = int q \<and> ex_query ! q = r_Text ex_result ! 11)"
  by (rule Origin_correct [OF ex_result_run]) (simp add: ex_query_text)

theorem File_unedited_witness: "r_Text \<lparr>r_Text = ''SELECT @a'', r_stmts = [], r_edits = []\<rparr> = ''SELECT @a''"
  by (rule File_unedited [where engine = EngineGoogleSQL]) (simp_all add: File_def DialectFor_def dialects_def)

lemma ex_number:
  obtains ps os where "number pg ex_occs = (ps, Inr os)" and "length os = 4"
    and "o_kind (os ! 0) = kindArg" "o_kind (os ! 1) = kindNative" "o_kind (os ! 3) = kindArg"
proof -
  obtain ps os where run: "number pg ex_occs = (ps, Inr os)" using number_defined [of pg ex_occs] by blast
  have "(case snd (number pg ex_occs) of Inl _ \<Rightarrow> None | Inr os \<Rightarrow> Some (map o_kind os))
      = Some [kindArg, kindNative, kindArg, kindArg]" by code_simp
  with run have kinds: "map o_kind os = [kindArg, kindNative, kindArg, kindArg]" by simp
  from arg_cong [OF kinds, of length] have len: "length os = 4" by simp
  have "o_kind (os ! i) = [kindArg, kindNative, kindArg, kindArg] ! i" if "i < 4" for i
    using arg_cong [OF kinds, of "\<lambda>ks. ks ! i"] that len by simp
  from that [OF run len] this [of 0] this [of 1] this [of 3] show thesis by simp
qed

lemma pg_numbered: "Style pg \<noteq> StyleQuestion"
  by code_simp

theorem number_shares_names_witness:
  "\<exists>os. snd (number pg ex_occs) = Inr os \<and> (o_number (os ! 0) = o_number (os ! 3) \<longleftrightarrow> o_name (os ! 0) = o_name (os ! 3))"
proof -
  obtain ps os where run: "number pg ex_occs = (ps, Inr os)" and len: "length os = 4"
    and kinds: "o_kind (os ! 0) = kindArg" "o_kind (os ! 3) = kindArg" by (rule ex_number)
  then have "is_parameter (os ! 0)" "is_parameter (os ! 3)" by (simp_all add: is_parameter_def)
  with number_shares_names [OF pg_numbered run, of "os ! 0" "os ! 3"] run len show ?thesis by simp
qed

theorem number_avoids_natives_witness:
  "\<exists>os. snd (number pg ex_occs) = Inr os \<and> o_number (os ! 0) \<noteq> o_number (os ! 1)"
proof -
  obtain ps os where run: "number pg ex_occs = (ps, Inr os)" and len: "length os = 4"
    and kinds: "o_kind (os ! 0) = kindArg" "o_kind (os ! 1) = kindNative" by (rule ex_number)
  then have "is_parameter (os ! 0)" by (simp add: is_parameter_def)
  with number_avoids_natives [OF pg_numbered run, of "os ! 0" "os ! 1"] run len kinds show ?thesis by simp
qed

theorem number_counts_question_marks_witness:
  "\<exists>os. snd (number mysql ex_occs) = Inr os \<and>
     map o_number (filter (\<lambda>occ. o_kind occ \<noteq> kindEmbed) os) =
       [1..int (length (filter (\<lambda>occ. o_kind occ \<noteq> kindEmbed) ex_occs))]"
proof -
  obtain ps os where run: "number mysql ex_occs = (ps, Inr os)" using number_defined by blast
  have "Style mysql = StyleQuestion" by code_simp
  from number_counts_question_marks [OF this run] run show ?thesis by auto
qed

section \<open>Inputs the rewriting does not handle\<close>

text \<open>A call of \<open>sqlc.arg\<close> with a semicolon between two string literals: \<open>SELECT sqlc.arg('a';'''b');\<close>.\<close>

definition ex_past_end :: string where
  "ex_past_end = ''SELECT sqlc.arg('' @ [CHR 0x27, CHR ''a'', CHR 0x27] @ '';'' @
     [CHR 0x27, CHR 0x27, CHR 0x27, CHR ''b'', CHR 0x27] @ '');''"

text \<open>A statement ends at a semicolon between the parentheses of a sqlc call, while the call is read up to its
  closing parenthesis.  When the text between them still reads as one string literal the call is
  accepted, and copying the rest of the statement panics.\<close>

theorem call_past_statement_end_panics:
  "File EnginePostgreSQL ex_past_end = Inl (Panic ''slice bounds out of range'') \<and>
   File EngineMySQL ex_past_end = Inl (Panic ''slice bounds out of range'')"
proof
  have "(case File EnginePostgreSQL ex_past_end of Inr _ \<Rightarrow> None | Inl e \<Rightarrow> Some e)
      = Some (Panic ''slice bounds out of range'')" by code_simp
  then show "File EnginePostgreSQL ex_past_end = Inl (Panic ''slice bounds out of range'')"
    by (simp split: sum.splits)
  have "(case File EngineMySQL ex_past_end of Inr _ \<Rightarrow> None | Inl e \<Rightarrow> Some e)
      = Some (Panic ''slice bounds out of range'')" by code_simp
  then show "File EngineMySQL ex_past_end = Inl (Panic ''slice bounds out of range'')"
    by (simp split: sum.splits)
qed

text \<open>A call written over two lines.\<close>

definition ex_two_lines :: string where
  "ex_two_lines = ''SELECT sqlc.arg('' @ [CHR 0x0A] @ ''a);''"

text \<open>A sqlc call that spans lines is replaced by a placeholder on one line, so the rewritten text does not
  have the line structure of the source.\<close>

theorem rewriting_changes_lines:
  "\<exists>r. File EnginePostgreSQL ex_two_lines = Inr r \<and> r_Text r = ''SELECT $1;'' \<and>
       length (split_byte CHR 0x0A ex_two_lines) = 2 \<and> length (split_byte CHR 0x0A (r_Text r)) = 1"
proof -
  have "(case File EnginePostgreSQL ex_two_lines of Inl _ \<Rightarrow> None | Inr r \<Rightarrow> Some (r_Text r)) = Some ''SELECT $1;''"
    by code_simp
  then obtain r where "File EnginePostgreSQL ex_two_lines = Inr r" "r_Text r = ''SELECT $1;''"
    by (cases "File EnginePostgreSQL ex_two_lines") simp_all
  moreover have "length (split_byte CHR 0x0A ex_two_lines) = 2" by code_simp
  moreover have "length (split_byte CHR 0x0A ''SELECT $1;'') = 1" by code_simp
  ultimately show ?thesis by simp
qed

end
