(* ===== verification/Source.thy ===== *)
theory Source
  imports GoStrings "HOL-Library.Multiset"
begin

text \<open>
  \<open>internal/source/code.go\<close>: the position of a query in its file, the edits made to a query, and its
  comments; and \<open>internal/multierr/error.go\<close>, which reports errors at such positions.
\<close>

section \<open>Runes\<close>

text \<open>The width of the first rune of a string, as \<open>range\<close> over a string decodes it; a byte that does not start
  a valid encoding is a rune of its own.\<close>

definition in_range :: "nat \<Rightarrow> nat \<Rightarrow> char \<Rightarrow> bool" where
  "in_range lo hi c \<longleftrightarrow> lo \<le> byte_of c \<and> byte_of c \<le> hi"

definition is_cont :: "char \<Rightarrow> bool" where
  "is_cont c = in_range 128 191 c"

fun rune_width :: "string \<Rightarrow> nat" where
  "rune_width (a # b # c # d # s) =
     (if in_range 194 223 a \<and> is_cont b then 2
      else if ((byte_of a = 224 \<and> in_range 160 191 b) \<or> (in_range 225 236 a \<and> is_cont b) \<or>
               (byte_of a = 237 \<and> in_range 128 159 b) \<or> (in_range 238 239 a \<and> is_cont b)) \<and> is_cont c then 3
      else if ((byte_of a = 240 \<and> in_range 144 191 b) \<or> (in_range 241 243 a \<and> is_cont b) \<or>
               (byte_of a = 244 \<and> in_range 128 143 b)) \<and> is_cont c \<and> is_cont d then 4
      else 1)"
| "rune_width [a, b, c] =
     (if in_range 194 223 a \<and> is_cont b then 2
      else if ((byte_of a = 224 \<and> in_range 160 191 b) \<or> (in_range 225 236 a \<and> is_cont b) \<or>
               (byte_of a = 237 \<and> in_range 128 159 b) \<or> (in_range 238 239 a \<and> is_cont b)) \<and> is_cont c then 3
      else 1)"
| "rune_width [a, b] = (if in_range 194 223 a \<and> is_cont b then 2 else 1)"
| "rune_width [a] = 1"
| "rune_width [] = 1"

lemma rune_width_pos: "0 < rune_width s"
  by (cases s rule: rune_width.cases) simp_all

section \<open>LineNumber\<close>

text \<open>\<open>s\<close> is what is left of the source; \<open>source[i+1]\<close> is read whenever the rune is a dash.\<close>

function line_loop :: "string \<Rightarrow> nat \<Rightarrow> nat \<Rightarrow> nat \<Rightarrow> nat \<Rightarrow> bool \<Rightarrow> error + nat \<times> nat" where
  "line_loop s head loc line col comment =
     (if s = [] then Inr (line + 1, col)
      else
        (let w = rune_width s; char' = hd s in
         if char' = CHR ''-'' \<and> length s = 1 then Inl (Panic ''index out of range'')
         else
           (let comment1 = (comment \<or> (char' = CHR ''-'' \<and> s ! 1 = CHR ''-''));
                nl = (char' = CHR 0x0A);
                comment2 = (if nl then False else comment1);
                line1 = (if nl then line + 1 else line);
                col1 = (if nl then 0 else col + 1)
            in if loc + 1 \<le> head \<or> take w s \<in> set space_runes \<or> comment2
               then line_loop (drop w s) head (loc + 1) line1 col1 comment2
               else Inr (line1 + 1, col1))))"
  by pat_completeness auto
termination
  by (relation "measure (\<lambda>(s, _). length s)") (auto simp: rune_width_pos)

declare line_loop.simps [simp del]

definition LineNumber :: "string \<Rightarrow> nat \<Rightarrow> error + nat \<times> nat" where
  "LineNumber source head = line_loop source head 0 0 0 False"

text \<open>\<open>Pluck\<close>, whose slice expression panics when the location is not inside the source.\<close>

definition Pluck :: "string \<Rightarrow> nat \<Rightarrow> nat \<Rightarrow> error + string" where
  "Pluck source location len = sub_slice location (location + len) source"

section \<open>Mutate\<close>

record source_edit =
  se_Location :: int
  se_Old :: string
  se_New :: string
  se_OldFunc :: "(string \<Rightarrow> error + int) option"

definition old_len :: "source_edit \<Rightarrow> string \<Rightarrow> error + int" where
  "old_len e rest = (case se_OldFunc e of Some f \<Rightarrow> f rest | None \<Rightarrow> Inr (int (length (se_Old e))))"

text \<open>The loop over the sorted edits; \<open>prev\<close> is the location of the edit applied before, if any.\<close>

fun mutate_loop :: "string \<Rightarrow> int option \<Rightarrow> source_edit list \<Rightarrow> error + string" where
  "mutate_loop s prev [] = Inr s"
| "mutate_loop s prev (e # es) =
     (let start = se_Location e in
      if int (length s) < start \<or> start < 0 then Inl (PlainErr ''edit start location is out of bounds'')
      else
        (case old_len e (drop (nat start) s) of
           Inl err \<Rightarrow> Inl err
         | Inr oldLen \<Rightarrow>
             (let stop = start + oldLen in
              if int (length s) < stop then Inl (PlainErr ''edit stop location is out of bounds'')
              else if (case prev of None \<Rightarrow> False | Some p \<Rightarrow> p < start + oldLen) then Inl (PlainErr ''2 edits overlap'')
              else if stop < 0 then Inl (Panic ''slice bounds out of range'')
              else mutate_loop (take (nat start) s @ se_New e @ drop (nat stop) s) (Some start) es)))"

text \<open>\<open>sort.Slice\<close> is not stable, so the order of two edits at one location is not determined: the sort is an
  argument, of which only the documented behaviour is used.\<close>

definition Mutate :: "(source_edit list \<Rightarrow> source_edit list) \<Rightarrow> string \<Rightarrow> source_edit list \<Rightarrow> error + string" where
  "Mutate sort_desc raw a = (if a = [] then Inr raw else mutate_loop raw None (sort_desc a))"

definition sorts_desc :: "(source_edit list \<Rightarrow> source_edit list) \<Rightarrow> bool" where
  "sorts_desc f \<longleftrightarrow>
     (\<forall>a. mset (f a) = mset a \<and> sorted_wrt (\<lambda>x y. se_Location y \<le> se_Location x) (f a))"

section \<open>Comments\<close>

text \<open>One line of \<open>StripComments\<close>: dropped, a comment, or a line of the query.\<close>

datatype stripped = Dropped | Comment string | Kept string

definition strip_line :: "string \<Rightarrow> stripped" where
  "strip_line t =
     (if HasPrefix t ''-- name:'' then Dropped
      else if HasPrefix t ''/* name:'' \<and> HasSuffix t ''*/'' then Dropped
      else if HasPrefix t ''# name:'' then Dropped
      else if HasPrefix t ''--'' then Comment (drop 2 t)
      else if HasPrefix t ''/*'' \<and> HasSuffix t ''*/'' then
        if HasPrefix t ''/*+'' then Kept t
        else Comment (TrimSuffix (TrimPrefix t ''/*'') ''*/'')
      else if HasPrefix t ''#'' then Comment (drop 1 t)
      else Kept t)"

fun kept_lines :: "stripped list \<Rightarrow> string list" where
  "kept_lines [] = []"
| "kept_lines (Kept t # xs) = t # kept_lines xs"
| "kept_lines (Dropped # xs) = kept_lines xs"
| "kept_lines (Comment c # xs) = kept_lines xs"

fun comment_lines :: "stripped list \<Rightarrow> string list" where
  "comment_lines [] = []"
| "comment_lines (Kept t # xs) = comment_lines xs"
| "comment_lines (Dropped # xs) = comment_lines xs"
| "comment_lines (Comment c # xs) = c # comment_lines xs"

definition StripComments :: "string \<Rightarrow> string \<times> string list \<times> error option" where
  "StripComments sql =
     (case scan_lines (TrimSpace sql) of
        (ls, err) \<Rightarrow>
          (let xs = map strip_line ls in (Join (kept_lines xs) [CHR 0x0A], comment_lines xs, err)))"

record commentSyntax =
  cs_Dash :: bool
  cs_Hash :: bool
  cs_SlashStar :: bool

text \<open>The prefix of a comment line in the given syntax: \<open>None\<close> when the line is skipped.\<close>

definition comment_prefix :: "commentSyntax \<Rightarrow> string \<Rightarrow> string option" where
  "comment_prefix cs line =
     (if HasPrefix line ''--'' \<and> \<not> cs_Dash cs then None
      else if HasPrefix line ''/*'' \<and> \<not> cs_SlashStar cs then None
      else if HasPrefix line ''#'' \<and> \<not> cs_Hash cs then None
      else if HasPrefix line ''#'' then Some ''#''
      else if HasPrefix line ''/*'' then Some ''/*''
      else if HasPrefix line ''--'' then Some ''--''
      else None)"

fun cleaned_lines :: "commentSyntax \<Rightarrow> string list \<Rightarrow> string list" where
  "cleaned_lines cs [] = []"
| "cleaned_lines cs (line # ls) =
     (case comment_prefix cs line of
        None \<Rightarrow> cleaned_lines cs ls
      | Some prefix \<Rightarrow> TrimSuffix (drop (length prefix) line) ''*/'' # cleaned_lines cs ls)"

definition CleanedComments :: "string \<Rightarrow> commentSyntax \<Rightarrow> string list \<times> error option" where
  "CleanedComments rawSQL cs =
     (case scan_lines (TrimSpace rawSQL) of (ls, err) \<Rightarrow> (cleaned_lines cs ls, err))"

section \<open>Errors with positions\<close>

record fileError =
  fe_Filename :: string
  fe_Line :: nat
  fe_Column :: nat
  fe_Err :: error

text \<open>\<open>(*Error).Add\<close> of \<open>multierr\<close>: a location in the error itself wins over the one passed.\<close>

definition multierr_Add :: "string \<Rightarrow> string \<Rightarrow> nat \<Rightarrow> error \<Rightarrow> fileError list \<Rightarrow> error + fileError list" where
  "multierr_Add filename src loc err errs =
     (let (loc1, line, column) =
        (case err of
           SqlErr lerr \<Rightarrow>
             if Location lerr \<noteq> 0 then (Location lerr, 1, 1)
             else if Line lerr \<noteq> 0 \<and> Column lerr \<noteq> 0 then (loc, Line lerr, Column lerr)
             else (loc, 1, 1)
         | _ \<Rightarrow> (loc, 1, 1))
      in if src \<noteq> [] \<and> loc1 \<noteq> 0 then
           (case LineNumber src loc1 of
              Inl e \<Rightarrow> Inl e
            | Inr (l, c) \<Rightarrow>
                Inr (errs @ [\<lparr>fe_Filename = filename, fe_Line = l, fe_Column = c, fe_Err = err\<rparr>]))
         else Inr (errs @ [\<lparr>fe_Filename = filename, fe_Line = line, fe_Column = column, fe_Err = err\<rparr>]))"

definition multierr_Error :: "fileError list \<Rightarrow> string" where
  "multierr_Error errs = ''multiple errors: '' @ Itoa (int (length errs)) @ '' errors''"

section \<open>Mutate is a left-to-right splice\<close>

text \<open>The edits in ascending order applied to the untouched source, from \<open>pos\<close> on.\<close>

fun splice :: "string \<Rightarrow> nat \<Rightarrow> source_edit list \<Rightarrow> string" where
  "splice raw pos [] = drop pos raw"
| "splice raw pos (e # es) =
     substr pos (nat (se_Location e)) raw @ se_New e @
     splice raw (nat (se_Location e) + length (se_Old e)) es"

text \<open>Edits by text, in ascending order, that fit in the source and do not overlap.\<close>

fun disjoint_edits :: "nat \<Rightarrow> nat \<Rightarrow> source_edit list \<Rightarrow> bool" where
  "disjoint_edits pos n [] \<longleftrightarrow> pos \<le> n"
| "disjoint_edits pos n (e # es) \<longleftrightarrow>
     int pos \<le> se_Location e \<and> disjoint_edits (nat (se_Location e) + length (se_Old e)) n es"

lemma disjoint_edits_le: "disjoint_edits pos n es \<Longrightarrow> pos \<le> n"
  by (induction es arbitrary: pos) (simp, fastforce)


lemma disjoint_snoc:
  "disjoint_edits pos n (xs @ [e]) \<longleftrightarrow>
     0 \<le> se_Location e \<and> disjoint_edits pos (nat (se_Location e)) xs \<and>
     nat (se_Location e) + length (se_Old e) \<le> n"
proof (induction xs arbitrary: pos)
  case Nil
  then show ?case by auto
qed auto

lemma splice_snoc:
  "disjoint_edits pos (nat (se_Location e)) xs \<Longrightarrow> nat (se_Location e) \<le> length r \<Longrightarrow>
     splice r pos (xs @ [e]) =
       splice (take (nat (se_Location e)) r) pos xs @ se_New e @ drop (nat (se_Location e) + length (se_Old e)) r"
proof (induction xs arbitrary: pos)
  case Nil
  then show ?case by (simp add: substr_def drop_take)
next
  case (Cons x xs)
  from Cons.prems disjoint_edits_le have "nat (se_Location x) \<le> nat (se_Location e)" by fastforce
  then have "substr pos (nat (se_Location x)) (take (nat (se_Location e)) r) = substr pos (nat (se_Location x)) r"
    by (simp add: substr_def drop_take)
  with Cons show ?case by simp
qed

text \<open>The loop, from a state in which the source up to \<open>p\<close> is untouched and \<open>X\<close> is the rest.\<close>

lemma mutate_loop_splice:
  assumes "\<forall>e \<in> set ds. se_OldFunc e = None" and "p \<le> length raw"
    and "prev = Some (int p) \<or> (prev = None \<and> p = length raw \<and> X = [])"
  shows "mutate_loop (take p raw @ X) prev ds = Inr t \<longleftrightarrow>
           disjoint_edits 0 p (rev ds) \<and> t = splice (take p raw) 0 (rev ds) @ X"
  using assms
proof (induction ds arbitrary: p X prev)
  case Nil
  then show ?case by auto
next
  case (Cons e es)
  let ?s = "take p raw @ X" and ?start = "nat (se_Location e)" and ?len = "length (se_Old e)"
  have len: "old_len e x = Inr (int ?len)" for x using Cons.prems(1) by (simp add: old_len_def)
  show ?case
  proof (cases "0 \<le> se_Location e \<and> ?start + ?len \<le> p")
    case False
    then have "\<not> disjoint_edits 0 p (rev (e # es))" by (simp add: disjoint_snoc)
    moreover have "mutate_loop ?s prev (e # es) \<noteq> Inr t"
      using False Cons.prems(2,3) by (auto simp: Let_def len)
    ultimately show ?thesis by simp
  next
    case True
    let ?X = "se_New e @ drop (?start + ?len) (take p raw) @ X"
    have stop: "nat (se_Location e + int ?len) = ?start + ?len" using True by (simp add: nat_add_distrib)
    have "mutate_loop ?s prev (e # es) = mutate_loop (take ?start raw @ ?X) (Some (int ?start)) es"
      using True Cons.prems(2,3) by (auto simp: Let_def len stop min_def)
    moreover have "mutate_loop (take ?start raw @ ?X) (Some (int ?start)) es = Inr t \<longleftrightarrow>
        disjoint_edits 0 ?start (rev es) \<and> t = splice (take ?start raw) 0 (rev es) @ ?X"
      using Cons.prems True by (intro Cons.IH) auto
    moreover have "splice (take p raw) 0 (rev (e # es)) @ X = splice (take ?start raw) 0 (rev es) @ ?X"
      if "disjoint_edits 0 ?start (rev es)"
      using splice_snoc [OF that, of "take p raw"] True Cons.prems(2) by (simp add: min_def)
    ultimately show ?thesis using True by (auto simp: disjoint_snoc)
  qed
qed

text \<open>Applying edits from the last to the first gives exactly the left-to-right replacement of their spans in
  the original source, and it succeeds exactly when the edits fit in the source and do not overlap.\<close>

theorem Mutate_is_splice:
  assumes "sorts_desc srt" and "a \<noteq> []" and "\<forall>e \<in> set a. se_OldFunc e = None"
  shows "Mutate srt raw a = Inr t \<longleftrightarrow>
           disjoint_edits 0 (length raw) (rev (srt a)) \<and> t = splice raw 0 (rev (srt a))"
proof -
  have "set (srt a) = set a" using assms(1) by (metis sorts_desc_def set_mset_mset)
  with assms(3) have "\<forall>e \<in> set (srt a). se_OldFunc e = None" by simp
  from mutate_loop_splice [OF this, of "length raw" raw None "[]" t] show ?thesis
    using assms(2) by (simp add: Mutate_def)
qed

definition ex_sort :: "source_edit list \<Rightarrow> source_edit list" where
  "ex_sort a = rev (sort_key se_Location a)"

definition ex_edits :: "source_edit list" where
  "ex_edits = [\<lparr>se_Location = 7, se_Old = ''*'', se_New = ''a, b'', se_OldFunc = None\<rparr>,
               \<lparr>se_Location = 14, se_Old = ''t'', se_New = ''u'', se_OldFunc = None\<rparr>]"

lemma ex_sort_sorts: "sorts_desc ex_sort"
proof -
  have "sorted_wrt (\<lambda>x y. se_Location y \<le> se_Location x) (rev (sort_key se_Location a))"
    for a :: "source_edit list"
    using sorted_sort_key [of se_Location a] by (simp add: sorted_wrt_rev sorted_map)
  then show ?thesis by (simp add: sorts_desc_def ex_sort_def)
qed

theorem Mutate_is_splice_witness:
  "Mutate ex_sort ''SELECT * FROM t'' ex_edits = Inr ''SELECT a, b FROM u'' \<longleftrightarrow>
     disjoint_edits 0 (length ''SELECT * FROM t'') (rev (ex_sort ex_edits)) \<and>
     ''SELECT a, b FROM u'' = splice ''SELECT * FROM t'' 0 (rev (ex_sort ex_edits))"
  by (rule Mutate_is_splice [OF ex_sort_sorts]) (simp_all add: ex_edits_def)

section \<open>Line numbers\<close>

definition newlines :: "string \<Rightarrow> nat" where
  "newlines s = length (filter (\<lambda>c. c = CHR 0x0A) s)"

text \<open>The bytes of one rune hold a newline only when the rune is one.\<close>

lemma cont_not_newline: "in_range lo hi c \<Longrightarrow> 10 < lo \<Longrightarrow> c \<noteq> CHR 0x0A"
  by (auto simp: in_range_def)

lemma newlines_rune:
  "s \<noteq> [] \<Longrightarrow> newlines (take (rune_width s) s) = (if hd s = CHR 0x0A then 1 else 0)"
proof (cases s rule: rune_width.cases)
  case (1 a b c d s')
  then show ?thesis
    by (auto simp: newlines_def is_cont_def in_range_def split: if_splits)
next
  case (2 a b c)
  then show ?thesis
    by (auto simp: newlines_def is_cont_def in_range_def split: if_splits)
next
  case (3 a b)
  then show ?thesis
    by (auto simp: newlines_def is_cont_def in_range_def split: if_splits)
qed (auto simp: newlines_def)

lemma newlines_append [simp]: "newlines (s @ t) = newlines s + newlines t"
  by (simp add: newlines_def)

lemma line_loop_counts:
  "line_loop s head loc line col comment = Inr (l, c) \<Longrightarrow>
     \<exists>pre suf. s = pre @ suf \<and> l = line + newlines pre + 1"
proof (induction s head loc line col comment rule: line_loop.induct)
  case (1 s head loc line col comment)
  note unfold = line_loop.simps [of s head loc line col comment]
  show ?case
  proof (cases "s = []")
    case True
    from "1.prems" have "l = line + 1" unfolding unfold by (simp add: True)
    then show ?thesis by (intro exI [of _ "[]"] exI [of _ s]) (simp add: newlines_def)
  next
    case False
    let ?w = "rune_width s" and ?line1 = "if hd s = CHR 0x0A then line + 1 else line"
    have split: "s = take ?w s @ drop ?w s" by simp
    have line1: "?line1 = line + newlines (take ?w s)" using newlines_rune [OF False] by simp
    from "1.prems" False have ok: "\<not> (hd s = CHR ''-'' \<and> length s = 1)"
      by (auto simp: unfold Let_def)
    let ?com = "if hd s = CHR 0x0A then False else comment \<or> (hd s = CHR ''-'' \<and> s ! 1 = CHR ''-'')"
    let ?go = "loc + 1 \<le> head \<or> take ?w s \<in> set space_runes \<or> ?com"
    show ?thesis
    proof (cases ?go)
      case True
      from "1.prems" False ok True have rec: "line_loop (drop ?w s) head (loc + 1) ?line1
          (if hd s = CHR 0x0A then 0 else col + 1) ?com = Inr (l, c)"
        unfolding unfold Let_def by (simp only: if_False if_True)
      from "1.IH" [OF False refl refl ok refl refl refl refl refl True rec] obtain pre suf where
        "drop ?w s = pre @ suf" "l = ?line1 + newlines pre + 1" by blast
      with split line1 show ?thesis by (intro exI [of _ "take ?w s @ pre"] exI [of _ suf]) simp
    next
      case go: False
      from "1.prems" have "l = ?line1 + 1"
        unfolding unfold Let_def if_not_P [OF False] if_not_P [OF ok] if_not_P [OF go] by simp
      with split line1 show ?thesis by (intro exI [of _ "take ?w s"] exI [of _ "drop ?w s"]) simp
    qed
  qed
qed

text \<open>The line \<open>LineNumber\<close> reports is one more than the number of newlines before the place it stops at.\<close>

theorem LineNumber_counts_newlines:
  assumes "LineNumber source head = Inr (l, c)"
  shows "\<exists>pre suf. source = pre @ suf \<and> l = newlines pre + 1"
  using line_loop_counts [of source head 0 0 0 False l c] assms by (simp add: LineNumber_def)

theorem LineNumber_counts_newlines_witness:
  "\<exists>pre suf. [CHR 0x0A, CHR ''a''] = pre @ suf \<and> 2 = newlines pre + 1"
proof (rule LineNumber_counts_newlines)
  show "LineNumber [CHR 0x0A, CHR ''a''] 0 = Inr (2, 1)" by code_simp
qed

text \<open>\<open>LineNumber\<close> panics on a source whose last byte is a dash that it reads, because it looks at the byte
  after it.\<close>

theorem LineNumber_trailing_dash_panics:
  "LineNumber ''-'' head = Inl (Panic ''index out of range'') \<and>
   multierr_Add f ''-'' 1 (PlainErr m) errs = Inl (Panic ''index out of range'')"
  by (simp add: LineNumber_def line_loop.simps multierr_Add_def)

end
