(* ===== verification/Metadata.thy ===== *)
theory Metadata
  imports Source "HOL-Library.Finite_Map"
begin

text \<open>
  \<open>internal/metadata/meta.go\<close>: the name and the command of a query in its comment, and the flags of the other
  comments.  \<open>internal/migrations/migrations.go\<close>: the parts of a migration file that are not schema.
\<close>

section \<open>Query names\<close>

definition commands :: "string list" where
  "commands =
     ['':one'', '':many'', '':exec'', '':execresult'', '':execrows'', '':execlastid'', '':copyfrom'',
      '':batchexec'', '':batchmany'', '':batchone'']"

text \<open>
  The runes of a string, each as the bytes of its encoding.  \<open>letter\<close> and \<open>digit\<close> are \<open>unicode.IsLetter\<close> and
  \<open>unicode.IsDigit\<close> on them.
\<close>

function runes :: "string \<Rightarrow> string list" where
  "runes s = (if s = [] then [] else take (rune_width s) s # runes (drop (rune_width s) s))"
  by pat_completeness auto
termination by (relation "measure length") (auto simp: rune_width_pos)

declare runes.simps [simp del]

type_synonym rune_class = "string \<Rightarrow> bool"

definition name_rune :: "rune_class \<Rightarrow> rune_class \<Rightarrow> bool \<Rightarrow> string \<Rightarrow> bool" where
  "name_rune letter digit first r =
     (let isLetter = (letter r \<or> r = ''_'') in if first then isLetter else isLetter \<or> digit r)"

definition validateQueryName :: "rune_class \<Rightarrow> rune_class \<Rightarrow> string \<Rightarrow> error option" where
  "validateQueryName letter digit name =
     (if name = [] then Some (PlainErr (''invalid query name: '' @ Quote name))
      else
        (case runes name of
           [] \<Rightarrow> None
         | r # rs \<Rightarrow>
             if \<not> name_rune letter digit True r \<or> \<not> list_all (name_rune letter digit False) rs
             then Some (PlainErr (''invalid query name '' @ Quote name)) else None))"

text \<open>What one line says: nothing, or the result of the function.  The \<open>commentStyle\<close> tests are those of
  \<open>CleanedComments\<close>.\<close>

definition parse_line :: "rune_class \<Rightarrow> rune_class \<Rightarrow> commentSyntax \<Rightarrow> string \<Rightarrow> (error + string \<times> string) option" where
  "parse_line letter digit cs line =
     (case comment_prefix cs line of
        None \<Rightarrow> None
      | Some prefix \<Rightarrow>
          (let rest = drop (length prefix) line in
           if \<not> HasPrefix (TrimSpace rest) ''name'' then None
           else if \<not> Contains rest '':'' then None
           else if \<not> HasPrefix rest '' name: '' then Some (Inl (PlainErr (''invalid metadata: '' @ line)))
           else
             (let part0 = split_byte CHR '' '' (TrimSpace line);
                  part = (if prefix = ''/*'' then butlast part0 else part0)
              in if length part = 3 then
                   Some (Inl (PlainErr (''missing query type ['' @ [CHR 0x27] @ '':one'' @ [CHR 0x27] @ '', '' @
                     [CHR 0x27] @ '':many'' @ [CHR 0x27] @ '', '' @ [CHR 0x27] @ '':exec'' @ [CHR 0x27] @ '', '' @
                     [CHR 0x27] @ '':execrows'' @ [CHR 0x27] @ '', '' @ [CHR 0x27] @ '':execlastid'' @ [CHR 0x27] @ '', '' @
                     [CHR 0x27] @ '':execresult'' @ [CHR 0x27] @ '', '' @ [CHR 0x27] @ '':copyfrom'' @ [CHR 0x27] @ '', '' @
                     [CHR 0x27] @ ''batchexec'' @ [CHR 0x27] @ '', '' @ [CHR 0x27] @ ''batchmany'' @ [CHR 0x27] @ '', '' @
                     [CHR 0x27] @ ''batchone'' @ [CHR 0x27] @ '']: '' @ line)))
                 else if length part \<noteq> 4 then Some (Inl (PlainErr (''invalid query comment: '' @ line)))
                 else
                   (let queryName = part ! 2; queryType = TrimSpace (part ! 3) in
                    if queryType \<notin> set commands then Some (Inl (PlainErr (''invalid query type: '' @ queryType)))
                    else
                      (case validateQueryName letter digit queryName of
                         Some e \<Rightarrow> Some (Inl e)
                       | None \<Rightarrow> Some (Inr (queryName, queryType)))))))"

fun parse_lines :: "rune_class \<Rightarrow> rune_class \<Rightarrow> commentSyntax \<Rightarrow> string list \<Rightarrow> error + string \<times> string" where
  "parse_lines letter digit cs [] = Inr ([], [])"
| "parse_lines letter digit cs (line # ls) =
     (case parse_line letter digit cs line of Some r \<Rightarrow> r | None \<Rightarrow> parse_lines letter digit cs ls)"

definition ParseQueryNameAndType ::
    "rune_class \<Rightarrow> rune_class \<Rightarrow> string \<Rightarrow> commentSyntax \<Rightarrow> error + string \<times> string" where
  "ParseQueryNameAndType letter digit t cs = parse_lines letter digit cs (split_byte CHR 0x0A t)"

section \<open>Comment flags\<close>

text \<open>\<open>bufio.ScanWords\<close>: the words between white space.  A word of 65536 bytes or more does not fit the
  scanner's buffer and ends the scan with an error.\<close>

function word_end :: "string \<Rightarrow> nat" where
  "word_end s =
     (if s = [] \<or> take (rune_width s) s \<in> set space_runes then 0
      else rune_width s + word_end (drop (rune_width s) s))"
  by pat_completeness auto
termination by (relation "measure length") (auto simp: rune_width_pos)

declare word_end.simps [simp del]

lemma TrimLeftSpace_length: "length (TrimLeftSpace s) \<le> length s"
proof (induction s rule: TrimLeftSpace.induct)
  case (1 s)
  show ?case
  proof (cases "find (HasPrefix s) space_runes")
    case None
    then show ?thesis by (simp add: TrimLeftSpace.simps [of s])
  next
    case (Some r)
    show ?thesis
    proof (cases "s = []")
      case True
      then show ?thesis by (simp add: TrimLeftSpace.simps [of "[]"])
    next
      case False
      from 1 [OF False Some] show ?thesis by (simp add: TrimLeftSpace.simps [of s] False Some)
    qed
  qed
qed

function words_of :: "string \<Rightarrow> string list" where
  "words_of s =
     (let t = TrimLeftSpace s; n = word_end t in
      if t = [] \<or> n = 0 then [] else take n t # words_of (drop n t))"
  by pat_completeness auto
termination
proof (relation "measure length", simp)
  fix s t n
  assume t: "t = TrimLeftSpace s" and "n = word_end t" and "\<not> (t = [] \<or> n = 0)"
  then have "length (drop n t) < length t" by simp
  moreover have "length t \<le> length s" unfolding t by (rule TrimLeftSpace_length)
  ultimately show "(drop n t, s) \<in> measure length" by (simp only: in_measure)
qed

declare words_of.simps [simp del]

definition scan_words :: "string \<Rightarrow> string list \<times> error option" where
  "scan_words s =
     (let ws = words_of s; good = takeWhile (\<lambda>w. length w < max_token) ws
      in (good, if length good = length ws then None else Some too_long))"

record comment_flags =
  cf_params :: "(string, string) fmap"
  cf_flags :: "(string, bool) fmap"
  cf_ruleSkiplist :: "string fset"

definition QueryFlagParam :: string where "QueryFlagParam = ''@param''"
definition QueryFlagSqlcVetDisable :: string where "QueryFlagSqlcVetDisable = ''@sqlc-vet-disable''"

text \<open>One comment.  \<open>s.Text()\<close> is empty when there is no word.  In the default case only the first word is
  scanned, so an error further on is not seen.\<close>

definition flag_line :: "string \<Rightarrow> comment_flags \<Rightarrow> comment_flags \<times> error option" where
  "flag_line line st =
     (case scan_words line of
        (ws, err) \<Rightarrow>
          (let token = (case ws of [] \<Rightarrow> [] | w # _ \<Rightarrow> w); more = tl ws in
           if \<not> HasPrefix token ''@'' then (st, None)
           else if token = QueryFlagParam then
             (let name = (case more of [] \<Rightarrow> [] | w # _ \<Rightarrow> w) in
              (st\<lparr>cf_params := fmupd name (Join (tl more) '' '') (cf_params st)\<rparr>, err))
           else if token = QueryFlagSqlcVetDisable then
             (st\<lparr>cf_flags := fmupd token True (cf_flags st),
                 cf_ruleSkiplist := fset_of_list more |\<union>| cf_ruleSkiplist st\<rparr>, err)
           else (st\<lparr>cf_flags := fmupd token True (cf_flags st)\<rparr>, None)))"

definition ParseCommentFlags :: "string list \<Rightarrow> comment_flags \<times> error option" where
  "ParseCommentFlags comments =
     each flag_line comments \<lparr>cf_params = fmempty, cf_flags = fmempty, cf_ruleSkiplist = {||}\<rparr>"

section \<open>Migrations\<close>

definition is_rollback :: "string \<Rightarrow> bool" where
  "is_rollback line =
     (let statement = ToLower line in
      HasPrefix statement ''-- +goose down'' \<or> HasPrefix statement ''-- +migrate down'' \<or>
      HasPrefix statement ''---- create above / drop below ----'' \<or>
      HasPrefix statement ''-- migrate:down'')"

definition RemoveRollbackStatements :: "string \<Rightarrow> string" where
  "RemoveRollbackStatements contents =
     Join (takeWhile (\<lambda>l. \<not> is_rollback l) (fst (scan_lines contents))) [CHR 0x0A]"

text \<open>The regular expression \<open>^\\[A-Za-z!?;][^\n]*$\<close> on one line, which holds no newline.\<close>

definition psqlMetaCommand :: "string \<Rightarrow> bool" where
  "psqlMetaCommand line =
     (case line of
        a # b # _ \<Rightarrow>
          a = CHR 0x5C \<and>
          ((65 \<le> byte_of b \<and> byte_of b \<le> 90) \<or> (97 \<le> byte_of b \<and> byte_of b \<le> 122) \<or>
           b = CHR ''!'' \<or> b = CHR ''?'' \<or> b = CHR '';'')
      | _ \<Rightarrow> False)"

definition RemovePsqlMetaCommands :: "string \<Rightarrow> string" where
  "RemovePsqlMetaCommands contents =
     Join (filter (\<lambda>l. \<not> psqlMetaCommand l) (fst (scan_lines contents))) [CHR 0x0A]"

definition IsDown :: "string \<Rightarrow> bool" where
  "IsDown filename = HasSuffix filename ''.down.sql''"

section \<open>Parsing a query comment\<close>

lemma find_prefix_None: "s \<noteq> [] \<Longrightarrow> hd s \<notin> hd ` set rs \<Longrightarrow> [] \<notin> set rs \<Longrightarrow> find (HasPrefix s) rs = None"
proof (induction rs)
  case (Cons r rs)
  then have "\<not> HasPrefix s r" by (cases r; cases s) (auto simp: HasPrefix_def)
  with Cons show ?case by simp
qed simp

lemma HasSuffix_last: "HasSuffix s r \<Longrightarrow> r \<noteq> [] \<Longrightarrow> last s = last r"
  unfolding HasSuffix_def by (metis append_take_drop_id last_appendR)

lemma find_suffix_None: "last s \<notin> last ` set rs \<Longrightarrow> [] \<notin> set rs \<Longrightarrow> find (HasSuffix s) rs = None"
proof (induction rs)
  case (Cons r rs)
  then have "\<not> HasSuffix s r" using HasSuffix_last [of s r] by auto
  with Cons show ?case by simp
qed simp

lemma space_runes_not_Nil [simp]: "[] \<notin> set space_runes"
  using space_runes_length by fastforce

text \<open>A byte at which no encoding of a space starts or ends; text between two such bytes is not trimmed.\<close>

definition solid :: "char \<Rightarrow> bool" where
  "solid c \<longleftrightarrow> c \<notin> set (map hd space_runes) \<and> c \<notin> set (map last space_runes)"

lemma TrimSpace_id:
  assumes "s \<noteq> []" and "solid (hd s)" and "solid (last s)"
  shows "TrimSpace s = s"
proof -
  have "TrimLeftSpace s = s"
    using find_prefix_None [OF assms(1), of space_runes] assms by (simp add: TrimLeftSpace.simps [of s] solid_def)
  moreover have "TrimRightSpace s = s"
    using find_suffix_None [of s space_runes] assms by (simp add: TrimRightSpace.simps [of s] solid_def)
  ultimately show ?thesis by (simp add: TrimSpace_def)
qed

lemma split_byte_word: "b \<notin> set w \<Longrightarrow> split_byte b (w @ b # s) = w # split_byte b s"
  by (induction w) auto

lemma split_byte_last: "b \<notin> set w \<Longrightarrow> split_byte b w = [w]"
  by (induction w) auto

lemma commands_solid:
  "list_all (\<lambda>cmd. cmd \<noteq> [] \<and> solid (hd cmd) \<and> solid (last cmd) \<and> CHR '' '' \<notin> set cmd \<and> CHR 0x0A \<notin> set cmd) commands"
  by code_simp

lemma command_facts:
  assumes "cmd \<in> set commands"
  shows "cmd \<noteq> []" "solid (hd cmd)" "solid (last cmd)" "CHR '' '' \<notin> set cmd" "CHR 0x0A \<notin> set cmd"
  using commands_solid assms by (simp_all add: list_all_iff)

lemma solid_bytes: "solid CHR ''-''" "solid CHR ''n''" "solid CHR ''#''" "solid CHR ''/''"
  by code_simp+

lemma command_trim: "cmd \<in> set commands \<Longrightarrow> TrimSpace cmd = cmd"
  by (intro TrimSpace_id command_facts)

text \<open>The three ways to write a query comment, and the comment in each of them.\<close>

datatype comment_style = DashStyle | HashStyle | SlashStarStyle

fun allows :: "commentSyntax \<Rightarrow> comment_style \<Rightarrow> bool" where
  "allows cs DashStyle = cs_Dash cs"
| "allows cs HashStyle = cs_Hash cs"
| "allows cs SlashStarStyle = cs_SlashStar cs"

fun comment_opening :: "comment_style \<Rightarrow> string" where
  "comment_opening DashStyle = ''--''"
| "comment_opening HashStyle = ''#''"
| "comment_opening SlashStarStyle = ''/*''"

definition query_comment :: "comment_style \<Rightarrow> string \<Rightarrow> string \<Rightarrow> string" where
  "query_comment st name cmd =
     comment_opening st @ '' name: '' @ name @ '' '' @ cmd @ (if st = SlashStarStyle then '' */'' else [])"

lemma parse_query_comment:
  assumes cmd: "cmd \<in> set commands" and name: "CHR '' '' \<notin> set name" and style: "allows cs st"
    and valid: "validateQueryName letter digit name = None"
  shows "parse_line letter digit cs (query_comment st name cmd) = Some (Inr (name, cmd))"
proof -
  let ?line = "query_comment st name cmd" and ?close = "if st = SlashStarStyle then '' */'' else []"
  let ?body = "''name: '' @ name @ '' '' @ cmd @ ?close"
  note ends = command_facts [OF cmd]
  have prefix: "comment_prefix cs ?line = Some (comment_opening st)"
    using style by (cases st) (simp_all add: comment_prefix_def query_comment_def HasPrefix_def)
  have rest: "drop (length (comment_opening st)) ?line = CHR '' '' # ?body" by (simp add: query_comment_def)
  have line: "TrimSpace ?line = ?line"
    using ends solid_bytes by (intro TrimSpace_id; cases st) (simp_all add: query_comment_def)
  have body: "TrimSpace ?body = ?body"
    using ends solid_bytes by (intro TrimSpace_id; cases st) simp_all
  have "find (HasPrefix (CHR '' '' # ?body)) space_runes = Some '' ''"
    by (simp add: space_runes_def HasPrefix_def)
  then have "TrimLeftSpace (CHR '' '' # ?body) = TrimLeftSpace ?body" by (subst TrimLeftSpace.simps) simp
  with body have trim: "TrimSpace (CHR '' '' # ?body) = ?body" by (simp add: TrimSpace_def)
  have parts: "split_byte CHR '' '' ?line =
      [comment_opening st, ''name:'', name, cmd] @ (if st = SlashStarStyle then [''*/''] else [])"
    using split_byte_word [of "CHR '' ''" "comment_opening st"] split_byte_word [of "CHR '' ''" "''name:''"]
      split_byte_word [OF name] split_byte_last [of "CHR '' ''" cmd] split_byte_word [of "CHR '' ''" cmd] ends(4)
    by (cases st) (simp_all add: query_comment_def)
  have "HasPrefix (CHR '' '' # ?body) '' name: ''" "HasPrefix ?body ''name''" by (simp_all add: HasPrefix_def)
  moreover have "Contains (CHR '' '' # ?body) '':''" by (simp add: Contains_def HasPrefix_def)
  ultimately show ?thesis
    by (simp only: parse_line_def prefix option.case rest trim Let_def line parts)
       (cases st; simp add: valid command_trim [OF cmd] cmd)
qed

lemma split_Join:
  "ls \<noteq> [] \<Longrightarrow> \<forall>l \<in> set ls. b \<notin> set l \<Longrightarrow> split_byte b (Join ls [b]) = ls"
proof (induction ls)
  case (Cons l ls)
  show ?case
  proof (cases ls)
    case Nil
    with Cons show ?thesis by (simp add: split_byte_last)
  next
    case (Cons x xs)
    with Cons.IH Cons.prems split_byte_word [of b l] show ?thesis by simp
  qed
qed simp

lemma parse_lines_first:
  "\<forall>l \<in> set before. parse_line letter digit cs l = None \<Longrightarrow> parse_line letter digit cs l = Some r \<Longrightarrow>
     parse_lines letter digit cs (before @ l # after) = r"
  by (induction before) simp_all

text \<open>C40: a query comment, written in any of the three comment styles the engine has (\<open>--\<close>, \<open>#\<close>, \<open>/*\<close>) for a
  valid name, one without a space or a newline, and a known command, is read back as that name and command, at
  whatever line it stands after lines that say nothing and whatever lines follow it.\<close>

theorem query_comment_roundtrip:
  assumes "cmd \<in> set commands" and "CHR '' '' \<notin> set name" "CHR 0x0A \<notin> set name" and "allows cs st"
    and "validateQueryName letter digit name = None"
    and "\<forall>l \<in> set before. CHR 0x0A \<notin> set l \<and> parse_line letter digit cs l = None"
    and "\<forall>l \<in> set after. CHR 0x0A \<notin> set l"
  shows "ParseQueryNameAndType letter digit (Join (before @ query_comment st name cmd # after) [CHR 0x0A]) cs =
         Inr (name, cmd)"
proof -
  have "CHR 0x0A \<notin> set (query_comment st name cmd)"
    using assms(3) command_facts(5) [OF assms(1)] by (cases st) (simp_all add: query_comment_def)
  then have "split_byte CHR 0x0A (Join (before @ query_comment st name cmd # after) [CHR 0x0A]) =
      before @ query_comment st name cmd # after"
    using assms(6,7) by (intro split_Join) auto
  with parse_lines_first [OF _ parse_query_comment [OF assms(1,2,4,5)]] assms(6) show ?thesis
    by (simp add: ParseQueryNameAndType_def)
qed

definition ex_letter :: rune_class where
  "ex_letter r = (r \<in> set (map (\<lambda>c. [c]) ''abcdefghijklmnopqrstuvwxyzABCDEFGHIJKLMNOPQRSTUVWXYZ''))"

definition ex_digit :: rune_class where
  "ex_digit r = (r \<in> set (map (\<lambda>c. [c]) ''0123456789''))"

definition ex_syntax :: commentSyntax where
  "ex_syntax = \<lparr>cs_Dash = True, cs_Hash = False, cs_SlashStar = True\<rparr>"

theorem query_comment_roundtrip_witness:
  "ParseQueryNameAndType ex_letter ex_digit
     (Join ([''-- hi''] @ query_comment SlashStarStyle ''GetA'' '':one'' # [''SELECT 1;'', ''-- name: B :exec'']) [CHR 0x0A])
     ex_syntax = Inr (''GetA'', '':one'')"
proof (rule query_comment_roundtrip)
  show "'':one'' \<in> set commands" by (simp add: commands_def)
  show "allows ex_syntax SlashStarStyle" by (simp add: ex_syntax_def)
  show "validateQueryName ex_letter ex_digit ''GetA'' = None" by code_simp
  have "parse_line ex_letter ex_digit ex_syntax ''-- hi'' = None" by code_simp
  then show "\<forall>l \<in> set [''-- hi'']. CHR 0x0A \<notin> set l \<and> parse_line ex_letter ex_digit ex_syntax l = None" by simp
qed simp_all

lemma parse_line_sound:
  "parse_line letter digit cs line = Some (Inr (n, ty)) \<Longrightarrow>
     ty \<in> set commands \<and> validateQueryName letter digit n = None"
  by (auto simp: parse_line_def Let_def split: option.splits if_splits)

text \<open>When a name is returned it is a valid query name, and the command is one of the known ones.\<close>

theorem ParseQueryNameAndType_sound:
  assumes "ParseQueryNameAndType letter digit t cs = Inr (n, ty)" and "n \<noteq> [] \<or> ty \<noteq> []"
  shows "ty \<in> set commands \<and> validateQueryName letter digit n = None"
proof -
  have "parse_lines letter digit cs ls = Inr (n, ty) \<Longrightarrow> ty \<in> set commands \<and> validateQueryName letter digit n = None" for ls
    using assms(2) by (induction ls) (auto split: option.splits dest: parse_line_sound)
  with assms(1) show ?thesis by (simp add: ParseQueryNameAndType_def)
qed

theorem ParseQueryNameAndType_sound_witness:
  "'':one'' \<in> set commands \<and> validateQueryName ex_letter ex_digit ''GetA'' = None"
proof (rule ParseQueryNameAndType_sound)
  show "ParseQueryNameAndType ex_letter ex_digit (query_comment DashStyle ''GetA'' '':one'') ex_syntax = Inr (''GetA'', '':one'')"
    by code_simp
qed simp

section \<open>Removing rollback statements\<close>

lemma raw_lines_Join:
  assumes "\<forall>l \<in> set ls1. CHR 0x0A \<notin> set l" and "\<forall>l \<in> set (m # ls2). CHR 0x0A \<notin> set l" and "m \<noteq> []"
  shows "\<exists>ls3. raw_lines (Join (ls1 @ m # ls2) [CHR 0x0A]) = ls1 @ m # ls3"
proof -
  have "split_byte CHR 0x0A (Join (ls1 @ m # ls2) [CHR 0x0A]) = ls1 @ m # ls2"
    using assms by (intro split_Join) auto
  moreover have "last (ls1 @ m # ls2) = [] \<Longrightarrow> butlast (ls1 @ m # ls2) = ls1 @ m # butlast ls2"
    using assms(3) by (auto simp: butlast_append split: if_splits)
  ultimately show ?thesis by (auto simp: raw_lines_def Let_def)
qed

text \<open>A line as an editor leaves it: no newline, no carriage return at its end, and it fits the scanner.\<close>

definition plain_line :: "string \<Rightarrow> bool" where
  "plain_line l \<longleftrightarrow> CHR 0x0A \<notin> set l \<and> drop_cr l = l \<and> length l < max_token"

lemma scan_until:
  assumes "\<forall>l \<in> set ls1. plain_line l" and "\<forall>l \<in> set (m # ls2). CHR 0x0A \<notin> set l" and "m \<noteq> []"
  shows "\<exists>ls3. fst (scan_lines (Join (ls1 @ m # ls2) [CHR 0x0A])) =
           ls1 @ (if length m < max_token then drop_cr m # ls3 else [])"
proof -
  from assms obtain ls3 where raw: "raw_lines (Join (ls1 @ m # ls2) [CHR 0x0A]) = ls1 @ m # ls3"
    using raw_lines_Join [of ls1 m ls2] by (auto simp: plain_line_def)
  have same: "map drop_cr ls1 = ls1" using assms(1) by (simp add: plain_line_def map_idI)
  have "takeWhile (\<lambda>l. length l < max_token) (ls1 @ m # ls3) = ls1 @ takeWhile (\<lambda>l. length l < max_token) (m # ls3)"
    using assms(1) by (simp add: plain_line_def)
  then show ?thesis by (auto simp: scan_lines_def Let_def raw same)
qed

text \<open>Of a migration, exactly the lines before the first rollback marker are kept.\<close>

theorem RemoveRollback_keeps_up:
  assumes "\<forall>l \<in> set ls1. plain_line l \<and> \<not> is_rollback l"
    and "plain_line m" and "is_rollback m" and "\<forall>l \<in> set ls2. CHR 0x0A \<notin> set l"
  shows "RemoveRollbackStatements (Join (ls1 @ m # ls2) [CHR 0x0A]) = Join ls1 [CHR 0x0A]"
proof -
  have "m \<noteq> []" using assms(3) by (auto simp: is_rollback_def HasPrefix_def ToLower_def)
  with scan_until [of ls1 m ls2] assms obtain ls3 where
    "fst (scan_lines (Join (ls1 @ m # ls2) [CHR 0x0A])) = ls1 @ m # ls3"
    by (auto simp: plain_line_def)
  moreover have "takeWhile (\<lambda>l. \<not> is_rollback l) (ls1 @ m # ls3) = ls1"
    using assms(1,3) by (simp add: takeWhile_eq_all_conv [THEN iffD2])
  ultimately show ?thesis by (simp add: RemoveRollbackStatements_def)
qed

theorem RemoveRollback_keeps_up_witness:
  "RemoveRollbackStatements (Join ([''CREATE TABLE t (a int);''] @ ''-- +goose Down'' # [''DROP TABLE t;'']) [CHR 0x0A]) =
     Join [''CREATE TABLE t (a int);''] [CHR 0x0A]"
proof (rule RemoveRollback_keeps_up)
  have "\<not> is_rollback ''CREATE TABLE t (a int);''" by code_simp
  then show "\<forall>l \<in> set [''CREATE TABLE t (a int);'']. plain_line l \<and> \<not> is_rollback l"
    by (simp add: plain_line_def drop_cr_def max_token_def)
  show "plain_line ''-- +goose Down''" by (simp add: plain_line_def drop_cr_def max_token_def)
  show "is_rollback ''-- +goose Down''" by code_simp
qed simp

text \<open>a line of 65536 bytes or more ends both scans, and the error is not looked at: everything from that
  line on, a table definition for instance, is silently dropped from the schema.\<close>

theorem long_line_truncates:
  assumes "\<forall>l \<in> set ls1. plain_line l \<and> \<not> is_rollback l \<and> \<not> psqlMetaCommand l"
    and "max_token \<le> length m" and "CHR 0x0A \<notin> set m" and "\<forall>l \<in> set ls2. CHR 0x0A \<notin> set l"
  shows "RemoveRollbackStatements (Join (ls1 @ m # ls2) [CHR 0x0A]) = Join ls1 [CHR 0x0A] \<and>
         RemovePsqlMetaCommands (Join (ls1 @ m # ls2) [CHR 0x0A]) = Join ls1 [CHR 0x0A]"
proof -
  have "m \<noteq> []" using assms(2) by (auto simp: max_token_def)
  with scan_until [of ls1 m ls2] assms have "fst (scan_lines (Join (ls1 @ m # ls2) [CHR 0x0A])) = ls1"
    by auto
  moreover have "takeWhile (\<lambda>l. \<not> is_rollback l) ls1 = ls1" "filter (\<lambda>l. \<not> psqlMetaCommand l) ls1 = ls1"
    using assms(1) by (simp_all add: takeWhile_eq_all_conv [THEN iffD2] filter_True)
  ultimately show ?thesis by (simp only: RemoveRollbackStatements_def RemovePsqlMetaCommands_def)
qed

theorem long_line_truncates_witness:
  "RemoveRollbackStatements (Join ([] @ replicate 65536 CHR ''x'' # [''CREATE TABLE t (a int);'']) [CHR 0x0A]) = Join [] [CHR 0x0A] \<and>
   RemovePsqlMetaCommands (Join ([] @ replicate 65536 CHR ''x'' # [''CREATE TABLE t (a int);'']) [CHR 0x0A]) = Join [] [CHR 0x0A]"
  by (rule long_line_truncates) (simp_all add: max_token_def)

end
