(* ===== verification/Split.thy ===== *)
theory Split
  imports Metadata
begin

text \<open>
  \<open>internal/sql/sqlfile/split.go\<close>: splitting a file into queries at semicolons, line by line.  The reader is the
  text it delivers; the cancellation of the context is an argument that gives, for each line, the
  context's error if it is cancelled by then.
\<close>

section \<open>Dollar tags\<close>

definition isValidDollarTagChar :: "char \<Rightarrow> bool" where
  "isValidDollarTagChar ch \<longleftrightarrow>
     (97 \<le> byte_of ch \<and> byte_of ch \<le> 122) \<or> (65 \<le> byte_of ch \<and> byte_of ch \<le> 90) \<or>
     (48 \<le> byte_of ch \<and> byte_of ch \<le> 57) \<or> ch = CHR ''_''"

text \<open>\<open>isValidDollarTagContent\<close> is only called on bytes that have passed the test already, where the runes it
  ranges over are those bytes.\<close>

definition isValidDollarTagContent :: "string \<Rightarrow> bool" where
  "isValidDollarTagContent s = (if s = [] then True else list_all isValidDollarTagChar s)"

fun tag_end :: "string \<Rightarrow> nat \<Rightarrow> nat option" where
  "tag_end [] i = None"
| "tag_end (c # s) i =
     (if c = CHR ''$'' then Some i else if \<not> isValidDollarTagChar c then None else tag_end s (i + 1))"

definition extractDollarTag :: "string \<Rightarrow> string" where
  "extractDollarTag s =
     (if s = [] \<or> hd s \<noteq> CHR ''$'' then []
      else (case tag_end (tl s) 1 of
              None \<Rightarrow> []
            | Some i \<Rightarrow>
                if isValidDollarTagContent (substr 1 i s) then take (i + 1) s else []))"

section \<open>The state machine\<close>

record split_state =
  sp_queries :: "string list"
  sp_current :: string
  sp_inSingleQuote :: bool
  sp_inDoubleQuote :: bool
  sp_inDollarQuote :: bool
  sp_dollarTag :: string
  sp_inMultiLineComment :: bool

definition append_text :: "string \<Rightarrow> split_state \<Rightarrow> split_state" where
  "append_text t st = st\<lparr>sp_current := sp_current st @ t\<rparr>"

definition init_split :: split_state where
  "init_split = \<lparr>sp_queries = [], sp_current = [], sp_inSingleQuote = False, sp_inDoubleQuote = False,
     sp_inDollarQuote = False, sp_dollarTag = [], sp_inMultiLineComment = False\<rparr>"

text \<open>Storing a query: blank ones and a lone semicolon are dropped.\<close>

definition flush :: "split_state \<Rightarrow> split_state" where
  "flush st =
     (let query = TrimSpace (sp_current st) in
      (if query \<noteq> [] \<and> query \<noteq> '';'' then st\<lparr>sp_queries := sp_queries st @ [query]\<rparr> else st)
        \<lparr>sp_current := []\<rparr>)"

definition is_blank :: "char \<Rightarrow> bool" where
  "is_blank c \<longleftrightarrow> c = CHR '' '' \<or> c = CHR 0x09"

text \<open>After a semicolon: blanks and a comment that follows on the line belong to the query; anything else that is
  left of the line is not looked at.\<close>

definition after_semicolon :: "string \<Rightarrow> split_state \<Rightarrow> split_state" where
  "after_semicolon rest st =
     (let blanks = takeWhile is_blank rest; more = dropWhile is_blank rest; st1 = append_text blanks st in
      flush (if HasPrefix more ''--'' then append_text more st1 else st1))"

text \<open>One iteration of the loop over a line: \<open>s\<close> is what is left of it, and the result is what is left to do,
  \<open>None\<close> when the loop is left.  A dollar quote is only entered with a tag that is not empty, so the
  closing tag that is matched is never empty.\<close>

definition split_step :: "string \<Rightarrow> split_state \<Rightarrow> string option \<times> split_state" where
  "split_step s st =
     (let ch = hd s in
      if sp_inMultiLineComment st then
        if HasPrefix s ''*/'' then
          (Some (drop 2 s), append_text ''*/'' (st\<lparr>sp_inMultiLineComment := False\<rparr>))
        else (Some (tl s), append_text [ch] st)
      else if sp_inDollarQuote st then
        if ch = CHR ''$'' \<and> extractDollarTag s = sp_dollarTag st \<and> extractDollarTag s \<noteq> [] then
          (Some (drop (length (extractDollarTag s)) s),
           append_text (extractDollarTag s) (st\<lparr>sp_inDollarQuote := False\<rparr>))
        else (Some (tl s), append_text [ch] st)
      else if sp_inSingleQuote st then
        if HasPrefix s [CHR 0x27, CHR 0x27] then (Some (drop 2 s), append_text [CHR 0x27, CHR 0x27] st)
        else (Some (tl s), (append_text [ch] st)\<lparr>sp_inSingleQuote := (ch \<noteq> CHR 0x27)\<rparr>)
      else if sp_inDoubleQuote st then
        if HasPrefix s [CHR 0x22, CHR 0x22] then (Some (drop 2 s), append_text [CHR 0x22, CHR 0x22] st)
        else (Some (tl s), (append_text [ch] st)\<lparr>sp_inDoubleQuote := (ch \<noteq> CHR 0x22)\<rparr>)
      else if HasPrefix s ''--'' then (None, append_text s st)
      else if HasPrefix s ''/*'' then
        (Some (drop 2 s), append_text ''/*'' (st\<lparr>sp_inMultiLineComment := True\<rparr>))
      else if ch = CHR ''$'' \<and> extractDollarTag s \<noteq> [] then
        (Some (drop (length (extractDollarTag s)) s),
         append_text (extractDollarTag s)
           (st\<lparr>sp_inDollarQuote := True, sp_dollarTag := extractDollarTag s\<rparr>))
      else if ch = CHR 0x27 then (Some (tl s), append_text [ch] (st\<lparr>sp_inSingleQuote := True\<rparr>))
      else if ch = CHR 0x22 then (Some (tl s), append_text [ch] (st\<lparr>sp_inDoubleQuote := True\<rparr>))
      else if ch = CHR '';'' then (None, after_semicolon (tl s) (append_text [ch] st))
      else (Some (tl s), append_text [ch] st))"

lemma split_step_shrinks:
  assumes "split_step s st = (Some r, st')" and "s \<noteq> []"
  shows "length r < length s"
proof -
  from assms(1) have "r = tl s \<or> r = drop 2 s \<or> (extractDollarTag s \<noteq> [] \<and> r = drop (length (extractDollarTag s)) s)"
    unfolding split_step_def Let_def by (simp split: if_splits)
  with assms(2) show ?thesis by auto
qed

function split_line :: "string \<Rightarrow> split_state \<Rightarrow> split_state" where
  "split_line s st =
     (if s = [] then st
      else (case split_step s st of (None, st') \<Rightarrow> st' | (Some r, st') \<Rightarrow> split_line r st'))"
  by pat_completeness auto
termination
  by (relation "measure (\<lambda>(s, _). length s)") (auto dest: split_step_shrinks [OF sym])

declare split_line.simps [simp del]

definition end_line :: "split_state \<Rightarrow> split_state" where
  "end_line st = (if sp_current st \<noteq> [] then append_text [CHR 0x0A] st else st)"

fun split_lines :: "(nat \<Rightarrow> error option) \<Rightarrow> nat \<Rightarrow> string list \<Rightarrow> split_state \<Rightarrow> error + split_state" where
  "split_lines ctx k [] st = Inr st"
| "split_lines ctx k (line # ls) st =
     (case ctx k of
        Some e \<Rightarrow> Inl e
      | None \<Rightarrow> split_lines ctx (k + 1) ls (end_line (split_line line st)))"

definition Split :: "(nat \<Rightarrow> error option) \<Rightarrow> string \<Rightarrow> error + string list" where
  "Split ctx r =
     (case scan_lines r of
        (ls, err) \<Rightarrow>
          (case split_lines ctx 0 ls init_split of
             Inl e \<Rightarrow> Inl e
           | Inr st \<Rightarrow> (case err of Some e \<Rightarrow> Inl e | None \<Rightarrow> Inr (sp_queries (flush st)))))"

section \<open>The queries returned\<close>

lemma queries_append_text [simp]: "sp_queries (append_text t st) = sp_queries st"
  by (simp add: append_text_def)

definition query_ok :: "string \<Rightarrow> bool" where
  "query_ok q \<longleftrightarrow> q \<noteq> [] \<and> q \<noteq> '';''"

definition queries_ok :: "split_state \<Rightarrow> bool" where
  "queries_ok st \<longleftrightarrow> (\<forall>q \<in> set (sp_queries st). query_ok q)"

lemma flush_ok: "queries_ok st \<Longrightarrow> queries_ok (flush st)"
  by (auto simp: queries_ok_def flush_def query_ok_def Let_def)

lemma queries_ok_frame [simp]:
  "queries_ok (append_text t st) = queries_ok st" "queries_ok (st\<lparr>sp_inSingleQuote := b\<rparr>) = queries_ok st"
  "queries_ok (st\<lparr>sp_inDoubleQuote := b\<rparr>) = queries_ok st" "queries_ok (st\<lparr>sp_inDollarQuote := b\<rparr>) = queries_ok st"
  "queries_ok (st\<lparr>sp_dollarTag := w\<rparr>) = queries_ok st" "queries_ok (st\<lparr>sp_inMultiLineComment := b\<rparr>) = queries_ok st"
  by (simp_all add: queries_ok_def)

lemma after_semicolon_ok: "queries_ok st \<Longrightarrow> queries_ok (after_semicolon r st)"
  by (simp add: after_semicolon_def Let_def flush_ok)

lemma split_step_ok: "queries_ok st \<Longrightarrow> queries_ok (snd (split_step s st))"
  unfolding split_step_def Let_def by (simp add: after_semicolon_ok)

lemma split_line_ok: "queries_ok st \<Longrightarrow> queries_ok (split_line s st)"
proof (induction s st rule: split_line.induct)
  case (1 s st)
  show ?case
  proof (cases "s = []")
    case False
    obtain r st' where step: "split_step s st = (r, st')" by fastforce
    from split_step_ok [OF "1.prems", of s] step have "queries_ok st'" by simp
    with 1 False step show ?thesis
      by (subst split_line.simps) (auto split: option.split)
  qed (simp add: split_line.simps [of "[]"] "1.prems")
qed

lemma split_lines_ok: "split_lines ctx k ls st = Inr st' \<Longrightarrow> queries_ok st \<Longrightarrow> queries_ok st'"
proof (induction ctx k ls st rule: split_lines.induct)
  case (2 ctx k line ls st)
  have "queries_ok (end_line (split_line line st))"
    using split_line_ok [OF "2.prems"(2)] by (simp add: queries_ok_def end_line_def)
  with 2 show ?case by (auto split: option.splits)
qed auto

text \<open>No query that \<open>Split\<close> returns is empty or a lone semicolon.\<close>

theorem Split_no_empty_queries:
  assumes "Split ctx r = Inr qs"
  shows "\<forall>q \<in> set qs. query_ok q"
proof -
  obtain ls err where scan: "scan_lines r = (ls, err)" by fastforce
  with assms obtain st where st: "split_lines ctx 0 ls init_split = Inr st" and qs: "qs = sp_queries (flush st)"
    by (auto simp: Split_def split: sum.splits option.splits)
  have "queries_ok init_split" by (simp add: queries_ok_def init_split_def)
  from flush_ok [OF split_lines_ok [OF st this]] qs show ?thesis by (simp add: queries_ok_def)
qed

text \<open>On lines that fit the scanner the result is that of the state machine.\<close>

lemma Split_short:
  "\<forall>l \<in> set (raw_lines r). length l < max_token \<Longrightarrow>
     Split ctx r = (case split_lines ctx 0 (map drop_cr (raw_lines r)) init_split of
                      Inl e \<Rightarrow> Inl e | Inr st \<Rightarrow> Inr (sp_queries (flush st)))"
  by (simp add: Split_def scan_lines_all split: sum.split)

definition ex_same_line :: string where
  "ex_same_line = ''SELECT 1; SELECT 2;''"

lemma ex_same_line_run: "Split (\<lambda>_. None) ex_same_line = Inr [''SELECT 1;'']"
proof -
  have raw: "raw_lines ex_same_line = [''SELECT 1; SELECT 2;'']" by code_simp
  have "(case split_lines (\<lambda>_. None) 0 (map drop_cr [''SELECT 1; SELECT 2;'']) init_split of
      Inl e \<Rightarrow> Inl e | Inr st \<Rightarrow> Inr (sp_queries (flush st))) = Inr [''SELECT 1;'']" by code_simp
  then show ?thesis using Split_short [of ex_same_line "\<lambda>_. None"] unfolding raw by (simp add: max_token_def)
qed

theorem Split_no_empty_queries_witness: "query_ok ''SELECT 1;''"
  using Split_no_empty_queries [OF ex_same_line_run] by simp

section \<open>One query per line\<close>

text \<open>A byte that opens no comment or quote and ends no query.\<close>

definition plain_char :: "char \<Rightarrow> bool" where
  "plain_char c \<longleftrightarrow>
     c \<noteq> CHR 0x27 \<and> c \<noteq> CHR 0x22 \<and> c \<noteq> CHR ''$'' \<and> c \<noteq> CHR ''-'' \<and> c \<noteq> CHR ''/'' \<and> c \<noteq> CHR '';'' \<and> c \<noteq> CHR 0x0A"

definition at_top :: "split_state \<Rightarrow> bool" where
  "at_top st \<longleftrightarrow>
     \<not> sp_inSingleQuote st \<and> \<not> sp_inDoubleQuote st \<and> \<not> sp_inDollarQuote st \<and> \<not> sp_inMultiLineComment st"

lemma at_top_append [simp]: "at_top (append_text t st) = at_top st"
  by (simp add: at_top_def append_text_def)

lemma step_plain: "at_top st \<Longrightarrow> plain_char c \<Longrightarrow> split_step (c # s) st = (Some s, append_text [c] st)"
  by (simp add: at_top_def plain_char_def split_step_def HasPrefix_def)

lemma step_semicolon: "at_top st \<Longrightarrow> split_step '';'' st = (None, flush (append_text '';'' st))"
  by (simp add: at_top_def split_step_def HasPrefix_def after_semicolon_def append_text_def)

lemma append_text_append: "append_text u (append_text t st) = append_text (t @ u) st"
  by (simp add: append_text_def)

lemma split_line_plain:
  "at_top st \<Longrightarrow> list_all plain_char q \<Longrightarrow> split_line (q @ '';'') st = flush (append_text (q @ '';'') st)"
proof (induction q arbitrary: st)
  case Nil
  then show ?case by (subst split_line.simps) (simp add: step_semicolon)
next
  case (Cons c q)
  then have "split_line ((c # q) @ '';'') st = split_line (q @ '';'') (append_text [c] st)"
    by (subst split_line.simps) (simp add: step_plain)
  with Cons show ?case by (simp add: append_text_append)
qed

text \<open>A query on a line of its own.\<close>

definition line_query :: "string \<Rightarrow> bool" where
  "line_query q \<longleftrightarrow> q \<noteq> [] \<and> list_all plain_char q \<and> solid (hd q) \<and> length q + 1 < max_token"

lemma solid_semicolon: "solid CHR '';''"
  by code_simp

lemma split_lines_plain:
  "\<forall>k. ctx k = None \<Longrightarrow> at_top st \<Longrightarrow> sp_current st = [] \<Longrightarrow> \<forall>q \<in> set qs. line_query q \<Longrightarrow>
     split_lines ctx k (map (\<lambda>q. q @ '';'') qs) st = Inr (st\<lparr>sp_queries := sp_queries st @ map (\<lambda>q. q @ '';'') qs\<rparr>)"
proof (induction qs arbitrary: st k)
  case (Cons q qs)
  have "TrimSpace (q @ '';'') = q @ '';''"
    using Cons.prems(4) solid_semicolon by (intro TrimSpace_id) (simp_all add: line_query_def)
  then have "end_line (split_line (q @ '';'') st) = st\<lparr>sp_queries := sp_queries st @ [q @ '';'']\<rparr>"
    using Cons.prems split_line_plain [of st q]
    by (simp add: line_query_def end_line_def flush_def append_text_def Let_def)
  with Cons show ?case by (simp add: at_top_def)
qed simp

text \<open>A file with one query per line, each ended by a semicolon and free of quotes, dollars, dashes and
  slashes, is split into exactly these queries.\<close>

theorem Split_one_per_line:
  assumes "\<forall>k. ctx k = None" and "qs \<noteq> []" and "\<forall>q \<in> set qs. line_query q"
  shows "Split ctx (Join (map (\<lambda>q. q @ '';'') qs) [CHR 0x0A]) = Inr (map (\<lambda>q. q @ '';'') qs)"
proof -
  let ?ls = "map (\<lambda>q. q @ '';'') qs"
  have "\<forall>l \<in> set ?ls. CHR 0x0A \<notin> set l"
    using assms(3) by (auto simp: line_query_def list_all_iff plain_char_def)
  with assms(2) have raw: "raw_lines (Join ?ls [CHR 0x0A]) = ?ls"
    by (simp add: raw_lines_def split_Join last_map)
  have cr: "map drop_cr ?ls = ?ls" by (simp add: drop_cr_def)
  have "scan_lines (Join ?ls [CHR 0x0A]) = (?ls, None)"
    using scan_lines_all [of "Join ?ls [CHR 0x0A]"] assms(3) unfolding raw cr by (simp add: line_query_def)
  moreover have "split_lines ctx 0 ?ls init_split = Inr (init_split\<lparr>sp_queries := ?ls\<rparr>)"
    using split_lines_plain [OF assms(1) _ _ assms(3), of init_split 0] by (simp add: at_top_def init_split_def)
  moreover have "TrimSpace [] = []" by code_simp
  ultimately show ?thesis by (simp add: Split_def flush_def init_split_def Let_def)
qed

theorem Split_one_per_line_witness:
  "Split (\<lambda>_. None) (Join (map (\<lambda>q. q @ '';'') [''SELECT 1'', ''SELECT 2'']) [CHR 0x0A]) =
     Inr (map (\<lambda>q. q @ '';'') [''SELECT 1'', ''SELECT 2''])"
proof (rule Split_one_per_line)
  have "solid CHR ''S''" by code_simp
  then show "\<forall>q \<in> set [''SELECT 1'', ''SELECT 2'']. line_query q"
    by (simp add: line_query_def plain_char_def max_token_def)
qed simp_all

text \<open>after a semicolon the rest of the line is skipped, so a second query on the same line is lost.\<close>

theorem Split_drops_second_query:
  "Split (\<lambda>_. None) ''SELECT 1; SELECT 2;'' = Inr [''SELECT 1;'']"
  using ex_same_line_run by (simp add: ex_same_line_def)

end
