(* ===== verification/Lexical.thy ===== *)
theory Lexical
  imports Statements "HOL-Library.Sublist"
begin

text \<open>
  The lexical grammar that \<open>internal/sql/preprocess/lexer.go\<close> is written for, stated on text alone: what a
  comment, a string, a quoted name and a dollar-quoted string are, and how a file reads as a list of tokens.
  \<open>skip\<close> is proved to recognise them, and \<open>statements\<close> to cut a file after its semicolon tokens.
\<close>

section \<open>The grammar\<close>

text \<open>What may stand between two quotes \<open>q\<close>: a quote is doubled, or, where \<open>esc\<close> says so, escaped.\<close>

inductive quoted_text :: "char \<Rightarrow> bool \<Rightarrow> string \<Rightarrow> bool" for q esc where
  quoted_end: "quoted_text q esc []"
| quoted_byte: "c \<noteq> q \<Longrightarrow> \<not> (esc \<and> c = CHR 0x5C) \<Longrightarrow> quoted_text q esc s \<Longrightarrow> quoted_text q esc (c # s)"
| quoted_double: "quoted_text q esc s \<Longrightarrow> quoted_text q esc (q # q # s)"
| quoted_escape: "esc \<Longrightarrow> quoted_text q esc s \<Longrightarrow> quoted_text q esc (CHR 0x5C # c # s)"

text \<open>The rest of a block comment, \<open>n\<close> levels deep, with its end.  Where comments do not nest an opening is
  text, and the star of an opening is not the star of the end.\<close>

inductive comment_text :: "bool \<Rightarrow> nat \<Rightarrow> string \<Rightarrow> bool" for nested where
  comment_end: "comment_text nested (Suc 0) ''*/''"
| comment_close: "nested \<Longrightarrow> comment_text nested (Suc n) s \<Longrightarrow> comment_text nested (Suc (Suc n)) (CHR ''*'' # CHR ''/'' # s)"
| comment_open: "nested \<Longrightarrow> comment_text nested (Suc n) s \<Longrightarrow> comment_text nested n (CHR ''/'' # CHR ''*'' # s)"
| comment_slash: "\<not> nested \<Longrightarrow> comment_text nested n s \<Longrightarrow> hd s \<noteq> CHR ''/'' \<Longrightarrow>
    comment_text nested n (CHR ''/'' # CHR ''*'' # s)"
| comment_byte: "comment_text nested n s \<Longrightarrow> \<not> (c = CHR ''/'' \<and> hd s = CHR ''*'') \<Longrightarrow>
    \<not> (c = CHR ''*'' \<and> hd s = CHR ''/'') \<Longrightarrow> comment_text nested n (c # s)"

text \<open>The delimiter of a dollar-quoted string: two dollars around a name, which may be empty.\<close>

definition tag_name :: "string \<Rightarrow> bool" where
  "tag_name name \<longleftrightarrow> list_all (\<lambda>c. isIdentPart c \<and> c \<noteq> CHR ''$'') name \<and> (name = [] \<or> \<not> isDigit (hd name))"

abbreviation dollar_tag :: "string \<Rightarrow> string" where
  "dollar_tag name \<equiv> CHR ''$'' # name @ [CHR ''$'']"

text \<open>After \<open>before\<close>, a single quote opens an escape string: PostgreSQL's \<open>E'...'\<close>.\<close>

definition escape_prefix :: "string \<Rightarrow> bool" where
  "escape_prefix before =
     (case rev before of
        [] \<Rightarrow> False
      | c # cs \<Rightarrow> (c = CHR ''e'' \<or> c = CHR ''E'') \<and> (case cs of [] \<Rightarrow> True | c' # _ \<Rightarrow> \<not> isIdentPart c'))"

definition single_escapes :: "dialect \<Rightarrow> string \<Rightarrow> bool" where
  "single_escapes d before \<longleftrightarrow> Backslash d \<or> (DollarQuote d \<and> escape_prefix before)"

definition double_escapes :: "dialect \<Rightarrow> bool" where
  "double_escapes d \<longleftrightarrow> DoubleQuoteString d \<and> Backslash d"

text \<open>\<open>hidden d before r rest\<close>: between \<open>before\<close> and \<open>rest\<close> the text \<open>r\<close> is one comment, string or quoted name
  of the dialect.\<close>

inductive hidden :: "dialect \<Rightarrow> string \<Rightarrow> string \<Rightarrow> string \<Rightarrow> bool" for d before where
  dash_comment: "CHR 0x0A \<notin> set s \<Longrightarrow> hidden d before (''--'' @ s @ [CHR 0x0A]) rest"
| dash_comment_last: "CHR 0x0A \<notin> set s \<Longrightarrow> hidden d before (''--'' @ s) []"
| hash_comment: "HashComment d \<Longrightarrow> CHR 0x0A \<notin> set s \<Longrightarrow> hidden d before (''#'' @ s @ [CHR 0x0A]) rest"
| hash_comment_last: "HashComment d \<Longrightarrow> CHR 0x0A \<notin> set s \<Longrightarrow> hidden d before (''#'' @ s) []"
| block_comment: "comment_text (NestedBlockComment d) 1 s \<Longrightarrow> hidden d before (''/*'' @ s) rest"
| single_quoted: "quoted_text CHR 0x27 (single_escapes d before) s \<Longrightarrow> rest = [] \<or> hd rest \<noteq> CHR 0x27 \<Longrightarrow>
    hidden d before ([CHR 0x27] @ s @ [CHR 0x27]) rest"
| double_quoted: "quoted_text CHR 0x22 (double_escapes d) s \<Longrightarrow> rest = [] \<or> hd rest \<noteq> CHR 0x22 \<Longrightarrow>
    hidden d before ([CHR 0x22] @ s @ [CHR 0x22]) rest"
| back_quoted: "Backtick d \<Longrightarrow> quoted_text CHR 0x60 False s \<Longrightarrow> rest = [] \<or> hd rest \<noteq> CHR 0x60 \<Longrightarrow>
    hidden d before ([CHR 0x60] @ s @ [CHR 0x60]) rest"
| dollar_quoted: "DollarQuote d \<Longrightarrow> tag_name name \<Longrightarrow> \<not> sublist (dollar_tag name) (s @ butlast (dollar_tag name)) \<Longrightarrow>
    hidden d before (dollar_tag name @ s @ dollar_tag name) rest"

text \<open>The byte \<open>c\<close>, with \<open>rest\<close> after it, opens none of them.\<close>

definition visible :: "dialect \<Rightarrow> char \<Rightarrow> string \<Rightarrow> bool" where
  "visible d c rest \<longleftrightarrow>
     c \<noteq> CHR 0x27 \<and> c \<noteq> CHR 0x22 \<and> \<not> (c = CHR 0x60 \<and> Backtick d) \<and> \<not> (c = CHR ''#'' \<and> HashComment d) \<and>
     \<not> (c = CHR ''-'' \<and> rest \<noteq> [] \<and> hd rest = CHR ''-'') \<and> \<not> (c = CHR ''/'' \<and> rest \<noteq> [] \<and> hd rest = CHR ''*'') \<and>
     \<not> (c = CHR ''$'' \<and> DollarQuote d \<and> (\<exists>name rest'. tag_name name \<and> rest = name @ CHR ''$'' # rest'))"

datatype token = Visible char | Hidden string

inductive reads :: "dialect \<Rightarrow> string \<Rightarrow> string \<Rightarrow> token list \<Rightarrow> bool" for d where
  reads_end: "reads d before [] []"
| reads_hidden: "hidden d before r rest \<Longrightarrow> reads d (before @ r) rest ts \<Longrightarrow> reads d before (r @ rest) (Hidden r # ts)"
| reads_visible: "visible d c rest \<Longrightarrow> reads d (before @ [c]) rest ts \<Longrightarrow> reads d before (c # rest) (Visible c # ts)"

text \<open>The tokens put back together, cut after every semicolon that is a token.\<close>

fun token_text :: "token \<Rightarrow> string" where
  "token_text (Visible c) = [c]"
| "token_text (Hidden r) = r"

fun pieces :: "string \<Rightarrow> token list \<Rightarrow> string list" where
  "pieces cur [] = (if cur = [] then [] else [cur])"
| "pieces cur (t # ts) =
     (if t = Visible CHR '';'' then (cur @ '';'') # pieces [] ts else pieces (cur @ token_text t) ts)"

section \<open>The lexer recognises the grammar\<close>

lemma at_append [simp]: "l_src l = pre @ s \<Longrightarrow> at l (length pre) = (case s of [] \<Rightarrow> CHR 0x00 | c # _ \<Rightarrow> c)"
  by (cases s) (simp_all add: at_def)

lemma at_append_Suc: "l_src l = pre @ c # s \<Longrightarrow> at l (Suc (length pre)) = (case s of [] \<Rightarrow> CHR 0x00 | c # _ \<Rightarrow> c)"
  using at_append [of l "pre @ [c]" s] by simp

lemma quoted_loop_text:
  assumes "quoted_text q esc s" and "q \<noteq> CHR 0x5C" and "q \<noteq> CHR 0x00" and "rest = [] \<or> hd rest \<noteq> q"
    and "l_src l = pre @ s @ q # rest"
  shows "quoted_loop l q esc (length pre) = length pre + length s + 1"
  using assms(1,5)
proof (induction arbitrary: pre)
  case quoted_end
  then show ?case
    using assms(2-4) at_append_Suc [of l pre q rest]
    by (subst quoted_loop.simps) (auto split: list.splits)
next
  case (quoted_byte c s)
  from quoted_byte.IH [of "pre @ [c]"] quoted_byte.prems quoted_byte.hyps show ?case
    by (subst quoted_loop.simps) auto
next
  case (quoted_double s)
  from quoted_double.IH [of "pre @ [q, q]"] quoted_double.prems assms(2) at_append_Suc [of l pre q "q # s @ q # rest"]
  show ?case by (subst quoted_loop.simps) auto
next
  case (quoted_escape s c)
  from quoted_escape.IH [of "pre @ [CHR 0x5C, c]"] quoted_escape.prems quoted_escape.hyps assms(2)
  show ?case by (subst quoted_loop.simps) auto
qed

lemma skipQuoted_text:
  assumes "quoted_text q esc s" and "q \<noteq> CHR 0x5C" and "q \<noteq> CHR 0x00" and "rest = [] \<or> hd rest \<noteq> q"
    and "l_src l = before @ q # s @ q # rest"
  shows "skipQuoted l (length before) q esc = length before + (length s + 2)"
  using quoted_loop_text [OF assms(1-4), of l "before @ [q]"] assms(5) by (simp add: skipQuoted_def)

lemma comment_text_not_Nil: "comment_text nested n s \<Longrightarrow> s \<noteq> []"
  by (induction rule: comment_text.induct) auto

lemma block_loop_text:
  assumes "comment_text (NestedBlockComment (l_d l)) n s" and "0 < n" and "l_src l = pre @ s @ rest"
    and "depth = int n \<or> (\<not> NestedBlockComment (l_d l) \<and> 0 < depth)"
  shows "block_loop l (length pre) depth = length pre + length s"
  using assms
proof (induction arbitrary: pre depth)
  case comment_end
  then show ?case by (subst block_loop.simps) (auto simp: nth_append)
next
  case (comment_close n s)
  from comment_close.IH [of "pre @ ''*/''" "depth - 1"] comment_close.prems comment_close.hyps
  show ?case by (subst block_loop.simps) (auto simp: nth_append)
next
  case (comment_open n s)
  from comment_open.IH [of "pre @ ''/*''" "depth + 1"] comment_open.prems comment_open.hyps
  show ?case by (subst block_loop.simps) (auto simp: nth_append)
next
  case (comment_slash n s)
  from comment_slash.IH [of "pre @ ''/*''" "depth + 1"] comment_slash.prems comment_slash.hyps
  show ?case by (subst block_loop.simps) (auto simp: nth_append)
next
  case (comment_byte n s c)
  from comment_text_not_Nil [OF comment_byte.hyps(1)] obtain b bs where s: "s = b # bs" by (cases s) auto
  with comment_byte.IH [of "pre @ [c]" depth] comment_byte.prems comment_byte.hyps
  show ?case by (subst block_loop.simps) (auto simp: nth_append)
qed

lemma skipBlockComment_text:
  assumes "comment_text (NestedBlockComment (l_d l)) 1 s" and "l_src l = before @ ''/*'' @ s @ rest"
  shows "skipBlockComment l (length before) = length before + (length s + 2)"
  using block_loop_text [of l 1 s "before @ ''/*''" rest 1] assms
  by (simp add: skipBlockComment_def block_loop.simps [of l "length before"] nth_append)

lemma no_newline: "CHR 0x0A \<notin> set s \<Longrightarrow> find_idx (\<lambda>c. c = CHR 0x0A) s = None"
  by (auto simp: find_idx_None_iff)

lemma skipLine_text:
  "l_src l = before @ s @ CHR 0x0A # rest \<Longrightarrow> CHR 0x0A \<notin> set s \<Longrightarrow>
     skipLine l (length before) = length before + (length s + 1)"
  by (simp add: skipLine_def IndexByte_def find_idx_append no_newline)

lemma skipLine_last:
  "l_src l = before @ s \<Longrightarrow> CHR 0x0A \<notin> set s \<Longrightarrow> skipLine l (length before) = length before + length s"
  by (simp add: skipLine_def IndexByte_def no_newline)

text \<open>The first occurrence of a text that does not occur earlier.\<close>

lemma Index_first:
  "\<not> sublist t (s @ butlast t) \<Longrightarrow> Index (s @ t @ rest) t = Some (length s)"
proof (induction s)
  case Nil
  then have "t \<noteq> []" by auto
  then show ?case by (cases t) (simp_all add: HasPrefix_def)
next
  case (Cons c s)
  from Cons.prems have later: "\<not> sublist t (s @ butlast t)" by (auto simp: sublist_Cons_right)
  have "\<not> HasPrefix (c # s @ t @ rest) t"
  proof
    assume "HasPrefix (c # s @ t @ rest) t"
    then have "take (length t) (c # s @ t @ rest) = t" by (simp add: HasPrefix_def)
    moreover have "take (length t) (c # s @ t @ rest) = take (length t) (c # s @ butlast t)"
      by (cases t rule: rev_cases) (simp_all add: take_Cons')
    ultimately have "prefix t (c # s @ butlast t)" by (metis take_is_prefix)
    with Cons.prems show False by (simp add: prefix_imp_sublist)
  qed
  with Cons.IH [OF later] show ?case by simp
qed

lemma tag_loop_text:
  assumes "list_all (\<lambda>c. isIdentPart c \<and> c \<noteq> CHR ''$'') s" and "length pre = Suc i \<Longrightarrow> s = [] \<or> \<not> isDigit (hd s)"
    and "i < length pre" and "l_src l = pre @ s @ CHR ''$'' # rest"
  shows "tag_loop l i (length pre) = Some (length pre + length s)"
  using assms
proof (induction s arbitrary: pre)
  case Nil
  then show ?case by (subst tag_loop.simps) simp
next
  case (Cons c s)
  from Cons.IH [of "pre @ [c]"] Cons.prems show ?case by (subst tag_loop.simps) auto
qed

lemma tag_loop_reads:
  "tag_loop l i j = Some k \<Longrightarrow> i < j \<Longrightarrow> j \<le> k \<and> k < src_len l \<and> l_src l ! k = CHR ''$'' \<and>
     (\<forall>m. j \<le> m \<and> m < k \<longrightarrow> isIdentPart (l_src l ! m) \<and> l_src l ! m \<noteq> CHR ''$'') \<and>
     (j = Suc i \<and> j < k \<longrightarrow> \<not> isDigit (l_src l ! j))"
proof (induction l i j rule: tag_loop.induct)
  case (1 l i j)
  note unfold = tag_loop.simps [of l i j]
  show ?case
  proof (cases "j < src_len l \<and> l_src l ! j \<noteq> CHR ''$''")
    case True
    with "1.prems" have ok: "\<not> (isDigit (l_src l ! j) \<and> j = i + 1)"
      "\<not> (\<not> isIdentPart (l_src l ! j) \<or> l_src l ! j = CHR ''$'')" "tag_loop l i (j + 1) = Some k"
      by (auto simp: unfold split: if_splits)
    from "1.IH" [OF True ok] "1.prems"(2) have IH: "j + 1 \<le> k" "k < src_len l" "l_src l ! k = CHR ''$''"
      "\<forall>m. j + 1 \<le> m \<and> m < k \<longrightarrow> isIdentPart (l_src l ! m) \<and> l_src l ! m \<noteq> CHR ''$''" by auto
    have "isIdentPart (l_src l ! m) \<and> l_src l ! m \<noteq> CHR ''$''" if "j \<le> m" "m < k" for m
      using IH(4) ok(2) that by (cases "m = j") auto
    with IH ok(1) show ?thesis by auto
  next
    case False
    with "1.prems" show ?thesis by (auto simp: unfold split: if_splits)
  qed
qed

lemma skipDollarQuoted_text:
  assumes "tag_name name" and "\<not> sublist (dollar_tag name) (s @ butlast (dollar_tag name))"
    and "l_src l = before @ dollar_tag name @ s @ dollar_tag name @ rest"
  shows "skipDollarQuoted l (length before) = Some (length before + length (dollar_tag name @ s @ dollar_tag name))"
proof -
  have "tag_loop l (length before) (length (before @ ''$'')) = Some (length (before @ ''$'') + length name)"
    using assms(1,3) by (intro tag_loop_text) (auto simp: tag_name_def)
  then have "dollarTag l (length before) = dollar_tag name"
    using assms(3) by (simp add: dollarTag_def at_def substr_def)
  moreover have "Index (drop (length before + length (dollar_tag name)) (l_src l)) (dollar_tag name) = Some (length s)"
    using Index_first [OF assms(2), of rest] assms(3) by simp
  ultimately show ?thesis by (simp add: skipDollarQuoted_def Let_def)
qed

lemma dollarTag_none:
  assumes "\<not> (\<exists>name rest'. tag_name name \<and> rest = name @ CHR ''$'' # rest')" and "l_src l = before @ CHR ''$'' # rest"
  shows "skipDollarQuoted l (length before) = None"
proof (cases "tag_loop l (length before) (length before + 1)")
  case None
  then show ?thesis by (simp add: skipDollarQuoted_def dollarTag_def)
next
  case (Some k)
  from tag_loop_reads [OF Some] obtain n where k: "k = length before + 1 + n"
    by (metis le_Suc_ex less_add_one)
  let ?name = "take n rest"
  from tag_loop_reads [OF Some] k assms(2) have n: "n < length rest" "rest ! n = CHR ''$''"
    "\<forall>m < n. isIdentPart (rest ! m) \<and> rest ! m \<noteq> CHR ''$''" "0 < n \<longrightarrow> \<not> isDigit (rest ! 0)"
    by (auto simp: nth_append Suc_le_eq dest: spec [of _ "length before + 1 + _"])
  then have "tag_name ?name" by (auto simp: tag_name_def list_all_length hd_conv_nth)
  moreover have "rest = ?name @ CHR ''$'' # drop (Suc n) rest" using id_take_nth_drop [OF n(1)] n(2) by simp
  ultimately show ?thesis using assms(1) by blast
qed


text \<open>At a comment, a string or a quoted name, \<open>skip\<close> ends just after it; elsewhere it finds nothing.\<close>

lemma skip_hidden:
  assumes "hidden (l_d l) before r rest" and "l_src l = before @ r @ rest"
  shows "skip l (length before) = Some (length before + length r)"
  using assms
proof cases
  case (dash_comment s)
  with assms(2) skipLine_text [of l before "''--'' @ s" rest] show ?thesis
    by (simp add: skip_def Let_def at_append_Suc)
next
  case (dash_comment_last s)
  with assms(2) skipLine_last [of l before "''--'' @ s"] show ?thesis by (simp add: skip_def Let_def at_append_Suc)
next
  case (hash_comment s)
  with assms(2) skipLine_text [of l before "''#'' @ s" rest] show ?thesis by (simp add: skip_def Let_def)
next
  case (hash_comment_last s)
  with assms(2) skipLine_last [of l before "''#'' @ s"] show ?thesis by (simp add: skip_def Let_def)
next
  case (block_comment s)
  with assms(2) skipBlockComment_text [of l s before rest] show ?thesis by (simp add: skip_def Let_def at_append_Suc)
next
  case (single_quoted s)
  have "at_before l (length before) (Suc 0) = (case rev before of [] \<Rightarrow> CHR 0x00 | c # _ \<Rightarrow> c)"
    "at_before l (length before) 2 = (case rev before of _ # c # _ \<Rightarrow> c | _ \<Rightarrow> CHR 0x00)"
    using assms(2)
    by (cases before rule: rev_cases; simp add: at_before_def at_def nth_append;
        cases "butlast before" rule: rev_cases; auto simp: nth_append)+
  then have "Backslash (l_d l) \<or> isEscapeString l (length before) \<longleftrightarrow> single_escapes (l_d l) before"
    by (auto simp: single_escapes_def isEscapeString_def escape_prefix_def isIdentPart_def isIdentStart_def
        split: list.splits)
  with single_quoted assms(2) skipQuoted_text [of "CHR 0x27" "single_escapes (l_d l) before" s rest l before]
  show ?thesis by (simp add: skip_def Let_def)
next
  case (double_quoted s)
  with assms(2) skipQuoted_text [of "CHR 0x22" "double_escapes (l_d l)" s rest l before]
  show ?thesis by (simp add: skip_def Let_def double_escapes_def)
next
  case (back_quoted s)
  with assms(2) skipQuoted_text [of "CHR 0x60" False s rest l before] show ?thesis by (simp add: skip_def Let_def)
next
  case (dollar_quoted name s)
  with assms(2) skipDollarQuoted_text [of name s l before rest] show ?thesis by (simp add: skip_def Let_def)
qed

lemma skip_visible:
  assumes "visible (l_d l) c rest" and "l_src l = before @ c # rest"
  shows "skip l (length before) = None"
proof -
  have "at l (length before) = c" "at l (length before + 1) = (case rest of [] \<Rightarrow> CHR 0x00 | b # _ \<Rightarrow> b)"
    using assms(2) by (simp_all add: at_append_Suc)
  moreover have "c = CHR ''$'' \<Longrightarrow> DollarQuote (l_d l) \<Longrightarrow> skipDollarQuoted l (length before) = None"
    using assms by (intro dollarTag_none [of rest l before]) (auto simp: visible_def)
  ultimately show ?thesis using assms(1) by (auto simp: skip_def Let_def visible_def split: list.splits)
qed

section \<open>Statements\<close>

text \<open>The texts of the spans that the loop of \<open>statements\<close> makes.\<close>

lemma hidden_not_Nil: "hidden d before r rest \<Longrightarrow> r \<noteq> []"
  by (auto elim: hidden.cases)

lemma statements_loop_pieces:
  assumes "reads (l_d l) before rest ts" and "l_src l = before @ rest" and "start \<le> length before"
  shows "map (\<lambda>(s, e). substr s e (l_src l)) (statements_loop l (length before) start) =
         pieces (drop start before) ts"
  using assms
proof (induction arbitrary: start)
  case (reads_end before)
  then show ?case by (subst statements_loop.simps) (auto simp: substr_def)
next
  case (reads_hidden before r rest ts)
  from reads_hidden.prems skip_hidden [OF reads_hidden.hyps(1)] hidden_not_Nil [OF reads_hidden.hyps(1)]
  have "statements_loop l (length before) start = statements_loop l (length (before @ r)) start"
    by (subst statements_loop.simps) simp
  with reads_hidden.IH [of start] reads_hidden.prems show ?case by simp
next
  case (reads_visible c rest before ts)
  from reads_visible.prems have skip: "skip l (length before) = None" by (intro skip_visible [OF reads_visible.hyps(1)]) simp
  show ?case
  proof (cases "c = CHR '';''")
    case True
    with reads_visible.prems skip
    have "statements_loop l (length before) start =
        (start, length (before @ [c])) # statements_loop l (length (before @ [c])) (length (before @ [c]))"
      by (subst statements_loop.simps) simp
    with reads_visible.IH [of "length (before @ [c])"] reads_visible.prems True show ?thesis by (simp add: substr_def)
  next
    case False
    with reads_visible.prems skip
    have "statements_loop l (length before) start = statements_loop l (length (before @ [c])) start"
      by (subst statements_loop.simps) simp
    with reads_visible.IH [of start] reads_visible.prems False show ?thesis by simp
  qed
qed

text \<open>C35: a file whose comments, strings and quoted names are closed is cut into the pieces that end after each
  semicolon outside them: of a file that reads as a list of tokens by the lexical rules of its dialect (line and
  block comments, quotes with doubled or escaped quotes, dollar-quoted strings), the statements are the text up to
  and with each semicolon token, and what is left after the last one.  Where comments do not nest, a comment that
  holds a slash, a star and a slash in a row has no reading here.\<close>

theorem statement_ends_at_semicolon:
  assumes "reads (l_d l) [] (l_src l) ts"
  shows "map (\<lambda>(s, e). substr s e (l_src l)) (statements l) = pieces [] ts"
  using statements_loop_pieces [OF assms, of 0] by (simp add: statements_def)


text \<open>A file with semicolons in a string, a comment and a dollar-quoted string.\<close>

definition ex_file :: string where
  "ex_file = ''x'' @ [CHR 0x27] @ ''a;'' @ [CHR 0x27, CHR 0x27] @ ''b'' @ [CHR 0x27] @ '';--;'' @ [CHR 0x0A] @ ''/*;*/$q$;$q$ y''"

definition ex_tokens :: "token list" where
  "ex_tokens =
     [Visible CHR ''x'', Hidden ([CHR 0x27] @ ''a;'' @ [CHR 0x27, CHR 0x27] @ ''b'' @ [CHR 0x27]), Visible CHR '';'',
      Hidden (''--;'' @ [CHR 0x0A]), Hidden ''/*;*/'', Hidden ''$q$;$q$'', Visible CHR '' '', Visible CHR ''y'']"

lemma ex_reads: "reads (the (DialectFor EnginePostgreSQL)) [] ex_file ex_tokens"
proof -
  let ?d = "the (DialectFor EnginePostgreSQL)"
  have d: "DollarQuote ?d" "NestedBlockComment ?d" by (simp_all add: DialectFor_def dialects_def)
  have string: "hidden ?d b ([CHR 0x27] @ (''a;'' @ [CHR 0x27, CHR 0x27] @ ''b'') @ [CHR 0x27]) (CHR '';'' # r)" for b r
    by (rule single_quoted) (auto intro!: quoted_text.intros)
  have line: "hidden ?d b (''--'' @ '';'' @ [CHR 0x0A]) r" for b r
    by (rule dash_comment) simp
  have block: "hidden ?d b (''/*'' @ '';*/'') r" for b r
    using d by (intro block_comment) (auto intro!: comment_byte comment_end [simplified])
  have dollar: "hidden ?d b (dollar_tag ''q'' @ '';'' @ dollar_tag ''q'') r" for b r
    using d by (intro dollar_quoted) (simp_all add: tag_name_def isIdentPart_def isIdentStart_def isDigit_def sublist_Cons_right)
  have visible: "visible ?d (CHR ''x'') r" "visible ?d (CHR '';'') r" "visible ?d (CHR '' '') r" "visible ?d (CHR ''y'') r" for r
    by (simp_all add: visible_def)
  show ?thesis
    unfolding ex_file_def ex_tokens_def
    using string line block dollar visible
    by (auto intro!: reads_visible reads_end reads_hidden [where r = "[CHR 0x27] @ ''a;'' @ [CHR 0x27, CHR 0x27] @ ''b'' @ [CHR 0x27]", simplified]
        reads_hidden [where r = "''--;'' @ [CHR 0x0A]", simplified] reads_hidden [where r = "''/*;*/''", simplified]
        reads_hidden [where r = "''$q$;$q$''", simplified])
qed

theorem statement_ends_at_semicolon_witness:
  "map (\<lambda>(s, e). substr s e ex_file) (statements (ex_lexer EnginePostgreSQL ex_file)) =
     [''x'' @ [CHR 0x27] @ ''a;'' @ [CHR 0x27, CHR 0x27] @ ''b'' @ [CHR 0x27] @ '';'',
      ''--;'' @ [CHR 0x0A] @ ''/*;*/$q$;$q$ y'']"
proof -
  have "reads (l_d (ex_lexer EnginePostgreSQL ex_file)) [] (l_src (ex_lexer EnginePostgreSQL ex_file)) ex_tokens"
    using ex_reads by (simp add: ex_lexer_def)
  from statement_ends_at_semicolon [OF this] show ?thesis by (simp add: ex_lexer_def ex_tokens_def)
qed

text \<open>Where comments do not nest, the code still steps over the star of an opening inside a comment, so that the
  comment \<open>/* /*/\<close> does not end and the statement after it is lost in it.\<close>

lemma slash_star_slash:
  "statements (ex_lexer EngineMySQL ''/* /*/; b;'') = [(0, 10)]"
  by code_simp

end
