(* ===== verification/GoText.thy ===== *)
theory GoText
  imports Metadata "HOL-Library.AList"
begin

text \<open>
  What the code generator uses of Go beyond \<open>GoStrings\<close>: results that fail, and the functions of
  \<open>strings\<close> and \<open>unicode\<close> that work rune by rune.  The tables of the \<open>unicode\<close> package are an argument, a record of
  the functions on one rune given by the bytes of its encoding; what they do on ASCII is stated as
  \<open>ascii_laws\<close>, and \<open>ascii_only\<close> is an instance with no letters outside ASCII.
\<close>

section \<open>Results\<close>

text \<open>A call followed by \<open>if err != nil { return err }\<close>, and such calls over a slice.\<close>

fun and_then :: "'e + 'a \<Rightarrow> ('a \<Rightarrow> 'e + 'b) \<Rightarrow> 'e + 'b" where
  "and_then (Inl e) f = Inl e"
| "and_then (Inr x) f = f x"

fun map_ok :: "('a \<Rightarrow> 'e + 'b) \<Rightarrow> 'a list \<Rightarrow> 'e + 'b list" where
  "map_ok f [] = Inr []"
| "map_ok f (x # xs) = and_then (f x) (\<lambda>y. and_then (map_ok f xs) (\<lambda>ys. Inr (y # ys)))"

lemma and_then_Inr [simp]: "and_then r f = Inr y \<longleftrightarrow> (\<exists>x. r = Inr x \<and> f x = Inr y)"
  by (cases r) auto

lemma and_then_Inl: "and_then r f = Inl e \<longleftrightarrow> r = Inl e \<or> (\<exists>x. r = Inr x \<and> f x = Inl e)"
  by (cases r) auto

lemma map_ok_Inr: "map_ok f xs = Inr ys \<longleftrightarrow> list_all2 (\<lambda>x y. f x = Inr y) xs ys"
  by (induction xs arbitrary: ys) (auto simp: list_all2_Cons1)

lemma map_ok_length: "map_ok f xs = Inr ys \<Longrightarrow> length ys = length xs"
  by (simp add: map_ok_Inr list_all2_lengthD)

lemma map_ok_nth: "map_ok f xs = Inr ys \<Longrightarrow> i < length xs \<Longrightarrow> f (xs ! i) = Inr (ys ! i)"
  by (auto simp: map_ok_Inr dest: list_all2_nthD)

lemma map_ok_defined: "\<forall>x \<in> set xs. \<exists>y. f x = Inr y \<Longrightarrow> \<exists>ys. map_ok f xs = Inr ys"
  by (induction xs) auto

section \<open>Unicode\<close>

type_synonym rune = string

record unicode =
  u_IsLetter :: "rune \<Rightarrow> bool"
  u_IsDigit :: "rune \<Rightarrow> bool"
  u_ToUpper :: "rune \<Rightarrow> rune"
  u_ToLower :: "rune \<Rightarrow> rune"
  u_ToTitle :: "rune \<Rightarrow> rune"

definition ascii_letter :: "char \<Rightarrow> bool" where
  "ascii_letter c \<longleftrightarrow> (65 \<le> byte_of c \<and> byte_of c \<le> 90) \<or> (97 \<le> byte_of c \<and> byte_of c \<le> 122)"

definition ascii_digit :: "char \<Rightarrow> bool" where
  "ascii_digit c \<longleftrightarrow> 48 \<le> byte_of c \<and> byte_of c \<le> 57"

definition upper_byte :: "char \<Rightarrow> char" where
  "upper_byte c = (if 97 \<le> byte_of c \<and> byte_of c \<le> 122 then char_of (byte_of c - 32) else c)"

definition ascii_laws :: "unicode \<Rightarrow> bool" where
  "ascii_laws u \<longleftrightarrow> (\<forall>c. byte_of c < 128 \<longrightarrow>
     u_IsLetter u [c] = ascii_letter c \<and> u_IsDigit u [c] = ascii_digit c \<and>
     u_ToUpper u [c] = [upper_byte c] \<and> u_ToLower u [c] = [lower_byte c] \<and> u_ToTitle u [c] = [upper_byte c])"

definition ascii_case :: "(char \<Rightarrow> char) \<Rightarrow> rune \<Rightarrow> rune" where
  "ascii_case f r = (case r of [c] \<Rightarrow> [f c] | _ \<Rightarrow> r)"

definition ascii_only :: unicode where
  "ascii_only =
     \<lparr>u_IsLetter = (\<lambda>r. case r of [c] \<Rightarrow> ascii_letter c | _ \<Rightarrow> False),
      u_IsDigit = (\<lambda>r. case r of [c] \<Rightarrow> ascii_digit c | _ \<Rightarrow> False),
      u_ToUpper = ascii_case upper_byte, u_ToLower = ascii_case lower_byte, u_ToTitle = ascii_case upper_byte\<rparr>"

lemma ascii_laws_ascii_only: "ascii_laws ascii_only"
  by (simp add: ascii_laws_def ascii_only_def ascii_case_def)

section \<open>Functions on strings, rune by rune\<close>

text \<open>\<open>strings.Map\<close>: \<open>None\<close> is the negative rune that drops the character.  The functions mapped here never return an
  invalid rune unchanged, so the replacement character is never written.\<close>

definition strings_Map :: "(rune \<Rightarrow> rune option) \<Rightarrow> string \<Rightarrow> string" where
  "strings_Map f s = concat (map (\<lambda>r. case f r of None \<Rightarrow> [] | Some r' \<Rightarrow> r') (runes s))"

definition strings_ToUpper :: "unicode \<Rightarrow> string \<Rightarrow> string" where
  "strings_ToUpper u s = concat (map (u_ToUpper u) (runes s))"

definition strings_ToLower :: "unicode \<Rightarrow> string \<Rightarrow> string" where
  "strings_ToLower u s = concat (map (u_ToLower u) (runes s))"

text \<open>\<open>strings.Title\<close> and the \<open>isSeparator\<close> it uses.\<close>

definition isSeparator :: "unicode \<Rightarrow> rune \<Rightarrow> bool" where
  "isSeparator u r =
     (case r of
        [c] \<Rightarrow>
          if byte_of c < 128 then \<not> (ascii_letter c \<or> ascii_digit c \<or> c = CHR ''_'')
          else if u_IsLetter u r \<or> u_IsDigit u r then False else r \<in> set space_runes
      | _ \<Rightarrow> if u_IsLetter u r \<or> u_IsDigit u r then False else r \<in> set space_runes)"

fun title_runes :: "unicode \<Rightarrow> rune \<Rightarrow> rune list \<Rightarrow> string" where
  "title_runes u prev [] = []"
| "title_runes u prev (r # rs) = (if isSeparator u prev then u_ToTitle u r else r) @ title_runes u r rs"

definition strings_Title :: "unicode \<Rightarrow> string \<Rightarrow> string" where
  "strings_Title u s = title_runes u '' '' (runes s)"

text \<open>\<open>sdk.LowerTitle\<close> changes the first rune of a (valid) string.\<close>

definition LowerTitle :: "unicode \<Rightarrow> string \<Rightarrow> string" where
  "LowerTitle u s = (case runes s of [] \<Rightarrow> s | r # rs \<Rightarrow> u_ToLower u r @ concat rs)"

definition EscapeBacktick :: "string \<Rightarrow> string" where
  "EscapeBacktick s = ReplaceAll s (CHR 0x60 # []) (CHR 0x60 # CHR ''+'' # CHR 0x22 # CHR 0x60 # CHR 0x22 # CHR ''+'' # CHR 0x60 # [])"

definition DoubleSlashComment :: "string \<Rightarrow> string" where
  "DoubleSlashComment s = ''// '' @ ReplaceAll s [CHR 0x0A] (CHR 0x0A # ''// '')"

section \<open>Runes of ASCII text\<close>

definition ascii :: "string \<Rightarrow> bool" where
  "ascii s \<longleftrightarrow> (\<forall>c \<in> set s. byte_of c < 128)"

lemma ascii_simps [simp]:
  "ascii []" "ascii (c # s) \<longleftrightarrow> byte_of c < 128 \<and> ascii s" "ascii (s @ t) \<longleftrightarrow> ascii s \<and> ascii t"
  by (auto simp: ascii_def)

lemma rune_width_ascii: "byte_of c < 128 \<Longrightarrow> rune_width (c # s) = 1"
  by (cases "c # s" rule: rune_width.cases) (auto simp: in_range_def)

lemma runes_Nil [simp]: "runes [] = []"
  by (simp add: runes.simps)

lemma runes_Cons_ascii [simp]: "byte_of c < 128 \<Longrightarrow> runes (c # s) = [c] # runes s"
  by (subst runes.simps) (simp add: rune_width_ascii)

lemma runes_ascii: "ascii s \<Longrightarrow> runes s = map (\<lambda>c. [c]) s"
  by (induction s) auto

lemma concat_runes [simp]: "concat (runes s) = s"
  by (induction s rule: runes.induct) (subst runes.simps, auto)

lemma runes_append_ascii: "ascii s \<Longrightarrow> runes (s @ t) = map (\<lambda>c. [c]) s @ runes t"
  by (induction s) auto

end
