(* ===== verification/Pattern.thy ===== *)
theory Pattern
  imports GoText
begin

text \<open>
  \<open>internal/pattern/match.go\<close> and \<open>MatchString\<close> of \<open>internal/codegen/sdk/sdk.go\<close>: the match patterns of type overrides.  The
  code turns a pattern into a regular expression anchored at both ends; here it becomes the list of the
  pieces of that expression, with the meaning \<open>regexp\<close> gives them: \<open>.*\<close> is any run of runes without a newline, \<open>.\<close> is one
  such rune, anything else is that rune.  Every other metacharacter is escaped, so the expression always
  compiles.  The cache returns what was compiled before and does not change a result.
\<close>

section \<open>Compiling\<close>

datatype piece = AnyRun | AnyRune | Lit rune

text \<open>\<open>string(b)\<close> on a byte is the encoding of the code point \<open>b\<close>, so a byte above 127 becomes two bytes.\<close>

definition rune_of_byte :: "char \<Rightarrow> rune" where
  "rune_of_byte b =
     (if byte_of b < 128 then [b] else [char_of (192 + byte_of b div 64), char_of (128 + byte_of b mod 64)])"

fun compile :: "string \<Rightarrow> bool \<Rightarrow> error + piece list" where
  "compile [] escaped = (if escaped then Inl (PlainErr ''Unterminated escape at end of pattern'') else Inr [])"
| "compile (c # s) escaped =
     (if escaped then
        (if c \<in> {CHR ''*'', CHR ''?'', CHR 0x5C}
         then and_then (compile s False) (\<lambda>ps. Inr (Lit [c] # ps))
         else Inl (PlainErr (''Invalid escaped character '' @ [CHR 0x27] @ rune_of_byte c @ [CHR 0x27])))
      else if c = CHR 0x5C then compile s True
      else if c = CHR ''*'' then and_then (compile s False) (\<lambda>ps. Inr (AnyRun # ps))
      else if c = CHR ''?'' then and_then (compile s False) (\<lambda>ps. Inr (AnyRune # ps))
      else and_then (compile s False) (\<lambda>ps. Inr (Lit (rune_of_byte c) # ps)))"

definition matchCompile :: "string \<Rightarrow> error + piece list" where
  "matchCompile pattern = compile pattern False"

section \<open>Matching\<close>

abbreviation newline :: rune where
  "newline \<equiv> [CHR 0x0A]"

fun match_runes :: "piece list \<Rightarrow> rune list \<Rightarrow> bool" where
  "match_runes [] rs \<longleftrightarrow> rs = []"
| "match_runes (Lit r # ps) [] \<longleftrightarrow> False"
| "match_runes (Lit r # ps) (x # xs) \<longleftrightarrow> x = r \<and> match_runes ps xs"
| "match_runes (AnyRune # ps) [] \<longleftrightarrow> False"
| "match_runes (AnyRune # ps) (x # xs) \<longleftrightarrow> x \<noteq> newline \<and> match_runes ps xs"
| "match_runes (AnyRun # ps) [] \<longleftrightarrow> match_runes ps []"
| "match_runes (AnyRun # ps) (x # xs) \<longleftrightarrow>
     match_runes ps (x # xs) \<or> x \<noteq> newline \<and> match_runes (AnyRun # ps) xs"

definition regexp_MatchString :: "piece list \<Rightarrow> string \<Rightarrow> bool" where
  "regexp_MatchString ps target = match_runes ps (runes target)"

definition MatchString :: "string \<Rightarrow> string \<Rightarrow> error + bool" where
  "MatchString pat target =
     (case matchCompile pat of Inl e \<Rightarrow> Inl (Panic ''pattern'') | Inr m \<Rightarrow> Inr (regexp_MatchString m target))"

section \<open>What a pattern means\<close>

text \<open>The language of a pattern, as a splitting of the target.\<close>

inductive denotes :: "piece list \<Rightarrow> rune list \<Rightarrow> bool" where
  empty: "denotes [] []"
| lit: "denotes ps rs \<Longrightarrow> denotes (Lit r # ps) (r # rs)"
| any_rune: "x \<noteq> newline \<Longrightarrow> denotes ps rs \<Longrightarrow> denotes (AnyRune # ps) (x # rs)"
| any_run: "newline \<notin> set xs \<Longrightarrow> denotes ps rs \<Longrightarrow> denotes (AnyRun # ps) (xs @ rs)"

inductive_cases denotes_NilE: "denotes [] rs"
inductive_cases denotes_LitE: "denotes (Lit r # ps) rs"
inductive_cases denotes_AnyRuneE: "denotes (AnyRune # ps) rs"
inductive_cases denotes_AnyRunE: "denotes (AnyRun # ps) rs"

lemma denotes_skip_run: "denotes ps rs \<Longrightarrow> denotes (AnyRun # ps) rs"
  using denotes.any_run [of "[]"] by simp

lemma denotes_grow_run: "denotes (AnyRun # ps) xs \<Longrightarrow> x \<noteq> newline \<Longrightarrow> denotes (AnyRun # ps) (x # xs)"
  by (elim denotes_AnyRunE) (use denotes.any_run [of "x # ys" for ys] in force)

lemma match_runes_sound: "match_runes ps rs \<Longrightarrow> denotes ps rs"
  by (induction ps rs rule: match_runes.induct)
    (auto intro: denotes.intros denotes_skip_run denotes_grow_run)

lemma match_run_append: "newline \<notin> set xs \<Longrightarrow> match_runes ps rs \<Longrightarrow> match_runes (AnyRun # ps) (xs @ rs)"
  by (induction xs) (cases rs, auto)

lemma match_runes_complete: "denotes ps rs \<Longrightarrow> match_runes ps rs"
  by (induction rule: denotes.induct) (simp_all add: match_run_append)

section \<open>Patterns without wildcards\<close>

definition plain_pattern :: "string \<Rightarrow> bool" where
  "plain_pattern p \<longleftrightarrow> ascii p \<and> set p \<inter> {CHR ''*'', CHR ''?'', CHR 0x5C} = {}"

lemma compile_plain: "plain_pattern p \<Longrightarrow> compile p False = Inr (map (\<lambda>c. Lit [c]) p)"
  by (induction p) (auto simp: plain_pattern_def rune_of_byte_def)

lemma match_lits: "match_runes (map Lit xs) rs \<longleftrightarrow> rs = xs"
  by (induction xs arbitrary: rs) (simp, case_tac rs, auto)

lemma runes_eq_iff: "runes s = runes t \<longleftrightarrow> s = t"
proof
  assume "runes s = runes t"
  then have "concat (runes s) = concat (runes t)" by (rule arg_cong)
  then show "s = t" by simp
qed simp

text \<open>A compiled pattern matches exactly the targets its pieces spell out, a run or a rune standing for
  anything but newlines; and a pattern of plain ASCII text matches that text alone.\<close>

theorem MatchString_spec:
  assumes "matchCompile pat = Inr ps"
  shows "MatchString pat target = Inr (denotes ps (runes target)) \<and>
         (plain_pattern pat \<longrightarrow> denotes ps (runes target) = (target = pat))"
proof (intro conjI impI)
  have eq: "match_runes ps (runes target) = denotes ps (runes target)"
    using match_runes_sound match_runes_complete by blast
  then show "MatchString pat target = Inr (denotes ps (runes target))"
    using assms by (simp add: MatchString_def regexp_MatchString_def)
  assume plain: "plain_pattern pat"
  with assms have ps: "ps = map Lit (map (\<lambda>c. [c]) pat)" by (simp add: matchCompile_def compile_plain comp_def)
  have "runes pat = map (\<lambda>c. [c]) pat" using plain by (simp add: plain_pattern_def runes_ascii)
  then have "denotes ps (runes target) = (runes target = runes pat)"
    using eq by (simp only: ps match_lits)
  then show "denotes ps (runes target) = (target = pat)" by (simp only: runes_eq_iff)
qed

theorem MatchString_spec_witness:
  "MatchString ''auth*.i?'' ''authors.id'' = Inr (denotes
     [Lit ''a'', Lit ''u'', Lit ''t'', Lit ''h'', AnyRun, Lit ''.'', Lit ''i'', AnyRune] (runes ''authors.id'')) \<and>
   MatchString ''auth*.i?'' ''authors.id'' = Inr True"
proof
  have run: "matchCompile ''auth*.i?'' =
    Inr [Lit ''a'', Lit ''u'', Lit ''t'', Lit ''h'', AnyRun, Lit ''.'', Lit ''i'', AnyRune]" by code_simp
  show "MatchString ''auth*.i?'' ''authors.id'' = Inr (denotes
     [Lit ''a'', Lit ''u'', Lit ''t'', Lit ''h'', AnyRun, Lit ''.'', Lit ''i'', AnyRune] (runes ''authors.id''))"
    using MatchString_spec [OF run] by blast
  show "MatchString ''auth*.i?'' ''authors.id'' = Inr True" by code_simp
qed

text \<open>A pattern is read byte by byte, so a character outside ASCII is turned into two characters of Latin 1
  and the pattern does not match itself.\<close>

lemma non_ascii_pattern_misses:
  "MatchString [CHR 0xC3, CHR 0xA9] [CHR 0xC3, CHR 0xA9] = Inr False"
  by code_simp

end
