(* ===== verification/Plugin.thy ===== *)
theory Plugin
  imports Catalog_State Metadata "HOL-Library.Word"
begin

text \<open>
  The request a code generator gets: the messages of \<open>internal/plugin\<close>, and \<open>internal/cmd/shim.go\<close>, which builds the request
  from the catalog and the compiled queries.  A pointer that may be nil is an \<open>option\<close>; the type of a column is
  always set by the shim, so it is plain.
\<close>

section \<open>Messages\<close>

record ident =
  id_Catalog :: string
  id_Schema :: string
  id_Name :: string

record pcolumn =
  pc_Name :: string
  pc_NotNull :: bool
  pc_IsArray :: bool
  pc_Comment :: string
  pc_Length :: int
  pc_IsNamedParam :: bool
  pc_IsFuncCall :: bool
  pc_Table :: "ident option"
  pc_Type :: ident
  pc_IsSqlcSlice :: bool
  pc_EmbedTable :: "ident option"
  pc_OriginalName :: string
  pc_Unsigned :: bool
  pc_ArrayDims :: int

record ptable =
  pt_Rel :: ident
  pt_Columns :: "pcolumn list"
  pt_Comment :: string

record penum =
  pe_Name :: string
  pe_Vals :: "string list"
  pe_Comment :: string

record pcomposite =
  pct_Name :: string
  pct_Comment :: string

record pschema =
  ps_Comment :: string
  ps_Name :: string
  ps_Tables :: "ptable list"
  ps_Enums :: "penum list"
  ps_CompositeTypes :: "pcomposite list"

record pcatalog =
  pcat_Comment :: string
  pcat_DefaultSchema :: string
  pcat_Name :: string
  pcat_Schemas :: "pschema list"

record pparameter =
  pp_Number :: int
  pp_Column :: pcolumn

record pbatch =
  pb_Mode :: string
  pb_RoundsText :: string
  pb_ReadText :: string
  pb_UnnestParams :: "int list"

record pquery =
  pq_Text :: string
  pq_Name :: string
  pq_Cmd :: string
  pq_Columns :: "pcolumn list"
  pq_Params :: "pparameter list"
  pq_Comments :: "string list"
  pq_Filename :: string
  pq_InsertIntoTable :: "ident option"
  pq_Batch :: "pbatch option"

record prequest =
  req_Engine :: string
  req_Catalog :: pcatalog
  req_Queries :: "pquery list"

section \<open>Compiled queries\<close>

record qcolumn =
  qc_Name :: string
  qc_OriginalName :: string
  qc_DataType :: string
  qc_NotNull :: bool
  qc_Unsigned :: bool
  qc_IsArray :: bool
  qc_ArrayDims :: int
  qc_Comment :: string
  qc_Length :: "int option"
  qc_IsNamedParam :: bool
  qc_IsFuncCall :: bool
  qc_Scope :: string
  qc_Table :: "tableName option"
  qc_TableAlias :: string
  qc_Type :: "typeName option"
  qc_EmbedTable :: "tableName option"
  qc_IsSqlcSlice :: bool
  qc_skipTableRequiredCheck :: bool

record cparameter =
  cp_Number :: int
  cp_Column :: qcolumn

record batchPlan =
  bp_Mode :: string
  bp_Rounds :: string
  bp_Read :: string
  bp_Unnest :: "int list"

record cquery =
  cq_SQL :: string
  cq_Name :: string
  cq_Cmd :: string
  cq_Comments :: "string list"
  cq_Filename :: string
  cq_Columns :: "qcolumn list"
  cq_Params :: "cparameter list"
  cq_InsertIntoTable :: "tableName option"
  cq_Batch :: "batchPlan option"

section \<open>The shim\<close>

text \<open>The conversion \<open>int32(n)\<close> of an \<open>int\<close>.\<close>

definition int32 :: "int \<Rightarrow> int" where
  "int32 n = sint (word_of_int n :: 32 word)"

definition ident_of_table :: "tableName \<Rightarrow> ident" where
  "ident_of_table t = \<lparr>id_Catalog = tn_Catalog t, id_Schema = tn_Schema t, id_Name = tn_Name t\<rparr>"

definition ident_of_type :: "typeName \<Rightarrow> ident" where
  "ident_of_type t = \<lparr>id_Catalog = ty_Catalog t, id_Schema = ty_Schema t, id_Name = ty_Name t\<rparr>"

definition length_or_minus_one :: "int option \<Rightarrow> int" where
  "length_or_minus_one l = (case l of None \<Rightarrow> -1 | Some n \<Rightarrow> n)"

definition plugin_column :: "tableName \<Rightarrow> column \<Rightarrow> pcolumn" where
  "plugin_column rel c =
     \<lparr>pc_Name = col_Name c, pc_NotNull = col_IsNotNull c, pc_IsArray = col_IsArray c, pc_Comment = col_Comment c,
      pc_Length = int32 (length_or_minus_one (col_Length c)), pc_IsNamedParam = False, pc_IsFuncCall = False,
      pc_Table = Some (ident_of_table rel), pc_Type = ident_of_type (col_Type c), pc_IsSqlcSlice = False,
      pc_EmbedTable = None, pc_OriginalName = [], pc_Unsigned = col_IsUnsigned c,
      pc_ArrayDims = int32 (col_ArrayDims c)\<rparr>"

fun plugin_enums :: "ctype list \<Rightarrow> penum list" where
  "plugin_enums [] = []"
| "plugin_enums (Enum n vals cm # ts) = \<lparr>pe_Name = n, pe_Vals = vals, pe_Comment = cm\<rparr> # plugin_enums ts"
| "plugin_enums (CompositeType n cm # ts) = plugin_enums ts"

fun plugin_composites :: "ctype list \<Rightarrow> pcomposite list" where
  "plugin_composites [] = []"
| "plugin_composites (Enum n vals cm # ts) = plugin_composites ts"
| "plugin_composites (CompositeType n cm # ts) = \<lparr>pct_Name = n, pct_Comment = cm\<rparr> # plugin_composites ts"

definition plugin_table :: "catalog \<Rightarrow> table \<Rightarrow> ptable" where
  "plugin_table c t =
     \<lparr>pt_Rel = ident_of_table (tbl_Rel t), pt_Columns = map (plugin_column (tbl_Rel t)) (cols_of c t),
      pt_Comment = tbl_Comment t\<rparr>"

definition plugin_schema :: "catalog \<Rightarrow> schema \<Rightarrow> pschema" where
  "plugin_schema c s =
     \<lparr>ps_Comment = s_Comment s, ps_Name = s_Name s, ps_Tables = map (plugin_table c) (s_Tables s),
      ps_Enums = plugin_enums (s_Types s), ps_CompositeTypes = plugin_composites (s_Types s)\<rparr>"

definition pluginCatalog :: "catalog \<Rightarrow> pcatalog" where
  "pluginCatalog c =
     \<lparr>pcat_Comment = c_Comment c, pcat_DefaultSchema = c_DefaultSchema c, pcat_Name = c_Name c,
      pcat_Schemas = map (plugin_schema c) (c_Schemas c)\<rparr>"

definition pluginQueryColumn :: "qcolumn \<Rightarrow> pcolumn" where
  "pluginQueryColumn c =
     \<lparr>pc_Name = qc_Name c, pc_NotNull = qc_NotNull c, pc_IsArray = qc_IsArray c, pc_Comment = qc_Comment c,
      pc_Length = int32 (length_or_minus_one (qc_Length c)), pc_IsNamedParam = qc_IsNamedParam c,
      pc_IsFuncCall = qc_IsFuncCall c, pc_Table = map_option ident_of_table (qc_Table c),
      pc_Type = (case qc_Type c of Some t \<Rightarrow> ident_of_type t
                 | None \<Rightarrow> \<lparr>id_Catalog = [], id_Schema = [], id_Name = qc_DataType c\<rparr>),
      pc_IsSqlcSlice = qc_IsSqlcSlice c, pc_EmbedTable = map_option ident_of_table (qc_EmbedTable c),
      pc_OriginalName = qc_OriginalName c, pc_Unsigned = qc_Unsigned c, pc_ArrayDims = int32 (qc_ArrayDims c)\<rparr>"

definition pluginQueryParam :: "cparameter \<Rightarrow> pparameter" where
  "pluginQueryParam p = \<lparr>pp_Number = int32 (cp_Number p), pp_Column = pluginQueryColumn (cp_Column p)\<rparr>"

definition plugin_batch :: "batchPlan \<Rightarrow> pbatch" where
  "plugin_batch b =
     \<lparr>pb_Mode = bp_Mode b, pb_RoundsText = bp_Rounds b, pb_ReadText = bp_Read b,
      pb_UnnestParams = map int32 (bp_Unnest b)\<rparr>"

definition plugin_query :: "cquery \<Rightarrow> pquery" where
  "plugin_query q =
     \<lparr>pq_Text = cq_SQL q, pq_Name = cq_Name q, pq_Cmd = cq_Cmd q, pq_Columns = map pluginQueryColumn (cq_Columns q),
      pq_Params = map pluginQueryParam (cq_Params q), pq_Comments = cq_Comments q, pq_Filename = cq_Filename q,
      pq_InsertIntoTable = map_option ident_of_table (cq_InsertIntoTable q),
      pq_Batch = map_option plugin_batch (cq_Batch q)\<rparr>"

definition pluginQueries :: "cquery list \<Rightarrow> pquery list" where
  "pluginQueries qs = map plugin_query qs"

text \<open>Of the settings only the engine is read by the Go generator.\<close>

definition codeGenRequest :: "string \<Rightarrow> catalog \<Rightarrow> cquery list \<Rightarrow> prequest" where
  "codeGenRequest engine c qs =
     \<lparr>req_Engine = engine, req_Catalog = pluginCatalog c, req_Queries = pluginQueries qs\<rparr>"

section \<open>Helpers of the generators\<close>

text \<open>\<open>DataType\<close> and \<open>SameTableName\<close> of \<open>internal/codegen/sdk/sdk.go\<close>.\<close>

definition DataType :: "ident \<Rightarrow> string" where
  "DataType n = (if id_Schema n \<noteq> [] then id_Schema n @ ''.'' @ id_Name n else id_Name n)"

definition SameTableName :: "ident option \<Rightarrow> ident \<Rightarrow> string \<Rightarrow> bool" where
  "SameTableName tableID f defaultSchema =
     (case tableID of
        None \<Rightarrow> False
      | Some t \<Rightarrow>
          id_Catalog t = id_Catalog f \<and>
          (if id_Schema t = [] then defaultSchema else id_Schema t) = id_Schema f \<and> id_Name t = id_Name f)"

section \<open>The request describes the catalog\<close>

lemma int32_small: "- (2 ^ 31) \<le> n \<Longrightarrow> n < 2 ^ 31 \<Longrightarrow> int32 n = n"
  by (simp add: int32_def sint_sbintrunc' signed_take_bit_int_eq_self)

lemma plugin_enums_names: "map pe_Name (plugin_enums ts) = map enum_Name (filter is_Enum ts)"
  by (induction ts rule: plugin_enums.induct) auto

end
