(* ===== verification/Go_Options.thy ===== *)
theory Go_Options
  imports Pattern Plugin
begin

text \<open>
  \<open>internal/codegen/golang/opts\<close>: the options of the Go generator, type overrides, and their validation.  The options are
  the value \<open>json.Unmarshal\<close> delivers; what it fails with is an argument of \<open>parseOpts\<close>.  The struct tag parser is a third-party
  package and an argument.
\<close>

section \<open>Drivers\<close>

text \<open>A driver is the string the options name it by.\<close>

definition SQLDriverPGXV4 :: string where "SQLDriverPGXV4 = ''github.com/jackc/pgx/v4''"
definition SQLDriverPGXV5 :: string where "SQLDriverPGXV5 = ''github.com/jackc/pgx/v5''"
definition SQLDriverLibPQ :: string where "SQLDriverLibPQ = ''github.com/lib/pq''"
definition SQLDriverGoSQLDriverMySQL :: string where
  "SQLDriverGoSQLDriverMySQL = ''github.com/go-sql-driver/mysql''"
definition SQLDriverDuckDB :: string where "SQLDriverDuckDB = ''github.com/duckdb/duckdb-go/v2''"

definition SQLPackagePGXV4 :: string where "SQLPackagePGXV4 = ''pgx/v4''"
definition SQLPackagePGXV5 :: string where "SQLPackagePGXV5 = ''pgx/v5''"
definition SQLPackageStandard :: string where "SQLPackageStandard = ''database/sql''"

lemmas driver_defs = SQLDriverPGXV4_def SQLDriverPGXV5_def SQLDriverLibPQ_def SQLDriverGoSQLDriverMySQL_def
  SQLDriverDuckDB_def SQLPackagePGXV4_def SQLPackagePGXV5_def SQLPackageStandard_def

definition validatePackage :: "string \<Rightarrow> error option" where
  "validatePackage p =
     (if p \<in> {SQLPackagePGXV4, SQLPackagePGXV5, SQLPackageStandard} then None
      else Some (PlainErr (''unknown SQL package: '' @ p)))"

definition validateDriver :: "string \<Rightarrow> error option" where
  "validateDriver d =
     (if d \<in> {SQLDriverPGXV4, SQLDriverPGXV5, SQLDriverLibPQ, SQLDriverGoSQLDriverMySQL, SQLDriverDuckDB} then None
      else Some (PlainErr (''unknown SQL driver: '' @ d)))"

definition IsPGX :: "string \<Rightarrow> bool" where
  "IsPGX d \<longleftrightarrow> d = SQLDriverPGXV4 \<or> d = SQLDriverPGXV5"

definition IsDuckDB :: "string \<Rightarrow> bool" where
  "IsDuckDB d \<longleftrightarrow> d = SQLDriverDuckDB"

definition driver_Package :: "string \<Rightarrow> string" where
  "driver_Package d =
     (if d = SQLDriverPGXV4 then SQLPackagePGXV4 else if d = SQLDriverPGXV5 then SQLPackagePGXV5
      else SQLPackageStandard)"

section \<open>Go types of overrides\<close>

record goTypeSpec =
  gt_Path :: string
  gt_Package :: string
  gt_Name :: string
  gt_Pointer :: bool
  gt_Slice :: bool
  gt_Spec :: string

record parsedGoType =
  pg_ImportPath :: string
  pg_Package :: string
  pg_TypeName :: string
  pg_BasicType :: bool

definition ident_char :: "char \<Rightarrow> bool" where
  "ident_char c \<longleftrightarrow> ascii_letter c \<or> ascii_digit c \<or> c = CHR ''_''"

text \<open>The regular expressions \<open>validIdentifier\<close> and \<open>versionNumber\<close>, and replacing every match of \<open>invalidIdentifier\<close>: a match is
  one rune.\<close>

definition validIdentifier :: "string \<Rightarrow> bool" where
  "validIdentifier s \<longleftrightarrow> s \<noteq> [] \<and> list_all ident_char s"

definition versionNumber :: "string \<Rightarrow> bool" where
  "versionNumber s = (case s of [] \<Rightarrow> False | c # ds \<Rightarrow> c = CHR ''v'' \<and> ds \<noteq> [] \<and> list_all ascii_digit ds)"

definition replace_invalid :: "string \<Rightarrow> string" where
  "replace_invalid s = concat (map (\<lambda>r. if list_all ident_char r then r else ''_'') (runes s))"

definition generatePackageID :: "string \<Rightarrow> string \<times> bool" where
  "generatePackageID importPath =
     (let parts = split_byte CHR ''/'' importPath; name = last parts in
      if versionNumber name \<and> 2 \<le> length parts
      then (replace_invalid (ToLower (parts ! (length parts - 2))), True)
      else if validIdentifier name then (name, False)
      else (replace_invalid (ToLower name), True))"

text \<open>The names of the typed basic types of \<open>go/types\<close>.\<close>

definition basic_types :: "string list" where
  "basic_types =
     [''bool'', ''int'', ''int8'', ''int16'', ''int32'', ''int64'', ''uint'', ''uint8'', ''uint16'', ''uint32'', ''uint64'',
      ''uintptr'', ''float32'', ''float64'', ''complex64'', ''complex128'', ''string'']"

definition LastIndex :: "char \<Rightarrow> string \<Rightarrow> nat option" where
  "LastIndex c s = find_last_idx (\<lambda>x. x = c) s"

definition goType_parse_spec :: "string \<Rightarrow> error + parsedGoType" where
  "goType_parse_spec input =
     (case (LastIndex CHR ''.'' input, LastIndex CHR ''/'' input) of
        (None, None) \<Rightarrow>
          if input \<in> set basic_types
          then Inr \<lparr>pg_ImportPath = [], pg_Package = [], pg_TypeName = input, pg_BasicType = True\<rparr>
          else Inl (PlainErr (''Package override `go_type` specifier '' @ Quote input @
                 '' is not a Go basic type e.g. '' @ [CHR 0x27] @ ''string'' @ [CHR 0x27]))
      | (None, Some _) \<Rightarrow>
          Inl (PlainErr (''Package override `go_type` specifier '' @ Quote input @
                 '' is not the proper format, expected '' @ [CHR 0x27] @ ''package.type'' @ [CHR 0x27] @
                 '', e.g. '' @ [CHR 0x27] @ ''github.com/segmentio/ksuid.KSUID'' @ [CHR 0x27]))
      | (Some dot, slash) \<Rightarrow>
          (let base = (case slash of None \<Rightarrow> input | Some i \<Rightarrow> drop (i + 1) input);
               typename = TrimSuffix (TrimPrefix base ''go-'') ''-go'';
               path = take dot input
           in if hd input = CHR ''*''
              then Inr \<lparr>pg_ImportPath = drop 1 path, pg_Package = [], pg_TypeName = ''*'' @ typename, pg_BasicType = False\<rparr>
              else Inr \<lparr>pg_ImportPath = path, pg_Package = [], pg_TypeName = typename, pg_BasicType = False\<rparr>))"

definition goType_parse :: "goTypeSpec \<Rightarrow> error + parsedGoType" where
  "goType_parse gt =
     (if gt_Spec gt = [] then
        (if gt_Path gt = [] \<and> gt_Package gt \<noteq> []
         then Inl (PlainErr ''Package override `go_type`: package name requires an import path'')
         else
           (let gen = (gt_Package gt = [] \<and> gt_Path gt \<noteq> []);
                (pkg, opkg) = (if gen then (case generatePackageID (gt_Path gt) of (p, alias) \<Rightarrow> (p, if alias then p else []))
                               else (gt_Package gt, gt_Package gt));
                t1 = (if pkg \<noteq> [] then pkg @ ''.'' @ gt_Name gt else gt_Name gt);
                t2 = (if gt_Pointer gt then ''*'' @ t1 else t1);
                t3 = (if gt_Slice gt then ''[]'' @ t2 else t2)
            in Inr \<lparr>pg_ImportPath = gt_Path gt, pg_Package = opkg, pg_TypeName = t3,
                    pg_BasicType = (gt_Path gt = [] \<and> gt_Package gt = [])\<rparr>))
      else goType_parse_spec (gt_Spec gt))"

section \<open>Overrides\<close>

record shimGoType =
  sg_ImportPath :: string
  sg_Package :: string
  sg_TypeName :: string
  sg_BasicType :: bool
  sg_StructTags :: "(string \<times> string) list"

record shimOverride =
  so_DbType :: string
  so_Nullable :: bool
  so_Column :: string
  so_Table :: ident
  so_ColumnName :: string
  so_Unsigned :: bool
  so_GoType :: shimGoType

record override =
  ov_GoType :: goTypeSpec
  ov_GoStructTag :: string
  ov_DBType :: string
  ov_PostgresType :: string
  ov_Engine :: string
  ov_Nullable :: bool
  ov_Unsigned :: bool
  ov_Null :: bool
  ov_Column :: string
  ov_ColumnName :: "piece list option"
  ov_TableCatalog :: "piece list option"
  ov_TableSchema :: "piece list option"
  ov_TableRel :: "piece list option"
  ov_Go :: parsedGoType
  ov_GoStructTags :: "(string \<times> string) list"
  ov_Shim :: shimOverride

definition override_Matches :: "override \<Rightarrow> ident option \<Rightarrow> string \<Rightarrow> bool" where
  "override_Matches ov n defaultSchema =
     (case n of
        None \<Rightarrow> False
      | Some n \<Rightarrow>
          (let schema = (if id_Schema n = [] then defaultSchema else id_Schema n) in
           (case ov_TableCatalog ov of None \<Rightarrow> True | Some m \<Rightarrow> regexp_MatchString m (id_Catalog n)) \<and>
           (case ov_TableSchema ov of None \<Rightarrow> schema = [] | Some m \<Rightarrow> regexp_MatchString m schema) \<and>
           (case ov_TableRel ov of None \<Rightarrow> id_Name n = [] | Some m \<Rightarrow> regexp_MatchString m (id_Name n))))"

definition MatchesColumn :: "override \<Rightarrow> pcolumn \<Rightarrow> bool" where
  "MatchesColumn ov col \<longleftrightarrow>
     ov_DBType ov \<noteq> [] \<and> ov_DBType ov = DataType (pc_Type col) \<and>
     ov_Nullable ov \<noteq> (pc_NotNull col \<or> pc_IsArray col) \<and> ov_Unsigned ov = pc_Unsigned col"

definition no_ident :: ident where
  "no_ident = \<lparr>id_Catalog = [], id_Schema = [], id_Name = []\<rparr>"

definition shim_table :: "string \<Rightarrow> string \<Rightarrow> ident \<times> string" where
  "shim_table defaultSchema column =
     (if column = [] then (no_ident, [])
      else
        (case split_byte CHR ''.'' column of
           [t, c] \<Rightarrow> (\<lparr>id_Catalog = [], id_Schema = defaultSchema, id_Name = t\<rparr>, c)
         | [s, t, c] \<Rightarrow> (\<lparr>id_Catalog = [], id_Schema = s, id_Name = t\<rparr>, c)
         | [k, s, t, c] \<Rightarrow> (\<lparr>id_Catalog = k, id_Schema = s, id_Name = t\<rparr>, c)
         | _ \<Rightarrow> (no_ident, [])))"

definition shim_override :: "string \<Rightarrow> override \<Rightarrow> shimOverride" where
  "shim_override defaultSchema ov =
     (case shim_table defaultSchema (ov_Column ov) of (table, column) \<Rightarrow>
        \<lparr>so_DbType = ov_DBType ov, so_Nullable = ov_Nullable ov, so_Column = ov_Column ov, so_Table = table,
         so_ColumnName = column, so_Unsigned = ov_Unsigned ov,
         so_GoType = \<lparr>sg_ImportPath = pg_ImportPath (ov_Go ov), sg_Package = pg_Package (ov_Go ov),
                      sg_TypeName = pg_TypeName (ov_Go ov), sg_BasicType = pg_BasicType (ov_Go ov),
                      sg_StructTags = ov_GoStructTags ov\<rparr>\<rparr>)"

text \<open>The patterns of \<open>parse\<close>, in the order the code compiles them: column, table, schema, catalog.\<close>

definition compile_column :: "string \<Rightarrow> override \<Rightarrow> error + override" where
  "compile_column schema ov =
     (if ov_Column ov = [] then Inr ov
      else
        (case split_byte CHR ''.'' (ov_Column ov) of
           [t, c] \<Rightarrow>
             and_then (matchCompile c) (\<lambda>mc. and_then (matchCompile t) (\<lambda>mt. and_then (matchCompile schema) (\<lambda>ms.
               Inr (ov\<lparr>ov_ColumnName := Some mc, ov_TableRel := Some mt, ov_TableSchema := Some ms\<rparr>))))
         | [s, t, c] \<Rightarrow>
             and_then (matchCompile c) (\<lambda>mc. and_then (matchCompile t) (\<lambda>mt. and_then (matchCompile s) (\<lambda>ms.
               Inr (ov\<lparr>ov_ColumnName := Some mc, ov_TableRel := Some mt, ov_TableSchema := Some ms\<rparr>))))
         | [k, s, t, c] \<Rightarrow>
             and_then (matchCompile c) (\<lambda>mc. and_then (matchCompile t) (\<lambda>mt. and_then (matchCompile s) (\<lambda>ms.
             and_then (matchCompile k) (\<lambda>mk.
               Inr (ov\<lparr>ov_ColumnName := Some mc, ov_TableRel := Some mt, ov_TableSchema := Some ms,
                       ov_TableCatalog := Some mk\<rparr>)))))
         | _ \<Rightarrow> Inl (PlainErr (''Override `column` specifier '' @ Quote (ov_Column ov) @
                  '' is not the proper format, expected '' @ [CHR 0x27] @ ''[catalog.][schema.]tablename.colname'' @
                  [CHR 0x27]))))"

definition deprecated_fields :: "override \<Rightarrow> error + override" where
  "deprecated_fields ov =
     (if ov_PostgresType ov \<noteq> [] \<and> ov_DBType ov \<noteq> []
      then Inl (PlainErr ''Type override configurations cannot have \"db_type\" and \"postres_type\" together. Use \"db_type\" alone'')
      else
        (let ov1 = (if ov_PostgresType ov \<noteq> [] then ov\<lparr>ov_DBType := ov_PostgresType ov\<rparr> else ov)
         in Inr (if ov_Null ov then ov1\<lparr>ov_Nullable := True\<rparr> else ov1)))"

definition option_combinations :: "override \<Rightarrow> error option" where
  "option_combinations ov =
     (if ov_Column ov \<noteq> [] \<and> ov_DBType ov \<noteq> []
      then Some (PlainErr (''Override specifying both `column` ('' @ Quote (ov_Column ov) @ '') and `db_type` ('' @
             Quote (ov_DBType ov) @ '') is not valid.''))
      else if ov_Column ov = [] \<and> ov_DBType ov = []
      then Some (PlainErr ''Override must specify one of either `column` or `db_type`'')
      else None)"

definition tags_map :: "(string \<times> string) list \<Rightarrow> (string \<times> string) list" where
  "tags_map ts = fold (\<lambda>(k, v). AList.update k v) ts []"

definition override_parse :: "(string \<Rightarrow> error + (string \<times> string) list) \<Rightarrow> prequest \<Rightarrow> override \<Rightarrow> error + override" where
  "override_parse structtag req ov =
     and_then (deprecated_fields ov) (\<lambda>ov1.
       (case option_combinations ov1 of
          Some e \<Rightarrow> Inl e
        | None \<Rightarrow>
            and_then (compile_column (pcat_DefaultSchema (req_Catalog req)) ov1) (\<lambda>ov2.
            and_then (goType_parse (ov_GoType ov2)) (\<lambda>parsed.
            and_then (structtag (ov_GoStructTag ov2)) (\<lambda>tags.
              (let ov3 = ov2\<lparr>ov_Go := parsed, ov_GoStructTags := tags_map tags\<rparr>
               in Inr (ov3\<lparr>ov_Shim := shim_override (pcat_DefaultSchema (req_Catalog req)) ov3\<rparr>)))))))"

section \<open>Options\<close>

record options =
  opt_EmitInterface :: bool
  opt_EmitJsonTags :: bool
  opt_JsonTagsIdUppercase :: bool
  opt_EmitDbTags :: bool
  opt_EmitPreparedQueries :: bool
  opt_EmitExactTableNames :: bool
  opt_EmitExportedQueries :: bool
  opt_EmitResultStructPointers :: bool
  opt_EmitParamsStructPointers :: bool
  opt_EmitMethodsWithDbArgument :: bool
  opt_EmitPointersForNullTypes :: bool
  opt_EmitPointersForNullEnumTypes :: "bool option"
  opt_EmitSqlAsComment :: bool
  opt_JsonTagsCaseStyle :: string
  opt_Package :: string
  opt_Out :: string
  opt_Overrides :: "override list"
  opt_Rename :: "(string \<times> string) list"
  opt_SqlPackage :: string
  opt_SqlDriver :: string
  opt_OutputBatchFileName :: string
  opt_OutputDbFileName :: string
  opt_OutputModelsFileName :: string
  opt_OutputModelsPath :: string
  opt_OutputModelsPackage :: string
  opt_OutputModelsImport :: string
  opt_OutputModelsEmit :: "bool option"
  opt_OutputQuerierFileName :: string
  opt_OutputCopyfromFileName :: string
  opt_OutputFilesSuffix :: string
  opt_InflectionExcludeTableNames :: "string list"
  opt_WrapErrors :: bool
  opt_QueryParameterLimit :: "int option"
  opt_OmitUnusedStructs :: bool
  opt_Initialisms :: "string list option"
  opt_InitialismsMap :: "string list"

definition zero_options :: options where
  "zero_options =
     \<lparr>opt_EmitInterface = False, opt_EmitJsonTags = False, opt_JsonTagsIdUppercase = False, opt_EmitDbTags = False,
      opt_EmitPreparedQueries = False, opt_EmitExactTableNames = False, opt_EmitExportedQueries = False,
      opt_EmitResultStructPointers = False, opt_EmitParamsStructPointers = False,
      opt_EmitMethodsWithDbArgument = False, opt_EmitPointersForNullTypes = False,
      opt_EmitPointersForNullEnumTypes = None, opt_EmitSqlAsComment = False, opt_JsonTagsCaseStyle = [],
      opt_Package = [], opt_Out = [], opt_Overrides = [], opt_Rename = [], opt_SqlPackage = [], opt_SqlDriver = [],
      opt_OutputBatchFileName = [], opt_OutputDbFileName = [], opt_OutputModelsFileName = [],
      opt_OutputModelsPath = [], opt_OutputModelsPackage = [], opt_OutputModelsImport = [],
      opt_OutputModelsEmit = None, opt_OutputQuerierFileName = [], opt_OutputCopyfromFileName = [],
      opt_OutputFilesSuffix = [], opt_InflectionExcludeTableNames = [], opt_WrapErrors = False,
      opt_QueryParameterLimit = None, opt_OmitUnusedStructs = False, opt_Initialisms = None,
      opt_InitialismsMap = []\<rparr>"

text \<open>\<open>filepath.Base\<close> with slash as the separator.\<close>

definition filepath_Base :: "string \<Rightarrow> string" where
  "filepath_Base path =
     (if path = [] then ''.''
      else
        (let p = rev (dropWhile (\<lambda>c. c = CHR ''/'') (rev path)) in
         if p = [] then ''/'' else last (split_byte CHR ''/'' p)))"

definition default_package :: "options \<Rightarrow> error + options" where
  "default_package opts =
     (if opt_Package opts \<noteq> [] then Inr opts
      else if opt_Out opts \<noteq> [] then Inr (opts\<lparr>opt_Package := filepath_Base (opt_Out opts)\<rparr>)
      else Inl (PlainErr ''invalid options: missing package name''))"

definition default_models_package :: "options \<Rightarrow> options" where
  "default_models_package opts =
     (if opt_OutputModelsPackage opts \<noteq> [] then opts
      else if opt_OutputModelsPath opts \<noteq> [] then opts\<lparr>opt_OutputModelsPackage := filepath_Base (opt_OutputModelsPath opts)\<rparr>
      else if opt_OutputModelsImport opts \<noteq> [] then opts\<lparr>opt_OutputModelsPackage := filepath_Base (opt_OutputModelsImport opts)\<rparr>
      else opts)"

definition invalid :: "error option \<Rightarrow> error option" where
  "invalid e =
     map_option (\<lambda>e. PlainErr (''invalid options: '' @ (case e of PlainErr m \<Rightarrow> m | _ \<Rightarrow> []))) e"

definition check_names :: "options \<Rightarrow> error option" where
  "check_names opts =
     (case (if opt_SqlPackage opts \<noteq> [] then invalid (validatePackage (opt_SqlPackage opts)) else None) of
        Some e \<Rightarrow> Some e
      | None \<Rightarrow> if opt_SqlDriver opts \<noteq> [] then invalid (validateDriver (opt_SqlDriver opts)) else None)"

definition default_limits :: "options \<Rightarrow> options" where
  "default_limits opts =
     (let o1 = (if opt_QueryParameterLimit opts = None then opts\<lparr>opt_QueryParameterLimit := Some 1\<rparr> else opts);
          o2 = (if opt_Initialisms o1 = None then o1\<lparr>opt_Initialisms := Some [''id'']\<rparr> else o1)
      in o2\<lparr>opt_InitialismsMap := the (opt_Initialisms o2)\<rparr>)"

definition parseOpts ::
    "(string \<Rightarrow> error + (string \<times> string) list) \<Rightarrow> prequest \<Rightarrow> (error + options) option \<Rightarrow> error + options" where
  "parseOpts structtag req pluginOptions =
     (case pluginOptions of
        None \<Rightarrow> Inr zero_options
      | Some (Inl e) \<Rightarrow> Inl e
      | Some (Inr raw) \<Rightarrow>
          and_then (default_package raw) (\<lambda>o1.
            (let o2 = default_models_package o1 in
             and_then (map_ok (override_parse structtag req) (opt_Overrides o2)) (\<lambda>ovs.
               (let o3 = o2\<lparr>opt_Overrides := ovs\<rparr> in
                case check_names o3 of Some e \<Rightarrow> Inl e | None \<Rightarrow> Inr (default_limits o3))))))"

definition validateEngine :: "string \<Rightarrow> options \<Rightarrow> error + options" where
  "validateEngine engine opts =
     (if engine \<noteq> ''duckdb'' then Inr opts
      else if opt_SqlPackage opts \<noteq> [] \<and> opt_SqlPackage opts \<noteq> SQLPackageStandard
      then Inl (PlainErr (''invalid options: engine duckdb supports sql_package '' @ SQLPackageStandard @
             '' only, not '' @ opt_SqlPackage opts))
      else if opt_SqlDriver opts = [] then Inr (opts\<lparr>opt_SqlDriver := SQLDriverDuckDB\<rparr>)
      else if opt_SqlDriver opts = SQLDriverDuckDB then Inr opts
      else Inl (PlainErr (''invalid options: engine duckdb supports sql_driver '' @ SQLDriverDuckDB @
             '' only, not '' @ opt_SqlDriver opts)))"

record globalOptions =
  go_Overrides :: "override list"
  go_Rename :: "(string \<times> string) list"

definition parseGlobalOpts ::
    "(string \<Rightarrow> error + (string \<times> string) list) \<Rightarrow> prequest \<Rightarrow> (error + globalOptions) option \<Rightarrow> error + globalOptions" where
  "parseGlobalOpts structtag req globalOpts =
     (case globalOpts of
        None \<Rightarrow> Inr \<lparr>go_Overrides = [], go_Rename = []\<rparr>
      | Some (Inl e) \<Rightarrow> Inl e
      | Some (Inr g) \<Rightarrow>
          and_then (map_ok (override_parse structtag req) (go_Overrides g)) (\<lambda>ovs. Inr (g\<lparr>go_Overrides := ovs\<rparr>)))"

definition Parse ::
    "(string \<Rightarrow> error + (string \<times> string) list) \<Rightarrow> prequest \<Rightarrow> (error + options) option \<Rightarrow>
     (error + globalOptions) option \<Rightarrow> error + options" where
  "Parse structtag req pluginOptions globalOpts =
     and_then (parseOpts structtag req pluginOptions) (\<lambda>o1.
     and_then (validateEngine (req_Engine req) o1) (\<lambda>o2.
     and_then (parseGlobalOpts structtag req globalOpts) (\<lambda>g.
       Inr (o2\<lparr>opt_Overrides := go_Overrides g @ opt_Overrides o2,
               opt_Rename := fold (\<lambda>(k, v). AList.update k v) (go_Rename g) (opt_Rename o2)\<rparr>))))"

definition ModelsEmitEnabled :: "options \<Rightarrow> bool" where
  "ModelsEmitEnabled opts = (case opt_OutputModelsEmit opts of None \<Rightarrow> True | Some b \<Rightarrow> b)"

definition ModelsPackage :: "options \<Rightarrow> string" where
  "ModelsPackage opts = (if opt_OutputModelsPackage opts \<noteq> [] then opt_OutputModelsPackage opts else opt_Package opts)"

definition ModelsAreExternal :: "options \<Rightarrow> bool" where
  "ModelsAreExternal opts \<longleftrightarrow> opt_OutputModelsImport opts \<noteq> []"

definition ModelsImportAlias :: string where
  "ModelsImportAlias = ''models''"

definition ModelsTypeQualifier :: "options \<Rightarrow> string" where
  "ModelsTypeQualifier opts = (if ModelsAreExternal opts then ModelsImportAlias @ ''.'' else [])"

definition validateModelsOptions :: "options \<Rightarrow> error option" where
  "validateModelsOptions opts =
     (if \<not> (opt_OutputModelsPath opts \<noteq> [] \<or> opt_OutputModelsPackage opts \<noteq> [] \<or> opt_OutputModelsImport opts \<noteq> [] \<or>
           opt_OutputModelsEmit opts \<noteq> None) then None
      else if opt_OutputModelsImport opts = []
      then Some (PlainErr ''invalid options: output_models_import is required when any output_models_* option is set'')
      else if ModelsEmitEnabled opts \<and> opt_OutputModelsPath opts = []
      then Some (PlainErr ''invalid options: output_models_path is required when emitting models to a separate package'')
      else if ModelsEmitEnabled opts \<and> opt_OutputModelsPath opts = opt_Out opts
      then Some (PlainErr ''invalid options: output_models_path matches out; models would overwrite the queries package'')
      else None)"

text \<open>The limit is a pointer that \<open>parseOpts\<close> sets; it stays nil when the plugin was given no options at all.\<close>

definition ValidateOpts :: "options \<Rightarrow> error option" where
  "ValidateOpts opts =
     (if opt_EmitMethodsWithDbArgument opts \<and> opt_EmitPreparedQueries opts
      then Some (PlainErr ''invalid options: emit_methods_with_db_argument and emit_prepared_queries options are mutually exclusive'')
      else
        (case opt_QueryParameterLimit opts of
           None \<Rightarrow> Some (Panic ''nil pointer dereference'')
         | Some n \<Rightarrow>
             if n < 0 then Some (PlainErr ''invalid options: query parameter limit must not be negative'')
             else validateModelsOptions opts))"

text \<open>\<open>parseDriver\<close> of \<open>driver.go\<close>.\<close>

definition parseDriver :: "options \<Rightarrow> string" where
  "parseDriver opts =
     (if opt_SqlPackage opts = SQLPackagePGXV4 then SQLDriverPGXV4
      else if opt_SqlPackage opts = SQLPackagePGXV5 then SQLDriverPGXV5
      else if opt_SqlDriver opts = SQLDriverDuckDB then SQLDriverDuckDB
      else SQLDriverLibPQ)"

end
