(* ===== verification/Go_Names.thy ===== *)
theory Go_Names
  imports Go_Options "HOL-Library.List_Lexorder" "HOL-Library.Char_ord"
begin

text \<open>
  The names the Go generator makes: \<open>struct.go\<close>, \<open>field.go\<close>, \<open>enum.go\<close>, \<open>reserved.go\<close> and the naming functions of \<open>result.go\<close>, all of
  \<open>internal/codegen/golang\<close>.  A Go map of tags is an association list with distinct keys.
\<close>

section \<open>Reserved words\<close>

definition reserved_words :: "string list" where
  "reserved_words =
     [''any'', ''break'', ''default'', ''func'', ''interface'', ''select'', ''case'', ''defer'', ''go'', ''map'', ''struct'',
      ''chan'', ''else'', ''goto'', ''package'', ''switch'', ''const'', ''fallthrough'', ''if'', ''range'', ''type'', ''continue'',
      ''for'', ''import'', ''return'', ''var'', ''q'']"

definition IsReserved :: "string \<Rightarrow> bool" where
  "IsReserved s \<longleftrightarrow> s \<in> set reserved_words"

definition escape :: "string \<Rightarrow> string" where
  "escape s = (if IsReserved s then s @ ''_'' else s)"

section \<open>Struct and field names\<close>

definition name_rune_or_underscore :: "unicode \<Rightarrow> rune \<Rightarrow> rune option" where
  "name_rune_or_underscore u r = (if u_IsLetter u r then Some r else if u_IsDigit u r then Some r else Some ''_'')"

definition struct_part :: "unicode \<Rightarrow> options \<Rightarrow> string \<Rightarrow> string" where
  "struct_part u opts p = (if p \<in> set (opt_InitialismsMap opts) then strings_ToUpper u p else strings_Title u p)"

definition struct_body :: "unicode \<Rightarrow> options \<Rightarrow> string \<Rightarrow> string" where
  "struct_body u opts name =
     concat (map (struct_part u opts) (split_byte CHR ''_'' (strings_Map (name_rune_or_underscore u) name)))"

definition StructName :: "unicode \<Rightarrow> string \<Rightarrow> options \<Rightarrow> string" where
  "StructName u name opts =
     (case map_of (opt_Rename opts) name of
        Some rename \<Rightarrow> if rename \<noteq> [] then rename
                       else (let out = struct_body u opts name in
                             case runes out of r # _ \<Rightarrow> if u_IsDigit u r then ''_'' @ out else out | [] \<Rightarrow> out)
      | None \<Rightarrow> (let out = struct_body u opts name in
                 case runes out of r # _ \<Rightarrow> if u_IsDigit u r then ''_'' @ out else out | [] \<Rightarrow> out))"

section \<open>Tags\<close>

definition TagsToString :: "(string \<times> string) list \<Rightarrow> string" where
  "TagsToString tags = Join (sort (map (\<lambda>(key, val). key @ '':'' @ Quote val) tags)) '' ''"

definition is_upper :: "rune \<Rightarrow> bool" where
  "is_upper r = (case r of [c] \<Rightarrow> 65 \<le> byte_of c \<and> byte_of c \<le> 90 | _ \<Rightarrow> False)"

text \<open>Replacing the matches of \<open>camelPattern\<close>: a rune that is not a capital followed by capitals gets an underscore after
  its first byte.\<close>

function camel_breaks :: "rune list \<Rightarrow> string" where
  "camel_breaks [] = []"
| "camel_breaks (r # rs) =
     (if \<not> is_upper r \<and> takeWhile is_upper rs \<noteq> []
      then (let x = r @ concat (takeWhile is_upper rs) in take 1 x @ ''_'' @ drop 1 x) @ camel_breaks (dropWhile is_upper rs)
      else r @ camel_breaks rs)"
  by pat_completeness auto
termination
  by (relation "measure length") (auto simp: less_Suc_eq_le length_dropWhile_le)

definition toSnakeCase :: "unicode \<Rightarrow> string \<Rightarrow> string" where
  "toSnakeCase u s = strings_ToLower u (if CHR ''_'' \<in> set s then s else camel_breaks (runes s))"

definition title_part :: "unicode \<Rightarrow> string \<Rightarrow> string \<Rightarrow> string" where
  "title_part u idStr p = (if p = ''id'' then idStr else strings_Title u p)"

definition toCamelInitCase :: "unicode \<Rightarrow> string \<Rightarrow> bool \<Rightarrow> string" where
  "toCamelInitCase u name initUpper =
     (case split_byte CHR ''_'' name of
        [] \<Rightarrow> []
      | p # ps \<Rightarrow> (if initUpper then title_part u ''ID'' p else p) @ concat (map (title_part u ''ID'') ps))"

definition toCamelCase :: "unicode \<Rightarrow> string \<Rightarrow> string" where
  "toCamelCase u s = toCamelInitCase u s False"

definition toPascalCase :: "unicode \<Rightarrow> string \<Rightarrow> string" where
  "toPascalCase u s = toCamelInitCase u s True"

definition toJsonCamelCase :: "unicode \<Rightarrow> string \<Rightarrow> bool \<Rightarrow> string" where
  "toJsonCamelCase u name idUppercase =
     (case split_byte CHR ''_'' name of
        [] \<Rightarrow> []
      | p # ps \<Rightarrow> p @ concat (map (title_part u (if idUppercase then ''ID'' else ''Id'')) ps))"

definition unsupported_style :: "string \<Rightarrow> error" where
  "unsupported_style style =
     Panic (''unsupported JSON tags case style: '' @ [CHR 0x27] @ style @ [CHR 0x27])"

definition SetCaseStyle :: "unicode \<Rightarrow> string \<Rightarrow> string \<Rightarrow> error + string" where
  "SetCaseStyle u name style =
     (if style = ''camel'' then Inr (toCamelCase u name)
      else if style = ''pascal'' then Inr (toPascalCase u name)
      else if style = ''snake'' then Inr (toSnakeCase u name)
      else Inl (unsupported_style style))"

definition SetJSONCaseStyle :: "unicode \<Rightarrow> string \<Rightarrow> string \<Rightarrow> bool \<Rightarrow> error + string" where
  "SetJSONCaseStyle u name style idUppercase =
     (if style = ''camel'' then Inr (toJsonCamelCase u name idUppercase)
      else if style = ''pascal'' then Inr (toPascalCase u name)
      else if style = ''snake'' then Inr (toSnakeCase u name)
      else Inl (unsupported_style style))"

definition JSONTagName :: "unicode \<Rightarrow> string \<Rightarrow> options \<Rightarrow> error + string" where
  "JSONTagName u name opts =
     (let style = opt_JsonTagsCaseStyle opts in
      if style = [] \<or> style = ''none'' then Inr name else SetJSONCaseStyle u name style (opt_JsonTagsIdUppercase opts))"

text \<open>\<open>toLowerCase\<close> lowers the first byte; a byte that is not ASCII is no rune and becomes the replacement character.\<close>

definition toLowerCase :: "string \<Rightarrow> string" where
  "toLowerCase s =
     (case s of [] \<Rightarrow> []
      | c # cs \<Rightarrow> (if byte_of c < 128 then [lower_byte c] else [CHR 0xEF, CHR 0xBF, CHR 0xBD]) @ cs)"

section \<open>Enum names\<close>

definition enumReplacer :: "rune \<Rightarrow> rune option" where
  "enumReplacer r =
     (if r \<in> {''-'', ''/'', '':'', ''_''} then Some ''_''
      else (case r of [c] \<Rightarrow> if ascii_letter c \<or> ascii_digit c then Some r else None | _ \<Rightarrow> None))"

definition EnumReplace :: "string \<Rightarrow> string" where
  "EnumReplace value = strings_Map enumReplacer value"

definition titleFirst :: "unicode \<Rightarrow> string \<Rightarrow> error + string" where
  "titleFirst u s = (case runes s of [] \<Rightarrow> Inl (Panic ''index out of range'') | r # rs \<Rightarrow> Inr (u_ToUpper u r @ concat rs))"

definition EnumValueName :: "unicode \<Rightarrow> string \<Rightarrow> error + string" where
  "EnumValueName u value =
     and_then (map_ok (titleFirst u) (split_byte CHR ''_'' (EnumReplace value))) (\<lambda>parts. Inr (concat parts))"

section \<open>Columns and parameters\<close>

definition columnName :: "pcolumn \<Rightarrow> nat \<Rightarrow> string" where
  "columnName c pos = (if pc_Name c \<noteq> [] then pc_Name c else ''column_'' @ Itoa (int pos + 1))"

definition argName :: "unicode \<Rightarrow> string \<Rightarrow> string" where
  "argName u name =
     (case split_byte CHR ''_'' name of
        [] \<Rightarrow> []
      | p # ps \<Rightarrow> strings_ToLower u p @ concat (map (title_part u ''ID'') ps))"

definition go_paramName :: "unicode \<Rightarrow> pparameter \<Rightarrow> string" where
  "go_paramName u p =
     (if pc_Name (pp_Column p) \<noteq> [] then argName u (pc_Name (pp_Column p)) else ''dollar_'' @ Itoa (pp_Number p))"

section \<open>Properties of names\<close>

lemma escape_not_reserved: "\<not> IsReserved (escape s)"
proof (cases "IsReserved s")
  case True
  then have "s @ ''_'' \<notin> set reserved_words" by (auto simp: IsReserved_def reserved_words_def)
  with True show ?thesis by (simp add: escape_def IsReserved_def)
qed (simp add: escape_def)

lemma escape_idem: "escape (escape s) = escape s"
  using escape_not_reserved [of s] by (simp add: escape_def)

end
