(* ===== verification/Go_Types.thy ===== *)
theory Go_Types
  imports Go_Names
begin

text \<open>
  The Go type of a column: \<open>sqlite_type.go\<close>, \<open>mysql_type.go\<close>, \<open>duckdb_type.go\<close>, \<open>postgresql_type.go\<close> and \<open>go_type.go\<close> of
  \<open>internal/codegen/golang\<close>.  A \<open>switch\<close> on the type's name is a table of its cases, searched from the top; the tables are
  functions of what the code tests inside a case.
\<close>

section \<open>Switches\<close>

definition switch :: "string \<Rightarrow> (string list \<times> 'a) list \<Rightarrow> 'a option" where
  "switch x cases = map_option snd (find (\<lambda>c. x \<in> set (fst c)) cases)"

lemma switch_Some: "switch x cases = Some v \<Longrightarrow> \<exists>names. (names, v) \<in> set cases \<and> x \<in> set names"
proof -
  assume "switch x cases = Some v"
  then obtain c where c: "find (\<lambda>c. x \<in> set (fst c)) cases = Some c" "snd c = v"
    by (auto simp: switch_def)
  from c(1) have "c \<in> set cases" "x \<in> set (fst c)"
    by (auto simp: find_Some_iff)
  with c(2) show "\<exists>names. (names, v) \<in> set cases \<and> x \<in> set names"
    by (intro exI [of _ "fst c"]) auto
qed

lemma switch_all: "switch x cases = Some v \<Longrightarrow> \<forall>c \<in> set cases. P (snd c) \<Longrightarrow> P v"
  using switch_Some by fastforce

text \<open>The nullable forms of the enum option: a pointer when asked for, by default as the other types.\<close>

definition pointers_for_enums :: "bool \<Rightarrow> options \<Rightarrow> bool \<Rightarrow> bool" where
  "pointers_for_enums allowed opts ptr =
     (case opt_EmitPointersForNullEnumTypes opts of None \<Rightarrow> ptr | Some b \<Rightarrow> allowed \<and> b)"

definition not_null :: "pcolumn \<Rightarrow> bool" where
  "not_null col \<longleftrightarrow> pc_NotNull col \<or> pc_IsArray col"

definition enum_type_name :: "unicode \<Rightarrow> options \<Rightarrow> string \<Rightarrow> pschema \<Rightarrow> penum \<Rightarrow> string" where
  "enum_type_name u opts defaultSchema s e =
     (if ps_Name s = defaultSchema then StructName u (pe_Name e) opts
      else StructName u (ps_Name s @ ''_'' @ pe_Name e) opts)"

section \<open>SQLite\<close>

definition sqlite_cases :: "bool \<Rightarrow> bool \<Rightarrow> (string list \<times> string) list" where
  "sqlite_cases notNull ptr =
     [([''int'', ''integer'', ''tinyint'', ''smallint'', ''mediumint'', ''bigint'', ''unsignedbigint'', ''int2'', ''int8''],
         if notNull then ''int64'' else if ptr then ''*int64'' else ''sql.NullInt64''),
      ([''blob''],
         ''[]byte''),
      ([''real'', ''double'', ''doubleprecision'', ''float''],
         if notNull then ''float64'' else if ptr then ''*float64'' else ''sql.NullFloat64''),
      ([''boolean'', ''bool''],
         if notNull then ''bool'' else if ptr then ''*bool'' else ''sql.NullBool''),
      ([''date'', ''datetime'', ''timestamp''],
         if notNull then ''time.Time'' else if ptr then ''*time.Time'' else ''sql.NullTime''),
      ([''json'', ''jsonb''],
         ''json.RawMessage''),
      ([''any''],
         ''any'')]"

definition sqlite_text :: "string \<Rightarrow> bool" where
  "sqlite_text dt \<longleftrightarrow>
     HasPrefix dt ''character'' \<or> HasPrefix dt ''varchar'' \<or> HasPrefix dt ''varyingcharacter'' \<or> HasPrefix dt ''nchar'' \<or>
     HasPrefix dt ''nativecharacter'' \<or> HasPrefix dt ''nvarchar'' \<or> dt = ''text'' \<or> dt = ''clob''"

definition sqliteType :: "options \<Rightarrow> pcolumn \<Rightarrow> string" where
  "sqliteType opts col =
     (let dt = ToLower (DataType (pc_Type col)); notNull = not_null col; ptr = opt_EmitPointersForNullTypes opts in
      case switch dt (sqlite_cases notNull ptr) of
        Some t \<Rightarrow> t
      | None \<Rightarrow>
          if sqlite_text dt then (if notNull then ''string'' else if ptr then ''*string'' else ''sql.NullString'')
          else if HasPrefix dt ''decimal'' \<or> dt = ''numeric''
          then (if notNull then ''float64'' else if ptr then ''*float64'' else ''sql.NullFloat64'')
          else ''any'')"

section \<open>MySQL\<close>

definition mysql_cases :: "bool \<Rightarrow> bool \<Rightarrow> bool \<Rightarrow> (string list \<times> string) list" where
  "mysql_cases notNull uns length1 =
     [([''varchar'', ''text'', ''char'', ''tinytext'', ''mediumtext'', ''longtext''],
         if notNull then ''string'' else ''sql.NullString''),
      ([''tinyint''],
         if length1 then (if notNull then ''bool'' else ''sql.NullBool'') else if notNull then (if uns then ''uint8''
           else ''int8'') else ''sql.NullInt16''),
      ([''year''],
         if notNull then ''int16'' else ''sql.NullInt16''),
      ([''smallint''],
         if notNull then (if uns then ''uint16'' else ''int16'') else ''sql.NullInt16''),
      ([''int'', ''integer'', ''mediumint''],
         if notNull then (if uns then ''uint32'' else ''int32'') else ''sql.NullInt32''),
      ([''bigint'', ''bigint unsigned'', ''bigint signed''],
         if notNull then (if uns then ''uint64'' else ''int64'') else ''sql.NullInt64''),
      ([''blob'', ''binary'', ''varbinary'', ''tinyblob'', ''mediumblob'', ''longblob''],
         if notNull then ''[]byte'' else ''sql.NullString''),
      ([''double'', ''double precision'', ''real'', ''float''],
         if notNull then ''float64'' else ''sql.NullFloat64''),
      ([''decimal'', ''dec'', ''fixed''],
         if notNull then ''string'' else ''sql.NullString''),
      ([''enum''],
         ''string''),
      ([''date'', ''timestamp'', ''datetime'', ''time''],
         if notNull then ''time.Time'' else ''sql.NullTime''),
      ([''boolean'', ''bool''],
         if notNull then ''bool'' else ''sql.NullBool''),
      ([''json''],
         ''json.RawMessage''),
      ([''any''],
         ''any'')]"

text \<open>The enums of every schema, in the order the nested loops visit them.\<close>

definition all_enums :: "pcatalog \<Rightarrow> (pschema \<times> penum) list" where
  "all_enums cat = concat (map (\<lambda>s. map (Pair s) (ps_Enums s)) (pcat_Schemas cat))"

definition mysqlType :: "unicode \<Rightarrow> prequest \<Rightarrow> options \<Rightarrow> pcolumn \<Rightarrow> string" where
  "mysqlType u req opts col =
     (let columnType = DataType (pc_Type col); notNull = not_null col in
      case switch columnType (mysql_cases notNull (pc_Unsigned col) (pc_Length col = 1)) of
        Some t \<Rightarrow> t
      | None \<Rightarrow>
          (case find (\<lambda>(s, e). pe_Name e = columnType) (all_enums (req_Catalog req)) of
             Some (s, e) \<Rightarrow>
               (let name = enum_type_name u opts (pcat_DefaultSchema (req_Catalog req)) s e
                in if notNull then name else ''Null'' @ name)
           | None \<Rightarrow> ''any''))"

section \<open>Identifiers\<close>

definition parseIdentifierString :: "string \<Rightarrow> error + ident" where
  "parseIdentifierString name =
     (case split_byte CHR ''.'' name of
        [a] \<Rightarrow> Inr \<lparr>id_Catalog = [], id_Schema = [], id_Name = a\<rparr>
      | [a, b] \<Rightarrow> Inr \<lparr>id_Catalog = [], id_Schema = a, id_Name = b\<rparr>
      | [a, b, c] \<Rightarrow> Inr \<lparr>id_Catalog = a, id_Schema = b, id_Name = c\<rparr>
      | _ \<Rightarrow> Inl (PlainErr (''invalid name: '' @ name)))"

definition or_default :: "string \<Rightarrow> ident \<Rightarrow> ident" where
  "or_default defaultSchema rel = (if id_Schema rel = [] then rel\<lparr>id_Schema := defaultSchema\<rparr> else rel)"

section \<open>DuckDB\<close>

definition duckdb_number_cases :: "bool \<Rightarrow> bool \<Rightarrow> (string list \<times> string) list" where
  "duckdb_number_cases notNull ptr =
     [([''boolean'', ''bool'', ''logical''],
         if notNull then ''bool'' else if ptr then ''*bool'' else ''sql.NullBool''),
      ([''tinyint'', ''int1''],
         if notNull then ''int8'' else if ptr then ''*int8'' else ''sql.NullInt16''),
      ([''smallint'', ''int2'', ''int16'', ''short''],
         if notNull then ''int16'' else if ptr then ''*int16'' else ''sql.NullInt16''),
      ([''integer'', ''int'', ''int4'', ''int32'', ''integral'', ''signed''],
         if notNull then ''int32'' else if ptr then ''*int32'' else ''sql.NullInt32''),
      ([''bigint'', ''int8'', ''int64'', ''long'', ''oid''],
         if notNull then ''int64'' else if ptr then ''*int64'' else ''sql.NullInt64''),
      ([''utinyint'', ''uint8''],
         if notNull then ''uint8'' else if ptr then ''*uint8'' else ''sql.Null[uint8]''),
      ([''usmallint'', ''uint16''],
         if notNull then ''uint16'' else if ptr then ''*uint16'' else ''sql.Null[uint16]''),
      ([''uinteger'', ''uint32''],
         if notNull then ''uint32'' else if ptr then ''*uint32'' else ''sql.Null[uint32]''),
      ([''ubigint'', ''uint64''],
         if notNull then ''uint64'' else if ptr then ''*uint64'' else ''sql.Null[uint64]''),
      ([''hugeint'', ''int128'', ''uhugeint'', ''uint128'', ''bignum'', ''varint''],
         ''*big.Int''),
      ([''float'', ''float4'', ''real''],
         if notNull then ''float32'' else if ptr then ''*float32'' else ''sql.Null[float32]''),
      ([''double'', ''float8''],
         if notNull then ''float64'' else if ptr then ''*float64'' else ''sql.NullFloat64'')]"

definition duckdb_value_cases :: "bool \<Rightarrow> bool \<Rightarrow> (string list \<times> string) list" where
  "duckdb_value_cases notNull ptr =
     [([''decimal'', ''dec'', ''numeric''],
         if notNull then ''string'' else if ptr then ''*string'' else ''sql.NullString''),
      ([''varchar'', ''text'', ''string'', ''char'', ''bpchar'', ''nvarchar''],
         if notNull then ''string'' else if ptr then ''*string'' else ''sql.NullString''),
      ([''blob'', ''binary'', ''bytea'', ''varbinary''],
         ''[]byte''),
      ([''date'', ''time'', ''time_ns'', ''time with time zone'', ''timetz'', ''timestamp'', ''datetime'', ''timestamp_us'',
        ''timestamp_s'', ''timestamp_ms'', ''timestamp_ns'', ''timestamp with time zone'', ''timestamptz'', ''timestamptz_ns''],
         if notNull then ''time.Time'' else if ptr then ''*time.Time'' else ''sql.NullTime''),
      ([''interval''],
         if notNull then ''duckdb.Interval'' else if ptr then ''*duckdb.Interval'' else ''sql.Null[duckdb.Interval]''),
      ([''uuid'', ''guid''],
         if notNull then ''uuid.UUID'' else if ptr then ''*uuid.UUID'' else ''uuid.NullUUID''),
      ([''json''],
         ''json.RawMessage''),
      ([''struct'', ''row''],
         if notNull then ''map[string]any'' else if ptr then ''*map[string]any'' else ''sql.Null[map[string]any]''),
      ([''map''],
         if notNull then ''duckdb.Map'' else if ptr then ''*duckdb.Map'' else ''sql.Null[duckdb.Map]''),
      ([''enum''],
         if notNull then ''string'' else if ptr then ''*string'' else ''sql.NullString''),
      ([''any''],
         ''any'')]"

definition duckdbType :: "unicode \<Rightarrow> prequest \<Rightarrow> options \<Rightarrow> pcolumn \<Rightarrow> string" where
  "duckdbType u req opts col =
     (let columnType = DataType (pc_Type col); notNull = not_null col; ptr = opt_EmitPointersForNullTypes opts in
      case switch columnType (duckdb_number_cases notNull ptr @ duckdb_value_cases notNull ptr) of
        Some t \<Rightarrow> t
      | None \<Rightarrow>
          (case parseIdentifierString columnType of
             Inl _ \<Rightarrow> ''any''
           | Inr rel0 \<Rightarrow>
               (let def = pcat_DefaultSchema (req_Catalog req); rel = or_default def rel0 in
                case find (\<lambda>(s, e). id_Name rel = pe_Name e \<and> id_Schema rel = ps_Name s) (all_enums (req_Catalog req)) of
                  Some (s, e) \<Rightarrow>
                    (let name = enum_type_name u opts def s e
                     in if notNull then name
                        else if pointers_for_enums True opts ptr then ''*'' @ name else ''Null'' @ name)
                | None \<Rightarrow> ''any'')))"

text \<open>A slice of values rather than a byte string.\<close>

definition isSlice :: "string \<Rightarrow> bool" where
  "isSlice typ \<longleftrightarrow> HasPrefix typ ''[]'' \<and> typ \<noteq> ''[]byte''"

function slice_leaf :: "string \<Rightarrow> string" where
  "slice_leaf elem = (if isSlice elem then slice_leaf (TrimPrefix elem ''[]'') else elem)"
  by pat_completeness auto
termination
  by (relation "measure length") (auto simp: TrimPrefix_def isSlice_def dest: HasPrefix_length)

definition duckdbScanner :: "string \<Rightarrow> pcolumn option \<Rightarrow> string" where
  "duckdbScanner typ col =
     (if isSlice typ then
        (let elem = TrimPrefix typ ''[]'' in
         if isSlice elem then ''duckdbNested['' @ slice_leaf elem @ '']'' else ''duckdbList'')
      else
        (case col of
           None \<Rightarrow> []
         | Some c \<Rightarrow>
             (let t = ToLower (id_Name (pc_Type c)) in
              if t = ''json'' then ''duckdbJSON''
              else if t \<in> {''decimal'', ''dec'', ''numeric''} then ''duckdbDecimal''
              else if t \<in> {''uuid'', ''guid''} then
                (if typ \<in> {''uuid.UUID'', ''*uuid.UUID'', ''uuid.NullUUID'', ''[]byte''} then [] else ''duckdbUUID'')
              else [])))"

section \<open>PostgreSQL\<close>

definition pg_number_cases :: "bool \<Rightarrow> bool \<Rightarrow> string \<Rightarrow> (string list \<times> string) list" where
  "pg_number_cases notNull ptr d =
     [([''serial'', ''serial4'', ''pg_catalog.serial4''],
         if notNull then ''int32'' else if ptr then ''*int32'' else if d = SQLDriverPGXV5 then ''pgtype.Int4'' else ''sql.NullInt32''),
      ([''bigserial'', ''serial8'', ''pg_catalog.serial8''],
         if notNull then ''int64'' else if ptr then ''*int64'' else if d = SQLDriverPGXV5 then ''pgtype.Int8'' else ''sql.NullInt64''),
      ([''smallserial'', ''serial2'', ''pg_catalog.serial2''],
         if notNull then ''int16'' else if ptr then ''*int16'' else if d = SQLDriverPGXV5 then ''pgtype.Int2'' else ''sql.NullInt16''),
      ([''integer'', ''int'', ''int4'', ''pg_catalog.int4''],
         if notNull then ''int32'' else if ptr then ''*int32'' else if d = SQLDriverPGXV5 then ''pgtype.Int4'' else ''sql.NullInt32''),
      ([''bigint'', ''int8'', ''pg_catalog.int8''],
         if notNull then ''int64'' else if ptr then ''*int64'' else if d = SQLDriverPGXV5 then ''pgtype.Int8'' else ''sql.NullInt64''),
      ([''smallint'', ''int2'', ''pg_catalog.int2''],
         if notNull then ''int16'' else if ptr then ''*int16'' else if d = SQLDriverPGXV5 then ''pgtype.Int2'' else ''sql.NullInt16''),
      ([''float'', ''double precision'', ''float8'', ''pg_catalog.float8''],
         if notNull then ''float64'' else if ptr then ''*float64'' else if d = SQLDriverPGXV5 then ''pgtype.Float8'' else ''sql.NullFloat64''),
      ([''real'', ''float4'', ''pg_catalog.float4''],
         if notNull then ''float32'' else if ptr then ''*float32'' else if d = SQLDriverPGXV5 then ''pgtype.Float4'' else ''sql.NullFloat64''),
      ([''numeric'', ''pg_catalog.numeric'', ''money''],
         if IsPGX d then ''pgtype.Numeric'' else if notNull then ''string'' else if ptr then ''*string'' else ''sql.NullString''),
      ([''boolean'', ''bool'', ''pg_catalog.bool''],
         if notNull then ''bool'' else if ptr then ''*bool'' else if d = SQLDriverPGXV5 then ''pgtype.Bool'' else ''sql.NullBool'')]"

definition pg_value_cases :: "bool \<Rightarrow> bool \<Rightarrow> string \<Rightarrow> (string list \<times> string) list" where
  "pg_value_cases notNull ptr d =
     [([''json'', ''pg_catalog.json''],
         if d = SQLDriverPGXV5 then ''[]byte'' else if d = SQLDriverPGXV4 then ''pgtype.JSON''
           else if d = SQLDriverLibPQ then (if notNull then ''json.RawMessage'' else ''pqtype.NullRawMessage'') else ''any''),
      ([''jsonb'', ''pg_catalog.jsonb''],
         if d = SQLDriverPGXV5 then ''[]byte'' else if d = SQLDriverPGXV4 then ''pgtype.JSONB''
           else if d = SQLDriverLibPQ then (if notNull then ''json.RawMessage'' else ''pqtype.NullRawMessage'') else ''any''),
      ([''bytea'', ''blob'', ''pg_catalog.bytea''],
         ''[]byte''),
      ([''date''],
         if d = SQLDriverPGXV5 then ''pgtype.Date'' else if notNull then ''time.Time'' else if ptr then ''*time.Time'' else ''sql.NullTime''),
      ([''pg_catalog.time'', ''time'', ''time without time zone''],
         if d = SQLDriverPGXV5 then ''pgtype.Time'' else if notNull then ''time.Time'' else if ptr then ''*time.Time'' else ''sql.NullTime''),
      ([''pg_catalog.timetz'', ''timetz'', ''time with time zone''],
         if notNull then ''time.Time'' else if ptr then ''*time.Time'' else ''sql.NullTime''),
      ([''pg_catalog.timestamp'', ''timestamp'', ''timestamp without time zone''],
         if d = SQLDriverPGXV5 then ''pgtype.Timestamp'' else if notNull then ''time.Time'' else if ptr then ''*time.Time'' else ''sql.NullTime''),
      ([''pg_catalog.timestamptz'', ''timestamptz'', ''timestamp with time zone''],
         if d = SQLDriverPGXV5 then ''pgtype.Timestamptz'' else if notNull then ''time.Time'' else if ptr then ''*time.Time'' else ''sql.NullTime''),
      ([''text'', ''pg_catalog.varchar'', ''varchar'', ''character varying'', ''pg_catalog.bpchar'', ''bpchar'', ''character'',
        ''string'', ''citext'', ''name''],
         if notNull then ''string'' else if ptr then ''*string'' else if d = SQLDriverPGXV5 then ''pgtype.Text'' else ''sql.NullString''),
      ([''uuid''],
         if d = SQLDriverPGXV5 then ''pgtype.UUID'' else if notNull then ''uuid.UUID'' else if ptr then ''*uuid.UUID'' else ''uuid.NullUUID'')]"

definition pg_net_cases :: "bool \<Rightarrow> bool \<Rightarrow> string \<Rightarrow> (string list \<times> string) list" where
  "pg_net_cases notNull ptr d =
     [([''inet''],
         if d = SQLDriverPGXV5 then (if notNull then ''netip.Addr'' else ''*netip.Addr'')
           else if d = SQLDriverPGXV4 then ''pgtype.Inet'' else if d = SQLDriverLibPQ then ''pqtype.Inet'' else ''any''),
      ([''cidr''],
         if d = SQLDriverPGXV5 then (if notNull then ''netip.Prefix'' else ''*netip.Prefix'')
           else if d = SQLDriverPGXV4 then ''pgtype.CIDR'' else if d = SQLDriverLibPQ then ''pqtype.CIDR'' else ''any''),
      ([''macaddr'', ''macaddr8''],
         if d = SQLDriverPGXV5 then ''net.HardwareAddr'' else if d = SQLDriverPGXV4 then ''pgtype.Macaddr''
           else if d = SQLDriverLibPQ then ''pqtype.Macaddr'' else ''any''),
      ([''ltree'', ''lquery'', ''ltxtquery''],
         if notNull then ''string'' else if ptr then ''*string'' else if d = SQLDriverPGXV5 then ''pgtype.Text'' else ''sql.NullString''),
      ([''interval'', ''pg_catalog.interval''],
         if d = SQLDriverPGXV5 then ''pgtype.Interval'' else if notNull then ''int64'' else if ptr then ''*int64'' else ''sql.NullInt64''),
      ([''daterange''],
         if d = SQLDriverPGXV4 then ''pgtype.Daterange'' else if d = SQLDriverPGXV5 then ''pgtype.Range[pgtype.Date]'' else ''any''),
      ([''datemultirange''],
         if d = SQLDriverPGXV5 then ''pgtype.Multirange[pgtype.Range[pgtype.Date]]'' else ''any''),
      ([''tsrange''],
         if d = SQLDriverPGXV4 then ''pgtype.Tsrange'' else if d = SQLDriverPGXV5 then ''pgtype.Range[pgtype.Timestamp]'' else ''any''),
      ([''tsmultirange''],
         if d = SQLDriverPGXV5 then ''pgtype.Multirange[pgtype.Range[pgtype.Timestamp]]'' else ''any''),
      ([''tstzrange''],
         if d = SQLDriverPGXV4 then ''pgtype.Tstzrange'' else if d = SQLDriverPGXV5 then ''pgtype.Range[pgtype.Timestamptz]'' else ''any''),
      ([''tstzmultirange''],
         if d = SQLDriverPGXV5 then ''pgtype.Multirange[pgtype.Range[pgtype.Timestamptz]]'' else ''any'')]"

definition pg_range_cases :: "bool \<Rightarrow> bool \<Rightarrow> string \<Rightarrow> (string list \<times> string) list" where
  "pg_range_cases notNull ptr d =
     [([''numrange''],
         if d = SQLDriverPGXV4 then ''pgtype.Numrange'' else if d = SQLDriverPGXV5 then ''pgtype.Range[pgtype.Numeric]'' else ''any''),
      ([''nummultirange''],
         if d = SQLDriverPGXV5 then ''pgtype.Multirange[pgtype.Range[pgtype.Numeric]]'' else ''any''),
      ([''int4range''],
         if d = SQLDriverPGXV4 then ''pgtype.Int4range'' else if d = SQLDriverPGXV5 then ''pgtype.Range[pgtype.Int4]'' else ''any''),
      ([''int4multirange''],
         if d = SQLDriverPGXV5 then ''pgtype.Multirange[pgtype.Range[pgtype.Int4]]'' else ''any''),
      ([''int8range''],
         if d = SQLDriverPGXV4 then ''pgtype.Int8range'' else if d = SQLDriverPGXV5 then ''pgtype.Range[pgtype.Int8]'' else ''any''),
      ([''int8multirange''],
         if d = SQLDriverPGXV5 then ''pgtype.Multirange[pgtype.Range[pgtype.Int8]]'' else ''any''),
      ([''hstore''],
         if IsPGX d then ''pgtype.Hstore'' else ''any''),
      ([''bit'', ''varbit'', ''bit varying'', ''pg_catalog.bit'', ''pg_catalog.varbit''],
         if d = SQLDriverPGXV5 then ''pgtype.Bits'' else if d = SQLDriverPGXV4 then ''pgtype.Varbit'' else ''any''),
      ([''cid''],
         if d = SQLDriverPGXV5 then ''pgtype.Uint32'' else if d = SQLDriverPGXV4 then ''pgtype.CID'' else ''any''),
      ([''oid''],
         if d = SQLDriverPGXV5 then ''pgtype.Uint32'' else if d = SQLDriverPGXV4 then ''pgtype.OID'' else ''any''),
      ([''tid''],
         if IsPGX d then ''pgtype.TID'' else ''any''),
      ([''xid''],
         if d = SQLDriverPGXV5 then ''pgtype.Uint32'' else if d = SQLDriverPGXV4 then ''pgtype.XID'' else ''any''),
      ([''xid8''],
         if d = SQLDriverPGXV5 then ''pgtype.Uint64'' else ''any''),
      ([''box''],
         if IsPGX d then ''pgtype.Box'' else ''any''),
      ([''circle''],
         if IsPGX d then ''pgtype.Circle'' else ''any''),
      ([''line''],
         if IsPGX d then ''pgtype.Line'' else ''any''),
      ([''lseg''],
         if IsPGX d then ''pgtype.Lseg'' else ''any''),
      ([''path''],
         if IsPGX d then ''pgtype.Path'' else ''any''),
      ([''point''],
         if IsPGX d then ''pgtype.Point'' else ''any''),
      ([''polygon''],
         if IsPGX d then ''pgtype.Polygon'' else ''any''),
      ([''vector''],
         if d = SQLDriverPGXV5 then (if ptr then ''*pgvector.Vector'' else ''pgvector.Vector'') else ''any''),
      ([''void''],
         ''any''),
      ([''any''],
         ''any'')]"

definition pg_cases :: "bool \<Rightarrow> bool \<Rightarrow> string \<Rightarrow> (string list \<times> string) list" where
  "pg_cases notNull ptr d =
     pg_number_cases notNull ptr d @ pg_value_cases notNull ptr d @ pg_net_cases notNull ptr d @ pg_range_cases notNull ptr d"

text \<open>The loop over the schemas: the enums of a schema, then its composite types.\<close>

fun pg_user_type :: "unicode \<Rightarrow> options \<Rightarrow> string \<Rightarrow> ident \<Rightarrow> bool \<Rightarrow> bool \<Rightarrow> bool \<Rightarrow> pschema list \<Rightarrow> string option" where
  "pg_user_type u opts def rel notNull ptr ptrEnums [] = None"
| "pg_user_type u opts def rel notNull ptr ptrEnums (s # ss) =
     (if ps_Name s = ''pg_catalog'' \<or> ps_Name s = ''information_schema''
      then pg_user_type u opts def rel notNull ptr ptrEnums ss
      else
        (case find (\<lambda>e. id_Name rel = pe_Name e \<and> id_Schema rel = ps_Name s) (ps_Enums s) of
           Some e \<Rightarrow>
             Some ((if notNull then [] else if ptrEnums then ''*'' else ''Null'') @ enum_type_name u opts def s e)
         | None \<Rightarrow>
             if \<exists>ct \<in> set (ps_CompositeTypes s). id_Name rel = pct_Name ct \<and> id_Schema rel = ps_Name s
             then Some (if notNull then ''string'' else if ptr then ''*string'' else ''sql.NullString'')
             else pg_user_type u opts def rel notNull ptr ptrEnums ss))"

definition postgresType :: "unicode \<Rightarrow> prequest \<Rightarrow> options \<Rightarrow> pcolumn \<Rightarrow> string" where
  "postgresType u req opts col =
     (let columnType = DataType (pc_Type col); notNull = not_null col; d = parseDriver opts;
          ptr = (IsPGX d \<and> opt_EmitPointersForNullTypes opts) in
      case switch columnType (pg_cases notNull ptr d) of
        Some t \<Rightarrow> t
      | None \<Rightarrow>
          (case parseIdentifierString columnType of
             Inl _ \<Rightarrow> ''any''
           | Inr rel \<Rightarrow>
               (let def = pcat_DefaultSchema (req_Catalog req) in
                case pg_user_type u opts def (or_default def rel) notNull ptr
                       (pointers_for_enums (IsPGX d) opts ptr) (pcat_Schemas (req_Catalog req)) of
                  Some t \<Rightarrow> t
                | None \<Rightarrow> ''any'')))"

section \<open>All engines\<close>

definition goInnerType :: "unicode \<Rightarrow> prequest \<Rightarrow> options \<Rightarrow> pcolumn \<Rightarrow> string" where
  "goInnerType u req opts col =
     (case find (\<lambda>ov. sg_TypeName (so_GoType (ov_Shim ov)) \<noteq> [] \<and> MatchesColumn ov col) (opt_Overrides opts) of
        Some ov \<Rightarrow> sg_TypeName (so_GoType (ov_Shim ov))
      | None \<Rightarrow>
          if req_Engine req = ''mysql'' then mysqlType u req opts col
          else if req_Engine req = ''postgresql'' then postgresType u req opts col
          else if req_Engine req = ''sqlite'' then sqliteType opts col
          else if req_Engine req = ''duckdb'' then duckdbType u req opts col
          else ''any'')"

definition col_source_name :: "pcolumn \<Rightarrow> string" where
  "col_source_name col = (if pc_OriginalName col \<noteq> [] then pc_OriginalName col else pc_Name col)"

text \<open>The overrides by column: the first whose patterns match gives the type.\<close>

fun column_override :: "string \<Rightarrow> pcolumn \<Rightarrow> override list \<Rightarrow> error + string option" where
  "column_override defaultSchema col [] = Inr None"
| "column_override defaultSchema col (ov # ovs) =
     (let oride = ov_Shim ov; sameTable = override_Matches ov (pc_Table col) defaultSchema in
      if sg_TypeName (so_GoType oride) = [] \<or> so_Column oride = []
      then column_override defaultSchema col ovs
      else
        and_then (MatchString (so_ColumnName oride) (col_source_name col)) (\<lambda>m.
          if m \<and> sameTable then Inr (Some (sg_TypeName (so_GoType oride)))
          else column_override defaultSchema col ovs))"

definition strings_Repeat :: "string \<Rightarrow> int \<Rightarrow> error + string" where
  "strings_Repeat s n =
     (if n < 0 then Inl (Panic ''strings: negative Repeat count'') else Inr (concat (replicate (nat n) s)))"

definition goType :: "unicode \<Rightarrow> prequest \<Rightarrow> options \<Rightarrow> pcolumn \<Rightarrow> error + string" where
  "goType u req opts col =
     and_then (column_override (pcat_DefaultSchema (req_Catalog req)) col (opt_Overrides opts)) (\<lambda>ov.
       (case ov of
          Some t \<Rightarrow> Inr (if pc_IsSqlcSlice col then ''[]'' @ t else t)
        | None \<Rightarrow>
            (let typ = goInnerType u req opts col in
             if pc_IsSqlcSlice col then Inr (''[]'' @ typ)
             else if pc_IsArray col then and_then (strings_Repeat ''[]'' (pc_ArrayDims col)) (\<lambda>b. Inr (b @ typ))
             else Inr typ)))"

text \<open>\<open>addExtraGoStructTags\<close>: the tags of every matching override, later ones winning.\<close>

fun addExtraGoStructTags :: "prequest \<Rightarrow> pcolumn \<Rightarrow> override list \<Rightarrow> (string \<times> string) list \<Rightarrow> error + (string \<times> string) list" where
  "addExtraGoStructTags req col [] tags = Inr tags"
| "addExtraGoStructTags req col (ov # ovs) tags =
     (let oride = ov_Shim ov; extra = sg_StructTags (so_GoType oride);
          copied = fold (\<lambda>(k, v). AList.update k v) extra tags in
      if MatchesColumn ov col then addExtraGoStructTags req col ovs copied
      else if \<not> override_Matches ov (pc_Table col) (pcat_DefaultSchema (req_Catalog req))
      then addExtraGoStructTags req col ovs tags
      else
        and_then (MatchString (so_ColumnName oride) (col_source_name col)) (\<lambda>m.
          addExtraGoStructTags req col ovs (if m then copied else tags)))"

end
