(* ===== verification/Go_Structs.thy ===== *)
theory Go_Structs
  imports Go_Types "HOL-Library.Multiset"
begin

text \<open>
  Enums and structs: \<open>buildEnums\<close>, \<open>buildStructs\<close>, \<open>newGoEmbed\<close>, \<open>columnsToStruct\<close> and \<open>checkIncompatibleFieldTypes\<close> of
  \<open>internal/codegen/golang/result.go\<close>, \<open>qualify.go\<close>, and \<open>internal/inflection\<close>.  \<open>sort.Slice\<close> is not stable, so the sort
  is an argument, a function with the law \<open>sorts_by\<close>; so is \<open>Singular\<close> of \<open>jinzhu/inflection\<close>.
\<close>

section \<open>Data\<close>

record goConstant =
  k_Name :: string
  k_Type :: string
  k_Value :: string

record goEnum =
  ge_Name :: string
  ge_Comment :: string
  ge_Constants :: "goConstant list"
  ge_NameTags :: "(string \<times> string) list"
  ge_ValidTags :: "(string \<times> string) list"

datatype goField =
  Field (gf_Name: string) (gf_DBName: string) (gf_Type: string) (gf_Tags: "(string \<times> string) list")
    (gf_Comment: string) (gf_Column: "pcolumn option") (gf_EmbedFields: "goField list")

record goStruct =
  gs_Table :: "ident option"
  gs_Name :: string
  gs_Fields :: "goField list"
  gs_Comment :: string
  gs_IsModel :: bool

record goEmbed =
  em_modelType :: string
  em_modelName :: string
  em_fields :: "goField list"

record goColumn =
  gc_id :: int
  gc_Column :: pcolumn
  gc_embed :: "goEmbed option"

fun set_type :: "string \<Rightarrow> goField \<Rightarrow> goField" where
  "set_type t (Field n d _ g c col e) = Field n d t g c col e"

lemma set_type_sels [simp]:
  "gf_Name (set_type t f) = gf_Name f" "gf_Type (set_type t f) = t" "gf_Column (set_type t f) = gf_Column f"
  "gf_DBName (set_type t f) = gf_DBName f" "gf_EmbedFields (set_type t f) = gf_EmbedFields f"
  by (cases f; simp)+

section \<open>Sorting\<close>

definition sorts_by :: "('a \<Rightarrow> string) \<Rightarrow> ('a list \<Rightarrow> 'a list) \<Rightarrow> bool" where
  "sorts_by key srt \<longleftrightarrow> (\<forall>xs. mset (srt xs) = mset xs \<and> sorted (map key (srt xs)))"

lemma sorts_by_sort_key: "sorts_by key (sort_key key)"
  by (simp add: sorts_by_def)

lemma sorts_by_set [simp]: "sorts_by key srt \<Longrightarrow> set (srt xs) = set xs"
  by (metis sorts_by_def set_mset_mset)

lemma sorts_by_length: "sorts_by key srt \<Longrightarrow> length (srt xs) = length xs"
  by (metis sorts_by_def size_mset)

section \<open>Inflection\<close>

definition Singular :: "unicode \<Rightarrow> (string \<Rightarrow> string) \<Rightarrow> string \<Rightarrow> string list \<Rightarrow> string" where
  "Singular u upstream name exclusions =
     (let low = strings_ToLower u name in
      if \<exists>x \<in> set exclusions. EqualFold name x then name
      else if low = ''campus'' then name
      else if low = ''meta'' then name
      else if low = ''calories'' then ''calorie''
      else if low = ''waves'' then ''wave''
      else if low = ''metadata'' then ''metadata''
      else upstream name)"

section \<open>Enums\<close>

definition system_schema :: "string \<Rightarrow> bool" where
  "system_schema n \<longleftrightarrow> n = ''pg_catalog'' \<or> n = ''information_schema''"

definition prefixed :: "string \<Rightarrow> string \<Rightarrow> string \<Rightarrow> string" where
  "prefixed defaultSchema schema name = (if schema = defaultSchema then name else schema @ ''_'' @ name)"

text \<open>The loop over the values of an enum: \<open>i\<close> is the index of the next one and \<open>seen\<close> the names taken.\<close>

fun enum_values :: "nat \<Rightarrow> string set \<Rightarrow> string list \<Rightarrow> string list" where
  "enum_values i seen [] = []"
| "enum_values i seen (v # vs) =
     (let value0 = EnumReplace v;
          value = (if value0 \<in> seen \<or> value0 = [] then ''value_'' @ Itoa (int i) else value0)
      in value # enum_values (i + 1) (insert value seen) vs)"

definition build_enum :: "unicode \<Rightarrow> options \<Rightarrow> string \<Rightarrow> penum \<Rightarrow> error + goEnum" where
  "build_enum u opts enumName e =
     (let nm = StructName u enumName opts;
          consts = map (\<lambda>(value, v). \<lparr>k_Name = StructName u (enumName @ ''_'' @ value) opts, k_Type = nm, k_Value = v\<rparr>)
                     (zip (enum_values 0 {} (pe_Vals e)) (pe_Vals e));
          g = \<lparr>ge_Name = nm, ge_Comment = pe_Comment e, ge_Constants = consts, ge_NameTags = [], ge_ValidTags = []\<rparr> in
      if opt_EmitJsonTags opts then
        and_then (JSONTagName u enumName opts) (\<lambda>a.
          and_then (JSONTagName u ''valid'' opts) (\<lambda>b.
            Inr (g\<lparr>ge_NameTags := [(''json'', a)], ge_ValidTags := [(''json'', b)]\<rparr>)))
      else Inr g)"

definition user_schemas :: "pcatalog \<Rightarrow> pschema list" where
  "user_schemas cat = filter (\<lambda>s. \<not> system_schema (ps_Name s)) (pcat_Schemas cat)"

definition buildEnums ::
  "unicode \<Rightarrow> (goEnum list \<Rightarrow> goEnum list) \<Rightarrow> prequest \<Rightarrow> options \<Rightarrow> error + goEnum list" where
  "buildEnums u srt req opts =
     (let cat = req_Catalog req in
      and_then (map_ok (\<lambda>(s, e). build_enum u opts (prefixed (pcat_DefaultSchema cat) (ps_Name s) (pe_Name e)) e)
                  (concat (map (\<lambda>s. map (Pair s) (ps_Enums s)) (user_schemas cat)))) (\<lambda>enums.
        Inr (if enums \<noteq> [] then srt enums else enums)))"

section \<open>Model structs\<close>

text \<open>The tags of a field: \<open>db\<close> and \<open>json\<close> when asked for, then those of the overrides.\<close>

definition field_tags :: "unicode \<Rightarrow> prequest \<Rightarrow> options \<Rightarrow> string \<Rightarrow> pcolumn \<Rightarrow> error + (string \<times> string) list" where
  "field_tags u req opts tagName col =
     (let tags = (if opt_EmitDbTags opts then [(''db'', tagName)] else []) in
      and_then (if opt_EmitJsonTags opts
                then and_then (JSONTagName u tagName opts) (\<lambda>j. Inr (AList.update ''json'' j tags))
                else Inr tags) (\<lambda>tags.
        addExtraGoStructTags req col (opt_Overrides opts) tags))"

definition model_field :: "unicode \<Rightarrow> prequest \<Rightarrow> options \<Rightarrow> pcolumn \<Rightarrow> error + goField" where
  "model_field u req opts c =
     and_then (field_tags u req opts (pc_Name c) c) (\<lambda>tags.
       and_then (goType u req opts c) (\<lambda>t.
         Inr (Field (StructName u (pc_Name c) opts) [] t tags (pc_Comment c) (Some c) [])))"

definition build_struct ::
  "unicode \<Rightarrow> (string \<Rightarrow> string) \<Rightarrow> prequest \<Rightarrow> options \<Rightarrow> pschema \<Rightarrow> ptable \<Rightarrow> error + goStruct" where
  "build_struct u upstream req opts s t =
     (let tableName = prefixed (pcat_DefaultSchema (req_Catalog req)) (ps_Name s) (id_Name (pt_Rel t));
          structName = (if opt_EmitExactTableNames opts then tableName
                        else Singular u upstream tableName (opt_InflectionExcludeTableNames opts)) in
      and_then (map_ok (model_field u req opts) (pt_Columns t)) (\<lambda>fs.
        Inr \<lparr>gs_Table = Some \<lparr>id_Catalog = [], id_Schema = ps_Name s, id_Name = id_Name (pt_Rel t)\<rparr>,
             gs_Name = StructName u structName opts, gs_Fields = fs, gs_Comment = pt_Comment t, gs_IsModel = True\<rparr>))"

definition buildStructs ::
  "unicode \<Rightarrow> (string \<Rightarrow> string) \<Rightarrow> (goStruct list \<Rightarrow> goStruct list) \<Rightarrow> prequest \<Rightarrow> options \<Rightarrow> error + goStruct list" where
  "buildStructs u upstream srt req opts =
     and_then (map_ok (\<lambda>(s, t). build_struct u upstream req opts s t)
                 (concat (map (\<lambda>s. map (Pair s) (ps_Tables s)) (user_schemas (req_Catalog req))))) (\<lambda>structs.
       Inr (if structs \<noteq> [] then srt structs else structs))"

section \<open>Qualified model types\<close>

text \<open>The loop that both functions share: the slice and pointer prefix of a type and the rest.\<close>

function split_prefix :: "string \<Rightarrow> string \<times> string" where
  "split_prefix rest =
     (if HasPrefix rest ''[]'' then (let (p, r) = split_prefix (drop 2 rest) in (''[]'' @ p, r))
      else if HasPrefix rest ''*'' then (let (p, r) = split_prefix (drop 1 rest) in (''*'' @ p, r))
      else ([], rest))"
  by pat_completeness auto
termination
  by (relation "measure length") (auto dest: HasPrefix_length)

declare split_prefix.simps [simp del]

definition stripQualifier :: "string \<Rightarrow> string \<Rightarrow> string" where
  "stripQualifier t qualifier =
     (if qualifier = [] then t
      else (let (p, rest) = split_prefix t in
            if HasPrefix rest qualifier then p @ drop (length qualifier) rest else t))"

definition buildModelTypeSet :: "goEnum list \<Rightarrow> goStruct list \<Rightarrow> string set" where
  "buildModelTypeSet enums structs =
     set (map ge_Name enums) \<union> set (map (\<lambda>e. ''Null'' @ ge_Name e) enums) \<union> set (map gs_Name (filter gs_IsModel structs))"

definition qualifyType :: "string \<Rightarrow> string set \<Rightarrow> string \<Rightarrow> string" where
  "qualifyType t models qualifier =
     (if qualifier = [] \<or> t = [] \<or> models = {} then t
      else (let (p, rest) = split_prefix t in if rest \<in> models then p @ qualifier @ rest else t))"

section \<open>Structs of parameters and rows\<close>

fun find_embed :: "ident \<Rightarrow> string \<Rightarrow> goStruct list \<Rightarrow> error + goEmbed option" where
  "find_embed e schema [] = Inr None"
| "find_embed e schema (s # ss) =
     (case gs_Table s of
        None \<Rightarrow> Inl (Panic ''nil pointer dereference'')
      | Some t \<Rightarrow>
          if id_Catalog e \<noteq> id_Catalog t \<or> id_Name e \<noteq> id_Name t \<or> schema \<noteq> id_Schema t then find_embed e schema ss
          else Inr (Some \<lparr>em_modelType = gs_Name s, em_modelName = gs_Name s, em_fields = gs_Fields s\<rparr>))"

definition newGoEmbed :: "ident option \<Rightarrow> goStruct list \<Rightarrow> string \<Rightarrow> error + goEmbed option" where
  "newGoEmbed emb structs defaultSchema =
     (case emb of
        None \<Rightarrow> Inr None
      | Some e \<Rightarrow> find_embed e (if id_Schema e \<noteq> [] then id_Schema e else defaultSchema) structs)"

text \<open>
  One turn of the loop of \<open>columnsToStruct\<close>.  \<open>seen\<close> holds the positions of the fields made from each base name, \<open>suffixes\<close> the
  suffix given to each column id.
\<close>

type_synonym seen = "string \<Rightarrow> nat list"

definition column_base :: "unicode \<Rightarrow> nat \<Rightarrow> goColumn \<Rightarrow> string" where
  "column_base u i c = (case gc_embed c of None \<Rightarrow> columnName (gc_Column c) i | Some e \<Rightarrow> em_modelName e)"

definition column_tag :: "unicode \<Rightarrow> nat \<Rightarrow> goColumn \<Rightarrow> error + string" where
  "column_tag u i c =
     (case gc_embed c of None \<Rightarrow> Inr (columnName (gc_Column c) i) | Some e \<Rightarrow> SetCaseStyle u (em_modelName e) ''snake'')"

definition column_suffix :: "bool \<Rightarrow> goColumn \<Rightarrow> string \<Rightarrow> seen \<Rightarrow> (int \<rightharpoonup> nat) \<Rightarrow> nat" where
  "column_suffix useID c base seen suffixes =
     (case suffixes (gc_id c) of
        Some s \<Rightarrow> if useID then s
                  else if seen base \<noteq> [] \<and> \<not> pc_IsNamedParam (gc_Column c) then length (seen base) + 1 else 0
      | None \<Rightarrow> if seen base \<noteq> [] \<and> \<not> pc_IsNamedParam (gc_Column c) then length (seen base) + 1 else 0)"

definition with_suffix :: "string \<Rightarrow> nat \<Rightarrow> string" where
  "with_suffix n k = (if k > 0 then n @ ''_'' @ Itoa (int k) else n)"

definition column_field ::
  "unicode \<Rightarrow> prequest \<Rightarrow> options \<Rightarrow> string set \<Rightarrow> string \<Rightarrow> nat \<Rightarrow> goColumn \<Rightarrow> nat \<Rightarrow> error + goField" where
  "column_field u req opts models qualifier i c suffix =
     (let colName = column_base u i c; name = with_suffix (StructName u colName opts) suffix in
      and_then (column_tag u i c) (\<lambda>tagName.
        and_then (field_tags u req opts (with_suffix tagName suffix) (gc_Column c)) (\<lambda>tags.
          case gc_embed c of
            None \<Rightarrow> and_then (goType u req opts (gc_Column c)) (\<lambda>t.
                      Inr (Field name colName (qualifyType t models qualifier) tags [] (Some (gc_Column c)) []))
          | Some e \<Rightarrow> Inr (Field name colName (qualifyType (em_modelType e) models qualifier) tags []
                             (Some (gc_Column c)) (em_fields e)))))"

fun struct_fields ::
  "unicode \<Rightarrow> prequest \<Rightarrow> options \<Rightarrow> bool \<Rightarrow> string set \<Rightarrow> string \<Rightarrow> nat \<Rightarrow> goColumn list \<Rightarrow> seen \<Rightarrow> (int \<rightharpoonup> nat) \<Rightarrow>
   error + goField list \<times> seen" where
  "struct_fields u req opts useID models qualifier i [] seen suffixes = Inr ([], seen)"
| "struct_fields u req opts useID models qualifier i (c # cs) seen suffixes =
     (let base = StructName u (column_base u i c) opts; suffix = column_suffix useID c base seen suffixes in
      and_then (column_field u req opts models qualifier i c suffix) (\<lambda>f.
        and_then (struct_fields u req opts useID models qualifier (i + 1) cs (seen(base := seen base @ [i]))
                    (suffixes(gc_id c \<mapsto> suffix))) (\<lambda>(fs, seen').
          Inr (f # fs, seen'))))"

text \<open>A field of unknown type takes the type of the last other field with its name.\<close>

definition adopt_type :: "seen \<Rightarrow> goField list \<Rightarrow> nat \<Rightarrow> goField list" where
  "adopt_type seen fs i =
     (let field = fs ! i; js = seen (gf_Name field) in
      if length js > 1 \<and> gf_Type field = ''any''
      then fs[i := set_type (fold (\<lambda>j t. if i = j then t
                                            else if gf_Type (fs ! j) \<noteq> t then gf_Type (fs ! j) else t)
                                   js (gf_Type field)) field]
      else fs)"

definition adopt_types :: "seen \<Rightarrow> goField list \<Rightarrow> goField list" where
  "adopt_types seen fs = fold (\<lambda>i fs. adopt_type seen fs i) [0..<length fs] fs"

fun incompatible :: "(string \<rightharpoonup> string) \<Rightarrow> goField list \<Rightarrow> error option" where
  "incompatible types [] = None"
| "incompatible types (f # fs) =
     (case types (gf_Name f) of
        None \<Rightarrow> incompatible (types(gf_Name f \<mapsto> gf_Type f)) fs
      | Some t \<Rightarrow>
          if gf_Type f \<noteq> t
          then Some (PlainErr (''named param '' @ gf_Name f @ '' has incompatible types: '' @ gf_Type f @ '', '' @ t))
          else incompatible types fs)"

definition checkIncompatibleFieldTypes :: "goField list \<Rightarrow> error option" where
  "checkIncompatibleFieldTypes fs = incompatible Map.empty fs"

definition columnsToStruct ::
  "unicode \<Rightarrow> prequest \<Rightarrow> options \<Rightarrow> string \<Rightarrow> goColumn list \<Rightarrow> bool \<Rightarrow> string set \<Rightarrow> string \<Rightarrow> error + goStruct" where
  "columnsToStruct u req opts name columns useID models qualifier =
     and_then (struct_fields u req opts useID models qualifier 0 columns (\<lambda>_. []) Map.empty) (\<lambda>(fs0, seen).
       (let fs = adopt_types seen fs0 in
        case checkIncompatibleFieldTypes fs of
          Some e \<Rightarrow> Inl e
        | None \<Rightarrow>
            Inr \<lparr>gs_Table = None, gs_Name = name, gs_Fields = fs, gs_Comment = [], gs_IsModel = False\<rparr>))"

end
