(* ===== verification/Go_Queries.thy ===== *)
theory Go_Queries
  imports Go_Structs
begin

text \<open>
  Queries of the Go generator: \<open>query.go\<close>, \<open>batch_duckdb.go\<close> and \<open>buildQueries\<close> of \<open>result.go\<close>.  A dereference of a nil pointer and a
  value with no type are a \<open>Panic\<close>.
\<close>

section \<open>Values\<close>

record queryValue =
  v_Emit :: bool
  v_EmitPointer :: bool
  v_Name :: string
  v_DBName :: string
  v_Struct :: "goStruct option"
  v_Typ :: string
  v_SQLDriver :: string
  v_ModelQualifier :: string
  v_Column :: "pcolumn option"

definition zero_value :: queryValue where
  "zero_value =
     \<lparr>v_Emit = False, v_EmitPointer = False, v_Name = [], v_DBName = [], v_Struct = None, v_Typ = [], v_SQLDriver = [],
      v_ModelQualifier = [], v_Column = None\<rparr>"

definition EmitStruct :: "queryValue \<Rightarrow> bool" where
  "EmitStruct v = v_Emit v"

definition IsStruct :: "queryValue \<Rightarrow> bool" where
  "IsStruct v \<longleftrightarrow> v_Struct v \<noteq> None"

definition IsPointer :: "queryValue \<Rightarrow> bool" where
  "IsPointer v \<longleftrightarrow> v_EmitPointer v \<and> v_Struct v \<noteq> None"

definition value_isEmpty :: "queryValue \<Rightarrow> bool" where
  "value_isEmpty v \<longleftrightarrow> v_Typ v = [] \<and> v_Name v = [] \<and> v_Struct v = None"

definition value_Type :: "queryValue \<Rightarrow> error + string" where
  "value_Type v =
     (if v_Typ v \<noteq> [] then Inr (v_Typ v)
      else
        (case v_Struct v of
           Some s \<Rightarrow>
             Inr (if gs_IsModel s \<and> v_ModelQualifier v \<noteq> [] then v_ModelQualifier v @ gs_Name s else gs_Name s)
         | None \<Rightarrow> Inl (Panic (''no type for QueryValue: '' @ v_Name v))))"

definition DefineType :: "queryValue \<Rightarrow> error + string" where
  "DefineType v = and_then (value_Type v) (\<lambda>t. Inr (if IsPointer v then ''*'' @ t else t))"

definition ReturnName :: "queryValue \<Rightarrow> string" where
  "ReturnName v = (if IsPointer v then ''&'' @ escape (v_Name v) else escape (v_Name v))"

text \<open>The arguments of a query method, as pairs of a name and a type.\<close>

definition Pairs :: "queryValue \<Rightarrow> error + (string \<times> string) list" where
  "Pairs v =
     (if value_isEmpty v then Inr []
      else
        (case v_Struct v of
           Some s \<Rightarrow>
             if \<not> EmitStruct v then Inr (map (\<lambda>f. (escape (toLowerCase (gf_Name f)), gf_Type f)) (gs_Fields s))
             else and_then (DefineType v) (\<lambda>t. Inr [(escape (v_Name v), t)])
         | None \<Rightarrow> and_then (DefineType v) (\<lambda>t. Inr [(escape (v_Name v), t)])))"

definition Pair_text :: "queryValue \<Rightarrow> error + string" where
  "Pair_text v = and_then (Pairs v) (\<lambda>ps. Inr (Join (map (\<lambda>(n, t). n @ '' '' @ t) ps) '',''))"

definition SlicePair :: "queryValue \<Rightarrow> error + string" where
  "SlicePair v =
     (if value_isEmpty v then Inr [] else and_then (DefineType v) (\<lambda>t. Inr (v_Name v @ '' []'' @ t)))"

fun unique_fields :: "string set \<Rightarrow> goField list \<Rightarrow> goField list" where
  "unique_fields seen [] = []"
| "unique_fields seen (f # fs) =
     (if gf_Name f \<in> seen then unique_fields seen fs else f # unique_fields (insert (gf_Name f) seen) fs)"

definition nil_pointer :: error where
  "nil_pointer = Panic ''invalid memory address or nil pointer dereference''"

definition UniqueFields :: "queryValue \<Rightarrow> error + goField list" where
  "UniqueFields v = (case v_Struct v of None \<Rightarrow> Inl nil_pointer | Some s \<Rightarrow> Inr (unique_fields {} (gs_Fields s)))"

definition call :: "string \<Rightarrow> string \<Rightarrow> string" where
  "call f x = f @ ''('' @ x @ '')''"

definition value_param :: "queryValue \<Rightarrow> string \<Rightarrow> pcolumn option \<Rightarrow> string \<Rightarrow> string" where
  "value_param v typ col name =
     (if (case col of Some c \<Rightarrow> pc_IsSqlcSlice c | None \<Rightarrow> False) then name
      else if IsDuckDB (v_SQLDriver v) then
        (if typ \<in> {''json.RawMessage'', ''[]byte'', ''*big.Int''} then call ''duckdbParam'' name
         else if typ \<in> {''*duckdb.Interval'', ''*map[string]any'', ''*duckdb.Map''} then call ''duckdbPtrParam'' name
         else if typ \<in> {''sql.Null[duckdb.Interval]'', ''sql.Null[map[string]any]'', ''sql.Null[duckdb.Map]''}
         then call ''duckdbNullParam'' name
         else if isSlice typ then call ''duckdbListParam'' name
         else name)
      else if isSlice typ \<and> \<not> IsPGX (v_SQLDriver v) then call ''pq.Array'' name
      else name)"

definition value_scan :: "queryValue \<Rightarrow> string \<Rightarrow> pcolumn option \<Rightarrow> string \<Rightarrow> string" where
  "value_scan v typ col name =
     (if IsDuckDB (v_SQLDriver v) then
        (let helper = duckdbScanner typ col in if helper \<noteq> [] then call helper (''&'' @ name) else ''&'' @ name)
      else if isSlice typ \<and> \<not> IsPGX (v_SQLDriver v) then call ''pq.Array'' (''&'' @ name)
      else ''&'' @ name)"

definition VariableForField :: "queryValue \<Rightarrow> goField \<Rightarrow> string" where
  "VariableForField v f =
     (if \<not> IsStruct v then v_Name v
      else if \<not> EmitStruct v then toLowerCase (gf_Name f)
      else v_Name v @ ''.'' @ gf_Name f)"

text \<open>Up to three items stay on a line.\<close>

definition item_list :: "string list \<Rightarrow> string" where
  "item_list out =
     (if length out \<le> 3 then Join out '','' else [CHR 0x0A] @ Join (out @ [[]]) ('','' @ [CHR 0x0A]))"

definition param_items :: "queryValue \<Rightarrow> string list" where
  "param_items v =
     (case v_Struct v of
        None \<Rightarrow> [value_param v (v_Typ v) (v_Column v) (escape (v_Name v))]
      | Some s \<Rightarrow>
          map (\<lambda>f. value_param v (gf_Type f) (gf_Column f) (escape (VariableForField v f))) (gs_Fields s))"

definition Params :: "queryValue \<Rightarrow> string" where
  "Params v = (if value_isEmpty v then [] else item_list (param_items v))"

definition ColumnNames :: "queryValue \<Rightarrow> string list" where
  "ColumnNames v = (case v_Struct v of None \<Rightarrow> [v_DBName v] | Some s \<Rightarrow> map gf_DBName (gs_Fields s))"

definition source_column :: "goField \<Rightarrow> string" where
  "source_column f =
     (case gf_Column f of
        Some c \<Rightarrow> if pc_OriginalName c \<noteq> [] then pc_OriginalName c else gf_DBName f
      | None \<Rightarrow> gf_DBName f)"

definition ColumnNamesAsGoSlice :: "queryValue \<Rightarrow> string" where
  "ColumnNamesAsGoSlice v =
     (case v_Struct v of
        None \<Rightarrow> ''[]string{'' @ Quote (v_DBName v) @ ''}''
      | Some s \<Rightarrow> ''[]string{'' @ Join (map (\<lambda>f. Quote (source_column f)) (gs_Fields s)) '', '' @ ''}'')"

definition HasSqlcSlice :: "goField \<Rightarrow> error + bool" where
  "HasSqlcSlice f = (case gf_Column f of None \<Rightarrow> Inl nil_pointer | Some c \<Rightarrow> Inr (pc_IsSqlcSlice c))"

text \<open>A loop that returns true at the first element for which \<open>p\<close> holds.\<close>

fun any_ok :: "('a \<Rightarrow> 'e + bool) \<Rightarrow> 'a list \<Rightarrow> 'e + bool" where
  "any_ok p [] = Inr False"
| "any_ok p (x # xs) = and_then (p x) (\<lambda>b. if b then Inr True else any_ok p xs)"

lemma any_ok_total: "\<forall>x \<in> set xs. p x = Inr (q x) \<Longrightarrow> any_ok p xs = Inr (\<exists>x \<in> set xs. q x)"
  by (induction xs) auto

definition HasSqlcSlices :: "queryValue \<Rightarrow> error + bool" where
  "HasSqlcSlices v =
     (case v_Struct v of
        None \<Rightarrow> Inr (case v_Column v of None \<Rightarrow> False | Some c \<Rightarrow> pc_IsSqlcSlice c)
      | Some s \<Rightarrow> any_ok HasSqlcSlice (gs_Fields s))"

text \<open>The destinations of \<open>Scan\<close>; an embedded struct is scanned field by field.\<close>

definition scan_items :: "queryValue \<Rightarrow> string list" where
  "scan_items v =
     (case v_Struct v of
        None \<Rightarrow> [value_scan v (v_Typ v) (v_Column v) (v_Name v)]
      | Some s \<Rightarrow>
          concat (map (\<lambda>f.
            if gf_EmbedFields f \<noteq> []
            then map (\<lambda>e. value_scan v (gf_Type e) (gf_Column e) (v_Name v @ ''.'' @ gf_Name f @ ''.'' @ gf_Name e))
                   (gf_EmbedFields f)
            else [value_scan v (gf_Type f) (gf_Column f) (v_Name v @ ''.'' @ gf_Name f)]) (gs_Fields s)))"

definition value_Scan :: "queryValue \<Rightarrow> string" where
  "value_Scan v = item_list (scan_items v)"

definition CopyFromMySQLFields :: "queryValue \<Rightarrow> goField list" where
  "CopyFromMySQLFields v =
     (case v_Struct v of Some s \<Rightarrow> gs_Fields s | None \<Rightarrow> [Field (v_Name v) (v_DBName v) (v_Typ v) [] [] None []])"

section \<open>Queries\<close>

record batchField =
  bf_Name :: string
  bf_Key :: string
  bf_Type :: string
  bf_Value :: string
  bf_List :: string

record goQuery =
  gq_Cmd :: string
  gq_Comments :: "string list"
  gq_MethodName :: string
  gq_FieldName :: string
  gq_ConstantName :: string
  gq_SQL :: string
  gq_SourceName :: string
  gq_Ret :: queryValue
  gq_Arg :: queryValue
  gq_Table :: "ident option"
  gq_Batch :: "pbatch option"
  gq_BatchFields :: "batchField list"

definition BatchJSON :: "goQuery \<Rightarrow> bool" where
  "BatchJSON q = (case gq_Batch q of None \<Rightarrow> False | Some b \<Rightarrow> pb_Mode b = ''json'' \<or> pb_Mode b = ''json_each'')"

definition BatchEach :: "goQuery \<Rightarrow> bool" where
  "BatchEach q = (case gq_Batch q of None \<Rightarrow> False | Some b \<Rightarrow> pb_Mode b = ''json_each'')"

definition BatchLists :: "goQuery \<Rightarrow> string" where
  "BatchLists q =
     Join (map (\<lambda>f. ''len('' @ bf_List f @ '')'') (filter (\<lambda>f. bf_List f \<noteq> []) (gq_BatchFields q))) '', ''"

text \<open>\<open>MethodName[:1]\<close> is one byte, and a byte that is not ASCII is no rune: lowering writes the replacement character.\<close>

definition BatchRowType :: "goQuery \<Rightarrow> error + string" where
  "BatchRowType q =
     (if gq_MethodName q = [] then Inl (Panic ''slice bounds out of range'')
      else Inr (toLowerCase (gq_MethodName q) @ ''BatchRow''))"

definition hasRetType :: "goQuery \<Rightarrow> bool" where
  "hasRetType q \<longleftrightarrow> gq_Cmd q \<in> {'':one'', '':many'', '':batchmany'', '':batchone''} \<and> \<not> value_isEmpty (gq_Ret q)"

definition table_parts :: "ident \<Rightarrow> string list" where
  "table_parts t = filter (\<lambda>p. p \<noteq> []) [id_Catalog t, id_Schema t, id_Name t]"

definition TableIdentifierAsGoSlice :: "goQuery \<Rightarrow> error + string" where
  "TableIdentifierAsGoSlice q =
     (case gq_Table q of
        None \<Rightarrow> Inl nil_pointer
      | Some t \<Rightarrow> Inr (''[]string{'' @ Join (map Quote (table_parts t)) '', '' @ ''}''))"

definition TableIdentifierForMySQL :: "goQuery \<Rightarrow> error + string" where
  "TableIdentifierForMySQL q =
     (case gq_Table q of
        None \<Rightarrow> Inl nil_pointer
      | Some t \<Rightarrow> Inr (Join (map (\<lambda>p. CHR 0x60 # p @ [CHR 0x60]) (table_parts t)) ''.''))"

section \<open>DuckDB batches\<close>

definition isFloatType :: "string \<Rightarrow> bool" where
  "isFloatType dbType \<longleftrightarrow>
     ToLower dbType \<in> {''float'', ''float4'', ''real'', ''double'', ''float8'', ''double precision''}"

definition time_helper :: "string \<Rightarrow> string" where
  "time_helper dbType =
     (let db = ToLower dbType in
      if db = ''date'' then ''duckdbBatchDate''
      else if db = ''timestamp'' then ''duckdbBatchTimestamp''
      else if db = ''timestamp with time zone'' \<or> db = ''timestamptz'' then ''duckdbBatchTimestamptz''
      else [])"

definition batch_err :: "int \<Rightarrow> string \<Rightarrow> error" where
  "batch_err number msg = PlainErr (''batch: parameter '' @ Itoa number @ '': '' @ msg)"

definition unnestField :: "int \<Rightarrow> string \<Rightarrow> string \<Rightarrow> string \<Rightarrow> error + batchField" where
  "unnestField number typ expr dbType =
     (let f = \<lparr>bf_Name = ''P'' @ Itoa number, bf_Key = ''p'' @ Itoa number, bf_Type = ''any'',
               bf_Value = ''duckdbBatchAt('' @ expr @ '', sqlcI)'', bf_List = expr\<rparr>;
          elem = TrimPrefix typ ''[]''; helper = time_helper dbType;
          at_with = (\<lambda>h. f\<lparr>bf_Value := ''duckdbBatchAtWith('' @ expr @ '', sqlcI, '' @ h @ '')''\<rparr>) in
      if \<not> HasPrefix typ ''[]'' then Inl (batch_err number (''unnest of '' @ typ @ '', which is not a slice''))
      else if isFloatType dbType then Inr (at_with (''duckdbBatchFloat['' @ elem @ '']''))
      else if helper \<noteq> [] \<and> elem = ''time.Time'' then Inr (at_with helper)
      else if helper \<noteq> [] \<and> elem = ''*time.Time'' then Inr (at_with (helper @ ''Ptr''))
      else if helper \<noteq> [] then Inl (batch_err number (typ @ '' is not a list of times''))
      else if EqualFold dbType ''json'' \<and> (elem = ''json.RawMessage'' \<or> elem = ''[]byte'')
      then Inr (at_with (''duckdbBatchJSON['' @ elem @ '']''))
      else if HasPrefix elem ''sql.Null'' then Inl (batch_err number (''unnest of '' @ typ @ '' is not supported''))
      else Inr f)"

definition batch_field :: "int \<Rightarrow> string \<Rightarrow> string \<Rightarrow> string \<Rightarrow> bool \<Rightarrow> error + batchField" where
  "batch_field number typ expr dbType array =
     (let f = \<lparr>bf_Name = ''P'' @ Itoa number, bf_Key = ''p'' @ Itoa number, bf_Type = typ, bf_Value = expr, bf_List = []\<rparr>;
          helper = (if array then [] else time_helper dbType);
          as_text = (\<lambda>h. f\<lparr>bf_Type := ''*string'', bf_Value := call h expr\<rparr>) in
      if \<not> array \<and> isFloatType dbType then Inr (f\<lparr>bf_Type := ''any'', bf_Value := call ''duckdbBatchFloat'' expr\<rparr>)
      else if helper \<noteq> [] then
        (if typ = ''time.Time'' then Inr (as_text helper)
         else if typ = ''*time.Time'' then Inr (as_text (helper @ ''Ptr''))
         else if typ = ''sql.NullTime'' then Inr (as_text (helper @ ''Null''))
         else Inl (batch_err number (typ @ '' is not a time type'')))
      else if EqualFold dbType ''json'' \<and> (typ = ''json.RawMessage'' \<or> typ = ''[]byte'') then Inr (as_text ''duckdbBatchJSON'')
      else if HasPrefix typ ''sql.Null'' \<or> HasPrefix typ ''Null''
      then Inr (f\<lparr>bf_Type := ''any'', bf_Value := call ''duckdbBatchValuer'' expr\<rparr>)
      else Inr f)"

text \<open>The parameters with their Go type and expression, then one field for each.\<close>

definition batch_params :: "goQuery \<Rightarrow> pquery \<Rightarrow> error + (pparameter \<times> string \<times> string) list" where
  "batch_params gq query =
     (case v_Struct (gq_Arg gq) of
        None \<Rightarrow>
          (case pq_Params query of
             [p] \<Rightarrow> Inr [(p, v_Typ (gq_Arg gq), escape (v_Name (gq_Arg gq)))]
           | ps \<Rightarrow> Inl (PlainErr (''batch: '' @ Itoa (int (length ps)) @ '' parameters without a params struct'')))
      | Some s \<Rightarrow>
          if length (gs_Fields s) \<noteq> length (pq_Params query)
          then Inl (PlainErr (''batch: '' @ Itoa (int (length (gs_Fields s))) @ '' fields for '' @
                     Itoa (int (length (pq_Params query))) @ '' parameters''))
          else Inr (map2 (\<lambda>f p. (p, gf_Type f, VariableForField (gq_Arg gq) f)) (gs_Fields s) (pq_Params query)))"

definition batchFields :: "goQuery \<Rightarrow> pquery \<Rightarrow> error + batchField list" where
  "batchFields gq query =
     (let unnested = (case pq_Batch query of None \<Rightarrow> [] | Some b \<Rightarrow> pb_UnnestParams b) in
      and_then (batch_params gq query) (\<lambda>params.
        map_ok (\<lambda>(p, typ, expr).
          (let dbType = id_Name (pc_Type (pp_Column p)) in
           if pp_Number p \<in> set unnested then unnestField (pp_Number p) typ expr dbType
           else batch_field (pp_Number p) typ expr dbType (pc_IsArray (pp_Column p)))) params))"

section \<open>Building the queries\<close>

definition putOutColumns :: "pquery \<Rightarrow> bool" where
  "putOutColumns query \<longleftrightarrow> pq_Cmd query \<in> {'':batchmany'', '':batchone'', '':many'', '':one''}"

text \<open>The loop that renames the return variable of a \<open>:one\<close> query until no parameter has its name.\<close>

function free_name :: "string list \<Rightarrow> string \<Rightarrow> string" where
  "free_name argNames retName =
     (if retName \<in> set argNames then free_name argNames (retName @ ''_2'') else retName)"
  by pat_completeness auto
termination
proof (relation "measure (\<lambda>(ns, n). Suc (Max (length ` set ns)) - length n)")
  fix ns :: "string list" and n
  assume "n \<in> set ns"
  then have "length n \<le> Max (length ` set ns)" by simp
  then show "((ns, n @ ''_2''), (ns, n)) \<in> measure (\<lambda>(ns, n). Suc (Max (length ` set ns)) - length n)" by simp
qed simp

declare free_name.simps [simp del]

definition query_comments :: "options \<Rightarrow> pquery \<Rightarrow> error + string list" where
  "query_comments opts query =
     (if opt_EmitSqlAsComment opts then
        (let cs = (if pq_Comments query = [] then [pq_Name query] else pq_Comments query);
             (lines, err) = scan_lines (pq_Text query) in
         case err of None \<Rightarrow> Inr (cs @ '' '' # map (\<lambda>l. ''  '' @ l) lines) | Some e \<Rightarrow> Inl e)
      else Inr (pq_Comments query))"

definition simple_value :: "unicode \<Rightarrow> prequest \<Rightarrow> options \<Rightarrow> string set \<Rightarrow> pcolumn \<Rightarrow> string \<Rightarrow> string \<Rightarrow> error + queryValue" where
  "simple_value u req opts models c name dbname =
     and_then (goType u req opts c) (\<lambda>t.
       Inr (zero_value\<lparr>v_Name := name, v_DBName := dbname, v_Typ := qualifyType t models (ModelsTypeQualifier opts),
              v_SQLDriver := parseDriver opts, v_ModelQualifier := ModelsTypeQualifier opts, v_Column := Some c\<rparr>))"

definition struct_value :: "options \<Rightarrow> bool \<Rightarrow> string \<Rightarrow> goStruct \<Rightarrow> bool \<Rightarrow> queryValue" where
  "struct_value opts emit name s ptr =
     zero_value\<lparr>v_Emit := emit, v_Name := name, v_Struct := Some s, v_SQLDriver := parseDriver opts, v_EmitPointer := ptr,
       v_ModelQualifier := ModelsTypeQualifier opts\<rparr>"

definition query_arg :: "unicode \<Rightarrow> prequest \<Rightarrow> options \<Rightarrow> string set \<Rightarrow> int \<Rightarrow> pquery \<Rightarrow> error + queryValue" where
  "query_arg u req opts models qpl query =
     (let params = pq_Params query in
      if length params = 1 \<and> qpl \<noteq> 0 then
        (let p = hd params in
         simple_value u req opts models (pp_Column p) (escape (go_paramName u p)) (pc_Name (pp_Column p)))
      else if params \<noteq> [] then
        and_then (columnsToStruct u req opts (pq_Name query @ ''Params'')
                    (map (\<lambda>p. \<lparr>gc_id = pp_Number p, gc_Column = pp_Column p, gc_embed = None\<rparr>) params)
                    False models (ModelsTypeQualifier opts)) (\<lambda>s.
          Inr (struct_value opts (\<not> (int (length params) \<le> qpl \<and> pq_Cmd query \<noteq> '':copyfrom'')) ''arg'' s
                 (opt_EmitParamsStructPointers opts)))
      else Inr zero_value)"

text \<open>The first model whose fields are those of the row, by name, type and table.\<close>

definition same_column :: "unicode \<Rightarrow> prequest \<Rightarrow> options \<Rightarrow> goStruct \<Rightarrow> nat \<Rightarrow> goField \<Rightarrow> pcolumn \<Rightarrow> error + bool" where
  "same_column u req opts s i f c =
     and_then (goType u req opts c) (\<lambda>t.
       case gs_Table s of
         None \<Rightarrow> (if pc_Table c = None then Inr False else Inl nil_pointer)
       | Some tbl \<Rightarrow>
           Inr (gf_Name f = StructName u (columnName c i) opts \<and> gf_Type f = t \<and>
                SameTableName (pc_Table c) tbl (pcat_DefaultSchema (req_Catalog req))))"

fun find_model :: "unicode \<Rightarrow> prequest \<Rightarrow> options \<Rightarrow> pcolumn list \<Rightarrow> goStruct list \<Rightarrow> error + goStruct option" where
  "find_model u req opts cols [] = Inr None"
| "find_model u req opts cols (s # ss) =
     (if length (gs_Fields s) \<noteq> length cols then find_model u req opts cols ss
      else
        and_then (map_ok (\<lambda>(i, f, c). same_column u req opts s i f c) (enumerate 0 (zip (gs_Fields s) cols))) (\<lambda>sames.
          if \<forall>b \<in> set sames. b then Inr (Some s) else find_model u req opts cols ss))"

definition row_columns :: "goStruct list \<Rightarrow> string \<Rightarrow> pcolumn list \<Rightarrow> error + goColumn list" where
  "row_columns structs defaultSchema cols =
     map_ok (\<lambda>(i, c). and_then (newGoEmbed (pc_EmbedTable c) structs defaultSchema) (\<lambda>e.
        Inr \<lparr>gc_id = int i, gc_Column = c, gc_embed = e\<rparr>)) (enumerate 0 cols)"

definition row_name :: "pquery \<Rightarrow> pcolumn \<Rightarrow> queryValue \<Rightarrow> error + string" where
  "row_name query c arg =
     (let retName = escape (map (\<lambda>b. if b = CHR ''$'' then CHR ''_'' else b) (columnName c 0)) in
      if pq_Cmd query = '':one''
      then and_then (Pairs arg) (\<lambda>ps. Inr (free_name (map fst ps) retName))
      else Inr retName)"

definition query_ret ::
  "unicode \<Rightarrow> prequest \<Rightarrow> options \<Rightarrow> string set \<Rightarrow> goStruct list \<Rightarrow> pquery \<Rightarrow> queryValue \<Rightarrow> error + queryValue" where
  "query_ret u req opts models structs query arg =
     (let cols = pq_Columns query; def = pcat_DefaultSchema (req_Catalog req) in
      if length cols = 1 \<and> pc_EmbedTable (hd cols) = None then
        (let c = hd cols in
         and_then (row_name query c arg) (\<lambda>retName.
           simple_value u req opts models c retName
             (map (\<lambda>b. if b = CHR ''$'' then CHR ''_'' else b) (columnName c 0))))
      else if putOutColumns query then
        and_then (find_model u req opts cols structs) (\<lambda>m.
          (case m of
             Some s \<Rightarrow> Inr (struct_value opts False ''i'' s (opt_EmitResultStructPointers opts))
           | None \<Rightarrow>
               and_then (row_columns structs def cols) (\<lambda>columns.
                 and_then (columnsToStruct u req opts (pq_Name query @ ''Row'') columns True models
                             (ModelsTypeQualifier opts)) (\<lambda>s.
                   Inr (struct_value opts True ''i'' s (opt_EmitResultStructPointers opts))))))
      else Inr zero_value)"

definition query_batch :: "options \<Rightarrow> pquery \<Rightarrow> goQuery \<Rightarrow> error + goQuery" where
  "query_batch opts query gq =
     (if pq_Batch query \<noteq> None \<and> IsDuckDB (parseDriver opts) then
        (let gq' = gq\<lparr>gq_Batch := pq_Batch query\<rparr> in
         if BatchJSON gq' then
           (case batchFields gq' query of
              Inl (PlainErr e) \<Rightarrow> Inl (PlainErr (pq_Name query @ '': '' @ e))
            | Inl e \<Rightarrow> Inl e
            | Inr fs \<Rightarrow> Inr (gq'\<lparr>gq_BatchFields := fs\<rparr>))
         else Inr gq')
      else Inr gq)"

definition build_query ::
  "unicode \<Rightarrow> prequest \<Rightarrow> options \<Rightarrow> string set \<Rightarrow> goStruct list \<Rightarrow> pquery \<Rightarrow> error + goQuery" where
  "build_query u req opts models structs query =
     and_then (query_comments opts query) (\<lambda>comments.
       (case opt_QueryParameterLimit opts of
          None \<Rightarrow> Inl nil_pointer
        | Some qpl \<Rightarrow>
            and_then (query_arg u req opts models qpl query) (\<lambda>arg.
              and_then (query_ret u req opts models structs query arg) (\<lambda>ret.
                query_batch opts query
                  \<lparr>gq_Cmd = pq_Cmd query, gq_Comments = comments, gq_MethodName = pq_Name query,
                   gq_FieldName = LowerTitle u (pq_Name query) @ ''Stmt'',
                   gq_ConstantName = (if opt_EmitExportedQueries opts then strings_Title u (pq_Name query)
                                      else escape (LowerTitle u (pq_Name query))),
                   gq_SQL = pq_Text query, gq_SourceName = pq_Filename query, gq_Ret = ret, gq_Arg = arg,
                   gq_Table = pq_InsertIntoTable query, gq_Batch = None, gq_BatchFields = []\<rparr>))))"

definition buildQueries ::
  "unicode \<Rightarrow> (goQuery list \<Rightarrow> goQuery list) \<Rightarrow> prequest \<Rightarrow> options \<Rightarrow> goEnum list \<Rightarrow> goStruct list \<Rightarrow> error + goQuery list" where
  "buildQueries u srt req opts enums structs =
     and_then (map_ok (build_query u req opts (buildModelTypeSet enums structs) structs)
                 (filter (\<lambda>q. pq_Name q \<noteq> [] \<and> pq_Cmd q \<noteq> []) (req_Queries req))) (\<lambda>qs. Inr (srt qs))"

end
