(* ===== verification/Go_Imports.thy ===== *)
theory Go_Imports
  imports Go_Queries
begin

text \<open>
  The imports of the generated files: \<open>internal/codegen/golang/imports.go\<close>.  The sets the code keeps as maps are lists without
  duplicates, in the order of insertion; \<open>srt\<close> is \<open>sort.Slice\<close> by path.  A query value with no type makes the functions
  panic, so what asks for types returns a result.
\<close>

section \<open>Import specifications\<close>

record importSpec =
  is_ID :: string
  is_Path :: string

type_synonym fileImports = "importSpec list \<times> importSpec list"

definition spec_String :: "importSpec \<Rightarrow> string" where
  "spec_String s = (if is_ID s \<noteq> [] then is_ID s @ '' '' @ Quote (is_Path s) else Quote (is_Path s))"

definition path_spec :: "string \<Rightarrow> importSpec" where
  "path_spec p = \<lparr>is_ID = [], is_Path = p\<rparr>"

fun merge_specs :: "string set \<Rightarrow> importSpec list \<Rightarrow> importSpec list" where
  "merge_specs seen [] = []"
| "merge_specs seen (s # ss) =
     (if is_Path s \<in> seen then merge_specs seen ss else s # merge_specs (insert (is_Path s) seen) ss)"

definition mergeImports :: "fileImports list \<Rightarrow> importSpec list list" where
  "mergeImports imps =
     (case imps of
        [(std, dep)] \<Rightarrow> [std, dep]
      | _ \<Rightarrow> [merge_specs {} (concat (map fst imps)), merge_specs {} (concat (map snd imps))])"

section \<open>Types in use\<close>

definition trimSliceAndPointerPrefix :: "string \<Rightarrow> string" where
  "trimSliceAndPointerPrefix v = TrimPrefix (TrimPrefix v ''[]'') ''*''"

definition hasPrefixIgnoringSliceAndPointerPrefix :: "string \<Rightarrow> string \<Rightarrow> bool" where
  "hasPrefixIgnoringSliceAndPointerPrefix s p =
     (let trimmedS = trimSliceAndPointerPrefix s; trimmedPrefix = trimSliceAndPointerPrefix p in
      if HasPrefix trimmedS trimmedPrefix then True
      else if HasPrefix trimmedS ''sql.Null[''
      then HasPrefix (TrimSuffix (drop (length ''sql.Null['') trimmedS) '']'') trimmedPrefix
      else False)"

record importer =
  i_Options :: options
  i_Queries :: "goQuery list"
  i_Enums :: "goEnum list"
  i_Structs :: "goStruct list"

definition usesType :: "importer \<Rightarrow> string \<Rightarrow> error + bool" where
  "usesType i typ =
     Inr (\<exists>s \<in> set (i_Structs i). \<exists>f \<in> set (gs_Fields s). hasPrefixIgnoringSliceAndPointerPrefix (gf_Type f) typ)"

definition usesCopyFrom :: "goQuery list \<Rightarrow> bool" where
  "usesCopyFrom qs \<longleftrightarrow> (\<exists>q \<in> set qs. gq_Cmd q = '':copyfrom'')"

definition usesBatch :: "goQuery list \<Rightarrow> bool" where
  "usesBatch qs \<longleftrightarrow> (\<exists>q \<in> set qs. gq_Cmd q \<in> {'':batchexec'', '':batchmany'', '':batchone''})"

section \<open>Common imports\<close>

definition stdlibTypes :: "(string \<times> string) list" where
  "stdlibTypes =
     [(''json.RawMessage'', ''encoding/json''), (''time.Time'', ''time''), (''net.IP'', ''net''),
      (''net.HardwareAddr'', ''net''), (''netip.Addr'', ''net/netip''), (''netip.Prefix'', ''net/netip''),
      (''big.Int'', ''math/big'')]"

definition pqtypeTypes :: "string list" where
  "pqtypeTypes = [''pqtype.CIDR'', ''pqtype.Inet'', ''pqtype.Macaddr'', ''pqtype.NullRawMessage'']"

text \<open>What a step adds when a test holds.\<close>

definition add_when :: "error + bool \<Rightarrow> 'a \<Rightarrow> 'a list \<Rightarrow> error + 'a list" where
  "add_when test x xs = and_then test (\<lambda>b. Inr (if b then List.insert x xs else xs))"

fun add_all :: "((error + bool) \<times> 'a) list \<Rightarrow> 'a list \<Rightarrow> error + 'a list" where
  "add_all [] xs = Inr xs"
| "add_all ((test, x) # rest) xs = and_then (add_when test x xs) (add_all rest)"

text \<open>A test that runs only when the first one holds.\<close>

definition also_when :: "error + bool \<Rightarrow> bool \<Rightarrow> error + bool" where
  "also_when test b = and_then test (\<lambda>a. Inr (a \<and> b))"

definition custom_type :: "override \<Rightarrow> bool" where
  "custom_type ov \<longleftrightarrow> \<not> sg_BasicType (so_GoType (ov_Shim ov)) \<and> sg_TypeName (so_GoType (ov_Shim ov)) \<noteq> []"

definition overridden :: "options \<Rightarrow> string \<Rightarrow> bool" where
  "overridden opts t \<longleftrightarrow>
     (\<exists>ov \<in> set (opt_Overrides opts). custom_type ov \<and> sg_TypeName (so_GoType (ov_Shim ov)) = t)"

definition exec_result :: "goQuery list \<Rightarrow> bool" where
  "exec_result qs \<longleftrightarrow> (\<exists>q \<in> set qs. gq_Cmd q = '':execresult'')"

definition std_imports :: "options \<Rightarrow> goQuery list \<Rightarrow> (string \<Rightarrow> error + bool) \<Rightarrow> error + string list" where
  "std_imports opts qs uses =
     (let d = parseDriver opts in
      add_all ((uses ''sql.Null'', ''database/sql'') #
               (Inr (exec_result qs \<and> \<not> IsPGX d), ''database/sql'') #
               map (\<lambda>(typeName, p). (uses typeName, p)) stdlibTypes) [])"

text \<open>The import of a package whose type an override may replace, and the imports of the overrides themselves: a path that is
  in \<open>std\<close> already is imported again only under a name of its own.\<close>

definition override_specs :: "options \<Rightarrow> (string \<Rightarrow> error + bool) \<Rightarrow> string list \<Rightarrow> ((error + bool) \<times> importSpec) list" where
  "override_specs opts uses std =
     map (\<lambda>ov. let g = so_GoType (ov_Shim ov) in
                (if sg_ImportPath g \<in> set std \<and> sg_Package g = [] then Inr False else uses (sg_TypeName g),
                 \<lparr>is_ID = sg_Package g, is_Path = sg_ImportPath g\<rparr>))
       (filter custom_type (opt_Overrides opts))"

definition pkg_imports ::
  "options \<Rightarrow> goQuery list \<Rightarrow> (string \<Rightarrow> error + bool) \<Rightarrow> string list \<Rightarrow> error + importSpec list" where
  "pkg_imports opts qs uses std =
     (let d = parseDriver opts; dep = (\<lambda>t p. (also_when (uses t) (\<not> overridden opts t), path_spec p)) in
      add_all
        ([(Inr (exec_result qs \<and> d = SQLDriverPGXV4), path_spec ''github.com/jackc/pgconn''),
          (Inr (exec_result qs \<and> d = SQLDriverPGXV5), path_spec ''github.com/jackc/pgx/v5/pgconn''),
          (uses ''pgtype.'',
           path_spec (if d = SQLDriverPGXV5 then ''github.com/jackc/pgx/v5/pgtype'' else ''github.com/jackc/pgtype'')),
          (any_ok uses pqtypeTypes, path_spec ''github.com/sqlc-dev/pqtype''),
          dep ''pq.NullTime'' ''github.com/lib/pq'',
          dep ''uuid.UUID'' ''github.com/google/uuid'',
          dep ''uuid.NullUUID'' ''github.com/google/uuid'',
          dep ''pgvector.Vector'' ''github.com/pgvector/pgvector-go'',
          (also_when (uses ''duckdb.'') (IsDuckDB d), path_spec SQLDriverDuckDB)] @
         override_specs opts uses std @
         (if ModelsAreExternal opts
          then [(uses (ModelsTypeQualifier opts), \<lparr>is_ID = ModelsImportAlias, is_Path = opt_OutputModelsImport opts\<rparr>)]
          else [])) [])"

definition buildImports ::
  "options \<Rightarrow> goQuery list \<Rightarrow> (string \<Rightarrow> error + bool) \<Rightarrow> error + string list \<times> importSpec list" where
  "buildImports opts qs uses =
     and_then (std_imports opts qs uses) (\<lambda>std.
       and_then (pkg_imports opts qs uses std) (\<lambda>pkg. Inr (std, pkg)))"

section \<open>The imports of each file\<close>

type_synonym sorter = "importSpec list \<Rightarrow> importSpec list"

definition sortedImports :: "sorter \<Rightarrow> string list \<Rightarrow> importSpec list \<Rightarrow> fileImports" where
  "sortedImports srt std pkg = (srt (map path_spec std), srt pkg)"

definition dbImports :: "sorter \<Rightarrow> importer \<Rightarrow> fileImports" where
  "dbImports srt i =
     (let d = parseDriver (i_Options i) in
      if d = SQLDriverPGXV4
      then (srt [path_spec ''context''], srt [path_spec ''github.com/jackc/pgconn'', path_spec ''github.com/jackc/pgx/v4''])
      else if d = SQLDriverPGXV5
      then (srt [path_spec ''context''],
            srt [path_spec ''github.com/jackc/pgx/v5/pgconn'', path_spec ''github.com/jackc/pgx/v5''])
      else (srt ([path_spec ''context'', path_spec ''database/sql''] @
                 (if opt_EmitPreparedQueries (i_Options i) then [path_spec ''fmt''] else [])), srt []))"

definition has_type :: "string \<Rightarrow> string \<Rightarrow> bool" where
  "has_type name t = hasPrefixIgnoringSliceAndPointerPrefix t name"

definition pairs_use :: "string \<Rightarrow> queryValue \<Rightarrow> error + bool" where
  "pairs_use name v = and_then (Pairs v) (\<lambda>ps. Inr (\<exists>p \<in> set ps. has_type name (snd p)))"

definition or_else :: "error + bool \<Rightarrow> error + bool \<Rightarrow> error + bool" where
  "or_else a b = and_then a (\<lambda>x. if x then Inr True else b)"

definition emitted_use :: "string \<Rightarrow> queryValue \<Rightarrow> error + bool" where
  "emitted_use name v =
     (if EmitStruct v
      then (case v_Struct v of None \<Rightarrow> Inl nil_pointer | Some s \<Rightarrow> Inr (\<exists>f \<in> set (gs_Fields s). has_type name (gf_Type f)))
      else Inr False)"

definition type_uses :: "string \<Rightarrow> queryValue \<Rightarrow> error + bool" where
  "type_uses name v = and_then (value_Type v) (\<lambda>t. Inr (has_type name t))"

definition interfaceImports :: "sorter \<Rightarrow> importer \<Rightarrow> error + fileImports" where
  "interfaceImports srt i =
     and_then (buildImports (i_Options i) (i_Queries i) (\<lambda>name.
         any_ok (\<lambda>q. if hasRetType q \<and> usesBatch [q] then Inr False
                      else or_else (if hasRetType q then type_uses name (gq_Ret q) else Inr False)
                             (pairs_use name (gq_Arg q))) (i_Queries i))) (\<lambda>(std, pkg).
       Inr (sortedImports srt (List.insert ''context'' std) pkg))"

definition modelImports :: "sorter \<Rightarrow> importer \<Rightarrow> error + fileImports" where
  "modelImports srt i =
     and_then (buildImports (i_Options i) [] (usesType i)) (\<lambda>(std, pkg).
       Inr (sortedImports srt
              (if i_Enums i \<noteq> [] then List.insert ''database/sql/driver'' (List.insert ''fmt'' std) else std) pkg))"

text \<open>What a query file or the batch file uses of a query: the row, its struct, and the arguments.\<close>

definition query_uses :: "string \<Rightarrow> goQuery \<Rightarrow> error + bool" where
  "query_uses name q =
     or_else (if hasRetType q then or_else (emitted_use name (gq_Ret q)) (type_uses name (gq_Ret q)) else Inr False)
       (or_else (emitted_use name (gq_Arg q)) (pairs_use name (gq_Arg q)))"

definition slice_scan_ret :: "goQuery \<Rightarrow> error + bool" where
  "slice_scan_ret q =
     (if hasRetType q then
        (case v_Struct (gq_Ret q) of
           Some s \<Rightarrow> Inr (\<exists>f \<in> set (gs_Fields s). isSlice (gf_Type f) \<or> (\<exists>e \<in> set (gf_EmbedFields f). isSlice (gf_Type e)))
         | None \<Rightarrow> and_then (value_Type (gq_Ret q)) (\<lambda>t. Inr (isSlice t)))
      else Inr False)"

definition slice_scan_arg :: "goQuery \<Rightarrow> error + bool" where
  "slice_scan_arg q =
     (let v = gq_Arg q in
      if value_isEmpty v then Inr False
      else
        (case v_Struct v of
           Some s \<Rightarrow>
             any_ok (\<lambda>f. if isSlice (gf_Type f) then and_then (HasSqlcSlice f) (\<lambda>b. Inr (\<not> b)) else Inr False) (gs_Fields s)
         | None \<Rightarrow>
             and_then (value_Type v) (\<lambda>t.
               if isSlice t then and_then (HasSqlcSlices v) (\<lambda>b. Inr (\<not> b)) else Inr False)))"

definition queryImports :: "sorter \<Rightarrow> importer \<Rightarrow> string \<Rightarrow> error + fileImports" where
  "queryImports srt i filename =
     (let gq = filter (\<lambda>q. \<not> usesBatch [q] \<and> gq_SourceName q = filename) (i_Queries i);
          d = parseDriver (i_Options i) in
      and_then (buildImports (i_Options i) gq (\<lambda>name. any_ok (query_uses name) gq)) (\<lambda>(std, pkg).
        and_then (add_all
            [(Inr (\<exists>q \<in> set gq. gq_Cmd q \<noteq> '':copyfrom''), ''context''),
             (also_when (any_ok (\<lambda>q. HasSqlcSlices (gq_Arg q)) gq) (\<not> IsPGX d), ''strings''),
             (Inr (opt_WrapErrors (i_Options i)), ''fmt'')] std) (\<lambda>std.
          and_then (add_when (also_when (any_ok (\<lambda>q. or_else (slice_scan_ret q) (slice_scan_arg q)) gq)
                                (\<not> IsPGX d \<and> \<not> IsDuckDB d)) (path_spec ''github.com/lib/pq'') pkg) (\<lambda>pkg.
            Inr (sortedImports srt std pkg)))))"

definition copyfromImports :: "sorter \<Rightarrow> importer \<Rightarrow> error + fileImports" where
  "copyfromImports srt i =
     (let qs = filter (\<lambda>q. gq_Cmd q = '':copyfrom'') (i_Queries i);
          mysql = (opt_SqlDriver (i_Options i) = SQLDriverGoSQLDriverMySQL) in
      and_then (buildImports (i_Options i) qs (\<lambda>name. any_ok (\<lambda>q.
          or_else (if hasRetType q then and_then (value_Type (gq_Ret q)) (\<lambda>t. Inr (HasPrefix t name)) else Inr False)
            (if \<not> value_isEmpty (gq_Arg q) then and_then (value_Type (gq_Arg q)) (\<lambda>t. Inr (HasPrefix t name))
             else Inr False)) qs)) (\<lambda>(std, pkg).
        Inr (sortedImports srt
               (fold List.insert (''context'' # (if mysql then [''io'', ''fmt'', ''sync/atomic''] else [])) std)
               (fold List.insert
                  (if mysql then [path_spec ''github.com/go-sql-driver/mysql'', path_spec ''github.com/hexon/mysqltsv'']
                   else []) pkg))))"

definition batchImports :: "sorter \<Rightarrow> importer \<Rightarrow> error + fileImports" where
  "batchImports srt i =
     (let qs = filter (\<lambda>q. usesBatch [q]) (i_Queries i); d = parseDriver (i_Options i) in
      and_then (buildImports (i_Options i) qs (\<lambda>name. any_ok (\<lambda>q.
          or_else (query_uses name q) (Inr (\<exists>f \<in> set (gq_BatchFields q). has_type name (bf_Type f)))) qs)) (\<lambda>(std, pkg).
        Inr (sortedImports srt (fold List.insert [''context'', ''errors''] std)
               (if d = SQLDriverPGXV4 then List.insert (path_spec ''github.com/jackc/pgx/v4'') pkg
                else if d = SQLDriverPGXV5 then List.insert (path_spec ''github.com/jackc/pgx/v5'') pkg
                else pkg))))"

definition or_name :: "string \<Rightarrow> string \<Rightarrow> string" where
  "or_name n d = (if n \<noteq> [] then n else d)"

definition Imports :: "sorter \<Rightarrow> importer \<Rightarrow> string \<Rightarrow> error + importSpec list list" where
  "Imports srt i filename =
     (let o' = i_Options i; merge = (\<lambda>r. and_then r (\<lambda>f. Inr (mergeImports [f]))) in
      if filename = or_name (opt_OutputDbFileName o') ''db.go'' then merge (Inr (dbImports srt i))
      else if filename = or_name (opt_OutputModelsFileName o') ''models.go'' then merge (modelImports srt i)
      else if filename = or_name (opt_OutputQuerierFileName o') ''querier.go'' then merge (interfaceImports srt i)
      else if filename = or_name (opt_OutputCopyfromFileName o') ''copyfrom.go'' then merge (copyfromImports srt i)
      else if filename = or_name (opt_OutputBatchFileName o') ''batch.go'' then merge (batchImports srt i)
      else merge (queryImports srt i filename))"

definition HasImports :: "sorter \<Rightarrow> importer \<Rightarrow> string \<Rightarrow> error + bool" where
  "HasImports srt i filename =
     and_then (Imports srt i filename) (\<lambda>imports. Inr (imports ! 0 \<noteq> [] \<or> imports ! 1 \<noteq> []))"

definition replaceConflictedArg :: "unicode \<Rightarrow> importSpec list list \<Rightarrow> goQuery list \<Rightarrow> goQuery list" where
  "replaceConflictedArg u imports qs =
     (let m = set (map (\<lambda>s. last (split_byte CHR ''/'' (is_Path s))) (concat imports)) in
      map (\<lambda>q. if v_Name (gq_Arg q) \<in> m
                then q\<lparr>gq_Arg := (gq_Arg q)\<lparr>v_Name := toCamelCase u (''arg_'' @ v_Name (gq_Arg q))\<rparr>\<rparr>
                else q) qs)"

end
