(* ===== verification/Go_Gen.thy ===== *)
theory Go_Gen
  imports Go_Imports
begin

text \<open>
  The Go generator: \<open>internal/codegen/golang/gen.go\<close>.  Executing a template and formatting its output is the argument
  \<open>render\<close>, a function of the context, the imports and the template's name: the templates are text files.  A map of Go is
  an association list, and the order in which the code ranges over a map is the argument \<open>ord\<close>.
\<close>

section \<open>The template context\<close>

record tmplCtx =
  t_Package :: string
  t_ModelsPackage :: string
  t_SQLDriver :: string
  t_Enums :: "goEnum list"
  t_Structs :: "goStruct list"
  t_GoQueries :: "goQuery list"
  t_SourceName :: string
  t_EmitPreparedQueries :: bool
  t_EmitInterface :: bool
  t_EmitMethodsWithDBArgument :: bool
  t_UsesCopyFrom :: bool
  t_UsesBatch :: bool
  t_WrapErrors :: bool

definition OutputQuery :: "tmplCtx \<Rightarrow> string \<Rightarrow> bool" where
  "OutputQuery t sourceName \<longleftrightarrow> t_SourceName t = sourceName"

definition codegenDbarg :: "tmplCtx \<Rightarrow> string" where
  "codegenDbarg t = (if t_EmitMethodsWithDBArgument t then ''db DBTX, '' else [])"

definition codegenQueryMethod :: "tmplCtx \<Rightarrow> goQuery \<Rightarrow> string" where
  "codegenQueryMethod t q =
     (let db = (if t_EmitMethodsWithDBArgument t then ''db'' else ''q.db'') in
      if gq_Cmd q = '':one'' then (if t_EmitPreparedQueries t then ''q.queryRow'' else db @ ''.QueryRowContext'')
      else if gq_Cmd q = '':many'' then (if t_EmitPreparedQueries t then ''q.query'' else db @ ''.QueryContext'')
      else if t_EmitPreparedQueries t then ''q.exec''
      else db @ ''.ExecContext'')"

definition codegenQueryRetval :: "tmplCtx \<Rightarrow> goQuery \<Rightarrow> error + string" where
  "codegenQueryRetval t q =
     (let c = gq_Cmd q in
      if c = '':one'' then Inr ''row :=''
      else if c = '':many'' then Inr ''rows, err :=''
      else if c = '':exec'' then Inr ''_, err :=''
      else if c = '':execrows'' \<or> c = '':execlastid'' then Inr ''result, err :=''
      else if c = '':execresult'' then Inr (if t_WrapErrors t then ''result, err :='' else ''return'')
      else Inl (PlainErr (''unhandled q.Cmd case '' @ Quote c)))"

section \<open>Validation\<close>

definition enum_type_names :: "goEnum list \<Rightarrow> string set" where
  "enum_type_names enums = set (map ge_Name enums) \<union> set (map (\<lambda>e. ''Null'' @ ge_Name e) enums)"

definition validate :: "options \<Rightarrow> goEnum list \<Rightarrow> goStruct list \<Rightarrow> goQuery list \<Rightarrow> error option" where
  "validate opts enums structs queries =
     (let enumNames = enum_type_names enums; structNames = set (map gs_Name structs) in
      case find (\<lambda>s. gs_Name s \<in> enumNames) structs of
        Some s \<Rightarrow> Some (PlainErr (''struct name conflicts with enum name: '' @ gs_Name s))
      | None \<Rightarrow>
          if \<not> opt_EmitExportedQueries opts then None
          else
            (case find (\<lambda>q. gq_ConstantName q \<in> enumNames \<union> structNames) queries of
               None \<Rightarrow> None
             | Some q \<Rightarrow>
                 Some (PlainErr ((if gq_ConstantName q \<in> enumNames then ''query constant name conflicts with enum name: ''
                                  else ''query constant name conflicts with struct name: '') @ gq_ConstantName q))))"

definition checkNoTimesForMySQLCopyFrom :: "goQuery list \<Rightarrow> error option" where
  "checkNoTimesForMySQLCopyFrom queries =
     (if \<exists>q \<in> set queries. gq_Cmd q = '':copyfrom'' \<and>
            (\<exists>f \<in> set (CopyFromMySQLFields (gq_Arg q)). gf_Type f = ''time.Time'')
      then Some (PlainErr ''values with a timezone are not yet supported'') else None)"

section \<open>Unused types\<close>

text \<open>The types a value keeps: its own and those of its fields.\<close>

definition keep_type :: "string \<Rightarrow> string \<Rightarrow> string list" where
  "keep_type qualifier t = [t, stripQualifier t qualifier]"

definition struct_field_types :: "queryValue \<Rightarrow> goField list" where
  "struct_field_types v = (case v_Struct v of None \<Rightarrow> [] | Some s \<Rightarrow> gs_Fields s)"

definition arg_types :: "goQuery \<Rightarrow> error + string list" where
  "arg_types q =
     (if value_isEmpty (gq_Arg q) then Inr []
      else and_then (value_Type (gq_Arg q)) (\<lambda>t. Inr (t # map gf_Type (struct_field_types (gq_Arg q)))))"

definition ret_types :: "goQuery \<Rightarrow> error + string list" where
  "ret_types q =
     (if hasRetType q then
        and_then (value_Type (gq_Ret q)) (\<lambda>t.
          Inr (t # concat (map (\<lambda>f. TrimPrefix (gf_Type f) ''[]'' # map gf_Type (gf_EmbedFields f))
                             (struct_field_types (gq_Ret q)))))
      else Inr [])"

definition keep_types :: "string \<Rightarrow> goQuery list \<Rightarrow> error + string set" where
  "keep_types qualifier queries =
     and_then (map_ok (\<lambda>q. and_then (arg_types q) (\<lambda>a. and_then (ret_types q) (\<lambda>r. Inr (a @ r)))) queries) (\<lambda>tss.
       Inr (set (concat (map (keep_type qualifier) (concat tss)))))"

definition filterUnusedStructs ::
  "goEnum list \<Rightarrow> goStruct list \<Rightarrow> goQuery list \<Rightarrow> string \<Rightarrow> error + goEnum list \<times> goStruct list" where
  "filterUnusedStructs enums structs queries qualifier =
     and_then (keep_types qualifier queries) (\<lambda>keepTypes.
       Inr (filter (\<lambda>e. ge_Name e \<in> keepTypes \<or> ''Null'' @ ge_Name e \<in> keepTypes \<or> ''*'' @ ge_Name e \<in> keepTypes) enums,
            filter (\<lambda>s. gs_Name s \<in> keepTypes) structs))"

section \<open>Output files\<close>

type_synonym renderer = "tmplCtx \<Rightarrow> importSpec list list \<Rightarrow> string \<Rightarrow> error + string"

definition go_file_name :: "options \<Rightarrow> string \<Rightarrow> string \<Rightarrow> string" where
  "go_file_name opts name templateName =
     (let n = (if templateName = ''queryFile'' \<and> opt_OutputFilesSuffix opts \<noteq> [] then name @ opt_OutputFilesSuffix opts
               else name)
      in if HasSuffix n ''.go'' then n else n @ ''.go'')"

definition execute_template ::
  "unicode \<Rightarrow> sorter \<Rightarrow> renderer \<Rightarrow> importer \<Rightarrow> tmplCtx \<Rightarrow> (string \<times> string) list \<Rightarrow> string \<times> string \<Rightarrow>
   error + (string \<times> string) list" where
  "execute_template u srt render i tctx output = (\<lambda>(name, templateName).
     and_then (Imports srt i name) (\<lambda>imports.
       and_then (render (tctx\<lparr>t_SourceName := name, t_GoQueries := replaceConflictedArg u imports (i_Queries i)\<rparr>)
                   imports templateName) (\<lambda>code.
         (let file = go_file_name (i_Options i) name templateName in
          if file \<in> fst ` set output
          then Inl (PlainErr (''output file '' @ file @ '' would be written twice; choose another output_*_file_name''))
          else Inr (output @ [(file, code)])))))"

fun execute_all ::
  "((string \<times> string) list \<Rightarrow> string \<times> string \<Rightarrow> error + (string \<times> string) list) \<Rightarrow> (string \<times> string) list \<Rightarrow>
   (string \<times> string) list \<Rightarrow> error + (string \<times> string) list" where
  "execute_all ex output [] = Inr output"
| "execute_all ex output (f # fs) = and_then (ex output f) (\<lambda>output'. execute_all ex output' fs)"

text \<open>The files to write with their templates, in the order the code writes them.\<close>

definition output_plan :: "(string list \<Rightarrow> string list) \<Rightarrow> options \<Rightarrow> tmplCtx \<Rightarrow> goQuery list \<Rightarrow> (string \<times> string) list" where
  "output_plan ord opts tctx queries =
     [(or_name (opt_OutputDbFileName opts) ''db.go'', ''dbFile'')] @
     (if IsDuckDB (t_SQLDriver tctx) then [(''duckdb.go'', ''duckdbFile'')] else []) @
     (if ModelsEmitEnabled opts then [(or_name (opt_OutputModelsFileName opts) ''models.go'', ''modelsFile'')] else []) @
     (if opt_EmitInterface opts then [(or_name (opt_OutputQuerierFileName opts) ''querier.go'', ''interfaceFile'')] else []) @
     (if t_UsesCopyFrom tctx then [(or_name (opt_OutputCopyfromFileName opts) ''copyfrom.go'', ''copyfromFile'')] else []) @
     (if t_UsesBatch tctx then [(or_name (opt_OutputBatchFileName opts) ''batch.go'', ''batchFile'')] else []) @
     map (\<lambda>source. (source, ''queryFile'')) (ord (remdups (map gq_SourceName queries)))"

definition make_ctx :: "options \<Rightarrow> goEnum list \<Rightarrow> goStruct list \<Rightarrow> goQuery list \<Rightarrow> tmplCtx" where
  "make_ctx opts enums structs queries =
     \<lparr>t_Package = opt_Package opts, t_ModelsPackage = ModelsPackage opts, t_SQLDriver = parseDriver opts,
      t_Enums = enums, t_Structs = structs, t_GoQueries = [], t_SourceName = [],
      t_EmitPreparedQueries = opt_EmitPreparedQueries opts, t_EmitInterface = opt_EmitInterface opts,
      t_EmitMethodsWithDBArgument = opt_EmitMethodsWithDbArgument opts, t_UsesCopyFrom = usesCopyFrom queries,
      t_UsesBatch = usesBatch queries, t_WrapErrors = opt_WrapErrors opts\<rparr>"

definition check_driver :: "options \<Rightarrow> goQuery list \<Rightarrow> tmplCtx \<Rightarrow> error + tmplCtx" where
  "check_driver opts queries t =
     (let mysql = (opt_SqlDriver opts = SQLDriverGoSQLDriverMySQL) in
      if t_UsesCopyFrom t \<and> \<not> IsPGX (t_SQLDriver t) \<and> \<not> mysql
      then Inl (PlainErr '':copyfrom is only supported by pgx and github.com/go-sql-driver/mysql'')
      else
        and_then (if t_UsesCopyFrom t \<and> mysql
                  then (case checkNoTimesForMySQLCopyFrom queries of
                          Some e \<Rightarrow> Inl e | None \<Rightarrow> Inr (t\<lparr>t_SQLDriver := SQLDriverGoSQLDriverMySQL\<rparr>))
                  else Inr t) (\<lambda>t.
          if t_UsesBatch t \<and> \<not> IsPGX (t_SQLDriver t) \<and> \<not> IsDuckDB (t_SQLDriver t)
          then Inl (PlainErr '':batch* commands are only supported by pgx and DuckDB'')
          else if t_UsesBatch t \<and> IsDuckDB (t_SQLDriver t) \<and> t_EmitMethodsWithDBArgument t
          then Inl (PlainErr '':batch* commands on DuckDB do not support emit_methods_with_db_argument'')
          else Inr t))"

definition generate ::
  "unicode \<Rightarrow> sorter \<Rightarrow> (string list \<Rightarrow> string list) \<Rightarrow> renderer \<Rightarrow> options \<Rightarrow> goEnum list \<Rightarrow> goStruct list \<Rightarrow> goQuery list \<Rightarrow>
   error + (string \<times> string) list" where
  "generate u srt ord render opts enums structs queries =
     (let i = \<lparr>i_Options = opts, i_Queries = queries, i_Enums = enums, i_Structs = structs\<rparr> in
      and_then (check_driver opts queries (make_ctx opts enums structs queries)) (\<lambda>tctx.
        execute_all (execute_template u srt render i tctx) [] (output_plan ord opts tctx queries)))"

text \<open>The library functions the generator calls, as one argument.\<close>

record golibs =
  lib_unicode :: unicode
  lib_structtag :: "string \<Rightarrow> error + (string \<times> string) list"
  lib_Singular :: "string \<Rightarrow> string"
  lib_sortEnums :: "goEnum list \<Rightarrow> goEnum list"
  lib_sortStructs :: "goStruct list \<Rightarrow> goStruct list"
  lib_sortQueries :: "goQuery list \<Rightarrow> goQuery list"
  lib_sortImports :: sorter
  lib_ord :: "string list \<Rightarrow> string list"
  lib_render :: renderer

definition Generate ::
  "golibs \<Rightarrow> prequest \<Rightarrow> (error + options) option \<Rightarrow> (error + globalOptions) option \<Rightarrow> error + (string \<times> string) list" where
  "Generate lib req pluginOptions globalOpts =
     (let u = lib_unicode lib in
      and_then (Parse (lib_structtag lib) req pluginOptions globalOpts) (\<lambda>opts.
        (case ValidateOpts opts of
           Some e \<Rightarrow> Inl e
         | None \<Rightarrow>
             and_then (buildEnums u (lib_sortEnums lib) req opts) (\<lambda>enums.
             and_then (buildStructs u (lib_Singular lib) (lib_sortStructs lib) req opts) (\<lambda>structs.
             and_then (buildQueries u (lib_sortQueries lib) req opts enums structs) (\<lambda>queries.
             and_then (if opt_OmitUnusedStructs opts
                       then filterUnusedStructs enums structs queries (ModelsTypeQualifier opts)
                       else Inr (enums, structs)) (\<lambda>(enums, structs).
               (case validate opts enums structs queries of
                  Some e \<Rightarrow> Inl e
                | None \<Rightarrow>
                    generate u (lib_sortImports lib) (lib_ord lib) (lib_render lib) opts enums structs queries))))))))"

end
