(* ===== verification/Go_Name_Props.thy ===== *)
theory Go_Name_Props
  imports Go_Names
begin

text \<open>
  What the naming functions promise: struct names are Go identifiers, escaped names are no keywords, and an escaped query
  still spells the query.
\<close>

section \<open>Splitting at underscores\<close>

definition alnum :: "char \<Rightarrow> bool" where
  "alnum c \<longleftrightarrow> ascii_letter c \<or> ascii_digit c"

definition identify :: "char \<Rightarrow> char" where
  "identify c = (if alnum c then c else CHR ''_'')"

lemma alnum_ascii: "alnum c \<Longrightarrow> byte_of c < 128"
  by (auto simp: alnum_def ascii_letter_def ascii_digit_def)

lemma not_alnum_underscore [simp]: "\<not> alnum CHR ''_''"
  by (simp add: alnum_def ascii_letter_def ascii_digit_def)

lemma underscore_ascii: "byte_of CHR ''_'' < 128"
  by simp

lemma identify_alnum: "identify c \<noteq> CHR ''_'' \<longleftrightarrow> alnum c"
  by (auto simp: identify_def)

lemma concat_split_byte: "concat (split_byte b s) = filter (\<lambda>c. c \<noteq> b) s"
proof (induction s)
  case (Cons c s)
  obtain p ps where "split_byte b s = p # ps" by (meson neq_Nil_conv split_byte_not_Nil)
  with Cons show ?case by auto
qed simp

lemma split_byte_parts: "p \<in> set (split_byte b s) \<Longrightarrow> set p \<subseteq> set s - {b}"
proof -
  assume "p \<in> set (split_byte b s)"
  then have "set p \<subseteq> set (concat (split_byte b s))" by auto
  then show ?thesis by (auto simp: concat_split_byte)
qed

lemma strings_Map_identify:
  "ascii_laws u \<Longrightarrow> ascii s \<Longrightarrow> strings_Map (name_rune_or_underscore u) s = map identify s"
  by (induction s)
    (auto simp: strings_Map_def name_rune_or_underscore_def ascii_laws_def identify_def alnum_def)

section \<open>Upper case and title case of ASCII text\<close>

lemma upper_byte_alnum: "alnum c \<Longrightarrow> alnum (upper_byte c)"
  by (auto simp: alnum_def upper_byte_def ascii_letter_def ascii_digit_def)

lemma ascii_if_alnum: "\<forall>c \<in> set p. alnum c \<Longrightarrow> ascii p"
  by (simp add: ascii_def alnum_ascii)

lemma strings_ToUpper_alnum:
  "ascii_laws u \<Longrightarrow> \<forall>c \<in> set p. alnum c \<Longrightarrow> strings_ToUpper u p = map upper_byte p"
  by (induction p) (auto simp: strings_ToUpper_def ascii_laws_def alnum_ascii)

lemma title_runes_alnum:
  assumes "ascii_laws u" and "\<forall>c \<in> set p. alnum c"
  shows "length (title_runes u r (map (\<lambda>c. [c]) p)) = length p \<and> (\<forall>c \<in> set (title_runes u r (map (\<lambda>c. [c]) p)). alnum c)"
  using assms by (induction p arbitrary: r) (auto simp: ascii_laws_def alnum_ascii upper_byte_alnum)

lemma struct_part_alnum:
  assumes "ascii_laws u" and "\<forall>c \<in> set p. alnum c"
  shows "length (struct_part u opts p) = length p \<and> (\<forall>c \<in> set (struct_part u opts p). alnum c)"
  using assms title_runes_alnum [OF assms]
  by (auto simp: struct_part_def strings_ToUpper_alnum strings_Title_def runes_ascii ascii_if_alnum upper_byte_alnum)

lemma struct_body_alnum:
  assumes "ascii_laws u" and "ascii name"
  shows "\<forall>c \<in> set (struct_body u opts name). alnum c"
    and "length (struct_body u opts name) = length (filter alnum name)"
proof -
  let ?parts = "split_byte CHR ''_'' (map identify name)"
  have parts: "\<forall>p \<in> set ?parts. \<forall>c \<in> set p. alnum c"
    using split_byte_parts by (fastforce simp: identify_def split: if_splits)
  then show "\<forall>c \<in> set (struct_body u opts name). alnum c"
    using struct_part_alnum [OF assms(1)] by (auto simp: struct_body_def strings_Map_identify assms)
  have "map (length \<circ> struct_part u opts) ?parts = map length ?parts"
    using parts struct_part_alnum [OF assms(1)] by simp
  then have "length (struct_body u opts name) = length (concat ?parts)"
    by (simp only: struct_body_def strings_Map_identify assms length_concat map_map)
  then show "length (struct_body u opts name) = length (filter alnum name)"
    by (simp add: concat_split_byte filter_map comp_def identify_alnum)
qed

section \<open>Struct names are identifiers\<close>

definition go_identifier :: "string \<Rightarrow> bool" where
  "go_identifier s =
     (case s of [] \<Rightarrow> False | c # cs \<Rightarrow> (ascii_letter c \<or> c = CHR ''_'') \<and> (\<forall>d \<in> set cs. alnum d))"

lemma StructName_unrenamed:
  assumes "ascii_laws u" and "ascii name" and "map_of (opt_Rename opts) name = None"
  shows "StructName u name opts =
    (case struct_body u opts name of [] \<Rightarrow> [] | c # cs \<Rightarrow> if ascii_digit c then CHR ''_'' # c # cs else c # cs)"
proof (cases "struct_body u opts name")
  case (Cons c cs)
  then have "byte_of c < 128" using struct_body_alnum(1) [OF assms(1,2), of opts] alnum_ascii by simp
  with Cons assms show ?thesis by (simp add: StructName_def ascii_laws_def Let_def)
qed (simp add: StructName_def assms)

text \<open>C39: the Go name of a table, column or enum is an identifier: a letter or one underscore followed by letters
  and digits, for every ASCII name that has a letter or a digit and is not renamed in the options.\<close>

theorem StructName_identifier:
  assumes "ascii_laws u" and "ascii name" and "map_of (opt_Rename opts) name = None" and "\<exists>c \<in> set name. alnum c"
  shows "go_identifier (StructName u name opts)"
proof (cases "struct_body u opts name")
  case Nil
  with struct_body_alnum(2) [OF assms(1,2), of opts] assms(4) show ?thesis
    by (simp add: filter_empty_conv)
next
  case (Cons c cs)
  with struct_body_alnum(1) [OF assms(1,2), of opts] have "\<forall>d \<in> set (c # cs). alnum d" by simp
  then show ?thesis
    using Cons by (auto simp: StructName_unrenamed [OF assms(1-3)] go_identifier_def alnum_def)
qed

theorem StructName_identifier_witness:
  "go_identifier (StructName ascii_only ''2fa_user-ids'' zero_options) \<and>
   StructName ascii_only ''2fa_user-ids'' zero_options = ''_2faUserIds''"
  using StructName_identifier [OF ascii_laws_ascii_only, of "''2fa_user-ids''" zero_options]
  by (auto simp: zero_options_def alnum_def ascii_digit_def) code_simp+

section \<open>Queries as Go string constants\<close>

lemma ReplaceAll_byte: "ReplaceAll s [b] new = concat (map (\<lambda>c. if c = b then new else [c]) s)"
  by (induction s) (subst ReplaceAll.simps, auto simp: HasPrefix_def)+

text \<open>The value of a Go expression made of raw and interpreted string literals joined with \<open>+\<close>.  A raw literal drops carriage
  returns; an interpreted one with escapes is left out.\<close>

datatype expr_state = Operand | Raw | Quoted | Operator

fun go_string_value :: "expr_state \<Rightarrow> string \<Rightarrow> string option" where
  "go_string_value Operand (c # s) =
     (if c = CHR 0x60 then go_string_value Raw s else if c = CHR 0x22 then go_string_value Quoted s else None)"
| "go_string_value Raw (c # s) =
     (if c = CHR 0x60 then go_string_value Operator s
      else map_option (\<lambda>v. if c = CHR 0x0D then v else c # v) (go_string_value Raw s))"
| "go_string_value Quoted (c # s) =
     (if c = CHR 0x22 then go_string_value Operator s
      else if c = CHR 0x5C \<or> c = CHR 0x0A then None
      else map_option (Cons c) (go_string_value Quoted s))"
| "go_string_value Operator (c # s) = (if c = CHR ''+'' then go_string_value Operand s else None)"
| "go_string_value Operator [] = Some []"
| "go_string_value st [] = None"

lemma go_string_value_escaped:
  "go_string_value Raw (concat (map (\<lambda>c. if c = CHR 0x60 then [CHR 0x60, CHR ''+'', CHR 0x22, CHR 0x60, CHR 0x22, CHR ''+'', CHR 0x60] else [c]) s) @
     [CHR 0x60]) = Some (filter (\<lambda>c. c \<noteq> CHR 0x0D) s)"
  by (induction s) auto

text \<open>Between backticks an escaped query is a Go expression whose value is the query itself, without the carriage
  returns, which a raw string literal drops.\<close>

theorem EscapeBacktick_roundtrip:
  "go_string_value Operand (CHR 0x60 # EscapeBacktick sql @ [CHR 0x60]) = Some (filter (\<lambda>c. c \<noteq> CHR 0x0D) sql)"
  using go_string_value_escaped [of sql] by (simp add: EscapeBacktick_def ReplaceAll_byte)

end
