(* ===== verification/Go_Struct_Props.thy ===== *)
theory Go_Struct_Props
  imports Go_Queries Go_Name_Props
begin

text \<open>
  What the structs of parameters and rows promise: consistent field types, one field for every column, distinct field names
  in a row, and model types that are qualified the same way everywhere.
\<close>

section \<open>Field types\<close>

lemma incompatible_None:
  "incompatible types fs = None \<longleftrightarrow>
     (\<forall>f \<in> set fs. \<forall>t. types (gf_Name f) = Some t \<longrightarrow> gf_Type f = t) \<and>
     (\<forall>f \<in> set fs. \<forall>g \<in> set fs. gf_Name f = gf_Name g \<longrightarrow> gf_Type f = gf_Type g)"
proof (induction fs arbitrary: types)
  case (Cons f fs)
  show ?case
  proof (cases "types (gf_Name f)")
    case None
    then show ?thesis
      by (simp add: Cons.IH fun_upd_def)
        (rule iffI; elim conjE; intro conjI ballI allI impI; metis option.distinct(1))
  next
    case (Some t)
    then show ?thesis
      by (simp add: Cons.IH) (rule impI, rule iffI; elim conjE; intro conjI ballI allI impI; metis)
  qed
qed simp

lemma checkIncompatible_None:
  "checkIncompatibleFieldTypes fs = None \<longleftrightarrow>
     (\<forall>f \<in> set fs. \<forall>g \<in> set fs. gf_Name f = gf_Name g \<longrightarrow> gf_Type f = gf_Type g)"
  by (simp add: checkIncompatibleFieldTypes_def incompatible_None)

section \<open>One field for every column\<close>

lemma struct_fields_length:
  "struct_fields u req opts useID models q i cs seen suf = Inr (fs, seen') \<Longrightarrow> length fs = length cs"
  by (induction cs arbitrary: i seen suf fs seen') (auto simp: Let_def split: prod.splits)

lemma map_update_same: "g y = g (xs ! i) \<Longrightarrow> map g (xs[i := y]) = map g xs"
  by (cases "i < length xs") (simp_all add: map_update list_update_same_conv list_update_beyond)

lemma adopt_type_keeps:
  "map gf_Name (adopt_type seen fs i) = map gf_Name fs" "map gf_Column (adopt_type seen fs i) = map gf_Column fs"
  by (simp_all add: adopt_type_def Let_def map_update_same)

lemma adopt_fold_keeps:
  "map gf_Name (fold (\<lambda>i fs. adopt_type seen fs i) is fs) = map gf_Name fs"
  "map gf_Column (fold (\<lambda>i fs. adopt_type seen fs i) is fs) = map gf_Column fs"
  by (induction "is" arbitrary: fs) (simp_all add: adopt_type_keeps)

lemma adopt_types_keeps [simp]:
  "map gf_Name (adopt_types seen fs) = map gf_Name fs" "map gf_Column (adopt_types seen fs) = map gf_Column fs"
  by (simp_all add: adopt_types_def adopt_fold_keeps)

lemma column_field_name:
  "column_field u req opts models q i c k = Inr f \<Longrightarrow>
     gf_Name f = with_suffix (StructName u (column_base u i c) opts) k \<and> gf_Column f = Some (gc_Column c)"
  by (auto simp: column_field_def Let_def split: option.splits)

lemma struct_fields_columns:
  "struct_fields u req opts useID models q i cs seen suf = Inr (fs, seen') \<Longrightarrow>
     map gf_Column fs = map (\<lambda>c. Some (gc_Column c)) cs"
  by (induction cs arbitrary: i seen suf fs seen')
    (auto simp: Let_def dest: column_field_name split: prod.splits)

lemma columnsToStruct_Inr:
  assumes "columnsToStruct u req opts name columns useID models q = Inr s"
  obtains fs seen where "struct_fields u req opts useID models q 0 columns (\<lambda>_. []) Map.empty = Inr (fs, seen)"
    and "checkIncompatibleFieldTypes (adopt_types seen fs) = None"
    and "gs_Name s = name" and "gs_Fields s = adopt_types seen fs"
  using assms by (auto simp: columnsToStruct_def Let_def split: option.splits prod.splits)

text \<open>C31: a struct of parameters or of a row has one field for each column, in the order of the columns, and two
  fields of one name have one type.\<close>

theorem columnsToStruct_fields:
  assumes "columnsToStruct u req opts name columns useID models q = Inr s"
  shows "gs_Name s = name \<and> map gf_Column (gs_Fields s) = map (\<lambda>c. Some (gc_Column c)) columns \<and>
    (\<forall>f \<in> set (gs_Fields s). \<forall>g \<in> set (gs_Fields s). gf_Name f = gf_Name g \<longrightarrow> gf_Type f = gf_Type g)"
proof -
  from assms obtain fs seen where
    fs: "struct_fields u req opts useID models q 0 columns (\<lambda>_. []) Map.empty = Inr (fs, seen)"
    and ok: "checkIncompatibleFieldTypes (adopt_types seen fs) = None"
    and s: "gs_Name s = name" "gs_Fields s = adopt_types seen fs"
    by (rule columnsToStruct_Inr)
  show ?thesis
    using ok unfolding checkIncompatible_None s(2) by (simp only: s(1) adopt_types_keeps struct_fields_columns [OF fs])
qed

section \<open>Distinct names in a row\<close>

lemma digits_no_underscore: "CHR ''_'' \<notin> set (digits n)"
proof (induction n rule: digits.induct)
  case (1 n)
  have d: "m < 10 \<Longrightarrow> char_of (m + 48) \<noteq> CHR ''_''" for m :: nat
    by (rule notI, drule arg_cong [of _ _ byte_of]) simp
  have "n mod 10 < 10" by simp
  with 1 d [of n] d [of "n mod 10"] show ?case by (subst digits.simps) auto
qed

lemma Itoa_nat: "Itoa (int n) = digits n"
  by (simp add: Itoa_def)

lemma last_separator:
  "b \<notin> set ys \<Longrightarrow> b \<notin> set ys' \<Longrightarrow> xs @ b # ys = xs' @ b # ys' \<Longrightarrow> xs = xs' \<and> ys = ys'"
proof -
  assume no: "b \<notin> set ys" "b \<notin> set ys'" and eq: "xs @ b # ys = xs' @ b # ys'"
  have suffix: "takeWhile (\<lambda>c. c \<noteq> b) (rev (zs @ b # ws)) = rev ws" if "b \<notin> set ws" for zs ws
    using that by (auto simp: takeWhile_tail)
  have "rev ys = rev ys'" using suffix [OF no(1), of xs] suffix [OF no(2), of xs'] eq by argo
  with eq show ?thesis by simp
qed

lemma with_suffix_inj:
  assumes "go_identifier b" and "go_identifier b'" and "with_suffix b k = with_suffix b' k'"
  shows "b = b' \<and> k = k'"
proof -
  have no: "\<And>xs n. \<lbrakk>go_identifier (xs @ CHR ''_'' # digits n); xs \<noteq> []\<rbrakk> \<Longrightarrow> False"
    by (case_tac xs) (auto simp: go_identifier_def)
  have ne: "b \<noteq> []" "b' \<noteq> []" using assms(1,2) by (auto simp: go_identifier_def)
  show ?thesis
  proof (cases "k = 0 \<or> k' = 0")
    case True
    with assms no ne show ?thesis by (auto simp: with_suffix_def Itoa_nat split: if_splits)
  next
    case False
    with assms(3) have "b @ CHR ''_'' # digits k = b' @ CHR ''_'' # digits k'"
      by (simp add: with_suffix_def Itoa_nat)
    then have "b = b' \<and> digits k = digits k'" by (rule last_separator [OF digits_no_underscore digits_no_underscore])
    then show ?thesis by (metis digits_value_digits)
  qed
qed

lemma struct_fields_Cons:
  "struct_fields u req opts useID models q i (c # cs) seen suf = Inr (fs, seen') \<longleftrightarrow>
     (let base = StructName u (column_base u i c) opts; k = column_suffix useID c base seen suf in
      \<exists>f gs. fs = f # gs \<and> column_field u req opts models q i c k = Inr f \<and>
        struct_fields u req opts useID models q (i + 1) cs (seen(base := seen base @ [i])) (suf(gc_id c \<mapsto> k)) = Inr (gs, seen'))"
  by (simp add: Let_def split: prod.splits) blast

text \<open>The suffixes a row uses for a base name grow: every later field has a suffix past the number of fields seen.\<close>

definition fresh_after :: "seen \<Rightarrow> string \<Rightarrow> bool" where
  "fresh_after seen n \<longleftrightarrow> (\<exists>b k. n = with_suffix b k \<and> go_identifier b \<and> (seen b \<noteq> [] \<longrightarrow> length (seen b) < k))"

lemma struct_fields_distinct:
  assumes "struct_fields u req opts True models q i cs seen suf = Inr (fs, seen')"
    and "distinct (map gc_id cs)" and "\<forall>c \<in> set cs. suf (gc_id c) = None \<and> \<not> pc_IsNamedParam (gc_Column c)"
    and "\<forall>j < length cs. go_identifier (StructName u (column_base u (i + j) (cs ! j)) opts)"
  shows "distinct (map gf_Name fs) \<and> (\<forall>f \<in> set fs. fresh_after seen (gf_Name f))"
  using assms
proof (induction cs arbitrary: i seen suf fs seen')
  case (Cons c cs)
  define base where "base = StructName u (column_base u i c) opts"
  define k where "k = (if seen base = [] then 0 else length (seen base) + 1)"
  have ident: "go_identifier base" using Cons.prems(4) by (force simp: base_def)
  have suffix: "column_suffix True c base seen suf = k" using Cons.prems(3) by (simp add: column_suffix_def k_def)
  from Cons.prems(1) obtain f gs where f: "column_field u req opts models q i c k = Inr f" and fs: "fs = f # gs"
    and gs: "struct_fields u req opts True models q (i + 1) cs (seen(base := seen base @ [i])) (suf(gc_id c \<mapsto> k)) =
      Inr (gs, seen')"
    unfolding struct_fields_Cons Let_def base_def [symmetric] suffix by blast
  have name: "gf_Name f = with_suffix base k" using column_field_name [OF f] by (simp add: base_def)
  have p2: "distinct (map gc_id cs)" using Cons.prems(2) by simp
  have p3: "\<forall>d \<in> set cs. (suf(gc_id c \<mapsto> k)) (gc_id d) = None \<and> \<not> pc_IsNamedParam (gc_Column d)"
    using Cons.prems(2,3) by (auto simp: image_def)
  have p4: "\<forall>j < length cs. go_identifier (StructName u (column_base u (i + 1 + j) (cs ! j)) opts)"
    using Cons.prems(4) by force
  note IH = Cons.IH [OF gs p2 p3 p4, THEN conjunct1] Cons.IH [OF gs p2 p3 p4, THEN conjunct2]
  have tail: "gf_Name f \<noteq> gf_Name g \<and> fresh_after seen (gf_Name g)" if "g \<in> set gs" for g
  proof -
    from IH(2) that obtain b j where b: "gf_Name g = with_suffix b j" "go_identifier b"
      "(seen(base := seen base @ [i])) b \<noteq> [] \<longrightarrow> length ((seen(base := seen base @ [i])) b) < j"
      unfolding fresh_after_def by blast
    have "base \<noteq> b \<or> k \<noteq> j" using b(3) by (auto simp: k_def)
    then have "gf_Name f \<noteq> gf_Name g" using with_suffix_inj [OF ident b(2)] by (auto simp only: name b(1))
    moreover have "seen b \<noteq> [] \<longrightarrow> length (seen b) < j" using b(3) by (cases "b = base") auto
    ultimately show ?thesis using b(1,2) unfolding fresh_after_def by blast
  qed
  have "fresh_after seen (gf_Name f)"
    unfolding fresh_after_def using ident by (intro exI [of _ base] exI [of _ k]) (simp add: name k_def)
  moreover have "gf_Name f \<notin> gf_Name ` set gs" using tail by blast
  ultimately show ?case using IH(1) tail by (simp add: fs)
qed simp

lemma row_columns_ids:
  assumes "row_columns structs def cols = Inr columns"
  shows "map gc_id columns = map int [0..<length cols] \<and> map gc_Column columns = cols"
proof -
  have len: "length columns = length cols" using map_ok_length assms unfolding row_columns_def by fastforce
  have "gc_id (columns ! i) = int i \<and> gc_Column (columns ! i) = cols ! i" if "i < length cols" for i
    using map_ok_nth [OF assms [unfolded row_columns_def], of i] that
    by (auto simp: nth_enumerate_eq dest!: sym [of _ "columns ! i"])
  with len show ?thesis by (auto intro!: nth_equalityI)
qed

text \<open>C7: the row struct of a query has a different name for every column: a repeated name gets a suffix that no
  other field has.  The columns are named in ASCII with a letter or a digit, none is renamed, and none is a
  parameter.\<close>

theorem row_names_distinct:
  assumes "row_columns structs def cols = Inr columns"
    and "columnsToStruct u req opts name columns True models q = Inr s"
    and "ascii_laws u" and "opt_Rename opts = []" and "\<forall>c \<in> set cols. \<not> pc_IsNamedParam c"
    and "\<forall>i < length columns. ascii (column_base u i (columns ! i)) \<and> (\<exists>c \<in> set (column_base u i (columns ! i)). alnum c)"
  shows "distinct (map gf_Name (gs_Fields s))"
proof -
  from assms(2) obtain fs seen where
    fs: "struct_fields u req opts True models q 0 columns (\<lambda>_. []) Map.empty = Inr (fs, seen)"
    and s: "gs_Fields s = adopt_types seen fs"
    by (rule columnsToStruct_Inr)
  have ids: "distinct (map gc_id columns)"
    using row_columns_ids [OF assms(1)] by (simp add: distinct_map inj_on_def)
  have named: "\<forall>c \<in> set columns. \<not> pc_IsNamedParam (gc_Column c)"
    using row_columns_ids [OF assms(1)] assms(5) by auto
  have "\<forall>j < length columns. go_identifier (StructName u (column_base u (0 + j) (columns ! j)) opts)"
    using assms(3,4,6) StructName_identifier by simp
  with struct_fields_distinct [OF fs ids] named have "distinct (map gf_Name fs)" by simp
  then show ?thesis by (simp only: s adopt_types_keeps)
qed

definition ex_column :: "string \<Rightarrow> pcolumn" where
  "ex_column n =
     \<lparr>pc_Name = n, pc_NotNull = True, pc_IsArray = False, pc_Comment = [], pc_Length = -1, pc_IsNamedParam = False,
      pc_IsFuncCall = False, pc_Table = None, pc_Type = \<lparr>id_Catalog = [], id_Schema = [], id_Name = ''text''\<rparr>,
      pc_IsSqlcSlice = False, pc_EmbedTable = None, pc_OriginalName = [], pc_Unsigned = False, pc_ArrayDims = 0\<rparr>"

definition ex_request :: prequest where
  "ex_request =
     \<lparr>req_Engine = ''postgresql'',
      req_Catalog = \<lparr>pcat_Comment = [], pcat_DefaultSchema = ''public'', pcat_Name = [], pcat_Schemas = []\<rparr>,
      req_Queries = []\<rparr>"

definition ex_row :: "goColumn list" where
  "ex_row = map (\<lambda>(i, n). \<lparr>gc_id = i, gc_Column = ex_column n, gc_embed = None\<rparr>)
     [(0, ''count''), (1, ''count''), (2, ''count_2''), (3, [])]"

definition ex_fields :: "goField list" where
  "ex_fields = map (\<lambda>(n, d, c). Field n d ''string'' [] [] (Some (ex_column c)) [])
     [(''Count'', ''count'', ''count''), (''Count_2'', ''count'', ''count''), (''Count2'', ''count_2'', ''count_2''),
      (''Column4'', ''column_4'', [])]"

definition ex_struct :: goStruct where
  "ex_struct = \<lparr>gs_Table = None, gs_Name = ''ListRow'', gs_Fields = ex_fields, gs_Comment = [], gs_IsModel = False\<rparr>"

lemma ex_row_runs:
  "row_columns [] ''public'' (map ex_column [''count'', ''count'', ''count_2'', []]) = Inr ex_row"
  "columnsToStruct ascii_only ex_request zero_options ''ListRow'' ex_row True {} [] = Inr ex_struct"
  by code_simp+

theorem row_names_distinct_witness:
  "columnsToStruct ascii_only ex_request zero_options ''ListRow'' ex_row True {} [] = Inr ex_struct \<and>
   distinct (map gf_Name (gs_Fields ex_struct))"
proof (rule conjI [OF ex_row_runs(2)], rule row_names_distinct [OF ex_row_runs ascii_laws_ascii_only])
  show "opt_Rename zero_options = []" by (simp add: zero_options_def)
  show "\<forall>c \<in> set (map ex_column [''count'', ''count'', ''count_2'', []]). \<not> pc_IsNamedParam c"
    by (simp add: ex_column_def)
  show "\<forall>i < length ex_row. ascii (column_base ascii_only i (ex_row ! i)) \<and>
      (\<exists>c \<in> set (column_base ascii_only i (ex_row ! i)). alnum c)"
    by code_simp
qed

theorem columnsToStruct_fields_witness:
  "columnsToStruct ascii_only ex_request zero_options ''ListRow'' ex_row True {} [] = Inr ex_struct \<and>
   gs_Name ex_struct = ''ListRow'' \<and>
   map gf_Column (gs_Fields ex_struct) = map (\<lambda>c. Some (gc_Column c)) ex_row"
  using ex_row_runs(2) columnsToStruct_fields [OF ex_row_runs(2)] by blast

end
