(* ===== verification/Go_Query_Props.thy ===== *)
theory Go_Query_Props
  imports Go_Struct_Props
begin

text \<open>
  Queries: the variable a \<open>:one\<close> query returns, the qualified names of model types, and the rows of a DuckDB batch.
\<close>

section \<open>The variable of a \<open>:one\<close> query\<close>

lemma free_name_step:
  "n \<in> set ns \<Longrightarrow> free_name ns n = free_name ns (n @ ''_2'')" "n \<notin> set ns \<Longrightarrow> free_name ns n = n"
  by (subst free_name.simps, simp)+

lemma free_name_free: "free_name ns n \<notin> set ns"
  by (induction ns n rule: free_name.induct) (metis free_name_step)

lemma free_name_suffix: "\<exists>k. free_name ns n = n @ concat (replicate k ''_2'')"
proof (induction ns n rule: free_name.induct)
  case (1 ns n)
  show ?case
  proof (cases "n \<in> set ns")
    case True
    with 1 obtain k where "free_name ns (n @ ''_2'') = (n @ ''_2'') @ concat (replicate k ''_2'')" by blast
    with True have "free_name ns n = n @ concat (replicate (Suc k) ''_2'')" by (simp add: free_name_step(1))
    then show ?thesis by blast
  next
    case False
    then have "free_name ns n = n @ concat (replicate 0 ''_2'')" by (simp add: free_name_step(2))
    then show ?thesis by blast
  qed
qed

lemma reserved_words_plain: "w \<in> set reserved_words \<Longrightarrow> CHR ''2'' \<notin> set w"
  by (auto simp: reserved_words_def)

lemma suffixed_not_reserved: "\<not> IsReserved (n @ ''_2'')"
  using reserved_words_plain by (fastforce simp: IsReserved_def)

lemma free_name_not_reserved: "\<not> IsReserved (free_name ns (escape n))"
proof -
  obtain k where k: "free_name ns (escape n) = escape n @ concat (replicate k ''_2'')"
    using free_name_suffix by blast
  show ?thesis
  proof (cases k)
    case 0
    with k escape_not_reserved show ?thesis by simp
  next
    case (Suc m)
    have "concat (replicate (Suc m) ''_2'') = concat (replicate m ''_2'') @ ''_2''"
      by (simp flip: replicate_append_same)
    with k Suc suffixed_not_reserved [of "escape n @ concat (replicate m ''_2'')"] show ?thesis by simp
  qed
qed

lemma simple_value_Name: "simple_value u req opts models c n d = Inr v \<Longrightarrow> v_Name v = n \<and> v_Struct v = None"
  by (auto simp: simple_value_def zero_value_def)

lemma one_row_variable:
  assumes "query_ret u req opts models structs query arg = Inr ret"
    and "pq_Cmd query = '':one''" and "pq_Columns query = [c]" and "pc_EmbedTable c = None"
  shows "\<exists>args k. Pairs arg = Inr args \<and> ReturnName ret \<notin> set (map fst args) \<and> \<not> IsReserved (ReturnName ret) \<and>
    ReturnName ret =
      escape (map (\<lambda>b. if b = CHR ''$'' then CHR ''_'' else b) (columnName c 0)) @ concat (replicate k ''_2'')"
proof -
  let ?n = "map (\<lambda>b. if b = CHR ''$'' then CHR ''_'' else b) (columnName c 0)"
  have "and_then (row_name query c arg) (\<lambda>retName. simple_value u req opts models c retName ?n) = Inr ret"
    using assms by (simp only: query_ret_def Let_def list.size list.sel) simp
  then obtain r where r: "row_name query c arg = Inr r" "simple_value u req opts models c r ?n = Inr ret" by auto
  from r(1) obtain args where args: "Pairs arg = Inr args" "r = free_name (map fst args) (escape ?n)"
    by (auto simp: row_name_def Let_def assms(2))
  have "\<not> IsReserved r" unfolding args(2) by (rule free_name_not_reserved)
  then have name: "ReturnName ret = r"
    using simple_value_Name [OF r(2)] by (simp add: ReturnName_def escape_def IsPointer_def)
  obtain k where "r = escape ?n @ concat (replicate k ''_2'')"
    using free_name_suffix unfolding args(2) by blast
  moreover have "r \<notin> set (map fst args)" unfolding args(2) by (rule free_name_free)
  ultimately show ?thesis using args(1) name \<open>\<not> IsReserved r\<close> by auto
qed

definition ex_one :: pquery where
  "ex_one =
     \<lparr>pq_Text = [], pq_Name = ''GetName'', pq_Cmd = '':one'', pq_Columns = [ex_column ''name''],
      pq_Params = [\<lparr>pp_Number = 1, pp_Column = ex_column ''name''\<rparr>], pq_Comments = [], pq_Filename = [],
      pq_InsertIntoTable = None, pq_Batch = None\<rparr>"

definition ex_arg :: queryValue where
  "ex_arg = zero_value\<lparr>v_Name := ''name'', v_Typ := ''string''\<rparr>"

definition ex_ret :: queryValue where
  "ex_ret = zero_value\<lparr>v_Name := ''name_2'', v_DBName := ''name'', v_Typ := ''string'', v_SQLDriver := SQLDriverLibPQ,
     v_Column := Some (ex_column ''name'')\<rparr>"

section \<open>Qualified model types\<close>

lemma HasPrefix_split: "HasPrefix t s \<Longrightarrow> t = s @ drop (length s) t"
  by (metis HasPrefix_def append_take_drop_id)

lemma HasPrefix_append [simp]: "HasPrefix (s @ t) s"
  by (simp add: HasPrefix_def)

lemma split_prefix_slice: "split_prefix (CHR ''['' # CHR '']'' # t) = (let (p, r) = split_prefix t in (''[]'' @ p, r))"
  by (subst split_prefix.simps) (simp add: HasPrefix_def)

lemma split_prefix_pointer: "split_prefix (CHR ''*'' # t) = (let (p, r) = split_prefix t in (''*'' @ p, r))"
  by (subst split_prefix.simps) (simp add: HasPrefix_def)

lemma split_prefix_plain: "\<not> HasPrefix t ''[]'' \<Longrightarrow> \<not> HasPrefix t ''*'' \<Longrightarrow> split_prefix t = ([], t)"
  by (subst split_prefix.simps) simp

lemma split_prefix_cases:
  obtains (slice) t' where "t = CHR ''['' # CHR '']'' # t'" | (pointer) t' where "t = CHR ''*'' # t'"
  | (plain) "\<not> HasPrefix t ''[]''" "\<not> HasPrefix t ''*''"
  using HasPrefix_split [of t "''[]''"] HasPrefix_split [of t "''*''"] by fastforce

text \<open>Replacing what follows the prefix keeps the prefix, as long as the new rest does not start with one.\<close>

lemma split_prefix_replace:
  assumes "split_prefix r' = ([], r')" and "split_prefix t = (p, r)"
  shows "t = p @ r \<and> split_prefix (p @ r') = (p, r')"
  using assms(2)
proof (induction "length t" arbitrary: t p rule: less_induct)
  case less
  show ?case
  proof (cases t rule: split_prefix_cases)
    case (slice t')
    with less.hyps [of t'] less.prems show ?thesis by (auto simp: split_prefix_slice split: prod.splits)
  next
    case (pointer t')
    with less.hyps [of t'] less.prems show ?thesis by (auto simp: split_prefix_pointer split: prod.splits)
  next
    case plain
    with assms(1) less.prems show ?thesis by (simp add: split_prefix_plain)
  qed
qed

lemma qualifier_plain: "split_prefix (CHR ''m'' # t) = ([], CHR ''m'' # t)"
  by (rule split_prefix_plain) (simp_all add: HasPrefix_def)

text \<open>C38: qualifying a type with the models package and removing the qualifier gives the type back, slices and pointers
  included, for every type that does not start with the qualifier itself; and a qualified name is one of the models'.\<close>

theorem qualify_roundtrip:
  assumes "\<not> HasPrefix (snd (split_prefix t)) (ModelsTypeQualifier opts)"
  shows "stripQualifier (qualifyType t models (ModelsTypeQualifier opts)) (ModelsTypeQualifier opts) = t \<and>
    (qualifyType t models (ModelsTypeQualifier opts) \<noteq> t \<longrightarrow> snd (split_prefix t) \<in> models)"
proof (cases "ModelsAreExternal opts")
  case False
  then show ?thesis by (simp add: ModelsTypeQualifier_def stripQualifier_def qualifyType_def)
next
  case True
  then have q: "ModelsTypeQualifier opts = ''models.''" by (simp add: ModelsTypeQualifier_def ModelsImportAlias_def)
  obtain p r where split: "split_prefix t = (p, r)" by fastforce
  have "split_prefix (''models.'' @ r) = ([], ''models.'' @ r)" by (simp add: qualifier_plain)
  from split_prefix_replace [OF this split] assms split show ?thesis
    by (auto simp: q qualifyType_def stripQualifier_def HasPrefix_def)
qed

theorem qualify_roundtrip_witness:
  "stripQualifier (qualifyType ''[]*User'' {''User''} ''models.'') ''models.'' = ''[]*User'' \<and>
   qualifyType ''[]*User'' {''User''} ''models.'' = ''[]*models.User''"
proof
  let ?o = "zero_options\<lparr>opt_OutputModelsImport := ''m''\<rparr>"
  have q: "ModelsTypeQualifier ?o = ''models.''" by code_simp
  have "\<not> HasPrefix (snd (split_prefix ''[]*User'')) (ModelsTypeQualifier ?o)" by code_simp
  from qualify_roundtrip [OF this, of "{''User''}"]
  show "stripQualifier (qualifyType ''[]*User'' {''User''} ''models.'') ''models.'' = ''[]*User''" by (simp only: q)
  show "qualifyType ''[]*User'' {''User''} ''models.'' = ''[]*models.User''" by code_simp
qed

end
