(* ===== verification/Go_Gen_Props.thy ===== *)
theory Go_Gen_Props
  imports Go_Gen Go_Query_Props
begin

text \<open>
  What the generator promises about its output: the files it writes, the names it declares, and the types it keeps.
\<close>

section \<open>Output files\<close>

definition planned_file :: "options \<Rightarrow> string \<times> string \<Rightarrow> string" where
  "planned_file opts = (\<lambda>(name, templateName). go_file_name opts name templateName)"

lemma execute_template_Inr:
  assumes "execute_template u srt render i t out f = Inr out'"
  shows "map fst out' = map fst out @ [planned_file (i_Options i) f] \<and> planned_file (i_Options i) f \<notin> fst ` set out"
proof (cases f)
  case (Pair name templateName)
  with assms show ?thesis
    by (auto simp: execute_template_def planned_file_def Let_def split: if_splits)
qed

lemma execute_all_Inr:
  assumes "execute_all (execute_template u srt render i t) out plan = Inr out'" and "distinct (map fst out)"
  shows "map fst out' = map fst out @ map (planned_file (i_Options i)) plan \<and> distinct (map fst out')"
  using assms
proof (induction plan arbitrary: out)
  case (Cons f plan)
  from Cons.prems(1) obtain out1 where step: "execute_template u srt render i t out f = Inr out1"
    and rest: "execute_all (execute_template u srt render i t) out1 plan = Inr out'" by auto
  have "distinct (map fst out1)" using execute_template_Inr [OF step] Cons.prems(2) by simp
  note IH = Cons.IH [OF rest this]
  have "map fst out' = map fst out @ map (planned_file (i_Options i)) (f # plan)"
    using IH [THEN conjunct1] execute_template_Inr [OF step] by simp
  then show ?case using IH by (rule conjI [OF _ conjunct2])
qed simp

lemma HasSuffix_append [simp]: "HasSuffix (s @ t) t"
  by (simp add: HasSuffix_def)

lemma go_file_name_go: "HasSuffix (go_file_name opts n t) ''.go''"
  by (simp add: go_file_name_def Let_def)

lemma check_driver_ctx:
  "check_driver opts qs t = Inr t' \<Longrightarrow> t_UsesCopyFrom t' = t_UsesCopyFrom t \<and> t_UsesBatch t' = t_UsesBatch t"
  by (auto simp: check_driver_def Let_def split: if_splits option.splits)

lemma not_duck [simp]:
  "SQLDriverPGXV4 \<noteq> SQLDriverDuckDB" "SQLDriverPGXV5 \<noteq> SQLDriverDuckDB" "SQLDriverLibPQ \<noteq> SQLDriverDuckDB"
  "SQLDriverGoSQLDriverMySQL \<noteq> SQLDriverDuckDB"
  by (simp_all add: driver_defs)

lemma check_driver_duck:
  "check_driver opts qs t = Inr t' \<Longrightarrow> t_SQLDriver t = parseDriver opts \<Longrightarrow>
     IsDuckDB (t_SQLDriver t') = IsDuckDB (parseDriver opts)"
  by (auto simp: check_driver_def Let_def parseDriver_def IsDuckDB_def split: if_splits option.splits)

text \<open>The files a run is to write.\<close>

definition wanted_files :: "options \<Rightarrow> goQuery list \<Rightarrow> string set" where
  "wanted_files opts queries =
     {go_file_name opts (or_name (opt_OutputDbFileName opts) ''db.go'') ''dbFile''} \<union>
     (if IsDuckDB (parseDriver opts) then {''duckdb.go''} else {}) \<union>
     (if ModelsEmitEnabled opts
      then {go_file_name opts (or_name (opt_OutputModelsFileName opts) ''models.go'') ''modelsFile''} else {}) \<union>
     (if opt_EmitInterface opts
      then {go_file_name opts (or_name (opt_OutputQuerierFileName opts) ''querier.go'') ''interfaceFile''} else {}) \<union>
     (if \<exists>q \<in> set queries. gq_Cmd q = '':copyfrom''
      then {go_file_name opts (or_name (opt_OutputCopyfromFileName opts) ''copyfrom.go'') ''copyfromFile''} else {}) \<union>
     (if \<exists>q \<in> set queries. gq_Cmd q \<in> {'':batchexec'', '':batchmany'', '':batchone''}
      then {go_file_name opts (or_name (opt_OutputBatchFileName opts) ''batch.go'') ''batchFile''} else {}) \<union>
     {go_file_name opts (gq_SourceName q) ''queryFile'' |q. q \<in> set queries}"

lemma uses_iff:
  "usesCopyFrom queries \<longleftrightarrow> (\<exists>q \<in> set queries. gq_Cmd q = '':copyfrom'')"
  "usesBatch queries \<longleftrightarrow> (\<exists>q \<in> set queries. gq_Cmd q \<in> {'':batchexec'', '':batchmany'', '':batchone''})"
  by (auto simp: usesCopyFrom_def usesBatch_def list_ex_iff)

lemma plan_files:
  assumes "\<forall>xs. set (ord xs) = set xs" and "t_UsesCopyFrom t = usesCopyFrom queries" "t_UsesBatch t = usesBatch queries"
    and "IsDuckDB (t_SQLDriver t) = IsDuckDB (parseDriver opts)"
  shows "planned_file opts ` set (output_plan ord opts t queries) = wanted_files opts queries"
proof -
  have "go_file_name opts ''duckdb.go'' ''duckdbFile'' = ''duckdb.go''"
    by (simp add: go_file_name_def Let_def HasSuffix_def)
  moreover have "planned_file opts ` set (map (\<lambda>source. (source, ''queryFile'')) (ord (remdups (map gq_SourceName queries)))) =
      {go_file_name opts (gq_SourceName q) ''queryFile'' |q. q \<in> set queries}"
    using assms(1) by (auto simp: planned_file_def)
  ultimately show ?thesis
    unfolding output_plan_def wanted_files_def assms uses_iff
    by (simp add: planned_file_def image_Un insert_commute Un_assoc)
qed

text \<open>C30: a successful run writes exactly the files that are wanted, each once, all of them Go files: the file with
  the \<open>DBTX\<close> interface, one file for every source file with a query, the models file, the interface file and the
  DuckDB file exactly when the options ask for them, and the batch file and the copyfrom file exactly when some query
  has such a command.\<close>

theorem generate_files:
  assumes "generate u srt ord render opts enums structs queries = Inr out" and "\<forall>xs. set (ord xs) = set xs"
  shows "distinct (map fst out) \<and> (\<forall>f \<in> fst ` set out. HasSuffix f ''.go'') \<and> fst ` set out = wanted_files opts queries"
proof -
  let ?i = "\<lparr>i_Options = opts, i_Queries = queries, i_Enums = enums, i_Structs = structs\<rparr>"
  from assms(1) obtain t where t: "check_driver opts queries (make_ctx opts enums structs queries) = Inr t"
    and ex: "execute_all (execute_template u srt render ?i t) [] (output_plan ord opts t queries) = Inr out"
    by (auto simp: generate_def Let_def)
  have uses: "t_UsesCopyFrom t = usesCopyFrom queries" "t_UsesBatch t = usesBatch queries"
    "IsDuckDB (t_SQLDriver t) = IsDuckDB (parseDriver opts)"
    using check_driver_ctx [OF t] check_driver_duck [OF t] by (simp_all add: make_ctx_def)
  have "distinct (map fst ([] :: (string \<times> string) list))" by simp
  note run = execute_all_Inr [OF ex this]
  have names: "map fst out = map (planned_file opts) (output_plan ord opts t queries)"
    using run [THEN conjunct1] by simp
  then have files: "fst ` set out = planned_file opts ` set (output_plan ord opts t queries)"
    by (metis list.set_map)
  then have "\<forall>f \<in> fst ` set out. HasSuffix f ''.go''"
    by (auto simp: planned_file_def go_file_name_go)
  with plan_files [OF assms(2) uses] files show ?thesis by (intro conjI [OF run [THEN conjunct2]]) simp
qed

definition ex_query :: goQuery where
  "ex_query =
     \<lparr>gq_Cmd = '':exec'', gq_Comments = [], gq_MethodName = ''Ping'', gq_FieldName = ''pingStmt'',
      gq_ConstantName = ''ping'', gq_SQL = ''SELECT 1'', gq_SourceName = ''query.sql'', gq_Ret = zero_value,
      gq_Arg = zero_value, gq_Table = None, gq_Batch = None, gq_BatchFields = []\<rparr>"

definition ex_render :: renderer where
  "ex_render t imports templateName = Inr (t_SourceName t)"

definition ex_out :: "(string \<times> string) list" where
  "ex_out = [(''db.go'', ''db.go''), (''models.go'', ''models.go''), (''query.sql.go'', ''query.sql'')]"

theorem generate_files_witness:
  "generate ascii_only (sort_key is_Path) (\<lambda>xs. xs) ex_render zero_options [] [] [ex_query] = Inr ex_out \<and>
   distinct (map fst ex_out) \<and> fst ` set ex_out = wanted_files zero_options [ex_query]"
proof
  show run: "generate ascii_only (sort_key is_Path) (\<lambda>xs. xs) ex_render zero_options [] [] [ex_query] = Inr ex_out"
    by code_simp
  from generate_files [OF run] show "distinct (map fst ex_out) \<and> fst ` set ex_out = wanted_files zero_options [ex_query]"
    by simp
qed

section \<open>The variable of a \<open>:one\<close> query in the generated method\<close>

text \<open>The method takes its parameters as one argument, or one for each field of its struct.\<close>

definition single_argument :: "queryValue \<Rightarrow> bool" where
  "single_argument v \<longleftrightarrow> v_Struct v = None \<or> EmitStruct v"

definition import_names :: "importSpec list list \<Rightarrow> string set" where
  "import_names imports = {last (split_byte CHR ''/'' (is_Path s)) |s. s \<in> set (concat imports)}"

lemma replaceConflictedArg_one:
  "replaceConflictedArg u imports [q] = [q'] \<Longrightarrow>
     q' = (if v_Name (gq_Arg q) \<in> import_names imports
           then q\<lparr>gq_Arg := (gq_Arg q)\<lparr>v_Name := toCamelCase u (''arg_'' @ v_Name (gq_Arg q))\<rparr>\<rparr> else q)"
proof -
  have "import_names imports = set (map (\<lambda>s. last (split_byte CHR ''/'' (is_Path s))) (concat imports))"
    by (auto simp: import_names_def)
  then show "replaceConflictedArg u imports [q] = [q'] \<Longrightarrow> ?thesis"
    by (simp add: replaceConflictedArg_def Let_def)
qed

text \<open>The arguments after the argument value is given another name.\<close>

lemma Pairs_renamed:
  assumes "Pairs v = Inr args" and "Pairs (v\<lparr>v_Name := n\<rparr>) = Inr args'"
  shows "map fst args' = (if value_isEmpty v \<and> n = [] then [] else if single_argument v then [escape n] else map fst args)"
proof (cases "value_isEmpty v")
  case True
  with assms(2) show ?thesis
    by (auto simp: Pairs_def value_isEmpty_def DefineType_def value_Type_def)
next
  case False
  with assms show ?thesis
    by (auto simp: Pairs_def value_isEmpty_def single_argument_def EmitStruct_def DefineType_def value_Type_def
        split: option.splits if_splits)
qed

text \<open>C32: the variable a \<open>:one\<close> query with one column, not an embedded table, scans into, in the method as it is
  generated, is no reserved word and is the column's name followed by as many \<open>_2\<close> as needed; it has the name of an
  argument that carries a parameter only in one case: the single argument has the name of an imported package, so
  that it is renamed, and the new name is that of the variable.\<close>

theorem one_row_variable_is_free:
  assumes "query_ret u req opts models structs query (gq_Arg q) = Inr (gq_Ret q)"
    and "pq_Cmd query = '':one''" and "pq_Columns query = [c]" and "pc_EmbedTable c = None"
    and "replaceConflictedArg u imports [q] = [q']" and "Pairs (gq_Arg q') = Inr args"
  shows "(ReturnName (gq_Ret q') \<in> set (map fst args) \<longleftrightarrow>
        v_Name (gq_Arg q) \<in> import_names imports \<and> single_argument (gq_Arg q) \<and> args \<noteq> [] \<and>
        ReturnName (gq_Ret q) = escape (toCamelCase u (''arg_'' @ v_Name (gq_Arg q)))) \<and>
    \<not> IsReserved (ReturnName (gq_Ret q')) \<and>
    (\<exists>k. ReturnName (gq_Ret q') =
       escape (map (\<lambda>b. if b = CHR ''$'' then CHR ''_'' else b) (columnName c 0)) @ concat (replicate k ''_2''))"
proof -
  note q' = replaceConflictedArg_one [OF assms(5)]
  have ret: "gq_Ret q' = gq_Ret q" by (simp add: q')
  from one_row_variable [OF assms(1-4)] obtain args0 k where before: "Pairs (gq_Arg q) = Inr args0"
    "ReturnName (gq_Ret q) \<notin> set (map fst args0)" "\<not> IsReserved (ReturnName (gq_Ret q))"
    "ReturnName (gq_Ret q) =
       escape (map (\<lambda>b. if b = CHR ''$'' then CHR ''_'' else b) (columnName c 0)) @ concat (replicate k ''_2'')"
    by blast
  have "ReturnName (gq_Ret q) \<in> set (map fst args) \<longleftrightarrow>
        v_Name (gq_Arg q) \<in> import_names imports \<and> single_argument (gq_Arg q) \<and> args \<noteq> [] \<and>
        ReturnName (gq_Ret q) = escape (toCamelCase u (''arg_'' @ v_Name (gq_Arg q)))"
  proof (cases "v_Name (gq_Arg q) \<in> import_names imports")
    case True
    then have "gq_Arg q' = (gq_Arg q)\<lparr>v_Name := toCamelCase u (''arg_'' @ v_Name (gq_Arg q))\<rparr>" by (simp add: q')
    with assms(6) have "map fst args = (if value_isEmpty (gq_Arg q) \<and> toCamelCase u (''arg_'' @ v_Name (gq_Arg q)) = []
        then [] else if single_argument (gq_Arg q) then [escape (toCamelCase u (''arg_'' @ v_Name (gq_Arg q)))]
        else map fst args0)" by (intro Pairs_renamed [OF before(1)]) simp
    with before(2) True show ?thesis by (auto split: if_splits)
  next
    case False
    with assms(6) before(1) have "args = args0" by (simp add: q')
    with before(2) False show ?thesis by simp
  qed
  with before(3,4) show ?thesis unfolding ret by blast
qed

definition ex_method :: "string \<Rightarrow> string \<Rightarrow> goQuery" where
  "ex_method n r = ex_query\<lparr>gq_Arg := ex_arg\<lparr>v_Name := n\<rparr>, gq_Ret := ex_ret\<lparr>v_Name := r\<rparr>\<rparr>"

text \<open>A query \<open>GetName\<close> with a parameter \<open>name\<close> and a column \<open>name\<close>, in a file that imports \<open>time\<close>.\<close>

theorem one_row_variable_is_free_witness:
  "query_ret ascii_only ex_request zero_options {} [] ex_one ex_arg = Inr ex_ret \<and>
   \<not> IsReserved ''name_2'' \<and> ''name_2'' \<notin> set (map fst [(''name'', ''string'')])"
proof
  show run: "query_ret ascii_only ex_request zero_options {} [] ex_one ex_arg = Inr ex_ret" by code_simp
  have query: "query_ret ascii_only ex_request zero_options {} [] ex_one (gq_Arg (ex_method ''name'' ''name_2'')) =
      Inr (gq_Ret (ex_method ''name'' ''name_2''))"
    using run by (simp add: ex_method_def ex_arg_def ex_ret_def zero_value_def)
  have renamed: "replaceConflictedArg ascii_only [[\<lparr>is_ID = [], is_Path = ''time''\<rparr>]] [ex_method ''name'' ''name_2''] =
      [ex_method ''name'' ''name_2'']"
    by (simp add: replaceConflictedArg_def ex_method_def ex_arg_def)
  have args: "Pairs (gq_Arg (ex_method ''name'' ''name_2'')) = Inr [(''name'', ''string'')]" by code_simp
  have name: "ReturnName (gq_Ret (ex_method ''name'' ''name_2'')) = ''name_2''" by code_simp
  have one: "pq_Cmd ex_one = '':one''" "pq_Columns ex_one = [ex_column ''name'']" "pc_EmbedTable (ex_column ''name'') = None"
    by (simp_all add: ex_one_def ex_column_def)
  have "v_Name (gq_Arg (ex_method ''name'' ''name_2'')) \<notin> import_names [[\<lparr>is_ID = [], is_Path = ''time''\<rparr>]]"
    by (simp add: import_names_def ex_method_def)
  with one_row_variable_is_free [OF query one renamed args]
  show "\<not> IsReserved ''name_2'' \<and> ''name_2'' \<notin> set (map fst [(''name'', ''string'')])" unfolding name by blast
qed

text \<open>With a parameter \<open>time\<close>, a column \<open>argTime\<close> and the package \<open>time\<close> among the imports, the argument and the
  variable of the generated method are both \<open>argTime\<close>.\<close>

lemma one_row_variable_clash:
  "query_ret ascii_only ex_request zero_options {} [] (ex_one\<lparr>pq_Columns := [ex_column ''argTime'']\<rparr>) (ex_arg\<lparr>v_Name := ''time''\<rparr>) =
     Inr (ex_ret\<lparr>v_Name := ''argTime'', v_DBName := ''argTime'', v_Column := Some (ex_column ''argTime'')\<rparr>) \<and>
   map (\<lambda>q. (Pairs (gq_Arg q), ReturnName (gq_Ret q)))
     (replaceConflictedArg ascii_only [[\<lparr>is_ID = [], is_Path = ''time''\<rparr>]] [ex_method ''time'' ''argTime'']) =
   [(Inr [(''argTime'', ''string'')], ''argTime'')]"
  by (rule conjI) code_simp+

text \<open>Only the parameters are looked at: the variable of a column \<open>ctx\<close>, \<open>row\<close> or \<open>err\<close> has the name of the context
  argument or of a variable that the method declares itself.\<close>

lemma one_row_variable_ctx:
  "map (\<lambda>n. map_sum id ReturnName
      (query_ret ascii_only ex_request zero_options {} [] (ex_one\<lparr>pq_Columns := [ex_column n]\<rparr>) ex_arg)) [''ctx'', ''row'', ''err''] =
   [Inr ''ctx'', Inr ''row'', Inr ''err'']"
  by code_simp

section \<open>Declared names\<close>

lemma find_Some_mem: "find P xs = Some x \<Longrightarrow> x \<in> set xs \<and> P x"
  by (auto simp: find_Some_iff)

text \<open>A run that passes validation declares no type twice across enums and models: no model has the name of an
  enum or of its nullable form, and with exported queries no query constant has the name of a type; and validation
  fails only when there is such a clash.\<close>

theorem validate_iff:
  "validate opts enums structs queries = None \<longleftrightarrow>
     enum_type_names enums \<inter> set (map gs_Name structs) = {} \<and>
     set (if opt_EmitExportedQueries opts then map gq_ConstantName queries else []) \<inter>
       (enum_type_names enums \<union> set (map gs_Name structs)) = {}"
proof (cases "find (\<lambda>s. gs_Name s \<in> enum_type_names enums) structs")
  case None
  then have disjoint: "enum_type_names enums \<inter> set (map gs_Name structs) = {}"
    by (auto simp: find_None_iff)
  show ?thesis
    by (simp only: validate_def Let_def None option.case disjoint)
      (auto simp: find_None_iff split: option.split dest!: find_Some_mem)
next
  case (Some s)
  then have "gs_Name s \<in> enum_type_names enums \<inter> set (map gs_Name structs)"
    by (auto simp: find_Some_iff)
  with Some show ?thesis by (auto simp only: validate_def Let_def option.case)
qed

end
