(* ===== verification/Go_Type_Props.thy ===== *)
theory Go_Type_Props
  imports Go_Gen_Props
begin

text \<open>
  What the Go types of columns promise: the integers of a column fit its Go type, and every package a field's type names is
  imported by the models file.
\<close>

section \<open>Packages\<close>

definition package_of :: "string \<Rightarrow> string list" where
  "package_of t = (if CHR ''.'' \<in> set t then [takeWhile (\<lambda>c. c \<noteq> CHR ''.'') t] else [])"

text \<open>The packages a type names: its own, and that of the argument of \<open>sql.Null[T]\<close>.\<close>

definition packages_of :: "string \<Rightarrow> string list" where
  "packages_of t =
     (let t = trimSliceAndPointerPrefix t in
      package_of t @ (if HasPrefix t ''sql.Null['' then package_of (TrimSuffix (drop 9 t) '']'') else []))"

definition std_tests :: "(string \<times> string) list" where
  "std_tests =
     [(''sql'', ''sql.Null''), (''json'', ''json.RawMessage''), (''time'', ''time.Time''), (''net'', ''net.IP''),
      (''net'', ''net.HardwareAddr''), (''netip'', ''netip.Addr''), (''netip'', ''netip.Prefix''), (''big'', ''big.Int'')]"

definition pkg_tests :: "(string \<times> string) list" where
  "pkg_tests =
     [(''pgtype'', ''pgtype.''), (''pqtype'', ''pqtype.CIDR''), (''pqtype'', ''pqtype.Inet''), (''pqtype'', ''pqtype.Macaddr''),
      (''pqtype'', ''pqtype.NullRawMessage''), (''uuid'', ''uuid.UUID''), (''uuid'', ''uuid.NullUUID''),
      (''pq'', ''pq.NullTime''), (''pgvector'', ''pgvector.Vector''), (''duckdb'', ''duckdb.'')]"

definition import_tests :: "(string \<times> string) list" where
  "import_tests = std_tests @ pkg_tests"

definition covered :: "string \<Rightarrow> bool" where
  "covered t =
     list_all (\<lambda>p. list_ex (\<lambda>test. if fst test = p then hasPrefixIgnoringSliceAndPointerPrefix t (snd test) else False)
       import_tests) (packages_of t)"

lemma covered_test:
  assumes "covered t" and "p \<in> set (packages_of t)"
  obtains n where "(p, n) \<in> set import_tests" and "hasPrefixIgnoringSliceAndPointerPrefix t n"
proof -
  have "list_ex (\<lambda>test. if fst test = p then hasPrefixIgnoringSliceAndPointerPrefix t (snd test) else False) import_tests"
    using assms unfolding covered_def list_all_iff by blast
  then obtain test where "test \<in> set import_tests" "fst test = p" "hasPrefixIgnoringSliceAndPointerPrefix t (snd test)"
    unfolding list_ex_iff by (metis (full_types))
  then show thesis using that [of "snd test"] by (metis prod.collapse)
qed

text \<open>The Go types of the tables, each with what it takes to import its packages, as a field and as a slice.\<close>

definition go_types :: "string list" where
  "go_types =
     [''int64'', ''*int64'', ''sql.NullInt64'', ''[]byte'', ''float64'', ''*float64'', ''sql.NullFloat64'', ''bool'',
      ''*bool'', ''sql.NullBool'', ''time.Time'', ''*time.Time'', ''sql.NullTime'', ''json.RawMessage'', ''any'',
      ''string'', ''sql.NullString'', ''uint8'', ''int8'', ''sql.NullInt16'', ''int16'', ''uint16'', ''uint32'', ''int32'',
      ''sql.NullInt32'', ''uint64'', ''*int8'', ''*int16'', ''*int32'', ''*uint8'', ''sql.Null[uint8]'', ''*uint16'',
      ''sql.Null[uint16]'', ''*uint32'', ''sql.Null[uint32]'', ''*uint64'', ''sql.Null[uint64]'', ''*big.Int'', ''float32'',
      ''*float32'', ''sql.Null[float32]'', ''*string'', ''duckdb.Interval'', ''*duckdb.Interval'',
      ''sql.Null[duckdb.Interval]'', ''uuid.UUID'', ''*uuid.UUID'', ''uuid.NullUUID'', ''map[string]any'',
      ''*map[string]any'', ''sql.Null[map[string]any]'', ''duckdb.Map'', ''*duckdb.Map'', ''sql.Null[duckdb.Map]'',
      ''pgtype.Int4'', ''pgtype.Int8'', ''pgtype.Int2'', ''pgtype.Float8'', ''pgtype.Float4'', ''pgtype.Numeric'',
      ''pgtype.Bool'', ''pgtype.JSON'', ''pqtype.NullRawMessage'', ''pgtype.JSONB'', ''pgtype.Date'', ''pgtype.Time'',
      ''pgtype.Timestamp'', ''pgtype.Timestamptz'', ''pgtype.Text'', ''pgtype.UUID'', ''netip.Addr'', ''*netip.Addr'',
      ''pgtype.Inet'', ''pqtype.Inet'', ''netip.Prefix'', ''*netip.Prefix'', ''pgtype.CIDR'', ''pqtype.CIDR'',
      ''net.HardwareAddr'', ''pgtype.Macaddr'', ''pqtype.Macaddr'', ''pgtype.Interval'', ''pgtype.Daterange'',
      ''pgtype.Range[pgtype.Date]'', ''pgtype.Multirange[pgtype.Range[pgtype.Date]]'', ''pgtype.Tsrange'',
      ''pgtype.Range[pgtype.Timestamp]'', ''pgtype.Multirange[pgtype.Range[pgtype.Timestamp]]'', ''pgtype.Tstzrange'',
      ''pgtype.Range[pgtype.Timestamptz]'', ''pgtype.Multirange[pgtype.Range[pgtype.Timestamptz]]'', ''pgtype.Numrange'',
      ''pgtype.Range[pgtype.Numeric]'', ''pgtype.Multirange[pgtype.Range[pgtype.Numeric]]'', ''pgtype.Int4range'',
      ''pgtype.Range[pgtype.Int4]'', ''pgtype.Multirange[pgtype.Range[pgtype.Int4]]'', ''pgtype.Int8range'',
      ''pgtype.Range[pgtype.Int8]'', ''pgtype.Multirange[pgtype.Range[pgtype.Int8]]'', ''pgtype.Hstore'', ''pgtype.Bits'',
      ''pgtype.Varbit'', ''pgtype.Uint32'', ''pgtype.CID'', ''pgtype.OID'', ''pgtype.TID'', ''pgtype.XID'',
      ''pgtype.Uint64'', ''pgtype.Box'', ''pgtype.Circle'', ''pgtype.Line'', ''pgtype.Lseg'', ''pgtype.Path'',
      ''pgtype.Point'', ''pgtype.Polygon'', ''*pgvector.Vector'', ''pgvector.Vector'']"

definition importable :: "string \<Rightarrow> bool" where
  "importable t \<longleftrightarrow> covered t \<and> covered (''[]'' @ t)"

lemma go_types_importable: "list_all importable go_types"
  by code_simp

lemma importable_types [simp]:
  "importable ''int64''" "importable ''*int64''" "importable ''sql.NullInt64''" "importable ''[]byte''"
  "importable ''float64''" "importable ''*float64''" "importable ''sql.NullFloat64''" "importable ''bool''"
  "importable ''*bool''" "importable ''sql.NullBool''" "importable ''time.Time''" "importable ''*time.Time''"
  "importable ''sql.NullTime''" "importable ''json.RawMessage''" "importable ''any''" "importable ''string''"
  "importable ''sql.NullString''" "importable ''uint8''" "importable ''int8''" "importable ''sql.NullInt16''"
  "importable ''int16''" "importable ''uint16''" "importable ''uint32''" "importable ''int32''"
  "importable ''sql.NullInt32''" "importable ''uint64''" "importable ''*int8''" "importable ''*int16''"
  "importable ''*int32''" "importable ''*uint8''" "importable ''sql.Null[uint8]''" "importable ''*uint16''"
  "importable ''sql.Null[uint16]''" "importable ''*uint32''" "importable ''sql.Null[uint32]''" "importable ''*uint64''"
  "importable ''sql.Null[uint64]''" "importable ''*big.Int''" "importable ''float32''" "importable ''*float32''"
  "importable ''sql.Null[float32]''" "importable ''*string''" "importable ''duckdb.Interval''" "importable ''*duckdb.Interval''"
  "importable ''sql.Null[duckdb.Interval]''" "importable ''uuid.UUID''" "importable ''*uuid.UUID''" "importable ''uuid.NullUUID''"
  "importable ''map[string]any''" "importable ''*map[string]any''" "importable ''sql.Null[map[string]any]''" "importable ''duckdb.Map''"
  "importable ''*duckdb.Map''" "importable ''sql.Null[duckdb.Map]''" "importable ''pgtype.Int4''" "importable ''pgtype.Int8''"
  "importable ''pgtype.Int2''" "importable ''pgtype.Float8''" "importable ''pgtype.Float4''" "importable ''pgtype.Numeric''"
  "importable ''pgtype.Bool''" "importable ''pgtype.JSON''" "importable ''pqtype.NullRawMessage''" "importable ''pgtype.JSONB''"
  "importable ''pgtype.Date''" "importable ''pgtype.Time''" "importable ''pgtype.Timestamp''" "importable ''pgtype.Timestamptz''"
  "importable ''pgtype.Text''" "importable ''pgtype.UUID''" "importable ''netip.Addr''" "importable ''*netip.Addr''"
  "importable ''pgtype.Inet''" "importable ''pqtype.Inet''" "importable ''netip.Prefix''" "importable ''*netip.Prefix''"
  "importable ''pgtype.CIDR''" "importable ''pqtype.CIDR''" "importable ''net.HardwareAddr''" "importable ''pgtype.Macaddr''"
  "importable ''pqtype.Macaddr''" "importable ''pgtype.Interval''" "importable ''pgtype.Daterange''" "importable ''pgtype.Range[pgtype.Date]''"
  "importable ''pgtype.Multirange[pgtype.Range[pgtype.Date]]''" "importable ''pgtype.Tsrange''" "importable ''pgtype.Range[pgtype.Timestamp]''" "importable ''pgtype.Multirange[pgtype.Range[pgtype.Timestamp]]''"
  "importable ''pgtype.Tstzrange''" "importable ''pgtype.Range[pgtype.Timestamptz]''" "importable ''pgtype.Multirange[pgtype.Range[pgtype.Timestamptz]]''" "importable ''pgtype.Numrange''"
  "importable ''pgtype.Range[pgtype.Numeric]''" "importable ''pgtype.Multirange[pgtype.Range[pgtype.Numeric]]''" "importable ''pgtype.Int4range''" "importable ''pgtype.Range[pgtype.Int4]''"
  "importable ''pgtype.Multirange[pgtype.Range[pgtype.Int4]]''" "importable ''pgtype.Int8range''" "importable ''pgtype.Range[pgtype.Int8]''" "importable ''pgtype.Multirange[pgtype.Range[pgtype.Int8]]''"
  "importable ''pgtype.Hstore''" "importable ''pgtype.Bits''" "importable ''pgtype.Varbit''" "importable ''pgtype.Uint32''"
  "importable ''pgtype.CID''" "importable ''pgtype.OID''" "importable ''pgtype.TID''" "importable ''pgtype.XID''"
  "importable ''pgtype.Uint64''" "importable ''pgtype.Box''" "importable ''pgtype.Circle''" "importable ''pgtype.Line''"
  "importable ''pgtype.Lseg''" "importable ''pgtype.Path''" "importable ''pgtype.Point''" "importable ''pgtype.Polygon''"
  "importable ''*pgvector.Vector''" "importable ''pgvector.Vector''"
  using go_types_importable by (simp_all add: go_types_def)

lemma importable_if: "importable s \<Longrightarrow> importable t \<Longrightarrow> importable (if b then s else t)"
  by simp

lemma importable_cases_Nil: "\<forall>c \<in> set []. importable (snd c)"
  by simp

lemma importable_cases_Cons: "importable t \<Longrightarrow> \<forall>c \<in> set cs. importable (snd c) \<Longrightarrow> \<forall>c \<in> set ((ks, t) # cs). importable (snd c)"
  by simp

lemma tables_importable:
  "\<forall>c \<in> set (sqlite_cases nn ptr). importable (snd c)"
  "\<forall>c \<in> set (mysql_cases nn un len1). importable (snd c)"
  "\<forall>c \<in> set (duckdb_number_cases nn ptr). importable (snd c)"
  "\<forall>c \<in> set (duckdb_value_cases nn ptr). importable (snd c)"
  "\<forall>c \<in> set (pg_number_cases nn ptr d). importable (snd c)"
  "\<forall>c \<in> set (pg_value_cases nn ptr d). importable (snd c)"
  "\<forall>c \<in> set (pg_net_cases nn ptr d). importable (snd c)"
  "\<forall>c \<in> set (pg_range_cases nn ptr d). importable (snd c)"
  unfolding sqlite_cases_def mysql_cases_def duckdb_number_cases_def duckdb_value_cases_def pg_number_cases_def
      pg_value_cases_def pg_net_cases_def pg_range_cases_def
  by (intro importable_cases_Cons importable_cases_Nil importable_if importable_types)+

section \<open>Types with no package\<close>

lemma set_TrimPrefix: "set (TrimPrefix t s) \<subseteq> set t"
  by (auto simp: TrimPrefix_def dest: in_set_dropD)

lemma covered_no_dot: "CHR ''.'' \<notin> set t \<Longrightarrow> covered t"
proof -
  assume t: "CHR ''.'' \<notin> set t"
  let ?t = "trimSliceAndPointerPrefix t"
  have dot: "CHR ''.'' \<notin> set ?t" using t set_TrimPrefix unfolding trimSliceAndPointerPrefix_def by blast
  have "\<not> HasPrefix ?t ''sql.Null[''"
  proof
    assume "HasPrefix ?t ''sql.Null[''"
    then have "?t = ''sql.Null['' @ drop (length ''sql.Null['') ?t" by (rule HasPrefix_split)
    then have "CHR ''.'' \<in> set ?t" by (metis Un_iff list.set_intros set_append)
    with dot show False by simp
  qed
  with dot show ?thesis by (simp add: covered_def packages_of_def package_of_def Let_def)
qed

lemma importable_no_dot: "CHR ''.'' \<notin> set t \<Longrightarrow> importable t"
  by (simp add: importable_def covered_no_dot)

lemma StructName_no_dot:
  assumes "ascii_laws u" and "ascii n" and "opt_Rename opts = []"
  shows "CHR ''.'' \<notin> set (StructName u n opts)"
proof -
  have "\<forall>c \<in> set (struct_body u opts n). c \<noteq> CHR ''.''"
    using struct_body_alnum(1) [OF assms(1,2), of opts] by (auto simp: alnum_def ascii_letter_def ascii_digit_def)
  then show ?thesis
    by (auto simp: StructName_unrenamed [OF assms(1,2)] assms(3) split: list.split)
qed

definition ascii_catalog :: "pcatalog \<Rightarrow> bool" where
  "ascii_catalog cat \<longleftrightarrow> (\<forall>s \<in> set (pcat_Schemas cat). ascii (ps_Name s) \<and> (\<forall>e \<in> set (ps_Enums s). ascii (pe_Name e)))"

lemma enum_type_importable:
  assumes "ascii_laws u" and "opt_Rename opts = []" and "ascii_catalog cat" and "s \<in> set (pcat_Schemas cat)" and "e \<in> set (ps_Enums s)"
  shows "CHR ''.'' \<notin> set (enum_type_name u opts def s e)"
proof -
  have "ascii (pe_Name e)" "ascii (ps_Name s)" using assms(3-5) by (auto simp: ascii_catalog_def)
  then show ?thesis
    using StructName_no_dot [OF assms(1) _ assms(2)] by (simp add: enum_type_name_def)
qed

section \<open>Every engine\<close>

lemma all_enums_mem: "(s, e) \<in> set (all_enums cat) \<longleftrightarrow> s \<in> set (pcat_Schemas cat) \<and> e \<in> set (ps_Enums s)"
  by (auto simp: all_enums_def)

lemma table_switch:
  "switch x (sqlite_cases nn ptr) = Some t \<Longrightarrow> importable t"
  "switch x (mysql_cases nn un len1) = Some t \<Longrightarrow> importable t"
  "switch x (duckdb_number_cases nn ptr @ duckdb_value_cases nn ptr) = Some t \<Longrightarrow> importable t"
  "switch x (pg_cases nn ptr d) = Some t \<Longrightarrow> importable t"
  by (erule switch_all, simp add: tables_importable pg_cases_def ball_Un)+

text \<open>An engine's type function looks in its table and then at the user's types.\<close>

lemma importable_lookup:
  "(\<And>t. look = Some t \<Longrightarrow> importable t) \<Longrightarrow> (look = None \<Longrightarrow> importable rest) \<Longrightarrow>
     importable (case look of Some t \<Rightarrow> t | None \<Rightarrow> rest)"
  by (cases look) auto

lemma sqliteType_importable: "importable (sqliteType opts col)"
  unfolding sqliteType_def Let_def by (rule importable_lookup, erule table_switch(1), simp)

definition enum_form :: "string \<Rightarrow> string \<Rightarrow> bool" where
  "enum_form n t \<longleftrightarrow> t = n \<or> t = ''Null'' @ n \<or> t = ''*'' @ n"

lemma enum_form_importable:
  assumes "ascii_laws u" and "opt_Rename opts = []" and "ascii_catalog cat" and "s \<in> set (pcat_Schemas cat)" and "e \<in> set (ps_Enums s)"
    and "enum_form (enum_type_name u opts def s e) t"
  shows "importable t"
  using enum_type_importable [OF assms(1-5), of def] assms(6)
  by (intro importable_no_dot) (auto simp: enum_form_def)

lemma pg_user_type_importable:
  assumes "ascii_laws u" and "opt_Rename opts = []" and "ascii_catalog cat" and "set ss \<subseteq> set (pcat_Schemas cat)"
    and "pg_user_type u opts def rel nn ptr pe ss = Some t"
  shows "importable t"
  using assms(4,5)
proof (induction ss)
  case (Cons s ss)
  let ?find = "find (\<lambda>e. id_Name rel = pe_Name e \<and> id_Schema rel = ps_Name s) (ps_Enums s)"
  show ?case
  proof (cases "(ps_Name s = ''pg_catalog'' \<or> ps_Name s = ''information_schema'') \<or> ?find = None")
    case True
    with Cons show ?thesis by (auto split: if_splits)
  next
    case False
    then obtain e where e: "?find = Some e" by blast
    with False Cons.prems have "enum_form (enum_type_name u opts def s e) t"
      by (auto simp: enum_form_def split: if_splits)
    moreover have "s \<in> set (pcat_Schemas cat)" "e \<in> set (ps_Enums s)"
      using Cons.prems(1) find_Some_mem [OF e] by auto
    ultimately show ?thesis using enum_form_importable [OF assms(1-3)] by blast
  qed
qed simp

lemma goInnerType_importable:
  assumes "ascii_laws u" and "opt_Rename opts = []" and "ascii_catalog (req_Catalog req)" and "opt_Overrides opts = []"
  shows "importable (goInnerType u req opts col)"
proof -
  have enum: "importable (case find P (all_enums (req_Catalog req)) of Some (s, e) \<Rightarrow> f s e | None \<Rightarrow> ''any'')"
    if "\<And>s e. enum_form (enum_type_name u opts def s e) (f s e)" for P f def
  proof (cases "find P (all_enums (req_Catalog req))")
    case (Some se)
    obtain s e where se: "se = (s, e)" by fastforce
    with find_Some_mem [OF Some] have "s \<in> set (pcat_Schemas (req_Catalog req))" "e \<in> set (ps_Enums s)"
      by (simp_all add: all_enums_mem)
    then show ?thesis using enum_form_importable [OF assms(1-3) _ _ that] by (simp add: Some se)
  qed simp
  have "importable (mysqlType u req opts col)"
    unfolding mysqlType_def Let_def
    by (rule importable_lookup, erule table_switch(2))
      (rule enum [of "pcat_DefaultSchema (req_Catalog req)"], simp add: enum_form_def)
  moreover have "importable (duckdbType u req opts col)"
    unfolding duckdbType_def Let_def
    by (rule importable_lookup, erule table_switch(3))
      (auto split: sum.split simp: enum_form_def intro!: enum [of "pcat_DefaultSchema (req_Catalog req)"])
  moreover have "importable (postgresType u req opts col)"
    unfolding postgresType_def Let_def
    by (rule importable_lookup, erule table_switch(4))
      (auto split: sum.split option.split dest: pg_user_type_importable [OF assms(1-3) order_refl])
  ultimately show ?thesis
    using sqliteType_importable assms(4) by (simp add: goInnerType_def)
qed

section \<open>The imports of the models file\<close>

lemma map_ok_mem: "map_ok f xs = Inr ys \<Longrightarrow> y \<in> set ys \<Longrightarrow> \<exists>x \<in> set xs. f x = Inr y"
  by (metis in_set_conv_nth map_ok_length map_ok_nth)

lemma add_all_set:
  "add_all tests xs = Inr ys \<Longrightarrow> set ys = set xs \<union> {x. (Inr True, x) \<in> set tests}"
proof (induction tests xs rule: add_all.induct)
  case (2 test x rest xs)
  then show ?case by (cases test) (auto simp: add_when_def)
qed simp

definition std_paths :: "(string \<times> string) list" where
  "std_paths =
     [(''sql'', ''database/sql''), (''json'', ''encoding/json''), (''time'', ''time''), (''net'', ''net''), (''netip'', ''net/netip''),
      (''big'', ''math/big'')]"

definition package_path :: "string \<Rightarrow> (string \<times> string) list" where
  "package_path d =
     std_paths @
     [(''pgtype'', if d = SQLDriverPGXV5 then ''github.com/jackc/pgx/v5/pgtype'' else ''github.com/jackc/pgtype''),
      (''pqtype'', ''github.com/sqlc-dev/pqtype''), (''uuid'', ''github.com/google/uuid''), (''pq'', ''github.com/lib/pq''),
      (''pgvector'', ''github.com/pgvector/pgvector-go''), (''duckdb'', SQLDriverDuckDB)]"

lemma package_path_mem:
  "(''pgtype'', if d = SQLDriverPGXV5 then ''github.com/jackc/pgx/v5/pgtype'' else ''github.com/jackc/pgtype'') \<in> set (package_path d)"
  "(''pqtype'', ''github.com/sqlc-dev/pqtype'') \<in> set (package_path d)" "(''pq'', ''github.com/lib/pq'') \<in> set (package_path d)"
  "(''uuid'', ''github.com/google/uuid'') \<in> set (package_path d)"
  "(''pgvector'', ''github.com/pgvector/pgvector-go'') \<in> set (package_path d)"
  "(''duckdb'', SQLDriverDuckDB) \<in> set (package_path d)"
  by (simp_all add: package_path_def split del: if_split)

lemma std_imports_used:
  "std_imports opts qs uses = Inr std \<Longrightarrow> uses n = Inr True \<Longrightarrow> (n, p) \<in> set ((''sql.Null'', ''database/sql'') # stdlibTypes) \<Longrightarrow>
     p \<in> set std"
proof -
  assume std: "std_imports opts qs uses = Inr std" and n: "uses n = Inr True"
    and mem: "(n, p) \<in> set ((''sql.Null'', ''database/sql'') # stdlibTypes)"
  have "(uses n, p) \<in> (\<lambda>(t, p). (uses t, p)) ` set stdlibTypes \<or> (uses n, p) = (uses ''sql.Null'', ''database/sql'')"
    using mem by (auto intro: rev_image_eqI)
  then show ?thesis
    using add_all_set [OF std [unfolded std_imports_def Let_def]] n by auto
qed

lemma pkg_imports_used:
  assumes "pkg_imports opts qs uses std = Inr pkg" and "opt_Overrides opts = []"
  shows "uses ''pgtype.'' = Inr True \<Longrightarrow> path_spec (if parseDriver opts = SQLDriverPGXV5
      then ''github.com/jackc/pgx/v5/pgtype'' else ''github.com/jackc/pgtype'') \<in> set pkg"
    and "any_ok uses pqtypeTypes = Inr True \<Longrightarrow> path_spec ''github.com/sqlc-dev/pqtype'' \<in> set pkg"
    and "uses ''pq.NullTime'' = Inr True \<Longrightarrow> path_spec ''github.com/lib/pq'' \<in> set pkg"
    and "uses ''uuid.UUID'' = Inr True \<Longrightarrow> path_spec ''github.com/google/uuid'' \<in> set pkg"
    and "uses ''uuid.NullUUID'' = Inr True \<Longrightarrow> path_spec ''github.com/google/uuid'' \<in> set pkg"
    and "uses ''pgvector.Vector'' = Inr True \<Longrightarrow> path_spec ''github.com/pgvector/pgvector-go'' \<in> set pkg"
    and "uses ''duckdb.'' = Inr True \<Longrightarrow> IsDuckDB (parseDriver opts) \<Longrightarrow> path_spec SQLDriverDuckDB \<in> set pkg"
proof -
  have over: "also_when (Inr True) (\<not> overridden opts t) = Inr True" for t
    using assms(2) by (simp add: overridden_def also_when_def)
  note k = add_all_set [OF assms(1) [unfolded pkg_imports_def Let_def]]
  show "uses ''pgtype.'' = Inr True \<Longrightarrow> path_spec (if parseDriver opts = SQLDriverPGXV5
      then ''github.com/jackc/pgx/v5/pgtype'' else ''github.com/jackc/pgtype'') \<in> set pkg"
    unfolding k by (simp del: if_split_asm add: Let_def)
  show "any_ok uses pqtypeTypes = Inr True \<Longrightarrow> path_spec ''github.com/sqlc-dev/pqtype'' \<in> set pkg"
    unfolding k by simp
  show "uses ''pq.NullTime'' = Inr True \<Longrightarrow> path_spec ''github.com/lib/pq'' \<in> set pkg" unfolding k by (simp add: over)
  show "uses ''uuid.UUID'' = Inr True \<Longrightarrow> path_spec ''github.com/google/uuid'' \<in> set pkg" unfolding k by (simp add: over)
  show "uses ''uuid.NullUUID'' = Inr True \<Longrightarrow> path_spec ''github.com/google/uuid'' \<in> set pkg" unfolding k by (simp add: over)
  show "uses ''pgvector.Vector'' = Inr True \<Longrightarrow> path_spec ''github.com/pgvector/pgvector-go'' \<in> set pkg"
    unfolding k by (simp add: over)
  show "uses ''duckdb.'' = Inr True \<Longrightarrow> IsDuckDB (parseDriver opts) \<Longrightarrow> path_spec SQLDriverDuckDB \<in> set pkg"
    unfolding k by (simp add: also_when_def)
qed

lemma std_tests_paths:
  "\<forall>(p, n) \<in> set std_tests. \<exists>(n', path) \<in> set ((''sql.Null'', ''database/sql'') # stdlibTypes).
     n' = n \<and> (p, path) \<in> set std_paths"
  by code_simp

lemma import_test_path:
  assumes "buildImports opts qs uses = Inr (std, pkg)" and "(p, n) \<in> set import_tests" and "uses n = Inr True"
    and "opt_Overrides opts = []" and "p = ''duckdb'' \<longrightarrow> IsDuckDB (parseDriver opts)" and "\<forall>t. uses t = Inr (q t)"
  shows "\<exists>path. (p, path) \<in> set (package_path (parseDriver opts)) \<and> (path \<in> set std \<or> path_spec path \<in> set pkg)"
    (is "?R p")
proof -
  from assms(1) have std: "std_imports opts qs uses = Inr std" and pkg: "pkg_imports opts qs uses std = Inr pkg"
    by (auto simp: buildImports_def)
  have std_test: "?R p'" if "(n', path) \<in> set ((''sql.Null'', ''database/sql'') # stdlibTypes)" "uses n' = Inr True"
    "(p', path) \<in> set (package_path (parseDriver opts))" for p' n' path
    using std_imports_used [OF std that(2,1)] that(3) by blast
  have pkg_test: "?R p'" if "path_spec path \<in> set pkg" "(p', path) \<in> set (package_path (parseDriver opts))" for p' path
    using that by blast
  have any: "any_ok uses pqtypeTypes = Inr True" if "uses t = Inr True" "t \<in> set pqtypeTypes" for t
    using any_ok_total [of pqtypeTypes uses q] assms(6) that by auto
  note used = pkg_imports_used [OF pkg assms(4)]
  have std_case: "\<exists>path. (n, path) \<in> set ((''sql.Null'', ''database/sql'') # stdlibTypes) \<and>
      (p, path) \<in> set (package_path (parseDriver opts))" if "(p, n) \<in> set std_tests"
    using bspec [OF std_tests_paths that] unfolding package_path_def set_append by blast
  have pkg_case: "p = ''pgtype'' \<and> n = ''pgtype.'' \<or> p = ''pqtype'' \<and> n \<in> set pqtypeTypes \<or> p = ''pq'' \<and> n = ''pq.NullTime'' \<or>
      p = ''uuid'' \<and> (n = ''uuid.UUID'' \<or> n = ''uuid.NullUUID'') \<or> p = ''pgvector'' \<and> n = ''pgvector.Vector'' \<or>
      p = ''duckdb'' \<and> n = ''duckdb.''" if "(p, n) \<in> set pkg_tests"
    using that by (auto simp: pkg_tests_def pqtypeTypes_def)
  show ?thesis
  proof (cases "(p, n) \<in> set std_tests")
    case True
    then show ?thesis using std_case std_test assms(3) by blast
  next
    case False
    then have "(p, n) \<in> set pkg_tests" using assms(2) unfolding import_tests_def set_append by simp
    from pkg_case [OF this] show ?thesis
    proof (elim disjE conjE)
      assume "p = ''pgtype''" "n = ''pgtype.''"
      then show ?thesis using pkg_test [OF used(1) package_path_mem(1)] assms(3) by simp
    next
      assume "p = ''pqtype''" "n \<in> set pqtypeTypes"
      then show ?thesis using pkg_test [OF used(2) package_path_mem(2)] any [OF assms(3)] by simp
    next
      assume "p = ''pq''" "n = ''pq.NullTime''"
      then show ?thesis using pkg_test [OF used(3) package_path_mem(3)] assms(3) by simp
    next
      assume "p = ''uuid''" "n = ''uuid.UUID''"
      then show ?thesis using pkg_test [OF used(4) package_path_mem(4)] assms(3) by simp
    next
      assume "p = ''uuid''" "n = ''uuid.NullUUID''"
      then show ?thesis using pkg_test [OF used(5) package_path_mem(4)] assms(3) by simp
    next
      assume "p = ''pgvector''" "n = ''pgvector.Vector''"
      then show ?thesis using pkg_test [OF used(6) package_path_mem(5)] assms(3) by simp
    next
      assume "p = ''duckdb''" "n = ''duckdb.''"
      then show ?thesis using pkg_test [OF used(7) package_path_mem(6)] assms(3,5) by simp
    qed
  qed
qed

text \<open>Columns as a catalog has them: no \<open>sqlc.slice\<close>, and arrays of one dimension.\<close>

definition plain_column :: "pcolumn \<Rightarrow> bool" where
  "plain_column c \<longleftrightarrow> \<not> pc_IsSqlcSlice c \<and> (pc_IsArray c \<longrightarrow> pc_ArrayDims c = 1)"

lemma goType_covered:
  assumes "ascii_laws u" and "opt_Rename opts = []" and "ascii_catalog (req_Catalog req)" and "opt_Overrides opts = []"
    and "plain_column c" and "goType u req opts c = Inr t"
  shows "covered t"
  using goInnerType_importable [OF assms(1-4), of c] assms(4-6)
  by (auto simp: goType_def plain_column_def importable_def Let_def strings_Repeat_def split: if_splits)

lemma model_field_covered:
  assumes "buildStructs u upstream srtS req opts = Inr structs" and "sorts_by gs_Name srtS"
    and "ascii_laws u" and "opt_Rename opts = []" and "ascii_catalog (req_Catalog req)" and "opt_Overrides opts = []"
    and "\<forall>s \<in> set (pcat_Schemas (req_Catalog req)). \<forall>t \<in> set (ps_Tables s). \<forall>c \<in> set (pt_Columns t). plain_column c"
    and "s \<in> set structs" and "f \<in> set (gs_Fields s)"
  shows "covered (gf_Type f)"
proof -
  let ?tables = "concat (map (\<lambda>s. map (Pair s) (ps_Tables s)) (user_schemas (req_Catalog req)))"
  from assms(1) obtain ss where ss: "map_ok (\<lambda>(s, t). build_struct u upstream req opts s t) ?tables = Inr ss"
    and structs: "structs = (if ss \<noteq> [] then srtS ss else ss)"
    by (auto simp: buildStructs_def)
  have "s \<in> set ss" using assms(2,8) structs by (simp split: if_splits)
  from map_ok_mem [OF ss this] obtain x where x: "x \<in> set ?tables" "(\<lambda>(s, t). build_struct u upstream req opts s t) x = Inr s"
    by blast
  obtain sc t where "x = (sc, t)" by (rule prod.exhaust)
  with x have st: "(sc, t) \<in> set ?tables" "build_struct u upstream req opts sc t = Inr s"
    by (simp_all only: case_prod_conv)
  then have t: "\<forall>c \<in> set (pt_Columns t). plain_column c" using assms(7) by (auto simp: user_schemas_def)
  from st(2) have "map_ok (model_field u req opts) (pt_Columns t) = Inr (gs_Fields s)"
    by (auto simp: build_struct_def Let_def)
  then obtain c where c: "c \<in> set (pt_Columns t)" "model_field u req opts c = Inr f"
    using map_ok_mem [OF _ assms(9)] by blast
  then have "goType u req opts c = Inr (gf_Type f)" by (auto simp: model_field_def)
  with t c(1) show ?thesis using goType_covered [OF assms(3-6)] by blast
qed

text \<open>C12: the models file imports every package its fields name: each package of the type of a field of a model (as an
  array of one dimension or under \<open>sql.Null\<close>) is one the generator knows, and its path is among the imports, for every
  engine and driver, except that the package \<open>duckdb\<close> is imported only under the DuckDB driver.  Names are ASCII, and
  neither renames nor overrides are configured.\<close>

theorem model_types_imported:
  assumes "buildStructs u upstream srtS req opts = Inr structs" and "sorts_by gs_Name srtS"
    and "modelImports srt \<lparr>i_Options = opts, i_Queries = queries, i_Enums = enums, i_Structs = structs\<rparr> = Inr (std, pkg)"
    and "sorts_by is_Path srt"
    and "ascii_laws u" and "opt_Rename opts = []" and "ascii_catalog (req_Catalog req)" and "opt_Overrides opts = []"
    and "\<forall>s \<in> set (pcat_Schemas (req_Catalog req)). \<forall>t \<in> set (ps_Tables s). \<forall>c \<in> set (pt_Columns t). plain_column c"
    and "s \<in> set structs" and "f \<in> set (gs_Fields s)" and "p \<in> set (packages_of (gf_Type f))"
    and "p = ''duckdb'' \<longrightarrow> IsDuckDB (parseDriver opts)"
  shows "\<exists>path. (p, path) \<in> set (package_path (parseDriver opts)) \<and> path \<in> is_Path ` (set std \<union> set pkg)"
proof -
  let ?i = "\<lparr>i_Options = opts, i_Queries = queries, i_Enums = enums, i_Structs = structs\<rparr>"
  have "covered (gf_Type f)"
    using model_field_covered [OF assms(1,2) assms(5-11)] .
  then obtain n where n: "(p, n) \<in> set import_tests" "hasPrefixIgnoringSliceAndPointerPrefix (gf_Type f) n"
    using assms(12) by (rule covered_test)
  obtain std0 pkg0 where b: "buildImports opts [] (usesType ?i) = Inr (std0, pkg0)"
    and std: "std = srt (map path_spec (if enums \<noteq> [] then List.insert ''database/sql/driver'' (List.insert ''fmt'' std0) else std0))"
    and pkg: "pkg = srt pkg0"
    using assms(3) by (auto simp: modelImports_def sortedImports_def)
  have uses: "usesType ?i n = Inr True"
    using n(2) assms(10,11) by (auto simp: usesType_def)
  have "\<forall>t. usesType ?i t = Inr (\<exists>s \<in> set structs. \<exists>f \<in> set (gs_Fields s). hasPrefixIgnoringSliceAndPointerPrefix (gf_Type f) t)"
    by (simp add: usesType_def)
  from import_test_path [OF b n(1) uses assms(8,13) this] obtain path where
    path: "(p, path) \<in> set (package_path (parseDriver opts))" "path \<in> set std0 \<or> path_spec path \<in> set pkg0" by blast
  from path(2) have "path_spec path \<in> set std \<or> path_spec path \<in> set pkg"
    unfolding std pkg sorts_by_set [OF assms(4)] by auto
  then have "path \<in> is_Path ` (set std \<union> set pkg)"
    by (auto simp: path_spec_def intro: rev_image_eqI)
  with path(1) show ?thesis by blast
qed

definition ex_typed :: "string \<Rightarrow> string \<Rightarrow> bool \<Rightarrow> pcolumn" where
  "ex_typed n t notNull = (ex_column n)\<lparr>pc_Type := \<lparr>id_Catalog = [], id_Schema = [], id_Name = t\<rparr>, pc_NotNull := notNull\<rparr>"

definition ex_models :: prequest where
  "ex_models =
     \<lparr>req_Engine = ''sqlite'',
      req_Catalog = \<lparr>pcat_Comment = [], pcat_DefaultSchema = ''main'', pcat_Name = [],
        pcat_Schemas = [\<lparr>ps_Comment = [], ps_Name = ''main'',
          ps_Tables = [\<lparr>pt_Rel = \<lparr>id_Catalog = [], id_Schema = [], id_Name = ''log''\<rparr>,
            pt_Columns = [ex_typed ''at'' ''datetime'' True, ex_typed ''msg'' ''text'' False], pt_Comment = []\<rparr>],
          ps_Enums = [], ps_CompositeTypes = []\<rparr>]\<rparr>,
      req_Queries = []\<rparr>"

definition ex_log :: goStruct where
  "ex_log =
     \<lparr>gs_Table = Some \<lparr>id_Catalog = [], id_Schema = ''main'', id_Name = ''log''\<rparr>, gs_Name = ''Log'',
      gs_Fields = [Field ''At'' [] ''time.Time'' [] [] (Some (ex_typed ''at'' ''datetime'' True)) [],
                   Field ''Msg'' [] ''sql.NullString'' [] [] (Some (ex_typed ''msg'' ''text'' False)) []],
      gs_Comment = [], gs_IsModel = True\<rparr>"

lemma ex_models_run:
  "buildStructs ascii_only (\<lambda>n. n) (sort_key gs_Name) ex_models zero_options = Inr [ex_log]"
  "modelImports (sort_key is_Path) \<lparr>i_Options = zero_options, i_Queries = [], i_Enums = [], i_Structs = [ex_log]\<rparr> =
     Inr ([path_spec ''database/sql'', path_spec ''time''], [])"
  by code_simp+

theorem model_types_imported_witness:
  "\<exists>path. (''time'', path) \<in> set (package_path (parseDriver zero_options)) \<and>
     path \<in> is_Path ` (set [path_spec ''database/sql'', path_spec ''time''] \<union> set [])"
proof (rule model_types_imported [OF ex_models_run(1) sorts_by_sort_key ex_models_run(2) sorts_by_sort_key ascii_laws_ascii_only])
  show "opt_Rename zero_options = []" "opt_Overrides zero_options = []" by (simp_all add: zero_options_def)
  show "ascii_catalog (req_Catalog ex_models)" by code_simp
  show "\<forall>s \<in> set (pcat_Schemas (req_Catalog ex_models)). \<forall>t \<in> set (ps_Tables s). \<forall>c \<in> set (pt_Columns t). plain_column c"
    by code_simp
  show "ex_log \<in> set [ex_log]" by simp
  show "hd (gs_Fields ex_log) \<in> set (gs_Fields ex_log)" by (simp add: ex_log_def)
  show "''time'' \<in> set (packages_of (gf_Type (hd (gs_Fields ex_log))))" by code_simp
  show "''time'' = ''duckdb'' \<longrightarrow> IsDuckDB (parseDriver zero_options)" by simp
qed

text \<open>With the engine DuckDB and no driver configured, the type of an interval column names a package that the file does
  not import.\<close>

definition ex_duck :: prequest where
  "ex_duck = ex_models\<lparr>req_Engine := ''duckdb'', req_Catalog := (req_Catalog ex_models)
     \<lparr>pcat_Schemas := [\<lparr>ps_Comment = [], ps_Name = ''main'',
        ps_Tables = [\<lparr>pt_Rel = \<lparr>id_Catalog = [], id_Schema = [], id_Name = ''log''\<rparr>,
          pt_Columns = [ex_typed ''wait'' ''interval'' True], pt_Comment = []\<rparr>],
        ps_Enums = [], ps_CompositeTypes = []\<rparr>]\<rparr>\<rparr>"

lemma duckdb_type_without_driver:
  "map_sum id (\<lambda>ss. (map (\<lambda>s. map gf_Type (gs_Fields s)) ss,
       modelImports (sort_key is_Path) \<lparr>i_Options = zero_options, i_Queries = [], i_Enums = [], i_Structs = ss\<rparr>))
     (buildStructs ascii_only (\<lambda>n. n) (sort_key gs_Name) ex_duck zero_options) =
   Inr ([[''duckdb.Interval'']], Inr ([], []))"
  by code_simp

text \<open>An array of two dimensions keeps a pair of brackets, so its package is not found in use.\<close>

lemma nested_array_not_in_use: "\<not> hasPrefixIgnoringSliceAndPointerPrefix ''[][]time.Time'' ''time.Time''"
  by code_simp

section \<open>Integers fit\<close>

text \<open>The kinds of integers, with their values.\<close>

datatype int_kind = SignedInt nat | UnsignedInt nat

fun int_values :: "int_kind \<Rightarrow> int set" where
  "int_values (SignedInt w) = {-(2 ^ (w - 1)) .. 2 ^ (w - 1) - 1}"
| "int_values (UnsignedInt w) = {0 .. 2 ^ w - 1}"

text \<open>Whether one holds the values of another.\<close>

fun narrower :: "int_kind \<Rightarrow> int_kind \<Rightarrow> bool" where
  "narrower (SignedInt v) (SignedInt w) = (v \<le> w)"
| "narrower (UnsignedInt v) (UnsignedInt w) = (v \<le> w)"
| "narrower (UnsignedInt v) (SignedInt w) = (v < w)"
| "narrower (SignedInt v) (UnsignedInt w) = False"

lemma narrower_values: "narrower a b \<Longrightarrow> int_values a \<subseteq> int_values b"
proof (induction a b rule: narrower.induct)
  case (1 v w)
  then have "(2 :: int) ^ (v - 1) \<le> 2 ^ (w - 1)" by (intro power_increasing) auto
  then show ?case unfolding int_values.simps atLeastatMost_subset_iff by linarith
next
  case (2 v w)
  then have "(2 :: int) ^ v \<le> 2 ^ w" by (intro power_increasing) auto
  then show ?case unfolding int_values.simps atLeastatMost_subset_iff by linarith
next
  case (3 v w)
  then have "(2 :: int) ^ v \<le> 2 ^ (w - 1)" by (intro power_increasing) auto
  then show ?case unfolding int_values.simps atLeastatMost_subset_iff by linarith
qed simp

text \<open>The integer types of each engine (name, unsigned, kind) and of Go.  Any integer type of SQLite holds 64-bit
  values, a serial type those of the integer it counts with, and a year is at most 2155.\<close>

definition integers :: "string list \<Rightarrow> bool \<Rightarrow> int_kind \<Rightarrow> (string \<times> bool \<times> int_kind) list" where
  "integers names uns k = map (\<lambda>n. (n, uns, k)) names"

definition sql_integers :: "string \<Rightarrow> (string \<times> bool \<times> int_kind) list" where
  "sql_integers engine =
     (if engine = ''mysql'' then
        integers [''tinyint''] False (SignedInt 8) @
        integers [''tinyint''] True (UnsignedInt 8) @
        integers [''smallint''] False (SignedInt 16) @
        integers [''smallint''] True (UnsignedInt 16) @
        integers [''mediumint''] False (SignedInt 24) @
        integers [''mediumint''] True (UnsignedInt 24) @
        integers [''int'', ''integer''] False (SignedInt 32) @
        integers [''int'', ''integer''] True (UnsignedInt 32) @
        integers [''bigint'', ''bigint signed''] False (SignedInt 64) @
        integers [''bigint'', ''bigint unsigned''] True (UnsignedInt 64) @
        integers [''year''] False (SignedInt 13)
      else if engine = ''postgresql'' then
        integers [''smallint'', ''int2'', ''pg_catalog.int2''] False (SignedInt 16) @
        integers [''integer'', ''int'', ''int4'', ''pg_catalog.int4''] False (SignedInt 32) @
        integers [''bigint'', ''int8'', ''pg_catalog.int8''] False (SignedInt 64) @
        integers [''smallserial'', ''serial2'', ''pg_catalog.serial2''] False (SignedInt 16) @
        integers [''serial'', ''serial4'', ''pg_catalog.serial4''] False (SignedInt 32) @
        integers [''bigserial'', ''serial8'', ''pg_catalog.serial8''] False (SignedInt 64)
      else if engine = ''duckdb'' then
        integers [''tinyint'', ''int1''] False (SignedInt 8) @
        integers [''smallint'', ''int2'', ''int16'', ''short''] False (SignedInt 16) @
        integers [''integer'', ''int'', ''int4'', ''int32'', ''integral'', ''signed''] False (SignedInt 32) @
        integers [''bigint'', ''int8'', ''int64'', ''long'', ''oid''] False (SignedInt 64) @
        integers [''utinyint'', ''uint8''] False (UnsignedInt 8) @
        integers [''usmallint'', ''uint16''] False (UnsignedInt 16) @
        integers [''uinteger'', ''uint32''] False (UnsignedInt 32) @
        integers [''ubigint'', ''uint64''] False (UnsignedInt 64) @
        integers [''hugeint'', ''int128''] False (SignedInt 128) @
        integers [''uhugeint'', ''uint128''] False (UnsignedInt 128)
      else if engine = ''sqlite'' then
        integers [''int'', ''integer'', ''tinyint'', ''smallint'', ''mediumint'', ''bigint'', ''unsignedbigint'', ''int2'', ''int8''] False (SignedInt 64)
      else [])"

text \<open>The integer types of DuckDB without a bound.\<close>

definition unbounded :: "string \<Rightarrow> string \<Rightarrow> bool" where
  "unbounded engine n \<longleftrightarrow> engine = ''duckdb'' \<and> n \<in> {''bignum'', ''varint''}"

definition go_integers :: "(string \<times> int_kind) list" where
  "go_integers =
     [(''int8'', SignedInt 8), (''int16'', SignedInt 16), (''int32'', SignedInt 32), (''int64'', SignedInt 64),
      (''uint8'', UnsignedInt 8), (''uint16'', UnsignedInt 16), (''uint32'', UnsignedInt 32), (''uint64'', UnsignedInt 64)]"

definition fits :: "int_kind \<Rightarrow> string \<Rightarrow> bool" where
  "fits k t \<longleftrightarrow> t = ''*big.Int'' \<or> list_ex (\<lambda>(n, k'). n = t \<and> narrower k k') go_integers"

definition case_fits :: "int_kind \<Rightarrow> string option \<Rightarrow> bool" where
  "case_fits k t = (case t of None \<Rightarrow> False | Some t \<Rightarrow> fits k t)"

text \<open>The table leaves out no name for which the code has an integer type.\<close>

definition is_go_integer :: "string \<Rightarrow> bool" where
  "is_go_integer t \<longleftrightarrow> t = ''*big.Int'' \<or> t \<in> set (map fst go_integers)"

definition knows_names :: "string \<Rightarrow> (string list \<times> string) list \<Rightarrow> bool" where
  "knows_names engine cases \<longleftrightarrow>
     list_all (\<lambda>(names, t). is_go_integer t \<longrightarrow>
       list_all (\<lambda>n. n \<in> set (map fst (sql_integers engine)) \<or> unbounded engine n) names) cases"

definition cases_fit :: "string \<Rightarrow> (bool \<Rightarrow> (string list \<times> string) list) \<Rightarrow> bool" where
  "cases_fit engine cases \<longleftrightarrow>
     list_all (\<lambda>(n, uns, k). case_fits k (switch n (cases uns))) (sql_integers engine)"

text \<open>Only a \<open>tinyint\<close> of MySQL looks at its length.\<close>

definition length_matters :: "string \<Rightarrow> string \<Rightarrow> bool" where
  "length_matters engine n \<longleftrightarrow> engine = ''mysql'' \<and> n = ''tinyint''"

lemma mysql_integers_length:
  "list_all (\<lambda>(n, uns, k). length_matters ''mysql'' n \<or> case_fits k (switch n (mysql_cases True uns True))) (sql_integers ''mysql'')"
  by code_simp

lemma mysql_integers:
  "cases_fit ''mysql'' (\<lambda>uns. mysql_cases True uns False)"
  "knows_names ''mysql'' (mysql_cases True True False)" "knows_names ''mysql'' (mysql_cases True False False)"
  by code_simp+

lemma duckdb_integers_pointers:
  "cases_fit ''duckdb'' (\<lambda>uns. duckdb_number_cases True True)" "cases_fit ''duckdb'' (\<lambda>uns. duckdb_number_cases True False)"
  "knows_names ''duckdb'' (duckdb_number_cases True True)" "knows_names ''duckdb'' (duckdb_number_cases True False)"
  by code_simp+

lemma duckdb_integers: "cases_fit ''duckdb'' (\<lambda>uns. duckdb_number_cases True ptr)"
  "knows_names ''duckdb'' (duckdb_number_cases True ptr)"
  using duckdb_integers_pointers by (cases ptr; simp)+

lemma sqlite_integers_pointers:
  "cases_fit ''sqlite'' (\<lambda>uns. sqlite_cases True True)" "cases_fit ''sqlite'' (\<lambda>uns. sqlite_cases True False)"
  "knows_names ''sqlite'' (sqlite_cases True True)" "knows_names ''sqlite'' (sqlite_cases True False)"
  by code_simp+

lemma sqlite_integers: "cases_fit ''sqlite'' (\<lambda>uns. sqlite_cases True ptr)" "knows_names ''sqlite'' (sqlite_cases True ptr)"
  using sqlite_integers_pointers by (cases ptr; simp)+

text \<open>The integer cases of PostgreSQL come first and do not depend on the driver.\<close>

lemma pg_integers:
  "cases_fit ''postgresql'' (\<lambda>uns. take 6 (pg_number_cases True True []))"
  "knows_names ''postgresql'' (take 6 (pg_number_cases True True []))"
  by code_simp+

lemma pg_cases_first: "pg_cases True ptr d = take 6 (pg_number_cases True True []) @ drop 6 (pg_cases True ptr d)"
  by (simp add: pg_cases_def pg_number_cases_def)

lemma switch_append_Some: "switch x cs = Some t \<Longrightarrow> switch x (cs @ ds) = Some t"
proof (induction cs)
  case (Cons c cs)
  then show ?case by (cases "x \<in> set (fst c)") (auto simp: switch_def)
qed (simp add: switch_def)

lemma unbounded_cases:
  "list_all (\<lambda>ptr. list_all (\<lambda>n. switch n (duckdb_number_cases True ptr) = Some ''*big.Int'') [''bignum'', ''varint'']) [True, False]"
  by code_simp

lemma unbounded_fits: "unbounded ''duckdb'' n \<Longrightarrow> switch n (duckdb_number_cases True ptr @ cs) = Some ''*big.Int''"
  using unbounded_cases by (cases ptr) (auto simp only: unbounded_def list.pred_inject insert_iff empty_iff intro!: switch_append_Some)

lemma cases_fitD:
  "cases_fit engine cases \<Longrightarrow> (n, uns, k) \<in> set (sql_integers engine) \<Longrightarrow> \<exists>t. switch n (cases uns) = Some t \<and> fits k t"
  by (force simp: cases_fit_def case_fits_def list_all_iff split: option.splits)

lemma sql_integers_engines:
  "x \<in> set (sql_integers engine) \<Longrightarrow> engine \<in> {''mysql'', ''postgresql'', ''duckdb'', ''sqlite''}"
  by (auto simp: sql_integers_def split: if_splits)

text \<open>The name the code looks a column's type up with, and its sign, which only MySQL knows.\<close>

definition integer_name :: "prequest \<Rightarrow> pcolumn \<Rightarrow> string" where
  "integer_name req col = (if req_Engine req = ''sqlite'' then ToLower (DataType (pc_Type col)) else DataType (pc_Type col))"

definition integer_unsigned :: "prequest \<Rightarrow> pcolumn \<Rightarrow> bool" where
  "integer_unsigned req col \<longleftrightarrow> req_Engine req = ''mysql'' \<and> pc_Unsigned col"

text \<open>C13: an integer column that is not null gets a Go integer type that holds every value of the column, for each engine,
  driver and option, whichever of the names the code knows the column's type has (\<open>sql_integers\<close> lists them with their
  values, the 128-bit and unbounded types of DuckDB included).  A MySQL \<open>tinyint(1)\<close>, which becomes a \<open>bool\<close>, overridden
  columns, and a MySQL \<open>bigint unsigned\<close> that is not marked as unsigned are left out.\<close>

theorem integers_fit:
  assumes "(integer_name req col, integer_unsigned req col, k) \<in> set (sql_integers (req_Engine req)) \<or>
      unbounded (req_Engine req) (DataType (pc_Type col))"
    and "not_null col" and "opt_Overrides opts = []"
    and "pc_Length col = 1 \<longrightarrow> \<not> length_matters (req_Engine req) (DataType (pc_Type col))"
  shows "goInnerType u req opts col = ''*big.Int'' \<or>
    (\<exists>k'. (goInnerType u req opts col, k') \<in> set go_integers \<and> int_values k \<subseteq> int_values k')"
  using assms(1)
proof
  assume unb: "unbounded (req_Engine req) (DataType (pc_Type col))"
  then have e: "req_Engine req = ''duckdb''" by (simp add: unbounded_def)
  with unbounded_fits unb assms show ?thesis by (simp add: goInnerType_def duckdbType_def Let_def)
next
  assume known: "(integer_name req col, integer_unsigned req col, k) \<in> set (sql_integers (req_Engine req))"
  let ?n = "DataType (pc_Type col)" and ?p = "opt_EmitPointersForNullTypes opts"
  have "fits k (goInnerType u req opts col)"
    using sql_integers_engines [OF known]
  proof (elim insertE emptyE)
    assume e: "req_Engine req = ''mysql''"
    then have in_list: "(?n, pc_Unsigned col, k) \<in> set (sql_integers ''mysql'')"
      using known by (simp add: integer_name_def integer_unsigned_def)
    have "\<exists>t. switch ?n (mysql_cases True (pc_Unsigned col) (pc_Length col = 1)) = Some t \<and> fits k t"
    proof (cases "pc_Length col = 1")
      case True
      then have "case_fits k (switch ?n (mysql_cases True (pc_Unsigned col) True))"
        using mysql_integers_length in_list assms(4) e by (fastforce simp: list_all_iff)
      with True show ?thesis by (auto simp: case_fits_def split: option.splits)
    qed (use cases_fitD [OF mysql_integers(1) in_list] in simp)
    then show ?thesis using assms e by (auto simp: goInnerType_def mysqlType_def Let_def)
  next
    assume e: "req_Engine req = ''postgresql''"
    then have in_list: "(?n, False, k) \<in> set (sql_integers ''postgresql'')"
      using known by (simp add: integer_name_def integer_unsigned_def)
    from cases_fitD [OF pg_integers(1) in_list]
    obtain t where "switch ?n (pg_cases True (IsPGX (parseDriver opts) \<and> ?p) (parseDriver opts)) = Some t" "fits k t"
      by (metis pg_cases_first switch_append_Some)
    then show ?thesis using assms e by (simp add: goInnerType_def postgresType_def Let_def)
  next
    assume e: "req_Engine req = ''duckdb''"
    then have in_list: "(?n, False, k) \<in> set (sql_integers ''duckdb'')"
      using known by (simp add: integer_name_def integer_unsigned_def)
    from cases_fitD [OF duckdb_integers(1) [of ?p] in_list]
    obtain t where "switch ?n (duckdb_number_cases True ?p) = Some t" "fits k t" by blast
    then show ?thesis using assms e by (simp add: goInnerType_def duckdbType_def Let_def switch_append_Some)
  next
    assume e: "req_Engine req = ''sqlite''"
    then have in_list: "(ToLower ?n, False, k) \<in> set (sql_integers ''sqlite'')"
      using known by (simp add: integer_name_def integer_unsigned_def)
    from cases_fitD [OF sqlite_integers(1) [of ?p] in_list]
    obtain t where "switch (ToLower ?n) (sqlite_cases True ?p) = Some t" "fits k t" by blast
    then show ?thesis using assms e by (simp add: goInnerType_def sqliteType_def Let_def)
  qed
  then show ?thesis using narrower_values by (fastforce simp: fits_def list_ex_iff)
qed

definition ex_int :: pcolumn where
  "ex_int = (ex_typed ''n'' ''smallint'' True)\<lparr>pc_Unsigned := True\<rparr>"

definition ex_mysql :: prequest where
  "ex_mysql = ex_request\<lparr>req_Engine := ''mysql''\<rparr>"

definition ex_postgres :: prequest where
  "ex_postgres = ex_request\<lparr>req_Engine := ''postgresql''\<rparr>"

theorem integers_fit_witness:
  "(\<exists>k'. (''uint16'', k') \<in> set go_integers \<and> {0 .. 2 ^ 16 - 1} \<subseteq> int_values k') \<and>
   (\<exists>k'. (''int64'', k') \<in> set go_integers \<and> {-(2 ^ 63) .. 2 ^ 63 - 1} \<subseteq> int_values k')"
proof
  have o: "opt_Overrides zero_options = []" by (simp add: zero_options_def)
  have mysql: "(integer_name ex_mysql ex_int, integer_unsigned ex_mysql ex_int, UnsignedInt 16) \<in> set (sql_integers (req_Engine ex_mysql))"
    "not_null ex_int" "pc_Length ex_int = 1 \<longrightarrow> \<not> length_matters (req_Engine ex_mysql) (DataType (pc_Type ex_int))"
    "goInnerType ascii_only ex_mysql zero_options ex_int = ''uint16''" by code_simp+
  from integers_fit [OF disjI1 [OF mysql(1)] mysql(2) o mysql(3), of ascii_only] mysql(4)
  show "\<exists>k'. (''uint16'', k') \<in> set go_integers \<and> {0 .. 2 ^ 16 - 1} \<subseteq> int_values k'" by simp
  let ?big = "ex_typed ''n'' ''pg_catalog.int8'' True"
  have pg: "(integer_name ex_postgres ?big, integer_unsigned ex_postgres ?big, SignedInt 64) \<in> set (sql_integers (req_Engine ex_postgres))"
    "not_null ?big" "pc_Length ?big = 1 \<longrightarrow> \<not> length_matters (req_Engine ex_postgres) (DataType (pc_Type ?big))"
    "goInnerType ascii_only ex_postgres zero_options ?big = ''int64''" by code_simp+
  from integers_fit [OF disjI1 [OF pg(1)] pg(2) o pg(3), of ascii_only] pg(4)
  show "\<exists>k'. (''int64'', k') \<in> set go_integers \<and> {-(2 ^ 63) .. 2 ^ 63 - 1} \<subseteq> int_values k'" by simp
qed

text \<open>The name \<open>bigint unsigned\<close> alone, as a cast has it, gives a type that does not hold \<open>2 ^ 63\<close>.\<close>

lemma bigint_unsigned_too_small:
  "goInnerType ascii_only ex_mysql zero_options (ex_typed ''n'' ''bigint unsigned'' True) = ''int64''"
  by code_simp

text \<open>A nullable unsigned \<open>smallint\<close> of MySQL gets a signed type of the same width, which does not hold 65535.\<close>

lemma nullable_unsigned_too_small:
  "goInnerType ascii_only ex_mysql zero_options (ex_int\<lparr>pc_NotNull := False\<rparr>) = ''sql.NullInt16''"
  by code_simp

end
