(* ===== verification/Nodes.thy ===== *)
theory Nodes
  imports Ast Sqlerr GoText
begin

text \<open>
  The syntax tree of a query, \<open>internal/sql/ast\<close>, and its traversal, \<open>internal/sql/astutils\<close>.

  \<open>node\<close> is the interface \<open>ast.Node\<close>: a constructor per node type the compiler inspects, with the fields it or
  the traversal reads, \<open>NilNode\<close> for the nil interface, and \<open>Other\<close> for the node types that are only walked,
  with their type and their non-nil fields in the order of the walk.  A field of a pointer type is an \<open>option\<close>,
  \<open>None\<close> for nil; a \<open>*ast.List\<close> is the list of its items.  The node types that functions take or fields point at
  are datatypes of their own over the node type.  A \<open>*ast.ParamRef\<close> is an address: the compiler writes its
  number, and compares two of them as pointers, so its fields live in a store.
\<close>

section \<open>Node types\<close>

datatype (plugins only: size code) 'n aliasName = mk_Alias (al_Aliasname: "string option") (al_Colnames: "'n list option")

datatype (plugins only: size code) 'n range_var =
  mk_RangeVar (rvn_Catalogname: "string option") (rvn_Schemaname: "string option") (rvn_Relname: "string option")
    (rvn_Alias: "'n aliasName option")

datatype (plugins only: size code) 'n type_name =
  mk_TypeName (tyn_Catalog: string) (tyn_Schema: string) (tyn_Name: string) (tyn_Names: "'n list option")
    (tyn_Typmods: "'n list option") (tyn_ArrayBounds: "'n list option")

datatype (plugins only: size code) 'n column_ref =
  mk_ColumnRef (cr_Name: string) (cr_Fields: "'n list option") (cr_Location: nat)

datatype (plugins only: size code) 'n res_target =
  mk_ResTarget (rt_Name: "string option") (rt_Indirection: "'n list option") (rt_Val: 'n) (rt_Location: nat)

datatype (plugins only: size code) 'n window_def =
  mk_WindowDef (wd_PartitionClause: "'n list option") (wd_OrderClause: "'n list option") (wd_StartOffset: 'n)
    (wd_EndOffset: 'n)

datatype (plugins only: size code) 'n func_call =
  mk_FuncCall (fcn_Func: "funcName option") (fcn_Funcname: "'n list option") (fcn_Args: "'n list option")
    (fcn_AggOrder: "'n list option") (fcn_AggFilter: 'n) (fcn_Over: "'n window_def option") (fcn_Location: nat)

datatype (plugins only: size code) 'n with_clause = mk_WithClause (wc_Ctes: "'n list option")

datatype (plugins only: size code) 'n common_table_expr =
  mk_CommonTableExpr (cte_Ctename: "string option") (cte_Aliascolnames: "'n list option") (cte_Ctequery: 'n)
    (cte_Ctecolnames: "'n list option") (cte_Ctecoltypes: "'n list option") (cte_Ctecoltypmods: "'n list option")
    (cte_Ctecolcollations: "'n list option")

datatype (plugins only: size code) 'n infer_clause =
  mk_InferClause (ic_IndexElems: "'n list option") (ic_WhereClause: 'n) (ic_Location: nat)

datatype (plugins only: size code) on_conflict_action = OnConflictActionUndefined | OnConflictActionNone | OnConflictActionNothing | OnConflictActionUpdate

datatype (plugins only: size code) 'n on_conflict_clause =
  mk_OnConflictClause (oc_Action: on_conflict_action) (oc_Infer: "'n infer_clause option")
    (oc_TargetList: "'n list option") (oc_WhereClause: 'n)

datatype (plugins only: size code) 'n select_stmt =
  mk_SelectStmt (ss_DistinctClause: "'n list option") (ss_IntoClause: 'n) (ss_TargetList: "'n list option")
    (ss_FromClause: "'n list option") (ss_WhereClause: 'n) (ss_GroupClause: "'n list option") (ss_HavingClause: 'n)
    (ss_QualifyClause: 'n) (ss_WindowClause: "'n list option") (ss_ValuesLists: "'n list option")
    (ss_SortClause: "'n list option") (ss_LimitOffset: 'n) (ss_LimitCount: 'n) (ss_LockingClause: "'n list option")
    (ss_WithClause: "'n with_clause option") (ss_Larg: "'n select_stmt option") (ss_Rarg: "'n select_stmt option")

datatype (plugins only: size code) 'n insert_stmt =
  mk_InsertStmt (is_Relation: "'n range_var option") (is_Cols: "'n list option") (is_SelectStmt: 'n)
    (is_OnConflictClause: "'n on_conflict_clause option") (is_OnDuplicateKeyUpdate: 'n)
    (is_ReturningList: "'n list option") (is_WithClause: "'n with_clause option") (is_ReturningOldAlias: string)
    (is_ReturningNewAlias: string)

datatype (plugins only: size code) 'n update_stmt =
  mk_UpdateStmt (us_Relations: "'n list option") (us_TargetList: "'n list option") (us_WhereClause: 'n)
    (us_FromClause: "'n list option") (us_LimitCount: 'n) (us_ReturningList: "'n list option")
    (us_WithClause: "'n with_clause option") (us_ReturningOldAlias: string) (us_ReturningNewAlias: string)

datatype (plugins only: size code) 'n delete_stmt =
  mk_DeleteStmt (ds_Relations: "'n list option") (ds_UsingClause: "'n list option") (ds_WhereClause: 'n)
    (ds_LimitCount: 'n) (ds_ReturningList: "'n list option") (ds_WithClause: "'n with_clause option")
    (ds_Targets: "'n list option") (ds_FromClause: 'n) (ds_ReturningOldAlias: string)
    (ds_ReturningNewAlias: string)

datatype (plugins only: size code) 'n merge_stmt =
  mk_MergeStmt (ms_WithClause: "'n with_clause option") (ms_Relation: "'n range_var option") (ms_Source: 'n)
    (ms_JoinCondition: 'n) (ms_UsingColumns: "'n list option") (ms_WhenClauses: "'n list option")
    (ms_ReturningList: "'n list option")

datatype (plugins only: size code) join_type =
    JoinTypeInner | JoinTypeLeft | JoinTypeFull | JoinTypeRight | JoinTypeCross | JoinTypeComma | JoinTypeOther

datatype (plugins only: size code) bool_expr_type =
    BoolExprTypeAnd | BoolExprTypeOr | BoolExprTypeNot | BoolExprTypeIsNull | BoolExprTypeIsNotNull

datatype (plugins only: size code) sub_link_type =
    EXISTS_SUBLINK | ALL_SUBLINK | ANY_SUBLINK | ROWCOMPARE_SUBLINK | EXPR_SUBLINK | MULTIEXPR_SUBLINK
  | ARRAY_SUBLINK | CTE_SUBLINK

datatype (plugins only: size code) node =
    NilNode
  | NodeList "node list"
  | String string
  | Integer int
  | Float string
  | Boolean bool
  | Null
  | A_Star
  | A_Const node
  | A_Expr "node list option" node node
  | BoolExpr node bool_expr_type "node list option"
  | CaseExpr node node "node list option" node
  | CoalesceExpr node "node list option"
  | ColumnRef "node column_ref"
  | FuncName funcName
  | FuncCall "node func_call"
  | WindowDef "node window_def"
  | SubLink node sub_link_type node "node list option" node
  | TypeName "node type_name"
  | TypeCast node "node type_name option"
  | Alias "node aliasName"
  | RangeVar "node range_var"
  | RangeFunction "node list option" "node aliasName option" "node list option"
  | RangeSubselect node "node aliasName option"
  | JoinExpr join_type node node "node list option" node "node aliasName option"
  | ResTarget "node res_target"
  | SortBy node "node list option"
  | ParamRef nat
  | In node "node list" node
  | BetweenExpr node node node
  | CallStmt "node func_call option"
  | NamedArgExpr node node "string option"
  | MultiAssignRef node int
  | RowExpr node "node list option" "node list option"
  | SQLValueFunction node
  | CommonTableExpr "node common_table_expr"
  | WithClause "node with_clause"
  | IndexElem "string option" node "node list option" "node list option"
  | InferClause "node infer_clause"
  | OnConflictClause "node on_conflict_clause"
  | SelectStmt "node select_stmt"
  | InsertStmt "node insert_stmt"
  | UpdateStmt "node update_stmt"
  | DeleteStmt "node delete_stmt"
  | MergeStmt "node merge_stmt"
  | TruncateStmt "node list option"
  | RefreshMatViewStmt "node range_var option"
  | RawStmt node nat nat
  | Other string "node list"

section \<open>Traversal\<close>

text \<open>The guards \<open>if n.X != nil\<close> of \<open>Walk\<close>, for a field of the interface type, a list and a pointer.\<close>

definition kid :: "node \<Rightarrow> node list" where
  "kid n = (if n = NilNode then [] else [n])"

definition kid_list :: "node list option \<Rightarrow> node list" where
  "kid_list l = (case l of None \<Rightarrow> [] | Some xs \<Rightarrow> [NodeList xs])"

definition kid_ptr :: "('a \<Rightarrow> node) \<Rightarrow> 'a option \<Rightarrow> node list" where
  "kid_ptr f p = (case p of None \<Rightarrow> [] | Some x \<Rightarrow> [f x])"

definition select_children :: "node select_stmt \<Rightarrow> node list" where
  "select_children n =
     kid_list (ss_DistinctClause n) @ kid (ss_IntoClause n) @ kid_list (ss_TargetList n) @
     kid_list (ss_FromClause n) @ kid (ss_WhereClause n) @ kid_list (ss_GroupClause n) @
     kid (ss_HavingClause n) @ kid (ss_QualifyClause n) @ kid_list (ss_WindowClause n) @
     kid_list (ss_ValuesLists n) @ kid_list (ss_SortClause n) @ kid (ss_LimitOffset n) @
     kid (ss_LimitCount n) @ kid_list (ss_LockingClause n) @ kid_ptr WithClause (ss_WithClause n) @
     kid_ptr SelectStmt (ss_Larg n) @ kid_ptr SelectStmt (ss_Rarg n)"

definition insert_children :: "node insert_stmt \<Rightarrow> node list" where
  "insert_children n =
     kid_ptr RangeVar (is_Relation n) @ kid_list (is_Cols n) @ kid (is_SelectStmt n) @
     kid_ptr OnConflictClause (is_OnConflictClause n) @ kid (is_OnDuplicateKeyUpdate n) @
     kid_list (is_ReturningList n) @ kid_ptr WithClause (is_WithClause n)"

definition update_children :: "node update_stmt \<Rightarrow> node list" where
  "update_children n =
     kid_list (us_Relations n) @ kid_list (us_TargetList n) @ kid (us_WhereClause n) @
     kid_list (us_FromClause n) @ kid (us_LimitCount n) @ kid_list (us_ReturningList n) @
     kid_ptr WithClause (us_WithClause n)"

definition delete_children :: "node delete_stmt \<Rightarrow> node list" where
  "delete_children n =
     kid_list (ds_Relations n) @ kid_list (ds_UsingClause n) @ kid (ds_WhereClause n) @ kid (ds_LimitCount n) @
     kid_list (ds_ReturningList n) @ kid_ptr WithClause (ds_WithClause n) @ kid_list (ds_Targets n) @
     kid (ds_FromClause n)"

definition merge_children :: "node merge_stmt \<Rightarrow> node list" where
  "merge_children n =
     kid_ptr WithClause (ms_WithClause n) @ kid_ptr RangeVar (ms_Relation n) @ kid (ms_Source n) @
     kid (ms_JoinCondition n) @ kid_list (ms_UsingColumns n) @ kid_list (ms_WhenClauses n) @
     kid_list (ms_ReturningList n)"

definition call_children :: "node func_call \<Rightarrow> node list" where
  "call_children n =
     kid_ptr FuncName (fcn_Func n) @ kid_list (fcn_Funcname n) @ kid_list (fcn_Args n) @ kid_list (fcn_AggOrder n) @
     kid (fcn_AggFilter n) @ kid_ptr WindowDef (fcn_Over n)"

definition cte_children :: "node common_table_expr \<Rightarrow> node list" where
  "cte_children n =
     kid_list (cte_Aliascolnames n) @ kid (cte_Ctequery n) @ kid_list (cte_Ctecolnames n) @
     kid_list (cte_Ctecoltypes n) @ kid_list (cte_Ctecoltypmods n) @ kid_list (cte_Ctecolcollations n)"

text \<open>The nodes \<open>Walk\<close> visits below a node, in its order.\<close>

fun children :: "node \<Rightarrow> node list" where
  "children NilNode = []"
| "children (NodeList xs) = xs"
| "children (String s) = []"
| "children (Integer i) = []"
| "children (Float s) = []"
| "children (Boolean b) = []"
| "children Null = []"
| "children A_Star = []"
| "children (A_Const v) = kid v"
| "children (A_Expr name l r) = kid_list name @ kid l @ kid r"
| "children (BoolExpr x t as) = kid x @ kid_list as"
| "children (CaseExpr x a as d) = kid x @ kid a @ kid_list as @ kid d"
| "children (CoalesceExpr x as) = kid x @ kid_list as"
| "children (ColumnRef r) = kid_list (cr_Fields r)"
| "children (FuncName f) = []"
| "children (FuncCall f) = call_children f"
| "children (WindowDef w) =
     kid_list (wd_PartitionClause w) @ kid_list (wd_OrderClause w) @ kid (wd_StartOffset w) @ kid (wd_EndOffset w)"
| "children (SubLink x t e ops s) = kid x @ kid e @ kid_list ops @ kid s"
| "children (TypeName t) = kid_list (tyn_Names t) @ kid_list (tyn_Typmods t) @ kid_list (tyn_ArrayBounds t)"
| "children (TypeCast a t) = kid a @ kid_ptr TypeName t"
| "children (Alias a) = kid_list (al_Colnames a)"
| "children (RangeVar v) = kid_ptr Alias (rvn_Alias v)"
| "children (RangeFunction fs a cs) = kid_list fs @ kid_ptr Alias a @ kid_list cs"
| "children (RangeSubselect q a) = kid q @ kid_ptr Alias a"
| "children (JoinExpr t l r us q a) = kid l @ kid r @ kid_list us @ kid q @ kid_ptr Alias a"
| "children (ResTarget t) = kid_list (rt_Indirection t) @ kid (rt_Val t)"
| "children (SortBy n ops) = kid n @ kid_list ops"
| "children (ParamRef a) = []"
| "children (In e l s) = l @ kid s"
| "children (BetweenExpr e l r) = kid e @ kid l @ kid r"
| "children (CallStmt c) = kid_ptr FuncCall c"
| "children (NamedArgExpr x a n) = kid x @ kid a"
| "children (MultiAssignRef s c) = kid s"
| "children (RowExpr x as cs) = kid x @ kid_list as @ kid_list cs"
| "children (SQLValueFunction x) = kid x"
| "children (CommonTableExpr c) = cte_children c"
| "children (WithClause w) = kid_list (wc_Ctes w)"
| "children (IndexElem n e c oc) = kid e @ kid_list c @ kid_list oc"
| "children (InferClause i) = kid_list (ic_IndexElems i) @ kid (ic_WhereClause i)"
| "children (OnConflictClause oc) = kid_ptr InferClause (oc_Infer oc) @ kid_list (oc_TargetList oc) @ kid (oc_WhereClause oc)"
| "children (SelectStmt s) = select_children s"
| "children (InsertStmt s) = insert_children s"
| "children (UpdateStmt s) = update_children s"
| "children (DeleteStmt s) = delete_children s"
| "children (MergeStmt s) = merge_children s"
| "children (TruncateStmt rs) = kid_list rs"
| "children (RefreshMatViewStmt r) = kid_ptr RangeVar r"
| "children (RawStmt s l n) = kid s"
| "children (Other k ns) = ns"

lemma kid_mem: "m \<in> set (kid n) \<Longrightarrow> m = n"
  by (simp add: kid_def split: if_splits)

lemma kid_list_mem: "m \<in> set (kid_list l) \<Longrightarrow> \<exists>xs. l = Some xs \<and> m = NodeList xs"
  by (auto simp: kid_list_def split: option.splits)

lemma kid_ptr_mem: "m \<in> set (kid_ptr f p) \<Longrightarrow> \<exists>x. p = Some x \<and> m = f x"
  by (auto simp: kid_ptr_def split: option.splits)

lemmas kid_mems = kid_mem kid_list_mem kid_ptr_mem
lemmas children_defs = select_children_def insert_children_def update_children_def delete_children_def
  merge_children_def call_children_def cte_children_def

end
