(* ===== verification/Walk.thy ===== *)
theory Walk
  imports Nodes
begin

text \<open>\<open>Walk\<close>, \<open>Search\<close> and \<open>Join\<close> of \<open>internal/sql/astutils\<close>.\<close>

lemma size_items:
  "x \<in> set xs \<Longrightarrow> size x < Suc (size_list size xs)"
  "x \<in> set xs \<Longrightarrow> size x < Suc (size_list size xs + i + j)"
  by (induction xs) auto

lemma size_kid_list: "m \<in> set (kid_list l) \<Longrightarrow> size m \<le> size_option (size_list size) l"
  by (auto simp: kid_list_def split: option.splits)

lemma size_kid: "m \<in> set (kid n) \<Longrightarrow> size m \<le> size n"
  by (auto dest: kid_mem)

lemma size_aliasName_sel: "size_aliasName f r =
     size_option (size_list f) (al_Colnames r) + Suc 0"
  by (cases r) simp

lemma size_range_var_sel: "size_range_var f r =
     size_option (size_aliasName f) (rvn_Alias r) + Suc 0"
  by (cases r) simp

lemma size_type_name_sel: "size_type_name f r =
     size_option (size_list f) (tyn_Names r) + size_option (size_list f) (tyn_Typmods r)
     + size_option (size_list f) (tyn_ArrayBounds r) + Suc 0"
  by (cases r) simp

lemma size_column_ref_sel: "size_column_ref f r =
     size_option (size_list f) (cr_Fields r) + Suc 0"
  by (cases r) simp

lemma size_res_target_sel: "size_res_target f r =
     size_option (size_list f) (rt_Indirection r) + f (rt_Val r) + Suc 0"
  by (cases r) simp

lemma size_window_def_sel: "size_window_def f r =
     size_option (size_list f) (wd_PartitionClause r) + size_option (size_list f) (wd_OrderClause r)
     + f (wd_StartOffset r) + f (wd_EndOffset r) + Suc 0"
  by (cases r) simp

lemma size_func_call_sel: "size_func_call f r =
     size_option (size_list f) (fcn_Funcname r) + size_option (size_list f) (fcn_Args r)
     + size_option (size_list f) (fcn_AggOrder r) + f (fcn_AggFilter r)
     + size_option (size_window_def f) (fcn_Over r) + Suc 0"
  by (cases r) simp

lemma size_with_clause_sel: "size_with_clause f r =
     size_option (size_list f) (wc_Ctes r) + Suc 0"
  by (cases r) simp

lemma size_common_table_expr_sel: "size_common_table_expr f r =
     size_option (size_list f) (cte_Aliascolnames r) + f (cte_Ctequery r)
     + size_option (size_list f) (cte_Ctecolnames r)
     + size_option (size_list f) (cte_Ctecoltypes r)
     + size_option (size_list f) (cte_Ctecoltypmods r)
     + size_option (size_list f) (cte_Ctecolcollations r) + Suc 0"
  by (cases r) simp

lemma size_infer_clause_sel: "size_infer_clause f r =
     size_option (size_list f) (ic_IndexElems r) + f (ic_WhereClause r) + Suc 0"
  by (cases r) simp

lemma size_on_conflict_clause_sel: "size_on_conflict_clause f r =
     size_option (size_infer_clause f) (oc_Infer r) + size_option (size_list f) (oc_TargetList r)
     + f (oc_WhereClause r) + Suc 0"
  by (cases r) simp

lemma size_select_stmt_sel: "size_select_stmt f r =
     size_option (size_list f) (ss_DistinctClause r) + f (ss_IntoClause r)
     + size_option (size_list f) (ss_TargetList r) + size_option (size_list f) (ss_FromClause r)
     + f (ss_WhereClause r) + size_option (size_list f) (ss_GroupClause r) + f (ss_HavingClause r)
     + f (ss_QualifyClause r) + size_option (size_list f) (ss_WindowClause r)
     + size_option (size_list f) (ss_ValuesLists r) + size_option (size_list f) (ss_SortClause r)
     + f (ss_LimitOffset r) + f (ss_LimitCount r) + size_option (size_list f) (ss_LockingClause r)
     + size_option (size_with_clause f) (ss_WithClause r)
     + size_option (size_select_stmt f) (ss_Larg r) + size_option (size_select_stmt f) (ss_Rarg r)
     + Suc 0"
  by (cases r) simp

lemma size_insert_stmt_sel: "size_insert_stmt f r =
     size_option (size_range_var f) (is_Relation r) + size_option (size_list f) (is_Cols r)
     + f (is_SelectStmt r) + size_option (size_on_conflict_clause f) (is_OnConflictClause r)
     + f (is_OnDuplicateKeyUpdate r) + size_option (size_list f) (is_ReturningList r)
     + size_option (size_with_clause f) (is_WithClause r) + Suc 0"
  by (cases r) simp

lemma size_update_stmt_sel: "size_update_stmt f r =
     size_option (size_list f) (us_Relations r) + size_option (size_list f) (us_TargetList r)
     + f (us_WhereClause r) + size_option (size_list f) (us_FromClause r) + f (us_LimitCount r)
     + size_option (size_list f) (us_ReturningList r)
     + size_option (size_with_clause f) (us_WithClause r) + Suc 0"
  by (cases r) simp

lemma size_delete_stmt_sel: "size_delete_stmt f r =
     size_option (size_list f) (ds_Relations r) + size_option (size_list f) (ds_UsingClause r)
     + f (ds_WhereClause r) + f (ds_LimitCount r) + size_option (size_list f) (ds_ReturningList r)
     + size_option (size_with_clause f) (ds_WithClause r)
     + size_option (size_list f) (ds_Targets r) + f (ds_FromClause r) + Suc 0"
  by (cases r) simp

lemma size_merge_stmt_sel: "size_merge_stmt f r =
     size_option (size_with_clause f) (ms_WithClause r)
     + size_option (size_range_var f) (ms_Relation r) + f (ms_Source r) + f (ms_JoinCondition r)
     + size_option (size_list f) (ms_UsingColumns r) + size_option (size_list f) (ms_WhenClauses r)
     + size_option (size_list f) (ms_ReturningList r) + Suc 0"
  by (cases r) simp

lemmas size_sels =
  size_aliasName_sel size_range_var_sel size_type_name_sel size_column_ref_sel
  size_res_target_sel size_window_def_sel size_func_call_sel size_with_clause_sel
  size_common_table_expr_sel size_infer_clause_sel size_on_conflict_clause_sel size_select_stmt_sel
  size_insert_stmt_sel size_update_stmt_sel size_delete_stmt_sel size_merge_stmt_sel

lemma children_smaller: "m \<in> set (children n) \<Longrightarrow> size m < size n"
  by (cases n) (auto simp: children_defs size_items size_sels dest!: size_kid size_kid_list kid_ptr_mem)

section \<open>Walk\<close>

text \<open>A loop over a slice whose body may fail.\<close>

fun fold_ok :: "('a \<Rightarrow> 's \<Rightarrow> 'e + 's) \<Rightarrow> 'a list \<Rightarrow> 's \<Rightarrow> 'e + 's" where
  "fold_ok f [] s = Inr s"
| "fold_ok f (x # xs) s = (case f x s of Inl e \<Rightarrow> Inl e | Inr s' \<Rightarrow> fold_ok f xs s')"

lemma fold_ok_cong [fundef_cong]:
  "xs = ys \<Longrightarrow> s = t \<Longrightarrow> (\<And>x u. x \<in> set ys \<Longrightarrow> f x u = g x u) \<Longrightarrow> fold_ok f xs s = fold_ok g ys t"
  by (induction ys arbitrary: xs s t) (auto split: sum.splits)

text \<open>A \<open>Visitor\<close>: \<open>Visit\<close> on a node gives the visitor for the nodes below it, or nil, and changes what visitors
  share.  \<open>Walk\<close> panics on the nil node, after visiting it.\<close>

type_synonym ('v, 's) visitor = "'v \<Rightarrow> node \<Rightarrow> 's \<Rightarrow> error + ('v option \<times> 's)"

function Walk :: "('v, 's) visitor \<Rightarrow> 'v \<Rightarrow> node \<Rightarrow> 's \<Rightarrow> error + 's" where
  "Walk visit f node s =
     (case visit f node s of
        Inl e \<Rightarrow> Inl e
      | Inr (None, s1) \<Rightarrow> Inr s1
      | Inr (Some f', s1) \<Rightarrow>
          if node = NilNode then Inl (Panic ''walk: unexpected node type <nil>'')
          else
            (case fold_ok (\<lambda>m. Walk visit f' m) (children node) s1 of
               Inl e \<Rightarrow> Inl e
             | Inr s2 \<Rightarrow> (case visit f' NilNode s2 of Inl e \<Rightarrow> Inl e | Inr (_, s3) \<Rightarrow> Inr s3)))"
  by pat_completeness auto
termination
  by (relation "measure (\<lambda>(visit, f, node, s). size node)") (auto simp: children_smaller)

declare Walk.simps [simp del]

text \<open>The nodes a visitor sees that goes below the nodes \<open>d\<close> only, in order.\<close>

function visited :: "(node \<Rightarrow> bool) \<Rightarrow> node \<Rightarrow> node list" where
  "visited d n = n # (if d n then concat (map (visited d) (children n)) else [])"
  by pat_completeness auto
termination
  by (relation "measure (\<lambda>(d, n). size n)") (auto simp: children_smaller)

declare visited.simps [simp del]

abbreviation preorder :: "node \<Rightarrow> node list" where
  "preorder \<equiv> visited (\<lambda>_. True)"

definition simple_visitor :: "('v, 's) visitor \<Rightarrow> 'v \<Rightarrow> (node \<Rightarrow> bool) \<Rightarrow> (node \<Rightarrow> 's \<Rightarrow> 's) \<Rightarrow> bool" where
  "simple_visitor visit f d g \<longleftrightarrow>
     (\<forall>n s. visit f n s = Inr (if d n then Some f else None, g n s)) \<and> d NilNode \<and> (\<forall>s. g NilNode s = s)"

lemma fold_ok_fold:
  "(\<And>x s. x \<in> set xs \<Longrightarrow> f x s = Inr (g x s)) \<Longrightarrow> fold_ok f xs s = Inr (fold g xs s)"
  by (induction xs arbitrary: s) auto

lemma fold_concat_map: "fold g (concat (map h xs)) s = fold (\<lambda>x. fold g (h x)) xs s"
  by (induction xs arbitrary: s) auto

text \<open>A visitor without state of its own folds its effect over the nodes it sees.\<close>

lemma Walk_simple:
  assumes "simple_visitor visit f d g" and "NilNode \<notin> set (visited d n)"
  shows "Walk visit f n s = Inr (fold g (visited d n) s)"
  using assms(2)
proof (induction "size n" arbitrary: n s rule: less_induct)
  case less
  have vis: "visit f m t = Inr (if d m then Some f else None, g m t)" for m t
    using assms(1) by (simp add: simple_visitor_def)
  have nil: "d NilNode" "g NilNode t = t" for t using assms(1) by (simp_all add: simple_visitor_def)
  show ?case
  proof (cases "d n")
    case False
    then show ?thesis by (subst Walk.simps, subst visited.simps) (simp add: vis)
  next
    case True
    have below: "NilNode \<notin> set (visited d m)" if "m \<in> set (children n)" for m
      using less.prems that True by (subst (asm) visited.simps) auto
    have "n \<noteq> NilNode" using less.prems by (subst (asm) visited.simps) auto
    moreover have "fold_ok (\<lambda>m. Walk visit f m) (children n) t =
        Inr (fold (\<lambda>m. fold g (visited d m)) (children n) t)" for t
      using less.hyps below children_smaller by (intro fold_ok_fold) blast
    ultimately show ?thesis using True
      by (subst Walk.simps, subst visited.simps) (simp add: vis nil fold_concat_map)
  qed
qed

section \<open>Type assertions\<close>

text \<open>\<open>x, ok := n.(*ast.T)\<close> for the node types the compiler asserts, with the fields it then reads.\<close>

definition as_String :: "node \<Rightarrow> string option" where
  "as_String n = (case n of String s \<Rightarrow> Some s | _ \<Rightarrow> None)"

definition as_List :: "node \<Rightarrow> node list option" where
  "as_List n = (case n of NodeList xs \<Rightarrow> Some xs | _ \<Rightarrow> None)"

definition as_ColumnRef :: "node \<Rightarrow> node column_ref option" where
  "as_ColumnRef n = (case n of ColumnRef r \<Rightarrow> Some r | _ \<Rightarrow> None)"

definition as_ResTarget :: "node \<Rightarrow> node res_target option" where
  "as_ResTarget n = (case n of ResTarget t \<Rightarrow> Some t | _ \<Rightarrow> None)"

definition as_ParamRef :: "node \<Rightarrow> nat option" where
  "as_ParamRef n = (case n of ParamRef a \<Rightarrow> Some a | _ \<Rightarrow> None)"

definition as_FuncCall :: "node \<Rightarrow> node func_call option" where
  "as_FuncCall n = (case n of FuncCall f \<Rightarrow> Some f | _ \<Rightarrow> None)"

definition as_SelectStmt :: "node \<Rightarrow> node select_stmt option" where
  "as_SelectStmt n = (case n of SelectStmt s \<Rightarrow> Some s | _ \<Rightarrow> None)"

definition as_RangeVar :: "node \<Rightarrow> node range_var option" where
  "as_RangeVar n = (case n of RangeVar v \<Rightarrow> Some v | _ \<Rightarrow> None)"

definition as_TypeCast :: "node \<Rightarrow> (node \<times> node type_name option) option" where
  "as_TypeCast n = (case n of TypeCast a t \<Rightarrow> Some (a, t) | _ \<Rightarrow> None)"

definition as_A_Const :: "node \<Rightarrow> node option" where
  "as_A_Const n = (case n of A_Const v \<Rightarrow> Some v | _ \<Rightarrow> None)"

definition as_SortBy :: "node \<Rightarrow> node option" where
  "as_SortBy n = (case n of SortBy m ops \<Rightarrow> Some m | _ \<Rightarrow> None)"

definition as_CaseExpr :: "node \<Rightarrow> node option" where
  "as_CaseExpr n = (case n of CaseExpr x a as d \<Rightarrow> Some x | _ \<Rightarrow> None)"

text \<open>\<open>%T\<close> of a node.\<close>

fun go_type :: "node \<Rightarrow> string" where
  "go_type NilNode = ''<nil>''"
| "go_type (NodeList _) = ''*ast.List''"
| "go_type (String _) = ''*ast.String''"
| "go_type (Integer _) = ''*ast.Integer''"
| "go_type (Float _) = ''*ast.Float''"
| "go_type (Boolean _) = ''*ast.Boolean''"
| "go_type Null = ''*ast.Null''"
| "go_type A_Star = ''*ast.A_Star''"
| "go_type (A_Const _) = ''*ast.A_Const''"
| "go_type (A_Expr _ _ _) = ''*ast.A_Expr''"
| "go_type (BoolExpr _ _ _) = ''*ast.BoolExpr''"
| "go_type (CaseExpr _ _ _ _) = ''*ast.CaseExpr''"
| "go_type (CoalesceExpr _ _) = ''*ast.CoalesceExpr''"
| "go_type (ColumnRef _) = ''*ast.ColumnRef''"
| "go_type (FuncName _) = ''*ast.FuncName''"
| "go_type (FuncCall _) = ''*ast.FuncCall''"
| "go_type (WindowDef _) = ''*ast.WindowDef''"
| "go_type (SubLink _ _ _ _ _) = ''*ast.SubLink''"
| "go_type (TypeName _) = ''*ast.TypeName''"
| "go_type (TypeCast _ _) = ''*ast.TypeCast''"
| "go_type (Alias _) = ''*ast.Alias''"
| "go_type (RangeVar _) = ''*ast.RangeVar''"
| "go_type (RangeFunction _ _ _) = ''*ast.RangeFunction''"
| "go_type (RangeSubselect _ _) = ''*ast.RangeSubselect''"
| "go_type (JoinExpr _ _ _ _ _ _) = ''*ast.JoinExpr''"
| "go_type (ResTarget _) = ''*ast.ResTarget''"
| "go_type (SortBy _ _) = ''*ast.SortBy''"
| "go_type (ParamRef _) = ''*ast.ParamRef''"
| "go_type (In _ _ _) = ''*ast.In''"
| "go_type (BetweenExpr _ _ _) = ''*ast.BetweenExpr''"
| "go_type (CallStmt _) = ''*ast.CallStmt''"
| "go_type (NamedArgExpr _ _ _) = ''*ast.NamedArgExpr''"
| "go_type (MultiAssignRef _ _) = ''*ast.MultiAssignRef''"
| "go_type (RowExpr _ _ _) = ''*ast.RowExpr''"
| "go_type (SQLValueFunction _) = ''*ast.SQLValueFunction''"
| "go_type (CommonTableExpr _) = ''*ast.CommonTableExpr''"
| "go_type (WithClause _) = ''*ast.WithClause''"
| "go_type (IndexElem _ _ _ _) = ''*ast.IndexElem''"
| "go_type (InferClause _) = ''*ast.InferClause''"
| "go_type (OnConflictClause _) = ''*ast.OnConflictClause''"
| "go_type (SelectStmt _) = ''*ast.SelectStmt''"
| "go_type (InsertStmt _) = ''*ast.InsertStmt''"
| "go_type (UpdateStmt _) = ''*ast.UpdateStmt''"
| "go_type (DeleteStmt _) = ''*ast.DeleteStmt''"
| "go_type (MergeStmt _) = ''*ast.MergeStmt''"
| "go_type (TruncateStmt _) = ''*ast.TruncateStmt''"
| "go_type (RefreshMatViewStmt _) = ''*ast.RefreshMatViewStmt''"
| "go_type (RawStmt _ _ _) = ''*ast.RawStmt''"
| "go_type (Other k ns) = ''*ast.'' @ k"

lemmas as_defs =
  as_String_def as_List_def as_ColumnRef_def as_ResTarget_def as_ParamRef_def as_FuncCall_def
  as_SelectStmt_def as_RangeVar_def as_TypeCast_def as_A_Const_def as_SortBy_def as_CaseExpr_def

lemma as_self [simp]:
  "as_String (String s) = Some s" "as_List (NodeList xs) = Some xs" "as_ColumnRef (ColumnRef r) = Some r"
  "as_ResTarget (ResTarget t) = Some t" "as_ParamRef (ParamRef a) = Some a" "as_FuncCall (FuncCall f) = Some f"
  "as_SelectStmt (SelectStmt q) = Some q" "as_RangeVar (RangeVar v) = Some v" "as_A_Const (A_Const n) = Some n"
  by (simp_all add: as_defs)

lemma as_Some [simp]:
  "as_String n = Some x_String \<longleftrightarrow> n = String x_String"
  "as_List n = Some x_List \<longleftrightarrow> n = NodeList x_List"
  "as_ColumnRef n = Some x_ColumnRef \<longleftrightarrow> n = ColumnRef x_ColumnRef"
  "as_ResTarget n = Some x_ResTarget \<longleftrightarrow> n = ResTarget x_ResTarget"
  "as_ParamRef n = Some x_ParamRef \<longleftrightarrow> n = ParamRef x_ParamRef"
  "as_FuncCall n = Some x_FuncCall \<longleftrightarrow> n = FuncCall x_FuncCall"
  "as_SelectStmt n = Some x_SelectStmt \<longleftrightarrow> n = SelectStmt x_SelectStmt"
  "as_RangeVar n = Some x_RangeVar \<longleftrightarrow> n = RangeVar x_RangeVar"
  "as_A_Const n = Some x_A_Const \<longleftrightarrow> n = A_Const x_A_Const"
  by (cases n; simp add: as_defs; fail)+

section \<open>Search and Join\<close>

definition nodeSearch :: "(node \<Rightarrow> bool) \<Rightarrow> (unit, node list) visitor" where
  "nodeSearch check v n s = Inr (Some v, if check n then s @ [n] else s)"

definition Search :: "node \<Rightarrow> (node \<Rightarrow> bool) \<Rightarrow> error + node list" where
  "Search root check = Walk (nodeSearch check) () root []"

fun string_items :: "node list \<Rightarrow> string list" where
  "string_items [] = []"
| "string_items (String s # ns) = s # string_items ns"
| "string_items (_ # ns) = string_items ns"

definition astutils_Join :: "node list option \<Rightarrow> string \<Rightarrow> string" where
  "astutils_Join l sep = (case l of None \<Rightarrow> [] | Some items \<Rightarrow> Join (string_items items) sep)"

lemma fold_filter: "fold (\<lambda>n s. if P n then s @ [n] else s) xs s = s @ filter P xs"
  by (induction xs arbitrary: s) auto

lemma Search_filter:
  assumes "NilNode \<notin> set (preorder root)" and "\<not> check NilNode"
  shows "Search root check = Inr (filter check (preorder root))"
proof -
  have "simple_visitor (nodeSearch check) () (\<lambda>_. True) (\<lambda>n s. if check n then s @ [n] else s)"
    using assms(2) by (simp add: simple_visitor_def nodeSearch_def)
  from Walk_simple [OF this assms(1)] show ?thesis by (simp add: Search_def fold_filter)
qed

end
