(* ===== verification/Query_Catalog.thy ===== *)
theory Query_Catalog
  imports Walk Catalog_Funcs Preprocess Plugin
begin

text \<open>
  What the compiler knows of the tables of one query: \<open>internal/compiler/query_catalog.go\<close>, with the names of
  \<open>compat.go\<close>, the columns of \<open>to_column.go\<close> and the virtual tables of \<open>returning.go\<close>.

  The columns of a common table expression are shared: every table read from it holds its very column
  pointers, and \<open>returningTables\<close> writes through them.  A table that came from a common table expression
  therefore names it, and its columns are read from the query catalog; any other table owns its columns.
\<close>

section \<open>State\<close>

record qtable =
  qt_Rel :: tableName
  qt_Cte :: "string option"
  qt_Own :: "qcolumn list"

record query_catalog =
  qcat_catalog :: catalog
  qcat_ctes :: "string \<rightharpoonup> qcolumn list"
  qcat_embeds :: "embed list"

record qfunction =
  qf_Rel :: funcName
  qf_ReturnType :: "typeName option"
  qf_Outs :: "argument list"

text \<open>The settings and the parts of the compiler the analysis of a query reads; the reserved words come from the
  engine's parser.\<close>

record compiler =
  comp_Engine :: engine
  comp_StrictOrderBy :: "bool option"
  comp_StrictFunctionChecks :: bool
  comp_catalog :: catalog
  comp_IsReservedKeyword :: "string \<Rightarrow> bool"
  comp_unicode :: unicode

definition nil_deref :: error where
  "nil_deref = Panic ''nil pointer dereference''"

definition index_range :: error where
  "index_range = Panic ''index out of range''"

text \<open>\<open>l.Items\<close> and \<open>*p\<close>: a nil pointer panics.\<close>

definition Items :: "node list option \<Rightarrow> error + node list" where
  "Items l = (case l of None \<Rightarrow> Inl nil_deref | Some xs \<Rightarrow> Inr xs)"

definition deref :: "'a option \<Rightarrow> error + 'a" where
  "deref p = (case p of None \<Rightarrow> Inl nil_deref | Some x \<Rightarrow> Inr x)"

definition opt_items :: "node list option \<Rightarrow> node list" where
  "opt_items l = (case l of None \<Rightarrow> [] | Some xs \<Rightarrow> xs)"

definition opt_nonempty :: "node list option \<Rightarrow> bool" where
  "opt_nonempty l \<longleftrightarrow> opt_items l \<noteq> []"

text \<open>A loop that returns the first error.\<close>

fun first_error :: "('a \<Rightarrow> error option) \<Rightarrow> 'a list \<Rightarrow> error option" where
  "first_error f [] = None"
| "first_error f (x # xs) = (case f x of Some e \<Rightarrow> Some e | None \<Rightarrow> first_error f xs)"

definition columns_of :: "query_catalog \<Rightarrow> qtable \<Rightarrow> qcolumn list" where
  "columns_of qc t =
     (case qt_Cte t of
        None \<Rightarrow> qt_Own t
      | Some n \<Rightarrow> (case qcat_ctes qc n of None \<Rightarrow> [] | Some cols \<Rightarrow> cols))"

abbreviation qt_name :: "qtable \<Rightarrow> string" where
  "qt_name t \<equiv> tn_Name (qt_Rel t)"

section \<open>Columns\<close>

definition zero_qcolumn :: qcolumn where
  "zero_qcolumn =
     \<lparr>qc_Name = [], qc_OriginalName = [], qc_DataType = [], qc_NotNull = False, qc_Unsigned = False,
      qc_IsArray = False, qc_ArrayDims = 0, qc_Comment = [], qc_Length = None, qc_IsNamedParam = False,
      qc_IsFuncCall = False, qc_Scope = [], qc_Table = None, qc_TableAlias = [], qc_Type = None,
      qc_EmbedTable = None, qc_IsSqlcSlice = False, qc_skipTableRequiredCheck = False\<rparr>"

definition plain_qcolumn :: "string \<Rightarrow> string \<Rightarrow> bool \<Rightarrow> qcolumn" where
  "plain_qcolumn name dt nn = zero_qcolumn\<lparr>qc_Name := name, qc_DataType := dt, qc_NotNull := nn\<rparr>"

definition dataType :: "typeName \<Rightarrow> string" where
  "dataType n = (if ty_Schema n \<noteq> [] then ty_Schema n @ ''.'' @ ty_Name n else ty_Name n)"

definition ConvertColumn :: "tableName \<Rightarrow> column \<Rightarrow> qcolumn" where
  "ConvertColumn rel c = zero_qcolumn
     \<lparr>qc_Table := Some rel, qc_Name := col_Name c, qc_DataType := dataType (col_Type c),
      qc_NotNull := col_IsNotNull c, qc_Unsigned := col_IsUnsigned c, qc_IsArray := col_IsArray c,
      qc_ArrayDims := col_ArrayDims c, qc_Type := Some (col_Type c), qc_Length := col_Length c\<rparr>"

section \<open>Names\<close>

record relation =
  rel_Catalog :: string
  rel_Schema :: string
  rel_Name :: string

definition relation_of_parts :: "string list \<Rightarrow> relation option" where
  "relation_of_parts parts =
     (case parts of
        [a] \<Rightarrow> Some \<lparr>rel_Catalog = [], rel_Schema = [], rel_Name = a\<rparr>
      | [a, b] \<Rightarrow> Some \<lparr>rel_Catalog = [], rel_Schema = a, rel_Name = b\<rparr>
      | [a, b, d] \<Rightarrow> Some \<lparr>rel_Catalog = a, rel_Schema = b, rel_Name = d\<rparr>
      | _ \<Rightarrow> None)"

definition relation_of_list :: "node list \<Rightarrow> error + relation" where
  "relation_of_list xs =
     (case relation_of_parts (string_items xs) of
        Some r \<Rightarrow> Inr r
      | None \<Rightarrow> Inl (PlainErr (''invalid name: '' @ astutils_Join (Some xs) ''.'')))"

abbreviation or_empty :: "string option \<Rightarrow> string" where
  "or_empty p \<equiv> case p of None \<Rightarrow> [] | Some s \<Rightarrow> s"

definition relation_of_range_var :: "node range_var \<Rightarrow> relation" where
  "relation_of_range_var v =
     \<lparr>rel_Catalog = or_empty (rvn_Catalogname v), rel_Schema = or_empty (rvn_Schemaname v),
      rel_Name = or_empty (rvn_Relname v)\<rparr>"

definition relation_of_type_name :: "node type_name \<Rightarrow> error + relation" where
  "relation_of_type_name t =
     (case tyn_Names t of
        Some xs \<Rightarrow> relation_of_list xs
      | None \<Rightarrow> Inr \<lparr>rel_Catalog = [], rel_Schema = [], rel_Name = tyn_Name t\<rparr>)"

definition parseRelation :: "node \<Rightarrow> error + relation" where
  "parseRelation node =
     (case node of
        Boolean b \<Rightarrow> Inr \<lparr>rel_Catalog = [], rel_Schema = [], rel_Name = ''bool''\<rparr>
      | NodeList xs \<Rightarrow> relation_of_list xs
      | RangeVar v \<Rightarrow> Inr (relation_of_range_var v)
      | TypeName t \<Rightarrow> relation_of_type_name t
      | _ \<Rightarrow> Inl (PlainErr (''unexpected node type: '' @ go_type node)))"

text \<open>\<open>fmt.Errorf\<close> with a prefix and \<open>%w\<close>.\<close>

fun error_text :: "error \<Rightarrow> string" where
  "error_text (SqlErr e) = Error_Error e"
| "error_text (PlainErr s) = s"
| "error_text (Panic s) = s"

fun wrap_err :: "string \<Rightarrow> error \<Rightarrow> error" where
  "wrap_err prefix (Panic s) = Panic s"
| "wrap_err prefix e = PlainErr (prefix @ error_text e)"

definition relation_table :: "relation \<Rightarrow> tableName" where
  "relation_table r = \<lparr>tn_Catalog = rel_Catalog r, tn_Schema = rel_Schema r, tn_Name = rel_Name r\<rparr>"

definition ParseTableName :: "node \<Rightarrow> error + tableName" where
  "ParseTableName node =
     (case parseRelation node of
        Inl e \<Rightarrow> Inl (wrap_err ''parse table name: '' e)
      | Inr r \<Rightarrow> Inr (relation_table r))"

definition ParseTypeName :: "node \<Rightarrow> error + typeName" where
  "ParseTypeName node =
     (case parseRelation node of
        Inl e \<Rightarrow> Inl (wrap_err ''parse type name: '' e)
      | Inr r \<Rightarrow> Inr ((named_type (rel_Name r))\<lparr>ty_Catalog := rel_Catalog r, ty_Schema := rel_Schema r\<rparr>))"

definition ParseRelationString :: "string \<Rightarrow> error + relation" where
  "ParseRelationString name =
     (case relation_of_parts (split_byte (CHR ''.'') name) of
        Some r \<Rightarrow> Inr r
      | None \<Rightarrow> Inl (PlainErr (''invalid name: '' @ name)))"

text \<open>A nil \<open>*ast.RangeVar\<close> is not a nil node: \<open>parseRelation\<close> finds it in its case for range variables.\<close>

definition ParseTableName_ptr :: "node range_var option \<Rightarrow> error + tableName" where
  "ParseTableName_ptr p =
     (case p of
        None \<Rightarrow> Inl (PlainErr ''parse table name: unexpected nil in *ast.RangeVar node'')
      | Some v \<Rightarrow> Inr (relation_table (relation_of_range_var v)))"

lemma ParseTableName_RangeVar [simp]:
  "ParseTableName (RangeVar v) = Inr (relation_table (relation_of_range_var v))"
  by (simp add: ParseTableName_def parseRelation_def)

section \<open>Columns of type casts\<close>

definition arrayDims :: "node type_name \<Rightarrow> int" where
  "arrayDims n = (case tyn_ArrayBounds n of None \<Rightarrow> 0 | Some xs \<Rightarrow> int (length xs))"

definition toColumn :: "node type_name \<Rightarrow> error + qcolumn" where
  "toColumn n =
     (case ParseTypeName (TypeName n) of
        Inl e \<Rightarrow> Inl (Panic (''toColumn: '' @ error_text e))
      | Inr typ \<Rightarrow> Inr (zero_qcolumn
          \<lparr>qc_Type := Some typ, qc_DataType := TrimPrefix (astutils_Join (tyn_Names n) ''.'') ''.'',
           qc_NotNull := True, qc_IsArray := 0 < arrayDims n, qc_ArrayDims := arrayDims n\<rparr>))"

section \<open>Lookups\<close>

definition qc_GetTable :: "query_catalog \<Rightarrow> tableName \<Rightarrow> error + qtable" where
  "qc_GetTable qc rel =
     (case qcat_ctes qc (tn_Name rel) of
        Some cols \<Rightarrow> Inr \<lparr>qt_Rel = rel, qt_Cte = Some (tn_Name rel), qt_Own = []\<rparr>
      | None \<Rightarrow>
          (case GetTable (qcat_catalog qc) rel of
             Inl e \<Rightarrow> Inl e
           | Inr src \<Rightarrow> Inr \<lparr>qt_Rel = rel, qt_Cte = None,
                             qt_Own = map (ConvertColumn rel) (cols_of (qcat_catalog qc) src)\<rparr>))"

definition qc_GetFunc :: "query_catalog \<Rightarrow> funcName \<Rightarrow> error + qfunction" where
  "qc_GetFunc qc rel =
     (case ListFuncsByName (qcat_catalog qc) rel of
        Inl e \<Rightarrow> Inl e
      | Inr [] \<Rightarrow> Inl (PlainErr (''function not found: '' @ fn_Name rel))
      | Inr (f # _) \<Rightarrow> Inr \<lparr>qf_Rel = rel, qf_ReturnType = f_ReturnType f, qf_Outs = OutArgs f\<rparr>)"

text \<open>\<open>ResolveFuncCall\<close> on a call of the tree.\<close>

definition call_arg :: "node \<Rightarrow> callArg" where
  "call_arg n = (case n of NamedArgExpr x a name \<Rightarrow> NamedArg name | _ \<Rightarrow> Positional)"

definition resolve_call :: "catalog \<Rightarrow> node func_call \<Rightarrow> error + func" where
  "resolve_call c n =
     (case fcn_Func n of
        None \<Rightarrow> Inl nil_deref
      | Some f \<Rightarrow> ResolveFuncCall c \<lparr>fc_Func = f, fc_Args = map_option (map call_arg) (fcn_Args n),
                                     fc_Location = fcn_Location n\<rparr>)"

section \<open>Tables of a RETURNING clause\<close>

definition firstRangeVar :: "node list option \<Rightarrow> node range_var option" where
  "firstRangeVar l =
     (case l of
        None \<Rightarrow> None
      | Some xs \<Rightarrow> (case List.map_filter as_RangeVar xs of [] \<Rightarrow> None | v # _ \<Rightarrow> Some v))"

definition alias_or :: "string \<Rightarrow> string \<Rightarrow> string" where
  "alias_or d a = (if a \<noteq> [] then a else d)"

definition set_nullable :: "qtable \<Rightarrow> query_catalog \<Rightarrow> qtable \<times> query_catalog" where
  "set_nullable t qc =
     (let off = map (\<lambda>c. c\<lparr>qc_NotNull := False\<rparr>) in
      case qt_Cte t of
        None \<Rightarrow> (t\<lparr>qt_Own := off (qt_Own t)\<rparr>, qc)
      | Some n \<Rightarrow> (t, qc\<lparr>qcat_ctes := (qcat_ctes qc)(n := map_option off (qcat_ctes qc n))\<rparr>))"

text \<open>The closure \<open>build\<close>: the virtual table of one alias, none when the target does not resolve.\<close>

definition build_returning :: "tableName \<Rightarrow> string \<Rightarrow> bool \<Rightarrow> query_catalog \<Rightarrow> qtable list \<times> query_catalog" where
  "build_returning fqn al is_nullable qc =
     (case qc_GetTable qc fqn of
        Inl e \<Rightarrow> ([], qc)
      | Inr t \<Rightarrow>
          (let t1 = t\<lparr>qt_Rel := named_table al\<rparr> in
           if is_nullable then (let (t2, qc2) = set_nullable t1 qc in ([t2], qc2)) else ([t1], qc)))"

definition returning_target ::
    "node \<Rightarrow> (node range_var option \<times> node list option \<times> string \<times> string \<times> bool \<times> bool) option" where
  "returning_target node =
     (case node of
        DeleteStmt n \<Rightarrow>
          Some (firstRangeVar (ds_Relations n), ds_ReturningList n, alias_or ''old'' (ds_ReturningOldAlias n),
                alias_or ''new'' (ds_ReturningNewAlias n), False, True)
      | InsertStmt n \<Rightarrow>
          Some (is_Relation n, is_ReturningList n, alias_or ''old'' (is_ReturningOldAlias n),
                alias_or ''new'' (is_ReturningNewAlias n), True, False)
      | UpdateStmt n \<Rightarrow>
          Some (firstRangeVar (us_Relations n), us_ReturningList n, alias_or ''old'' (us_ReturningOldAlias n),
                alias_or ''new'' (us_ReturningNewAlias n), False, False)
      | _ \<Rightarrow> None)"

definition returningTables :: "compiler \<Rightarrow> query_catalog \<Rightarrow> node \<Rightarrow> qtable list \<times> query_catalog" where
  "returningTables c qc node =
     (if comp_Engine c \<noteq> EnginePostgreSQL then ([], qc)
      else
        (case returning_target node of
           Some (Some rv, Some (r # rs), oldAlias, newAlias, oldNullable, newNullable) \<Rightarrow>
             (let fqn = relation_table (relation_of_range_var rv);
                  (old, qc1) = build_returning fqn oldAlias oldNullable qc;
                  (new, qc2) = build_returning fqn newAlias newNullable qc1
              in (old @ new, qc2))
         | _ \<Rightarrow> ([], qc)))"

definition returningTableForScope :: "qtable list \<Rightarrow> qtable list \<Rightarrow> string \<Rightarrow> qtable option" where
  "returningTableForScope tables rtables scope =
     (if scope = [] then None
      else if list_ex (\<lambda>t. qt_name t = scope) tables then None
      else find (\<lambda>t. qt_name t = scope) rtables)"

definition tablesForRef :: "string list \<Rightarrow> qtable list \<Rightarrow> qtable list \<Rightarrow> qtable list" where
  "tablesForRef parts tables rtables =
     (if length parts \<noteq> 2 then tables
      else
        (case returningTableForScope tables rtables (hd parts) of
           Some vt \<Rightarrow> tables @ [vt]
         | None \<Rightarrow> tables))"

end
