(* ===== verification/Query_Columns.thy ===== *)
theory Query_Columns
  imports Query_Catalog
begin

text \<open>
  The parts of \<open>internal/compiler/output_columns.go\<close>: references, the checks of a SELECT, outer joins, the source
  tables of a statement and the columns of a target.  \<open>outputColumns\<close> and \<open>sourceTables\<close> call each other through
  subqueries; here the function for subqueries is an argument, which the next theory ties up.
\<close>

section \<open>Operators\<close>

text \<open>\<open>internal/sql/lang/operator.go\<close>.\<close>

definition IsComparisonOperator :: "string \<Rightarrow> bool" where
  "IsComparisonOperator s \<longleftrightarrow>
     s \<in> set [''>'', ''<'', ''<='', ''>='', ''='', ''=='', ''<>'', ''!='', ''IS'', ''IS NOT'', ''IS DISTINCT FROM'',
       ''IS NOT DISTINCT FROM'', ''ISNULL'', ''NOTNULL'', ''NOT NULL'', ''LIKE'', ''NOT LIKE'', ''GLOB'', ''NOT GLOB'',
       ''REGEXP'', ''NOT REGEXP'', ''MATCH'', ''NOT MATCH'']"

definition IsMathematicalOperator :: "string \<Rightarrow> bool" where
  "IsMathematicalOperator s \<longleftrightarrow>
     s \<in> set [''+'', ''-'', ''*'', ''/'', ''%'', ''^'', ''|/'', ''||/'', ''!'', ''!!'', ''@'', ''&'', ''|'', ''#'', ''~'',
       ''<<'', ''>>'']"

section \<open>Column references\<close>

definition hasStarRef :: "node column_ref \<Rightarrow> error + bool" where
  "hasStarRef r = map_sum id (\<lambda>items. A_Star \<in> set items) (Items (cr_Fields r))"

definition ref_error :: "string \<Rightarrow> nat \<Rightarrow> error" where
  "ref_error msg loc = SqlErr \<lparr>Err = None, Code = ''42703'', Message = msg, Location = loc, Line = 0, Column = 0\<rparr>"

text \<open>The schema, table and column named by the parts of a reference.\<close>

definition ref_parts :: "string list \<Rightarrow> (string \<times> string \<times> string) option" where
  "ref_parts parts =
     (case parts of
        [name] \<Rightarrow> Some ([], [], name)
      | [al, name] \<Rightarrow> Some ([], al, name)
      | [sch, al, name] \<Rightarrow> Some (sch, al, name)
      | _ \<Rightarrow> None)"

definition ref_matches :: "query_catalog \<Rightarrow> string \<Rightarrow> string \<Rightarrow> string \<Rightarrow> qtable list \<Rightarrow> qcolumn list" where
  "ref_matches qc sch al name tables =
     concat (map (\<lambda>t.
       if sch \<noteq> [] \<and> tn_Schema (qt_Rel t) \<noteq> sch then []
       else if al \<noteq> [] \<and> qt_name t \<noteq> al then []
       else filter (\<lambda>c. qc_Name c = name) (columns_of qc t)) tables)"

definition ref_column :: "string option \<Rightarrow> string \<Rightarrow> qcolumn \<Rightarrow> qcolumn" where
  "ref_column rname al c = zero_qcolumn
     \<lparr>qc_Name := (case rname of Some n \<Rightarrow> n | None \<Rightarrow> qc_Name c), qc_Type := qc_Type c, qc_Table := qc_Table c,
      qc_TableAlias := al, qc_DataType := qc_DataType c, qc_NotNull := qc_NotNull c, qc_Unsigned := qc_Unsigned c,
      qc_IsArray := qc_IsArray c, qc_ArrayDims := qc_ArrayDims c, qc_Length := qc_Length c,
      qc_EmbedTable := qc_EmbedTable c, qc_OriginalName := qc_Name c\<rparr>"

definition outputColumnRefs ::
    "query_catalog \<Rightarrow> node res_target \<Rightarrow> qtable list \<Rightarrow> string list \<Rightarrow> error + qcolumn list" where
  "outputColumnRefs qc res tables parts =
     (case ref_parts parts of
        None \<Rightarrow> Inl (PlainErr (''unknown number of fields: '' @ Itoa (int (length parts))))
      | Some (sch, al, name) \<Rightarrow>
          (let found = ref_matches qc sch al name tables in
           if length found = 0
           then Inl (ref_error (''column '' @ Quote name @ '' does not exist'') (rt_Location res))
           else if 1 < length found
           then Inl (ref_error (''column reference '' @ Quote name @ '' is ambiguous'') (rt_Location res))
           else Inr (map (ref_column (rt_Name res) al) found)))"

section \<open>References of GROUP BY and ORDER BY\<close>

definition isImplicitColumnRef :: "compiler \<Rightarrow> string list \<Rightarrow> bool" where
  "isImplicitColumnRef c parts \<longleftrightarrow>
     comp_Engine c = EngineSQLite \<and> parts \<noteq> [] \<and> last parts \<in> {''rowid'', ''_rowid_'', ''oid''}"

definition target_named :: "string \<Rightarrow> node \<Rightarrow> bool" where
  "target_named name n = (case as_ResTarget n of None \<Rightarrow> False | Some t \<Rightarrow> rt_Name t = Some name)"

definition findColumnForRef ::
    "query_catalog \<Rightarrow> string list \<Rightarrow> nat \<Rightarrow> qtable list \<Rightarrow> node list \<Rightarrow> error option" where
  "findColumnForRef qc parts loc tables targetList =
     (let (al, name) = (case parts of [n] \<Rightarrow> ([], n) | [a, n] \<Rightarrow> (a, n) | _ \<Rightarrow> ([], []));
          in_tables = length (filter (\<lambda>t. (al = [] \<or> qt_name t = al) \<and>
                        list_ex (\<lambda>c. qc_Name c = name) (columns_of qc t)) tables);
          found = (if in_tables = 0 then length (filter (target_named name) targetList) else in_tables)
      in if found = 0 then Some (ref_error (''column reference '' @ Quote name @ '' not found'') loc)
         else if 1 < found then Some (ref_error (''column reference '' @ Quote name @ '' is ambiguous'') loc)
         else None)"

definition findColumnForNode ::
    "compiler \<Rightarrow> query_catalog \<Rightarrow> node \<Rightarrow> qtable list \<Rightarrow> node list option \<Rightarrow> error option" where
  "findColumnForNode c qc item tables targetList =
     (case as_ColumnRef item of
        None \<Rightarrow> None
      | Some r \<Rightarrow>
          (case Items (cr_Fields r) of
             Inl e \<Rightarrow> Some e
           | Inr fs \<Rightarrow>
               if isImplicitColumnRef c (string_items fs) then None
               else findColumnForRef qc (string_items fs) (cr_Location r) tables
                      (case targetList of None \<Rightarrow> [] | Some ts \<Rightarrow> ts)))"

fun order_err :: "error \<Rightarrow> error" where
  "order_err (Panic s) = Panic s"
| "order_err e = PlainErr (error_text e @ '': if you want to skip this validation, set '' @ [CHR 0x27] @ ''strict_order_by'' @ [CHR 0x27] @ '' to false'')"

definition window_case_exprs :: "node list \<Rightarrow> node list" where
  "window_case_exprs items = List.map_filter as_CaseExpr (concat (List.map_filter as_List items))"

text \<open>The checks of a SELECT before its targets; a union has no targets of its own.\<close>

definition check_select :: "compiler \<Rightarrow> query_catalog \<Rightarrow> qtable list \<Rightarrow> node select_stmt \<Rightarrow> bool \<Rightarrow> error option" where
  "check_select c qc tables n isUnion =
     (case first_error (\<lambda>item. findColumnForNode c qc item tables (ss_TargetList n)) (opt_items (ss_GroupClause n)) of
        Some e \<Rightarrow> Some e
      | None \<Rightarrow>
          if isUnion \<or> comp_StrictOrderBy c = Some False then None
          else
            map_option order_err
              (first_error (\<lambda>item. findColumnForNode c qc item tables (ss_TargetList n))
                (List.map_filter as_SortBy (opt_items (ss_SortClause n)) @
                 window_case_exprs (opt_items (ss_WindowClause n)))))"

section \<open>Outer joins\<close>

datatype table_need = tableNotFound | tableRequired | tableOptional

definition range_var_matches :: "node range_var \<Rightarrow> qcolumn \<Rightarrow> error + bool" where
  "range_var_matches v col =
     (case deref (rvn_Relname v) of
        Inl e \<Rightarrow> Inl e
      | Inr rel \<Rightarrow>
          (case qc_Table col of
             None \<Rightarrow> Inl nil_deref
           | Some t \<Rightarrow>
               (case rvn_Alias v of
                  Some a \<Rightarrow>
                    if qc_TableAlias col = [] then Inr (rel = tn_Name t)
                    else
                      (case deref (al_Aliasname a) of
                         Inl e \<Rightarrow> Inl e
                       | Inr al \<Rightarrow> Inr (al = qc_TableAlias col \<and> rel = tn_Name t))
                | None \<Rightarrow> Inr (rel = tn_Name t))))"

text \<open>What a join asks of its sides, as the closure \<open>helper\<close> is called.\<close>

definition join_sides :: "join_type \<Rightarrow> (table_need \<times> table_need) option" where
  "join_sides t =
     (case t of
        JoinTypeLeft \<Rightarrow> Some (tableRequired, tableOptional)
      | JoinTypeRight \<Rightarrow> Some (tableOptional, tableRequired)
      | JoinTypeFull \<Rightarrow> Some (tableOptional, tableOptional)
      | JoinTypeInner \<Rightarrow> Some (tableRequired, tableRequired)
      | JoinTypeCross \<Rightarrow> Some (tableRequired, tableRequired)
      | JoinTypeComma \<Rightarrow> Some (tableRequired, tableRequired)
      | JoinTypeOther \<Rightarrow> None)"

function isTableRequired :: "node \<Rightarrow> qcolumn \<Rightarrow> table_need \<Rightarrow> error + table_need"
  and any_required :: "node list \<Rightarrow> qcolumn \<Rightarrow> table_need \<Rightarrow> error + table_need" where
  "isTableRequired n col prior =
     (case n of
        RangeVar v \<Rightarrow> map_sum id (\<lambda>m. if m then prior else tableNotFound) (range_var_matches v col)
      | JoinExpr t larg rarg us q a \<Rightarrow>
          (case join_sides t of
             None \<Rightarrow> Inr tableNotFound
           | Some (l, r) \<Rightarrow>
               (case isTableRequired larg col l of
                  Inl e \<Rightarrow> Inl e
                | Inr res \<Rightarrow> if res \<noteq> tableNotFound then Inr res else isTableRequired rarg col r))
      | NodeList items \<Rightarrow> any_required items col prior
      | _ \<Rightarrow> Inr tableNotFound)"
| "any_required [] col prior = Inr tableNotFound"
| "any_required (n # ns) col prior =
     (case isTableRequired n col prior of
        Inl e \<Rightarrow> Inl e
      | Inr res \<Rightarrow> if res \<noteq> tableNotFound then Inr res else any_required ns col prior)"
  by pat_completeness auto
termination
  by (relation "measure (\<lambda>x. case x of Inl (n, _) \<Rightarrow> size n | Inr (ns, _) \<Rightarrow> size_list size ns)") auto

declare isTableRequired.simps [simp del]

definition require_column :: "node select_stmt \<Rightarrow> qcolumn \<Rightarrow> error + qcolumn" where
  "require_column n col =
     (if \<not> qc_NotNull col \<or> qc_Table col = None \<or> qc_skipTableRequiredCheck col then Inr col
      else
        (case Items (ss_FromClause n) of
           Inl e \<Rightarrow> Inl e
         | Inr fs \<Rightarrow>
             (case any_required fs col tableRequired of
                Inl e \<Rightarrow> Inl e
              | Inr res \<Rightarrow>
                  Inr (if res = tableNotFound then col else col\<lparr>qc_NotNull := (res = tableRequired)\<rparr>))))"

section \<open>Source tables\<close>

text \<open>\<open>tableVisitor\<close>: it does not look below a subquery of the FROM clause.\<close>

definition is_table_node :: "node \<Rightarrow> bool" where
  "is_table_node n = (case n of RangeVar v \<Rightarrow> True | RangeFunction fs a cs \<Rightarrow> True | RangeSubselect q a \<Rightarrow> True | _ \<Rightarrow> False)"

definition is_subselect :: "node \<Rightarrow> bool" where
  "is_subselect n = (case n of RangeSubselect q a \<Rightarrow> True | _ \<Rightarrow> False)"

definition tableVisitor :: "(unit, node list) visitor" where
  "tableVisitor v n s = Inr (if is_subselect n then None else Some v, if is_table_node n then s @ [n] else s)"

definition walk_list :: "node list option \<Rightarrow> node list \<Rightarrow> error + node list" where
  "walk_list l s = (case Items l of Inl e \<Rightarrow> Inl e | Inr xs \<Rightarrow> Walk tableVisitor () (NodeList xs) s)"

definition is_range_var :: "node \<Rightarrow> bool" where
  "is_range_var n = (as_RangeVar n \<noteq> None)"

definition source_items :: "node \<Rightarrow> error + node list" where
  "source_items node =
     (case node of
        DeleteStmt n \<Rightarrow>
          (case ds_Relations n of
             Some rs \<Rightarrow> Inr rs
           | None \<Rightarrow> if ds_FromClause n = NilNode then Inr [] else Walk tableVisitor () (ds_FromClause n) [])
      | InsertStmt n \<Rightarrow>
          (case ParseTableName_ptr (is_Relation n) of
             Inl e \<Rightarrow> Inl e
           | Inr _ \<Rightarrow> Inr (kid_ptr RangeVar (is_Relation n)))
      | SelectStmt n \<Rightarrow> walk_list (ss_FromClause n) []
      | TruncateStmt rs \<Rightarrow>
          (case Items rs of Inl e \<Rightarrow> Inl e | Inr xs \<Rightarrow> Search (NodeList xs) is_range_var)
      | RefreshMatViewStmt r \<Rightarrow>
          (case deref r of Inl e \<Rightarrow> Inl e | Inr v \<Rightarrow> Search (RangeVar v) is_range_var)
      | UpdateStmt n \<Rightarrow>
          (case walk_list (us_FromClause n) [] of Inl e \<Rightarrow> Inl e | Inr s \<Rightarrow> walk_list (us_Relations n) s)
      | _ \<Rightarrow> Inr [])"

text \<open>The call of a function in the FROM clause; \<open>None\<close> where the code goes on with the next table.\<close>

definition range_call :: "node list option \<Rightarrow> error + node func_call option" where
  "range_call functions =
     (case Items functions of
        Inl e \<Rightarrow> Inl e
      | Inr [] \<Rightarrow> Inl index_range
      | Inr (f # _) \<Rightarrow>
          (case f of
             NodeList [] \<Rightarrow> Inl index_range
           | NodeList (fi # _) \<Rightarrow> Inr (as_FuncCall fi)
           | FuncCall fc \<Rightarrow> Inr (Some fc)
           | _ \<Rightarrow> Inl (PlainErr (''sourceTables: unsupported function call type '' @ go_type f))))"

definition colname_columns :: "node list \<Rightarrow> error + qcolumn list" where
  "colname_columns ns =
     map_ok (\<lambda>n. case as_String n of
                   None \<Rightarrow> Inl (Panic ''interface conversion'')
                 | Some s \<Rightarrow> Inr (plain_qcolumn s ''any'' False)) ns"

definition table_of_func :: "funcName \<Rightarrow> tableName" where
  "table_of_func f = \<lparr>tn_Catalog = fn_Catalog f, tn_Schema = fn_Schema f, tn_Name = fn_Name f\<rparr>"

definition unknown_columns :: "qfunction \<Rightarrow> string \<Rightarrow> qcolumn list" where
  "unknown_columns fn colName =
     (case qf_ReturnType fn of
        Some rt \<Rightarrow> [plain_qcolumn colName (ty_Name rt) False]
      | None \<Rightarrow> map (\<lambda>a. plain_qcolumn (arg_Name a) (ty_Name (arg_Type a)) False) (qf_Outs fn))"

definition range_function_table :: "query_catalog \<Rightarrow> qfunction \<Rightarrow> node aliasName option \<Rightarrow> error + qtable" where
  "range_function_table qc fn al =
     (let found = (case qf_ReturnType fn of
                     None \<Rightarrow> None
                   | Some rt \<Rightarrow>
                       (case qc_GetTable qc \<lparr>tn_Catalog = ty_Catalog rt, tn_Schema = ty_Schema rt, tn_Name = ty_Name rt\<rparr> of
                          Inl e \<Rightarrow> None
                        | Inr t \<Rightarrow> Some t));
          table =
            (case found of
               Some t \<Rightarrow> Inr t
             | None \<Rightarrow>
                 (case al of
                    None \<Rightarrow> Inr \<lparr>qt_Rel = table_of_func (qf_Rel fn), qt_Cte = None,
                                 qt_Own = unknown_columns fn (fn_Name (qf_Rel fn))\<rparr>
                  | Some a \<Rightarrow>
                      (case Items (al_Colnames a) of
                         Inl e \<Rightarrow> Inl e
                       | Inr [] \<Rightarrow>
                           (case deref (al_Aliasname a) of
                              Inl e \<Rightarrow> Inl e
                            | Inr n \<Rightarrow> Inr \<lparr>qt_Rel = table_of_func (qf_Rel fn), qt_Cte = None,
                                            qt_Own = unknown_columns fn n\<rparr>)
                       | Inr (x # xs) \<Rightarrow>
                           (case colname_columns (x # xs) of
                              Inl e \<Rightarrow> Inl e
                            | Inr cols \<Rightarrow> Inr \<lparr>qt_Rel = named_table [], qt_Cte = None, qt_Own = cols\<rparr>))))
      in case table of
           Inl e \<Rightarrow> Inl e
         | Inr t \<Rightarrow>
             (case al of
                None \<Rightarrow> Inr t
              | Some a \<Rightarrow>
                  (case deref (al_Aliasname a) of
                     Inl e \<Rightarrow> Inl e
                   | Inr n \<Rightarrow> Inr (t\<lparr>qt_Rel := named_table n\<rparr>))))"

definition range_var_table :: "query_catalog \<Rightarrow> node range_var \<Rightarrow> error + qtable" where
  "range_var_table qc v =
     (case qc_GetTable qc (relation_table (relation_of_range_var v)) of
        Inl e \<Rightarrow> Inl e
      | Inr t \<Rightarrow>
          (case rvn_Alias v of
             None \<Rightarrow> Inr t
           | Some a \<Rightarrow>
               (case deref (al_Aliasname a) of
                  Inl e \<Rightarrow> Inl e
                | Inr n \<Rightarrow> Inr (t\<lparr>qt_Rel := (qt_Rel t)\<lparr>tn_Name := n\<rparr>\<rparr>))))"

type_synonym columns_fun = "node \<Rightarrow> query_catalog \<Rightarrow> error + (qcolumn list \<times> query_catalog)"

text \<open>The body of the loop of \<open>sourceTables\<close>; \<open>sub\<close> gives the columns of a subquery.\<close>

definition source_table :: "columns_fun \<Rightarrow> node \<Rightarrow> query_catalog \<Rightarrow> error + (qtable list \<times> query_catalog)" where
  "source_table sub item qc =
     (case item of
        RangeFunction functions al coldefs \<Rightarrow>
          (case range_call functions of
             Inl e \<Rightarrow> Inl e
           | Inr None \<Rightarrow> Inr ([], qc)
           | Inr (Some fc) \<Rightarrow>
               (case deref (fcn_Func fc) of
                  Inl e \<Rightarrow> Inl e
                | Inr f \<Rightarrow>
                    (case qc_GetFunc qc f of
                       Inl e \<Rightarrow> Inr ([], qc)
                     | Inr fn \<Rightarrow> map_sum id (\<lambda>t. ([t], qc)) (range_function_table qc fn al))))
      | RangeSubselect q al \<Rightarrow>
          (case sub q qc of
             Inl e \<Rightarrow> Inl e
           | Inr (cols, qc1) \<Rightarrow>
               (case al of
                  None \<Rightarrow> Inr ([\<lparr>qt_Rel = named_table [], qt_Cte = None, qt_Own = cols\<rparr>], qc1)
                | Some a \<Rightarrow>
                    (case deref (al_Aliasname a) of
                       Inl e \<Rightarrow> Inl e
                     | Inr n \<Rightarrow> Inr ([\<lparr>qt_Rel = named_table n, qt_Cte = None, qt_Own = cols\<rparr>], qc1))))
      | RangeVar v \<Rightarrow> map_sum id (\<lambda>t. ([t], qc)) (range_var_table qc v)
      | _ \<Rightarrow> Inl (PlainErr (''sourceTable: unsupported list item type: '' @ go_type item)))"

definition sourceTables :: "columns_fun \<Rightarrow> query_catalog \<Rightarrow> node \<Rightarrow> error + (qtable list \<times> query_catalog)" where
  "sourceTables sub qc node =
     (case source_items node of
        Inl e \<Rightarrow> Inl e
      | Inr items \<Rightarrow>
          fold_ok (\<lambda>item s. case source_table sub item (snd s) of
                              Inl e \<Rightarrow> Inl e
                            | Inr (ts, qc') \<Rightarrow> Inr (fst s @ ts, qc')) items ([], qc))"

section \<open>Targets\<close>

definition const_column :: "string \<Rightarrow> node \<Rightarrow> qcolumn" where
  "const_column name val =
     (case val of
        String s \<Rightarrow> plain_qcolumn name ''text'' True
      | Integer i \<Rightarrow> plain_qcolumn name ''int'' True
      | Float f \<Rightarrow> plain_qcolumn name ''float'' True
      | Boolean b \<Rightarrow> plain_qcolumn name ''bool'' True
      | _ \<Rightarrow> plain_qcolumn name ''any'' False)"

definition operator_column :: "string \<Rightarrow> string \<Rightarrow> qcolumn" where
  "operator_column name op =
     (if IsComparisonOperator op then plain_qcolumn name ''bool'' True
      else if IsMathematicalOperator op then plain_qcolumn name ''int'' True
      else plain_qcolumn name ''any'' False)"

definition is_exists :: "node \<Rightarrow> bool" where
  "is_exists n = (case n of SubLink x t e ops s \<Rightarrow> t = EXISTS_SUBLINK | _ \<Rightarrow> False)"

definition bool_column :: "string \<Rightarrow> bool_expr_type \<Rightarrow> node list \<Rightarrow> qcolumn" where
  "bool_column name op args =
     (case args of
        [arg] \<Rightarrow>
          (case op of
             BoolExprTypeIsNull \<Rightarrow> plain_qcolumn name ''bool'' True
           | BoolExprTypeIsNotNull \<Rightarrow> plain_qcolumn name ''bool'' True
           | BoolExprTypeNot \<Rightarrow>
               if is_exists arg then plain_qcolumn (if name = [] then ''not_exists'' else name) ''bool'' True
               else plain_qcolumn name ''bool'' False
           | _ \<Rightarrow> plain_qcolumn name ''bool'' False)
      | _ \<Rightarrow> plain_qcolumn name ''bool'' False)"

text \<open>A cast is named after the column it casts, unless the target has a name.\<close>

definition cast_name :: "string option \<Rightarrow> node \<Rightarrow> string" where
  "cast_name rname arg =
     (case rname of
        Some n \<Rightarrow> n
      | None \<Rightarrow> (case as_ColumnRef arg of Some r \<Rightarrow> astutils_Join (cr_Fields r) ''_'' | None \<Rightarrow> []))"

definition cast_column :: "string option \<Rightarrow> node \<Rightarrow> node type_name option \<Rightarrow> error + qcolumn" where
  "cast_column rname arg tn =
     (case tn of
        None \<Rightarrow> Inl (PlainErr ''no type name type cast'')
      | Some t \<Rightarrow> map_sum id (\<lambda>c. c\<lparr>qc_Name := cast_name rname arg\<rparr>) (toColumn t))"

definition case_column :: "string option \<Rightarrow> node \<Rightarrow> error + qcolumn" where
  "case_column rname defresult =
     (case as_TypeCast defresult of
        Some (arg, tn) \<Rightarrow> cast_column rname arg tn
      | None \<Rightarrow>
          (case as_A_Const defresult of
             Some val \<Rightarrow> Inr (const_column (or_empty rname) val)
           | None \<Rightarrow> Inr (plain_qcolumn (or_empty rname) ''any'' False)))"

text \<open>The columns of a reference, among the source tables and the tables of the RETURNING clause.\<close>

definition ref_columns ::
    "query_catalog \<Rightarrow> node res_target \<Rightarrow> qtable list \<Rightarrow> qtable list \<Rightarrow> node column_ref \<Rightarrow> error + qcolumn list" where
  "ref_columns qc res tables rtables r =
     (case Items (cr_Fields r) of
        Inl e \<Rightarrow> Inl e
      | Inr fs \<Rightarrow> outputColumnRefs qc res (tablesForRef (string_items fs) tables rtables) (string_items fs))"

text \<open>The loop over the arguments of COALESCE: the first column and whether the result cannot be null.\<close>

definition coalesce_arg ::
    "query_catalog \<Rightarrow> node res_target \<Rightarrow> qtable list \<Rightarrow> qtable list \<Rightarrow> node \<Rightarrow> qcolumn option \<times> bool \<Rightarrow>
     error + (qcolumn option \<times> bool)" where
  "coalesce_arg qc res tables rtables arg s =
     (if as_A_Const arg \<noteq> None then Inr (fst s, True)
      else
        (case as_ColumnRef arg of
           None \<Rightarrow> Inr s
         | Some r \<Rightarrow>
             (case ref_columns qc res tables rtables r of
                Inl e \<Rightarrow> Inl e
              | Inr cols \<Rightarrow>
                  Inr (case fst s of None \<Rightarrow> (case cols of [] \<Rightarrow> None | c # _ \<Rightarrow> Some c) | Some c \<Rightarrow> Some c,
                       snd s \<or> list_ex qc_NotNull cols))))"

definition coalesce_column ::
    "query_catalog \<Rightarrow> node res_target \<Rightarrow> qtable list \<Rightarrow> qtable list \<Rightarrow> node list option \<Rightarrow> error + qcolumn" where
  "coalesce_column qc res tables rtables args =
     (case Items args of
        Inl e \<Rightarrow> Inl e
      | Inr as \<Rightarrow>
          (case fold_ok (coalesce_arg qc res tables rtables) as (None, False) of
             Inl e \<Rightarrow> Inl e
           | Inr (Some c, nn) \<Rightarrow> Inr (c\<lparr>qc_NotNull := nn, qc_skipTableRequiredCheck := True\<rparr>)
           | Inr (None, nn) \<Rightarrow>
               Inr (plain_qcolumn (case rt_Name res of Some n \<Rightarrow> n | None \<Rightarrow> ''coalesce'') ''any'' False)))"

text \<open>A star: the columns of the source tables it names.\<close>

definition star_column :: "string option \<Rightarrow> string \<Rightarrow> qtable \<Rightarrow> qcolumn \<Rightarrow> qcolumn" where
  "star_column rname scope t c = zero_qcolumn
     \<lparr>qc_Name := (case rname of Some n \<Rightarrow> n | None \<Rightarrow> qc_Name c), qc_OriginalName := qc_Name c, qc_Type := qc_Type c,
      qc_Scope := scope, qc_Table := qc_Table c, qc_TableAlias := qt_name t, qc_DataType := qc_DataType c,
      qc_NotNull := qc_NotNull c, qc_Unsigned := qc_Unsigned c, qc_IsArray := qc_IsArray c,
      qc_ArrayDims := qc_ArrayDims c, qc_Length := qc_Length c\<rparr>"

definition star_tables :: "qtable list \<Rightarrow> qtable list \<Rightarrow> string \<Rightarrow> qtable list" where
  "star_tables tables rtables scope =
     filter (\<lambda>t. scope = [] \<or> scope = qt_name t)
       (case returningTableForScope tables rtables scope of Some vt \<Rightarrow> [vt] | None \<Rightarrow> tables)"

definition star_columns ::
    "query_catalog \<Rightarrow> node res_target \<Rightarrow> qtable list \<Rightarrow> qtable list \<Rightarrow> node column_ref \<Rightarrow> qcolumn list" where
  "star_columns qc res tables rtables r =
     (let scope = astutils_Join (cr_Fields r) ''.'' in
      case EmbedSet_Find (qcat_embeds qc) [cr_Location r, rt_Location res] of
        Some em \<Rightarrow> [zero_qcolumn\<lparr>qc_Name := tn_Name (e_Table em), qc_EmbedTable := Some (e_Table em)\<rparr>]
      | None \<Rightarrow>
          concat (map (\<lambda>t. map (star_column (rt_Name res) scope t) (columns_of qc t))
            (star_tables tables rtables scope)))"

definition call_column :: "query_catalog \<Rightarrow> string option \<Rightarrow> node func_call \<Rightarrow> error + qcolumn" where
  "call_column qc rname n =
     (case fcn_Func n of
        None \<Rightarrow> Inl nil_deref
      | Some rel \<Rightarrow>
          (let name = (case rname of Some x \<Rightarrow> x | None \<Rightarrow> fn_Name rel) in
           case resolve_call (qcat_catalog qc) n of
             Inl (Panic s) \<Rightarrow> Inl (Panic s)
           | Inl e \<Rightarrow> Inr ((plain_qcolumn name ''any'' False)\<lparr>qc_IsFuncCall := True\<rparr>)
           | Inr fun \<Rightarrow>
               (case deref (f_ReturnType fun) of
                  Inl e \<Rightarrow> Inl e
                | Inr rt \<Rightarrow> Inr ((plain_qcolumn name (dataType rt) (\<not> f_ReturnTypeNullable fun))
                                  \<lparr>qc_IsFuncCall := True\<rparr>))))"

text \<open>The first column of a scalar subquery.\<close>

definition scalar_column ::
    "columns_fun \<Rightarrow> string option \<Rightarrow> node \<Rightarrow> query_catalog \<Rightarrow> error + (qcolumn list \<times> query_catalog)" where
  "scalar_column sub rname q qc =
     (case sub q qc of
        Inl e \<Rightarrow> Inl e
      | Inr ([], qc') \<Rightarrow> Inl index_range
      | Inr (c # _, qc') \<Rightarrow> Inr ([case rname of Some n \<Rightarrow> c\<lparr>qc_Name := n\<rparr> | None \<Rightarrow> c], qc'))"

abbreviation one_column :: "query_catalog \<Rightarrow> error + qcolumn \<Rightarrow> error + (qcolumn list \<times> query_catalog)" where
  "one_column qc r \<equiv> map_sum id (\<lambda>c. ([c], qc)) r"

text \<open>The type switch on the value of a target.\<close>

definition target_columns ::
    "columns_fun \<Rightarrow> qtable list \<Rightarrow> qtable list \<Rightarrow> node res_target \<Rightarrow> query_catalog \<Rightarrow>
     error + (qcolumn list \<times> query_catalog)" where
  "target_columns sub tables rtables res qc =
     (let rname = rt_Name res; name = or_empty rname in
      case rt_Val res of
        A_Const val \<Rightarrow> Inr ([const_column name val], qc)
      | A_Expr op l r \<Rightarrow> Inr ([operator_column name (astutils_Join op [])], qc)
      | BoolExpr x op args \<Rightarrow> one_column qc (map_sum id (bool_column name op) (Items args))
      | CaseExpr x a args defresult \<Rightarrow> one_column qc (case_column rname defresult)
      | CoalesceExpr x args \<Rightarrow> one_column qc (coalesce_column qc res tables rtables args)
      | ColumnRef r \<Rightarrow>
          (case hasStarRef r of
             Inl e \<Rightarrow> Inl e
           | Inr True \<Rightarrow> Inr (star_columns qc res tables rtables r, qc)
           | Inr False \<Rightarrow> map_sum id (\<lambda>cs. (cs, qc)) (ref_columns qc res tables rtables r))
      | FuncCall n \<Rightarrow> one_column qc (call_column qc rname n)
      | SubLink x t e ops q \<Rightarrow>
          (case t of
             EXISTS_SUBLINK \<Rightarrow>
               Inr ([plain_qcolumn (case rname of Some n \<Rightarrow> n | None \<Rightarrow> ''exists'') ''bool'' True], qc)
           | EXPR_SUBLINK \<Rightarrow> scalar_column sub rname q qc
           | _ \<Rightarrow> Inr ([plain_qcolumn (case rname of Some n \<Rightarrow> n | None \<Rightarrow> ''exists'') ''any'' False], qc))
      | TypeCast arg tn \<Rightarrow>
          one_column qc (map_sum id (\<lambda>c. if as_A_Const arg = Some Null then c\<lparr>qc_NotNull := False\<rparr> else c)
            (cast_column rname arg tn))
      | SelectStmt q \<Rightarrow> scalar_column sub rname (SelectStmt q) qc
      | _ \<Rightarrow> Inr ([plain_qcolumn name ''any'' False], qc))"

definition target_loop ::
    "columns_fun \<Rightarrow> qtable list \<Rightarrow> qtable list \<Rightarrow> node list \<Rightarrow> query_catalog \<Rightarrow> error + (qcolumn list \<times> query_catalog)" where
  "target_loop sub tables rtables targets qc =
     fold_ok (\<lambda>target s.
       case as_ResTarget target of
         None \<Rightarrow> Inr s
       | Some res \<Rightarrow>
           (case target_columns sub tables rtables res (snd s) of
              Inl e \<Rightarrow> Inl e
            | Inr (cs, qc') \<Rightarrow> Inr (fst s @ cs, qc'))) targets ([], qc)"

end
