(* ===== verification/Query_Output.thy ===== *)
theory Query_Output
  imports Query_Columns
begin

text \<open>
  \<open>outputColumns\<close> and \<open>OutputColumns\<close> of \<open>internal/compiler/output_columns.go\<close>, and \<open>buildQueryCatalog\<close>.  The recursion
  ends because a subquery is a proper part of the statement that has it.
\<close>

section \<open>Subqueries are parts of the statement\<close>

definition appending :: "('v, node list) visitor \<Rightarrow> bool" where
  "appending visit \<longleftrightarrow> (\<forall>v n s w s'. visit v n s = Inr (w, s') \<longrightarrow> s' = s \<or> (s' = s @ [n] \<and> n \<noteq> NilNode))"

lemma fold_ok_inv:
  "fold_ok f xs s = Inr s' \<Longrightarrow> P s \<Longrightarrow> (\<And>x u u'. x \<in> set xs \<Longrightarrow> P u \<Longrightarrow> f x u = Inr u' \<Longrightarrow> P u') \<Longrightarrow> P s'"
proof (induction xs arbitrary: s)
  case (Cons x xs)
  from Cons.prems(1) obtain u where "f x s = Inr u" "fold_ok f xs u = Inr s'" by (auto split: sum.splits)
  with Cons.prems(2,3) Cons.IH [of u] show ?case by (meson list.set_intros)
qed simp

lemma Walk_appending:
  assumes "appending visit"
  shows "Walk visit v n s = Inr s' \<Longrightarrow> x \<in> set s' \<Longrightarrow> x \<in> set s \<or> size x \<le> size n"
proof (induction "size n" arbitrary: n v s s' rule: less_induct)
  case less
  have vis: "set t' \<subseteq> insert m (set t)" if "visit u m t = Inr (w, t')" for u m t w t'
    using assms that unfolding appending_def by (metis set_append list.set(1,2) subset_insertI Un_insert_right sup_bot_right subset_refl)
  have nil: "set t' \<subseteq> set t" if "visit u NilNode t = Inr (w, t')" for u t w t'
    using assms that unfolding appending_def by blast
  from less.prems(1) obtain w s1 where v1: "visit v n s = Inr (w, s1)"
    by (subst (asm) Walk.simps) (auto split: sum.splits)
  show ?case
  proof (cases w)
    case None
    with less.prems v1 vis [OF v1] show ?thesis by (subst (asm) Walk.simps) auto
  next
    case (Some f)
    with less.prems(1) v1 obtain s2 w' where
      s2: "fold_ok (\<lambda>m. Walk visit f m) (children n) s1 = Inr s2" and v2: "visit f NilNode s2 = Inr (w', s')"
      by (subst (asm) Walk.simps) (auto split: sum.splits if_splits prod.splits)
    have step: "x \<in> set u \<or> size x \<le> size n"
      if "m \<in> set (children n)" "Walk visit f m u = Inr u'" "x \<in> set u'" for m u u'
      using less.hyps [OF children_smaller [OF that(1)] that(2,3)] children_smaller [OF that(1)] by linarith
    have "x \<in> set s2 \<longrightarrow> x \<in> set s1 \<or> size x \<le> size n"
      by (rule fold_ok_inv [OF s2]) (use step in blast)+
    with nil [OF v2] vis [OF v1] less.prems(2) show ?thesis by auto
  qed
qed

lemma appending_tableVisitor: "appending tableVisitor"
  by (auto simp: appending_def tableVisitor_def is_table_node_def split: if_splits)

lemma appending_range_vars: "appending (nodeSearch is_range_var)"
  by (auto simp: appending_def nodeSearch_def is_range_var_def as_RangeVar_def split: if_splits)

lemma walk_list_size:
  "walk_list l s = Inr s' \<Longrightarrow> x \<in> set s' \<Longrightarrow> x \<in> set s \<or> size x \<le> size_option (size_list size) l"
  using Walk_appending [OF appending_tableVisitor]
  by (fastforce simp: walk_list_def Items_def split: option.splits sum.splits)

lemma source_items_size:
  assumes "source_items node = Inr items" and "x \<in> set items"
  shows "size x < size node"
proof (cases node)
  case (DeleteStmt n)
  show ?thesis
  proof (cases "ds_Relations n")
    case (Some rs)
    with assms DeleteStmt show ?thesis by (auto simp: source_items_def size_sels dest!: size_items(1))
  next
    case None
    with assms DeleteStmt Walk_appending [OF appending_tableVisitor] show ?thesis
      by (fastforce simp: source_items_def size_sels split: if_splits)
  qed
next
  case (InsertStmt n)
  with assms show ?thesis
    by (auto simp: source_items_def size_sels ParseTableName_ptr_def kid_ptr_def split: option.splits)
next
  case (SelectStmt n)
  with assms walk_list_size show ?thesis by (fastforce simp: source_items_def size_sels)
next
  case (UpdateStmt n)
  with assms show ?thesis
    by (auto simp: source_items_def size_sels split: sum.splits dest!: walk_list_size)
next
  case (TruncateStmt rs)
  with assms Walk_appending [OF appending_range_vars] show ?thesis
    by (fastforce simp: source_items_def Search_def Items_def split: option.splits)
next
  case (RefreshMatViewStmt r)
  with assms Walk_appending [OF appending_range_vars] show ?thesis
    by (fastforce simp: source_items_def Search_def deref_def split: option.splits)
qed (use assms in \<open>auto simp: source_items_def\<close>)

text \<open>The subqueries that the loops over tables and targets hand to \<open>outputColumns\<close>.\<close>

definition item_queries :: "node \<Rightarrow> node list" where
  "item_queries item = (case item of RangeSubselect q a \<Rightarrow> [q] | _ \<Rightarrow> [])"

definition source_queries :: "node \<Rightarrow> node list" where
  "source_queries node = (case source_items node of Inl e \<Rightarrow> [] | Inr items \<Rightarrow> concat (map item_queries items))"

definition target_queries :: "node \<Rightarrow> node list" where
  "target_queries target =
     (case as_ResTarget target of
        None \<Rightarrow> []
      | Some res \<Rightarrow> (case rt_Val res of SubLink x t e ops q \<Rightarrow> [q] | SelectStmt q \<Rightarrow> [SelectStmt q] | _ \<Rightarrow> []))"

lemma item_queries_size: "q \<in> set (item_queries item) \<Longrightarrow> size q < size item"
  by (cases item) (auto simp: item_queries_def)

lemma source_queries_size: "q \<in> set (source_queries node) \<Longrightarrow> size q < size node"
  by (auto simp: source_queries_def split: sum.splits dest!: item_queries_size)
    (metis source_items_size less_trans)

lemma target_queries_size: "q \<in> set (target_queries target) \<Longrightarrow> size q < size target"
proof (cases target)
  case (ResTarget res)
  assume "q \<in> set (target_queries target)"
  with ResTarget show ?thesis by (cases "rt_Val res") (auto simp: target_queries_def size_sels as_ResTarget_def)
qed (simp_all add: target_queries_def as_ResTarget_def)

lemma source_table_cong:
  "(\<And>m q. m \<in> set (item_queries item) \<Longrightarrow> f m q = g m q) \<Longrightarrow> source_table f item qc = source_table g item qc"
  by (cases item) (simp_all add: source_table_def item_queries_def)

lemma sourceTables_cong [fundef_cong]:
  assumes "node = node'" and "qc = qc'" and "\<And>m q. m \<in> set (source_queries node') \<Longrightarrow> f m q = g m q"
  shows "sourceTables f qc node = sourceTables g qc' node'"
proof (cases "source_items node'")
  case (Inr items)
  have "source_table f item u = source_table g item u" if "item \<in> set items" for item u
    by (rule source_table_cong) (use assms(3) that Inr in \<open>auto simp: source_queries_def\<close>)
  with Inr assms(1,2) show ?thesis by (auto simp: sourceTables_def intro!: fold_ok_cong)
qed (simp add: sourceTables_def assms)

lemma target_columns_cong:
  "(\<And>m q. m \<in> set (target_queries (ResTarget res)) \<Longrightarrow> f m q = g m q) \<Longrightarrow>
   target_columns f tables rtables res qc = target_columns g tables rtables res qc"
  by (cases "rt_Val res")
    (simp_all add: target_columns_def target_queries_def as_ResTarget_def scalar_column_def Let_def split: sub_link_type.split)

lemma target_loop_cong [fundef_cong]:
  assumes "tables = tables'" "rtables = rtables'" "targets = targets'" "qc = qc'"
    and "\<And>t m q. t \<in> set targets' \<Longrightarrow> m \<in> set (target_queries t) \<Longrightarrow> f m q = g m q"
  shows "target_loop f tables rtables targets qc = target_loop g tables' rtables' targets' qc'"
proof -
  have "target_columns f tb rt res u = target_columns g tb rt res u" if "ResTarget res \<in> set targets'" for tb rt res u
    by (rule target_columns_cong) (use assms(5) that in blast)
  with assms(1-4) show ?thesis
    unfolding target_loop_def by (intro fold_ok_cong) (auto split: option.split)
qed

section \<open>Output columns\<close>

text \<open>The targets of a statement that is not a SELECT; a nil RETURNING list panics when it is read.\<close>

definition returning_targets :: "node \<Rightarrow> error + node list" where
  "returning_targets node =
     (case node of
        DeleteStmt n \<Rightarrow> Items (ds_ReturningList n)
      | InsertStmt n \<Rightarrow> Items (is_ReturningList n)
      | UpdateStmt n \<Rightarrow> Items (us_ReturningList n)
      | _ \<Rightarrow> Inr [])"

lemma returning_targets_size:
  "returning_targets node = Inr ts \<Longrightarrow> t \<in> set ts \<Longrightarrow> size t < size node"
  by (cases node) (auto simp: returning_targets_def Items_def size_sels split: option.splits dest!: size_items(1))

lemma select_targets_size:
  "Items (ss_TargetList n) = Inr ts \<Longrightarrow> t \<in> set ts \<Longrightarrow> size t < size_select_stmt size n"
  by (auto simp: Items_def size_sels split: option.splits dest!: size_items(1))

lemma larg_size: "ss_Larg n = Some l \<Longrightarrow> size_select_stmt size l < size_select_stmt size n"
  by (subst (2) size_select_stmt_sel) simp

lemma select_target_queries:
  "Items (ss_TargetList n) = Inr ts \<Longrightarrow> t \<in> set ts \<Longrightarrow> q \<in> set (target_queries t) \<Longrightarrow>
   size q < Suc (size_select_stmt size n)"
  using select_targets_size target_queries_size by fastforce

lemma returning_target_queries:
  "returning_targets node = Inr ts \<Longrightarrow> t \<in> set ts \<Longrightarrow> q \<in> set (target_queries t) \<Longrightarrow> size q < size node"
  using returning_targets_size target_queries_size by fastforce

function outputColumns :: "compiler \<Rightarrow> columns_fun" where
  "outputColumns c node qc =
     (case sourceTables (outputColumns c) qc node of
        Inl e \<Rightarrow> Inl e
      | Inr (tables, qc1) \<Rightarrow>
          (case returningTables c qc1 node of
             (rtables, qc2) \<Rightarrow>
               (case as_SelectStmt node of
                  Some n \<Rightarrow>
                    (case Items (ss_TargetList n) of
                       Inl e \<Rightarrow> Inl e
                     | Inr targets \<Rightarrow>
                         (case check_select c qc2 tables n (targets = [] \<and> ss_Larg n \<noteq> None) of
                            Some e \<Rightarrow> Inl e
                          | None \<Rightarrow>
                              (case (if targets = [] then ss_Larg n else None) of
                                 Some larg \<Rightarrow> outputColumns c (SelectStmt larg) qc2
                               | None \<Rightarrow>
                                   (case target_loop (outputColumns c) tables rtables targets qc2 of
                                      Inl e \<Rightarrow> Inl e
                                    | Inr (cols, qc3) \<Rightarrow>
                                        map_sum id (\<lambda>cs. (cs, qc3)) (map_ok (require_column n) cols)))))
                | None \<Rightarrow>
                    (case returning_targets node of
                       Inl e \<Rightarrow> Inl e
                     | Inr targets \<Rightarrow> target_loop (outputColumns c) tables rtables targets qc2))))"
  by pat_completeness auto
termination
  by (relation "measure (\<lambda>(c, node, qc). size node)")
    (auto dest: source_queries_size larg_size select_target_queries returning_target_queries split: if_splits)

declare outputColumns.simps [simp del]

text \<open>\<open>(*Compiler).OutputColumns\<close> is the function the catalog calls for views: it builds the query catalog of the
  statement first.\<close>

definition cte_names :: "node list option \<Rightarrow> string list" where
  "cte_names l = map (\<lambda>n. case as_String n of Some s \<Rightarrow> s | None \<Rightarrow> []) (opt_items l)"

fun rename_columns :: "string list \<Rightarrow> qcolumn list \<Rightarrow> qcolumn list" where
  "rename_columns (n # ns) (c # cs) = c\<lparr>qc_Name := n\<rparr> # rename_columns ns cs"
| "rename_columns _ cs = cs"

definition add_cte :: "compiler \<Rightarrow> node \<Rightarrow> query_catalog \<Rightarrow> error + query_catalog" where
  "add_cte c item qc =
     (case item of
        CommonTableExpr cte \<Rightarrow>
          (case outputColumns c (cte_Ctequery cte) qc of
             Inl e \<Rightarrow> Inl e
           | Inr (cols, qc1) \<Rightarrow>
               (case deref (cte_Ctename cte) of
                  Inl e \<Rightarrow> Inl e
                | Inr name \<Rightarrow>
                    (let cols1 = rename_columns (cte_names (cte_Aliascolnames cte))
                                   (map (\<lambda>col. col\<lparr>qc_Table := Some (named_table name)\<rparr>) cols)
                     in Inr (qc1\<lparr>qcat_ctes := (qcat_ctes qc1)(name \<mapsto> cols1)\<rparr>))))
      | _ \<Rightarrow> Inr qc)"

definition with_of :: "node \<Rightarrow> node with_clause option" where
  "with_of node =
     (case node of
        DeleteStmt n \<Rightarrow> ds_WithClause n
      | InsertStmt n \<Rightarrow> is_WithClause n
      | UpdateStmt n \<Rightarrow> us_WithClause n
      | SelectStmt n \<Rightarrow> ss_WithClause n
      | _ \<Rightarrow> None)"

definition buildQueryCatalog :: "compiler \<Rightarrow> catalog \<Rightarrow> node \<Rightarrow> embed list \<Rightarrow> error + query_catalog" where
  "buildQueryCatalog c cat node embeds =
     (let qc = \<lparr>qcat_catalog = cat, qcat_ctes = Map.empty, qcat_embeds = embeds\<rparr> in
      case with_of node of
        None \<Rightarrow> Inr qc
      | Some w \<Rightarrow> (case Items (wc_Ctes w) of Inl e \<Rightarrow> Inl e | Inr items \<Rightarrow> fold_ok (add_cte c) items qc))"

definition catalog_column :: "qcolumn \<Rightarrow> column" where
  "catalog_column col =
     \<lparr>col_Name = qc_Name col, col_Type = named_type (qc_DataType col), col_IsNotNull = qc_NotNull col,
      col_IsUnsigned = qc_Unsigned col, col_IsArray = qc_IsArray col, col_ArrayDims = qc_ArrayDims col,
      col_Comment = qc_Comment col, col_Length = qc_Length col, col_linkedType = False\<rparr>"

definition OutputColumns :: "compiler \<Rightarrow> node \<Rightarrow> error + column list" where
  "OutputColumns c stmt =
     (case buildQueryCatalog c (comp_catalog c) stmt [] of
        Inl e \<Rightarrow> Inl e
      | Inr qc \<Rightarrow>
          (case outputColumns c stmt qc of
             Inl e \<Rightarrow> Inl e
           | Inr (cols, _) \<Rightarrow> Inr (map catalog_column cols)))"

end
