(* ===== verification/Query_Validate.thy ===== *)
theory Query_Validate
  imports Query_Catalog
begin

text \<open>The checks of \<open>internal/sql/validate\<close>: commands, INSERT statements, function calls and slices.\<close>

section \<open>Parameter nodes\<close>

text \<open>The fields of the \<open>*ast.ParamRef\<close> at an address.\<close>

record param_node =
  pr_Number :: int
  pr_Location :: nat
  pr_Dollar :: bool
  pr_Name :: string

type_synonym param_store = "nat \<Rightarrow> param_node"

definition is_param :: "node \<Rightarrow> bool" where
  "is_param n = (as_ParamRef n \<noteq> None)"

section \<open>Commands\<close>

definition validateCopyfrom :: "node \<Rightarrow> error option" where
  "validateCopyfrom n =
     (case n of
        InsertStmt stmt \<Rightarrow>
          if is_OnConflictClause stmt \<noteq> None then Some (PlainErr '':copyfrom is not compatible with ON CONFLICT'')
          else if is_WithClause stmt \<noteq> None then Some (PlainErr '':copyfrom is not compatible with WITH clauses'')
          else if (case is_ReturningList stmt of None \<Rightarrow> False | Some l \<Rightarrow> l \<noteq> [])
          then Some (PlainErr '':copyfrom is not compatible with RETURNING'')
          else
            (case as_SelectStmt (is_SelectStmt stmt) of
               None \<Rightarrow> None
             | Some sel \<Rightarrow>
                 (case Items (ss_FromClause sel) of
                    Inl e \<Rightarrow> Some e
                  | Inr (f # fs) \<Rightarrow> Some (PlainErr '':copyfrom is not compatible with INSERT INTO ... SELECT'')
                  | Inr [] \<Rightarrow>
                      (case ss_ValuesLists sel of
                         Some [row] \<Rightarrow>
                           (case as_List row of
                              None \<Rightarrow> None
                            | Some vs \<Rightarrow>
                                if list_all is_param vs then None
                                else Some (PlainErr ('':copyfrom doesn'' @ [CHR 0x27] @ ''t support non-parameter values'')))
                       | _ \<Rightarrow> Some (PlainErr '':copyfrom requires exactly one example row to be inserted''))))
      | _ \<Rightarrow> Some (PlainErr '':copyfrom requires an INSERT INTO statement''))"

definition validateBatch :: "node \<Rightarrow> error option" where
  "validateBatch n =
     (case Search n is_param of
        Inl e \<Rightarrow> Some e
      | Inr [] \<Rightarrow> Some (PlainErr '':batch* commands require parameters'')
      | Inr (p # ps) \<Rightarrow> None)"

text \<open>The list a statement must have to return rows; a SELECT and other statements are not asked for one.\<close>

definition returning_list :: "node \<Rightarrow> node list option option" where
  "returning_list n =
     (case n of
        DeleteStmt s \<Rightarrow> Some (ds_ReturningList s)
      | InsertStmt s \<Rightarrow> Some (is_ReturningList s)
      | UpdateStmt s \<Rightarrow> Some (us_ReturningList s)
      | MergeStmt s \<Rightarrow> Some (ms_ReturningList s)
      | _ \<Rightarrow> None)"

definition validate_Cmd :: "node \<Rightarrow> string \<Rightarrow> string \<Rightarrow> error option" where
  "validate_Cmd n name cmd =
     (if cmd = '':copyfrom'' then validateCopyfrom n
      else
        (case (if cmd \<in> {'':batchexec'', '':batchmany'', '':batchone''} then validateBatch n else None) of
           Some e \<Rightarrow> Some e
         | None \<Rightarrow>
             if cmd \<notin> {'':many'', '':one'', '':batchmany'', '':batchone''} then None
             else
               (case returning_list n of
                  None \<Rightarrow> None
                | Some l \<Rightarrow>
                    if opt_nonempty l then None
                    else Some (PlainErr (''query '' @ Quote name @ '' specifies parameter '' @ Quote cmd @
                           '' without containing a RETURNING clause'')))))"

section \<open>INSERT\<close>

text \<open>An \<open>EXCLUDED.col\<close> reference.\<close>

definition excludedColumnRef :: "node column_ref \<Rightarrow> string option" where
  "excludedColumnRef ref =
     (case cr_Fields ref of
        Some [a, b] \<Rightarrow>
          (case as_String a of
             None \<Rightarrow> None
           | Some first \<Rightarrow> if EqualFold first ''EXCLUDED'' then as_String b else None)
      | _ \<Rightarrow> None)"

definition not_found_at :: "string \<Rightarrow> string \<Rightarrow> nat \<Rightarrow> error" where
  "not_found_at rel col loc = SqlErr ((ColumnNotFound rel col)\<lparr>Location := loc\<rparr>)"

definition check_index_elem :: "string \<Rightarrow> string list \<Rightarrow> nat \<Rightarrow> node \<Rightarrow> error option" where
  "check_index_elem rel colNames loc item =
     (case item of
        IndexElem (Some n) e c oc \<Rightarrow> if n \<in> set colNames then None else Some (not_found_at rel n loc)
      | _ \<Rightarrow> None)"

definition check_assignment :: "string \<Rightarrow> string list \<Rightarrow> node \<Rightarrow> error option" where
  "check_assignment rel colNames item =
     (case as_ResTarget item of
        None \<Rightarrow> None
      | Some target \<Rightarrow>
          (case rt_Name target of
             None \<Rightarrow> None
           | Some n \<Rightarrow>
               if n \<notin> set colNames then Some (not_found_at rel n (rt_Location target))
               else
                 (case as_ColumnRef (rt_Val target) of
                    None \<Rightarrow> None
                  | Some ref \<Rightarrow>
                      (case excludedColumnRef ref of
                         None \<Rightarrow> None
                       | Some ex \<Rightarrow>
                           if ex \<in> set colNames then None
                           else Some (not_found_at ''EXCLUDED'' ex (cr_Location ref))))))"

definition insert_error :: "string \<Rightarrow> error" where
  "insert_error msg = SqlErr \<lparr>Err = None, Code = ''42601'', Message = msg, Location = 0, Line = 0, Column = 0\<rparr>"

definition onConflictClause :: "catalog \<Rightarrow> tableName \<Rightarrow> node insert_stmt \<Rightarrow> error option" where
  "onConflictClause c fqn n =
     (case is_OnConflictClause n of
        None \<Rightarrow> None
      | Some oc \<Rightarrow>
          if oc_Action oc \<noteq> OnConflictActionUpdate then None
          else
            (case GetTable c fqn of
               Inl e \<Rightarrow> Some e
             | Inr table \<Rightarrow>
                 (let colNames = map col_Name (cols_of c table); rel = table_name table in
                  case oc_Infer oc of
                    None \<Rightarrow> Some (insert_error ''ON CONFLICT DO UPDATE requires inference specification or constraint name'')
                  | Some infer \<Rightarrow>
                      (case first_error (check_index_elem rel colNames (ic_Location infer)) (opt_items (ic_IndexElems infer)) of
                         Some e \<Rightarrow> Some e
                       | None \<Rightarrow> first_error (check_assignment rel colNames) (opt_items (oc_TargetList oc))))))"

definition validate_InsertStmt :: "catalog \<Rightarrow> tableName \<Rightarrow> node insert_stmt \<Rightarrow> error option" where
  "validate_InsertStmt c fqn stmt =
     (case as_SelectStmt (is_SelectStmt stmt) of
        None \<Rightarrow> None
      | Some sel \<Rightarrow>
          (case ss_ValuesLists sel of
             Some [row] \<Rightarrow>
               (case as_List row of
                  None \<Rightarrow> None
                | Some vals \<Rightarrow>
                    (case Items (is_Cols stmt) of
                       Inl e \<Rightarrow> Some e
                     | Inr cols \<Rightarrow>
                         if length vals < length cols
                         then Some (insert_error ''INSERT has more target columns than expressions'')
                         else if length cols < length vals
                         then Some (insert_error ''INSERT has more expressions than target columns'')
                         else onConflictClause c fqn stmt))
           | _ \<Rightarrow> None))"

section \<open>Function calls\<close>

definition funcCallVisitor :: "catalog \<Rightarrow> bool \<Rightarrow> (unit, error option) visitor" where
  "funcCallVisitor c strict v node err =
     (if err \<noteq> None then Inr (None, err)
      else
        (case as_FuncCall node of
           None \<Rightarrow> Inr (Some v, err)
         | Some call \<Rightarrow>
             if fcn_Func call = None then Inr (Some v, err)
             else
               (case resolve_call c call of
                  Inr fun \<Rightarrow> Inr (Some v, err)
                | Inl (Panic s) \<Rightarrow> Inl (Panic s)
                | Inl e \<Rightarrow>
                    if is_not_found e \<and> \<not> strict then Inr (Some v, err) else Inr (None, Some e))))"

definition validate_FuncCall :: "catalog \<Rightarrow> bool \<Rightarrow> node \<Rightarrow> error option" where
  "validate_FuncCall c strict n =
     (case Walk (funcCallVisitor c strict) () n None of Inl e \<Rightarrow> Some e | Inr err \<Rightarrow> err)"

section \<open>Slices\<close>

definition slice_error :: "param_store \<Rightarrow> (nat, string) fmap \<Rightarrow> node \<Rightarrow> node list \<Rightarrow> error option" where
  "slice_error ps slices expr items =
     first_error (\<lambda>n.
       case as_ParamRef n of
         None \<Rightarrow> None
       | Some a \<Rightarrow>
           (case fmlookup slices (pr_Location (ps a)) of
              None \<Rightarrow> None
            | Some name \<Rightarrow>
                Some (SqlErr \<lparr>Err = None, Code = [],
                  Message = ''expected '' @ [CHR 0x27] @ (case as_ColumnRef expr of Some col \<Rightarrow> cr_Name col | None \<Rightarrow> ''...'') @
                    '' IN'' @ [CHR 0x27] @ '' expr to consist only of sqlc.slice('' @ name @ ''); eg '',
                  Location = pr_Location (ps a), Line = 0, Column = 0\<rparr>))) items"

definition sliceVisitor :: "param_store \<Rightarrow> (nat, string) fmap \<Rightarrow> (unit, error option) visitor" where
  "sliceVisitor ps slices v node err =
     (if err \<noteq> None then Inr (None, err)
      else
        (case node of
           In expr items sel \<Rightarrow>
             (if length items \<le> 1 then Inr (Some v, err)
              else
                (case slice_error ps slices expr items of
                   Some e \<Rightarrow> Inr (None, Some e)
                 | None \<Rightarrow> Inr (Some v, err)))
         | _ \<Rightarrow> Inr (Some v, err)))"

definition validate_Slice :: "param_store \<Rightarrow> node \<Rightarrow> (nat, string) fmap \<Rightarrow> error option" where
  "validate_Slice ps n slices =
     (if fmdom slices = {||} then None
      else (case Walk (sliceVisitor ps slices) () n None of Inl e \<Rightarrow> Some e | Inr err \<Rightarrow> err))"

end
