(* ===== verification/Query_Params.thy ===== *)
theory Query_Params
  imports Query_Validate
begin

text \<open>
  The parameters of a query: the walk that finds them (\<open>internal/compiler/find_params.go\<close>), their numbers
  (\<open>renumberParams\<close> and \<open>uniqueParamRefs\<close> of \<open>parse.go\<close>), and their names and types
  (\<open>resolveCatalogRefs\<close> of \<open>resolve.go\<close>).
\<close>

section \<open>Finding parameters\<close>

text \<open>The node a parameter is an operand of: a node of the tree, or one of the two markers for LIMIT and OFFSET.\<close>

datatype param_parent = ParentNode node | LimitCount | LimitOffset

record paramRef =
  ref_parent :: param_parent
  ref_rv :: "node range_var option"
  ref_ref :: nat
  ref_name :: string

text \<open>What a \<open>paramSearch\<close> passes down by value, and what all of them share.\<close>

record param_search =
  ps_parent :: param_parent
  ps_rangeVar :: "node range_var option"
  ps_limitCount :: node
  ps_limitOffset :: node

record search_state =
  sst_refs :: "paramRef list"
  sst_seen :: "nat list"
  sst_errs :: "error list"

definition add_ref :: "param_store \<Rightarrow> param_parent \<Rightarrow> node range_var option \<Rightarrow> nat \<Rightarrow> search_state \<Rightarrow> search_state" where
  "add_ref ps parent rv a s =
     s\<lparr>sst_refs := sst_refs s @ [\<lparr>ref_parent = parent, ref_rv = rv, ref_ref = a, ref_name = []\<rparr>],
       sst_seen := sst_seen s @ [pr_Location (ps a)]\<rparr>"

definition too_many_expressions :: error where
  "too_many_expressions = PlainErr ''INSERT has more expressions than target columns''"

text \<open>One row of an INSERT, position by position: \<open>vals\<close> gives the parameter at each position, if there is one.
  The result says whether to go on.\<close>

fun insert_row ::
    "param_store \<Rightarrow> node list \<Rightarrow> node range_var option \<Rightarrow> nat \<Rightarrow> nat option list \<Rightarrow> search_state \<Rightarrow> bool \<times> search_state" where
  "insert_row ps cols rv i [] s = (True, s)"
| "insert_row ps cols rv i (None # vs) s = insert_row ps cols rv (Suc i) vs s"
| "insert_row ps cols rv i (Some a # vs) s =
     (if length cols \<le> i then (False, s\<lparr>sst_errs := sst_errs s @ [too_many_expressions]\<rparr>)
      else insert_row ps cols rv (Suc i) vs (add_ref ps (ParentNode (cols ! i)) rv a s))"

fun insert_rows ::
    "param_store \<Rightarrow> node list \<Rightarrow> node range_var option \<Rightarrow> node list \<Rightarrow> search_state \<Rightarrow> bool \<times> search_state" where
  "insert_rows ps cols rv [] s = (True, s)"
| "insert_rows ps cols rv (item # items) s =
     (case as_List item of
        None \<Rightarrow> insert_rows ps cols rv items s
      | Some vl \<Rightarrow>
          (case insert_row ps cols rv 0 (map as_ParamRef vl) s of
             (False, s') \<Rightarrow> (False, s')
           | (True, s') \<Rightarrow> insert_rows ps cols rv items s'))"

definition target_param :: "node \<Rightarrow> nat option" where
  "target_param item = (case as_ResTarget item of None \<Rightarrow> None | Some t \<Rightarrow> as_ParamRef (rt_Val t))"

text \<open>The column list is read only where a parameter stands.\<close>

definition search_insert :: "param_store \<Rightarrow> node insert_stmt \<Rightarrow> search_state \<Rightarrow> error + search_state" where
  "search_insert ps n s =
     (case as_SelectStmt (is_SelectStmt n) of
        None \<Rightarrow> Inr s
      | Some q \<Rightarrow>
          (case Items (ss_TargetList q) of
             Inl e \<Rightarrow> Inl e
           | Inr targets \<Rightarrow>
               if is_Cols n = None \<and> list_ex (\<lambda>t. target_param t \<noteq> None) targets then Inl nil_deref
               else
                 (case insert_row ps (opt_items (is_Cols n)) (is_Relation n) 0 (map target_param targets) s of
                    (False, s1) \<Rightarrow> Inr s1
                  | (True, s1) \<Rightarrow>
                      (case Items (ss_ValuesLists q) of
                         Inl e \<Rightarrow> Inl e
                       | Inr rows \<Rightarrow>
                           if is_Cols n = None \<and> list_ex (\<lambda>r. list_ex is_param (opt_items (as_List r))) rows
                           then Inl nil_deref
                           else Inr (snd (insert_rows ps (opt_items (is_Cols n)) (is_Relation n) rows s1))))))"

definition search_assignment :: "param_store \<Rightarrow> node list option \<Rightarrow> node \<Rightarrow> search_state \<Rightarrow> error + search_state" where
  "search_assignment ps relations item s =
     (case as_ResTarget item of
        None \<Rightarrow> Inr s
      | Some target \<Rightarrow>
          (case as_ParamRef (rt_Val target) of
             None \<Rightarrow> Inr s
           | Some a \<Rightarrow>
               (case Items relations of
                  Inl e \<Rightarrow> Inl e
                | Inr rs \<Rightarrow>
                    Inr (s\<lparr>sst_refs := sst_refs s @
                             map (\<lambda>rv. \<lparr>ref_parent = ParentNode (ResTarget target), ref_rv = Some rv, ref_ref = a, ref_name = []\<rparr>)
                               (List.map_filter as_RangeVar rs),
                           sst_seen := sst_seen s @ [pr_Location (ps a)]\<rparr>))))"

definition search_update :: "param_store \<Rightarrow> node update_stmt \<Rightarrow> search_state \<Rightarrow> error + search_state" where
  "search_update ps n s =
     (case Items (us_TargetList n) of
        Inl e \<Rightarrow> Inl e
      | Inr targets \<Rightarrow> fold_ok (search_assignment ps (us_Relations n)) targets s)"

text \<open>The parent of a parameter: the two markers win over the node above it.\<close>

definition same_number :: "param_store \<Rightarrow> nat \<Rightarrow> node \<Rightarrow> bool" where
  "same_number ps a n = (case as_ParamRef n of None \<Rightarrow> False | Some b \<Rightarrow> pr_Number (ps a) = pr_Number (ps b))"

definition parent_of :: "param_store \<Rightarrow> param_search \<Rightarrow> nat \<Rightarrow> param_parent" where
  "parent_of ps p a =
     (if same_number ps a (ps_limitOffset p) then LimitOffset
      else if same_number ps a (ps_limitCount p) then LimitCount
      else ps_parent p)"

text \<open>A parameter of a row assigned to several columns belongs to the column at its position.\<close>

fun row_position :: "param_store \<Rightarrow> nat \<Rightarrow> int \<Rightarrow> nat \<Rightarrow> node list \<Rightarrow> bool" where
  "row_position ps a colno i [] = False"
| "row_position ps a colno i (arg # args) =
     (colno = int (Suc i) \<and> same_number ps a arg \<or> row_position ps a colno (Suc i) args)"

definition belongs_to_parent :: "param_store \<Rightarrow> nat \<Rightarrow> param_parent \<Rightarrow> error + bool" where
  "belongs_to_parent ps a parent =
     (case parent of
        ParentNode n \<Rightarrow>
          (case as_ResTarget n of
             None \<Rightarrow> Inr True
           | Some res \<Rightarrow>
               (case rt_Val res of
                  MultiAssignRef src colno \<Rightarrow>
                    (case src of
                       RowExpr x args cns \<Rightarrow> map_sum id (row_position ps a colno 0) (Items args)
                     | _ \<Rightarrow> Inr False)
                | _ \<Rightarrow> Inr True))
      | _ \<Rightarrow> Inr True)"

definition search_param :: "param_store \<Rightarrow> param_search \<Rightarrow> nat \<Rightarrow> search_state \<Rightarrow> error + (param_search option \<times> search_state)" where
  "search_param ps p a s =
     (let parent = parent_of ps p a in
      if pr_Location (ps a) \<in> set (sst_seen s) then Inr (Some p, s)
      else
        (case belongs_to_parent ps a parent of
           Inl e \<Rightarrow> Inl e
         | Inr True \<Rightarrow> Inr (None, add_ref ps parent (ps_rangeVar p) a s)
         | Inr False \<Rightarrow> Inr (None, s)))"

text \<open>The table an \<open>IN (SELECT ... FROM t)\<close> puts in scope.\<close>

definition in_scope :: "node \<Rightarrow> node \<Rightarrow> param_search \<Rightarrow> param_search" where
  "in_scope node sel p =
     (if sel = NilNode then p\<lparr>ps_parent := ParentNode node\<rparr>
      else
        (case as_SelectStmt sel of
           None \<Rightarrow> p
         | Some q \<Rightarrow>
             (case ss_FromClause q of
                Some (RangeVar v # _) \<Rightarrow>
                  p\<lparr>ps_rangeVar := Some (mk_RangeVar (rvn_Catalogname v) (rvn_Schemaname v) (rvn_Relname v) None)\<rparr>
              | _ \<Rightarrow> p)))"

definition set_limit :: "node \<Rightarrow> node \<Rightarrow> param_search \<Rightarrow> param_search" where
  "set_limit cnt offs p =
     p\<lparr>ps_limitCount := (if cnt \<noteq> NilNode then cnt else ps_limitCount p),
       ps_limitOffset := (if offs \<noteq> NilNode then offs else ps_limitOffset p)\<rparr>"

definition paramSearch :: "param_store \<Rightarrow> (param_search, search_state) visitor" where
  "paramSearch ps p node s =
     (case node of
        A_Expr name l r \<Rightarrow> Inr (Some (p\<lparr>ps_parent := ParentNode node\<rparr>), s)
      | BetweenExpr e l r \<Rightarrow> Inr (Some (p\<lparr>ps_parent := ParentNode node\<rparr>), s)
      | CallStmt c \<Rightarrow>
          Inr (Some (p\<lparr>ps_parent := ParentNode (case c of Some fc \<Rightarrow> FuncCall fc | None \<Rightarrow> NilNode)\<rparr>), s)
      | DeleteStmt n \<Rightarrow> Inr (Some (set_limit (ds_LimitCount n) NilNode p), s)
      | FuncCall n \<Rightarrow> Inr (Some (p\<lparr>ps_parent := ParentNode node\<rparr>), s)
      | InsertStmt n \<Rightarrow> map_sum id (\<lambda>s'. (Some p, s')) (search_insert ps n s)
      | UpdateStmt n \<Rightarrow> map_sum id (\<lambda>s'. (Some (set_limit (us_LimitCount n) NilNode p), s')) (search_update ps n s)
      | RangeVar v \<Rightarrow> Inr (Some (p\<lparr>ps_rangeVar := Some v\<rparr>), s)
      | ResTarget t \<Rightarrow> Inr (Some (p\<lparr>ps_parent := ParentNode node\<rparr>), s)
      | SelectStmt n \<Rightarrow> Inr (Some (set_limit (ss_LimitCount n) (ss_LimitOffset n) p), s)
      | TypeCast a t \<Rightarrow> Inr (Some (p\<lparr>ps_parent := ParentNode node\<rparr>), s)
      | ParamRef a \<Rightarrow> search_param ps p a s
      | In expr items sel \<Rightarrow>
          (let p1 = in_scope node sel p in
           case as_ParamRef expr of
             None \<Rightarrow> Inr (Some p1, s)
           | Some a \<Rightarrow> map_sum id (\<lambda>r. (Some p1, snd r)) (search_param ps p1 a s))
      | _ \<Rightarrow> Inr (Some p, s))"

definition findParameters :: "param_store \<Rightarrow> node \<Rightarrow> error + (paramRef list \<times> error list)" where
  "findParameters ps root =
     map_sum id (\<lambda>s. (sst_refs s, sst_errs s))
       (Walk (paramSearch ps)
         \<lparr>ps_parent = ParentNode NilNode, ps_rangeVar = None, ps_limitCount = NilNode, ps_limitOffset = NilNode\<rparr>
         root \<lparr>sst_refs = [], sst_seen = [], sst_errs = []\<rparr>)"

section \<open>Numbers\<close>

text \<open>\<open>renumberParams\<close>: each parameter node under the statement gets the number the preprocessor assigned to its
  place, and the name if it has one.\<close>

definition renumber_one :: "statement \<Rightarrow> node \<Rightarrow> param_store \<Rightarrow> param_store" where
  "renumber_one pre n ps =
     (case as_ParamRef n of
        None \<Rightarrow> ps
      | Some a \<Rightarrow>
          (case fmlookup (st_Numbers pre) (pr_Location (ps a)) of
             None \<Rightarrow> ps
           | Some k \<Rightarrow>
               ps(a := (ps a)\<lparr>pr_Number := k,
                  pr_Name := (case NameFor (st_Params pre) k of
                                Some name \<Rightarrow> if name \<noteq> [] then name else pr_Name (ps a)
                              | None \<Rightarrow> pr_Name (ps a))\<rparr>)))"

definition renumberParams :: "node \<Rightarrow> statement \<Rightarrow> param_store \<Rightarrow> error + param_store" where
  "renumberParams raw pre ps =
     (if fmdom (st_Numbers pre) = {||} then Inr ps
      else Walk (\<lambda>v n s. Inr (Some v, renumber_one pre n s)) () raw ps)"

definition rangeVars :: "node \<Rightarrow> error + node range_var list" where
  "rangeVars root =
     Walk (\<lambda>v n s. Inr (Some v, case as_RangeVar n of Some rv \<Rightarrow> s @ [rv] | None \<Rightarrow> s)) () root []"

text \<open>\<open>uniqueParamRefs\<close>: the first reference of each number, and, unless parameters are numbered by the query, a
  fresh number for each reference without one.\<close>

fun first_refs :: "param_store \<Rightarrow> paramRef list \<Rightarrow> int set \<Rightarrow> paramRef list \<times> int set" where
  "first_refs ps [] m = ([], m)"
| "first_refs ps (v # vs) m =
     (let k = pr_Number (ps (ref_ref v)) in
      if k \<in> m then first_refs ps vs m
      else
        (case first_refs ps vs (insert k m) of
           (o1, m1) \<Rightarrow> ((if k \<noteq> 0 then [v] else []) @ o1, m1)))"

text \<open>The inner loop \<open>for m[start]\<close>: the numbers in use are finitely many, so it ends.\<close>

function next_start :: "int set \<Rightarrow> int \<Rightarrow> int" where
  "next_start m start = (if finite m \<and> start \<in> m then next_start m (start + 1) else start)"
  by pat_completeness auto
termination
proof (relation "measure (\<lambda>(m, start). card {k \<in> m. start \<le> k})")
  fix m :: "int set" and start
  assume a: "finite m \<and> start \<in> m"
  then have "start \<in> {k \<in> m. start \<le> k}" "start \<notin> {k \<in> m. start + 1 \<le> k}" by auto
  moreover have "{k \<in> m. start + 1 \<le> k} \<subseteq> {k \<in> m. start \<le> k}" by auto
  ultimately have "{k \<in> m. start + 1 \<le> k} \<subset> {k \<in> m. start \<le> k}" by blast
  with a show "((m, start + 1), (m, start)) \<in> measure (\<lambda>(m, start). card {k \<in> m. start \<le> k})"
    by (simp add: psubset_card_mono)
qed simp

declare next_start.simps [simp del]

fun number_rest ::
    "int set \<Rightarrow> paramRef list \<Rightarrow> int \<Rightarrow> param_store \<Rightarrow> paramRef list \<times> param_store" where
  "number_rest m [] start ps = ([], ps)"
| "number_rest m (v # vs) start ps =
     (if pr_Number (ps (ref_ref v)) \<noteq> 0 then number_rest m vs start ps
      else
        (let k = next_start m start in
         case number_rest m vs k (ps(ref_ref v := (ps (ref_ref v))\<lparr>pr_Number := k\<rparr>)) of
           (o1, ps1) \<Rightarrow> (v # o1, ps1)))"

definition uniqueParamRefs :: "paramRef list \<Rightarrow> bool \<Rightarrow> param_store \<Rightarrow> paramRef list \<times> param_store" where
  "uniqueParamRefs refs dollar ps =
     (case first_refs ps refs {} of
        (out, m) \<Rightarrow>
          if dollar then (out, ps)
          else (case number_rest m refs 1 ps of (rest, ps1) \<Rightarrow> (out @ rest, ps1)))"

end
