(* ===== verification/Query_Resolve.thy ===== *)
theory Query_Resolve
  imports Query_Params Query_Columns
begin

text \<open>
  \<open>resolveCatalogRefs\<close> of \<open>internal/compiler/resolve.go\<close>: the name, type and nullability of each parameter, from the
  node it is an operand of.  The closures \<open>indexTable\<close> and \<open>addUnknownParam\<close> are functions of the state they capture.
  No constructor of a catalog function leaves its argument list nil, so the branch for a nil list is not there.
\<close>

section \<open>Tables in scope\<close>

record resolver =
  rs_aliasMap :: "string \<rightharpoonup> tableName"
  rs_defaultTable :: "tableName option"
  rs_tables :: "tableName list"
  rs_typeMap :: "string \<Rightarrow> string \<Rightarrow> (string \<rightharpoonup> column) option"

definition schema_or_default :: "catalog \<Rightarrow> string \<Rightarrow> string" where
  "schema_or_default c sch = (if sch = [] then c_DefaultSchema c else sch)"

definition column_map :: "column list \<Rightarrow> string \<rightharpoonup> column" where
  "column_map cols = fold (\<lambda>col m. m(col_Name col \<mapsto> col)) cols Map.empty"

definition indexTable :: "catalog \<Rightarrow> table \<Rightarrow> resolver \<Rightarrow> resolver" where
  "indexTable c t r =
     (let rel = tbl_Rel t; sch = schema_or_default c (tn_Schema rel); cols = column_map (cols_of c t) in
      r\<lparr>rs_tables := rs_tables r @ [rel],
        rs_defaultTable := (case rs_defaultTable r of None \<Rightarrow> Some rel | Some d \<Rightarrow> Some d),
        rs_typeMap := (rs_typeMap r)(sch := (rs_typeMap r sch)(tn_Name rel := Some cols))\<rparr>)"

definition lookup_column :: "catalog \<Rightarrow> resolver \<Rightarrow> tableName \<Rightarrow> string \<Rightarrow> column option" where
  "lookup_column c r t key =
     (case rs_typeMap r (schema_or_default c (tn_Schema t)) (tn_Name t) of None \<Rightarrow> None | Some m \<Rightarrow> m key)"

definition index_range_var :: "catalog \<Rightarrow> query_catalog \<Rightarrow> node range_var \<Rightarrow> resolver \<Rightarrow> error + resolver" where
  "index_range_var c qc rv r =
     (if rvn_Relname rv = None then Inr r
      else
        (let fqn = relation_table (relation_of_range_var rv) in
         if rs_aliasMap r (tn_Name fqn) \<noteq> None then Inr r
         else
           (case GetTable c fqn of
              Inl e \<Rightarrow> (case qc_GetTable qc fqn of Inl _ \<Rightarrow> Inl e | Inr _ \<Rightarrow> Inr r)
            | Inr t \<Rightarrow>
                (let r1 = indexTable c t r in
                 case rvn_Alias rv of
                   None \<Rightarrow> Inr r1
                 | Some a \<Rightarrow>
                     (case deref (al_Aliasname a) of
                        Inl e \<Rightarrow> Inl e
                      | Inr n \<Rightarrow> Inr (r1\<lparr>rs_aliasMap := (rs_aliasMap r1)(n \<mapsto> fqn)\<rparr>))))))"

definition resolve_embed :: "catalog \<Rightarrow> resolver \<Rightarrow> embed \<Rightarrow> error + embed" where
  "resolve_embed c r em =
     (case GetTable c (e_Table em) of
        Inr t \<Rightarrow> Inr (em\<lparr>e_Table := tbl_Rel t\<rparr>)
      | Inl e \<Rightarrow>
          (case rs_aliasMap r (tn_Name (e_Table em)) of
             Some fqn \<Rightarrow> Inr (em\<lparr>e_Table := fqn\<rparr>)
           | None \<Rightarrow> Inl (wrap_err (''unable to resolve table with '' @ Quote (Orig em) @ '': '') e)))"

section \<open>Parameters\<close>

type_synonym parameter = "int \<times> qcolumn option"

definition num_of :: "param_store \<Rightarrow> paramRef \<Rightarrow> int" where
  "num_of ps ref = pr_Number (ps (ref_ref ref))"

text \<open>A parameter merged with what the query said about it.\<close>

definition merged_param :: "paramSet \<Rightarrow> int \<Rightarrow> param \<Rightarrow> (param \<Rightarrow> bool \<Rightarrow> qcolumn) \<Rightarrow> parameter" where
  "merged_param params k defaultP mk =
     (case FetchMerge k defaultP params of (p, isNamed) \<Rightarrow> (k, Some ((mk p isNamed)\<lparr>qc_IsNamedParam := isNamed\<rparr>)))"

definition addUnknownParam :: "param_store \<Rightarrow> paramSet \<Rightarrow> paramRef \<Rightarrow> parameter" where
  "addUnknownParam ps params ref =
     merged_param params (num_of ps ref) (NewInferredParam (ref_name ref) False)
       (\<lambda>p isNamed. plain_qcolumn (p_name p) ''any'' False)"

definition limit_param :: "param_store \<Rightarrow> paramSet \<Rightarrow> paramRef \<Rightarrow> string \<Rightarrow> parameter" where
  "limit_param ps params ref name =
     merged_param params (num_of ps ref) (NewInferredParam name True)
       (\<lambda>p isNamed. plain_qcolumn (p_name p) ''integer'' (NotNull p))"

text \<open>A parameter that takes the type of a column of the catalog.\<close>

definition column_param :: "column \<Rightarrow> tableName \<Rightarrow> param \<Rightarrow> bool \<Rightarrow> qcolumn" where
  "column_param col t p isNamed = zero_qcolumn
     \<lparr>qc_Name := p_name p, qc_OriginalName := col_Name col, qc_DataType := dataType (col_Type col),
      qc_NotNull := NotNull p, qc_Unsigned := col_IsUnsigned col, qc_IsArray := col_IsArray col,
      qc_ArrayDims := col_ArrayDims col, qc_Length := col_Length col, qc_Table := Some t,
      qc_IsSqlcSlice := p_isSqlcSlice p\<rparr>"

definition is_column_ref :: "node \<Rightarrow> bool" where
  "is_column_ref n = (as_ColumnRef n \<noteq> None)"

text \<open>The tables to look a reference up in; \<open>strict\<close> when an unknown alias is an error.\<close>

definition search_tables :: "resolver \<Rightarrow> string \<Rightarrow> tableName list option" where
  "search_tables r al =
     (if al = [] then Some (rs_tables r)
      else
        (case rs_aliasMap r al of
           Some fqn \<Rightarrow> Some [fqn]
         | None \<Rightarrow>
             (case filter (\<lambda>t. tn_Name t = al) (rs_tables r) of
                [] \<Rightarrow> None
              | ts \<Rightarrow> Some [last ts])))"

fun match_tables ::
    "catalog \<Rightarrow> resolver \<Rightarrow> string \<Rightarrow> string \<Rightarrow> tableName list \<Rightarrow> (string \<times> tableName \<times> column) list \<times> string" where
  "match_tables c r rname key [] = ([], key)"
| "match_tables c r rname key (t # ts) =
     (case lookup_column c r t key of
        None \<Rightarrow> match_tables c r rname key ts
      | Some col \<Rightarrow>
          (let key1 = (if rname \<noteq> [] then rname else key) in
           case match_tables c r rname key1 ts of (ms, k) \<Rightarrow> ((key1, t, col) # ms, k)))"

definition first_column_ref :: "node \<Rightarrow> node \<Rightarrow> error + node column_ref option" where
  "first_column_ref lexpr rexpr =
     (case Search lexpr is_column_ref of
        Inl e \<Rightarrow> Inl e
      | Inr (n # _) \<Rightarrow> Inr (as_ColumnRef n)
      | Inr [] \<Rightarrow>
          (case Search rexpr is_column_ref of
             Inl e \<Rightarrow> Inl e
           | Inr [] \<Rightarrow> Inr None
           | Inr (n # _) \<Rightarrow> Inr (as_ColumnRef n)))"

definition too_many_items :: "nat \<Rightarrow> error" where
  "too_many_items n = Panic (''too many field items: '' @ Itoa (int n))"

definition one_match :: "string \<Rightarrow> nat \<Rightarrow> string \<Rightarrow> string \<Rightarrow> 'a list \<Rightarrow> error option" where
  "one_match key loc missing ambiguous found =
     (if length found = 0 then Some (SqlErr \<lparr>Err = None, Code = ''42703'', Message = missing @ Quote key @ '' does not exist'',
                                      Location = loc, Line = 0, Column = 0\<rparr>)
      else if 1 < length found then Some (SqlErr \<lparr>Err = None, Code = ''42703'', Message = ambiguous @ Quote key @ '' is ambiguous'',
                                      Location = loc, Line = 0, Column = 0\<rparr>)
      else None)"

definition resolve_expr ::
    "param_store \<Rightarrow> catalog \<Rightarrow> paramSet \<Rightarrow> resolver \<Rightarrow> paramRef \<Rightarrow> node list option \<Rightarrow> node \<Rightarrow> node \<Rightarrow> error + parameter list" where
  "resolve_expr ps c params r ref opname lexpr rexpr =
     (case first_column_ref lexpr rexpr of
        Inl e \<Rightarrow> Inl e
      | Inr None \<Rightarrow>
          Inr [merged_param params (num_of ps ref) (NewParam [])
                 (\<lambda>p isNamed. (plain_qcolumn (p_name p) (if astutils_Join opname ''.'' = ''||'' then ''text'' else ''any'') (NotNull p))
                    \<lparr>qc_IsSqlcSlice := p_isSqlcSlice p\<rparr>)]
      | Inr (Some node) \<Rightarrow>
          (case Items (cr_Fields node) of
             Inl e \<Rightarrow> Inl e
           | Inr fs \<Rightarrow>
               (case ref_parts (string_items fs) of
                  None \<Rightarrow> Inl (too_many_items (length (string_items fs)))
                | Some (sch, al, key) \<Rightarrow>
                    (case search_tables r al of
                       None \<Rightarrow> Inl (ref_error (''table alias '' @ Quote al @ '' does not exist'') (cr_Location node))
                     | Some ts \<Rightarrow>
                         (case match_tables c r (ref_name ref) key ts of
                            (found, key1) \<Rightarrow>
                              (case one_match key1 (cr_Location node) ''column '' ''column reference '' found of
                                 Some e \<Rightarrow> Inl e
                               | None \<Rightarrow>
                                   Inr (map (\<lambda>(k, t, col). merged_param params (num_of ps ref)
                                          (NewInferredParam k (col_IsNotNull col)) (column_param col t)) found)))))))"

definition between_key :: "node \<Rightarrow> error + string" where
  "between_key expr =
     (case as_ColumnRef expr of
        None \<Rightarrow> Inr []
      | Some ref \<Rightarrow>
          (case Items (cr_Fields ref) of
             Inl e \<Rightarrow> Inl e
           | Inr [] \<Rightarrow> Inl index_range
           | Inr (f # fs) \<Rightarrow> Inr (case as_String (last (f # fs)) of Some s \<Rightarrow> s | None \<Rightarrow> [])))"

definition between_prefix :: "nat \<Rightarrow> node \<Rightarrow> node \<Rightarrow> string" where
  "between_prefix a left right =
     (if left = ParamRef a then ''from_'' else if right = ParamRef a then ''to_'' else [])"

definition resolve_between ::
    "param_store \<Rightarrow> catalog \<Rightarrow> paramSet \<Rightarrow> resolver \<Rightarrow> paramRef \<Rightarrow> node \<Rightarrow> node \<Rightarrow> node \<Rightarrow> error + parameter list" where
  "resolve_between ps c params r ref expr left right =
     (if expr = NilNode \<or> left = NilNode \<or> right = NilNode then Inr []
      else
        (case between_key expr of
           Inl e \<Rightarrow> Inl e
         | Inr key \<Rightarrow>
             Inr (List.map_filter (\<lambda>t.
               case lookup_column c r t key of
                 None \<Rightarrow> None
               | Some col \<Rightarrow>
                   Some (merged_param params (num_of ps ref) (NewInferredParam key (col_IsNotNull col))
                     (\<lambda>p isNamed. (column_param col t p isNamed)
                        \<lparr>qc_Name := (if isNamed then [] else between_prefix (ref_ref ref) left right) @ p_name p,
                         qc_OriginalName := [], qc_Length := None\<rparr>))) (rs_tables r))))"

text \<open>A function the catalog does not have is made up, with an argument of type \<open>any\<close> for each argument of the call.\<close>

definition any_argument :: argument where
  "any_argument = \<lparr>arg_Name = [], arg_Type = named_type ''any'', arg_HasDefault = False, arg_Mode = FuncParamIn\<rparr>"

definition called_func :: "catalog \<Rightarrow> node func_call \<Rightarrow> error + func" where
  "called_func c n =
     (case resolve_call c n of
        Inr f \<Rightarrow> Inr f
      | Inl (Panic s) \<Rightarrow> Inl (Panic s)
      | Inl e \<Rightarrow>
          (case Items (fcn_Args n) of
             Inl e' \<Rightarrow> Inl e'
           | Inr args \<Rightarrow>
               Inr \<lparr>f_Name = (case fcn_Func n of Some fn \<Rightarrow> fn_Name fn | None \<Rightarrow> []),
                    f_Args = map (\<lambda>_. any_argument) args, f_ReturnType = Some (named_type ''any''), f_Comment = [],
                    f_Desc = [], f_ReturnTypeNullable = False\<rparr>))"

text \<open>Whether an argument of a call is the parameter, and the name it is passed under.\<close>

definition arg_is_param :: "param_store \<Rightarrow> int \<Rightarrow> node \<Rightarrow> string option" where
  "arg_is_param ps k item =
     (case item of
        ParamRef a \<Rightarrow> if pr_Number (ps a) = k then Some [] else None
      | TypeCast arg t \<Rightarrow>
          (case as_ParamRef arg of Some a \<Rightarrow> if pr_Number (ps a) = k then Some [] else None | None \<Rightarrow> None)
      | NamedArgExpr x arg name \<Rightarrow>
          (case as_ParamRef arg of
             Some a \<Rightarrow> if pr_Number (ps a) = k then Some (or_empty name) else None
           | None \<Rightarrow> None)
      | _ \<Rightarrow> None)"

definition arg_type :: "func \<Rightarrow> nat \<Rightarrow> string \<Rightarrow> error + (string \<times> string)" where
  "arg_type fun i argName =
     (if argName = [] then
        (if i < length (f_Args fun)
         then (let a = f_Args fun ! i in
               Inr (if arg_Name a = [] then f_Name fun else arg_Name a, dataType (arg_Type a)))
         else Inr (f_Name fun, []))
      else
        (case filter (\<lambda>a. arg_Name a = argName) (f_Args fun) of
           [] \<Rightarrow> Inl (Panic (''named argument '' @ argName @ '' has no type''))
         | as \<Rightarrow> Inr (argName, dataType (arg_Type (last as)))))"

fun call_params ::
    "param_store \<Rightarrow> paramSet \<Rightarrow> func \<Rightarrow> int \<Rightarrow> nat \<Rightarrow> node list \<Rightarrow> error + parameter list" where
  "call_params ps params fun k i [] = Inr []"
| "call_params ps params fun k i (item # items) =
     (case arg_is_param ps k item of
        None \<Rightarrow> call_params ps params fun k (Suc i) items
      | Some argName \<Rightarrow>
          (case arg_type fun i argName of
             Inl e \<Rightarrow> Inl e
           | Inr (name, typ) \<Rightarrow>
               (case call_params ps params fun k (Suc i) items of
                  Inl e \<Rightarrow> Inl e
                | Inr rest \<Rightarrow>
                    Inr (merged_param params k (NewInferredParam name True)
                           (\<lambda>p isNamed. (plain_qcolumn (p_name p) typ (NotNull p))\<lparr>qc_IsSqlcSlice := p_isSqlcSlice p\<rparr>) # rest))))"

definition resolve_func ::
    "param_store \<Rightarrow> catalog \<Rightarrow> paramSet \<Rightarrow> resolver \<Rightarrow> paramRef \<Rightarrow> node func_call \<Rightarrow> error + (parameter list \<times> resolver)" where
  "resolve_func ps c params r ref n =
     (case called_func c n of
        Inl e \<Rightarrow> Inl e
      | Inr fun \<Rightarrow>
          (case Items (fcn_Args n) of
             Inl e \<Rightarrow> Inl e
           | Inr items \<Rightarrow>
               (case call_params ps params fun (num_of ps ref) 0 items of
                  Inl e \<Rightarrow> Inl e
                | Inr added \<Rightarrow>
                    (let unknown = (if added = [] then [addUnknownParam ps params ref] else added) in
                     case f_ReturnType fun of
                       None \<Rightarrow> Inr (unknown, r)
                     | Some rt \<Rightarrow>
                         (case GetTable c \<lparr>tn_Catalog = ty_Catalog rt, tn_Schema = ty_Schema rt, tn_Name = ty_Name rt\<rparr> of
                            Inl e \<Rightarrow> Inr (unknown, r)
                          | Inr t \<Rightarrow> Inr (added, indexTable c t r))))))"

definition resolve_target ::
    "param_store \<Rightarrow> catalog \<Rightarrow> paramSet \<Rightarrow> resolver \<Rightarrow> paramRef \<Rightarrow> node res_target \<Rightarrow> error + parameter" where
  "resolve_target ps c params r ref n =
     (case rt_Name n of
        None \<Rightarrow> Inl (PlainErr ''*ast.ResTarget has nil name'')
      | Some key \<Rightarrow>
          (let fqn = (case ref_rv ref of
                        Some rv \<Rightarrow> relation_table (relation_of_range_var rv)
                      | None \<Rightarrow> (case rs_defaultTable r of Some t \<Rightarrow> t | None \<Rightarrow> named_table []));
               sch = schema_or_default c (tn_Schema fqn); rel = tn_Name fqn
           in case rs_typeMap r sch rel of
                None \<Rightarrow> Inl (SqlErr (RelationNotFound rel))
              | Some tableMap \<Rightarrow>
                  (case tableMap key of
                     None \<Rightarrow> Inl (ref_error (''column '' @ Quote key @ '' does not exist'') (rt_Location n))
                   | Some col \<Rightarrow>
                       Inr (merged_param params (num_of ps ref) (NewInferredParam key (col_IsNotNull col))
                              (column_param col ((named_table rel)\<lparr>tn_Schema := sch\<rparr>))))))"

definition resolve_cast ::
    "param_store \<Rightarrow> paramSet \<Rightarrow> paramRef \<Rightarrow> node type_name option \<Rightarrow> error + parameter" where
  "resolve_cast ps params ref tn =
     (case tn of
        None \<Rightarrow> Inl (PlainErr ''*ast.TypeCast has nil type name'')
      | Some t \<Rightarrow>
          (case toColumn t of
             Inl e \<Rightarrow> Inl e
           | Inr col \<Rightarrow>
               Inr (merged_param params (num_of ps ref) (NewInferredParam (qc_Name col) (qc_NotNull col))
                      (\<lambda>p isNamed. col\<lparr>qc_Name := p_name p, qc_NotNull := NotNull p\<rparr>))))"

text \<open>An IN expression: the reference on its left, or in its list when a parameter is on its left.\<close>

definition in_reference :: "param_store \<Rightarrow> node \<Rightarrow> node list \<Rightarrow> (nat \<times> node list option) option" where
  "in_reference ps expr items =
     (case expr of
        ColumnRef left \<Rightarrow> Some (cr_Location left, cr_Fields left)
      | ParamRef a \<Rightarrow>
          (case items of
             ColumnRef right # _ \<Rightarrow> Some (pr_Location (ps a), cr_Fields right)
           | _ \<Rightarrow> None)
      | _ \<Rightarrow> None)"

definition in_number :: "param_store \<Rightarrow> node list \<Rightarrow> int" where
  "in_number ps items =
     (case items of ParamRef a # _ \<Rightarrow> pr_Number (ps a) | _ \<Rightarrow> 0)"

definition in_tables :: "resolver \<Rightarrow> string \<Rightarrow> tableName list" where
  "in_tables r al = (case search_tables r al of Some ts \<Rightarrow> ts | None \<Rightarrow> rs_tables r)"

text \<open>The code skips an IN whose list is nil, and reads the first item of any other.  An empty list is nil: every
  converter of \<open>engine\<close> makes the list of an IN by appending its items to a nil slice, or allocates it only when there
  are items.\<close>

definition resolve_in ::
    "param_store \<Rightarrow> catalog \<Rightarrow> paramSet \<Rightarrow> resolver \<Rightarrow> paramRef \<Rightarrow> node \<Rightarrow> node list \<Rightarrow> node \<Rightarrow> error + parameter list" where
  "resolve_in ps c params r ref expr items sel =
     (if items = [] then Inr []
      else
        (case in_reference ps expr items of
           None \<Rightarrow> Inr []
         | Some (loc, flds) \<Rightarrow>
             (case Items flds of
                Inl e \<Rightarrow> Inl e
              | Inr fs \<Rightarrow>
                  (case (case string_items fs of [key] \<Rightarrow> Some ([], key) | [al, key] \<Rightarrow> Some (al, key) | _ \<Rightarrow> None) of
                     None \<Rightarrow> Inl (too_many_items (length (string_items fs)))
                   | Some (al, key) \<Rightarrow>
                       (case (if sel = NilNode then match_tables c r (ref_name ref) key (in_tables r al) else ([], key)) of
                          (found, key1) \<Rightarrow>
                            (case one_match key1 loc ''396: column '' ''in same name column reference '' found of
                               Some e \<Rightarrow> Inl e
                             | None \<Rightarrow>
                                 Inr (map (\<lambda>(k, t, col).
                                   (in_number ps items,
                                    snd (merged_param params (num_of ps ref) (NewInferredParam k (col_IsNotNull col))
                                      (\<lambda>p isNamed. (column_param col t p isNamed)
                                         \<lparr>qc_NotNull := col_IsNotNull col, qc_Length := None\<rparr>)))) found)))))))"

definition resolve_ref ::
    "param_store \<Rightarrow> catalog \<Rightarrow> paramSet \<Rightarrow> paramRef \<Rightarrow> resolver \<Rightarrow> error + (parameter list \<times> resolver)" where
  "resolve_ref ps c params ref r =
     (case ref_parent ref of
        LimitOffset \<Rightarrow> Inr ([limit_param ps params ref ''offset''], r)
      | LimitCount \<Rightarrow> Inr ([limit_param ps params ref ''limit''], r)
      | ParentNode n \<Rightarrow>
          (case n of
             A_Expr opname lexpr rexpr \<Rightarrow>
               map_sum id (\<lambda>as. (as, r)) (resolve_expr ps c params r ref opname lexpr rexpr)
           | BetweenExpr expr left right \<Rightarrow>
               map_sum id (\<lambda>as. (as, r)) (resolve_between ps c params r ref expr left right)
           | FuncCall fc \<Rightarrow> resolve_func ps c params r ref fc
           | ResTarget t \<Rightarrow> map_sum id (\<lambda>a. ([a], r)) (resolve_target ps c params r ref t)
           | TypeCast arg t \<Rightarrow> map_sum id (\<lambda>a. ([a], r)) (resolve_cast ps params ref t)
           | ParamRef a \<Rightarrow> Inr ([(num_of ps ref, None)], r)
           | In expr items sel \<Rightarrow> map_sum id (\<lambda>as. (as, r)) (resolve_in ps c params r ref expr items sel)
           | _ \<Rightarrow> Inr ([addUnknownParam ps params ref], r)))"

definition resolve_refs ::
    "param_store \<Rightarrow> catalog \<Rightarrow> paramSet \<Rightarrow> paramRef list \<Rightarrow> resolver \<Rightarrow> error + (parameter list \<times> resolver)" where
  "resolve_refs ps c params refs r =
     fold_ok (\<lambda>ref s. case resolve_ref ps c params ref (snd s) of
                         Inl e \<Rightarrow> Inl e
                       | Inr (as, r') \<Rightarrow> Inr (fst s @ as, r')) refs ([], r)"

definition empty_resolver :: resolver where
  "empty_resolver = \<lparr>rs_aliasMap = Map.empty, rs_defaultTable = None, rs_tables = [], rs_typeMap = (\<lambda>_ _. None)\<rparr>"

text \<open>\<open>resolveCatalogRefs\<close> also resolves the tables of the embeds, in place.\<close>

definition resolveCatalogRefs ::
    "param_store \<Rightarrow> catalog \<Rightarrow> query_catalog \<Rightarrow> node range_var list \<Rightarrow> paramRef list \<Rightarrow> paramSet \<Rightarrow>
     error + (parameter list \<times> query_catalog)" where
  "resolveCatalogRefs ps c qc rvs args params =
     (case fold_ok (index_range_var c qc) rvs empty_resolver of
        Inl e \<Rightarrow> Inl e
      | Inr r \<Rightarrow>
          (case map_ok (resolve_embed c r) (qcat_embeds qc) of
             Inl e \<Rightarrow> Inl e
           | Inr embeds \<Rightarrow>
               (case resolve_refs ps c params args r of
                  Inl e \<Rightarrow> Inl e
                | Inr (as, _) \<Rightarrow> Inr (as, qc\<lparr>qcat_embeds := embeds\<rparr>))))"

end
