(* ===== verification/Query_Analyze.thy ===== *)
theory Query_Analyze
  imports Query_Output Query_Resolve
begin

text \<open>
  The analysis of one query: expansion of stars (\<open>internal/compiler/expand.go\<close> and \<open>selector.go\<close>), \<open>analyzeQuery\<close> of
  \<open>analyze.go\<close> and \<open>parseQuery\<close> of \<open>parse.go\<close>, without an analyzer that is connected to a database and without the
  analysis core.  The reserved words, the comment syntax and the check of an edited query come from the engine's
  parser; \<open>sort.Slice\<close> is an argument.
\<close>

section \<open>Identifiers\<close>

definition ident_start :: "char \<Rightarrow> bool" where
  "ident_start ch \<longleftrightarrow> in_range 97 122 ch \<or> ch = CHR ''_''"

definition ident_rest :: "char \<Rightarrow> bool" where
  "ident_rest ch \<longleftrightarrow> ident_start ch \<or> in_range 48 57 ch \<or> ch = CHR ''$''"

text \<open>The expression \<open>^[a-z_][a-z0-9_$]*$\<close>.\<close>

definition validPostgresIdent :: "string \<Rightarrow> bool" where
  "validPostgresIdent s = (case s of [] \<Rightarrow> False | ch # cs \<Rightarrow> ident_start ch \<and> list_all ident_rest cs)"

definition quote :: "compiler \<Rightarrow> string \<Rightarrow> string" where
  "quote c x = (if comp_Engine c = EngineMySQL then ''`'' @ x @ ''`'' else [CHR 0x22] @ x @ [CHR 0x22])"

definition quoteIdent :: "compiler \<Rightarrow> string \<Rightarrow> string" where
  "quoteIdent c ident =
     (if comp_IsReservedKeyword c ident then quote c ident
      else if comp_Engine c = EnginePostgreSQL \<and>
              (strings_ToLower (comp_unicode c) ident \<noteq> ident \<or>
               \<not> validPostgresIdent (strings_ToLower (comp_unicode c) ident))
      then quote c ident
      else ident)"

section \<open>Star expansion\<close>

text \<open>\<open>starOldFunc\<close>: the length of a star reference in the text, each part bare or quoted.\<close>

fun star_old :: "compiler \<Rightarrow> string list \<Rightarrow> bool \<Rightarrow> nat \<Rightarrow> string \<Rightarrow> error + int" where
  "star_old c [] is_first len s = Inr (int len)"
| "star_old c (p # ps) is_first len s =
     (let start = (if is_first then len else Suc len) in
      if length s < start then Inl (Panic ''slice bounds out of range'')
      else if HasPrefix (drop start s) p then star_old c ps False (start + length p) s
      else if HasPrefix (drop start s) (quote c p) then star_old c ps False (start + length (quote c p)) s
      else star_old c ps False (start + length p) s)"

definition old_parts :: "compiler \<Rightarrow> string list \<Rightarrow> string list" where
  "old_parts c parts = map (\<lambda>p. if p = ''*'' then p else quoteIdent c p) parts"

definition starOldFunc :: "compiler \<Rightarrow> string list \<Rightarrow> string \<Rightarrow> error + int" where
  "starOldFunc c parts s = star_old c (old_parts c parts) True 0 s"

definition ColumnExpr :: "compiler \<Rightarrow> string \<Rightarrow> qcolumn \<Rightarrow> string" where
  "ColumnExpr c name col =
     (if comp_Engine c = EngineSQLite \<and> EqualFold (qc_DataType col) ''jsonb'' then ''json('' @ name @ '')'' else name)"

definition star_parts :: "node list \<Rightarrow> error + string list" where
  "star_parts fs =
     map_ok (\<lambda>f. case f of String s \<Rightarrow> Inr s | A_Star \<Rightarrow> Inr ''*''
                | _ \<Rightarrow> Inl (PlainErr (''unknown field in ColumnRef: '' @ go_type f))) fs"

text \<open>\<open>counts\<close>: how many columns of the source tables have a name; only a bare star counts them.\<close>

definition name_count :: "query_catalog \<Rightarrow> qtable list \<Rightarrow> string \<Rightarrow> string \<Rightarrow> nat" where
  "name_count qc tables scope n =
     (if scope = [] then length (filter (\<lambda>col. qc_Name col = n) (concat (map (columns_of qc) tables))) else 0)"

definition star_name ::
    "compiler \<Rightarrow> query_catalog \<Rightarrow> qtable list \<Rightarrow> string option \<Rightarrow> string \<Rightarrow> qtable \<Rightarrow> qcolumn \<Rightarrow> string" where
  "star_name c qc tables rname scope t col =
     (let name1 = quoteIdent c (case rname of Some n \<Rightarrow> n | None \<Rightarrow> qc_Name col);
          name2 = (if scope \<noteq> [] then quoteIdent c scope @ ''.'' @ name1 else name1);
          name3 = (if 1 < name_count qc tables scope name2 then quoteIdent c (qt_name t) @ ''.'' @ name2 else name2)
      in ColumnExpr c name3 col)"

definition star_names ::
    "compiler \<Rightarrow> query_catalog \<Rightarrow> qtable list \<Rightarrow> qtable list \<Rightarrow> node res_target \<Rightarrow> string \<Rightarrow> string list" where
  "star_names c qc tables rtables res scope =
     concat (map (\<lambda>t. map (star_name c qc tables (rt_Name res) scope t) (columns_of qc t))
       (star_tables tables rtables scope))"

definition star_edit ::
    "compiler \<Rightarrow> query_catalog \<Rightarrow> qtable list \<Rightarrow> qtable list \<Rightarrow> nat \<Rightarrow> node res_target \<Rightarrow> node column_ref \<Rightarrow>
     error + source_edit" where
  "star_edit c qc tables rtables stmtLoc res ref =
     (case star_parts (opt_items (cr_Fields ref)) of
        Inl e \<Rightarrow> Inl e
      | Inr parts \<Rightarrow>
          Inr \<lparr>se_Location = int (rt_Location res) - int stmtLoc, se_Old = [],
               se_New = Join (star_names c qc tables rtables res (astutils_Join (cr_Fields ref) ''.'')) '', '',
               se_OldFunc = Some (starOldFunc c parts)\<rparr>)"

definition target_edits ::
    "compiler \<Rightarrow> query_catalog \<Rightarrow> qtable list \<Rightarrow> qtable list \<Rightarrow> nat \<Rightarrow> node \<Rightarrow> error + source_edit list" where
  "target_edits c qc tables rtables stmtLoc target =
     (case as_ResTarget target of
        None \<Rightarrow> Inr []
      | Some res \<Rightarrow>
          (case as_ColumnRef (rt_Val res) of
             None \<Rightarrow> Inr []
           | Some ref \<Rightarrow>
               (case hasStarRef ref of
                  Inl e \<Rightarrow> Inl e
                | Inr False \<Rightarrow> Inr []
                | Inr True \<Rightarrow> map_sum id (\<lambda>e. [e]) (star_edit c qc tables rtables stmtLoc res ref))))"

definition is_dml :: "node \<Rightarrow> bool" where
  "is_dml n = (case n of DeleteStmt s \<Rightarrow> True | InsertStmt s \<Rightarrow> True | SelectStmt s \<Rightarrow> True | UpdateStmt s \<Rightarrow> True | _ \<Rightarrow> False)"

definition stmt_targets :: "node \<Rightarrow> error + node list" where
  "stmt_targets node =
     (case node of
        DeleteStmt n \<Rightarrow> Items (ds_ReturningList n)
      | InsertStmt n \<Rightarrow> Items (is_ReturningList n)
      | SelectStmt n \<Rightarrow> Items (ss_TargetList n)
      | UpdateStmt n \<Rightarrow> Items (us_ReturningList n)
      | _ \<Rightarrow> Inl (PlainErr (''outputColumns: unsupported node type: '' @ go_type node)))"

definition expandStmt ::
    "compiler \<Rightarrow> nat \<Rightarrow> node \<Rightarrow> source_edit list \<times> query_catalog \<Rightarrow> error + (source_edit list \<times> query_catalog)" where
  "expandStmt c stmtLoc node s =
     (case sourceTables (outputColumns c) (snd s) node of
        Inl e \<Rightarrow> Inl e
      | Inr (tables, qc1) \<Rightarrow>
          (case returningTables c qc1 node of
             (rtables, qc2) \<Rightarrow>
               (case stmt_targets node of
                  Inl e \<Rightarrow> Inl e
                | Inr targets \<Rightarrow>
                    (case map_ok (target_edits c qc2 tables rtables stmtLoc) targets of
                       Inl e \<Rightarrow> Inl e
                     | Inr ess \<Rightarrow> Inr (fst s @ concat ess, qc2)))))"

definition is_star :: "node \<Rightarrow> bool" where
  "is_star n = (n = A_Star)"

definition expand :: "compiler \<Rightarrow> query_catalog \<Rightarrow> node \<Rightarrow> nat \<Rightarrow> error + source_edit list" where
  "expand c qc raw stmtLoc =
     (case Search raw is_star of
        Inl e \<Rightarrow> Inl e
      | Inr [] \<Rightarrow> Inr []
      | Inr (x # xs) \<Rightarrow>
          (case Search raw is_dml of
             Inl e \<Rightarrow> Inl e
           | Inr stmts \<Rightarrow> map_sum id fst (fold_ok (expandStmt c stmtLoc) stmts ([], qc))))"

section \<open>Analysis\<close>

record analysis =
  an_Table :: "tableName option"
  an_Columns :: "qcolumn list"
  an_Parameters :: "parameter list"
  an_Query :: string

text \<open>\<open>sort.Slice\<close> by a number: any ascending permutation.\<close>

type_synonym ref_sort = "(paramRef \<Rightarrow> int) \<Rightarrow> paramRef list \<Rightarrow> paramRef list"

definition ascending :: "ref_sort \<Rightarrow> bool" where
  "ascending srt \<longleftrightarrow> (\<forall>key xs. mset (srt key xs) = mset xs \<and> sorted (map key (srt key xs)))"

definition check :: "error option \<Rightarrow> error + 'a \<Rightarrow> error + 'a" where
  "check err k = (case err of Some e \<Rightarrow> Inl e | None \<Rightarrow> k)"

definition insert_table :: "compiler \<Rightarrow> node \<Rightarrow> error + tableName option" where
  "insert_table c stmt =
     (case stmt of
        InsertStmt n \<Rightarrow>
          (case ParseTableName_ptr (is_Relation n) of
             Inl e \<Rightarrow> Inl e
           | Inr t \<Rightarrow> check (validate_InsertStmt (comp_catalog c) t n) (Inr (Some t)))
      | _ \<Rightarrow> Inr None)"

definition sort_refs :: "compiler \<Rightarrow> ref_sort \<Rightarrow> bool \<Rightarrow> param_store \<Rightarrow> paramRef list \<Rightarrow> paramRef list" where
  "sort_refs c srt dollar ps refs =
     (if comp_Engine c = EngineMySQL \<or> \<not> dollar then srt (\<lambda>r. int (pr_Location (ps (ref_ref r)))) refs
      else srt (\<lambda>r. pr_Number (ps (ref_ref r))) refs)"

text \<open>The parameters: found, made unique, sorted and resolved.\<close>

definition analyze_params ::
    "compiler \<Rightarrow> ref_sort \<Rightarrow> param_store \<Rightarrow> node \<Rightarrow> statement \<Rightarrow> error + (parameter list \<times> query_catalog)" where
  "analyze_params c srt ps stmt pre =
     and_then (rangeVars stmt) (\<lambda>rvs.
     and_then (findParameters ps stmt) (\<lambda>(refs, errs).
       (case errs of
          e # _ \<Rightarrow> Inl e
        | [] \<Rightarrow>
            (case uniqueParamRefs refs (st_Dollar pre) ps of
               (uniq, ps1) \<Rightarrow>
                 and_then (buildQueryCatalog c (comp_catalog c) stmt (st_Embeds pre)) (\<lambda>qc.
                 resolveCatalogRefs ps1 (comp_catalog c) qc rvs (sort_refs c srt (st_Dollar pre) ps1 uniq)
                   (st_Params pre))))))"

definition analyzeQuery ::
    "compiler \<Rightarrow> ref_sort \<Rightarrow> (source_edit list \<Rightarrow> source_edit list) \<Rightarrow> param_store \<Rightarrow> node \<Rightarrow> nat \<Rightarrow> nat \<Rightarrow> string \<Rightarrow>
     statement \<Rightarrow> error + analysis" where
  "analyzeQuery c srt sort_desc ps stmt loc len query pre =
     (let raw = RawStmt stmt loc len in
      check (st_ParamErr pre)
      (and_then (insert_table c stmt) (\<lambda>table.
       check (validate_FuncCall (comp_catalog c) (comp_StrictFunctionChecks c) raw)
      (check (validate_Slice ps raw (st_Slices pre))
      (and_then (analyze_params c srt ps stmt pre) (\<lambda>(params, qc).
       and_then (outputColumns c stmt qc) (\<lambda>(cols, qc1).
       and_then (expand c qc1 raw loc) (\<lambda>edits.
       and_then (Mutate sort_desc query edits) (\<lambda>expanded.
         Inr \<lparr>an_Table = table, an_Columns = cols, an_Parameters = params, an_Query = expanded\<rparr>)))))))))"

section \<open>Parsing a query\<close>

record parser =
  pa_letter :: rune_class
  pa_digit :: rune_class
  pa_CommentSyntax :: commentSyntax
  pa_Parse :: "string \<Rightarrow> error option"

record query =
  q_SQL :: string
  q_Name :: string
  q_Cmd :: string
  q_Flags :: comment_flags
  q_Comments :: "string list"
  q_Columns :: "qcolumn list"
  q_Params :: "parameter list"
  q_InsertIntoTable :: "tableName option"

definition finish_query ::
    "parser \<Rightarrow> string \<Rightarrow> string \<Rightarrow> string \<Rightarrow> comment_flags \<Rightarrow> analysis \<Rightarrow> error + query" where
  "finish_query pa rawSQL name cmd flags anlys =
     check (if an_Query anlys \<noteq> rawSQL
            then map_option (wrap_err ''edited query syntax is invalid: '') (pa_Parse pa (an_Query anlys)) else None)
     (case StripComments (an_Query anlys) of
        (trimmed, comments, err) \<Rightarrow>
          check err
          (Inr \<lparr>q_SQL = trimmed, q_Name = name, q_Cmd = cmd, q_Flags = flags, q_Comments = comments,
                q_Columns = an_Columns anlys, q_Params = an_Parameters anlys, q_InsertIntoTable = an_Table anlys\<rparr>))"

text \<open>\<open>parseQuery\<close>: \<open>None\<close> for a statement without a name.\<close>

definition parseQuery ::
    "compiler \<Rightarrow> parser \<Rightarrow> ref_sort \<Rightarrow> (source_edit list \<Rightarrow> source_edit list) \<Rightarrow> param_store \<Rightarrow> node \<Rightarrow> result \<Rightarrow>
     error + query option" where
  "parseQuery c pa srt sort_desc ps node pp =
     (case node of
        RawStmt stmt loc len \<Rightarrow>
          (let pre = Result_Statement pp loc in
           and_then (renumberParams node pre ps) (\<lambda>ps1.
           check (map_option SqlErr (st_Err pre))
           (and_then (Pluck (r_Text pp) loc len) (\<lambda>rawSQL.
            if rawSQL = [] then Inl (PlainErr ''missing semicolon at end of file'')
            else
              and_then (ParseQueryNameAndType (pa_letter pa) (pa_digit pa) rawSQL (pa_CommentSyntax pa)) (\<lambda>(name, cmd).
              if name = [] then Inr None
              else
                check (validate_Cmd stmt name cmd)
                (case CleanedComments rawSQL (pa_CommentSyntax pa) of
                   (cleaned, err) \<Rightarrow>
                     check err
                     (case ParseCommentFlags cleaned of
                        (flags, ferr) \<Rightarrow>
                          check ferr
                          (and_then (analyzeQuery c srt sort_desc ps1 stmt loc len rawSQL pre) (\<lambda>anlys.
                           map_sum id Some (finish_query pa rawSQL name cmd flags anlys))))))))))
      | _ \<Rightarrow> Inl (PlainErr ''node is not a statement''))"

end
