(* ===== verification/Query_Props.thy ===== *)
theory Query_Props
  imports Query_Analyze
begin

text \<open>Properties of the columns a query returns.\<close>

section \<open>Reading a table\<close>

lemma Walk_leaf:
  "children n = [] \<Longrightarrow> n \<noteq> NilNode \<Longrightarrow> Walk tableVisitor () n s = Inr (if is_table_node n then s @ [n] else s)"
  by (subst Walk.simps) (auto simp: tableVisitor_def is_table_node_def is_subselect_def)

lemma walk_one_range_var:
  "rvn_Alias v = None \<Longrightarrow> walk_list (Some [RangeVar v]) [] = Inr [RangeVar v]"
  unfolding walk_list_def Items_def
  by (simp, subst Walk.simps)
    (simp add: Walk_leaf kid_ptr_def tableVisitor_def is_table_node_def is_subselect_def)

lemma source_one_range_var:
  assumes "ss_FromClause n = Some [RangeVar v]" and "rvn_Alias v = None"
  shows "sourceTables sub qc (SelectStmt n) = map_sum id (\<lambda>t. ([t], qc)) (range_var_table qc v)"
  using walk_one_range_var [OF assms(2)] assms(1)
  by (simp add: sourceTables_def source_items_def source_table_def split: sum.split)

definition star_ref :: "nat \<Rightarrow> node column_ref" where
  "star_ref loc = mk_ColumnRef [] (Some [A_Star]) loc"

definition star_target :: "nat \<Rightarrow> node" where
  "star_target loc = ResTarget (mk_ResTarget None None (ColumnRef (star_ref loc)) loc)"

text \<open>\<open>SELECT * FROM t\<close>, whatever else the statement has but a GROUP BY, an ORDER BY and a WINDOW clause.\<close>

definition reads_all_of :: "node select_stmt \<Rightarrow> nat \<Rightarrow> node range_var \<Rightarrow> bool" where
  "reads_all_of n loc v \<longleftrightarrow>
     ss_TargetList n = Some [star_target loc] \<and> ss_FromClause n = Some [RangeVar v] \<and> rvn_Alias v = None \<and>
     rvn_Relname v \<noteq> None \<and> ss_GroupClause n = None \<and> ss_SortClause n = None \<and> ss_WindowClause n = None"

definition star_table_column :: "tableName \<Rightarrow> column \<Rightarrow> qcolumn" where
  "star_table_column rel col =
     (ConvertColumn rel col)\<lparr>qc_OriginalName := col_Name col, qc_TableAlias := tn_Name rel\<rparr>"

lemma star_column_Convert:
  "star_column None [] \<lparr>qt_Rel = rel, qt_Cte = cte, qt_Own = own\<rparr> (ConvertColumn rel col) = star_table_column rel col"
  by (simp add: star_column_def star_table_column_def ConvertColumn_def zero_qcolumn_def)

lemma string_items_star [simp]: "string_items [A_Star] = []"
  by simp

lemma target_loop_one:
  "target_loop sub tables rtables [ResTarget res] qc = target_columns sub tables rtables res qc"
  by (auto simp: target_loop_def split: sum.splits prod.splits)

lemma require_table_column:
  assumes "ss_FromClause n = Some [RangeVar v]" and "rvn_Alias v = None" and "rvn_Relname v = Some (tn_Name rel)"
  shows "require_column n (star_table_column rel col) = Inr (star_table_column rel col)"
  using assms
  by (simp add: require_column_def Items_def isTableRequired.simps range_var_matches_def deref_def
      star_table_column_def ConvertColumn_def zero_qcolumn_def)

lemma map_ok_id: "(\<And>x. x \<in> set xs \<Longrightarrow> f x = Inr x) \<Longrightarrow> map_ok f xs = Inr xs"
  by (induction xs) auto

lemma outputColumns_star:
  assumes n: "reads_all_of n loc v" and rel: "rel = relation_table (relation_of_range_var v)"
    and cte: "qcat_ctes qc (tn_Name rel) = None" and em: "EmbedSet_Find (qcat_embeds qc) [loc, loc] = None"
    and t: "GetTable (qcat_catalog qc) rel = Inr t"
  shows "outputColumns c (SelectStmt n) qc =
           Inr (map (star_table_column rel) (cols_of (qcat_catalog qc) t), qc)"
proof -
  have clauses: "ss_TargetList n = Some [star_target loc]" "ss_FromClause n = Some [RangeVar v]" "rvn_Alias v = None"
      "rvn_Relname v \<noteq> None" "ss_GroupClause n = None" "ss_SortClause n = None" "ss_WindowClause n = None"
    using n by (simp_all add: reads_all_of_def)
  let ?cols = "map (ConvertColumn rel) (cols_of (qcat_catalog qc) t)"
  let ?t = "\<lparr>qt_Rel = rel, qt_Cte = None, qt_Own = ?cols\<rparr>"
  have tab: "range_var_table qc v = Inr ?t"
    using cte t clauses(3) by (simp add: range_var_table_def qc_GetTable_def flip: rel)
  have src: "sourceTables sub qc (SelectStmt n) = Inr ([?t], qc)" for sub
    using source_one_range_var [OF clauses(2,3)] tab by simp
  have ret: "returningTables c qc (SelectStmt n) = ([], qc)"
    by (simp add: returningTables_def returning_target_def)
  have chk: "check_select c qc [?t] n u = None" for u
    using clauses by (simp add: check_select_def opt_items_def window_case_exprs_def map_filter_def)
  have tgt: "target_loop sub [?t] [] [star_target loc] qc = Inr (map (star_table_column rel) (cols_of (qcat_catalog qc) t), qc)" for sub
    using em by (simp add: star_target_def target_loop_one target_columns_def hasStarRef_def star_ref_def Items_def
        star_columns_def star_tables_def astutils_Join_def returningTableForScope_def columns_of_def star_column_Convert)
  have "rvn_Relname v = Some (tn_Name rel)"
    using clauses(4) by (auto simp: rel relation_table_def relation_of_range_var_def)
  then have req: "map_ok (require_column n) (map (star_table_column rel) xs) = Inr (map (star_table_column rel) xs)" for xs
    using require_table_column [OF clauses(2,3)] by (intro map_ok_id) auto
  show ?thesis
    by (subst outputColumns.simps) (simp add: src ret clauses(1) Items_def chk tgt req)
qed

lemma map_sum_Inr: "map_sum id g r = Inr y \<longleftrightarrow> (\<exists>x. r = Inr x \<and> y = g x)"
  by (cases r) auto

end
