(* ===== verification/Query_Views.thy ===== *)
theory Query_Views
  imports Query_Props Catalog_Props
begin

text \<open>
  The compiler as the catalog's column generator.  \<open>CREATE VIEW\<close> and \<open>CREATE TABLE AS\<close> ask the interface
  \<open>columnGenerator\<close> for the columns of their query; \<open>(*Compiler).OutputColumns\<close> implements it.  What the catalog needs
  of an implementation is that its columns are new ones, not linked to an inline enum type.
\<close>

locale column_generator =
  fixes gen :: "catalog \<Rightarrow> 'q \<Rightarrow> error + column list"
  assumes unlinked: "gen c q = Inr cols \<Longrightarrow> col \<in> set cols \<Longrightarrow> \<not> col_linkedType col"
begin

lemma createTableAs_createView: "createTableAs q rv (Some gen) c = createView q rv False (Some gen) c"
  by (simp add: createTableAs_def createView_def Let_def split: sum.split option.split)

lemma createView_cases:
  assumes "createView q rv replace (Some gen) c = (c', None)"
  obtains cols name i s' where "gen c q = Inr cols" and "rv_Relname rv = Some name"
    and "getSchema c (ns_of c (tn_Schema (rel_of_range rv name))) = Inr i"
    and "c' = upd_schema i (\<lambda>s. s\<lparr>s_Tables := s'\<rparr>) (alloc_cols cols c)"
    and "\<exists>j. find_idx (\<lambda>t. table_name t = name) s' = Some j \<and>
           s' ! j = \<lparr>tbl_Rel = rel_of_range rv name, tbl_Columns = fresh_addrs c cols, tbl_Comment = []\<rparr>"
proof -
  from assms obtain cols where cols: "gen c q = Inr cols" by (auto simp: createView_def split: sum.splits)
  from assms cols obtain name where name: "rv_Relname rv = Some name" by (auto simp: createView_def split: option.splits)
  let ?rel = "rel_of_range rv name"
  let ?t = "\<lparr>tbl_Rel = ?rel, tbl_Columns = fresh_addrs c cols, tbl_Comment = []\<rparr>"
  from assms cols name obtain i where i: "getSchema c (ns_of c (tn_Schema ?rel)) = Inr i"
    by (auto simp: createView_def Let_def split: sum.splits)
  let ?ts = "s_Tables (c_Schemas c ! i)"
  have nm: "tn_Name ?rel = name" by (simp add: rel_of_range_def)
  show ?thesis
  proof (cases "find_idx (\<lambda>t. table_name t = name) ?ts")
    case None
    then have "c' = upd_schema i (\<lambda>s. s\<lparr>s_Tables := ?ts @ [?t]\<rparr>) (alloc_cols cols c)"
      using assms cols name i
      by (auto simp: createView_def Let_def the_schema_def schema_getTable_def nm add_table_def upd_schema_def)
    moreover have "find_idx (\<lambda>t. table_name t = name) (?ts @ [?t]) = Some (length ?ts)"
      using None by (simp add: find_idx_append nm)
    ultimately show ?thesis using that [OF cols name i] by (metis nth_append_length)
  next
    case (Some j)
    then have "c' = upd_schema i (\<lambda>s. s\<lparr>s_Tables := ?ts[j := ?t]\<rparr>) (alloc_cols cols c)"
      using assms cols name i
      by (auto simp: createView_def Let_def the_schema_def schema_getTable_def nm upd_schema_def split: if_splits)
    moreover have "find_idx (\<lambda>t. table_name t = name) (?ts[j := ?t]) = Some j"
      using find_idx_same_key [of table_name ?t ?ts j name] Some find_idx_pred [OF Some] nm by simp
    moreover have "?ts[j := ?t] ! j = ?t" using find_idx_less [OF Some] by simp
    ultimately show ?thesis using that [OF cols name i] by metis
  qed
qed

text \<open>Looking the new relation up gives the generated columns.\<close>

lemma view_lookup:
  assumes "createView q rv replace (Some gen) c = (c', None)"
  shows "\<exists>cols name w. gen c q = Inr cols \<and> rv_Relname rv = Some name \<and>
           GetTable c' (rel_of_range rv name) = Inr w \<and> cols_of c' w = cols"
  using assms
proof (rule createView_cases)
  fix cols name i s'
  let ?rel = "rel_of_range rv name"
  assume cols: "gen c q = Inr cols" and name: "rv_Relname rv = Some name"
    and i: "getSchema c (ns_of c (tn_Schema ?rel)) = Inr i"
    and c': "c' = upd_schema i (\<lambda>s. s\<lparr>s_Tables := s'\<rparr>) (alloc_cols cols c)"
    and "\<exists>j. find_idx (\<lambda>t. table_name t = name) s' = Some j \<and>
           s' ! j = \<lparr>tbl_Rel = ?rel, tbl_Columns = fresh_addrs c cols, tbl_Comment = []\<rparr>"
  then obtain j where j: "find_idx (\<lambda>t. table_name t = name) s' = Some j"
    and t: "s' ! j = \<lparr>tbl_Rel = ?rel, tbl_Columns = fresh_addrs c cols, tbl_Comment = []\<rparr>" by blast
  have "getSchema c' (ns_of c' (tn_Schema ?rel)) = Inr i"
    using i by (simp add: c' getSchema_upd_schema ns_of_def split: if_splits)
  moreover have "s_Tables (c_Schemas c' ! i) = s'"
    using getSchema_Inr [OF i] by (simp add: c' schemas_upd_schema)
  ultimately have "GetTable c' ?rel = Inr (s' ! j)"
    using j by (simp add: GetTable_def getTable_via_schema schema_getTable_def the_table_def rel_of_range_def)
  moreover have "cols_of c' (s' ! j) = cols"
    using nth_fresh [of c cols] by (simp add: cols_of_def c' t upd_schema_def)
  ultimately show ?thesis using cols name by blast
qed

text \<open>Dropping it again drops no type.\<close>

lemma drop_view_types:
  assumes "createView q rv replace (Some gen) c = (c', None)" and "rv_Relname rv = Some name"
  shows "\<exists>c''. dropTable [rel_of_range rv name] ifExists c' = (c'', None) \<and>
           map s_Types (c_Schemas c'') = map s_Types (c_Schemas c)"
  using assms(1)
proof (rule createView_cases)
  fix cols name' i s'
  let ?rel = "rel_of_range rv name"
  assume cols: "gen c q = Inr cols" and name: "rv_Relname rv = Some name'"
    and i: "getSchema c (ns_of c (tn_Schema (rel_of_range rv name'))) = Inr i"
    and c': "c' = upd_schema i (\<lambda>s. s\<lparr>s_Tables := s'\<rparr>) (alloc_cols cols c)"
    and "\<exists>j. find_idx (\<lambda>t. table_name t = name') s' = Some j \<and>
           s' ! j = \<lparr>tbl_Rel = rel_of_range rv name', tbl_Columns = fresh_addrs c cols, tbl_Comment = []\<rparr>"
  moreover have nn: "name' = name" using name assms(2) by simp
  ultimately obtain j where j: "find_idx (\<lambda>t. table_name t = name) s' = Some j"
    and t: "s' ! j = \<lparr>tbl_Rel = ?rel, tbl_Columns = fresh_addrs c cols, tbl_Comment = []\<rparr>" by blast
  have i': "getSchema c' (ns_of c' (tn_Schema ?rel)) = Inr i"
    using i by (simp add: c' getSchema_upd_schema ns_of_def nn split: if_splits)
  have tabs: "s_Tables (c_Schemas c' ! i) = s'" and lt: "i < length (c_Schemas c)"
    using getSchema_Inr [OF i] by (simp_all add: c' schemas_upd_schema)
  have "linked_types c' (s' ! j) = []"
    using unlinked [OF cols] nth_fresh [of c cols]
    by (simp add: linked_types_def cols_of_def c' t upd_schema_def filter_empty_conv)
  then have "drop_one_table ifExists ?rel c' = (upd_schema i (del_table j) c', None)"
    using i' j tabs by (simp add: drop_one_table_def the_schema_def schema_getTable_def the_table_def dropType_def rel_of_range_def)
  moreover have "map s_Types (c_Schemas (upd_schema i (del_table j) c')) = map s_Types (c_Schemas c)"
    using lt by (simp add: c' schemas_upd_schema del_table_def map_update) (metis list_update_id nth_map)
  ultimately show ?thesis by (simp add: dropTable_def)
qed

end

definition compiler_columns :: "compiler \<Rightarrow> catalog \<Rightarrow> node \<Rightarrow> error + column list" where
  "compiler_columns cmp c q = OutputColumns (cmp\<lparr>comp_catalog := c\<rparr>) q"

interpretation views: column_generator "compiler_columns cmp" for cmp
proof
  fix c q cols col
  assume "compiler_columns cmp c q = Inr cols" and "col \<in> set cols"
  then show "\<not> col_linkedType col"
    by (auto simp: compiler_columns_def OutputColumns_def catalog_column_def split: sum.splits)
qed

section \<open>Views of a table\<close>

definition same_shape :: "column \<Rightarrow> column \<Rightarrow> bool" where
  "same_shape a b \<longleftrightarrow>
     col_Name a = col_Name b \<and> col_IsNotNull a = col_IsNotNull b \<and> col_IsUnsigned a = col_IsUnsigned b \<and>
     col_IsArray a = col_IsArray b \<and> col_ArrayDims a = col_ArrayDims b \<and> col_Length a = col_Length b \<and>
     col_Type a = named_type (dataType (col_Type b))"

lemma catalog_column_shape: "same_shape (catalog_column (star_table_column rel col)) col"
  by (simp add: same_shape_def catalog_column_def star_table_column_def ConvertColumn_def zero_qcolumn_def)

lemma compiler_columns_star:
  assumes "reads_all_of n loc v" and "ss_WithClause n = None"
    and "GetTable c (relation_table (relation_of_range_var v)) = Inr t"
  shows "\<exists>cols. compiler_columns cmp c (SelectStmt n) = Inr cols \<and> list_all2 same_shape cols (cols_of c t)"
proof -
  let ?rel = "relation_table (relation_of_range_var v)"
  let ?qc = "\<lparr>qcat_catalog = c, qcat_ctes = Map.empty, qcat_embeds = []\<rparr>"
  have "outputColumns d (SelectStmt n) ?qc = Inr (map (star_table_column ?rel) (cols_of c t), ?qc)" for d
    using outputColumns_star [OF assms(1) refl, of ?qc t d] assms(3) by (simp add: EmbedSet_Find_def)
  then have "compiler_columns cmp c (SelectStmt n) = Inr (map (catalog_column \<circ> star_table_column ?rel) (cols_of c t))"
    using assms(2) by (simp add: compiler_columns_def OutputColumns_def buildQueryCatalog_def with_of_def)
  then show ?thesis by (simp add: list.rel_map list.rel_refl catalog_column_shape)
qed

text \<open>C23: A view defined as \<open>SELECT * FROM t\<close> has, once created, exactly the columns of the table, in order, with
  their nullability, signedness, array dimensions and lengths, and with the same data types.\<close>

theorem view_of_table:
  assumes "reads_all_of n loc v" and "ss_WithClause n = None"
    and "GetTable c (relation_table (relation_of_range_var v)) = Inr t"
    and "createView (SelectStmt n) rv replace (Some (compiler_columns cmp)) c = (c', None)"
  shows "\<exists>name w. rv_Relname rv = Some name \<and> GetTable c' (rel_of_range rv name) = Inr w \<and>
           list_all2 same_shape (cols_of c' w) (cols_of c t)"
  using compiler_columns_star [OF assms(1-3), of cmp] views.view_lookup [OF assms(4)] by fastforce

text \<open>C24: A view or a table made from a query can be dropped again, and dropping it leaves the types of every schema as
  they were before it was created, whatever columns the query reads.\<close>

theorem drop_view_keeps_types:
  assumes "createView q rv replace (Some (compiler_columns cmp)) c = (c', None) \<or>
      createTableAs q rv (Some (compiler_columns cmp)) c = (c', None)"
    and "rv_Relname rv = Some name"
  shows "\<exists>c''. dropTable [rel_of_range rv name] ifExists c' = (c'', None) \<and>
           map s_Types (c_Schemas c'') = map s_Types (c_Schemas c)"
  using assms(1)
proof
  assume "createView q rv replace (Some (compiler_columns cmp)) c = (c', None)"
  from this assms(2) show ?thesis by (rule views.drop_view_types)
next
  assume "createTableAs q rv (Some (compiler_columns cmp)) c = (c', None)"
  then have "createView q rv False (Some (compiler_columns cmp)) c = (c', None)"
    by (simp only: views.createTableAs_createView)
  from this assms(2) show ?thesis by (rule views.drop_view_types)
qed

section \<open>A schema with one table\<close>

definition ex_column :: "string \<Rightarrow> string \<Rightarrow> bool \<Rightarrow> column" where
  "ex_column n typ nn =
     \<lparr>col_Name = n, col_Type = named_type typ, col_IsNotNull = nn, col_IsUnsigned = False, col_IsArray = False,
      col_ArrayDims = 0, col_Comment = [], col_Length = None, col_linkedType = False\<rparr>"

definition ex_catalog :: catalog where
  "ex_catalog = (New ''public'')
     \<lparr>c_Schemas := [(empty_schema ''public'')\<lparr>s_Tables :=
        [\<lparr>tbl_Rel = named_table ''t'', tbl_Columns = [0, 1], tbl_Comment = []\<rparr>,
         \<lparr>tbl_Rel = named_table ''u'', tbl_Columns = [2], tbl_Comment = []\<rparr>]\<rparr>],
      c_Heap := [ex_column ''id'' ''int'' True, ex_column ''name'' ''text'' False, ex_column ''id'' ''int'' True]\<rparr>"

definition ex_compiler :: compiler where
  "ex_compiler = \<lparr>comp_Engine = EnginePostgreSQL, comp_StrictOrderBy = None, comp_StrictFunctionChecks = False,
     comp_catalog = ex_catalog, comp_IsReservedKeyword = (\<lambda>s. s = ''order''), comp_unicode = ascii_only\<rparr>"

definition plain_range_var :: "string \<Rightarrow> node range_var" where
  "plain_range_var n = mk_RangeVar None None (Some n) None"

definition plain_select :: "node list \<Rightarrow> node list \<Rightarrow> node select_stmt" where
  "plain_select targets from = mk_SelectStmt None NilNode (Some targets) (Some from) NilNode None NilNode NilNode None
     None None NilNode NilNode None None None None"

definition ex_select :: "node select_stmt" where
  "ex_select = plain_select [star_target 7] [RangeVar (plain_range_var ''t'')]"

definition ex_view :: rangeVar where
  "ex_view = \<lparr>rv_Catalogname = None, rv_Schemaname = None, rv_Relname = Some ''w''\<rparr>"

lemma ex_select_reads: "reads_all_of ex_select 7 (plain_range_var ''t'')"
  by (simp add: reads_all_of_def ex_select_def plain_select_def plain_range_var_def)

lemma ex_table:
  "GetTable ex_catalog (relation_table (relation_of_range_var (plain_range_var ''t''))) =
     Inr \<lparr>tbl_Rel = named_table ''t'', tbl_Columns = [0, 1], tbl_Comment = []\<rparr>"
  by code_simp

definition ex_viewed :: catalog where
  "ex_viewed = fst (createView (SelectStmt ex_select) ex_view False (Some (compiler_columns ex_compiler)) ex_catalog)"

lemma ex_view_created:
  "createView (SelectStmt ex_select) ex_view False (Some (compiler_columns ex_compiler)) ex_catalog = (ex_viewed, None)"
proof -
  have "snd (createView (SelectStmt ex_select) ex_view False (Some (compiler_columns ex_compiler)) ex_catalog) = None"
    by code_simp
  then show ?thesis by (simp add: ex_viewed_def prod_eq_iff)
qed

theorem view_of_table_witness:
  "\<exists>name w. rv_Relname ex_view = Some name \<and> GetTable ex_viewed (rel_of_range ex_view name) = Inr w \<and>
     list_all2 same_shape (cols_of ex_viewed w) [ex_column ''id'' ''int'' True, ex_column ''name'' ''text'' False]"
  using view_of_table [OF ex_select_reads _ ex_table ex_view_created]
  by (simp add: ex_select_def plain_select_def cols_of_def ex_catalog_def)

definition ex_table_made :: catalog where
  "ex_table_made = fst (createTableAs (SelectStmt ex_select) ex_view (Some (compiler_columns ex_compiler)) ex_catalog)"

lemma ex_table_created:
  "createTableAs (SelectStmt ex_select) ex_view (Some (compiler_columns ex_compiler)) ex_catalog = (ex_table_made, None)"
proof -
  have "snd (createTableAs (SelectStmt ex_select) ex_view (Some (compiler_columns ex_compiler)) ex_catalog) = None"
    by code_simp
  then show ?thesis by (simp add: ex_table_made_def prod_eq_iff)
qed

theorem drop_view_keeps_types_witness:
  "(\<exists>c''. dropTable [rel_of_range ex_view ''w''] False ex_viewed = (c'', None) \<and>
      map s_Types (c_Schemas c'') = map s_Types (c_Schemas ex_catalog)) \<and>
   (\<exists>c''. dropTable [rel_of_range ex_view ''w''] False ex_table_made = (c'', None) \<and>
      map s_Types (c_Schemas c'') = map s_Types (c_Schemas ex_catalog))"
proof
  have name: "rv_Relname ex_view = Some ''w''" by (simp add: ex_view_def)
  show "\<exists>c''. dropTable [rel_of_range ex_view ''w''] False ex_viewed = (c'', None) \<and>
      map s_Types (c_Schemas c'') = map s_Types (c_Schemas ex_catalog)"
    using ex_view_created name by (intro drop_view_keeps_types) auto
  show "\<exists>c''. dropTable [rel_of_range ex_view ''w''] False ex_table_made = (c'', None) \<and>
      map s_Types (c_Schemas c'') = map s_Types (c_Schemas ex_catalog)"
    using ex_table_created name by (intro drop_view_keeps_types) auto
qed

end
