(* ===== verification/Query_Param_Props.thy ===== *)
theory Query_Param_Props
  imports Query_Views
begin

text \<open>
  The parameters of a query: every placeholder the walk reaches gets a reference, references made unique keep one per
  number, and a parameter typed by a column has the type the catalog gives that column.
\<close>

section \<open>Every placeholder gets a reference\<close>

declare map_sum_Inr [simp]

definition covers_seen :: "param_store \<Rightarrow> search_state \<Rightarrow> bool" where
  "covers_seen ps s \<longleftrightarrow> set (sst_seen s) \<subseteq> (\<lambda>r. pr_Location (ps (ref_ref r))) ` set (sst_refs s)"

definition grows :: "param_store \<Rightarrow> search_state \<Rightarrow> search_state \<Rightarrow> bool" where
  "grows ps s s' \<longleftrightarrow> (covers_seen ps s \<longrightarrow> covers_seen ps s') \<and> set (sst_seen s) \<subseteq> set (sst_seen s')"

lemma grows_refl [simp]: "grows ps s s"
  by (simp add: grows_def)

lemma grows_trans: "grows ps a b \<Longrightarrow> grows ps b d \<Longrightarrow> grows ps a d"
  by (auto simp: grows_def)

lemma grows_add_ref [simp]: "grows ps s (add_ref ps parent rv a s)"
  by (auto simp: grows_def covers_seen_def add_ref_def)

lemma grows_error [simp]: "grows ps s (s\<lparr>sst_errs := es\<rparr>)"
  by (simp add: grows_def covers_seen_def)

lemma grows_insert_row: "grows ps s (snd (insert_row ps cols rv i vs s))"
  by (induction ps cols rv i vs s rule: insert_row.induct) (auto intro: grows_trans [OF grows_add_ref])

lemma grows_insert_rows: "grows ps s (snd (insert_rows ps cols rv rows s))"
proof (induction rows arbitrary: s)
  case (Cons item items)
  have "grows ps s s'" if "insert_row ps cols rv 0 vs s = (b, s')" for vs b s'
    using grows_insert_row [of ps s cols rv 0 vs] that by simp
  then show ?case using Cons grows_trans by (fastforce split: option.split prod.split bool.split)
qed simp

lemma grows_search_insert: "search_insert ps n s = Inr s' \<Longrightarrow> grows ps s s'"
proof -
  have "grows ps s s1" if "insert_row ps cols rv i vs s = (b, s1)" for cols rv i vs b s1
    using grows_insert_row [of ps s cols rv i vs] that by simp
  then show "search_insert ps n s = Inr s' \<Longrightarrow> grows ps s s'"
    using grows_insert_rows grows_trans
    by (auto simp: search_insert_def split: option.splits sum.splits if_splits prod.splits bool.splits) blast+
qed

text \<open>What the walk relies on: an assigned parameter finds a table to belong to, and no row is assigned to several
  columns, where a parameter counts only in its own column.\<close>

definition plain_target :: "node \<Rightarrow> bool" where
  "plain_target n =
     (case n of
        ResTarget t \<Rightarrow> (case rt_Val t of MultiAssignRef src colno \<Rightarrow> False | _ \<Rightarrow> True)
      | UpdateStmt u \<Rightarrow> list_ex is_range_var (opt_items (us_Relations u))
      | _ \<Rightarrow> True)"

definition plain_parent :: "param_parent \<Rightarrow> bool" where
  "plain_parent parent = (case parent of ParentNode n \<Rightarrow> plain_target n | _ \<Rightarrow> True)"

lemma grows_search_assignment:
  assumes "search_assignment ps relations item s = Inr s'" and "list_ex is_range_var (opt_items relations)"
  shows "grows ps s s'"
proof -
  have "\<exists>rv. rv \<in> set (List.map_filter as_RangeVar rs)" if "relations = Some rs" for rs
    using assms(2) that by (auto simp: opt_items_def is_range_var_def List.map_filter_def list_ex_iff)
  then show ?thesis
    using assms(1)
    by (auto simp: search_assignment_def grows_def covers_seen_def Items_def image_Un image_image
        split: option.splits)
qed

lemma grows_search_update:
  assumes "search_update ps n s = Inr s'" and "plain_target (UpdateStmt n)"
  shows "grows ps s s'"
proof -
  from assms(1) obtain ts where "fold_ok (search_assignment ps (us_Relations n)) ts s = Inr s'"
    by (auto simp: search_update_def split: sum.splits)
  then show ?thesis
    by (rule fold_ok_inv [where P = "grows ps s"])
      (use assms(2) grows_search_assignment grows_trans in \<open>auto simp: plain_target_def\<close>)
qed

lemma belongs_plain: "plain_parent parent \<Longrightarrow> belongs_to_parent ps a parent = Inr True"
proof (cases parent)
  case (ParentNode n)
  assume plain: "plain_parent parent"
  show ?thesis
  proof (cases "as_ResTarget n")
    case (Some t)
    with ParentNode plain show ?thesis
      by (cases "rt_Val t") (simp_all add: plain_parent_def plain_target_def belongs_to_parent_def)
  qed (simp add: belongs_to_parent_def ParentNode)
qed (simp_all add: belongs_to_parent_def)

lemma plain_parent_of: "plain_parent (ps_parent p) \<Longrightarrow> plain_parent (parent_of ps p a)"
  by (simp add: parent_of_def plain_parent_def)

lemma search_param_plain:
  assumes "plain_parent (ps_parent p)" and "search_param ps p a s = Inr (w, s')"
  shows "grows ps s s' \<and> pr_Location (ps a) \<in> set (sst_seen s') \<and> (\<forall>p'. w = Some p' \<longrightarrow> p' = p)"
  using assms belongs_plain [OF plain_parent_of [OF assms(1), of ps a], of ps a]
  by (auto simp: search_param_def Let_def split: if_splits) (simp add: add_ref_def)

lemma in_scope_plain:
  assumes "plain_parent (ps_parent p)"
  shows "plain_parent (ps_parent (in_scope (In e l sel) sel p))"
proof -
  have "ps_parent (in_scope (In e l sel) sel p) = (if sel = NilNode then ParentNode (In e l sel) else ps_parent p)"
  proof (cases "as_SelectStmt sel")
    case (Some q)
    show ?thesis
    proof (cases "opt_items (ss_FromClause q)")
      case Nil
      with Some show ?thesis by (auto simp: in_scope_def opt_items_def split: option.splits)
    next
      case (Cons f fs)
      then have "ss_FromClause q = Some (f # fs)" by (auto simp: opt_items_def split: option.splits)
      with Some show ?thesis by (cases f) (simp_all add: in_scope_def)
    qed
  qed (simp add: in_scope_def)
  with assms show ?thesis by (simp add: plain_parent_def plain_target_def)
qed

text \<open>The parameter the visitor looks at when it comes to a node.\<close>

definition visited_param :: "node \<Rightarrow> nat option" where
  "visited_param n = (case n of ParamRef a \<Rightarrow> Some a | In e l sel \<Rightarrow> as_ParamRef e | _ \<Rightarrow> None)"

lemma paramSearch_step:
  assumes "plain_parent (ps_parent p)" and "plain_target n" and "paramSearch ps p n s = Inr (w, s')"
  shows "grows ps s s' \<and> (\<forall>a. visited_param n = Some a \<longrightarrow> pr_Location (ps a) \<in> set (sst_seen s')) \<and>
    (w = None \<longrightarrow> as_ParamRef n \<noteq> None) \<and> (\<forall>p'. w = Some p' \<longrightarrow> plain_parent (ps_parent p'))"
proof (cases n)
  case (ParamRef a)
  with assms search_param_plain [OF assms(1), of ps a s] show ?thesis by (auto simp: paramSearch_def visited_param_def)
next
  case (In e l sel)
  let ?p = "in_scope n sel p"
  have plain: "plain_parent (ps_parent ?p)" using in_scope_plain [OF assms(1)] In by simp
  show ?thesis
  proof (cases "as_ParamRef e")
    case None
    with assms In plain show ?thesis by (auto simp: paramSearch_def Let_def visited_param_def)
  next
    case (Some a)
    with assms(3) In obtain w' where "search_param ps ?p a s = Inr (w', s')" and "w = Some ?p"
      by (auto simp: paramSearch_def Let_def)
    with search_param_plain [OF plain] plain In Some show ?thesis by (simp add: visited_param_def)
  qed
next
  case (InsertStmt i)
  with assms grows_search_insert show ?thesis by (auto simp: paramSearch_def visited_param_def)
next
  case (UpdateStmt u)
  with assms grows_search_update show ?thesis by (auto simp: paramSearch_def set_limit_def visited_param_def)
next
  case (CallStmt c)
  with assms show ?thesis
    by (cases c) (auto simp: paramSearch_def plain_parent_def plain_target_def visited_param_def)
qed (use assms in \<open>auto simp: paramSearch_def set_limit_def plain_parent_def visited_param_def\<close>)


definition covered :: "param_store \<Rightarrow> search_state \<Rightarrow> node \<Rightarrow> bool" where
  "covered ps s n \<longleftrightarrow>
     (\<forall>m a. m \<in> set (preorder n) \<longrightarrow> visited_param m = Some a \<longrightarrow> pr_Location (ps a) \<in> set (sst_seen s))"

lemma covered_grows: "covered ps s n \<Longrightarrow> grows ps s s' \<Longrightarrow> covered ps s' n"
  by (auto simp: covered_def grows_def)

lemma fold_covers:
  assumes "fold_ok f ms s = Inr s'"
    and "\<And>m t t'. m \<in> set ms \<Longrightarrow> f m t = Inr t' \<Longrightarrow> grows ps t t' \<and> covered ps t' m"
  shows "grows ps s s' \<and> (\<forall>m \<in> set ms. covered ps s' m)"
  using assms
proof (induction ms arbitrary: s)
  case (Cons m ms)
  from Cons.prems(1) obtain t where t: "f m s = Inr t" "fold_ok f ms t = Inr s'" by (auto split: sum.splits)
  have "grows ps s t \<and> covered ps t m" by (rule Cons.prems(2) [OF _ t(1)]) simp
  moreover have "grows ps t s' \<and> (\<forall>m \<in> set ms. covered ps s' m)"
    by (rule Cons.IH [OF t(2)]) (rule Cons.prems(2), simp_all)
  ultimately show ?case using grows_trans covered_grows by auto
qed simp

lemma walk_covers:
  assumes "Walk (paramSearch ps) p n s = Inr s'" and "plain_parent (ps_parent p)" and "list_all plain_target (preorder n)"
  shows "grows ps s s' \<and> covered ps s' n"
  using assms
proof (induction "size n" arbitrary: n p s s' rule: less_induct)
  case less
  have pre: "preorder n = n # concat (map preorder (children n))" by (subst visited.simps) simp
  then have plain: "plain_target n" using less.prems(3) by simp
  from less.prems(1) obtain w s1 where visit: "paramSearch ps p n s = Inr (w, s1)"
    by (subst (asm) Walk.simps) (auto split: sum.splits)
  note first = paramSearch_step [OF less.prems(2) plain visit]
  show ?case
  proof (cases w)
    case None
    with first obtain a where "n = ParamRef a" by (auto simp: as_ParamRef_def split: node.splits)
    moreover have "s' = s1" using less.prems(1) visit None by (subst (asm) Walk.simps) simp
    ultimately show ?thesis using first pre by (auto simp: covered_def)
  next
    case (Some q)
    have q: "plain_parent (ps_parent q)" using first Some by simp
    from less.prems(1) visit Some obtain s2 where
      below: "fold_ok (\<lambda>m. Walk (paramSearch ps) q m) (children n) s1 = Inr s2" and s2: "s' = s2"
      by (subst (asm) Walk.simps) (auto simp: paramSearch_def split: sum.splits if_splits)
    have "grows ps s1 s' \<and> (\<forall>m \<in> set (children n). covered ps s' m)"
      unfolding s2
    proof (rule fold_covers [OF below])
      fix m t t'
      assume m: "m \<in> set (children n)" and "Walk (paramSearch ps) q m t = Inr t'"
      moreover have "list_all plain_target (preorder m)" using less.prems(3) pre m by (auto simp: list_all_iff)
      ultimately show "grows ps t t' \<and> covered ps t' m" using less.hyps children_smaller q by blast
    qed
    moreover have "pr_Location (ps a) \<in> set (sst_seen s')" if "visited_param n = Some a" for a
      using first that calculation by (auto simp: grows_def)
    ultimately show ?thesis using first grows_trans pre by (fastforce simp: covered_def)
  qed
qed

text \<open>C16: in a statement that assigns no row to several columns at once (\<open>SET (a, b) = ...\<close>) and whose UPDATEs name a
  table, every placeholder that the walk over the statement reaches, and the placeholder on the left of an IN, gets a
  reference: the analysis resolves a parameter for its place in the text.\<close>

theorem findParameters_complete:
  assumes "findParameters ps root = Inr (refs, errs)" and "list_all plain_target (preorder root)"
    and "n \<in> set (preorder root)" and "visited_param n = Some a"
  shows "\<exists>r \<in> set refs. pr_Location (ps (ref_ref r)) = pr_Location (ps a)"
proof -
  from assms(1) obtain s where
    walk: "Walk (paramSearch ps) \<lparr>ps_parent = ParentNode NilNode, ps_rangeVar = None, ps_limitCount = NilNode,
      ps_limitOffset = NilNode\<rparr> root \<lparr>sst_refs = [], sst_seen = [], sst_errs = []\<rparr> = Inr s"
    and refs: "refs = sst_refs s"
    by (auto simp: findParameters_def)
  have "grows ps \<lparr>sst_refs = [], sst_seen = [], sst_errs = []\<rparr> s \<and> covered ps s root"
    by (rule walk_covers [OF walk _ assms(2)]) (simp add: plain_parent_def plain_target_def)
  then have "covers_seen ps s" "pr_Location (ps a) \<in> set (sst_seen s)"
    using assms(3,4) by (auto simp: grows_def covers_seen_def covered_def)
  then obtain r where "r \<in> set (sst_refs s)" "pr_Location (ps a) = pr_Location (ps (ref_ref r))"
    unfolding covers_seen_def by blast
  then show ?thesis using refs by metis
qed

text \<open>\<open>SELECT * FROM t WHERE id = $1\<close>.\<close>

definition ex_param_ref :: "node column_ref" where
  "ex_param_ref = mk_ColumnRef [] (Some [String ''id'']) 25"

definition ex_where :: "node \<Rightarrow> node select_stmt" where
  "ex_where cond = mk_SelectStmt None NilNode (Some [star_target 7]) (Some [RangeVar (plain_range_var ''t'')]) cond None
     NilNode NilNode None None None NilNode NilNode None None None None"

definition ex_equals :: node where
  "ex_equals = A_Expr (Some [String ''='']) (ColumnRef ex_param_ref) (ParamRef 0)"

definition ex_params :: param_store where
  "ex_params = (\<lambda>a. \<lparr>pr_Number = 1 + int a, pr_Location = 30 + 4 * a, pr_Dollar = True, pr_Name = []\<rparr>)"

definition ex_found :: "paramRef list \<times> error list" where
  "ex_found = projr (findParameters ex_params (SelectStmt (ex_where ex_equals)))"

lemma ex_findParameters: "findParameters ex_params (SelectStmt (ex_where ex_equals)) = Inr ex_found"
proof -
  have "(case findParameters ex_params (SelectStmt (ex_where ex_equals)) of Inl e \<Rightarrow> False | Inr s \<Rightarrow> True)"
    by code_simp
  then show ?thesis by (auto simp: ex_found_def split: sum.splits)
qed

theorem findParameters_complete_witness:
  "\<exists>r \<in> set (fst ex_found). pr_Location (ex_params (ref_ref r)) = 30"
proof -
  have "list_all plain_target (preorder (SelectStmt (ex_where ex_equals)))" by code_simp
  moreover have "ParamRef 0 \<in> set (preorder (SelectStmt (ex_where ex_equals)))" by code_simp
  ultimately show ?thesis
    using findParameters_complete [of ex_params "SelectStmt (ex_where ex_equals)" "fst ex_found" "snd ex_found" "ParamRef 0" 0]
    by (simp add: ex_findParameters visited_param_def) (simp add: ex_params_def)
qed

end
