(* ===== verification/Query_Joins.thy ===== *)
theory Query_Joins
  imports Query_Views
begin

text \<open>
  Nullability under outer joins.  \<open>sides\<close> is the specification: the tables of a FROM item in order, each with
  whether it stands on the optional side of some join.
\<close>

text \<open>Which sides of a join can come without a row of their own; the tables of a join type the compiler does not know
  are not listed.\<close>

definition optional_sides :: "join_type \<Rightarrow> (bool \<times> bool) option" where
  "optional_sides t =
     (case t of
        JoinTypeInner \<Rightarrow> Some (False, False)
      | JoinTypeCross \<Rightarrow> Some (False, False)
      | JoinTypeComma \<Rightarrow> Some (False, False)
      | JoinTypeLeft \<Rightarrow> Some (False, True)
      | JoinTypeRight \<Rightarrow> Some (True, False)
      | JoinTypeFull \<Rightarrow> Some (True, True)
      | JoinTypeOther \<Rightarrow> None)"

definition weaken :: "bool \<Rightarrow> node range_var \<times> bool \<Rightarrow> node range_var \<times> bool" where
  "weaken b x = (fst x, snd x \<or> b)"

definition mark :: "table_need \<Rightarrow> node range_var \<times> bool \<Rightarrow> node range_var \<times> bool" where
  "mark s x = (fst x, snd x \<or> s = tableOptional)"

function sides :: "node \<Rightarrow> (node range_var \<times> bool) list" where
  "sides n =
     (case n of
        RangeVar v \<Rightarrow> [(v, False)]
      | JoinExpr t larg rarg us q a \<Rightarrow>
          (case optional_sides t of
             None \<Rightarrow> []
           | Some (l, r) \<Rightarrow> map (weaken l) (sides larg) @ map (weaken r) (sides rarg))
      | NodeList items \<Rightarrow> concat (map sides items)
      | _ \<Rightarrow> [])"
  by pat_completeness auto
termination
  by (relation "measure size") (auto dest: size_items(1))

declare sides.simps [simp del]

fun has_join :: "node \<Rightarrow> bool" where
  "has_join (JoinExpr t l r us q a) = True"
| "has_join (NodeList items) = list_ex has_join items"
| "has_join _ = False"

text \<open>No join stands on the optional side of another one, as in a chain of LEFT JOINs read from the left.\<close>

function flat_joins :: "node \<Rightarrow> bool" where
  "flat_joins n =
     (case n of
        JoinExpr t larg rarg us q a \<Rightarrow>
          (case optional_sides t of
             None \<Rightarrow> True
           | Some (l, r) \<Rightarrow>
               (if l then \<not> has_join larg else True) \<and> (if r then \<not> has_join rarg else True) \<and> flat_joins larg \<and> flat_joins rarg)
      | NodeList items \<Rightarrow> list_all flat_joins items
      | _ \<Rightarrow> True)"
  by pat_completeness auto
termination
  by (relation "measure size") (auto dest: size_items(1))

declare flat_joins.simps [simp del]

definition matching :: "qcolumn \<Rightarrow> node range_var \<times> bool \<Rightarrow> bool" where
  "matching col x \<longleftrightarrow> range_var_matches (fst x) col = Inr True"

definition need_of :: "qcolumn \<Rightarrow> (node range_var \<times> bool) list \<Rightarrow> table_need \<Rightarrow> table_need" where
  "need_of col xs prior =
     (case find (matching col) xs of None \<Rightarrow> tableNotFound | Some (v, b) \<Rightarrow> if b then tableOptional else prior)"

definition comparable :: "qcolumn \<Rightarrow> (node range_var \<times> bool) list \<Rightarrow> bool" where
  "comparable col xs \<longleftrightarrow> list_all (\<lambda>x. \<exists>m. range_var_matches (fst x) col = Inr m) xs"

lemma optional_sides_join:
  "optional_sides t = map_option (\<lambda>(l, r). (l = tableOptional, r = tableOptional)) (join_sides t)"
  by (cases t) (simp_all add: optional_sides_def join_sides_def)

lemma weaken_mark: "weaken (s = tableOptional) = mark s"
  by (simp add: weaken_def mark_def fun_eq_iff)

lemma find_append: "find P (xs @ ys) = (case find P xs of Some x \<Rightarrow> Some x | None \<Rightarrow> find P ys)"
  by (induction xs) auto

lemma matching_mark [simp]: "matching col (mark s x) = matching col x"
  by (simp add: matching_def mark_def)

lemma mark_required [simp]: "mark tableRequired = (\<lambda>x. x)"
  by (simp add: mark_def fun_eq_iff)

lemma find_mark: "find (matching col) (map (mark s) xs) = map_option (mark s) (find (matching col) xs)"
  by (induction xs) auto

lemma comparable_simps [simp]:
  "comparable col (xs @ ys) \<longleftrightarrow> comparable col xs \<and> comparable col ys"
  "comparable col (map (mark s) xs) \<longleftrightarrow> comparable col xs" "comparable col []"
  by (auto simp: comparable_def mark_def list_all_iff)

lemma need_of_append:
  "prior \<noteq> tableNotFound \<Longrightarrow> need_of col (xs @ ys) prior =
     (if need_of col xs prior \<noteq> tableNotFound then need_of col xs prior else need_of col ys prior)"
  by (auto simp: need_of_def find_append split: option.splits)

lemma need_of_mark:
  "s \<noteq> tableNotFound \<Longrightarrow> need_of col (map (mark s) xs) tableRequired = need_of col xs s"
  by (cases s) (auto simp: need_of_def find_mark mark_def split: option.splits)

lemma join_sides_need: "join_sides t = Some (l, r) \<Longrightarrow> l \<noteq> tableNotFound \<and> r \<noteq> tableNotFound"
  by (cases t) (auto simp: join_sides_def)

abbreviation is_range_item :: "node \<Rightarrow> bool" where
  "is_range_item n \<equiv> (case n of RangeVar v \<Rightarrow> True | JoinExpr t l r us q a \<Rightarrow> True | NodeList items \<Rightarrow> True | _ \<Rightarrow> False)"

lemma sides_simps [simp]:
  "sides (RangeVar v) = [(v, False)]"
  "sides (NodeList items) = concat (map sides items)"
  "sides (JoinExpr t larg rarg us q a) =
     (case join_sides t of None \<Rightarrow> [] | Some (l, r) \<Rightarrow> map (mark l) (sides larg) @ map (mark r) (sides rarg))"
  "\<not> is_range_item n \<Longrightarrow> sides n = []"
     apply (subst sides.simps, simp)
    apply (subst sides.simps, simp)
   apply (subst sides.simps, simp add: optional_sides_join weaken_mark split: option.split)
  by (cases n; simp add: sides.simps; fail)

lemma flat_joins_simps [simp]:
  "flat_joins (RangeVar v)"
  "flat_joins (NodeList items) = list_all flat_joins items"
  "join_sides t = Some (l, r) \<Longrightarrow> flat_joins (JoinExpr t larg rarg us q a) \<longleftrightarrow>
     (l = tableOptional \<longrightarrow> \<not> has_join larg) \<and> (r = tableOptional \<longrightarrow> \<not> has_join rarg) \<and>
     flat_joins larg \<and> flat_joins rarg"
  by (subst flat_joins.simps, simp add: optional_sides_join)+

lemma isTableRequired_simps [simp]:
  "isTableRequired (RangeVar v) col prior = map_sum id (\<lambda>m. if m then prior else tableNotFound) (range_var_matches v col)"
  "isTableRequired (NodeList items) col prior = any_required items col prior"
  "\<not> is_range_item n \<Longrightarrow> isTableRequired n col prior = Inr tableNotFound"
  by (subst isTableRequired.simps; simp)+ (cases n; simp add: isTableRequired.simps; fail)

lemma need_of_Nil [simp]: "need_of col [] prior = tableNotFound"
  by (simp add: need_of_def)

lemma need_of_one:
  "range_var_matches v col = Inr m \<Longrightarrow> need_of col [(v, False)] prior = (if m then prior else tableNotFound)"
  by (simp add: need_of_def matching_def)

lemma join_required:
  assumes "join_sides t = Some (l, r)"
    and "isTableRequired larg col l = Inr (need_of col (sides larg) l)"
    and "isTableRequired rarg col r = Inr (need_of col (sides rarg) r)"
  shows "isTableRequired (JoinExpr t larg rarg us q a) col prior = Inr (need_of col (sides (JoinExpr t larg rarg us q a)) tableRequired)"
  using assms join_sides_need [OF assms(1)]
  by (subst isTableRequired.simps) (simp add: need_of_append need_of_mark)

lemma any_required_sides:
  assumes "prior \<noteq> tableNotFound"
    and "\<And>m. m \<in> set ms \<Longrightarrow> isTableRequired m col prior = Inr (need_of col (sides m) prior)"
  shows "any_required ms col prior = Inr (need_of col (concat (map sides ms)) prior)"
  using assms by (induction ms) (simp_all add: need_of_append)

lemma isTableRequired_sides:
  assumes "flat_joins n" and "comparable col (sides n)"
    and "prior = tableRequired \<or> prior = tableOptional \<and> \<not> has_join n"
  shows "isTableRequired n col prior = Inr (need_of col (sides n) prior)"
  using assms
proof (induction "size n" arbitrary: n prior rule: less_induct)
  case less
  show ?case
  proof (cases n)
    case (RangeVar v)
    with less.prems(2) obtain m where "range_var_matches v col = Inr m" by (auto simp: comparable_def)
    with RangeVar show ?thesis by (simp add: need_of_one)
  next
    case (JoinExpr t larg rarg us q a)
    then have prior: "prior = tableRequired" using less.prems(3) by simp
    show ?thesis
    proof (cases "join_sides t")
      case None
      with JoinExpr show ?thesis by (simp add: isTableRequired.simps)
    next
      case (Some lr)
      obtain l r where lr: "join_sides t = Some (l, r)" using Some by (cases lr) auto
      have parts: "flat_joins larg \<and> flat_joins rarg \<and> (l = tableOptional \<longrightarrow> \<not> has_join larg) \<and>
          (r = tableOptional \<longrightarrow> \<not> has_join rarg)"
        using less.prems(1) lr JoinExpr by simp
      have comps: "comparable col (sides larg) \<and> comparable col (sides rarg)"
        using less.prems(2) lr JoinExpr by simp
      have l: "l = tableRequired \<or> l = tableOptional" using join_sides_need [OF lr] by (cases l) auto
      have r: "r = tableRequired \<or> r = tableOptional" using join_sides_need [OF lr] by (cases r) auto
      have "isTableRequired larg col l = Inr (need_of col (sides larg) l)"
        using less.hyps [of larg l] JoinExpr parts comps l by auto
      moreover have "isTableRequired rarg col r = Inr (need_of col (sides rarg) r)"
        using less.hyps [of rarg r] JoinExpr parts comps r by auto
      ultimately show ?thesis using join_required [OF lr] JoinExpr prior by simp
    qed
  next
    case (NodeList items)
    have "isTableRequired m col prior = Inr (need_of col (sides m) prior)" if m: "m \<in> set items" for m
    proof (rule less.hyps)
      show "size m < size n" using size_items(1) [OF m] NodeList by simp
      show "flat_joins m" using less.prems(1) NodeList m by (simp add: list_all_iff)
      show "comparable col (sides m)" using less.prems(2) NodeList m by (auto simp: comparable_def list_all_iff)
      show "prior = tableRequired \<or> prior = tableOptional \<and> \<not> has_join m"
        using less.prems(3) NodeList m by (auto simp: list_ex_iff)
    qed
    moreover have "prior \<noteq> tableNotFound" using less.prems(3) by auto
    ultimately show ?thesis using any_required_sides NodeList by simp
  qed simp_all
qed

text \<open>C15: When no join stands on the optional side of another one, a column of a source table that the schema declares
  NOT NULL stays so exactly if the table is not on the optional side of an outer join: the first table of the FROM
  clause with the column's name decides, and a column of no table of the clause stays as it is.\<close>

theorem outer_join_nullability:
  assumes "ss_FromClause n = Some fs" and "flat_joins (NodeList fs)" and "comparable col (concat (map sides fs))"
    and "qc_NotNull col" and "qc_Table col \<noteq> None" and "\<not> qc_skipTableRequiredCheck col"
  shows "require_column n col =
    Inr (col\<lparr>qc_NotNull := (case find (matching col) (concat (map sides fs)) of None \<Rightarrow> True | Some (v, b) \<Rightarrow> \<not> b)\<rparr>)"
proof -
  have "any_required fs col tableRequired = Inr (need_of col (concat (map sides fs)) tableRequired)"
    using isTableRequired_sides [of "NodeList fs" col tableRequired] assms(2,3) by simp
  moreover have "col\<lparr>qc_NotNull := True\<rparr> = col" using assms(4) by simp
  ultimately show ?thesis
    using assms by (auto simp: require_column_def Items_def need_of_def split: option.splits)
qed

definition ex_from :: "join_type \<Rightarrow> node \<Rightarrow> node \<Rightarrow> node" where
  "ex_from t l r = JoinExpr t l r None NilNode None"

definition ex_range :: "string \<Rightarrow> node" where
  "ex_range n = RangeVar (plain_range_var n)"

definition ex_star_column :: "string \<Rightarrow> qcolumn" where
  "ex_star_column n = star_table_column (named_table n) (ex_column ''id'' ''int'' True)"

lemma plain_matches [simp]: "range_var_matches (plain_range_var n) (ex_star_column u) = Inr (n = u)"
  by (simp add: range_var_matches_def plain_range_var_def deref_def ex_star_column_def star_table_column_def
      ConvertColumn_def)

lemma ex_star_column_sel [simp]:
  "qc_NotNull (ex_star_column u)" "qc_Table (ex_star_column u) = Some (named_table u)"
  "\<not> qc_skipTableRequiredCheck (ex_star_column u)"
  by (simp_all add: ex_star_column_def star_table_column_def ConvertColumn_def zero_qcolumn_def ex_column_def)

lemma ex_sides [simp]:
  "sides (ex_range n) = [(plain_range_var n, False)]" "flat_joins (ex_range n)" "\<not> has_join (ex_range n)"
  "isTableRequired (ex_range n) (ex_star_column u) prior = Inr (if n = u then prior else tableNotFound)"
  "sides (ex_from JoinTypeLeft l r) = sides l @ map (mark tableOptional) (sides r)"
  "sides (ex_from JoinTypeInner l r) = sides l @ sides r"
  "flat_joins (ex_from JoinTypeLeft l r) \<longleftrightarrow> \<not> has_join r \<and> flat_joins l \<and> flat_joins r"
  by (simp_all add: ex_range_def ex_from_def join_sides_def)

theorem outer_join_nullability_witness:
  "require_column (plain_select [] [ex_from JoinTypeLeft (ex_range ''t'') (ex_range ''u'')]) (ex_star_column ''u'') =
     Inr ((ex_star_column ''u'')\<lparr>qc_NotNull := False\<rparr>)"
  using outer_join_nullability [of "plain_select [] [ex_from JoinTypeLeft (ex_range ''t'') (ex_range ''u'')]"
      "[ex_from JoinTypeLeft (ex_range ''t'') (ex_range ''u'')]" "ex_star_column ''u''"]
  by (auto simp: plain_select_def comparable_def matching_def mark_def)

text \<open>A join on the optional side of another one: in \<open>t LEFT JOIN (v JOIN u)\<close> the columns of \<open>u\<close> can be null, as the
  specification says, but the code reports its NOT NULL column as not null.\<close>

theorem nested_join_keeps_not_null:
  "(let inner = ex_from JoinTypeInner (ex_range ''v'') (ex_range ''u'');
        from = ex_from JoinTypeLeft (ex_range ''t'') inner
    in find (matching (ex_star_column ''u'')) (sides from) = Some (plain_range_var ''u'', True) \<and>
       require_column (plain_select [] [from]) (ex_star_column ''u'') = Inr (ex_star_column ''u''))"
proof -
  let ?in = "ex_from JoinTypeInner (ex_range ''v'') (ex_range ''u'')"
  have "isTableRequired ?in (ex_star_column ''u'') p = Inr tableRequired" for p
    by (subst isTableRequired.simps, subst ex_from_def) (simp add: join_sides_def)
  then have "isTableRequired (ex_from JoinTypeLeft (ex_range ''t'') ?in) (ex_star_column ''u'') p = Inr tableRequired" for p
    by (subst isTableRequired.simps, subst ex_from_def) (simp add: join_sides_def)
  then show ?thesis
    by (simp add: Let_def matching_def mark_def require_column_def plain_select_def Items_def)
qed

end
