(* ===== verification/Query_Expand_Props.thy ===== *)
theory Query_Expand_Props
  imports Query_Joins
begin

text \<open>
  Star expansion: what \<open>expandStmt\<close> writes into the query agrees with what \<open>outputColumns\<close> promises the generated
  code, the measured spans are the spans of the references, and what \<open>quoteIdent\<close> writes reads back.
\<close>

section \<open>What the analysis leaves alone\<close>

declare map_sum_Inr [simp]

definition qc_frame :: "query_catalog \<Rightarrow> query_catalog \<Rightarrow> bool" where
  "qc_frame qc qc' \<longleftrightarrow> qcat_catalog qc' = qcat_catalog qc \<and> qcat_embeds qc' = qcat_embeds qc"

lemma qc_frame_refl [simp]: "qc_frame qc qc"
  by (simp add: qc_frame_def)

lemma qc_frame_trans: "qc_frame a b \<Longrightarrow> qc_frame b d \<Longrightarrow> qc_frame a d"
  by (simp add: qc_frame_def)

lemma set_nullable_frame: "qc_frame qc (snd (set_nullable t qc))"
  by (simp add: set_nullable_def Let_def qc_frame_def split: option.split)

lemma build_returning_frame: "qc_frame qc (snd (build_returning fqn al b qc))"
  using set_nullable_frame
  by (auto simp: build_returning_def Let_def split: sum.split prod.split) (metis snd_conv)

lemma returningTables_frame: "qc_frame qc (snd (returningTables c qc node))"
proof -
  have "qc_frame qc (snd (let (old, qc1) = build_returning f o1 b1 qc; (new, qc2) = build_returning f o2 b2 qc1
          in (old @ new, qc2)))" for f o1 b1 o2 b2
    using build_returning_frame qc_frame_trans by (auto simp: Let_def split: prod.split) (metis snd_conv)
  then show ?thesis by (auto simp: returningTables_def Let_def split: option.split list.split)
qed

lemma source_table_frame:
  assumes "\<And>m q cols q'. m \<in> set (item_queries item) \<Longrightarrow> sub m q = Inr (cols, q') \<Longrightarrow> qc_frame q q'"
    and "source_table sub item qc = Inr (ts, qc')"
  shows "qc_frame qc qc'"
  using assms
  by (cases item) (auto simp: source_table_def item_queries_def split: sum.splits option.splits prod.splits)

lemma sourceTables_frame:
  assumes sub: "\<And>m q cols q'. m \<in> set (source_queries node) \<Longrightarrow> sub m q = Inr (cols, q') \<Longrightarrow> qc_frame q q'"
    and run: "sourceTables sub qc node = Inr (ts, qc')"
  shows "qc_frame qc qc'"
proof (cases "source_items node")
  case (Inl e)
  with run show ?thesis by (simp add: sourceTables_def)
next
  case (Inr items)
  let ?f = "\<lambda>item s. case source_table sub item (snd s) of Inl e \<Rightarrow> Inl e | Inr (us, q) \<Rightarrow> Inr (fst s @ us, q)"
  have "fold_ok ?f items ([], qc) = Inr (ts, qc')" using run Inr by (simp add: sourceTables_def)
  then have "qc_frame qc (snd (ts, qc'))"
  proof (rule fold_ok_inv [where P = "\<lambda>s. qc_frame qc (snd s)"])
    fix item u u'
    assume item: "item \<in> set items" and u: "qc_frame qc (snd u)" and step: "?f item u = Inr u'"
    then obtain us q where q: "source_table sub item (snd u) = Inr (us, q)" and u': "u' = (fst u @ us, q)"
      by (auto split: sum.splits)
    have "qc_frame (snd u) q"
      by (rule source_table_frame [OF _ q]) (use sub item Inr in \<open>fastforce simp: source_queries_def\<close>)
    with u u' show "qc_frame qc (snd u')" by (auto simp: qc_frame_def)
  qed simp
  then show ?thesis by simp
qed

lemma target_columns_frame:
  assumes "\<And>m q cols q'. m \<in> set (target_queries (ResTarget res)) \<Longrightarrow> sub m q = Inr (cols, q') \<Longrightarrow> qc_frame q q'"
    and "target_columns sub tables rtables res qc = Inr (cols, qc')"
  shows "qc_frame qc qc'"
  using assms
  by (cases "rt_Val res")
    (auto simp: target_columns_def target_queries_def scalar_column_def Let_def
      split: sum.splits option.splits prod.splits sub_link_type.splits list.splits bool.splits)

lemma target_loop_frame:
  assumes sub: "\<And>t m q cols q'. t \<in> set targets \<Longrightarrow> m \<in> set (target_queries t) \<Longrightarrow> sub m q = Inr (cols, q') \<Longrightarrow> qc_frame q q'"
    and run: "target_loop sub tables rtables targets qc = Inr (cols, qc')"
  shows "qc_frame qc qc'"
proof -
  let ?f = "\<lambda>target s. case as_ResTarget target of None \<Rightarrow> Inr s
      | Some res \<Rightarrow> (case target_columns sub tables rtables res (snd s) of
            Inl e \<Rightarrow> Inl e | Inr (cs, q) \<Rightarrow> Inr (fst s @ cs, q))"
  have "fold_ok ?f targets ([], qc) = Inr (cols, qc')" using run by (simp add: target_loop_def)
  then have "qc_frame qc (snd (cols, qc'))"
  proof (rule fold_ok_inv [where P = "\<lambda>s. qc_frame qc (snd s)"])
    fix t u u'
    assume t: "t \<in> set targets" and u: "qc_frame qc (snd u)" and step: "?f t u = Inr u'"
    show "qc_frame qc (snd u')"
    proof (cases "as_ResTarget t")
      case None
      with u step show ?thesis by simp
    next
      case (Some res)
      with step obtain cs q where q: "target_columns sub tables rtables res (snd u) = Inr (cs, q)" and u': "u' = (fst u @ cs, q)"
        by (auto split: sum.splits)
      have "qc_frame (snd u) q"
        by (rule target_columns_frame [OF _ q]) (use sub t Some in auto)
      with u u' show ?thesis by (auto simp: qc_frame_def)
    qed
  qed simp
  then show ?thesis by simp
qed

lemma outputColumns_frame: "outputColumns c node qc = Inr (cols, qc') \<Longrightarrow> qc_frame qc qc'"
proof (induction "size node" arbitrary: node qc cols qc' rule: less_induct)
  case less
  have sub: "outputColumns c m q = Inr (cs, q') \<Longrightarrow> qc_frame q q'" if "size m < size node" for m q cs q'
    using less.hyps that by blast
  from less.prems obtain tables qc1 where src: "sourceTables (outputColumns c) qc node = Inr (tables, qc1)"
    by (subst (asm) outputColumns.simps) (auto split: sum.splits)
  obtain rtables qc2 where ret: "returningTables c qc1 node = (rtables, qc2)" by force
  have "qc_frame qc qc1" by (rule sourceTables_frame [OF _ src]) (use sub source_queries_size in blast)
  moreover have "qc_frame qc1 qc2" using returningTables_frame [of qc1 c node] ret by simp
  moreover have "qc_frame qc2 qc'"
  proof (cases "as_SelectStmt node")
    case None
    with less.prems src ret obtain ts where ts: "returning_targets node = Inr ts"
      and run: "target_loop (outputColumns c) tables rtables ts qc2 = Inr (cols, qc')"
      by (subst (asm) outputColumns.simps) (auto split: sum.splits)
    show ?thesis by (rule target_loop_frame [OF _ run]) (use sub returning_target_queries [OF ts] in blast)
  next
    case (Some n)
    with less.prems src ret obtain ts where ts: "Items (ss_TargetList n) = Inr ts"
      by (subst (asm) outputColumns.simps) (auto split: sum.splits)
    have sz: "size node = Suc (size_select_stmt size n)" using Some by simp
    show ?thesis
    proof (cases "if ts = [] then ss_Larg n else None")
      case (Some larg)
      with less.prems src ret ts \<open>as_SelectStmt node = Some n\<close> have run: "outputColumns c (SelectStmt larg) qc2 = Inr (cols, qc')"
        by (subst (asm) outputColumns.simps) (auto split: sum.splits option.splits if_splits)
      have "size (SelectStmt larg) < size node"
        using larg_size [of n larg] Some sz by (simp split: if_splits)
      with run sub show ?thesis by blast
    next
      case None
      with less.prems src ret ts \<open>as_SelectStmt node = Some n\<close> obtain cs
        where run: "target_loop (outputColumns c) tables rtables ts qc2 = Inr (cs, qc')"
        by (subst (asm) outputColumns.simps) (auto split: sum.splits option.splits if_splits)
      show ?thesis
        by (rule target_loop_frame [OF _ run]) (use sub select_target_queries [OF ts] sz in fastforce)
    qed
  qed
  ultimately show ?case using qc_frame_trans by blast
qed

section \<open>The expansion selects the output columns\<close>

text \<open>More than one column of the source tables has the name as it is written in the query.\<close>

definition ambiguous :: "query_catalog \<Rightarrow> qtable list \<Rightarrow> string \<Rightarrow> bool" where
  "ambiguous qc tables n \<longleftrightarrow> 1 < length (filter (\<lambda>col. qc_Name col = n) (concat (map (columns_of qc) tables)))"

text \<open>The expression of the expanded query for an output column: its name, quoted where needed, behind the table the
  star names, or behind the table it comes from when a bare star finds its name twice, in the form the engine's
  selector gives it.\<close>

definition selects :: "compiler \<Rightarrow> (string \<Rightarrow> bool) \<Rightarrow> string \<Rightarrow> qcolumn \<Rightarrow> bool" where
  "selects c twice expr col \<longleftrightarrow>
     expr = ColumnExpr c
       ((if qc_Scope col \<noteq> [] then quoteIdent c (qc_Scope col) @ ''.''
         else if twice (quoteIdent c (qc_Name col)) then quoteIdent c (qc_TableAlias col) @ ''.'' else []) @
        quoteIdent c (qc_Name col)) col"

definition is_star_target :: "node \<Rightarrow> bool" where
  "is_star_target t \<longleftrightarrow>
     (case as_ResTarget t of
        None \<Rightarrow> False
      | Some res \<Rightarrow> (case as_ColumnRef (rt_Val res) of None \<Rightarrow> False | Some r \<Rightarrow> hasStarRef r = Inr True))"

definition star_of :: "node \<Rightarrow> node res_target \<times> node column_ref" where
  "star_of t = (the (as_ResTarget t), the (as_ColumnRef (rt_Val (the (as_ResTarget t)))))"

definition same_output :: "qcolumn \<Rightarrow> qcolumn \<Rightarrow> bool" where
  "same_output a b \<longleftrightarrow> qc_Name a = qc_Name b \<and> qc_DataType a = qc_DataType b \<and> qc_Scope a = qc_Scope b \<and>
     qc_TableAlias a = qc_TableAlias b"

lemma selects_same:
  assumes "selects c twice e a" and "same_output a b"
  shows "selects c twice e b"
proof -
  from assms(2) have "ColumnExpr c x a = ColumnExpr c x b" for x by (simp add: same_output_def ColumnExpr_def)
  with assms show ?thesis by (simp add: selects_def same_output_def)
qed

lemma selects_star:
  "selects c (ambiguous qc tables) (star_name c qc tables rname scope t col) (star_column rname scope t col)"
proof -
  have dt: "ColumnExpr c x (star_column rname scope t col) = ColumnExpr c x col" for x
    by (simp add: ColumnExpr_def star_column_def)
  have "qc_Name (star_column rname sc t col) = (case rname of Some n \<Rightarrow> n | None \<Rightarrow> qc_Name col)"
    "qc_Scope (star_column rname sc t col) = sc" "qc_TableAlias (star_column rname sc t col) = qt_name t" for sc
    by (simp_all add: star_column_def)
  then show ?thesis by (simp add: selects_def dt star_name_def Let_def name_count_def ambiguous_def)
qed

lemma star_list:
  assumes "EmbedSet_Find (qcat_embeds qc) [cr_Location r, rt_Location res] = None"
  shows "list_all2 (selects c (ambiguous qc tables))
           (star_names c qc tables rtables res (astutils_Join (cr_Fields r) ''.'')) (star_columns qc res tables rtables r)"
proof -
  have "list_all2 (selects c (ambiguous qc tables)) (map (star_name c qc tables rn sc t) cols) (map (star_column rn sc t) cols)"
    for rn sc t cols
    by (simp add: list.rel_map list.rel_refl selects_star)
  then have "list_all2 (selects c (ambiguous qc tables))
      (concat (map (\<lambda>t. map (star_name c qc tables rn sc t) (columns_of qc t)) ts))
      (concat (map (\<lambda>t. map (star_column rn sc t) (columns_of qc t)) ts))" for rn sc ts
    by (induction ts) (auto intro: list_all2_appendI)
  then show ?thesis using assms by (simp add: star_names_def star_columns_def Let_def)
qed

lemma require_same: "require_column n a = Inr b \<Longrightarrow> same_output a b"
  by (auto simp: require_column_def same_output_def split: if_splits sum.splits)

lemma map_ok_rel: "map_ok f xs = Inr ys \<Longrightarrow> list_all2 (\<lambda>x y. f x = Inr y) xs ys"
  by (induction xs arbitrary: ys) (auto split: sum.splits)

lemma star_target_columns:
  "is_star_target t \<Longrightarrow> as_ResTarget t = Some res \<Longrightarrow>
     target_columns sub tables rtables res qc = Inr (star_columns qc res tables rtables (snd (star_of t)), qc)"
  by (auto simp: is_star_target_def star_of_def target_columns_def Let_def split: option.splits)

lemma star_loop:
  assumes "list_all is_star_target targets"
  shows "target_loop sub tables rtables targets qc =
     Inr (concat (map (\<lambda>t. star_columns qc (fst (star_of t)) tables rtables (snd (star_of t))) targets), qc)"
proof -
  let ?f = "\<lambda>target s. case as_ResTarget target of None \<Rightarrow> Inr s
      | Some res \<Rightarrow> (case target_columns sub tables rtables res (snd s) of
            Inl e \<Rightarrow> Inl e | Inr (cs, q) \<Rightarrow> Inr (fst s @ cs, q))"
  have "fold_ok ?f targets (acc, qc) =
      Inr (acc @ concat (map (\<lambda>t. star_columns qc (fst (star_of t)) tables rtables (snd (star_of t))) targets), qc)" for acc
    using assms
  proof (induction targets arbitrary: acc)
    case (Cons t ts)
    then obtain res where res: "as_ResTarget t = Some res" by (auto simp: is_star_target_def split: option.splits)
    then have "fst (star_of t) = res" by (simp add: star_of_def)
    with Cons res star_target_columns [OF _ res] show ?case by simp
  qed simp
  then show ?thesis by (simp add: target_loop_def)
qed

lemma star_edits:
  assumes "list_all is_star_target targets" and "map_ok (target_edits c qc tables rtables loc) targets = Inr ess"
  shows "map se_New (concat ess) = map (\<lambda>t. Join (star_names c qc tables rtables (fst (star_of t))
           (astutils_Join (cr_Fields (snd (star_of t))) ''.'')) '', '') targets"
  using assms
proof (induction targets arbitrary: ess)
  case (Cons t ts)
  then obtain res r where t: "as_ResTarget t = Some res" "as_ColumnRef (rt_Val res) = Some r" "hasStarRef r = Inr True"
    by (auto simp: is_star_target_def split: option.splits)
  then have "target_edits c qc tables rtables loc t = map_sum id (\<lambda>e. [e]) (star_edit c qc tables rtables loc res r)"
    by (simp add: target_edits_def)
  with Cons.prems(2) obtain e es where "star_edit c qc tables rtables loc res r = Inr e" "ess = [e] # es"
    and rest: "map_ok (target_edits c qc tables rtables loc) ts = Inr es"
    by (auto split: sum.splits)
  with t Cons.prems Cons.IH [OF _ rest] show ?case
    by (auto simp: star_edit_def star_of_def split: sum.splits)
qed simp

text \<open>C14: For a SELECT of stars, none of them from \<open>sqlc.embed\<close>, the columns the generated code scans are, in order and
  one for one, the expressions that expansion writes in their place, star by star: the name of the column, quoted where
  needed, behind the table that the star names, and for a bare star behind the column's own table exactly when more
  than one column of the FROM clause has the name as it is written, quotes included.\<close>

theorem star_expansion_agrees:
  assumes "ss_TargetList n = Some targets" and "targets \<noteq> []" and "list_all is_star_target targets"
    and "qcat_embeds qc = []"
    and "sourceTables (outputColumns c) qc (SelectStmt n) = Inr (tables, qc1)"
    and "outputColumns c (SelectStmt n) qc = Inr (cols, qc')"
    and "expandStmt c loc (SelectStmt n) ([], qc) = Inr (edits, qc'')"
  shows "\<exists>names. map se_New edits = map (\<lambda>ns. Join ns '', '') names \<and>
    list_all2 (selects c (ambiguous qc1 tables)) (concat names) cols"
proof -
  note src = assms(5)
  have T: "Items (ss_TargetList n) = Inr targets" using assms(1) by (simp add: Items_def)
  have "qc_frame qc qc1"
    by (rule sourceTables_frame [OF _ src]) (use outputColumns_frame in blast)
  with assms(4) have em: "EmbedSet_Find (qcat_embeds qc1) locs = None" for locs
    by (simp add: qc_frame_def EmbedSet_Find_def)
  have ret: "returningTables c qc1 (SelectStmt n) = ([], qc1)"
    by (simp add: returningTables_def returning_target_def)
  let ?cols = "concat (map (\<lambda>t. star_columns qc1 (fst (star_of t)) tables [] (snd (star_of t))) targets)"
  let ?names = "map (\<lambda>t. star_names c qc1 tables [] (fst (star_of t))
           (astutils_Join (cr_Fields (snd (star_of t))) ''.'')) targets"
  from assms(2,6) src ret T star_loop [OF assms(3)] have req: "map_ok (require_column n) ?cols = Inr cols"
    by (subst (asm) outputColumns.simps) (auto split: sum.splits option.splits)
  from assms(7) src ret T obtain ess where "map_ok (target_edits c qc1 tables [] loc) targets = Inr ess" "edits = concat ess"
    by (auto simp: expandStmt_def stmt_targets_def split: sum.splits)
  with star_edits [OF assms(3)] have "map se_New edits = map (\<lambda>ns. Join ns '', '') ?names" by simp
  moreover have "list_all2 (selects c (ambiguous qc1 tables)) (concat ?names) ?cols"
    using star_list em by (induction targets) (auto intro: list_all2_appendI)
  then have "list_all2 (selects c (ambiguous qc1 tables)) (concat ?names) cols"
    using map_ok_rel [OF req] by (rule list_all2_trans [rotated]) (use require_same selects_same in blast)
  ultimately show ?thesis by blast
qed

definition ex_qc :: query_catalog where
  "ex_qc = \<lparr>qcat_catalog = ex_catalog, qcat_ctes = Map.empty, qcat_embeds = []\<rparr>"

lemma ex_select_columns:
  "outputColumns ex_compiler (SelectStmt ex_select) ex_qc =
     Inr (map (star_table_column (named_table ''t'')) [ex_column ''id'' ''int'' True, ex_column ''name'' ''text'' False], ex_qc)"
  using outputColumns_star [OF ex_select_reads refl, of ex_qc] ex_table
  by (simp add: ex_qc_def EmbedSet_Find_def cols_of_def ex_catalog_def relation_table_def relation_of_range_var_def
      plain_range_var_def named_table_def)

definition ex_edited :: "source_edit list \<times> query_catalog" where
  "ex_edited = projr (expandStmt ex_compiler 0 (SelectStmt ex_select) ([], ex_qc))"

lemma ex_expand: "expandStmt ex_compiler 0 (SelectStmt ex_select) ([], ex_qc) = Inr ex_edited"
proof -
  have "(case expandStmt ex_compiler 0 (SelectStmt ex_select) ([], ex_qc) of Inl e \<Rightarrow> False | Inr s \<Rightarrow> True)"
    by code_simp
  then show ?thesis by (auto simp: ex_edited_def split: sum.splits)
qed

definition ex_sources :: "qtable list \<times> query_catalog" where
  "ex_sources = projr (sourceTables (outputColumns ex_compiler) ex_qc (SelectStmt ex_select))"

lemma ex_source: "sourceTables (outputColumns ex_compiler) ex_qc (SelectStmt ex_select) = Inr ex_sources"
proof -
  have "(case sourceTables (outputColumns ex_compiler) ex_qc (SelectStmt ex_select) of Inl e \<Rightarrow> False | Inr s \<Rightarrow> True)"
    by code_simp
  then show ?thesis by (auto simp: ex_sources_def split: sum.splits)
qed

theorem star_expansion_agrees_witness:
  "\<exists>names. map se_New (fst ex_edited) = map (\<lambda>ns. Join ns '', '') names \<and>
     list_all2 (selects ex_compiler (ambiguous (snd ex_sources) (fst ex_sources))) (concat names)
       (map (star_table_column (named_table ''t'')) [ex_column ''id'' ''int'' True, ex_column ''name'' ''text'' False])"
proof (rule star_expansion_agrees [OF _ _ _ _ _ ex_select_columns])
  show "sourceTables (outputColumns ex_compiler) ex_qc (SelectStmt ex_select) = Inr (fst ex_sources, snd ex_sources)"
    using ex_source by simp
  show "expandStmt ex_compiler 0 (SelectStmt ex_select) ([], ex_qc) = Inr (fst ex_edited, snd ex_edited)"
    using ex_expand by simp
  show "ss_TargetList ex_select = Some [star_target 7]" by (simp add: ex_select_def plain_select_def)
  show "list_all is_star_target [star_target 7]"
    by (simp add: is_star_target_def star_target_def as_defs hasStarRef_def star_ref_def Items_def)
qed (simp_all add: ex_qc_def)

section \<open>Measuring a reference\<close>

lemma Join_dots: "Join (x # xs) ''.'' = x @ concat (map (\<lambda>y. ''.'' @ y) xs)"
  by (induction xs arbitrary: x) simp_all

text \<open>A part of a reference as the query may spell it: a star, or a name between the engine's quotes, or, where the
  expansion would not quote the name either, the bare name in any case.\<close>

definition spells :: "compiler \<Rightarrow> string \<Rightarrow> string \<Rightarrow> bool" where
  "spells c sp x \<longleftrightarrow>
     (if x = ''*'' then sp = ''*''
      else x \<noteq> [] \<and> hd x \<noteq> hd (quote c x) \<and> (sp = quote c x \<or> quoteIdent c x = x \<and> ToLower sp = ToLower x))"

abbreviation old_part :: "compiler \<Rightarrow> string \<Rightarrow> string" where
  "old_part c x \<equiv> if x = ''*'' then x else quoteIdent c x"

lemma quoteIdent_cases: "quoteIdent c x = x \<or> quoteIdent c x = quote c x"
  by (simp add: quoteIdent_def)

lemma quoted_not_prefix:
  assumes "x \<noteq> []" and "hd x \<noteq> hd (quote c x)"
  shows "\<not> HasPrefix (quote c x @ rest) x" and "ToLower sp = ToLower x \<Longrightarrow> \<not> HasPrefix (sp @ rest) (quote c x)"
proof -
  obtain y ys where x: "x = y # ys" using assms(1) by (cases x) auto
  show "\<not> HasPrefix (quote c x @ rest) x" using assms(2) by (auto simp: x HasPrefix_def quote_def split: if_splits)
  assume "ToLower sp = ToLower x"
  then obtain z zs where z: "sp = z # zs" "lower_byte z = lower_byte y" by (cases sp) (auto simp: x ToLower_def)
  have "z \<noteq> q" if "q = CHR 0x22 \<or> q = CHR 0x60" "y \<noteq> q" for q
  proof
    assume "z = q"
    with z(2) that(1) have low: "lower_byte y = q" by (auto simp: lower_byte_def)
    show False
    proof (cases "65 \<le> byte_of y \<and> byte_of y \<le> 90")
      case True
      then have "byte_of (lower_byte y) = byte_of y + 32" by (simp add: lower_byte_def)
      with low that(1) True show False by auto
    qed (use low that(2) in \<open>auto simp: lower_byte_def split: if_splits\<close>)
  qed
  with assms(2) show "\<not> HasPrefix (sp @ rest) (quote c x)"
    by (auto simp: x z(1) HasPrefix_def quote_def split: if_splits)
qed

lemma HasPrefix_self: "HasPrefix (x @ rest) x" "HasPrefix (b # rest) [b]"
  by (simp_all add: HasPrefix_def)

lemma prefix_same_length: "HasPrefix (sp @ rest) p \<Longrightarrow> length sp = length p \<Longrightarrow> sp = p"
  by (simp add: HasPrefix_def)

lemma spelled_step:
  assumes "spells c sp x" and "length pre = (if is_first then n else Suc n)"
  shows "star_old c (old_part c x # ps) is_first n (pre @ sp @ rest) = star_old c ps False (length (pre @ sp)) (pre @ sp @ rest)"
proof (cases "x = ''*'' \<or> sp = quoteIdent c x")
  case True
  with assms show ?thesis by (auto simp: spells_def Let_def HasPrefix_self)
next
  case False
  with assms(1) have x: "x \<noteq> ''*''" "x \<noteq> []" "hd x \<noteq> hd (quote c x)" "quoteIdent c x = x"
    and sp: "sp = quote c x \<or> ToLower sp = ToLower x"
    using quoteIdent_cases [of c x] by (auto simp: spells_def)
  from sp show ?thesis
  proof
    assume "sp = quote c x"
    with x quoted_not_prefix(1) [OF x(2,3)] assms(2) show ?thesis by (simp add: Let_def HasPrefix_self)
  next
    assume lower: "ToLower sp = ToLower x"
    then have "length sp = length x" by (metis length_ToLower)
    with x quoted_not_prefix(2) [OF x(2,3) lower] assms(2) show ?thesis by (simp add: Let_def)
  qed
qed

lemma star_old_tail:
  "list_all2 (spells c) sps xs \<Longrightarrow>
     star_old c (map (old_part c) xs) False (length pre) (pre @ concat (map (\<lambda>y. ''.'' @ y) sps) @ rest) =
       Inr (int (length pre + length (concat (map (\<lambda>y. ''.'' @ y) sps))))"
proof (induction sps xs arbitrary: pre rule: list_all2_induct)
  case (Cons sp sps x xs)
  let ?rest = "concat (map (\<lambda>y. ''.'' @ y) sps) @ rest"
  have "star_old c (old_part c x # map (old_part c) xs) False (length pre) ((pre @ ''.'') @ sp @ ?rest) =
      star_old c (map (old_part c) xs) False (length (pre @ ''.'' @ sp)) ((pre @ ''.'' @ sp) @ ?rest)"
    using spelled_step [OF Cons.hyps(1), of "pre @ ''.''" False "length pre" "map (old_part c) xs" ?rest] by simp
  with Cons.IH [of "pre @ ''.'' @ sp"] show ?case by simp
qed simp

lemma starOldFunc_spelled:
  assumes "list_all2 (spells c) (sp # sps) parts"
  shows "starOldFunc c parts (Join (sp # sps) ''.'' @ rest) = Inr (int (length (Join (sp # sps) ''.'')))"
proof -
  from assms obtain x xs where parts: "parts = x # xs" and x: "spells c sp x" and xs: "list_all2 (spells c) sps xs"
    by (auto simp: list_all2_Cons1)
  let ?rest = "concat (map (\<lambda>y. ''.'' @ y) sps) @ rest"
  have "starOldFunc c parts (Join (sp # sps) ''.'' @ rest) = star_old c (map (old_part c) xs) False (length sp) (sp @ ?rest)"
    using spelled_step [OF x, of "[]" True 0 "map (old_part c) xs" ?rest]
    by (simp add: starOldFunc_def old_parts_def parts Join_dots)
  with star_old_tail [OF xs, of sp rest] show ?thesis by (simp add: Join_dots)
qed

lemma sorts_desc_one: "sorts_desc srt \<Longrightarrow> srt [e] = [e]"
  unfolding sorts_desc_def by (metis mset_single_iff mset.simps(1,2) add_mset_add_single)

text \<open>C25: An edit for a star reference replaces exactly the reference in the query, and leaves the text before and after
  it as it is, when each of its names is written between the engine's quotes, or, if it is a name the expansion would
  not quote, bare in any case; a name is not empty and does not begin with a quote itself.\<close>

theorem star_edit_replaces_reference:
  assumes "sorts_desc srt" and "list_all2 (spells c) (sp # sps) parts"
    and "se_OldFunc e = Some (starOldFunc c parts)" and "se_Location e = int (length before)"
  shows "Mutate srt (before @ Join (sp # sps) ''.'' @ after) [e] = Inr (before @ se_New e @ after)"
proof -
  have "old_len e (Join (sp # sps) ''.'' @ after) = Inr (int (length (Join (sp # sps) ''.'')))"
    using starOldFunc_spelled [OF assms(2)] assms(3) by (simp add: old_len_def)
  then show ?thesis
    using sorts_desc_one [OF assms(1)] assms(4) by (simp add: Mutate_def nat_add_distrib Let_def)
qed

definition ex_star_edit :: "string list \<Rightarrow> source_edit" where
  "ex_star_edit parts = \<lparr>se_Location = 2, se_Old = [], se_New = ''t.id, t.name'', se_OldFunc = Some (starOldFunc ex_compiler parts)\<rparr>"

theorem star_edit_replaces_reference_witness:
  "Mutate ex_sort ([CHR 0x73, CHR 0x20] @ Join [quote ex_compiler ''t'', ''*''] ''.'' @ '' FROM t'') [ex_star_edit [''t'', ''*'']] =
     Inr ([CHR 0x73, CHR 0x20] @ ''t.id, t.name'' @ '' FROM t'') \<and>
   Mutate ex_sort ([CHR 0x73, CHR 0x20] @ Join [''T'', ''*''] ''.'' @ '' FROM t'') [ex_star_edit [''t'', ''*'']] =
     Inr ([CHR 0x73, CHR 0x20] @ ''t.id, t.name'' @ '' FROM t'')"
proof
  have "quoteIdent ex_compiler ''t'' = ''t''" "quote ex_compiler ''t'' = [CHR 0x22, CHR ''t'', CHR 0x22]"
    "ToLower ''T'' = ToLower ''t''" by code_simp+
  then have "list_all2 (spells ex_compiler) [quote ex_compiler ''t'', ''*''] [''t'', ''*'']"
    "list_all2 (spells ex_compiler) [''T'', ''*''] [''t'', ''*'']"
    by (simp_all add: spells_def)
  note spelled = this [THEN star_edit_replaces_reference [OF ex_sort_sorts], of "ex_star_edit [''t'', ''*'']" "[CHR 0x73, CHR 0x20]" "'' FROM t''"]
  show "Mutate ex_sort ([CHR 0x73, CHR 0x20] @ Join [quote ex_compiler ''t'', ''*''] ''.'' @ '' FROM t'') [ex_star_edit [''t'', ''*'']] =
     Inr ([CHR 0x73, CHR 0x20] @ ''t.id, t.name'' @ '' FROM t'')"
    using spelled(1) by (simp add: ex_star_edit_def)
  show "Mutate ex_sort ([CHR 0x73, CHR 0x20] @ Join [''T'', ''*''] ''.'' @ '' FROM t'') [ex_star_edit [''t'', ''*'']] =
     Inr ([CHR 0x73, CHR 0x20] @ ''t.id, t.name'' @ '' FROM t'')"
    using spelled(2) by (simp add: ex_star_edit_def)
qed

text \<open>A name the expansion would quote, written bare, is taken to be two bytes longer than it is: PostgreSQL accepts a
  name with letters outside ASCII without quotes, and the edit then removes two bytes after the reference.\<close>

lemma bare_name_overrun:
  "Mutate ex_sort ([CHR 0x73, CHR 0x20] @ [CHR 0xC3, CHR 0xA9] @ ''.* FROM t'') [ex_star_edit [[CHR 0xC3, CHR 0xA9], ''*'']] =
     Inr ([CHR 0x73, CHR 0x20] @ ''t.id, t.name'' @ ''ROM t'')"
  by code_simp

section \<open>Quoting\<close>

text \<open>How PostgreSQL reads an identifier: what is between double quotes as it is, anything else in lower case, and only
  if it is no reserved word.\<close>

definition pg_read :: "compiler \<Rightarrow> string \<Rightarrow> string option" where
  "pg_read c s =
     (case s of
        [] \<Rightarrow> None
      | ch # rest \<Rightarrow>
          if ch = CHR 0x22 then
            (if rest \<noteq> [] \<and> last rest = CHR 0x22 \<and> CHR 0x22 \<notin> set (butlast rest) then Some (butlast rest) else None)
          else
            (let low = strings_ToLower (comp_unicode c) s in
             if validPostgresIdent low \<and> \<not> comp_IsReservedKeyword c s then Some low else None))"

text \<open>C26: Under PostgreSQL a column name, with whatever case, spaces or reserved words, is written so that it reads back
  as itself; only a double quote in a name is not provided for.\<close>

theorem quoteIdent_reads_back:
  assumes "comp_Engine c = EnginePostgreSQL" and "CHR 0x22 \<notin> set x"
  shows "pg_read c (quoteIdent c x) = Some x"
proof (cases "quoteIdent c x = quote c x")
  case True
  with assms show ?thesis by (simp add: quote_def pg_read_def)
next
  case False
  then have x: "quoteIdent c x = x" "\<not> comp_IsReservedKeyword c x" "strings_ToLower (comp_unicode c) x = x" "validPostgresIdent x"
    using assms(1) by (auto simp: quoteIdent_def split: if_splits)
  then obtain ch rest where "x = ch # rest" "ch \<noteq> CHR 0x22"
    using assms(2) by (cases x) (auto simp: validPostgresIdent_def)
  with x show ?thesis by (simp add: pg_read_def Let_def)
qed

theorem quoteIdent_reads_back_witness: "pg_read ex_compiler (quoteIdent ex_compiler ''order'') = Some ''order''"
  by (rule quoteIdent_reads_back) (simp_all add: ex_compiler_def)

end
