(* ===== verification/Query_Resolve_Props.thy ===== *)
theory Query_Resolve_Props
  imports Query_Param_Props Query_Expand_Props "HOL-Library.Sublist"
begin

text \<open>
  The numbers and the types of parameters: references made unique keep one reference per number, and a parameter that
  is bound to a table has the type that the catalog gives a column of that table.
\<close>

section \<open>One reference per number\<close>

lemma first_refs_spec:
  "first_refs ps refs m = (out, m') \<Longrightarrow>
     distinct (map (num_of ps) out) \<and> num_of ps ` set out = num_of ps ` set refs - insert 0 m \<and> subseq out refs"
proof (induction refs arbitrary: m out)
  case (Cons v vs)
  show ?case
  proof (cases "num_of ps v \<in> m")
    case True
    with Cons.prems have "first_refs ps vs m = (out, m')" by (simp add: Let_def num_of_def)
    from Cons.IH [OF this] True show ?thesis by (auto simp: num_of_def)
  next
    case False
    with Cons.prems obtain o1 where o1: "first_refs ps vs (insert (num_of ps v) m) = (o1, m')"
      and out: "out = (if num_of ps v \<noteq> 0 then [v] else []) @ o1"
      by (auto simp: Let_def num_of_def split: prod.splits)
    from Cons.IH [OF o1] False out show ?thesis by auto
  qed
qed simp

lemma number_rest_numbered: "0 \<notin> num_of ps ` set refs \<Longrightarrow> number_rest m refs start ps = ([], ps)"
  by (induction refs arbitrary: m start) (auto simp: num_of_def)

text \<open>C18: when the query numbers its parameters, or every placeholder has been given a number, making the references
  unique keeps exactly one of each number, in their order, and renumbers none.\<close>

theorem uniqueParamRefs_numbers:
  assumes "dollar \<or> 0 \<notin> num_of ps ` set refs"
  shows "\<exists>out. uniqueParamRefs refs dollar ps = (out, ps) \<and> distinct (map (num_of ps) out) \<and>
    num_of ps ` set out = num_of ps ` set refs - {0} \<and> subseq out refs"
proof -
  obtain out m where o: "first_refs ps refs {} = (out, m)" by force
  then have "uniqueParamRefs refs dollar ps = (out, ps)"
    using assms number_rest_numbered [of ps refs m 1] by (auto simp: uniqueParamRefs_def)
  with first_refs_spec [OF o] show ?thesis by simp
qed

definition ex_ref :: "nat \<Rightarrow> paramRef" where
  "ex_ref a = \<lparr>ref_parent = ParentNode ex_equals, ref_rv = None, ref_ref = a, ref_name = []\<rparr>"

theorem uniqueParamRefs_numbers_witness:
  "\<exists>out. uniqueParamRefs [ex_ref 0, ex_ref 1, ex_ref 0] False ex_params = (out, ex_params) \<and>
     num_of ex_params ` set out = {1, 2} \<and> subseq out [ex_ref 0, ex_ref 1, ex_ref 0]"
proof -
  have n: "num_of ex_params ` set [ex_ref 0, ex_ref 1, ex_ref 0] = {1, 2}"
    by (simp add: num_of_def ex_params_def ex_ref_def insert_commute)
  then have "False \<or> 0 \<notin> num_of ex_params ` set [ex_ref 0, ex_ref 1, ex_ref 0]" by simp
  from uniqueParamRefs_numbers [OF this] show ?thesis unfolding n by auto
qed

section \<open>Types of parameters\<close>

lemma column_map_Some: "column_map cols k = Some col \<Longrightarrow> col \<in> set cols \<and> col_Name col = k"
proof -
  have "fold (\<lambda>col m. m(col_Name col \<mapsto> col)) cols m k = Some col \<Longrightarrow>
      m k = Some col \<or> col \<in> set cols \<and> col_Name col = k" for m
    by (induction cols arbitrary: m) (fastforce split: if_splits)+
  then show "column_map cols k = Some col \<Longrightarrow> col \<in> set cols \<and> col_Name col = k"
    unfolding column_map_def by fastforce
qed

text \<open>What the resolver knows comes from the catalog.\<close>

definition resolver_ok :: "catalog \<Rightarrow> resolver \<Rightarrow> bool" where
  "resolver_ok c r \<longleftrightarrow>
     (\<forall>sch n m. rs_typeMap r sch n = Some m \<longrightarrow>
       (\<exists>rel tbl. GetTable c rel = Inr tbl \<and> table_name tbl = n \<and> m = column_map (cols_of c tbl)))"

lemma resolver_ok_empty: "resolver_ok c empty_resolver"
  by (simp add: resolver_ok_def empty_resolver_def)

lemma resolver_ok_indexTable:
  assumes "resolver_ok c r" and "GetTable c rel = Inr tbl"
  shows "resolver_ok c (indexTable c tbl r)"
  using assms unfolding resolver_ok_def by (fastforce simp: indexTable_def Let_def split: if_splits)

lemma resolver_ok_index_range_var:
  assumes "index_range_var c qc rv r = Inr r'" and "resolver_ok c r"
  shows "resolver_ok c r'"
proof -
  have "resolver_ok c (r\<lparr>rs_aliasMap := m\<rparr>)" if "resolver_ok c r" for r m using that by (simp add: resolver_ok_def)
  with assms resolver_ok_indexTable [OF assms(2)] show ?thesis
    by (fastforce simp: index_range_var_def Let_def split: if_splits sum.splits option.splits)
qed

definition catalog_column_of :: "catalog \<Rightarrow> string \<Rightarrow> column \<Rightarrow> bool" where
  "catalog_column_of c name col \<longleftrightarrow>
     (\<exists>rel tbl. GetTable c rel = Inr tbl \<and> table_name tbl = name \<and> col \<in> set (cols_of c tbl))"

lemma lookup_column_ok:
  assumes "resolver_ok c r" and "lookup_column c r t key = Some col"
  shows "catalog_column_of c (tn_Name t) col"
proof -
  from assms(2) obtain m where "rs_typeMap r (schema_or_default c (tn_Schema t)) (tn_Name t) = Some m" "m key = Some col"
    by (auto simp: lookup_column_def split: option.splits)
  with assms(1) column_map_Some show ?thesis by (fastforce simp: resolver_ok_def catalog_column_of_def)
qed

definition has_type_of :: "qcolumn \<Rightarrow> column \<Rightarrow> bool" where
  "has_type_of q col \<longleftrightarrow>
     qc_DataType q = dataType (col_Type col) \<and> qc_Unsigned q = col_IsUnsigned col \<and> qc_IsArray q = col_IsArray col \<and>
     qc_ArrayDims q = col_ArrayDims col \<and> (\<not> qc_IsNamedParam q \<longrightarrow> qc_NotNull q = col_IsNotNull col)"

definition typed_parameter :: "catalog \<Rightarrow> parameter \<Rightarrow> bool" where
  "typed_parameter c a \<longleftrightarrow>
     (\<forall>q t. snd a = Some q \<longrightarrow> qc_Table q = Some t \<longrightarrow> (\<exists>col. catalog_column_of c (tn_Name t) col \<and> has_type_of q col))"

lemma NotNull_inferred [simp]: "NotNull (NewInferredParam n nn) = nn"
  by (cases nn) (simp_all add: NotNull_def NewInferredParam_def param_is_def nullability_defs)

lemma merged_param_cases:
  obtains p b where "merged_param params k d mk = (k, Some ((mk p b)\<lparr>qc_IsNamedParam := b\<rparr>))" and "\<not> b \<longrightarrow> p = d"
proof -
  obtain p b where pb: "FetchMerge k d params = (p, b)" by force
  then have "\<not> b \<longrightarrow> p = d" by (auto simp: FetchMerge_def split: option.splits if_splits)
  with pb that show ?thesis by (simp add: merged_param_def)
qed

definition like_column :: "(param \<Rightarrow> bool \<Rightarrow> qcolumn) \<Rightarrow> tableName \<Rightarrow> column \<Rightarrow> bool" where
  "like_column mk t col \<longleftrightarrow>
     (\<forall>p b. qc_Table (mk p b) = Some t \<and> qc_DataType (mk p b) = dataType (col_Type col) \<and>
        qc_Unsigned (mk p b) = col_IsUnsigned col \<and> qc_IsArray (mk p b) = col_IsArray col \<and>
        qc_ArrayDims (mk p b) = col_ArrayDims col \<and>
        (qc_NotNull (mk p b) = NotNull p \<or> qc_NotNull (mk p b) = col_IsNotNull col))"

lemma like_column_param [simp]: "like_column (column_param col t) t col"
  by (simp add: like_column_def column_param_def)

lemma typed_by_column:
  assumes "catalog_column_of c (tn_Name t) col" and "like_column mk t col"
  shows "typed_parameter c (merged_param params k (NewInferredParam n (col_IsNotNull col)) mk)"
proof (rule merged_param_cases [of params k "NewInferredParam n (col_IsNotNull col)" mk])
  fix p b
  assume m: "merged_param params k (NewInferredParam n (col_IsNotNull col)) mk = (k, Some ((mk p b)\<lparr>qc_IsNamedParam := b\<rparr>))"
    and p: "\<not> b \<longrightarrow> p = NewInferredParam n (col_IsNotNull col)"
  have "NotNull p = col_IsNotNull col" if "\<not> b" using p that by simp
  then have l: "qc_Table (mk p b) = Some t" "has_type_of ((mk p b)\<lparr>qc_IsNamedParam := b\<rparr>) col"
    using spec [OF spec [OF assms(2) [unfolded like_column_def], of p], of b] by (auto simp: has_type_of_def)
  with m assms(1) show ?thesis by (auto simp: typed_parameter_def)
qed

lemma typed_without_table:
  assumes "\<And>p b. qc_Table (mk p b) = None"
  shows "typed_parameter c (merged_param params k d mk)"
  by (rule merged_param_cases [of params k d mk]) (simp add: typed_parameter_def assms)

lemma typed_number [simp]: "typed_parameter c (k, snd a) \<longleftrightarrow> typed_parameter c a"
  by (simp add: typed_parameter_def)

lemma no_table [simp]: "qc_Table zero_qcolumn = None" "qc_Table (plain_qcolumn n d nn) = None"
  by (simp_all add: plain_qcolumn_def zero_qcolumn_def)

lemma match_tables_mem:
  "(k, t, col) \<in> set (fst (match_tables c r rn key ts)) \<Longrightarrow> \<exists>key. lookup_column c r t key = Some col"
  by (induction c r rn key ts rule: match_tables.induct) (auto simp: Let_def split: option.splits prod.splits)

lemma match_tables_ok:
  assumes "resolver_ok c r" and "match_tables c r rn key ts = (found, key1)" and "(k, t, col) \<in> set found"
  shows "catalog_column_of c (tn_Name t) col"
  using match_tables_mem [of k t col c r rn key ts] assms lookup_column_ok by auto

lemma found_typed:
  assumes "resolver_ok c r" and "match_tables c r rn key ts = (found, key1)"
    and "\<And>t col. like_column (mk t col) t col"
  shows "\<forall>a \<in> set (map (\<lambda>(k, t, col). merged_param params n (NewInferredParam k (col_IsNotNull col)) (mk t col)) found).
    typed_parameter c a"
  using match_tables_ok [OF assms(1,2)] assms(3) by (auto intro!: typed_by_column)

lemma resolve_expr_typed:
  assumes "resolver_ok c r" and "resolve_expr ps c params r ref op l e = Inr as"
  shows "\<forall>a \<in> set as. typed_parameter c a"
proof (cases "first_column_ref l e")
  case (Inl x)
  with assms(2) show ?thesis by (simp add: resolve_expr_def)
next
  case (Inr node)
  show ?thesis
  proof (cases node)
    case None
    with assms(2) Inr show ?thesis by (auto simp: resolve_expr_def intro!: typed_without_table)
  next
    case (Some n)
    with assms(2) Inr obtain key ts found key1 where m: "match_tables c r (ref_name ref) key ts = (found, key1)"
      and "as = map (\<lambda>(k, t, col). merged_param params (num_of ps ref) (NewInferredParam k (col_IsNotNull col))
             (column_param col t)) found"
      by (auto simp: resolve_expr_def split: sum.split_asm option.split_asm prod.split_asm)
    with found_typed [OF assms(1) m, of "\<lambda>t col. column_param col t"] show ?thesis by simp
  qed
qed

lemma map_filter_mem: "x \<in> set (List.map_filter f xs) \<longleftrightarrow> (\<exists>y \<in> set xs. f y = Some x)"
  by (force simp: List.map_filter_def)

lemma resolve_between_typed:
  assumes "resolver_ok c r" and "resolve_between ps c params r ref e left right = Inr as"
  shows "\<forall>a \<in> set as. typed_parameter c a"
proof
  fix a
  let ?mk = "\<lambda>t col p isNamed. (column_param col t p isNamed)
      \<lparr>qc_Name := (if isNamed then [] else between_prefix (ref_ref ref) left right) @ p_name p,
       qc_OriginalName := [], qc_Length := None\<rparr>"
  assume "a \<in> set as"
  with assms(2) obtain t key col where l: "lookup_column c r t key = Some col"
    and a: "a = merged_param params (num_of ps ref) (NewInferredParam key (col_IsNotNull col)) (?mk t col)"
    by (auto simp: resolve_between_def map_filter_mem split: sum.split_asm option.split_asm if_split_asm)
  show "typed_parameter c a" unfolding a
    by (rule typed_by_column [OF lookup_column_ok [OF assms(1) l]]) (simp add: like_column_def column_param_def)
qed

lemma call_params_typed: "call_params ps params fun k i items = Inr as \<Longrightarrow> \<forall>a \<in> set as. typed_parameter c a"
  by (induction ps params "fun" k i items arbitrary: as rule: call_params.induct)
    (auto split: option.splits sum.splits intro!: typed_without_table)

lemma unknown_typed [simp]: "typed_parameter c (addUnknownParam ps params ref)"
  by (auto simp: addUnknownParam_def intro!: typed_without_table)

lemma resolve_func_typed:
  assumes "resolver_ok c r" and "resolve_func ps c params r ref n = Inr (as, r')"
  shows "(\<forall>a \<in> set as. typed_parameter c a) \<and> resolver_ok c r'"
  using assms(2) assms(1) resolver_ok_indexTable [OF assms(1)]
  by (auto simp: resolve_func_def Let_def split: sum.splits option.splits if_splits dest: call_params_typed)

lemma resolve_target_typed:
  assumes "resolver_ok c r" and "resolve_target ps c params r ref n = Inr a"
  shows "typed_parameter c a"
proof -
  from assms(2) obtain sch rel m col key where "rs_typeMap r sch rel = Some m" "m key = Some col"
    and a: "a = merged_param params (num_of ps ref) (NewInferredParam key (col_IsNotNull col))
       (column_param col ((named_table rel)\<lparr>tn_Schema := sch\<rparr>))"
    by (auto simp: resolve_target_def Let_def split: option.splits)
  with assms(1) have "catalog_column_of c rel col"
    using column_map_Some by (fastforce simp: resolver_ok_def catalog_column_of_def)
  then show ?thesis
    unfolding a by (intro typed_by_column [where t = "(named_table rel)\<lparr>tn_Schema := sch\<rparr>"]) simp_all
qed

lemma resolve_cast_typed: "resolve_cast ps params ref t = Inr a \<Longrightarrow> typed_parameter c a"
  by (auto simp: resolve_cast_def toColumn_def split: option.splits sum.splits intro!: typed_without_table)

lemma resolve_in_typed:
  assumes "resolver_ok c r" and "resolve_in ps c params r ref e items sel = Inr as"
  shows "\<forall>a \<in> set as. typed_parameter c a"
proof (cases "items = []")
  case True
  with assms(2) show ?thesis by (simp add: resolve_in_def)
next
  case False
  let ?mk = "\<lambda>t col p isNamed. (column_param col t p isNamed)\<lparr>qc_NotNull := col_IsNotNull col, qc_Length := None\<rparr>"
  show ?thesis
  proof (cases "as = []")
    case as: False
    with assms(2) False obtain found where
      f: "found = [] \<or> (\<exists>key ts key1. match_tables c r (ref_name ref) key ts = (found, key1))"
      and a: "as = map (\<lambda>(k, t, col). (in_number ps items, snd (merged_param params (num_of ps ref)
             (NewInferredParam k (col_IsNotNull col)) (?mk t col)))) found"
      by (auto simp: resolve_in_def split: sum.split_asm option.split_asm prod.split_asm list.split_asm if_split_asm)
    have "typed_parameter c (merged_param params (num_of ps ref) (NewInferredParam k (col_IsNotNull col)) (?mk t col))"
      if "(k, t, col) \<in> set found" for k t col
      using f that match_tables_ok [OF assms(1)]
      by (intro typed_by_column) (auto simp: like_column_def column_param_def)
    then show ?thesis unfolding a by auto
  qed simp
qed

lemma resolve_ref_typed:
  assumes "resolver_ok c r" and "resolve_ref ps c params ref r = Inr (as, r')"
  shows "(\<forall>a \<in> set as. typed_parameter c a) \<and> resolver_ok c r'"
proof (cases "ref_parent ref")
  case (ParentNode n)
  note step = assms(2) [unfolded resolve_ref_def ParentNode, simplified]
  show ?thesis
  proof (cases n)
    case (A_Expr op l e)
    with step resolve_expr_typed [OF assms(1)] assms(1) show ?thesis by auto
  next
    case (BetweenExpr e l h)
    with step resolve_between_typed [OF assms(1)] assms(1) show ?thesis by auto
  next
    case (FuncCall fc)
    with step resolve_func_typed [OF assms(1)] show ?thesis by simp
  next
    case (ResTarget t)
    with step resolve_target_typed [OF assms(1)] assms(1) show ?thesis by auto
  next
    case (TypeCast a t)
    with step resolve_cast_typed assms(1) show ?thesis by auto
  next
    case (ParamRef a)
    with step assms(1) show ?thesis by (auto simp: typed_parameter_def)
  next
    case (In e items sel)
    with step resolve_in_typed [OF assms(1)] assms(1) show ?thesis by auto
  qed (use step assms(1) in auto)
qed (use assms in \<open>auto simp: resolve_ref_def limit_param_def intro!: typed_without_table\<close>)

lemma resolve_refs_typed:
  assumes "resolver_ok c r" and "resolve_refs ps c params refs r = Inr (as, r')"
  shows "\<forall>a \<in> set as. typed_parameter c a"
proof -
  have "(\<forall>a \<in> set (fst (as, r')). typed_parameter c a) \<and> resolver_ok c (snd (as, r'))"
    using assms(2) [unfolded resolve_refs_def]
    by (rule fold_ok_inv [where P = "\<lambda>s. (\<forall>a \<in> set (fst s). typed_parameter c a) \<and> resolver_ok c (snd s)"])
      (use assms(1) resolve_ref_typed in \<open>fastforce split: sum.splits\<close>)+
  then show ?thesis by simp
qed

text \<open>C17: a parameter that is bound to a table has the data type, signedness and array dimensions of a column that the
  catalog has in a table of that name, and, unless the query names the parameter, its nullability.\<close>

theorem parameters_typed_by_catalog:
  assumes "resolveCatalogRefs ps c qc rvs args params = Inr (as, qc')" and "(k, Some q) \<in> set as"
    and "qc_Table q = Some t"
  shows "\<exists>rel tbl col. GetTable c rel = Inr tbl \<and> table_name tbl = tn_Name t \<and> col \<in> set (cols_of c tbl) \<and>
    qc_DataType q = dataType (col_Type col) \<and> qc_Unsigned q = col_IsUnsigned col \<and> qc_IsArray q = col_IsArray col \<and>
    qc_ArrayDims q = col_ArrayDims col \<and> (qc_IsNamedParam q \<or> qc_NotNull q = col_IsNotNull col)"
proof -
  from assms(1) obtain r r' where r: "fold_ok (index_range_var c qc) rvs empty_resolver = Inr r"
    and refs: "resolve_refs ps c params args r = Inr (as, r')"
    by (auto simp: resolveCatalogRefs_def split: sum.splits)
  have "resolver_ok c r"
    by (rule fold_ok_inv [OF r, where P = "resolver_ok c"]) (use resolver_ok_empty resolver_ok_index_range_var in blast)+
  from resolve_refs_typed [OF this refs] assms(2,3) show ?thesis
    by (fastforce simp: typed_parameter_def catalog_column_of_def has_type_of_def)
qed


definition ex_resolved :: "parameter list \<times> query_catalog" where
  "ex_resolved = projr (resolveCatalogRefs ex_params ex_catalog ex_qc [plain_range_var ''t''] (fst ex_found) (NewParamSet fmempty True))"

definition ex_parameter :: qcolumn where
  "ex_parameter = the (snd (hd (fst ex_resolved)))"

lemma ex_resolve:
  "resolveCatalogRefs ex_params ex_catalog ex_qc [plain_range_var ''t''] (fst ex_found) (NewParamSet fmempty True) = Inr ex_resolved"
proof -
  have "(case resolveCatalogRefs ex_params ex_catalog ex_qc [plain_range_var ''t''] (fst ex_found) (NewParamSet fmempty True) of
      Inl e \<Rightarrow> False | Inr s \<Rightarrow> True)"
    by code_simp
  then show ?thesis by (auto simp: ex_resolved_def split: sum.splits)
qed

theorem parameters_typed_by_catalog_witness:
  "\<exists>rel tbl col. GetTable ex_catalog rel = Inr tbl \<and> table_name tbl = ''t'' \<and> col \<in> set (cols_of ex_catalog tbl) \<and>
    qc_DataType ex_parameter = dataType (col_Type col) \<and> qc_NotNull ex_parameter = col_IsNotNull col"
proof -
  have "(case fst ex_resolved of (k, Some q) # _ \<Rightarrow> k = 1 \<and> qc_Table q = Some (named_table ''t'') \<and> \<not> qc_IsNamedParam q | _ \<Rightarrow> False)"
    by code_simp
  then have q: "(1, Some ex_parameter) \<in> set (fst ex_resolved)" "qc_Table ex_parameter = Some (named_table ''t'')"
      "\<not> qc_IsNamedParam ex_parameter"
    by (auto simp: ex_parameter_def split: list.splits option.splits)
  have "resolveCatalogRefs ex_params ex_catalog ex_qc [plain_range_var ''t''] (fst ex_found) (NewParamSet fmempty True) =
      Inr (fst ex_resolved, snd ex_resolved)" using ex_resolve by simp
  from parameters_typed_by_catalog [OF this q(1,2)] q(3) show ?thesis by auto
qed

end
