(* ===== verification/Query_Corner.thy ===== *)
theory Query_Corner
  imports Query_Resolve_Props
begin

text \<open>
  The checks of INSERT statements characterised, and places where the analysis of a query does not do what it is
  meant to do, each shown on a concrete query.
\<close>

section \<open>Accepted INSERT statements\<close>

lemma first_error_None: "first_error f xs = None \<longleftrightarrow> (\<forall>x \<in> set xs. f x = None)"
  by (induction xs) (auto split: option.splits)

definition assigns_known :: "string set \<Rightarrow> node \<Rightarrow> bool" where
  "assigns_known names item \<longleftrightarrow>
     (\<forall>target n. item = ResTarget target \<longrightarrow> rt_Name target = Some n \<longrightarrow>
        n \<in> names \<and>
        (\<forall>ref ex. rt_Val target = ColumnRef ref \<longrightarrow> excludedColumnRef ref = Some ex \<longrightarrow> ex \<in> names))"

definition indexes_known :: "string set \<Rightarrow> node \<Rightarrow> bool" where
  "indexes_known names item \<longleftrightarrow> (\<forall>n e cl oc. item = IndexElem (Some n) e cl oc \<longrightarrow> n \<in> names)"

lemma check_assignment_None: "check_assignment rel names item = None \<longleftrightarrow> assigns_known (set names) item"
proof (cases "as_ResTarget item")
  case None
  then have "item \<noteq> ResTarget t" for t by auto
  with None show ?thesis by (simp add: check_assignment_def assigns_known_def)
next
  case (Some target)
  then show ?thesis
  proof (cases "as_ColumnRef (rt_Val target)")
    case None
    then have "rt_Val target \<noteq> ColumnRef r" for r by auto
    with None Some show ?thesis
      by (cases "rt_Name target") (simp_all add: check_assignment_def assigns_known_def)
  next
    case (Some ref)
    with \<open>as_ResTarget item = Some target\<close> show ?thesis
      by (cases "rt_Name target"; cases "excludedColumnRef ref") (simp_all add: check_assignment_def assigns_known_def)
  qed
qed

lemma check_index_elem_None: "check_index_elem rel names loc item = None \<longleftrightarrow> indexes_known (set names) item"
proof (cases item)
  case (IndexElem n e cl oc)
  then show ?thesis by (cases n) (simp_all add: check_index_elem_def indexes_known_def)
qed (simp_all add: check_index_elem_def indexes_known_def)

text \<open>What \<open>ON CONFLICT DO UPDATE\<close> may say about a table: it names a conflict target, of columns of the table, and its
  assignments are of columns of the table, from columns of the table where \<open>EXCLUDED.c\<close> is all that is assigned.\<close>

definition conflict_known :: "catalog \<Rightarrow> tableName \<Rightarrow> node on_conflict_clause \<Rightarrow> bool" where
  "conflict_known c fqn oc \<longleftrightarrow>
     (\<exists>t infer. GetTable c fqn = Inr t \<and> oc_Infer oc = Some infer \<and>
        list_all (indexes_known (col_Name ` set (cols_of c t))) (opt_items (ic_IndexElems infer)) \<and>
        list_all (assigns_known (col_Name ` set (cols_of c t))) (opt_items (oc_TargetList oc)))"

lemma onConflictClause_None:
  "onConflictClause c fqn n = None \<longleftrightarrow>
     (case is_OnConflictClause n of None \<Rightarrow> True
      | Some oc \<Rightarrow> oc_Action oc \<noteq> OnConflictActionUpdate \<or> conflict_known c fqn oc)"
proof (cases "is_OnConflictClause n")
  case (Some oc)
  have both: "(case a of None \<Rightarrow> b | Some e \<Rightarrow> Some e) = None \<longleftrightarrow> a = None \<and> b = None" for a b :: "error option"
    by (cases a) simp_all
  show ?thesis
    using Some
    by (cases "GetTable c fqn"; cases "oc_Infer oc")
      (simp_all add: onConflictClause_def conflict_known_def Let_def both first_error_None check_index_elem_None
        check_assignment_None list_all_iff)
qed (simp add: onConflictClause_def)

text \<open>C19: an INSERT of one row of values is accepted exactly if it has as many values as target columns and, under
  \<open>ON CONFLICT DO UPDATE\<close>, the table exists, a conflict target is given, every column of the conflict target and every
  column assigned to is one of the table's, and so is the column \<open>c\<close> of every assignment whose whole value is
  \<open>EXCLUDED.c\<close>.  What stands inside a larger expression is not checked.\<close>

theorem insert_accepted_iff:
  assumes "is_SelectStmt stmt = SelectStmt sel" and "ss_ValuesLists sel = Some [NodeList vals]" and "is_Cols stmt = Some cols"
  shows "validate_InsertStmt c fqn stmt = None \<longleftrightarrow>
    length vals = length cols \<and>
    (\<forall>oc. is_OnConflictClause stmt = Some oc \<longrightarrow> oc_Action oc = OnConflictActionUpdate \<longrightarrow> conflict_known c fqn oc)"
  using assms onConflictClause_None [of c fqn stmt]
  by (auto simp: validate_InsertStmt_def Items_def split: option.splits)

text \<open>\<open>INSERT INTO t (id) VALUES ($1) ON CONFLICT (id) DO UPDATE SET name = ...\<close>.\<close>

definition ex_insert_set :: "node \<Rightarrow> node insert_stmt" where
  "ex_insert_set value = mk_InsertStmt (Some (plain_range_var ''t'')) (Some [ResTarget (mk_ResTarget (Some ''id'') None NilNode 15)])
     (SelectStmt (mk_SelectStmt None NilNode (Some []) (Some []) NilNode None NilNode NilNode None
        (Some [NodeList [ParamRef 0]]) None NilNode NilNode None None None None))
     (Some (mk_OnConflictClause OnConflictActionUpdate
        (Some (mk_InferClause (Some [IndexElem (Some ''id'') NilNode None None]) NilNode 50))
        (Some [ResTarget (mk_ResTarget (Some ''name'') None value 60)]) NilNode))
     NilNode None None [] []"

definition ex_excluded :: "string \<Rightarrow> node" where
  "ex_excluded col = ColumnRef (mk_ColumnRef [] (Some [String ''excluded'', String col]) 70)"

definition ex_insert :: "string \<Rightarrow> node insert_stmt" where
  "ex_insert col = ex_insert_set (ex_excluded col)"

theorem insert_accepted_iff_witness:
  "validate_InsertStmt ex_catalog (named_table ''t'') (ex_insert ''name'') = None \<and>
   validate_InsertStmt ex_catalog (named_table ''t'') (ex_insert ''nom'') \<noteq> None"
proof -
  let ?sel = "\<lambda>col. the (as_SelectStmt (is_SelectStmt (ex_insert col)))"
  have iff: "validate_InsertStmt ex_catalog (named_table ''t'') (ex_insert col) = None \<longleftrightarrow>
      length [ParamRef 0] = length [ResTarget (mk_ResTarget (Some ''id'') None NilNode 15)] \<and>
      (\<forall>oc. is_OnConflictClause (ex_insert col) = Some oc \<longrightarrow> oc_Action oc = OnConflictActionUpdate \<longrightarrow>
         conflict_known ex_catalog (named_table ''t'') oc)" for col
    by (rule insert_accepted_iff [of _ "?sel col"]) (simp_all add: ex_insert_def ex_insert_set_def)
  have t: "GetTable ex_catalog (named_table ''t'') = Inr \<lparr>tbl_Rel = named_table ''t'', tbl_Columns = [0, 1], tbl_Comment = []\<rparr>"
    by code_simp
  have cols: "col_Name ` set (cols_of ex_catalog \<lparr>tbl_Rel = named_table ''t'', tbl_Columns = [0, Suc 0], tbl_Comment = []\<rparr>) =
      {''id'', ''name''}"
    by (simp add: cols_of_def ex_catalog_def ex_column_def)
  have "excludedColumnRef (mk_ColumnRef [] (Some [String ''excluded'', String col]) 70) = Some col" for col
  proof -
    have "EqualFold ''excluded'' ''EXCLUDED''" by code_simp
    then show ?thesis by (simp add: excludedColumnRef_def)
  qed
  then show ?thesis
    unfolding iff by (simp add: ex_insert_def ex_insert_set_def ex_excluded_def conflict_known_def t cols opt_items_def indexes_known_def assigns_known_def)
qed

text \<open>\<open>ON CONFLICT (id) DO UPDATE SET name = EXCLUDED.nom || 1\<close> is accepted, though the table has no column \<open>nom\<close>.\<close>

lemma excluded_in_expression_not_checked:
  "validate_InsertStmt ex_catalog (named_table ''t'')
     (ex_insert_set (A_Expr (Some [String ''||'']) (ex_excluded ''nom'') (A_Const (Integer 1)))) = None"
  by code_simp

section \<open>Subqueries in a join condition\<close>

definition ex_alias_var :: "string \<Rightarrow> string \<Rightarrow> node" where
  "ex_alias_var n al = RangeVar (mk_RangeVar None None (Some n) (Some (mk_Alias (Some al) None)))"

text \<open>\<open>SELECT * FROM t JOIN t b ON EXISTS (SELECT * FROM u)\<close>.\<close>

definition ex_join_condition :: "node select_stmt" where
  "ex_join_condition = plain_select [star_target 7]
     [JoinExpr JoinTypeInner (RangeVar (plain_range_var ''t'')) (ex_alias_var ''t'' ''b'') None
        (SubLink NilNode EXISTS_SUBLINK NilNode None
           (SelectStmt (plain_select [star_target 40] [RangeVar (plain_range_var ''u'')]))) None]"

text \<open>The table visitor goes into the condition of a join, so the table of the subquery becomes a source table of the
  query, and \<open>SELECT *\<close> returns its columns as well.\<close>

lemma join_condition_adds_tables:
  "(case outputColumns ex_compiler (SelectStmt ex_join_condition) ex_qc of
      Inl e \<Rightarrow> False
    | Inr (cols, _) \<Rightarrow> map (\<lambda>q. (qc_TableAlias q, qc_Name q)) cols =
        [(''t'', ''id''), (''t'', ''name''), (''b'', ''id''), (''b'', ''name''), (''u'', ''id'')])"
  by code_simp

section \<open>Parameters\<close>

text \<open>\<open>SELECT * FROM t WHERE id IN ($1, $2)\<close>: two references, two parameters, both with the number of the first.\<close>

definition ex_in :: node where
  "ex_in = In (ColumnRef ex_param_ref) [ParamRef 0, ParamRef 1] NilNode"

lemma in_list_parameters_share_number:
  "(case findParameters ex_params (SelectStmt (ex_where ex_in)) of
      Inl e \<Rightarrow> False
    | Inr (refs, errs) \<Rightarrow>
        map (num_of ex_params) refs = [1, 2] \<and>
        (case resolveCatalogRefs ex_params ex_catalog ex_qc [plain_range_var ''t''] refs (NewParamSet fmempty True) of
           Inl e \<Rightarrow> False
         | Inr (as, _) \<Rightarrow> map fst as = [1, 1]))"
  by code_simp

text \<open>\<open>SELECT * FROM t WHERE ($1 + 1) IN (2)\<close>: the walk does not go below the left operand of IN.\<close>

lemma in_left_operand_not_searched:
  "findParameters ex_params
     (SelectStmt (ex_where (In (A_Expr (Some [String ''+'']) (ParamRef 0) (A_Const (Integer 1))) [A_Const (Integer 2)] NilNode)))
   = Inr ([], [])"
  by code_simp

text \<open>\<open>t.id BETWEEN $1 AND $2\<close> where two tables have an \<open>id\<close>: the qualifier is not looked at, and each bound becomes
  two parameters.\<close>

definition ex_between :: node where
  "ex_between = BetweenExpr (ColumnRef (mk_ColumnRef [] (Some [String ''t'', String ''id'']) 25)) (ParamRef 0) (ParamRef 1)"

lemma between_parameters_twice:
  "(case findParameters ex_params (SelectStmt (ex_where ex_between)) of
      Inl e \<Rightarrow> False
    | Inr (refs, errs) \<Rightarrow>
        (case resolveCatalogRefs ex_params ex_catalog ex_qc [plain_range_var ''t'', plain_range_var ''u''] refs
            (NewParamSet fmempty True) of
           Inl e \<Rightarrow> False
         | Inr (as, _) \<Rightarrow> map fst as = [1, 1, 2, 2]))"
  by code_simp

text \<open>Two references without a number get the same one.\<close>

lemma unnumbered_references_share_number:
  "uniqueParamRefs [ex_ref 0, ex_ref 1] False (\<lambda>a. (ex_params a)\<lparr>pr_Number := 0\<rparr>) = (out, ps) \<Longrightarrow>
     map (num_of ps) out = [1, 1]"
  by (auto simp: uniqueParamRefs_def Let_def num_of_def ex_ref_def next_start.simps)

section \<open>Columns\<close>

text \<open>A schema-qualified table is shadowed by a common table expression of its name.\<close>

lemma cte_shadows_qualified_table:
  "qcat_ctes qc n = Some cols \<Longrightarrow>
     qc_GetTable qc ((named_table n)\<lparr>tn_Schema := s\<rparr>) =
       Inr \<lparr>qt_Rel = (named_table n)\<lparr>tn_Schema := s\<rparr>, qt_Cte = Some n, qt_Own = []\<rparr>"
  by (simp add: qc_GetTable_def)

text \<open>Bare stars count column names as they are, and look the count up under the quoted name: a name that has to be
  quoted is not qualified, however many tables have it.\<close>

lemma quoted_name_not_qualified:
  assumes "comp_IsReservedKeyword c n" and "comp_Engine c = EnginePostgreSQL" and "qc_Name col = n"
    and "\<forall>t \<in> set tables. \<forall>q \<in> set (columns_of qc t). qc_Name q \<noteq> quote c n"
  shows "star_name c qc tables None [] t col = quote c n"
proof -
  have "name_count qc tables [] (quote c n) = 0" using assms(4) by (auto simp: name_count_def filter_empty_conv)
  with assms(1-3) show ?thesis by (simp add: star_name_def quoteIdent_def ColumnExpr_def)
qed

end
