(* ===== verification/Type_Expr.thy ===== *)
theory Type_Expr
  imports Metadata GoText
begin

text \<open>
  The type expressions of the analysis core, \<open>internal/core/typeexpr.go\<close>, and the rules by which a dialect rewrites
  them, from \<open>rewrite.go\<close>.

  A \<open>*TypeExpr\<close> that may be nil is an \<open>option\<close>; a pointer to a literal in a \<open>TypeArg\<close> is an \<open>option\<close> of it.  The code
  shares expressions but never writes through a shared one, so an expression is a value and \<open>Clone\<close> is the identity.
\<close>

section \<open>Errors\<close>

text \<open>
  An error of the package is its text and the sentinel that \<open>errors.Is\<close> finds in it: \<open>errUnknownType\<close>, the
  \<open>sql.ErrNoRows\<close> of a query without a row, a constraint that an insert violates, or none.  \<open>CorePanic\<close> is a run-time panic,
  and the overflow of the stack by a recursion that does not end.
\<close>

datatype core_cause = NoCause | ErrNoRows | errUnknownType | ErrConstraint

datatype core_error = CoreError core_cause string | CorePanic string

text \<open>\<open>fmt.Errorf("...: %w", err)\<close>.\<close>

fun wrap :: "string \<Rightarrow> core_error \<Rightarrow> core_error" where
  "wrap p (CoreError k s) = CoreError k (p @ '': '' @ s)"
| "wrap p (CorePanic s) = CorePanic s"

section \<open>Expressions\<close>

datatype type_expr = mk_TypeExpr (te_Name: string) (te_Nullable: bool) (te_Args: "type_arg list")
  and type_arg =
    mk_TypeArg (ta_Label: string) (ta_Type: "type_expr option") (ta_Int: "int option") (ta_Bool: "bool option")
      (ta_String: "string option") (ta_Ident: "string option")

abbreviation type_argument :: "string \<Rightarrow> type_expr \<Rightarrow> type_arg" where
  "type_argument label t \<equiv> mk_TypeArg label (Some t) None None None None"

abbreviation int_argument :: "string \<Rightarrow> int \<Rightarrow> type_arg" where
  "int_argument label n \<equiv> mk_TypeArg label None (Some n) None None None"

abbreviation bool_argument :: "string \<Rightarrow> bool \<Rightarrow> type_arg" where
  "bool_argument label b \<equiv> mk_TypeArg label None None (Some b) None None"

abbreviation string_argument :: "string \<Rightarrow> string \<Rightarrow> type_arg" where
  "string_argument label s \<equiv> mk_TypeArg label None None None (Some s) None"

abbreviation ident_argument :: "string \<Rightarrow> string \<Rightarrow> type_arg" where
  "ident_argument label s \<equiv> mk_TypeArg label None None None None (Some s)"

fun with_Nullable :: "bool \<Rightarrow> type_expr \<Rightarrow> type_expr" where
  "with_Nullable b (mk_TypeExpr n _ as) = mk_TypeExpr n b as"

fun with_Label :: "string \<Rightarrow> type_arg \<Rightarrow> type_arg" where
  "with_Label l (mk_TypeArg _ t i b s d) = mk_TypeArg l t i b s d"

lemma size_arg_type: "ta_Type a = Some t \<Longrightarrow> size t < size a"
  by (cases a) simp

lemma size_te_arg: "a \<in> set (te_Args t) \<Longrightarrow> size a < size t"
  by (cases t) (auto dest: size_list_estimation' [of _ _ _ size] simp: less_Suc_eq_le intro: size_list_estimation')

section \<open>Arrays\<close>

definition Array :: "type_expr \<Rightarrow> type_expr" where
  "Array element = mk_TypeExpr ''array'' False [type_argument [] element]"

definition Element :: "type_expr \<Rightarrow> type_expr option" where
  "Element t = (if te_Name t = ''array'' then (case te_Args t of [] \<Rightarrow> None | a # _ \<Rightarrow> ta_Type a) else None)"

definition TypeExpr_IsArray :: "type_expr \<Rightarrow> bool" where
  "TypeExpr_IsArray t \<longleftrightarrow> Element t \<noteq> None"

lemma Element_smaller:
  assumes "Element t = Some e"
  shows "size e < size t"
proof -
  from assms obtain a as where "te_Args t = a # as" "ta_Type a = Some e"
    by (auto simp: Element_def split: if_splits list.splits)
  with size_te_arg [of a t] size_arg_type [of a e] show ?thesis by simp
qed

function TypeExpr_ArrayDims :: "type_expr \<Rightarrow> nat" where
  "TypeExpr_ArrayDims t = (case Element t of None \<Rightarrow> 0 | Some e \<Rightarrow> Suc (TypeExpr_ArrayDims e))"
  by pat_completeness auto
termination
  by (relation "measure size") (auto dest: Element_smaller)

function Innermost :: "type_expr \<Rightarrow> type_expr" where
  "Innermost t = (case Element t of None \<Rightarrow> t | Some e \<Rightarrow> Innermost e)"
  by pat_completeness auto
termination
  by (relation "measure size") (auto dest: Element_smaller)

declare TypeExpr_ArrayDims.simps [simp del] Innermost.simps [simp del]

fun HasNullable :: "type_expr \<Rightarrow> bool" and arg_HasNullable :: "type_arg \<Rightarrow> bool" where
  "HasNullable (mk_TypeExpr _ nullable as) = (nullable \<or> list_ex arg_HasNullable as)"
| "arg_HasNullable (mk_TypeArg _ t _ _ _ _) = (case t of None \<Rightarrow> False | Some e \<Rightarrow> HasNullable e)"

section \<open>Printing\<close>

definition quote_literal :: "string \<Rightarrow> string" where
  "quote_literal s = [CHR 0x27] @ ReplaceAll s [CHR 0x27] [CHR 0x5C, CHR 0x27] @ [CHR 0x27]"

fun TypeExpr_String :: "type_expr \<Rightarrow> string" and type_arg_text :: "type_arg \<Rightarrow> string" where
  "TypeExpr_String (mk_TypeExpr n nullable as) =
     n @ (if as = [] then [] else ''('' @ Join (map type_arg_text as) '', '' @ '')'') @
     (if nullable then '' nullable'' else [])"
| "type_arg_text (mk_TypeArg label t i b s d) =
     (if label \<noteq> [] then label @ '': '' else []) @
     (case t of
        Some e \<Rightarrow> TypeExpr_String e
      | None \<Rightarrow>
          (case i of
             Some k \<Rightarrow> Itoa k
           | None \<Rightarrow>
               (case b of
                  Some v \<Rightarrow> (if v then ''true'' else ''false'')
                | None \<Rightarrow>
                    (case s of
                       Some w \<Rightarrow> quote_literal w
                     | None \<Rightarrow> (case d of Some w \<Rightarrow> w | None \<Rightarrow> [])))))"

text \<open>The spelling that identifies the row of an expression in the catalog.\<close>

definition Key :: "type_expr \<Rightarrow> string" where
  "Key t = (if te_Nullable t then TypeExpr_String (with_Nullable False t) else TypeExpr_String t)"

section \<open>Reading\<close>

abbreviation apostrophe :: char where
  "apostrophe \<equiv> CHR 0x27"

abbreviation backslash :: char where
  "backslash \<equiv> CHR 0x5C"

definition opens_quote :: "char \<Rightarrow> bool" where
  "opens_quote ch \<longleftrightarrow> ch = apostrophe \<or> ch = CHR 0x22 \<or> ch = CHR 0x60"

text \<open>\<open>matchingParen\<close>: \<open>q\<close> is the quote the loop is inside of, \<open>i\<close> the place of the next byte.\<close>

fun matching_loop :: "nat \<Rightarrow> nat \<Rightarrow> char option \<Rightarrow> string \<Rightarrow> nat option" where
  "matching_loop i depth q [] = None"
| "matching_loop i depth (Some q) (ch # cs) =
     (if ch = backslash then (case cs of [] \<Rightarrow> None | _ # ds \<Rightarrow> matching_loop (i + 2) depth (Some q) ds)
      else if ch = q then matching_loop (Suc i) depth None cs
      else matching_loop (Suc i) depth (Some q) cs)"
| "matching_loop i depth None (ch # cs) =
     (if opens_quote ch then matching_loop (Suc i) depth (Some ch) cs
      else if ch = CHR ''('' then matching_loop (Suc i) (Suc depth) None cs
      else if ch = CHR '')'' then (if depth = 1 then Some i else matching_loop (Suc i) (depth - 1) None cs)
      else matching_loop (Suc i) depth None cs)"

definition matchingParen :: "string \<Rightarrow> nat \<Rightarrow> nat option" where
  "matchingParen t start = matching_loop start 0 None (drop start t)"

text \<open>The loop over the arguments: those before the last comma outside of parentheses, and the rest.\<close>

fun args_loop :: "int \<Rightarrow> char option \<Rightarrow> string \<Rightarrow> string \<Rightarrow> string list \<times> string" where
  "args_loop depth q cur [] = ([], cur)"
| "args_loop depth (Some q) cur (ch # cs) =
     (if ch = backslash then
        (case cs of [] \<Rightarrow> ([], cur @ [ch]) | d # ds \<Rightarrow> args_loop depth (Some q) (cur @ [ch, d]) ds)
      else args_loop depth (if ch = q then None else Some q) (cur @ [ch]) cs)"
| "args_loop depth None cur (ch # cs) =
     (if opens_quote ch then args_loop depth (Some ch) (cur @ [ch]) cs
      else if ch = CHR ''('' then args_loop (depth + 1) None (cur @ [ch]) cs
      else if ch = CHR '')'' then args_loop (depth - 1) None (cur @ [ch]) cs
      else if ch = CHR '','' \<and> depth = 0 then
        (case args_loop depth None [] cs of (args, rest) \<Rightarrow> (TrimSpace cur # args, rest))
      else args_loop depth None (cur @ [ch]) cs)"

definition split_args_text :: "string \<Rightarrow> string list" where
  "split_args_text inner =
     (case args_loop 0 None [] inner of
        (args, rest) \<Rightarrow> if TrimSpace rest \<noteq> [] \<or> args \<noteq> [] then args @ [TrimSpace rest] else args)"

definition splitTypeArgs :: "string \<Rightarrow> string \<times> string list" where
  "splitTypeArgs t =
     (case IndexByte t (CHR ''('') of
        None \<Rightarrow> (t, [])
      | Some start \<Rightarrow>
          (case matchingParen t start of
             None \<Rightarrow> (t, [])
           | Some stop \<Rightarrow>
               (let base = TrimSpace (take start t); rest = TrimSpace (drop (Suc stop) t) in
                (if rest \<noteq> [] then base @ '' '' @ rest else base, split_args_text (substr (Suc start) stop t)))))"

fun quoted_loop :: "nat \<Rightarrow> string \<Rightarrow> nat" where
  "quoted_loop i [] = i"
| "quoted_loop i (ch # cs) =
     (case cs of
        [] \<Rightarrow> Suc i
      | d # ds \<Rightarrow>
          if ch = backslash then quoted_loop (i + 2) ds
          else if ch = apostrophe \<and> d = apostrophe then quoted_loop (i + 2) ds
          else if ch = apostrophe then Suc i
          else quoted_loop (Suc i) cs)"

definition quotedEnd :: "string \<Rightarrow> nat" where
  "quotedEnd s = (if s = [] then 0 else quoted_loop 1 (tl s))"

text \<open>\<open>strconv.ParseInt(s, 10, 64)\<close>, \<open>None\<close> for an error.\<close>

definition ParseInt :: "string \<Rightarrow> int option" where
  "ParseInt s =
     (let neg = HasPrefix s ''-''; ds = (if neg \<or> HasPrefix s ''+'' then tl s else s) in
      if ds = [] \<or> \<not> list_all is_digit_byte ds then None
      else
        (let v = int (digits_value ds) in
         if neg then (if v \<le> 2 ^ 63 then Some (- v) else None) else if v < 2 ^ 63 then Some v else None))"

definition ContainsAny :: "string \<Rightarrow> string \<Rightarrow> bool" where
  "ContainsAny s chars \<longleftrightarrow> list_ex (\<lambda>ch. ch \<in> set chars) s"

text \<open>The label of an argument, and where the type after it starts.\<close>

definition label_at :: "string \<Rightarrow> (string \<times> nat) option" where
  "label_at a =
     (let head = (case IndexByte a (CHR ''('') of Some p \<Rightarrow> take p a | None \<Rightarrow> a);
          at_space = (case IndexByte head (CHR '' '') of
                        Some i \<Rightarrow> if 0 < i \<and> \<not> Contains (TrimSpace (drop (Suc i) head)) '' '' then Some (take i a, Suc i) else None
                      | None \<Rightarrow> None)
      in case IndexByte head (CHR '':'') of
           Some i \<Rightarrow>
             if 0 < i \<and> \<not> ContainsAny (take i head) [CHR '' '', apostrophe, CHR 0x22]
             then Some (TrimSpace (take i a), Suc i) else at_space
         | None \<Rightarrow> at_space)"

lemma TrimRightSpace_length: "length (TrimRightSpace s) \<le> length s"
proof (induction s rule: TrimRightSpace.induct)
  case (1 s)
  show ?case
  proof (cases "find (HasSuffix s) space_runes")
    case None
    then show ?thesis by (simp add: TrimRightSpace.simps [of s])
  next
    case (Some r)
    show ?thesis
    proof (cases "s = []")
      case True
      then show ?thesis by (simp add: TrimRightSpace.simps [of "[]"])
    next
      case False
      with 1 Some have "length (TrimRightSpace (take (length s - length r) s)) \<le> length (take (length s - length r) s)"
        by blast
      with Some False show ?thesis by (simp add: TrimRightSpace.simps [of s])
    qed
  qed
qed

lemma TrimSpace_length: "length (TrimSpace s) \<le> length s"
  unfolding TrimSpace_def by (rule order_trans [OF TrimRightSpace_length TrimLeftSpace_length])

lemma matching_loop_less: "matching_loop i depth q s = Some k \<Longrightarrow> i \<le> k \<and> k < i + length s"
  by (induction i depth q s rule: matching_loop.induct) (auto split: if_splits list.splits)

lemma args_loop_length:
  "args_loop depth q cur s = (args, rest) \<Longrightarrow>
     (\<forall>a \<in> set args. length a \<le> length cur + length s) \<and> length rest \<le> length cur + length s"
proof (induction depth q cur s arbitrary: args rest rule: args_loop.induct)
  case (2 depth q cur ch cs)
  then show ?case by (cases cs) (fastforce split: if_splits)+
next
  case (3 depth cur ch cs)
  show ?case
  proof (cases "ch = CHR '','' \<and> depth = 0")
    case True
    then have "\<not> opens_quote ch" by (simp add: opens_quote_def)
    with True 3 show ?thesis
      using TrimSpace_length [of cur] by (fastforce split: prod.splits)
  next
    case False
    with 3 show ?thesis by (fastforce split: if_splits)
  qed
qed simp

lemma split_args_length:
  assumes "a \<in> set (snd (splitTypeArgs t))"
  shows "length a < length t"
proof -
  from assms obtain start stop where start: "IndexByte t (CHR ''('') = Some start" and stop: "matchingParen t start = Some stop"
    and a: "a \<in> set (split_args_text (substr (Suc start) stop t))"
    by (auto simp: splitTypeArgs_def Let_def split: option.splits)
  have lt: "start < length t" using find_idx_less start unfolding IndexByte_def by blast
  have st: "start \<le> stop" "stop < length t"
    using matching_loop_less [of start 0 None "drop start t" stop] stop lt by (auto simp: matchingParen_def)
  obtain args rest where r: "args_loop 0 None [] (substr (Suc start) stop t) = (args, rest)" by force
  have "length a \<le> length (substr (Suc start) stop t)"
    using a args_loop_length [OF r] TrimSpace_length [of rest] r
    by (auto simp: split_args_text_def split: if_splits)
  moreover have "length (substr (Suc start) stop t) < length t" using st by (simp add: substr_def)
  ultimately show ?thesis by simp
qed

lemma label_at_pos: "label_at a = Some (l, i) \<Longrightarrow> 0 < i \<and> a \<noteq> []"
  by (cases a) (auto simp: label_at_def Let_def IndexByte_def split: option.splits if_splits)

text \<open>\<open>ParseTypeExpr\<close> and \<open>parseTypeArg\<close>; the slice of a literal panics when the literal is a lone apostrophe.\<close>

definition literal_of :: "string \<Rightarrow> core_error + string" where
  "literal_of a =
     (if quotedEnd a < 2 then Inl (CorePanic ''slice bounds out of range'')
      else Inr (ReplaceAll (ReplaceAll (substr 1 (quotedEnd a - 1) a) [backslash, apostrophe] [apostrophe])
             [apostrophe, apostrophe] [apostrophe]))"

definition after_equals :: "string \<Rightarrow> string option" where
  "after_equals a = (let rest = TrimSpace (drop (quotedEnd a) a) in if HasPrefix rest ''='' then Some (tl rest) else None)"

lemma after_equals_length: "after_equals a = Some r \<Longrightarrow> length r < length a"
  using TrimSpace_length [of "drop (quotedEnd a) a"]
  by (auto simp: after_equals_def Let_def HasPrefix_def split: if_splits) (cases "TrimSpace (drop (quotedEnd a) a)"; simp)

lemma and_then_cong [fundef_cong]: "r = r' \<Longrightarrow> (\<And>x. r' = Inr x \<Longrightarrow> f x = g x) \<Longrightarrow> and_then r f = and_then r' g"
  by (cases r') auto

lemma map_ok_cong [fundef_cong]: "xs = ys \<Longrightarrow> (\<And>x. x \<in> set ys \<Longrightarrow> f x = g x) \<Longrightarrow> map_ok f xs = map_ok g ys"
  by (induction ys arbitrary: xs) (auto intro: and_then_cong)

function ParseTypeExpr :: "unicode \<Rightarrow> string \<Rightarrow> core_error + type_expr"
  and parseTypeArg :: "unicode \<Rightarrow> string \<Rightarrow> core_error + type_arg" where
  "ParseTypeExpr u s0 =
     (let s = TrimSpace s0 in
      if HasSuffix s ''[]'' then map_sum id Array (ParseTypeExpr u (take (length s - 2) s))
      else
        (let args = snd (splitTypeArgs s); name = strings_ToLower u (fst (splitTypeArgs s)) in
         if name = ''nullable'' \<and> length args = 1
         then map_sum id (with_Nullable True) (ParseTypeExpr u (hd args))
         else map_sum id (mk_TypeExpr name False) (map_ok (parseTypeArg u) args)))"
| "parseTypeArg u a0 =
     (let a = TrimSpace a0 in
      if HasPrefix a [apostrophe] then
        and_then (literal_of a) (\<lambda>lit.
          case after_equals a of
            Some r \<Rightarrow> map_sum id (with_Label lit) (parseTypeArg u r)
          | None \<Rightarrow> Inr (string_argument [] lit))
      else
        (case ParseInt a of
           Some n \<Rightarrow> Inr (int_argument [] n)
         | None \<Rightarrow>
             if strings_ToLower u a \<in> {''true'', ''false''} then Inr (bool_argument [] (EqualFold a ''true''))
             else
               (case label_at a of
                  Some (l, i) \<Rightarrow> map_sum id (type_argument l) (ParseTypeExpr u (drop i a))
                | None \<Rightarrow> map_sum id (type_argument []) (ParseTypeExpr u a))))"
  by pat_completeness auto
termination
proof (relation "measure (case_sum (\<lambda>(u, s). 2 * length s) (\<lambda>(u, a). 2 * length a + 1))", goal_cases)
  case 1
  show ?case by simp
next
  case (2 u s0 s)
  then have "2 \<le> length (TrimSpace s0)" by (simp add: HasSuffix_def)
  then show ?case using TrimSpace_length [of s0] 2 by (simp add: less_diff_conv)
next
  case (3 u s0 s args name)
  then have "args \<noteq> []" by (intro notI) simp
  then have "hd args \<in> set (snd (splitTypeArgs s))" using 3(3) hd_in_set [of args] by simp
  then show ?case using split_args_length [of "hd args" s] TrimSpace_length [of s0] 3 by simp
next
  case (4 u s0 s args name a)
  then show ?case using split_args_length [of a s] TrimSpace_length [of s0] by simp
next
  case (5 u a0 a lit r)
  then show ?case using after_equals_length [of a r] TrimSpace_length [of a0] by simp
next
  case (6 u a0 a)
  then show ?case using TrimSpace_length [of a0] by simp
next
  case (7 u a0 a p l i)
  then have "0 < i" "0 < length a" using label_at_pos [of a l i] by auto
  then show ?case using TrimSpace_length [of a0] 7(1) by simp
qed

declare ParseTypeExpr.simps [simp del] parseTypeArg.simps [simp del]

end
