(* ===== verification/Type_Expr_Props.thy ===== *)
theory Type_Expr_Props
  imports Type_Expr
begin

text \<open>
  Printing a type expression and reading it back.  An expression is \<open>plain\<close> when its names are words, nothing in it is
  nullable, its labels stand before types, and its literals are such that the printed form tells them apart.  The last
  section shows what becomes of the others.
\<close>

section \<open>Plain expressions\<close>

definition word_byte :: "char \<Rightarrow> bool" where
  "word_byte c \<longleftrightarrow> (97 \<le> byte_of c \<and> byte_of c \<le> 122) \<or> (48 \<le> byte_of c \<and> byte_of c \<le> 57) \<or> c = CHR ''_''"

definition word :: "string \<Rightarrow> bool" where
  "word s \<longleftrightarrow> s \<noteq> [] \<and> list_all word_byte s"

definition type_word :: "string \<Rightarrow> bool" where
  "type_word s \<longleftrightarrow> word s \<and> 97 \<le> byte_of (hd s) \<and> s \<notin> {''nullable'', ''true'', ''false''}"

definition plain_string :: "string \<Rightarrow> bool" where
  "plain_string s \<longleftrightarrow> ascii s \<and> apostrophe \<notin> set s \<and> backslash \<notin> set s"

fun plain_literal :: "int option \<Rightarrow> bool option \<Rightarrow> string option \<Rightarrow> string option \<Rightarrow> bool" where
  "plain_literal (Some k) None None None = (- (2 ^ 63) \<le> k \<and> k < 2 ^ 63)"
| "plain_literal None (Some b) None None = True"
| "plain_literal None None (Some s) None = plain_string s"
| "plain_literal _ _ _ _ = False"

fun plain :: "type_expr \<Rightarrow> bool" and plain_arg :: "type_arg \<Rightarrow> bool" where
  "plain (mk_TypeExpr n nullable as) \<longleftrightarrow> type_word n \<and> \<not> nullable \<and> list_all plain_arg as"
| "plain_arg (mk_TypeArg l t i b s d) \<longleftrightarrow>
     (case t of
        Some e \<Rightarrow> plain e \<and> (l = [] \<or> word l) \<and> i = None \<and> b = None \<and> s = None \<and> d = None
      | None \<Rightarrow> l = [] \<and> plain_literal i b s d)"

lemma plain_arg_cases:
  assumes "plain_arg a"
  obtains (type) l e where "a = type_argument l e" "plain e" "l = [] \<or> word l"
  | (int) k where "a = int_argument [] k" "- (2 ^ 63) \<le> k" "k < 2 ^ 63"
  | (bool) v where "a = bool_argument [] v"
  | (string) s where "a = string_argument [] s" "plain_string s"
proof (cases a)
  case (mk_TypeArg l t i b s d)
  show thesis
  proof (cases t)
    case None
    with mk_TypeArg assms have "l = []" "plain_literal i b s d" by auto
    with mk_TypeArg None int bool string show thesis
      by (cases "(i, b, s, d)" rule: plain_literal.cases) auto
  next
    case (Some e)
    with mk_TypeArg assms type show thesis by auto
  qed
qed

section \<open>Bytes\<close>

definition quiet :: "char \<Rightarrow> bool" where
  "quiet c \<longleftrightarrow> \<not> opens_quote c \<and> c \<noteq> CHR ''('' \<and> c \<noteq> CHR '')'' \<and> c \<noteq> CHR '',''"

lemma byte_neq: "byte_of c \<noteq> byte_of d \<Longrightarrow> c \<noteq> d"
  by auto

lemma word_byte_quiet: "word_byte c \<Longrightarrow> quiet c"
  by (auto simp: word_byte_def quiet_def opens_quote_def)

lemma word_byte_facts:
  assumes "word_byte c"
  shows "byte_of c < 128" "lower_byte c = c" "c \<noteq> CHR ''(''" "c \<noteq> CHR '':''" "c \<noteq> CHR '' ''" "c \<noteq> apostrophe" "c \<noteq> CHR 0x22"
    "c \<noteq> CHR '']''" "c \<noteq> CHR ''-''" "c \<noteq> CHR ''+''" "c \<noteq> CHR '')''"
  using assms by (auto simp: word_byte_def lower_byte_def)

lemma space_ends: "map hd space_runes @ map last space_runes = 
    [CHR 0x09, CHR 0x0A, CHR 0x0B, CHR 0x0C, CHR 0x0D, CHR 0x20, CHR 0xC2, CHR 0xC2, CHR 0xE1, CHR 0xE2, CHR 0xE2, CHR 0xE2,
     CHR 0xE2, CHR 0xE2, CHR 0xE2, CHR 0xE2, CHR 0xE2, CHR 0xE2, CHR 0xE2, CHR 0xE2, CHR 0xE2, CHR 0xE2, CHR 0xE2, CHR 0xE2, CHR 0xE3,
     CHR 0x09, CHR 0x0A, CHR 0x0B, CHR 0x0C, CHR 0x0D, CHR 0x20, CHR 0x85, CHR 0xA0, CHR 0x80, CHR 0x80, CHR 0x81, CHR 0x82,
     CHR 0x83, CHR 0x84, CHR 0x85, CHR 0x86, CHR 0x87, CHR 0x88, CHR 0x89, CHR 0x8A, CHR 0xA8, CHR 0xA9, CHR 0xAF, CHR 0x9F, CHR 0x80]"
  by code_simp

lemma solid_ascii: "32 < byte_of c \<Longrightarrow> byte_of c < 128 \<Longrightarrow> solid c"
proof -
  assume c: "32 < byte_of c" "byte_of c < 128"
  have "c \<notin> set (map hd space_runes @ map last space_runes)"
    unfolding space_ends using c by auto
  then show ?thesis by (simp add: solid_def)
qed

lemma word_byte_solid: "word_byte c \<Longrightarrow> solid c"
  by (rule solid_ascii) (auto simp: word_byte_def)

lemma solid_punctuation: "solid CHR '')''" "solid apostrophe" "solid CHR ''-''"
  by (rule solid_ascii; simp)+

lemma strings_ToLower_ascii: "ascii_laws u \<Longrightarrow> ascii s \<Longrightarrow> strings_ToLower u s = map lower_byte s"
  by (induction s) (auto simp: strings_ToLower_def ascii_laws_def)

lemma word_ascii: "word s \<Longrightarrow> ascii s"
  by (auto simp: word_def ascii_def list_all_iff dest: word_byte_facts)

lemma word_lower: "ascii_laws u \<Longrightarrow> word s \<Longrightarrow> strings_ToLower u s = s"
  by (subst strings_ToLower_ascii) (auto simp: word_ascii word_def list_all_iff word_byte_facts intro: map_idI)

lemma TrimSpace_space: "TrimSpace (CHR '' '' # s) = TrimSpace s"
proof -
  have "TrimLeftSpace (CHR '' '' # s) = TrimLeftSpace s"
    by (subst TrimLeftSpace.simps) (simp add: space_runes_def HasPrefix_def)
  then show ?thesis by (simp add: TrimSpace_def)
qed

section \<open>Numbers\<close>

lemma digit_byte: "n < 10 \<Longrightarrow> is_digit_byte (char_of (n + 48 :: nat))"
  by (simp add: is_digit_byte_def)

lemma digits_digit: "list_all is_digit_byte (digits n)"
proof (induction n rule: digits.induct)
  case (1 n)
  then show ?case by (subst digits.simps) (simp add: digit_byte)
qed

lemma digits_not_Nil: "digits n \<noteq> []"
  by (subst digits.simps) simp

lemma is_digit_byte_word: "is_digit_byte c \<Longrightarrow> word_byte c"
  by (simp add: is_digit_byte_def word_byte_def)

lemma digits_word: "word (digits n)"
  using digits_digit [of n] by (auto simp: word_def digits_not_Nil list_all_iff is_digit_byte_word)

lemma word_no_sign: "word s \<Longrightarrow> \<not> HasPrefix (s @ t) ''-'' \<and> \<not> HasPrefix (s @ t) ''+''"
  by (cases s) (auto simp: word_def HasPrefix_def dest: word_byte_facts)

lemma ParseInt_Itoa: "- (2 ^ 63) \<le> k \<Longrightarrow> k < 2 ^ 63 \<Longrightarrow> ParseInt (Itoa k) = Some k"
  using word_no_sign [OF digits_word, of "nat k" "[]"]
  by (auto simp: ParseInt_def Itoa_def Let_def digits_digit digits_value_digits digits_not_Nil HasPrefix_def)

lemma ParseInt_None:
  assumes "word w" and "\<not> list_all is_digit_byte (w @ s)"
  shows "ParseInt (w @ s) = None"
  using word_no_sign [OF assms(1), of s] assms(2) by (auto simp: ParseInt_def Let_def)

section \<open>Text that no comma or parenthesis splits\<close>

text \<open>At depth \<open>d\<close> or deeper, both loops go over \<open>inert d\<close> text and come out as they went in.\<close>

definition inert :: "nat \<Rightarrow> string \<Rightarrow> bool" where
  "inert d s \<longleftrightarrow>
     (\<forall>k cur rest. int d \<le> k \<longrightarrow> args_loop k None cur (s @ rest) = args_loop k None (cur @ s) rest) \<and>
     (\<forall>i k rest. 0 < k \<longrightarrow> matching_loop i k None (s @ rest) = matching_loop (i + length s) k None rest)"

lemma inert_Nil [simp]: "inert d []"
  by (simp add: inert_def)

lemma inert_append [intro]: "inert d s \<Longrightarrow> inert d t \<Longrightarrow> inert d (s @ t)"
  by (auto simp: inert_def add.assoc)

lemma inert_mono: "inert d s \<Longrightarrow> d \<le> e \<Longrightarrow> inert e s"
  by (auto simp: inert_def)

lemma inert_quiet_byte: "quiet c \<Longrightarrow> inert d [c]"
  by (auto simp: inert_def quiet_def)

lemma inert_quiet: "list_all quiet s \<Longrightarrow> inert d s"
proof (induction s)
  case (Cons c s)
  then have "inert d ([c] @ s)" by (intro inert_append inert_quiet_byte) auto
  then show ?case by simp
qed simp

lemma inert_word: "word s \<Longrightarrow> inert d s"
  by (intro inert_quiet) (auto simp: word_def list_all_iff word_byte_quiet)

lemma inert_comma: "inert 1 '',''"
  by (auto simp: inert_def opens_quote_def)

lemma inert_Join: "list_all (inert 0) xs \<Longrightarrow> inert 1 (Join xs '', '')"
proof (induction xs)
  case (Cons x xs)
  have x: "inert 1 x" using Cons.prems by (auto intro: inert_mono)
  have sep: "inert 1 '', ''" using inert_append [OF inert_comma inert_quiet_byte [of "CHR '' ''" 1]]
    by (simp add: quiet_def opens_quote_def)
  show ?case
  proof (cases xs)
    case Nil
    with x show ?thesis by simp
  next
    case (Cons y ys)
    with Cons.IH Cons.prems have "inert 1 (Join xs '', '')" by simp
    with x sep have "inert 1 (x @ '', '' @ Join xs '', '')" by blast
    with Cons show ?thesis by simp
  qed
qed simp

lemma inert_parens:
  assumes "inert 1 s"
  shows "inert 0 (''('' @ s @ '')'')"
  unfolding inert_def
proof (intro conjI allI impI)
  fix k :: int and cur rest :: string
  assume k: "int 0 \<le> k"
  then have "int 1 \<le> k + 1" by simp
  with assms have "args_loop (k + 1) None (cur @ ''('') (s @ '')'' @ rest) =
      args_loop (k + 1) None ((cur @ ''('') @ s) ('')'' @ rest)"
    unfolding inert_def by blast
  then show "args_loop k None cur ((''('' @ s @ '')'') @ rest) = args_loop k None (cur @ ''('' @ s @ '')'') rest"
    by (simp add: opens_quote_def)
next
  fix i k :: nat and rest :: string
  assume k: "0 < k"
  have "matching_loop (Suc i) (Suc k) None (s @ '')'' @ rest) = matching_loop (Suc i + length s) (Suc k) None ('')'' @ rest)"
    using assms unfolding inert_def by blast
  with k show "matching_loop i k None ((''('' @ s @ '')'') @ rest) = matching_loop (i + length (''('' @ s @ '')'')) k None rest"
    by (simp add: opens_quote_def)
qed

lemma quoted_args_loop:
  "apostrophe \<notin> set s \<Longrightarrow> backslash \<notin> set s \<Longrightarrow>
   args_loop k (Some apostrophe) cur (s @ apostrophe # rest) = args_loop k None (cur @ s @ [apostrophe]) rest"
  by (induction s arbitrary: cur) auto

lemma quoted_matching_loop:
  "apostrophe \<notin> set s \<Longrightarrow> backslash \<notin> set s \<Longrightarrow>
   matching_loop i k (Some apostrophe) (s @ apostrophe # rest) = matching_loop (i + length s + 1) k None rest"
  by (induction s arbitrary: i) auto

lemma inert_quoted: "plain_string s \<Longrightarrow> inert d (apostrophe # s @ [apostrophe])"
  by (auto simp: inert_def opens_quote_def plain_string_def quoted_args_loop quoted_matching_loop)

lemma ReplaceAll_absent: "c \<notin> set s \<Longrightarrow> ReplaceAll s (c # cs) new = s"
proof (induction s)
  case (Cons d s)
  then show ?case by (subst ReplaceAll.simps) (auto simp: HasPrefix_def)
qed (simp add: ReplaceAll.simps)

lemma quote_literal_plain: "plain_string s \<Longrightarrow> quote_literal s = apostrophe # s @ [apostrophe]"
  by (simp add: quote_literal_def plain_string_def ReplaceAll_absent)

section \<open>The printed form\<close>

abbreviation args_text :: "type_arg list \<Rightarrow> string" where
  "args_text as \<equiv> (if as = [] then [] else ''('' @ Join (map type_arg_text as) '', '' @ '')'')"

lemma plain_text: "plain (mk_TypeExpr n nullable as) \<Longrightarrow> TypeExpr_String (mk_TypeExpr n nullable as) = n @ args_text as"
  by simp

lemma arg_text_simps [simp]:
  "type_arg_text (type_argument l e) = (if l \<noteq> [] then l @ '': '' else []) @ TypeExpr_String e"
  "type_arg_text (int_argument [] k) = Itoa k"
  "type_arg_text (bool_argument [] v) = (if v then ''true'' else ''false'')"
  "type_arg_text (string_argument [] s) = quote_literal s"
  by simp_all

lemma Itoa_cases: "(\<exists>n. Itoa k = digits n) \<or> (\<exists>n. Itoa k = CHR ''-'' # digits n)"
  by (cases "k < 0") (auto simp: Itoa_def)

text \<open>What every printed part has: it is ASCII, its ends are solid, and it is inert.\<close>

definition tidy :: "string \<Rightarrow> bool" where
  "tidy s \<longleftrightarrow> ascii s \<and> s \<noteq> [] \<and> solid (hd s) \<and> solid (last s) \<and> inert 0 s"

lemma tidy_Trim: "tidy s \<Longrightarrow> TrimSpace s = s"
  by (simp add: tidy_def TrimSpace_id)

lemma tidy_word: "word s \<Longrightarrow> tidy s"
  by (auto simp: tidy_def word_ascii inert_word) (auto simp: word_def list_all_iff intro!: word_byte_solid)

lemma ascii_Join: "list_all ascii xs \<Longrightarrow> ascii (Join xs '', '')"
  by (induction xs "'', ''" rule: Join.induct) auto

lemma tidy_call:
  assumes "word n" and "list_all tidy xs"
  shows "tidy (n @ ''('' @ Join xs '', '' @ '')'')"
proof -
  have "inert 0 (n @ ''('' @ Join xs '', '' @ '')'')"
    using assms(2) by (intro inert_append [OF inert_word [OF assms(1)]] inert_parens inert_Join) (auto simp: tidy_def list_all_iff)
  moreover have "ascii (Join xs '', '')" using assms by (intro ascii_Join) (auto simp: tidy_def list_all_iff)
  moreover have "n \<noteq> []" "solid (hd n)" using tidy_word [OF assms(1)] by (auto simp: tidy_def)
  ultimately show ?thesis using word_ascii [OF assms(1)] by (simp add: tidy_def solid_punctuation)
qed

lemma tidy_label:
  assumes "word l" and "tidy s"
  shows "tidy (l @ '': '' @ s)"
proof -
  have "inert 0 (l @ '': '' @ s)"
    using assms inert_quiet [of "'': ''" 0] inert_append [of 0 "'': ''" s] inert_append [OF inert_word [OF assms(1)]]
    by (simp add: tidy_def quiet_def opens_quote_def)
  with assms tidy_word [OF assms(1)] show ?thesis by (auto simp: tidy_def)
qed

lemma tidy_literals:
  "tidy (Itoa k)" "tidy ''true''" "tidy ''false''" "plain_string s \<Longrightarrow> tidy (quote_literal s)"
proof -
  show "tidy (Itoa k)"
  proof (cases "\<exists>n. Itoa k = digits n")
    case True
    then show ?thesis using tidy_word [OF digits_word] by auto
  next
    case False
    with Itoa_cases obtain n where n: "Itoa k = CHR ''-'' # digits n" by blast
    have "inert 0 ([CHR ''-''] @ digits n)"
      by (intro inert_append inert_word digits_word inert_quiet_byte) (simp add: quiet_def opens_quote_def)
    with n tidy_word [OF digits_word, of n] show ?thesis by (simp add: tidy_def solid_punctuation)
  qed
  show "tidy ''true''" "tidy ''false''" by (intro tidy_word; simp add: word_def word_byte_def)+
  assume s: "plain_string s"
  then show "tidy (quote_literal s)"
    by (auto simp: quote_literal_plain tidy_def solid_punctuation inert_quoted) (simp add: plain_string_def)
qed

lemma tidy_text: "plain t \<Longrightarrow> tidy (TypeExpr_String t)" "plain_arg a \<Longrightarrow> tidy (type_arg_text a)"
proof (induction t and a rule: TypeExpr_String_type_arg_text.induct)
  case (1 n nullable as)
  then have n: "word n" and as: "list_all tidy (map type_arg_text as)" by (fastforce simp: type_word_def list_all_iff)+
  with 1 tidy_call [OF n as] tidy_word [OF n] show ?case by simp
next
  case (2 label t i b s d)
  from 2(2) show ?case
  proof (cases rule: plain_arg_cases)
    case (type l e)
    with 2 have "tidy (TypeExpr_String e)" by auto
    with type tidy_label [of l] show ?thesis by (auto simp del: TypeExpr_String.simps type_arg_text.simps)
  qed (auto simp del: type_arg_text.simps simp: tidy_literals)
qed

section \<open>Reading it back\<close>

lemma find_idx_word: "\<not> list_ex P w \<Longrightarrow> find_idx P (w @ s) = map_option (\<lambda>i. length w + i) (find_idx P s)"
  by (induction w) (cases "find_idx P s"; simp)+

lemma word_no_byte: "word w \<Longrightarrow> \<not> word_byte c \<Longrightarrow> c \<notin> set w"
  by (auto simp: word_def list_all_iff)

lemma no_word_bytes:
  "\<not> word_byte CHR ''(''" "\<not> word_byte CHR '':''" "\<not> word_byte CHR '' ''" "\<not> word_byte apostrophe" "\<not> word_byte CHR 0x22"
  "\<not> word_byte CHR '']''" "\<not> word_byte CHR '')''"
  by (simp_all add: word_byte_def)

lemma IndexByte_word: "word w \<Longrightarrow> \<not> word_byte c \<Longrightarrow> IndexByte (w @ s) c = map_option (\<lambda>i. length w + i) (IndexByte s c)"
  unfolding IndexByte_def by (rule find_idx_word) (auto simp: list_ex_iff dest: word_no_byte)

lemma IndexByte_word_only: "word w \<Longrightarrow> \<not> word_byte c \<Longrightarrow> IndexByte w c = None"
  using IndexByte_word [of w c "[]"] by (simp add: IndexByte_def)

lemma IndexByte_hit [simp]: "IndexByte (c # s) c = Some 0"
  by (simp add: IndexByte_def)

lemma TrimSpace_Nil [simp]: "TrimSpace [] = []"
  by (simp add: TrimSpace_def TrimLeftSpace.simps [of "[]"] TrimRightSpace.simps [of "[]"])

lemma inert_args_loop: "inert 0 x \<Longrightarrow> args_loop 0 None cur (x @ rest) = args_loop 0 None (cur @ x) rest"
  unfolding inert_def by (metis of_nat_0 order_refl)

lemma args_loop_Join:
  "list_all (inert 0) xs \<Longrightarrow> args_loop 0 None cur (Join (x # xs) '', '') = (as, r) \<Longrightarrow> inert 0 x \<Longrightarrow>
   as @ [TrimSpace r] = map TrimSpace ((cur @ x) # xs)"
proof (induction xs arbitrary: x cur as r)
  case Nil
  then have "args_loop 0 None cur (x @ []) = (as, r)" by simp
  moreover have "args_loop 0 None cur (x @ []) = args_loop 0 None (cur @ x) []"
    by (rule inert_args_loop [OF Nil.prems(3)])
  ultimately show ?case by simp
next
  case (Cons y ys)
  let ?rest = "Join (y # ys) '', ''"
  have "args_loop 0 None cur (x @ CHR '','' # CHR '' '' # ?rest) = args_loop 0 None (cur @ x) (CHR '','' # CHR '' '' # ?rest)"
    by (rule inert_args_loop [OF Cons.prems(3)])
  with Cons.prems(2) obtain bs where as: "as = TrimSpace (cur @ x) # bs" and bs: "args_loop 0 None '' '' ?rest = (bs, r)"
    by (auto simp: opens_quote_def split: prod.splits)
  from Cons.IH [OF _ bs] Cons.prems(1) have "bs @ [TrimSpace r] = map TrimSpace (('' '' @ y) # ys)" by simp
  with as show ?case by (simp add: TrimSpace_space)
qed

lemma split_args_Join:
  assumes "xs \<noteq> []" and "list_all tidy xs"
  shows "split_args_text (Join xs '', '') = xs"
proof -
  obtain y ys where xs: "xs = y # ys" using assms by (cases xs) auto
  obtain as r where r: "args_loop 0 None [] (Join xs '', '') = (as, r)" by force
  have "as @ [TrimSpace r] = map TrimSpace xs"
    using args_loop_Join [of ys "[]" y as r] r assms by (auto simp: xs tidy_def list_all_iff)
  also have "\<dots> = xs" using assms by (intro map_idI) (auto simp: list_all_iff tidy_Trim)
  finally have eq: "as @ [TrimSpace r] = xs" .
  then have "TrimSpace r \<in> set xs" by (metis in_set_conv_decomp)
  with assms have "TrimSpace r \<noteq> []" by (auto simp: list_all_iff tidy_def)
  with r eq show ?thesis by (simp add: split_args_text_def)
qed

lemma matching_call: "inert 1 s \<Longrightarrow> matching_loop i 0 None (''('' @ s @ '')'') = Some (Suc i + length s)"
  unfolding inert_def by (simp add: opens_quote_def)

lemma splitTypeArgs_text:
  assumes "word n" and "list_all tidy (map type_arg_text as)"
  shows "splitTypeArgs (n @ args_text as) = (n, map type_arg_text as)"
proof (cases "as = []")
  case True
  with assms show ?thesis by (simp add: splitTypeArgs_def IndexByte_word_only no_word_bytes)
next
  case False
  let ?J = "Join (map type_arg_text as) '', ''"
  have index: "IndexByte (n @ ''('' @ ?J @ '')'') (CHR ''('') = Some (length n)"
    using assms(1) by (simp add: IndexByte_word no_word_bytes)
  have paren: "matchingParen (n @ ''('' @ ?J @ '')'') (length n) = Some (Suc (length n) + length ?J)"
    using matching_call [OF inert_Join [of "map type_arg_text as"], of "length n"] assms(2)
    by (simp add: matchingParen_def list_all_iff tidy_def)
  have "substr (Suc (length n)) (Suc (length n) + length ?J) (n @ ''('' @ ?J @ '')'') = ?J"
    by (simp add: substr_def)
  with index paren False split_args_Join [OF _ assms(2)] tidy_Trim [OF tidy_word [OF assms(1)]] show ?thesis
    by (simp add: splitTypeArgs_def)
qed

lemma no_array_suffix:
  assumes "word n"
  shows "\<not> HasSuffix (n @ args_text as) ''[]''"
proof
  assume "HasSuffix (n @ args_text as) ''[]''"
  then have "last (n @ args_text as) = CHR '']''" using HasSuffix_last by fastforce
  moreover have "last n \<in> set n" using assms by (auto simp: word_def)
  ultimately show False using assms word_no_byte [OF assms no_word_bytes(6)] by (auto split: if_splits)
qed

lemma ParseTypeExpr_space: "ParseTypeExpr u (CHR '' '' # s) = ParseTypeExpr u s"
  by (simp add: ParseTypeExpr.simps [of u s] ParseTypeExpr.simps [of u "CHR '' '' # s"] TrimSpace_space)

lemma ParseTypeExpr_text:
  assumes u: "ascii_laws u" and t: "plain (mk_TypeExpr n False as)"
    and as: "map_ok (parseTypeArg u) (map type_arg_text as) = Inr as"
  shows "ParseTypeExpr u (n @ args_text as) = Inr (mk_TypeExpr n False as)"
proof -
  from t have n: "word n" "n \<noteq> ''nullable''" by (auto simp: type_word_def)
  have tidy: "tidy (n @ args_text as)" using tidy_text(1) [OF t] by simp
  have args: "list_all tidy (map type_arg_text as)" using t tidy_text(2) by (auto simp: list_all_iff)
  show ?thesis
    by (subst ParseTypeExpr.simps)
      (simp only: tidy_Trim [OF tidy] splitTypeArgs_text [OF n(1) args] no_array_suffix [OF n(1)] word_lower [OF u n(1)]
        as n(2) Let_def fst_conv snd_conv if_False simp_thms map_sum.simps id_apply)
qed

section \<open>Arguments\<close>

lemma type_word_not_int: "type_word n \<Longrightarrow> ParseInt (n @ s) = None"
  by (rule ParseInt_None) (cases n; auto simp: type_word_def word_def is_digit_byte_def)+

lemma lower_not_bool:
  assumes "ascii_laws u" and "ascii s" and "c \<in> set s" and "lower_byte c \<notin> set ''truefals''"
  shows "strings_ToLower u s \<notin> {''true'', ''false''}"
proof -
  have "lower_byte c \<in> set (strings_ToLower u s)" using assms(1-3) by (simp add: strings_ToLower_ascii)
  with assms(4) show ?thesis by auto
qed

lemma type_text_not_bool:
  assumes "ascii_laws u" and "plain (mk_TypeExpr n False as)"
  shows "strings_ToLower u (n @ args_text as) \<notin> {''true'', ''false''}"
proof (cases "as = []")
  case True
  with assms show ?thesis by (auto simp: type_word_def word_lower)
next
  case False
  with lower_not_bool [OF assms(1), of "n @ args_text as" "CHR ''(''"] tidy_text(1) [OF assms(2)] show ?thesis
    by (simp add: tidy_def lower_byte_def)
qed

lemma head_of_call: "word w \<Longrightarrow> (case IndexByte (w @ args_text as) (CHR ''('') of Some p \<Rightarrow> take p (w @ args_text as) | None \<Rightarrow> w @ args_text as) = w"
  by (cases "as = []") (simp_all add: IndexByte_word IndexByte_word_only no_word_bytes)

lemma label_at_type: "word n \<Longrightarrow> label_at (n @ args_text as) = None"
  unfolding label_at_def Let_def head_of_call by (simp add: IndexByte_word_only no_word_bytes)

lemma label_at_label:
  assumes "word l" and "word n"
  shows "label_at (l @ '': '' @ n @ args_text as) = Some (l, Suc (length l))"
proof -
  let ?a = "l @ '': '' @ n @ args_text as"
  have head: "(case IndexByte ?a (CHR ''('') of Some p \<Rightarrow> take p ?a | None \<Rightarrow> ?a) = l @ '': '' @ n"
    using assms by (simp add: IndexByte_word IndexByte_def no_word_bytes find_idx_word word_no_byte list_ex_iff)
  have "0 < length l" using assms by (simp add: word_def)
  moreover have "\<not> ContainsAny l [CHR '' '', apostrophe, CHR 0x22]"
    using word_no_byte [OF assms(1)] no_word_bytes by (auto simp: ContainsAny_def list_ex_iff)
  ultimately show ?thesis
    unfolding label_at_def Let_def head using assms tidy_Trim [OF tidy_word [OF assms(1)]]
    by (simp add: IndexByte_word no_word_bytes)
qed

text \<open>The four kinds of argument.\<close>

lemma not_quoted: "word w \<Longrightarrow> \<not> HasPrefix (w @ s) [apostrophe]"
  by (cases w) (auto simp: word_def HasPrefix_def dest: word_byte_facts)

lemma parse_int: "- (2 ^ 63) \<le> k \<Longrightarrow> k < 2 ^ 63 \<Longrightarrow> parseTypeArg u (Itoa k) = Inr (int_argument [] k)"
proof -
  assume k: "- (2 ^ 63) \<le> k" "k < 2 ^ 63"
  have "\<not> HasPrefix (Itoa k) [apostrophe]"
    using Itoa_cases [of k] not_quoted [OF digits_word, of _ "[]"] by (auto simp: HasPrefix_def)
  with k show ?thesis
    by (subst parseTypeArg.simps) (simp add: tidy_Trim [OF tidy_literals(1)] ParseInt_Itoa Let_def)
qed

lemma parse_bool:
  assumes "ascii_laws u"
  shows "parseTypeArg u (if v then ''true'' else ''false'') = Inr (bool_argument [] v)"
proof -
  let ?w = "if v then ''true'' else ''false''"
  have w: "word ?w" by (simp add: word_def word_byte_def)
  have "ParseInt ?w = None" by (simp add: ParseInt_def HasPrefix_def is_digit_byte_def)
  moreover have "EqualFold ?w ''true'' = v" by (simp add: EqualFold_def ToLower_def)
  ultimately show ?thesis
    using not_quoted [OF w, of "[]"] tidy_Trim [OF tidy_word [OF w]] word_lower [OF assms w]
    by (subst parseTypeArg.simps) (auto simp: Let_def)
qed

lemma quoted_loop_plain:
  "apostrophe \<notin> set s \<Longrightarrow> backslash \<notin> set s \<Longrightarrow> quoted_loop i (s @ [apostrophe]) = i + length s + 1"
proof (induction s arbitrary: i)
  case (Cons c s)
  then show ?case by (cases "s @ [apostrophe]") auto
qed simp

lemma parse_string:
  assumes "plain_string s"
  shows "parseTypeArg u (quote_literal s) = Inr (string_argument [] s)"
proof -
  let ?a = "apostrophe # s @ [apostrophe]"
  from assms have s: "apostrophe \<notin> set s" "backslash \<notin> set s" by (auto simp: plain_string_def)
  have stop: "quotedEnd ?a = length s + 2" using s by (simp add: quotedEnd_def quoted_loop_plain)
  have "literal_of ?a = Inr s" using s by (simp add: literal_of_def stop substr_def ReplaceAll_absent)
  moreover have "after_equals ?a = None" by (simp add: after_equals_def stop HasPrefix_def)
  moreover have "TrimSpace ?a = ?a"
    using tidy_Trim [OF tidy_literals(4) [OF assms]] by (simp add: quote_literal_plain [OF assms])
  ultimately show ?thesis
    by (subst parseTypeArg.simps) (simp add: quote_literal_plain [OF assms] HasPrefix_def Let_def)
qed

lemma parse_type:
  assumes "ascii_laws u" and "plain (mk_TypeExpr n False as)"
    and "ParseTypeExpr u (n @ args_text as) = Inr (mk_TypeExpr n False as)"
  shows "parseTypeArg u (n @ args_text as) = Inr (type_argument [] (mk_TypeExpr n False as))"
proof -
  let ?a = "n @ args_text as"
  from assms(2) have n: "type_word n" "word n" by (auto simp: type_word_def)
  have "TrimSpace ?a = ?a" using tidy_Trim [OF tidy_text(1) [OF assms(2)]] by simp
  then show ?thesis
    using not_quoted [OF n(2), of "args_text as"] type_word_not_int [OF n(1), of "args_text as"]
      type_text_not_bool [OF assms(1,2)] label_at_type [OF n(2), of as] assms(3)
    by (subst parseTypeArg.simps) (simp only: Let_def if_False option.case map_sum.simps)
qed

lemma parse_label:
  assumes "ascii_laws u" and "word l" and "plain (mk_TypeExpr n False as)"
    and "ParseTypeExpr u (n @ args_text as) = Inr (mk_TypeExpr n False as)"
  shows "parseTypeArg u (l @ '': '' @ n @ args_text as) = Inr (type_argument l (mk_TypeExpr n False as))"
proof -
  let ?T = "n @ args_text as" and ?a = "l @ '': '' @ n @ args_text as"
  from assms(3) have n: "word n" by (auto simp: type_word_def)
  have tidy: "tidy ?a" using tidy_label [OF assms(2) tidy_text(1) [OF assms(3)]] by simp
  have int: "ParseInt ?a = None" by (rule ParseInt_None [OF assms(2)]) (simp add: is_digit_byte_def)
  have bool: "strings_ToLower u ?a \<notin> {''true'', ''false''}"
    using lower_not_bool [OF assms(1), of ?a "CHR '':''"] tidy by (simp add: tidy_def lower_byte_def)
  have "drop (Suc (length l)) ?a = CHR '' '' # ?T" by simp
  then show ?thesis
    using not_quoted [OF assms(2), of "'': '' @ ?T"] int bool label_at_label [OF assms(2) n, of as] assms(4)
    by (subst parseTypeArg.simps)
      (simp only: Let_def if_False option.case prod.case map_sum.simps tidy_Trim [OF tidy] ParseTypeExpr_space)
qed

section \<open>Round trip\<close>

lemma map_ok_inverse: "(\<And>x. x \<in> set xs \<Longrightarrow> f (g x) = Inr x) \<Longrightarrow> map_ok f (map g xs) = Inr xs"
  by (induction xs) auto

lemma plain_not_nullable: "plain t \<Longrightarrow> t = mk_TypeExpr (te_Name t) False (te_Args t)"
  by (cases t) auto

lemma read_back:
  assumes u: "ascii_laws u"
  shows "plain t \<Longrightarrow> ParseTypeExpr u (TypeExpr_String t) = Inr t"
    and "plain_arg a \<Longrightarrow> parseTypeArg u (type_arg_text a) = Inr a"
proof (induction t and a rule: TypeExpr_String_type_arg_text.induct)
  case (1 n nullable as)
  then have "map_ok (parseTypeArg u) (map type_arg_text as) = Inr as"
    by (intro map_ok_inverse) (fastforce simp: list_all_iff)
  with 1 ParseTypeExpr_text [OF u, of n as] show ?case by simp
next
  case (2 label t i b s d)
  from 2(2) show ?case
  proof (cases rule: plain_arg_cases)
    case (type l e)
    then have e: "e = mk_TypeExpr (te_Name e) False (te_Args e)" by (simp add: plain_not_nullable)
    have shown: "TypeExpr_String e = te_Name e @ args_text (te_Args e)" by (subst e) simp
    have read: "ParseTypeExpr u (te_Name e @ args_text (te_Args e)) = Inr (mk_TypeExpr (te_Name e) False (te_Args e))"
      using 2(1) type e shown by auto
    from type(2) have plain: "plain (mk_TypeExpr (te_Name e) False (te_Args e))" using e by simp
    have "parseTypeArg u (type_arg_text (type_argument l e)) = Inr (type_argument l e)"
      using parse_label [OF u _ plain read, of l] parse_type [OF u plain read] type(3) e shown
      by (cases "l = []") simp_all
    with type(1) show ?thesis by (simp only:)
  qed (auto simp del: type_arg_text.simps simp: parse_int parse_bool [OF u] parse_string)
qed

text \<open>C22: A plain type expression is read back from its printed form: whatever the nesting of arguments, labels, numbers,
  booleans and strings, \<open>ParseTypeExpr\<close> of \<open>String()\<close> is the expression.\<close>

theorem TypeExpr_roundtrip:
  assumes "ascii_laws u" and "plain t"
  shows "ParseTypeExpr u (TypeExpr_String t) = Inr t"
  using read_back(1) [OF assms] .

definition point_map :: type_expr where
  "point_map = mk_TypeExpr ''map'' False
     [type_argument [] (mk_TypeExpr ''string'' False []),
      type_argument [] (mk_TypeExpr ''tuple'' False
        [type_argument ''lat'' (mk_TypeExpr ''decimal'' False [int_argument [] 9, int_argument [] (-4)]),
         type_argument ''tag'' (mk_TypeExpr ''enum8'' False [string_argument [] ''a,(b'', bool_argument [] True])])]"

lemma point_map_plain: "plain point_map"
  by (simp add: point_map_def type_word_def word_def word_byte_def plain_string_def)

lemma point_map_text: "TypeExpr_String point_map =
    ''map(string, tuple(lat: decimal(9, -4), tag: enum8('' @ [apostrophe] @ ''a,(b'' @ [apostrophe] @ '', true)))''"
  by code_simp

lemma TypeExpr_roundtrip_witness:
  "TypeExpr_String point_map = ''map(string, tuple(lat: decimal(9, -4), tag: enum8('' @ [apostrophe] @ ''a,(b'' @ [apostrophe] @ '', true)))'' \<and>
   ParseTypeExpr ascii_only (TypeExpr_String point_map) = Inr point_map"
  using TypeExpr_roundtrip [OF ascii_laws_ascii_only point_map_plain]
  by (simp add: point_map_text)

text \<open>The key of an expression, its own nullability aside, tells plain expressions apart.\<close>

lemma Key_inj:
  assumes "plain (with_Nullable False s)" and "plain (with_Nullable False t)" and "Key s = Key t"
  shows "with_Nullable False s = with_Nullable False t"
proof -
  have key: "Key e = TypeExpr_String (with_Nullable False e)" for e by (cases e) (simp add: Key_def)
  have "Inr (with_Nullable False s) = (Inr (with_Nullable False t) :: core_error + type_expr)"
    using read_back(1) [OF ascii_laws_ascii_only assms(1)] read_back(1) [OF ascii_laws_ascii_only assms(2)] assms(3)
    by (simp only: key)
  then show ?thesis by simp
qed

section \<open>Expressions that are not read back\<close>

lemma ParseTypeExpr_step:
  assumes "TrimSpace s0 = s" and "\<not> HasSuffix s ''[]''" and "splitTypeArgs s = (n, as)" and "strings_ToLower u n = m"
    and "m \<noteq> ''nullable''" and "map_ok (parseTypeArg u) as = Inr bs"
  shows "ParseTypeExpr u s0 = Inr (mk_TypeExpr m False bs)"
  using assms by (subst ParseTypeExpr.simps) (simp add: Let_def)

lemma ParseTypeExpr_name_step:
  assumes "TrimSpace s0 = s" and "\<not> HasSuffix s ''[]''" and "splitTypeArgs s = (n, [])" and "strings_ToLower u n = m"
  shows "ParseTypeExpr u s0 = Inr (mk_TypeExpr m False [])"
  using assms by (subst ParseTypeExpr.simps) (simp add: Let_def)

lemma parse_label_step:
  assumes "TrimSpace a0 = a" and "\<not> HasPrefix a [apostrophe]" and "ParseInt a = None"
    and "strings_ToLower u a \<notin> {''true'', ''false''}" and "label_at a = Some (l, i)" and "drop i a = b"
    and "ParseTypeExpr u b = Inr t"
  shows "parseTypeArg u a0 = Inr (type_argument l t)"
  using assms by (subst parseTypeArg.simps) (simp add: Let_def)

lemma two_words_argument:
  assumes "ParseTypeExpr ascii_only w = Inr t" and "TrimSpace a = a" and "\<not> HasPrefix a [apostrophe]" and "ParseInt a = None"
    and "strings_ToLower ascii_only a = a" and "a \<notin> {''true'', ''false''}" and "label_at a = Some (l, i)" and "drop i a = w"
  shows "map_ok (parseTypeArg ascii_only) [a] = Inr [type_argument l t]"
  using parse_label_step [of a a ascii_only l i w t] assms by simp

text \<open>The word \<open>nullable\<close> of the printed form becomes part of the name.\<close>

lemma nullable_not_read_back:
  "ParseTypeExpr ascii_only (TypeExpr_String (mk_TypeExpr ''text'' True [])) = Inr (mk_TypeExpr ''text nullable'' False [])"
  by code_simp

text \<open>As an argument it makes the name a label.\<close>

lemma nullable_argument_is_label:
  "ParseTypeExpr ascii_only (TypeExpr_String (Array (mk_TypeExpr ''text'' True []))) =
     Inr (mk_TypeExpr ''array'' False [type_argument ''text'' (mk_TypeExpr ''nullable'' False [])])"
proof (rule ParseTypeExpr_step)
  show "TrimSpace (TypeExpr_String (Array (mk_TypeExpr ''text'' True []))) = ''array(text nullable)''" by code_simp
  show "splitTypeArgs ''array(text nullable)'' = (''array'', [''text nullable''])" by code_simp
  have "ParseTypeExpr ascii_only ''nullable'' = Inr (mk_TypeExpr ''nullable'' False [])"
    by (rule ParseTypeExpr_name_step [of _ "''nullable''" "''nullable''"]) code_simp+
  then show "map_ok (parseTypeArg ascii_only) [''text nullable''] = Inr [type_argument ''text'' (mk_TypeExpr ''nullable'' False [])]"
    by (rule two_words_argument [of _ _ _ _ 5]) code_simp+
qed code_simp+

text \<open>A name of two words is not read back as an argument either: the key of an array of \<open>double precision\<close> is read as a
  \<open>precision\<close> labelled \<open>double\<close>.\<close>

lemma two_words_are_label:
  "ParseTypeExpr ascii_only (TypeExpr_String (Array (mk_TypeExpr ''double precision'' False []))) =
     Inr (mk_TypeExpr ''array'' False [type_argument ''double'' (mk_TypeExpr ''precision'' False [])])"
proof (rule ParseTypeExpr_step)
  show "TrimSpace (TypeExpr_String (Array (mk_TypeExpr ''double precision'' False []))) = ''array(double precision)''" by code_simp
  show "splitTypeArgs ''array(double precision)'' = (''array'', [''double precision''])" by code_simp
  have "ParseTypeExpr ascii_only ''precision'' = Inr (mk_TypeExpr ''precision'' False [])"
    by (rule ParseTypeExpr_name_step [of _ "''precision''" "''precision''"]) code_simp+
  then show "map_ok (parseTypeArg ascii_only) [''double precision''] = Inr [type_argument ''double'' (mk_TypeExpr ''precision'' False [])]"
    by (rule two_words_argument [of _ _ _ _ 7]) code_simp+
qed code_simp+

text \<open>A label stands before a type only: a labelled number becomes the name of a type.\<close>

lemma labelled_number_is_type:
  "parseTypeArg ascii_only (type_arg_text (int_argument ''a'' 1)) = Inr (type_argument ''a'' (mk_TypeExpr ''1'' False []))"
  by code_simp

text \<open>The printer does not escape a backslash, so a string that is one swallows its closing quote.\<close>

lemma backslash_not_escaped:
  "ParseTypeExpr ascii_only (TypeExpr_String (mk_TypeExpr ''e'' False [string_argument [] [backslash]])) =
     Inr (mk_TypeExpr (''e('' @ [apostrophe, backslash, apostrophe] @ '')'') False [])"
  by (rule ParseTypeExpr_name_step [of _ "''e('' @ [apostrophe, backslash, apostrophe] @ '')''"
        "''e('' @ [apostrophe, backslash, apostrophe] @ '')''"]) code_simp+

text \<open>A type written as a lone quote, as in \<open>enum(')\<close>, panics.\<close>

lemma lone_quote_panics: "parseTypeArg ascii_only [apostrophe] = Inl (CorePanic ''slice bounds out of range'')"
  by code_simp

end
