(* ===== verification/Type_Rewrite.thy ===== *)
theory Type_Rewrite
  imports Type_Expr Nodes
begin

text \<open>
  What a dialect does to a type before it is stored, from \<open>internal/core/rewrite.go\<close>: identifier words, and rewrites with
  their patterns, templates and conditions; and how a type is read from a syntax tree, from \<open>internal/core/typename.go\<close>.
  The rows of the catalog that hold a dialect's rules are arguments here; \<open>Core_Catalog\<close> supplies them.
\<close>

section \<open>Text\<close>

text \<open>\<open>strings.Fields\<close>: the runs of bytes between white space.\<close>

function fields_loop :: "string \<Rightarrow> string \<Rightarrow> string list" where
  "fields_loop cur s =
     (if s = [] then (if cur = [] then [] else [cur])
      else (case find (HasPrefix s) space_runes of
              Some r \<Rightarrow> (if cur = [] then [] else [cur]) @ fields_loop [] (drop (length r) s)
            | None \<Rightarrow> fields_loop (cur @ [hd s]) (tl s)))"
  by pat_completeness auto
termination
  by (relation "measure (\<lambda>(cur, s). length s)") (auto intro: space_runes_find)

declare fields_loop.simps [simp del]

definition strings_Fields :: "string \<Rightarrow> string list" where
  "strings_Fields s = fields_loop [] s"

text \<open>\<open>strings.Cut\<close> at a byte.\<close>

definition cut_byte :: "string \<Rightarrow> char \<Rightarrow> (string \<times> string) option" where
  "cut_byte s b = map_option (\<lambda>i. (take i s, drop (Suc i) s)) (IndexByte s b)"

section \<open>Conditions\<close>

record rewriteCond =
  rc_binding :: string
  rc_op :: string
  rc_value :: int

definition no_cond :: rewriteCond where
  "no_cond = \<lparr>rc_binding = [], rc_op = [], rc_value = 0\<rparr>"

definition condition_error :: "string \<Rightarrow> string \<Rightarrow> core_error" where
  "condition_error s msg = CoreError NoCause (''condition '' @ Quote s @ '': '' @ msg)"

definition ParseInt_error :: "string \<Rightarrow> string" where
  "ParseInt_error s =
     (let ds = (if HasPrefix s ''-'' \<or> HasPrefix s ''+'' then tl s else s) in
      ''strconv.ParseInt: parsing '' @ Quote s @ '': '' @
      (if ds = [] \<or> \<not> list_all is_digit_byte ds then ''invalid syntax'' else ''value out of range''))"

definition parseRewriteCond :: "string \<Rightarrow> core_error + rewriteCond" where
  "parseRewriteCond s =
     (case strings_Fields s of
        [binding, op, v] \<Rightarrow>
          if \<not> HasPrefix binding ''$'' then Inl (condition_error s ''want \"$n op value\"'')
          else if op \<notin> {''<'', ''<='', ''='', ''>='', ''>'', ''!=''} then Inl (condition_error s ''unknown operator'')
          else (case ParseInt v of
                  None \<Rightarrow> Inl (condition_error s (ParseInt_error v))
                | Some n \<Rightarrow> Inr \<lparr>rc_binding = binding, rc_op = op, rc_value = n\<rparr>)
      | _ \<Rightarrow> Inl (condition_error s ''want \"$n op value\"''))"

type_synonym bindings = "string \<rightharpoonup> type_arg"

definition compares :: "string \<Rightarrow> int \<Rightarrow> int \<Rightarrow> bool" where
  "compares op n v =
     (if op = ''<'' then n < v else if op = ''<='' then n \<le> v else if op = ''='' then n = v
      else if op = ''>='' then n \<ge> v else if op = ''>'' then n > v else if op = ''!='' then n \<noteq> v else False)"

definition holds :: "rewriteCond \<Rightarrow> bindings \<Rightarrow> bool" where
  "holds cond bs \<longleftrightarrow>
     (if rc_binding cond = [] then True
      else (case bs (rc_binding cond) of
              None \<Rightarrow> False
            | Some a \<Rightarrow> (case ta_Int a of None \<Rightarrow> False | Some n \<Rightarrow> compares (rc_op cond) n (rc_value cond))))"

section \<open>Matching and substituting\<close>

definition is_binding :: "type_expr \<Rightarrow> bool" where
  "is_binding t \<longleftrightarrow> HasPrefix (te_Name t) ''$''"

text \<open>One argument of a pattern against the argument in its place; the last two parts of a \<open>TypeArg\<close> are compared by value.\<close>

definition match_arg :: "type_arg \<Rightarrow> type_arg \<Rightarrow> bindings \<Rightarrow> bindings option" where
  "match_arg p a bs =
     (case ta_Type p of
        Some t \<Rightarrow>
          if is_binding t then Some (bs(te_Name t \<mapsto> a))
          else (case ta_Type a of
                  None \<Rightarrow> None
                | Some t' \<Rightarrow> if EqualFold (te_Name t') (te_Name t) then Some bs else None)
      | None \<Rightarrow>
          if ta_Int p \<noteq> None then (if ta_Int a = ta_Int p then Some bs else None)
          else if ta_String p \<noteq> None then (if ta_String a = ta_String p then Some bs else None)
          else if ta_Ident p \<noteq> None then (if ta_Ident a = ta_Ident p then Some bs else None)
          else None)"

text \<open>The caller has compared the lengths, so the pattern never runs past the arguments.\<close>

fun matchArgs_from :: "type_arg list \<Rightarrow> type_arg list \<Rightarrow> bindings \<Rightarrow> bindings option" where
  "matchArgs_from [] as bs = Some bs"
| "matchArgs_from (p # ps) [] bs = None"
| "matchArgs_from (p # ps) (a # as) bs =
     (case match_arg p a bs of None \<Rightarrow> None | Some bs' \<Rightarrow> matchArgs_from ps as bs')"

definition matchArgs :: "type_arg list \<Rightarrow> type_arg list \<Rightarrow> bindings option" where
  "matchArgs pattern as = matchArgs_from pattern as Map.empty"

fun substitute :: "bindings \<Rightarrow> type_expr \<Rightarrow> type_expr" and substitute_arg :: "bindings \<Rightarrow> type_arg \<Rightarrow> type_arg" where
  "substitute bs (mk_TypeExpr n nullable as) = mk_TypeExpr n nullable (map (substitute_arg bs) as)"
| "substitute_arg bs (mk_TypeArg l t i b s d) =
     (case t of
        None \<Rightarrow> mk_TypeArg l t i b s d
      | Some e \<Rightarrow>
          if is_binding e then
            (case bs (te_Name e) of
               Some bound \<Rightarrow> if l \<noteq> [] then with_Label l bound else bound
             | None \<Rightarrow> mk_TypeArg l t i b s d)
          else mk_TypeArg l (Some (substitute bs e)) i b s d)"

section \<open>Rules\<close>

record typeRewrite =
  rw_pattern :: type_expr
  rw_template :: type_expr
  rw_cond :: rewriteCond

record rules =
  r_rewrites :: "typeRewrite list"
  r_idents :: "string list"
  r_identArgs :: "string \<Rightarrow> int list"

text \<open>\<open>rewrite\<close>: the first rewrite whose pattern matches and whose condition holds.\<close>

definition rewrite_one :: "unicode \<Rightarrow> type_expr \<Rightarrow> typeRewrite \<Rightarrow> type_expr option" where
  "rewrite_one u t rw =
     (if strings_ToLower u (te_Name (rw_pattern rw)) \<noteq> strings_ToLower u (te_Name t) \<or>
         length (te_Args (rw_pattern rw)) \<noteq> length (te_Args t) then None
      else (case matchArgs (te_Args (rw_pattern rw)) (te_Args t) of
              None \<Rightarrow> None
            | Some bs \<Rightarrow>
                if holds (rw_cond rw) bs then Some (with_Nullable (te_Nullable t) (substitute bs (rw_template rw))) else None))"

fun first_some :: "('a \<Rightarrow> 'b option) \<Rightarrow> 'a list \<Rightarrow> 'b option" where
  "first_some f [] = None"
| "first_some f (x # xs) = (case f x of Some y \<Rightarrow> Some y | None \<Rightarrow> first_some f xs)"

definition rules_rewrite :: "unicode \<Rightarrow> rules \<Rightarrow> type_expr \<Rightarrow> type_expr option" where
  "rules_rewrite u r t = first_some (rewrite_one u t) (r_rewrites r)"

text \<open>\<open>identify\<close>: the argument at place \<open>i\<close> of a family whose identifier positions are \<open>positions\<close>.\<close>

definition identify_arg :: "unicode \<Rightarrow> rules \<Rightarrow> int list \<Rightarrow> nat \<Rightarrow> type_arg \<Rightarrow> type_arg" where
  "identify_arg u r positions i a =
     (case ta_Type a of
        Some t \<Rightarrow>
          let word = strings_ToLower u (te_Name t) in
          if te_Args t = [] \<and> (word \<in> set (r_idents r) \<or> int i + 1 \<in> set positions) then ident_argument (ta_Label a) word else a
      | None \<Rightarrow> a)"

definition identify :: "unicode \<Rightarrow> rules \<Rightarrow> type_expr \<Rightarrow> type_expr" where
  "identify u r t =
     (let positions = r_identArgs r (strings_ToLower u (te_Name t)) in
      mk_TypeExpr (te_Name t) (te_Nullable t)
        (map (\<lambda>(i, a). identify_arg u r positions i a) (enumerate 0 (te_Args t))))"

text \<open>\<open>loadRules\<close>: the rows are the pattern, the template and the condition of each rewrite in order; \<open>idents\<close> and
  \<open>identArgs\<close> are the two flags.\<close>

definition load_rewrite :: "unicode \<Rightarrow> string \<times> string \<times> string \<Rightarrow> core_error + typeRewrite" where
  "load_rewrite u row =
     (case row of (pattern, template, cond) \<Rightarrow>
        and_then (ParseTypeExpr u pattern) (\<lambda>p.
        and_then (ParseTypeExpr u template) (\<lambda>t.
          if cond = [] then Inr \<lparr>rw_pattern = p, rw_template = t, rw_cond = no_cond\<rparr>
          else
            (case parseRewriteCond cond of
               Inl e \<Rightarrow> Inl (wrap (''type rewrite '' @ Quote pattern) e)
             | Inr k \<Rightarrow> Inr \<lparr>rw_pattern = p, rw_template = t, rw_cond = k\<rparr>))))"

fun ident_positions ::
  "unicode \<Rightarrow> string \<Rightarrow> string list \<Rightarrow> (string \<Rightarrow> int list) \<Rightarrow> string \<Rightarrow> int list" where
  "ident_positions u family [] m = m"
| "ident_positions u family (p # ps) m =
     (case ParseInt (TrimSpace p) of
        Some n \<Rightarrow>
          let f = strings_ToLower u (TrimSpace family) in ident_positions u f ps (m(f := m f @ [n]))
      | None \<Rightarrow> ident_positions u family ps m)"

definition ident_entry :: "unicode \<Rightarrow> string \<Rightarrow> (string \<Rightarrow> int list) \<Rightarrow> string \<Rightarrow> int list" where
  "ident_entry u entry m =
     (case cut_byte entry (CHR '':'') of
        None \<Rightarrow> m
      | Some (family, positions) \<Rightarrow> ident_positions u family (split_byte (CHR '','') positions) m)"

definition load_rules ::
  "unicode \<Rightarrow> (string \<times> string \<times> string) list \<Rightarrow> string \<Rightarrow> string \<Rightarrow> core_error + rules" where
  "load_rules u rows idents identArgs =
     and_then (map_ok (load_rewrite u) rows) (\<lambda>rws.
       Inr \<lparr>r_rewrites = rws,
            r_idents = (if idents = [] then [] else map (\<lambda>w. strings_ToLower u (TrimSpace w)) (split_byte (CHR '','') idents)),
            r_identArgs =
              (if identArgs = [] then (\<lambda>_. []) else fold (ident_entry u) (split_byte (CHR '';'') identArgs) (\<lambda>_. []))\<rparr>)"

definition no_rules :: rules where
  "no_rules = \<lparr>r_rewrites = [], r_idents = [], r_identArgs = (\<lambda>_. [])\<rparr>"

section \<open>Types in a syntax tree\<close>

text \<open>The fields of \<open>ast.TypeName\<close> and \<open>ast.ColumnDef\<close> that \<open>typename.go\<close> reads.\<close>

record core_type_name =
  ctn_Name :: string
  ctn_Schema :: string
  ctn_Spelling :: string
  ctn_Canonical :: string
  ctn_Names :: "node list option"
  ctn_Typmods :: "node list option"
  ctn_ArrayBounds :: "node list option"

record core_column_def =
  ccd_TypeName :: "core_type_name option"
  ccd_IsUnsigned :: bool
  ccd_IsArray :: bool
  ccd_ArrayDims :: int
  ccd_Vals :: "node list option"

definition listItems :: "node list option \<Rightarrow> node list" where
  "listItems l = (case l of None \<Rightarrow> [] | Some xs \<Rightarrow> xs)"

fun string_node :: "node \<Rightarrow> string list" where
  "string_node (String s) = [s]"
| "string_node _ = []"

fun typmodArg :: "unicode \<Rightarrow> node \<Rightarrow> type_arg option" where
  "typmodArg u (A_Const (String s)) = Some (string_argument [] s)"
| "typmodArg u (A_Const v) = typmodArg u v"
| "typmodArg u (Integer i) = Some (int_argument [] i)"
| "typmodArg u (String s) = Some (ident_argument [] (strings_ToLower u s))"
| "typmodArg u (ColumnRef r) =
     (let parts = concat (map string_node (listItems (cr_Fields r))) in
      if parts = [] then None else Some (ident_argument [] (strings_ToLower u (Join parts ''.''))))"
| "typmodArg u _ = None"

definition qualified_type_name :: "unicode \<Rightarrow> core_type_name \<Rightarrow> string" where
  "qualified_type_name u tn =
     (let given = TrimSpace (ctn_Name tn);
          name = strings_ToLower u
            (if given = [] \<and> ctn_Names tn \<noteq> None
             then Join (filter (\<lambda>s. s \<noteq> ''pg_catalog'') (concat (map string_node (listItems (ctn_Names tn))))) ''.'' else given);
          schema = strings_ToLower u (ctn_Schema tn)
      in if name \<noteq> [] \<and> schema \<noteq> [] \<and> schema \<noteq> ''pg_catalog'' \<and> \<not> Contains name ''.'' then schema @ ''.'' @ name else name)"

definition add_args :: "type_arg list \<Rightarrow> type_expr \<Rightarrow> type_expr" where
  "add_args as t = mk_TypeExpr (te_Name t) (te_Nullable t) (te_Args t @ as)"

text \<open>\<open>None\<close> is the nil expression.\<close>

definition TypeExprOfTypeName :: "unicode \<Rightarrow> core_type_name option \<Rightarrow> core_error + type_expr option" where
  "TypeExprOfTypeName u tn0 =
     (case tn0 of
        None \<Rightarrow> Inr None
      | Some tn \<Rightarrow>
          if ctn_Canonical tn \<noteq> [] then map_sum id Some (ParseTypeExpr u (ctn_Canonical tn))
          else if ctn_Spelling tn \<noteq> [] then map_sum id Some (ParseTypeExpr u (ctn_Spelling tn))
          else if qualified_type_name u tn = [] then Inr None
          else
            map_sum id
              (\<lambda>t. Some ((Array ^^ length (listItems (ctn_ArrayBounds tn)))
                     (add_args (List.map_filter (typmodArg u) (listItems (ctn_Typmods tn))) t)))
              (ParseTypeExpr u (qualified_type_name u tn)))"

definition with_Name :: "string \<Rightarrow> type_expr \<Rightarrow> type_expr" where
  "with_Name n t = mk_TypeExpr n (te_Nullable t) (te_Args t)"

definition mark_unsigned :: "core_column_def \<Rightarrow> type_expr \<Rightarrow> type_expr" where
  "mark_unsigned col t =
     (if ccd_IsUnsigned col \<and> \<not> Contains (te_Name t) '' unsigned'' then with_Name (te_Name t @ '' unsigned'') t else t)"

definition add_members :: "core_column_def \<Rightarrow> type_expr \<Rightarrow> type_expr" where
  "add_members col t =
     (if te_Args t = []
      then add_args (map (string_argument []) (concat (map string_node (listItems (ccd_Vals col))))) t else t)"

definition column_dims :: "core_column_def \<Rightarrow> nat" where
  "column_dims col = nat (if ccd_ArrayDims col = 0 \<and> ccd_IsArray col then 1 else ccd_ArrayDims col)"

text \<open>A column without a type name has no expression, so the type name is there where it is read again.  A list
  without items has nil items.\<close>

definition ColumnTypeExpr :: "unicode \<Rightarrow> core_column_def option \<Rightarrow> core_error + type_expr option" where
  "ColumnTypeExpr u col0 =
     (case col0 of
        None \<Rightarrow> Inr None
      | Some col \<Rightarrow>
          map_sum id
            (map_option (\<lambda>t0.
               let t = add_members col (mark_unsigned col t0) in
               (case ccd_TypeName col of
                  None \<Rightarrow> t
                | Some tn \<Rightarrow>
                    if ctn_Canonical tn \<noteq> [] \<or> ctn_Spelling tn \<noteq> [] \<or> listItems (ctn_ArrayBounds tn) \<noteq> [] then t
                    else (Array ^^ column_dims col) t)))
            (TypeExprOfTypeName u (ccd_TypeName col)))"

end
