(* ===== verification/Core_Catalog.thy ===== *)
theory Core_Catalog
  imports Type_Rewrite
begin

text \<open>
  The catalog of the analysis core, \<open>internal/core\<close>: its tables, the queries over them (\<open>catalogdb/query.sql.go\<close>), the
  namespaces, the flags of a dialect, and what the catalog reads of a type.

  The tables are lists of rows in the order of their keys, and an \<open>AUTOINCREMENT\<close> key is a counter.  A NULL key is 0 and a
  NULL category the empty string, which is how \<open>nullInt64\<close>, \<open>orZero\<close> and \<open>nullString\<close> translate them.  A query fails only for
  want of a row or against a constraint; the text of a driver's error is not in the repository and is left empty.  The
  caches of the catalog (\<open>typeCache\<close>, the loaded \<open>rules\<close>) are left out: a row never changes once it is written, so they
  answer what the tables answer, until a type is dropped.
\<close>

section \<open>Tables\<close>

record type_row =
  tr_oid :: int
  tr_namespace_oid :: int
  tr_dialect_oid :: int
  tr_name :: string
  tr_expr :: string
  tr_typtype :: string
  tr_category :: string
  tr_preferred :: bool
  tr_family_oid :: int
  tr_element_oid :: int
  tr_base_oid :: int
  tr_canonical_oid :: int
  tr_not_null :: bool

record type_arg_row =
  ar_type_oid :: int
  ar_ord :: nat
  ar_label :: string
  ar_arg_type_oid :: int
  ar_nullable :: bool
  ar_int_value :: "int option"
  ar_bool_value :: "bool option"
  ar_string_value :: "string option"
  ar_ident :: "string option"

record operator_row =
  or_oid :: int
  or_dialect_oid :: int
  or_name :: string
  or_left_type_oid :: int
  or_right_type_oid :: int
  or_result_type_oid :: int

record rewrite_row =
  rr_dialect_oid :: int
  rr_ord :: int
  rr_pattern :: string
  rr_template :: string
  rr_cond :: string

record affinity_row =
  af_dialect_oid :: int
  af_ord :: int
  af_words :: string
  af_type_oid :: int

record core =
  c_namespaces :: "(int \<times> string) list"
  c_next_namespace :: int
  c_dialects :: "(int \<times> string) list"
  c_next_dialect :: int
  c_flags :: "int \<times> string \<rightharpoonup> string"
  c_types :: "type_row list"
  c_next_type :: int
  c_type_args :: "type_arg_row list"
  c_operators :: "operator_row list"
  c_next_operator :: int
  c_rewrites :: "rewrite_row list"
  c_affinities :: "affinity_row list"
  c_dialectOID :: int

text \<open>An operation returns its value or an error, and the catalog it leaves.\<close>

type_synonym 'a core_op = "core \<Rightarrow> (core_error + 'a) \<times> core"

definition ret :: "'a \<Rightarrow> 'a core_op" where
  "ret x c = (Inr x, c)"

definition bind_op :: "'a core_op \<Rightarrow> ('a \<Rightarrow> 'b core_op) \<Rightarrow> 'b core_op" where
  "bind_op m f c = (case m c of (Inl e, c') \<Rightarrow> (Inl e, c') | (Inr x, c') \<Rightarrow> f x c')"

definition reading :: "(core \<Rightarrow> core_error + 'a) \<Rightarrow> 'a core_op" where
  "reading f c = (f c, c)"

definition wrapping :: "string \<Rightarrow> 'a core_op \<Rightarrow> 'a core_op" where
  "wrapping p m c = (case m c of (Inl e, c') \<Rightarrow> (Inl (wrap p e), c') | (Inr x, c') \<Rightarrow> (Inr x, c'))"

definition wrapping_read :: "string \<Rightarrow> core_error + 'a \<Rightarrow> core_error + 'a" where
  "wrapping_read p r = (case r of Inl e \<Rightarrow> Inl (wrap p e) | Inr x \<Rightarrow> Inr x)"

definition no_rows :: "core_error + 'a" where
  "no_rows = Inl (CoreError ErrNoRows ''sql: no rows in result set'')"

definition constraint_failed :: "core_error + 'a" where
  "constraint_failed = Inl (CoreError ErrConstraint [])"

definition first_row :: "('a \<Rightarrow> bool) \<Rightarrow> ('a \<Rightarrow> 'b) \<Rightarrow> 'a list \<Rightarrow> core_error + 'b" where
  "first_row P f rows = (case find P rows of None \<Rightarrow> no_rows | Some r \<Rightarrow> Inr (f r))"

section \<open>Namespaces\<close>

definition q_CreateNamespace :: "string \<Rightarrow> int core_op" where
  "q_CreateNamespace name c =
     (if name \<in> snd ` set (c_namespaces c) then (constraint_failed, c)
      else (Inr (c_next_namespace c),
            c\<lparr>c_namespaces := c_namespaces c @ [(c_next_namespace c, name)], c_next_namespace := c_next_namespace c + 1\<rparr>))"

definition CreateNamespace :: "string \<Rightarrow> int core_op" where
  "CreateNamespace name = wrapping (''create namespace '' @ Quote name) (q_CreateNamespace name)"

definition NamespaceOID :: "core \<Rightarrow> string \<Rightarrow> core_error + int" where
  "NamespaceOID c name = wrapping_read (''namespace '' @ Quote name) (first_row (\<lambda>r. snd r = name) fst (c_namespaces c))"

definition Namespaces :: "core \<Rightarrow> (int \<times> string) list" where
  "Namespaces c = c_namespaces c"

text \<open>\<open>namespaceName\<close>: the empty string when there is no such row.\<close>

definition namespaceName :: "core \<Rightarrow> int \<Rightarrow> string" where
  "namespaceName c oid = (case find (\<lambda>r. fst r = oid) (c_namespaces c) of None \<Rightarrow> [] | Some r \<Rightarrow> snd r)"

section \<open>Dialects and their flags\<close>

definition CreateDialect :: "string \<Rightarrow> int core_op" where
  "CreateDialect name c =
     (if name \<in> snd ` set (c_dialects c) then (wrapping_read (''create dialect '' @ Quote name) constraint_failed, c)
      else (Inr (c_next_dialect c),
            c\<lparr>c_dialects := c_dialects c @ [(c_next_dialect c, name)], c_next_dialect := c_next_dialect c + 1,
              c_dialectOID := c_next_dialect c\<rparr>))"

definition DialectOID :: "core \<Rightarrow> string \<Rightarrow> core_error + int" where
  "DialectOID c name = wrapping_read (''dialect '' @ Quote name) (first_row (\<lambda>r. snd r = name) fst (c_dialects c))"

definition SetDialectFlag :: "int \<Rightarrow> string \<Rightarrow> string \<Rightarrow> core \<Rightarrow> core" where
  "SetDialectFlag d key v c = c\<lparr>c_flags := (c_flags c)((d, key) \<mapsto> v)\<rparr>"

text \<open>A flag that is not set is the empty string; so is every flag of a catalog without a dialect, which the callers test
  first.\<close>

definition DialectFlag :: "core \<Rightarrow> int \<Rightarrow> string \<Rightarrow> string" where
  "DialectFlag c d key = (case c_flags c (d, key) of None \<Rightarrow> [] | Some v \<Rightarrow> v)"

definition own_flag :: "core \<Rightarrow> string \<Rightarrow> string" where
  "own_flag c key = (if c_dialectOID c = 0 then [] else DialectFlag c (c_dialectOID c) key)"

abbreviation FlagComparisonOperators :: string where "FlagComparisonOperators \<equiv> ''operators.comparison''"
abbreviation FlagBoolType :: string where "FlagBoolType \<equiv> ''types.bool''"
abbreviation FlagLimitType :: string where "FlagLimitType \<equiv> ''types.limit''"
abbreviation FlagUntypedType :: string where "FlagUntypedType \<equiv> ''types.untyped''"
abbreviation FlagValueFunctions :: string where "FlagValueFunctions \<equiv> ''functions.values''"
abbreviation FlagDefaultSchema :: string where "FlagDefaultSchema \<equiv> ''schema.default''"
abbreviation FlagIdents :: string where "FlagIdents \<equiv> ''types.idents''"
abbreviation FlagIdentArgs :: string where "FlagIdentArgs \<equiv> ''types.ident_args''"

definition IsComparisonOperator :: "core \<Rightarrow> string \<Rightarrow> bool" where
  "IsComparisonOperator c name \<longleftrightarrow>
     (let ops = own_flag c FlagComparisonOperators in ops \<noteq> [] \<and> name \<in> set (split_byte (CHR '','') ops))"

definition PropagatesNullable :: "core \<Rightarrow> bool" where
  "PropagatesNullable c \<longleftrightarrow> own_flag c ''functions.propagate_nullable'' = ''true''"

definition Strict :: "core \<Rightarrow> bool" where
  "Strict c \<longleftrightarrow> own_flag c ''analysis.strict'' = ''true''"

definition QualifiesDuplicateColumns :: "core \<Rightarrow> bool" where
  "QualifiesDuplicateColumns c \<longleftrightarrow> own_flag c ''columns.qualify_duplicates'' = ''true''"

definition OuterJoinDefaults :: "core \<Rightarrow> bool" where
  "OuterJoinDefaults c \<longleftrightarrow> own_flag c ''joins.outer_defaults'' = ''true''"

definition ValueFunction :: "unicode \<Rightarrow> core \<Rightarrow> string \<Rightarrow> string option" where
  "ValueFunction u c name =
     first_some (\<lambda>pair. case cut_byte pair (CHR '':'') of
                    Some (bare, fn) \<Rightarrow> if bare = strings_ToLower u name then Some fn else None
                  | None \<Rightarrow> None)
       (if c_dialectOID c = 0 then [] else split_byte (CHR '','') (own_flag c FlagValueFunctions))"

definition DefaultNamespaces :: "core \<Rightarrow> string list" where
  "DefaultNamespaces c =
     (let name = own_flag c FlagDefaultSchema in [''public'', ''pg_catalog''] @ (if name \<noteq> [] then [name] else []))"

section \<open>Reading types\<close>

definition q_LookupType :: "core \<Rightarrow> int \<Rightarrow> core_error + type_row" where
  "q_LookupType c oid = first_row (\<lambda>r. tr_oid r = oid) id (c_types c)"

definition LookupType :: "core \<Rightarrow> int \<Rightarrow> core_error + type_row" where
  "LookupType c oid = wrapping_read (''lookup type oid '' @ Itoa oid) (q_LookupType c oid)"

definition IsFamily :: "type_row \<Rightarrow> bool" where
  "IsFamily r \<longleftrightarrow> tr_family_oid r = 0"

definition TypeName_of :: "core \<Rightarrow> int \<Rightarrow> core_error + string" where
  "TypeName_of c oid = and_then (LookupType c oid) (\<lambda>r. Inr (tr_name r))"

definition family_named :: "string \<Rightarrow> int \<Rightarrow> type_row \<Rightarrow> bool" where
  "family_named name ns r \<longleftrightarrow> tr_name r = name \<and> IsFamily r \<and> tr_namespace_oid r = ns"

definition defaultNamespaceOIDs :: "core \<Rightarrow> int list" where
  "defaultNamespaceOIDs c =
     (let name = own_flag c FlagDefaultSchema in
      List.map_filter (\<lambda>n. case NamespaceOID c n of Inl e \<Rightarrow> None | Inr oid \<Rightarrow> Some oid)
        ([''pg_catalog'', ''public''] @ (if name \<noteq> [] then [name] else [])))"

definition familyOIDByName :: "core \<Rightarrow> string \<Rightarrow> core_error + int" where
  "familyOIDByName c name =
     (case first_some (\<lambda>ns. find (family_named name ns) (c_types c)) (defaultNamespaceOIDs c) of
        None \<Rightarrow> no_rows | Some r \<Rightarrow> Inr (tr_oid r))"

text \<open>\<open>strings.LastIndexByte\<close>.\<close>

definition LastIndexByte :: "string \<Rightarrow> char \<Rightarrow> nat option" where
  "LastIndexByte s b = find_last_idx (\<lambda>ch. ch = b) s"

definition splitQualifiedName :: "string \<Rightarrow> string \<times> string" where
  "splitQualifiedName name =
     (case LastIndexByte name (CHR ''.'') of
        Some i \<Rightarrow> if 0 < i then (take i name, drop (Suc i) name) else ([], name)
      | None \<Rightarrow> ([], name))"

definition familyOIDByQualifiedName :: "core \<Rightarrow> string \<Rightarrow> core_error + int" where
  "familyOIDByQualifiedName c name =
     (case splitQualifiedName name of
        (ns, bare) \<Rightarrow>
          if ns = [] then familyOIDByName c bare
          else and_then (NamespaceOID c ns) (\<lambda>nsOID. first_row (family_named bare nsOID) tr_oid (c_types c)))"

text \<open>\<open>canonicalOID\<close> follows sixteen alias rows at most.\<close>

fun canonical_loop :: "nat \<Rightarrow> core \<Rightarrow> int \<Rightarrow> core_error + int" where
  "canonical_loop 0 c oid = Inl (CoreError NoCause (''type oid '' @ Itoa oid @ '': alias chain does not end''))"
| "canonical_loop (Suc n) c oid =
     and_then (LookupType c oid) (\<lambda>info.
       if tr_canonical_oid info = 0 then Inr oid else canonical_loop n c (tr_canonical_oid info))"

definition canonicalOID :: "core \<Rightarrow> int \<Rightarrow> core_error + int" where
  "canonicalOID c oid = canonical_loop 16 c oid"

definition TypeOID :: "unicode \<Rightarrow> core \<Rightarrow> string \<Rightarrow> core_error + int" where
  "TypeOID u c name =
     and_then (wrapping_read (''type '' @ Quote name) (familyOIDByName c (strings_ToLower u name))) (canonicalOID c)"

definition ResolutionOID :: "core \<Rightarrow> int \<Rightarrow> int" where
  "ResolutionOID c oid =
     (case LookupType c oid of
        Inl e \<Rightarrow> 0
      | Inr info \<Rightarrow>
          if tr_canonical_oid info \<noteq> 0 then tr_canonical_oid info
          else if tr_family_oid info \<noteq> 0 then tr_family_oid info
          else tr_base_oid info)"

fun resolution_loop :: "nat \<Rightarrow> core \<Rightarrow> int \<Rightarrow> int list" where
  "resolution_loop 0 c oid = []"
| "resolution_loop (Suc n) c oid =
     (if oid = 0 then []
      else (let next = ResolutionOID c oid in if next = 0 then [] else next # resolution_loop n c next))"

definition ResolutionChain :: "core \<Rightarrow> int \<Rightarrow> int list" where
  "ResolutionChain c oid = oid # resolution_loop 16 c oid"

definition qualifiedName :: "core \<Rightarrow> type_row \<Rightarrow> string" where
  "qualifiedName c info =
     (let ns = namespaceName c (tr_namespace_oid info) in
      if ns \<noteq> [] \<and> ns \<notin> set (DefaultNamespaces c) then ns @ ''.'' @ tr_name info else tr_name info)"

text \<open>\<open>canonicalFamilyName\<close>.\<close>

definition canonicalFamilyName :: "unicode \<Rightarrow> core \<Rightarrow> string \<Rightarrow> string option" where
  "canonicalFamilyName u c name =
     (case and_then (familyOIDByQualifiedName c (strings_ToLower u (TrimSpace name))) (\<lambda>oid.
           and_then (canonicalOID c oid) (LookupType c)) of
        Inl e \<Rightarrow> None
      | Inr info \<Rightarrow> Some (qualifiedName c info))"

section \<open>Arguments of a type\<close>

definition q_TypeArgs :: "core \<Rightarrow> int \<Rightarrow> type_arg_row list" where
  "q_TypeArgs c oid = sort_key ar_ord (filter (\<lambda>r. ar_type_oid r = oid) (c_type_args c))"

definition literal_arg :: "type_arg_row \<Rightarrow> type_arg" where
  "literal_arg r =
     (case ar_int_value r of
        Some n \<Rightarrow> int_argument (ar_label r) n
      | None \<Rightarrow>
          (case ar_bool_value r of
             Some b \<Rightarrow> bool_argument (ar_label r) b
           | None \<Rightarrow>
               (case ar_string_value r of
                  Some s \<Rightarrow> string_argument (ar_label r) s
                | None \<Rightarrow> mk_TypeArg (ar_label r) None None None None (ar_ident r))))"

definition arg_of_row :: "(int \<Rightarrow> core_error + type_expr) \<Rightarrow> type_arg_row \<Rightarrow> core_error + type_arg" where
  "arg_of_row read r =
     (if ar_arg_type_oid r \<noteq> 0
      then and_then (read (ar_arg_type_oid r)) (\<lambda>t. Inr (type_argument (ar_label r) (with_Nullable (ar_nullable r) t)))
      else Inr (literal_arg r))"

text \<open>\<open>TypeExprOf\<close>, which calls itself for the argument types.  More calls inside one another than there are oids come back
  to a row they are in the middle of, and overflow the stack.\<close>

fun expr_of :: "nat \<Rightarrow> core \<Rightarrow> int \<Rightarrow> core_error + type_expr" where
  "expr_of 0 c oid = Inl (CorePanic ''stack overflow'')"
| "expr_of (Suc n) c oid =
     and_then (LookupType c oid) (\<lambda>info.
       if IsFamily info then Inr (mk_TypeExpr (qualifiedName c info) False [])
       else and_then (map_ok (arg_of_row (expr_of n c)) (q_TypeArgs c oid)) (\<lambda>as.
              Inr (mk_TypeExpr (qualifiedName c info) False as)))"

definition TypeExprOf :: "core \<Rightarrow> int \<Rightarrow> core_error + type_expr" where
  "TypeExprOf c oid = expr_of (nat (c_next_type c)) c oid"

text \<open>Enums with their labels, and the families of a category.\<close>

definition EnumsInNamespace :: "core \<Rightarrow> int \<Rightarrow> (int \<times> string \<times> string list) list" where
  "EnumsInNamespace c ns =
     map (\<lambda>r. (tr_oid r, tr_name r, List.map_filter ar_string_value (q_TypeArgs c (tr_oid r))))
       (filter (\<lambda>r. tr_namespace_oid r = ns \<and> tr_typtype r = ''e'' \<and> IsFamily r) (c_types c))"

definition TypeOIDsInCategory :: "core \<Rightarrow> string \<Rightarrow> int list" where
  "TypeOIDsInCategory c category =
     map tr_oid
       (filter (\<lambda>r. tr_dialect_oid r = c_dialectOID c \<and> c_dialectOID c \<noteq> 0 \<and> tr_category r = category \<and> category \<noteq> [] \<and>
                    IsFamily r \<and> tr_canonical_oid r = 0) (c_types c))"

section \<open>Types of constants\<close>

definition defaultConstTypes :: "string \<rightharpoonup> string" where
  "defaultConstTypes =
     map_of [(''integer'', ''int4''), (''float'', ''numeric''), (''string'', ''text''), (''bool'', ''bool'')]"

definition ConstTypeOID :: "unicode \<Rightarrow> core \<Rightarrow> string \<Rightarrow> core_error + int" where
  "ConstTypeOID u c kind =
     (let named = own_flag c (''const.'' @ kind) in
      if named \<noteq> [] then TypeOID u c named
      else (case defaultConstTypes kind of
              None \<Rightarrow> Inl (CoreError NoCause (''unknown constant kind '' @ Quote kind))
            | Some name \<Rightarrow> TypeOID u c name))"

definition BoolTypeOID :: "unicode \<Rightarrow> core \<Rightarrow> core_error + int" where
  "BoolTypeOID u c =
     (let named = own_flag c FlagBoolType in if named \<noteq> [] then TypeOID u c named else ConstTypeOID u c ''bool'')"

definition LimitTypeOID :: "unicode \<Rightarrow> core \<Rightarrow> core_error + int" where
  "LimitTypeOID u c =
     (let named = own_flag c FlagLimitType in if named \<noteq> [] then TypeOID u c named else ConstTypeOID u c ''integer'')"

definition UntypedTypeOID :: "unicode \<Rightarrow> core \<Rightarrow> int option" where
  "UntypedTypeOID u c =
     (let named = own_flag c FlagUntypedType in
      if named = [] then None else (case TypeOID u c named of Inl e \<Rightarrow> None | Inr oid \<Rightarrow> Some oid))"

section \<open>Rules of the dialect\<close>

definition ListTypeRewrites :: "core \<Rightarrow> (string \<times> string \<times> string) list" where
  "ListTypeRewrites c =
     map (\<lambda>r. (rr_pattern r, rr_template r, rr_cond r))
       (sort_key rr_ord (filter (\<lambda>r. rr_dialect_oid r = c_dialectOID c) (c_rewrites c)))"

definition loadRules :: "unicode \<Rightarrow> core \<Rightarrow> core_error + rules" where
  "loadRules u c =
     (if c_dialectOID c = 0 then Inr no_rules
      else load_rules u (ListTypeRewrites c) (own_flag c FlagIdents) (own_flag c FlagIdentArgs))"

definition canonicalize :: "unicode \<Rightarrow> core \<Rightarrow> type_expr \<Rightarrow> core_error + type_expr" where
  "canonicalize u c t0 =
     and_then (loadRules u c) (\<lambda>r.
       let t = identify u r t0 in
       Inr (if r_rewrites r = [] then t
            else (case rules_rewrite u r t of
                    Some out \<Rightarrow> out
                  | None \<Rightarrow>
                      (case canonicalFamilyName u c (te_Name t) of
                         None \<Rightarrow> t
                       | Some canonical \<Rightarrow>
                           if EqualFold canonical (te_Name t) then t
                           else (case rules_rewrite u r (with_Name canonical t) of Some out \<Rightarrow> out | None \<Rightarrow> t)))))"

text \<open>\<open>AddTypeRewrite\<close> and \<open>AddTypeAffinity\<close>.\<close>

definition AddTypeRewrite :: "int \<Rightarrow> string \<Rightarrow> string \<Rightarrow> string \<Rightarrow> unit core_op" where
  "AddTypeRewrite ord pattern template cond c =
     (if \<exists>r \<in> set (c_rewrites c). rr_dialect_oid r = c_dialectOID c \<and> rr_ord r = ord
      then (wrapping_read (''type rewrite '' @ Quote pattern) constraint_failed, c)
      else (Inr (), c\<lparr>c_rewrites := c_rewrites c @
              [\<lparr>rr_dialect_oid = c_dialectOID c, rr_ord = ord, rr_pattern = pattern, rr_template = template, rr_cond = cond\<rparr>]\<rparr>))"

definition AddTypeAffinity :: "unicode \<Rightarrow> int \<Rightarrow> string list \<Rightarrow> int \<Rightarrow> unit core_op" where
  "AddTypeAffinity u ord words typeOID c =
     (if \<exists>r \<in> set (c_affinities c). af_dialect_oid r = c_dialectOID c \<and> af_ord r = ord
      then (wrapping_read (''type affinity '' @ Itoa ord) constraint_failed, c)
      else (Inr (), c\<lparr>c_affinities := c_affinities c @
              [\<lparr>af_dialect_oid = c_dialectOID c, af_ord = ord, af_words = strings_ToUpper u (Join words '',''),
                af_type_oid = typeOID\<rparr>]\<rparr>))"

text \<open>\<open>userTypeBase\<close>: 0 when no step of the affinity rule takes the name.\<close>

definition affinity_step :: "string \<Rightarrow> affinity_row \<Rightarrow> int option" where
  "affinity_step upper r =
     (if af_words r = [] then Some (af_type_oid r)
      else if list_ex (\<lambda>w. w \<noteq> [] \<and> Contains upper w) (split_byte (CHR '','') (af_words r)) then Some (af_type_oid r)
      else None)"

definition userTypeBase :: "unicode \<Rightarrow> core \<Rightarrow> string \<Rightarrow> int" where
  "userTypeBase u c name =
     (if c_dialectOID c = 0 then 0
      else (case first_some (affinity_step (strings_ToUpper u name))
                   (sort_key af_ord (filter (\<lambda>r. af_dialect_oid r = c_dialectOID c) (c_affinities c))) of
              None \<Rightarrow> 0 | Some oid \<Rightarrow> oid))"

end
