(* ===== verification/Core_Types.thy ===== *)
theory Core_Types
  imports Core_Catalog
begin

text \<open>
  The writing half of \<open>internal/core/types.go\<close>: type rows, declared types, the interning of type expressions, lookups
  that may not write, and the removal of types; with \<open>operator.go\<close>.
\<close>

section \<open>Operators\<close>

record operatorSpec =
  os_Name :: string
  os_DialectOID :: int
  os_LeftTypeOID :: int
  os_RightTypeOID :: int
  os_ResultTypeOID :: int

definition CreateOperator :: "operatorSpec \<Rightarrow> int core_op" where
  "CreateOperator os c =
     (Inr (c_next_operator c),
      c\<lparr>c_operators := c_operators c @
          [\<lparr>or_oid = c_next_operator c, or_dialect_oid = os_DialectOID os, or_name = os_Name os,
             or_left_type_oid = os_LeftTypeOID os, or_right_type_oid = os_RightTypeOID os,
             or_result_type_oid = os_ResultTypeOID os\<rparr>],
        c_next_operator := c_next_operator c + 1\<rparr>)"

definition FindOperators :: "core \<Rightarrow> string \<Rightarrow> int \<Rightarrow> int \<Rightarrow> operator_row list" where
  "FindOperators c name left right =
     filter (\<lambda>r. or_name r = name \<and> (left = 0 \<or> or_left_type_oid r = left) \<and> (right = 0 \<or> or_right_type_oid r = right))
       (c_operators c)"

section \<open>Type rows\<close>

record typeSpec =
  ts_Name :: string
  ts_Expr :: string
  ts_Typtype :: string
  ts_Category :: string
  ts_Preferred :: bool
  ts_NamespaceOID :: int
  ts_DialectOID :: int
  ts_FamilyOID :: int
  ts_ElementOID :: int
  ts_BaseOID :: int
  ts_CanonicalOID :: int
  ts_NotNull :: bool

text \<open>The composite literal \<open>TypeSpec{Name: n}\<close>.\<close>

definition named_spec :: "string \<Rightarrow> typeSpec" where
  "named_spec n =
     \<lparr>ts_Name = n, ts_Expr = [], ts_Typtype = [], ts_Category = [], ts_Preferred = False, ts_NamespaceOID = 0, ts_DialectOID = 0,
      ts_FamilyOID = 0, ts_ElementOID = 0, ts_BaseOID = 0, ts_CanonicalOID = 0, ts_NotNull = False\<rparr>"

definition insert_type :: "type_row \<Rightarrow> core \<Rightarrow> core" where
  "insert_type r c = c\<lparr>c_types := c_types c @ [r], c_next_type := c_next_type c + 1\<rparr>"

definition q_CreateType :: "(int \<Rightarrow> type_row) \<Rightarrow> int core_op" where
  "q_CreateType row c =
     (let r = row (c_next_type c) in
      if \<exists>r' \<in> set (c_types c). tr_namespace_oid r' = tr_namespace_oid r \<and> tr_expr r' = tr_expr r
      then (constraint_failed, c)
      else (Inr (c_next_type c), insert_type r c))"

definition spec_row :: "unicode \<Rightarrow> typeSpec \<Rightarrow> int \<Rightarrow> int \<Rightarrow> type_row" where
  "spec_row u t ns oid =
     (let name = strings_ToLower u (ts_Name t) in
      \<lparr>tr_oid = oid, tr_namespace_oid = ns, tr_dialect_oid = ts_DialectOID t, tr_name = name,
       tr_expr = (if ts_Expr t = [] then name else ts_Expr t), tr_typtype = (if ts_Typtype t = [] then ''b'' else ts_Typtype t),
       tr_category = ts_Category t, tr_preferred = ts_Preferred t, tr_family_oid = ts_FamilyOID t,
       tr_element_oid = ts_ElementOID t, tr_base_oid = ts_BaseOID t, tr_canonical_oid = ts_CanonicalOID t,
       tr_not_null = ts_NotNull t\<rparr>)"

definition spec_namespace :: "core \<Rightarrow> typeSpec \<Rightarrow> core_error + int" where
  "spec_namespace c t =
     (if ts_NamespaceOID t = 0
      then wrapping_read (''create type '' @ Quote (ts_Name t) @ '': default namespace'') (NamespaceOID c ''public'')
      else Inr (ts_NamespaceOID t))"

definition CreateTypeSpec :: "unicode \<Rightarrow> typeSpec \<Rightarrow> int core_op" where
  "CreateTypeSpec u t =
     bind_op (reading (\<lambda>c. spec_namespace c t)) (\<lambda>ns.
       wrapping (''create type '' @ Quote (tr_expr (spec_row u t ns 0))) (q_CreateType (spec_row u t ns)))"

definition CreateType :: "unicode \<Rightarrow> string \<Rightarrow> int core_op" where
  "CreateType u name = CreateTypeSpec u ((named_spec name)\<lparr>ts_Typtype := ''b''\<rparr>)"

text \<open>\<open>createComparisons\<close>; an insert of an operator cannot fail.\<close>

definition comparison_spec :: "core \<Rightarrow> int \<Rightarrow> int \<Rightarrow> string \<Rightarrow> operatorSpec" where
  "comparison_spec c typeOID boolOID op =
     \<lparr>os_Name = op, os_DialectOID = c_dialectOID c, os_LeftTypeOID = typeOID, os_RightTypeOID = typeOID,
      os_ResultTypeOID = boolOID\<rparr>"

definition createComparisons :: "unicode \<Rightarrow> int \<Rightarrow> core \<Rightarrow> core" where
  "createComparisons u typeOID c =
     (let ops = own_flag c FlagComparisonOperators; boolName = own_flag c ''const.bool'' in
      if ops = [] \<or> boolName = [] then c
      else (case TypeOID u c boolName of
              Inl e \<Rightarrow> c
            | Inr boolOID \<Rightarrow>
                fold (\<lambda>op c'. if op = [] then c' else snd (CreateOperator (comparison_spec c' typeOID boolOID op) c'))
                  (split_byte (CHR '','') ops) c))"

section \<open>Declared types\<close>

text \<open>\<open>declaredTypeNamespace\<close>: 0 for a bare name of a dialect without a default schema.\<close>

definition declaredTypeNamespace :: "string \<Rightarrow> (int \<times> string) core_op" where
  "declaredTypeNamespace name c =
     (let qualifier = fst (splitQualifiedName name); bare = snd (splitQualifiedName name);
          ns = (if qualifier = [] then own_flag c FlagDefaultSchema else qualifier)
      in if ns = [] then (Inr (0, bare), c)
         else (case NamespaceOID c ns of
                 Inr oid \<Rightarrow> (Inr (oid, bare), c)
               | Inl e \<Rightarrow> bind_op (CreateNamespace ns) (\<lambda>oid. ret (oid, bare)) c))"

definition with_comparisons :: "unicode \<Rightarrow> int core_op \<Rightarrow> int core_op" where
  "with_comparisons u m = bind_op m (\<lambda>oid c. (Inr oid, createComparisons u oid c))"

definition CreateUserType :: "unicode \<Rightarrow> string \<Rightarrow> string \<Rightarrow> int core_op" where
  "CreateUserType u name category =
     bind_op (wrapping (''create type '' @ Quote name) (declaredTypeNamespace (strings_ToLower u name))) (\<lambda>(ns, bare) c.
       (let spec = (named_spec bare)\<lparr>ts_NamespaceOID := ns, ts_Typtype := (if category = ''E'' then ''e'' else ''b''),
                      ts_Category := category, ts_DialectOID := c_dialectOID c\<rparr>;
            baseOID = (if category = ''U'' then userTypeBase u c bare else 0)
        in if baseOID \<noteq> 0
           then bind_op (reading (\<lambda>c. LookupType c baseOID)) (\<lambda>base.
                  CreateTypeSpec u (spec\<lparr>ts_BaseOID := baseOID, ts_Category := tr_category base\<rparr>)) c
           else with_comparisons u (CreateTypeSpec u spec) c))"

text \<open>\<open>insertTypeArgs\<close>: the row of argument \<open>i\<close>, whose type is interned as \<open>oid\<close>.\<close>

definition arg_row :: "int \<Rightarrow> nat \<Rightarrow> type_arg \<Rightarrow> int \<Rightarrow> type_arg_row" where
  "arg_row typeOID i a oid =
     (let r = \<lparr>ar_type_oid = typeOID, ar_ord = i + 1, ar_label = ta_Label a, ar_arg_type_oid = 0, ar_nullable = False,
               ar_int_value = None, ar_bool_value = None, ar_string_value = None, ar_ident = None\<rparr> in
      case ta_Type a of
        Some t \<Rightarrow> r\<lparr>ar_arg_type_oid := oid, ar_nullable := te_Nullable t\<rparr>
      | None \<Rightarrow>
          (case ta_Int a of
             Some n \<Rightarrow> r\<lparr>ar_int_value := Some n\<rparr>
           | None \<Rightarrow>
               (case ta_Bool a of
                  Some b \<Rightarrow> r\<lparr>ar_bool_value := Some b\<rparr>
                | None \<Rightarrow>
                    (case ta_String a of
                       Some s \<Rightarrow> r\<lparr>ar_string_value := Some s\<rparr>
                     | None \<Rightarrow> r\<lparr>ar_ident := ta_Ident a\<rparr>))))"

definition q_CreateTypeArg :: "type_arg_row \<Rightarrow> unit core_op" where
  "q_CreateTypeArg r c =
     (if \<exists>r' \<in> set (c_type_args c). ar_type_oid r' = ar_type_oid r \<and> ar_ord r' = ar_ord r then (constraint_failed, c)
      else (Inr (), c\<lparr>c_type_args := c_type_args c @ [r]\<rparr>))"

fun insert_args_from :: "string \<Rightarrow> int \<Rightarrow> nat \<Rightarrow> (type_arg \<times> int) list \<Rightarrow> unit core_op" where
  "insert_args_from key typeOID i [] = ret ()"
| "insert_args_from key typeOID i ((a, oid) # as) =
     bind_op (wrapping (''type '' @ Quote key @ '': argument '' @ Itoa (int i + 1)) (q_CreateTypeArg (arg_row typeOID i a oid))) (\<lambda>_.
       insert_args_from key typeOID (i + 1) as)"

definition insertTypeArgs :: "int \<Rightarrow> string \<Rightarrow> (type_arg \<times> int) list \<Rightarrow> unit core_op" where
  "insertTypeArgs typeOID key as = insert_args_from key typeOID 0 as"

section \<open>Interning\<close>

text \<open>
  \<open>internType\<close> returns a row, an expression and an error.  With an error the row is 0, and the expression is there only
  where the family is known, the instance is not a row, and writing is not allowed.
\<close>

type_synonym interned = "(core_error \<times> type_expr option) + (int \<times> type_expr)"

definition unknown_type :: core_error where
  "unknown_type = CoreError errUnknownType ''unknown type''"

fun is_unknown :: "core_error \<Rightarrow> bool" where
  "is_unknown (CoreError k s) \<longleftrightarrow> k = errUnknownType"
| "is_unknown (CorePanic s) \<longleftrightarrow> False"

definition not_interned :: "core_error + 'a \<Rightarrow> ('a \<Rightarrow> core \<Rightarrow> interned \<times> core) \<Rightarrow> core \<Rightarrow> interned \<times> core" where
  "not_interned r f c = (case r of Inl e \<Rightarrow> (Inl (e, None), c) | Inr x \<Rightarrow> f x c)"

definition with_Type :: "type_expr \<Rightarrow> type_arg \<Rightarrow> type_arg" where
  "with_Type t a = mk_TypeArg (ta_Label a) (Some t) (ta_Int a) (ta_Bool a) (ta_String a) (ta_Ident a)"

text \<open>The loop over the arguments: each with its row, and whether one of the types is not a row.\<close>

fun intern_args ::
  "(type_expr \<Rightarrow> core \<Rightarrow> interned \<times> core) \<Rightarrow> type_arg list \<Rightarrow> ((type_arg \<times> int) list \<times> bool) core_op" where
  "intern_args f [] c = (Inr ([], False), c)"
| "intern_args f (a # as) c =
     (case ta_Type a of
        None \<Rightarrow> bind_op (intern_args f as) (\<lambda>(xs, unknown). ret ((a, 0) # xs, unknown)) c
      | Some t \<Rightarrow>
          (case f t c of
             (Inr (oid, e), c') \<Rightarrow>
               bind_op (intern_args f as) (\<lambda>(xs, unknown).
                 ret ((with_Type (with_Nullable (te_Nullable t) e) a, oid) # xs, unknown)) c'
           | (Inl (err, None), c') \<Rightarrow> (Inl err, c')
           | (Inl (err, Some e), c') \<Rightarrow>
               if is_unknown err
               then bind_op (intern_args f as) (\<lambda>(xs, unknown).
                      ret ((with_Type (with_Nullable (te_Nullable t) e) a, 0) # xs, True)) c'
               else (Inl err, c')))"

definition instance_named :: "int \<Rightarrow> string \<Rightarrow> type_row \<Rightarrow> bool" where
  "instance_named ns key r \<longleftrightarrow> tr_namespace_oid r = ns \<and> tr_expr r = key"

definition instance_spec :: "core \<Rightarrow> type_row \<Rightarrow> string \<Rightarrow> (type_arg \<times> int) list \<Rightarrow> typeSpec" where
  "instance_spec c family key as =
     (named_spec (tr_name family))\<lparr>ts_Expr := key, ts_Typtype := tr_typtype family, ts_Category := tr_category family,
        ts_NamespaceOID := tr_namespace_oid family, ts_DialectOID := c_dialectOID c, ts_FamilyOID := tr_oid family,
        ts_ElementOID := (if tr_name family = ''array'' then (case as of [] \<Rightarrow> 0 | (_, oid) # _ \<Rightarrow> oid) else 0)\<rparr>"

definition intern_instance ::
  "unicode \<Rightarrow> bool \<Rightarrow> type_row \<Rightarrow> (type_arg \<times> int) list \<Rightarrow> bool \<Rightarrow> core \<Rightarrow> interned \<times> core" where
  "intern_instance u w family as unknown c =
     (let canonical = mk_TypeExpr (qualifiedName c family) False (map fst as); key = Key canonical in
      if unknown then (Inl (unknown_type, Some canonical), c)
      else (case find (instance_named (tr_namespace_oid family) key) (c_types c) of
              Some r \<Rightarrow> (Inr (tr_oid r, canonical), c)
            | None \<Rightarrow>
                if \<not> w then (Inl (unknown_type, Some canonical), c)
                else (case CreateTypeSpec u (instance_spec c family key as) c of
                        (Inl e, c') \<Rightarrow> (Inl (e, None), c')
                      | (Inr oid, c') \<Rightarrow>
                          (case insertTypeArgs oid key as c' of
                             (Inl e, c'') \<Rightarrow> (Inl (e, None), c'')
                           | (Inr _, c'') \<Rightarrow> (Inr (oid, canonical), c'')))))"

definition family_for :: "unicode \<Rightarrow> (string \<Rightarrow> int core_op) \<Rightarrow> bool \<Rightarrow> string \<Rightarrow> int core_op" where
  "family_for u newFamily w name c =
     (case familyOIDByQualifiedName c name of
        Inr oid \<Rightarrow> (Inr oid, c)
      | Inl e \<Rightarrow>
          wrapping (''type '' @ Quote name)
            (if name = ''array'' \<and> w
             then CreateTypeSpec u ((named_spec name)\<lparr>ts_Category := ''A'', ts_DialectOID := c_dialectOID c\<rparr>)
             else newFamily name) c)"

text \<open>\<open>internType\<close> for an expression that is not nil; \<open>n\<close> bounds the nesting, which rewrites that wrap a type in itself would
  make infinite.\<close>

fun intern :: "unicode \<Rightarrow> nat \<Rightarrow> (string \<Rightarrow> int core_op) \<Rightarrow> bool \<Rightarrow> type_expr \<Rightarrow> core \<Rightarrow> interned \<times> core" where
  "intern u 0 newFamily w t0 c = (Inl (CorePanic ''stack overflow'', None), c)"
| "intern u (Suc n) newFamily w t0 c =
     (if TrimSpace (te_Name t0) = [] then (Inl (CoreError NoCause ''missing type name'', None), c)
      else not_interned (canonicalize u c t0) (\<lambda>t c.
        case family_for u newFamily w (strings_ToLower u (TrimSpace (te_Name t))) c of
          (Inl e, c1) \<Rightarrow> (Inl (e, None), c1)
        | (Inr declared, c1) \<Rightarrow>
            not_interned (and_then (canonicalOID c1 declared) (LookupType c1)) (\<lambda>family c1.
              if te_Args t = [] then (Inr (tr_oid family, mk_TypeExpr (qualifiedName c1 family) False []), c1)
              else (case intern_args (intern u n newFamily w) (te_Args t) c1 of
                      (Inl e, c2) \<Rightarrow> (Inl (e, None), c2)
                    | (Inr (as, unknown), c2) \<Rightarrow> intern_instance u w family as unknown c2)) c1) c)"

definition internType :: "unicode \<Rightarrow> nat \<Rightarrow> (string \<Rightarrow> int core_op) \<Rightarrow> bool \<Rightarrow> type_expr option \<Rightarrow> core \<Rightarrow> interned \<times> core" where
  "internType u n newFamily w t c =
     (case t of None \<Rightarrow> (Inl (CoreError NoCause ''missing type name'', None), c) | Some e \<Rightarrow> intern u n newFamily w e c)"

definition interned_oid :: "interned \<times> core \<Rightarrow> (core_error + int) \<times> core" where
  "interned_oid r = map_prod (map_sum fst fst) id r"

definition ResolveTypeExpr :: "unicode \<Rightarrow> nat \<Rightarrow> type_expr option \<Rightarrow> int core_op" where
  "ResolveTypeExpr u n t c = interned_oid (internType u n (\<lambda>name. CreateUserType u name ''U'') True t c)"

definition ResolvePseudoTypeExpr :: "unicode \<Rightarrow> nat \<Rightarrow> type_expr option \<Rightarrow> int core_op" where
  "ResolvePseudoTypeExpr u n t c =
     interned_oid (internType u n
       (\<lambda>name. CreateTypeSpec u ((named_spec name)\<lparr>ts_Category := ''U'', ts_DialectOID := c_dialectOID c\<rparr>)) True t c)"

definition ResolveTypeName :: "unicode \<Rightarrow> nat \<Rightarrow> string \<Rightarrow> int core_op" where
  "ResolveTypeName u n name c =
     (case ParseTypeExpr u name of Inl e \<Rightarrow> (Inl e, c) | Inr t \<Rightarrow> ResolveTypeExpr u n (Some t) c)"

definition ResolveType :: "unicode \<Rightarrow> nat \<Rightarrow> core_type_name option \<Rightarrow> int core_op" where
  "ResolveType u n tn c =
     (case TypeExprOfTypeName u tn of
        Inl e \<Rightarrow> (Inl e, c)
      | Inr None \<Rightarrow> (Inl (CoreError NoCause ''missing type name''), c)
      | Inr (Some t) \<Rightarrow> ResolveTypeExpr u n (Some t) c)"

section \<open>Lookups that may not write\<close>

record typeLookup =
  tl_OID :: int
  tl_FamilyOID :: int
  tl_Expr :: type_expr

definition refuse :: "string \<Rightarrow> int core_op" where
  "refuse name c = (Inl unknown_type, c)"

text \<open>The callback refuses and nothing is written, so the catalog is left as it is.\<close>

definition LookupTypeExpr :: "unicode \<Rightarrow> nat \<Rightarrow> core \<Rightarrow> type_expr option \<Rightarrow> typeLookup option" where
  "LookupTypeExpr u n c t =
     (case fst (internType u n refuse False t c) of
        Inr (oid, canonical) \<Rightarrow>
          (case LookupType c oid of
             Inl e \<Rightarrow> None
           | Inr info \<Rightarrow>
               Some \<lparr>tl_OID = oid, tl_FamilyOID = (if IsFamily info then oid else tr_family_oid info), tl_Expr = canonical\<rparr>)
      | Inl (err, Some canonical) \<Rightarrow>
          if is_unknown err then
            (case fst (internType u n refuse False (Some (mk_TypeExpr (te_Name canonical) False [])) c) of
               Inr (family, _) \<Rightarrow> Some \<lparr>tl_OID = family, tl_FamilyOID = family, tl_Expr = canonical\<rparr>
             | Inl _ \<Rightarrow> None)
          else None
      | Inl (err, None) \<Rightarrow> None)"

section \<open>Types with arguments of their own\<close>

fun intern_fields :: "(type_expr \<Rightarrow> core \<Rightarrow> interned \<times> core) \<Rightarrow> type_arg list \<Rightarrow> (type_arg \<times> int) list core_op" where
  "intern_fields f [] c = (Inr [], c)"
| "intern_fields f (a # as) c =
     (case ta_Type a of
        None \<Rightarrow> bind_op (intern_fields f as) (\<lambda>xs. ret ((a, 0) # xs)) c
      | Some t \<Rightarrow>
          (case f t c of
             (Inl (err, _), c') \<Rightarrow> (Inl err, c')
           | (Inr (oid, _), c') \<Rightarrow> bind_op (intern_fields f as) (\<lambda>xs. ret ((a, oid) # xs)) c'))"

definition CreateTypeWithArgs :: "unicode \<Rightarrow> nat \<Rightarrow> typeSpec \<Rightarrow> type_arg list \<Rightarrow> int core_op" where
  "CreateTypeWithArgs u n spec0 as =
     bind_op (wrapping (''create type '' @ Quote (ts_Name spec0)) (declaredTypeNamespace (strings_ToLower u (ts_Name spec0)))) (\<lambda>(ns, bare) c.
       (let spec = spec0\<lparr>ts_Name := bare, ts_NamespaceOID := (if ns \<noteq> 0 then ns else ts_NamespaceOID spec0),
                     ts_DialectOID := (if ts_DialectOID spec0 = 0 then c_dialectOID c else ts_DialectOID spec0)\<rparr>
        in bind_op (wrapping (''create type '' @ Quote bare)
                     (intern_fields (intern u n (\<lambda>name. CreateUserType u name ''U'') True) as)) (\<lambda>fields.
             bind_op (with_comparisons u (CreateTypeSpec u spec)) (\<lambda>oid.
               bind_op (insertTypeArgs oid (ts_Expr spec) fields) (\<lambda>_. ret oid))) c))"

section \<open>Removing types\<close>

definition ListTypesOver :: "core \<Rightarrow> int \<Rightarrow> int list" where
  "ListTypesOver c oid = map tr_oid (filter (\<lambda>r. oid \<noteq> 0 \<and> (tr_element_oid r = oid \<or> tr_base_oid r = oid)) (c_types c))"

definition delete_type :: "int \<Rightarrow> core \<Rightarrow> core" where
  "delete_type oid c =
     c\<lparr>c_operators := filter (\<lambda>r. \<not> (or_left_type_oid r = oid \<or> or_right_type_oid r = oid \<or> or_result_type_oid r = oid)) (c_operators c),
       c_type_args := filter (\<lambda>r. ar_type_oid r \<noteq> oid) (c_type_args c),
       c_types := filter (\<lambda>r. tr_oid r \<noteq> oid) (c_types c)\<rparr>"

fun each_op :: "('a \<Rightarrow> unit core_op) \<Rightarrow> 'a list \<Rightarrow> unit core_op" where
  "each_op f [] = ret ()"
| "each_op f (x # xs) = bind_op (f x) (\<lambda>_. each_op f xs)"

text \<open>\<open>dropType\<close>, with the bound of \<open>TypeExprOf\<close> on the nesting of its calls.\<close>

fun drop_from :: "nat \<Rightarrow> int \<Rightarrow> unit core_op" where
  "drop_from 0 oid c = (Inl (CorePanic ''stack overflow''), c)"
| "drop_from (Suc n) oid c =
     bind_op (each_op (drop_from n) (ListTypesOver c oid)) (\<lambda>_ c'. (Inr (), delete_type oid c')) c"

definition dropType :: "int \<Rightarrow> unit core_op" where
  "dropType oid c = drop_from (nat (c_next_type c)) oid c"

definition DropDeclaredType :: "unicode \<Rightarrow> string \<Rightarrow> unit core_op" where
  "DropDeclaredType u name = bind_op (reading (\<lambda>c. familyOIDByQualifiedName c (strings_ToLower u name))) dropType"

definition TypeDeclared :: "unicode \<Rightarrow> core \<Rightarrow> string \<Rightarrow> bool" where
  "TypeDeclared u c name \<longleftrightarrow>
     (case familyOIDByQualifiedName c (strings_ToLower u name) of Inl e \<Rightarrow> False | Inr oid \<Rightarrow> True)"

end
