(* ===== verification/Core_Inv.thy ===== *)
theory Core_Inv
  imports Core_Types
begin

text \<open>
  The invariant of the core catalog: keys are unique and below their counters, no two rows of a namespace have one
  spelling, arguments come before the types they belong to, and the arguments of an instance spell what its row is found by.
  An operation that only adds rows \<open>extends\<close> the catalog; what the catalog says of the types it held stays as it is.
\<close>

section \<open>Invariant\<close>

definition oids :: "core \<Rightarrow> int set" where
  "oids c = tr_oid ` set (c_types c)"

text \<open>A family may be declared under a name with a parenthesis in it, and then stand where the key of an instance is looked up;
  what the rows spell is claimed of catalogs without one.\<close>

definition paren_free :: "core \<Rightarrow> bool" where
  "paren_free c \<longleftrightarrow> (\<forall>r \<in> set (c_types c). IsFamily r \<longrightarrow> CHR ''('' \<notin> set (tr_expr r))"

definition spelled :: "core \<Rightarrow> int \<Rightarrow> string \<Rightarrow> bool" where
  "spelled c oid key \<longleftrightarrow> (paren_free c \<longrightarrow> (\<exists>e. TypeExprOf c oid = Inr e \<and> Key e = key))"

definition row_ok :: "unicode \<Rightarrow> core \<Rightarrow> type_row \<Rightarrow> bool" where
  "row_ok u c r \<longleftrightarrow>
     0 < tr_oid r \<and> tr_oid r < c_next_type c \<and> tr_namespace_oid r \<in> fst ` set (c_namespaces c) \<and>
     strings_ToLower u (tr_name r) = tr_name r \<and> tr_element_oid r < tr_oid r \<and> tr_base_oid r < tr_oid r \<and>
     (tr_canonical_oid r \<noteq> 0 \<longrightarrow> (\<exists>f \<in> set (c_types c). tr_oid f = tr_canonical_oid r \<and> IsFamily f)) \<and>
     (\<not> IsFamily r \<longrightarrow> spelled c (tr_oid r) (tr_expr r))"

definition arg_ok :: "core \<Rightarrow> type_arg_row \<Rightarrow> bool" where
  "arg_ok c a \<longleftrightarrow>
     ar_type_oid a \<in> oids c \<and>
     (ar_arg_type_oid a \<noteq> 0 \<longrightarrow> ar_arg_type_oid a \<in> oids c \<and> ar_arg_type_oid a < ar_type_oid a)"

definition namespaces_ok :: "core \<Rightarrow> bool" where
  "namespaces_ok c \<longleftrightarrow> 0 < c_next_namespace c \<and> (\<forall>p \<in> set (c_namespaces c). 0 < fst p \<and> fst p < c_next_namespace c)"

definition core_ok :: "unicode \<Rightarrow> core \<Rightarrow> bool" where
  "core_ok u c \<longleftrightarrow>
     distinct (map tr_oid (c_types c)) \<and> distinct (map (\<lambda>r. (tr_namespace_oid r, tr_expr r)) (c_types c)) \<and>
     0 < c_next_type c \<and> namespaces_ok c \<and>
     (\<forall>r \<in> set (c_types c). row_ok u c r) \<and> (\<forall>a \<in> set (c_type_args c). arg_ok c a)"

lemma core_okD:
  assumes "core_ok u c"
  shows "distinct (map tr_oid (c_types c))" "distinct (map (\<lambda>r. (tr_namespace_oid r, tr_expr r)) (c_types c))"
    "0 < c_next_type c" "namespaces_ok c" "r \<in> set (c_types c) \<Longrightarrow> row_ok u c r" "a \<in> set (c_type_args c) \<Longrightarrow> arg_ok c a"
  using assms by (auto simp: core_ok_def)

lemma oids_range: "core_ok u c \<Longrightarrow> oid \<in> oids c \<Longrightarrow> 0 < oid \<and> oid < c_next_type c"
  by (auto simp: oids_def row_ok_def dest: core_okD(5))

section \<open>Extending a catalog\<close>

definition extends :: "core \<Rightarrow> core \<Rightarrow> bool" where
  "extends c c' \<longleftrightarrow>
     (\<exists>rs. c_types c' = c_types c @ rs \<and> (\<forall>r \<in> set rs. c_next_type c \<le> tr_oid r)) \<and>
     (\<exists>as. c_type_args c' = c_type_args c @ as \<and> (\<forall>a \<in> set as. c_next_type c \<le> ar_type_oid a)) \<and>
     (\<exists>ns. c_namespaces c' = c_namespaces c @ ns \<and> (\<forall>p \<in> set ns. c_next_namespace c \<le> fst p)) \<and>
     c_next_type c \<le> c_next_type c' \<and> c_next_namespace c \<le> c_next_namespace c' \<and>
     c_flags c' = c_flags c \<and> c_dialectOID c' = c_dialectOID c \<and> c_rewrites c' = c_rewrites c \<and> c_affinities c' = c_affinities c"

lemma extends_refl [simp, intro]: "extends c c"
  by (simp add: extends_def)

lemma extends_trans [trans]:
  assumes "extends a b" and "extends b c"
  shows "extends a c"
  using assms unfolding extends_def by (elim conjE exE) (intro conjI; fastforce)

lemma extendsD:
  assumes "extends c c'"
  shows "c_flags c' = c_flags c" "c_dialectOID c' = c_dialectOID c" "c_rewrites c' = c_rewrites c" "c_affinities c' = c_affinities c"
    "c_next_type c \<le> c_next_type c'" "c_next_namespace c \<le> c_next_namespace c'"
  using assms by (auto simp: extends_def)

lemma extends_own_flag: "extends c c' \<Longrightarrow> own_flag c' key = own_flag c key"
  by (simp add: own_flag_def DialectFlag_def extendsD)

lemma extends_DefaultNamespaces: "extends c c' \<Longrightarrow> DefaultNamespaces c' = DefaultNamespaces c"
  by (simp add: DefaultNamespaces_def extends_own_flag)

lemma extends_oids: "extends c c' \<Longrightarrow> oids c \<subseteq> oids c'"
  by (auto simp: extends_def oids_def)

lemma extends_namespaces: "extends c c' \<Longrightarrow> set (c_namespaces c) \<subseteq> set (c_namespaces c')"
  by (auto simp: extends_def)

lemma find_of_append: "find P (xs @ ys) = (case find P xs of None \<Rightarrow> find P ys | Some x \<Rightarrow> Some x)"
  by (induction xs) auto

lemma find_hit: "x \<in> set xs \<Longrightarrow> P x \<Longrightarrow> \<exists>y. find P xs = Some y \<and> y \<in> set xs \<and> P y"
  by (induction xs) auto

lemma find_SomeD: "find P xs = Some y \<Longrightarrow> y \<in> set xs \<and> P y"
  by (induction xs) (auto split: if_splits)

lemma first_row_append:
  "first_row P f (xs @ ys) = (case find P xs of None \<Rightarrow> first_row P f ys | Some x \<Rightarrow> Inr (f x))"
  by (simp add: first_row_def find_of_append split: option.split)

lemma extends_namespaceName:
  assumes "extends c c'" and "ns \<in> fst ` set (c_namespaces c)"
  shows "namespaceName c' ns = namespaceName c ns"
proof -
  from assms(2) obtain y where "find (\<lambda>r. fst r = ns) (c_namespaces c) = Some y"
    using find_hit [of _ "c_namespaces c" "\<lambda>r. fst r = ns"] by force
  with assms(1) show ?thesis by (auto simp: extends_def namespaceName_def find_of_append)
qed

lemma extends_qualifiedName:
  "extends c c' \<Longrightarrow> tr_namespace_oid r \<in> fst ` set (c_namespaces c) \<Longrightarrow> qualifiedName c' r = qualifiedName c r"
  by (simp add: qualifiedName_def extends_namespaceName extends_DefaultNamespaces)

section \<open>Looking a row up\<close>

lemma LookupType_Inr: "LookupType c oid = Inr r \<longleftrightarrow> find (\<lambda>r. tr_oid r = oid) (c_types c) = Some r"
  by (auto simp: LookupType_def q_LookupType_def wrapping_read_def first_row_def no_rows_def split: option.splits sum.splits)

lemma LookupType_row:
  assumes "distinct (map tr_oid (c_types c))"
  shows "LookupType c oid = Inr r \<longleftrightarrow> r \<in> set (c_types c) \<and> tr_oid r = oid"
proof
  assume "r \<in> set (c_types c) \<and> tr_oid r = oid"
  moreover from this obtain y where "find (\<lambda>r. tr_oid r = oid) (c_types c) = Some y" "y \<in> set (c_types c)" "tr_oid y = oid"
    using find_hit [of r "c_types c" "\<lambda>r. tr_oid r = oid"] by blast
  ultimately show "LookupType c oid = Inr r" using assms by (auto simp: LookupType_Inr distinct_map inj_on_def)
qed (auto simp: LookupType_Inr dest: find_SomeD)

lemma LookupType_known: "oid \<in> oids c \<Longrightarrow> \<exists>r. LookupType c oid = Inr r \<and> r \<in> set (c_types c) \<and> tr_oid r = oid"
  using find_hit [of _ "c_types c" "\<lambda>r. tr_oid r = oid"] by (auto simp: oids_def LookupType_Inr)

lemma LookupType_oids: "LookupType c oid = Inr r \<Longrightarrow> oid \<in> oids c \<and> r \<in> set (c_types c) \<and> tr_oid r = oid"
  by (auto simp: LookupType_Inr oids_def dest: find_SomeD)

lemma extends_LookupType:
  assumes "extends c c'" and "oid \<in> oids c"
  shows "LookupType c' oid = LookupType c oid"
proof -
  obtain r where "find (\<lambda>r. tr_oid r = oid) (c_types c) = Some r"
    using LookupType_known [OF assms(2)] by (auto simp: LookupType_Inr)
  with assms(1) have "LookupType c' oid = Inr r" "LookupType c oid = Inr r"
    by (auto simp: extends_def LookupType_Inr find_of_append)
  then show ?thesis by simp
qed

lemma extends_TypeArgs:
  assumes "extends c c'" and "core_ok u c" and "oid \<in> oids c"
  shows "q_TypeArgs c' oid = q_TypeArgs c oid"
proof -
  from assms(1) obtain as where as: "c_type_args c' = c_type_args c @ as" "\<forall>a \<in> set as. c_next_type c \<le> ar_type_oid a"
    by (auto simp: extends_def)
  have "oid < c_next_type c" using oids_range [OF assms(2,3)] by simp
  with as(2) have "filter (\<lambda>r. ar_type_oid r = oid) as = []" by (force simp: filter_empty_conv)
  with as(1) show ?thesis by (simp add: q_TypeArgs_def)
qed

lemma set_q_TypeArgs [simp]: "set (q_TypeArgs c oid) = {a \<in> set (c_type_args c). ar_type_oid a = oid}"
  by (auto simp: q_TypeArgs_def)

section \<open>Reading an expression\<close>

text \<open>The nesting that \<open>TypeExprOf\<close> needs is below the oid, so the bound is never met; and what it reads of a row the catalog
  holds does not change when the catalog grows.\<close>

lemma expr_of_stable:
  assumes "extends c c'" and "core_ok u c" and "oid \<in> oids c" and "nat oid \<le> n" and "nat oid \<le> m"
  shows "expr_of m c' oid = expr_of n c oid"
  using assms(3-)
proof (induction "nat oid" arbitrary: oid n m rule: less_induct)
  case less
  have pos: "0 < oid" using oids_range [OF assms(2) less.prems(1)] by simp
  then obtain n' m' where n: "n = Suc n'" "m = Suc m'" using less.prems by (cases n; cases m) auto
  obtain r where r: "LookupType c oid = Inr r" "r \<in> set (c_types c)" "tr_oid r = oid"
    using LookupType_known [OF less.prems(1)] by blast
  have r': "LookupType c' oid = Inr r" using extends_LookupType [OF assms(1) less.prems(1)] r(1) by simp
  have ns: "tr_namespace_oid r \<in> fst ` set (c_namespaces c)" using core_okD(5) [OF assms(2) r(2)] by (simp add: row_ok_def)
  have arg: "arg_of_row (expr_of m' c') a = arg_of_row (expr_of n' c) a" if "a \<in> set (q_TypeArgs c oid)" for a
  proof (cases "ar_arg_type_oid a = 0")
    case False
    with that core_okD(6) [OF assms(2), of a] have a: "ar_arg_type_oid a \<in> oids c" "ar_arg_type_oid a < oid"
      by (auto simp: arg_ok_def)
    with pos less.prems n have "expr_of m' c' (ar_arg_type_oid a) = expr_of n' c (ar_arg_type_oid a)"
      by (intro less.hyps) auto
    then show ?thesis by (simp add: arg_of_row_def)
  qed (simp add: arg_of_row_def)
  have "map_ok (arg_of_row (expr_of m' c')) (q_TypeArgs c' oid) = map_ok (arg_of_row (expr_of n' c)) (q_TypeArgs c oid)"
    by (rule map_ok_cong) (use arg extends_TypeArgs [OF assms(1,2) less.prems(1)] in auto)
  then show ?case
    using n r(1) r' extends_qualifiedName [OF assms(1) ns] by simp
qed

lemma extends_TypeExprOf:
  assumes "extends c c'" and "core_ok u c" and "oid \<in> oids c"
  shows "TypeExprOf c' oid = TypeExprOf c oid"
  unfolding TypeExprOf_def
  by (rule expr_of_stable [OF assms]; rule nat_mono) (use oids_range [OF assms(2,3)] extendsD(5) [OF assms(1)] in simp_all)

lemma expr_of_fuel: "core_ok u c \<Longrightarrow> oid \<in> oids c \<Longrightarrow> nat oid \<le> n \<Longrightarrow> expr_of n c oid = TypeExprOf c oid"
  unfolding TypeExprOf_def using oids_range [of u c oid] by (intro expr_of_stable nat_mono) auto

lemma TypeExprOf_family:
  assumes "LookupType c oid = Inr r" and "IsFamily r" and "core_ok u c"
  shows "TypeExprOf c oid = Inr (mk_TypeExpr (qualifiedName c r) False [])"
proof -
  obtain n where "nat (c_next_type c) = Suc n" using core_okD(3) [OF assms(3)] by (cases "nat (c_next_type c)") auto
  with assms show ?thesis by (simp add: TypeExprOf_def)
qed

lemma TypeExprOf_instance:
  assumes "LookupType c oid = Inr r" and "\<not> IsFamily r" and "core_ok u c"
  shows "TypeExprOf c oid =
    and_then (map_ok (arg_of_row (TypeExprOf c)) (q_TypeArgs c oid)) (\<lambda>as. Inr (mk_TypeExpr (qualifiedName c r) False as))"
proof -
  obtain n where n: "nat (c_next_type c) = Suc n" using core_okD(3) [OF assms(3)] by (cases "nat (c_next_type c)") auto
  have oid: "oid < c_next_type c" using LookupType_oids [OF assms(1)] oids_range [OF assms(3)] by blast
  have "arg_of_row (expr_of n c) a = arg_of_row (TypeExprOf c) a" if "a \<in> set (q_TypeArgs c oid)" for a
  proof (cases "ar_arg_type_oid a = 0")
    case False
    with that core_okD(6) [OF assms(3), of a] have "ar_arg_type_oid a \<in> oids c" "ar_arg_type_oid a < oid"
      by (auto simp: arg_ok_def)
    with n oid have "expr_of n c (ar_arg_type_oid a) = TypeExprOf c (ar_arg_type_oid a)"
      by (intro expr_of_fuel [OF assms(3)]) auto
    then show ?thesis by (simp add: arg_of_row_def)
  qed (simp add: arg_of_row_def)
  then have "map_ok (arg_of_row (expr_of n c)) (q_TypeArgs c oid) = map_ok (arg_of_row (TypeExprOf c)) (q_TypeArgs c oid)"
    by (intro map_ok_cong) auto
  with n assms(1,2) show ?thesis by (simp add: TypeExprOf_def)
qed

lemma extends_paren_free: "extends c c' \<Longrightarrow> paren_free c' \<Longrightarrow> paren_free c"
  by (auto simp: extends_def paren_free_def)

lemma extends_spelled: "extends c c' \<Longrightarrow> core_ok u c \<Longrightarrow> oid \<in> oids c \<Longrightarrow> spelled c oid key \<Longrightarrow> spelled c' oid key"
  by (simp add: spelled_def extends_TypeExprOf extends_paren_free)

end
