(* ===== verification/Core_Intern.thy ===== *)
theory Core_Intern
  imports Core_Inv
begin

text \<open>
  The operations that add types keep the invariant of the core catalog, and an interned expression can be read back from
  its row.
\<close>

section \<open>Lower case\<close>

text \<open>Lower-casing a name that is in lower case changes nothing, which \<open>unicode.ToLower\<close> documents of every rune.\<close>

definition lower_idem :: "unicode \<Rightarrow> bool" where
  "lower_idem u \<longleftrightarrow> (\<forall>s. strings_ToLower u (strings_ToLower u s) = strings_ToLower u s)"

section \<open>Operations that grow the catalog\<close>

definition grows :: "unicode \<Rightarrow> core \<Rightarrow> (core \<Rightarrow> 'a \<Rightarrow> bool) \<Rightarrow> (core \<Rightarrow> ('e + 'a) \<times> core) \<Rightarrow> bool" where
  "grows u c P m \<longleftrightarrow> core_ok u (snd (m c)) \<and> extends c (snd (m c)) \<and> (\<forall>x. fst (m c) = Inr x \<longrightarrow> P (snd (m c)) x)"

lemma grows_mono: "grows u c P m \<Longrightarrow> (\<And>c' x. P c' x \<Longrightarrow> Q c' x) \<Longrightarrow> grows u c Q m"
  by (auto simp: grows_def)

lemma grows_cong: "m c = m' c \<Longrightarrow> grows u c P m' \<Longrightarrow> grows u c P m"
  by (simp add: grows_def)

lemma if_cases_grows: "grows u c P m \<Longrightarrow> grows u c P m' \<Longrightarrow> grows u c P (if b then m else m')"
  by simp

lemma grows_cases:
  assumes "grows u c P m"
  obtains (error) e c' where "m c = (Inl e, c')" "core_ok u c'" "extends c c'"
  | (ok) x c' where "m c = (Inr x, c')" "core_ok u c'" "extends c c'" "P c' x"
  using assms by (cases "m c"; cases "fst (m c)") (auto simp: grows_def)

lemma grows_bind:
  assumes "grows u c P m" and "\<And>x c'. core_ok u c' \<Longrightarrow> extends c c' \<Longrightarrow> P c' x \<Longrightarrow> grows u c' Q (f x)"
  shows "grows u c Q (bind_op m f)"
  using assms(1)
proof (cases rule: grows_cases)
  case (ok x c')
  from assms(2) [OF ok(2-4)] ok show ?thesis by (auto simp: grows_def bind_op_def intro: extends_trans)
qed (simp add: grows_def bind_op_def)

lemma grows_wrapping: "grows u c P m \<Longrightarrow> grows u c P (wrapping p m)"
  by (erule grows_cases) (simp_all add: wrapping_def grows_def)

lemma grows_reading: "core_ok u c \<Longrightarrow> (\<And>x. f c = Inr x \<Longrightarrow> P c x) \<Longrightarrow> grows u c P (reading f)"
  by (simp add: reading_def grows_def)

lemma grows_ret: "core_ok u c \<Longrightarrow> P c x \<Longrightarrow> grows u c P (ret x)"
  by (simp add: ret_def grows_def)

lemma core_ok_extend:
  assumes "extends c c'" and "core_ok u c"
    and "distinct (map tr_oid (c_types c'))" and "distinct (map (\<lambda>r. (tr_namespace_oid r, tr_expr r)) (c_types c'))"
    and "namespaces_ok c'"
    and "\<And>r. r \<in> set (c_types c') \<Longrightarrow> r \<in> set (c_types c) \<or> row_ok u c' r"
    and "\<And>a. a \<in> set (c_type_args c') \<Longrightarrow> a \<in> set (c_type_args c) \<or> arg_ok c' a"
  shows "core_ok u c'"
proof -
  have "row_ok u c' r" if "r \<in> set (c_types c)" for r
  proof -
    have oid: "tr_oid r \<in> oids c" using that by (simp add: oids_def)
    have sub: "set (c_types c) \<subseteq> set (c_types c')" using assms(1) by (auto simp: extends_def)
    from core_okD(5) [OF assms(2) that] show ?thesis
      using extendsD(5) [OF assms(1)] extends_namespaces [OF assms(1)] extends_spelled [OF assms(1,2) oid] sub
      unfolding row_ok_def by (elim conjE, intro conjI) (auto 0 4)
  qed
  moreover have "arg_ok c' a" if "a \<in> set (c_type_args c)" for a
    using core_okD(6) [OF assms(2) that] extends_oids [OF assms(1)] by (auto simp: arg_ok_def)
  ultimately show ?thesis
    using assms(3-) extendsD(5) [OF assms(1)] core_okD(3) [OF assms(2)] unfolding core_ok_def by (metis less_le_trans)
qed

section \<open>Namespaces and operators\<close>

definition has_namespace :: "core \<Rightarrow> int \<Rightarrow> bool" where
  "has_namespace c oid \<longleftrightarrow> oid \<in> fst ` set (c_namespaces c)"

lemma has_namespace_extends: "extends c c' \<Longrightarrow> has_namespace c oid \<Longrightarrow> has_namespace c' oid"
  using extends_namespaces [of c c'] by (auto simp: has_namespace_def)

lemma has_namespace_pos: "core_ok u c \<Longrightarrow> has_namespace c oid \<Longrightarrow> 0 < oid"
  by (fastforce simp: has_namespace_def namespaces_ok_def dest: core_okD(4))

lemma NamespaceOID_has: "NamespaceOID c name = Inr oid \<Longrightarrow> has_namespace c oid"
  by (auto simp: NamespaceOID_def wrapping_read_def first_row_def no_rows_def has_namespace_def
      dest: find_SomeD split: option.splits sum.splits)

lemma CreateNamespace_grows: "core_ok u c \<Longrightarrow> grows u c has_namespace (CreateNamespace name)"
  unfolding CreateNamespace_def
proof (rule grows_wrapping)
  assume ok: "core_ok u c"
  let ?c' = "c\<lparr>c_namespaces := c_namespaces c @ [(c_next_namespace c, name)], c_next_namespace := c_next_namespace c + 1\<rparr>"
  have ext: "extends c ?c'" by (simp add: extends_def)
  have "core_ok u ?c'"
  proof (rule core_ok_extend [OF ext ok])
    show "namespaces_ok ?c'" using core_okD(4) [OF ok] by (auto simp: namespaces_ok_def)
  qed (use core_okD(1,2) [OF ok] in auto)
  with ok ext show "grows u c has_namespace (q_CreateNamespace name)"
    by (auto simp: q_CreateNamespace_def constraint_failed_def grows_def has_namespace_def)
qed

lemma operators_only:
  assumes "core_ok u c"
  shows "core_ok u (c\<lparr>c_operators := ops, c_next_operator := n\<rparr>)" "extends c (c\<lparr>c_operators := ops, c_next_operator := n\<rparr>)"
proof -
  show ext: "extends c (c\<lparr>c_operators := ops, c_next_operator := n\<rparr>)" by (simp add: extends_def)
  show "core_ok u (c\<lparr>c_operators := ops, c_next_operator := n\<rparr>)"
    by (rule core_ok_extend [OF ext assms]) (use core_okD(1,2,4) [OF assms] in \<open>auto simp: namespaces_ok_def\<close>)
qed

lemma createComparisons_ops: "\<exists>ops n. createComparisons u oid c = c\<lparr>c_operators := ops, c_next_operator := n\<rparr>"
proof -
  have step: "\<exists>ops n. fold (\<lambda>op c'. if op = [] then c' else snd (CreateOperator (comparison_spec c' oid b op) c')) xs d =
      d\<lparr>c_operators := ops, c_next_operator := n\<rparr>" for b xs d
  proof (induction xs arbitrary: d)
    case Nil
    have "d = d\<lparr>c_operators := c_operators d, c_next_operator := c_next_operator d\<rparr>" by simp
    then show ?case by (metis fold_simps(1))
  next
    case (Cons x xs)
    have "d = d\<lparr>c_operators := c_operators d, c_next_operator := c_next_operator d\<rparr>" by simp
    then obtain ops n where d: "(if x = [] then d else snd (CreateOperator (comparison_spec d oid b x) d)) =
        d\<lparr>c_operators := ops, c_next_operator := n\<rparr>"
      unfolding CreateOperator_def snd_conv by (cases "x = []") metis+
    from Cons [of "d\<lparr>c_operators := ops, c_next_operator := n\<rparr>"] show ?case by (auto simp: d)
  qed
  have same: "\<exists>ops n. c = c\<lparr>c_operators := ops, c_next_operator := n\<rparr>"
    by (intro exI [of _ "c_operators c"] exI [of _ "c_next_operator c"]) simp
  with step [of _ "split_byte (CHR '','') (own_flag c FlagComparisonOperators)" c] show ?thesis
    by (auto simp: createComparisons_def Let_def split: sum.split)
qed

section \<open>Families\<close>

definition is_type :: "core \<Rightarrow> int \<Rightarrow> bool" where
  "is_type c oid \<longleftrightarrow> oid \<in> oids c"

lemma is_type_extends: "extends c c' \<Longrightarrow> is_type c oid \<Longrightarrow> is_type c' oid"
  using extends_oids by (auto simp: is_type_def)

lemma is_type_range: "core_ok u c \<Longrightarrow> is_type c oid \<Longrightarrow> 0 < oid \<and> oid < c_next_type c"
  by (simp add: is_type_def oids_range)

lemma insert_type_extends: "tr_oid r = c_next_type c \<Longrightarrow> extends c (insert_type r c)"
  by (simp add: insert_type_def extends_def)

lemma fresh_oid: "core_ok u c \<Longrightarrow> c_next_type c \<notin> oids c"
  using oids_range by blast

lemma insert_type_distinct:
  assumes "core_ok u c" and "tr_oid r = c_next_type c"
    and "\<not> (\<exists>r' \<in> set (c_types c). tr_namespace_oid r' = tr_namespace_oid r \<and> tr_expr r' = tr_expr r)"
  shows "distinct (map tr_oid (c_types (insert_type r c)))"
    "distinct (map (\<lambda>r. (tr_namespace_oid r, tr_expr r)) (c_types (insert_type r c)))"
  using assms fresh_oid [OF assms(1)] core_okD(1,2) [OF assms(1)] by (auto simp: insert_type_def oids_def)

definition is_family :: "core \<Rightarrow> int \<Rightarrow> bool" where
  "is_family c oid \<longleftrightarrow> (\<exists>r \<in> set (c_types c). tr_oid r = oid \<and> IsFamily r)"

lemma is_family_type: "is_family c oid \<Longrightarrow> is_type c oid"
  by (auto simp: is_family_def is_type_def oids_def)

lemma is_family_extends: "extends c c' \<Longrightarrow> is_family c oid \<Longrightarrow> is_family c' oid"
  by (auto simp: is_family_def extends_def)

text \<open>A family may stand on types the catalog has, in a namespace the catalog has.\<close>

definition family_spec :: "core \<Rightarrow> typeSpec \<Rightarrow> bool" where
  "family_spec c t \<longleftrightarrow>
     ts_FamilyOID t = 0 \<and> ts_CanonicalOID t = 0 \<and> (ts_NamespaceOID t = 0 \<or> has_namespace c (ts_NamespaceOID t)) \<and>
     (ts_ElementOID t = 0 \<or> is_type c (ts_ElementOID t)) \<and> (ts_BaseOID t = 0 \<or> is_type c (ts_BaseOID t))"

lemma family_spec_extends: "extends c c' \<Longrightarrow> family_spec c t \<Longrightarrow> family_spec c' t"
  by (auto simp: family_spec_def has_namespace_extends is_type_extends)

lemma insert_family_ok:
  assumes u: "lower_idem u"
  assumes "core_ok u c" and "family_spec c t" and "has_namespace c ns"
    and "\<not> (\<exists>r' \<in> set (c_types c). tr_namespace_oid r' = ns \<and> tr_expr r' = tr_expr (spec_row u t ns (c_next_type c)))"
  shows "core_ok u (insert_type (spec_row u t ns (c_next_type c)) c)"
proof -
  let ?r = "spec_row u t ns (c_next_type c)"
  have r: "tr_oid ?r = c_next_type c" "tr_namespace_oid ?r = ns" by (simp_all add: spec_row_def Let_def)
  have ext: "extends c (insert_type ?r c)" using r by (simp add: insert_type_extends)
  have "row_ok u (insert_type ?r c) ?r"
    using assms(3,4) core_okD(3) [OF assms(2)] is_type_range [OF assms(2)]
    by (auto simp: row_ok_def spec_row_def Let_def insert_type_def IsFamily_def family_spec_def has_namespace_def u [unfolded lower_idem_def])
  moreover have "namespaces_ok (insert_type ?r c)"
    using core_okD(4) [OF assms(2)] by (simp add: namespaces_ok_def insert_type_def)
  ultimately show ?thesis
    using insert_type_distinct [OF assms(2) r(1)] assms(5) r(2) by (intro core_ok_extend [OF ext assms(2)]) (auto simp: insert_type_def)
qed

lemma CreateTypeSpec_grows:
  assumes u: "lower_idem u"
  assumes "core_ok u c" and "family_spec c t"
  shows "grows u c is_family (CreateTypeSpec u t)"
  unfolding CreateTypeSpec_def
proof (rule grows_bind)
  show "grows u c (\<lambda>c ns. has_namespace c ns) (reading (\<lambda>c. spec_namespace c t))"
    using assms(3)
    by (intro grows_reading [OF assms(2)])
      (auto simp: spec_namespace_def family_spec_def wrapping_read_def split: if_splits sum.splits dest: NamespaceOID_has)
next
  fix ns c'
  assume c': "core_ok u c'" "extends c c'" "has_namespace c' ns"
  let ?r = "spec_row u t ns (c_next_type c')"
  have "tr_oid ?r = c_next_type c'" "tr_namespace_oid ?r = ns" by (simp_all add: spec_row_def Let_def)
  with insert_family_ok [OF u c'(1) family_spec_extends [OF c'(2) assms(3)] c'(3)]
  have "grows u c' is_family (q_CreateType (spec_row u t ns))"
    using c'(1) insert_type_extends [of ?r c']
    using assms(3)
    by (auto simp: q_CreateType_def Let_def constraint_failed_def grows_def is_family_def insert_type_def IsFamily_def spec_row_def
        family_spec_def)
  then show "grows u c' is_family (wrapping (''create type '' @ Quote (tr_expr (spec_row u t ns 0))) (q_CreateType (spec_row u t ns)))"
    by (rule grows_wrapping)
qed

lemma with_comparisons_grows:
  assumes "grows u c is_family m"
  shows "grows u c is_family (with_comparisons u m)"
  unfolding with_comparisons_def
proof (rule grows_bind [OF assms])
  fix oid c'
  assume "core_ok u c'" "extends c c'" "is_family c' oid"
  then show "grows u c' is_family (\<lambda>c. (Inr oid, createComparisons u oid c))"
    using operators_only [of u c'] createComparisons_ops [of u oid c'] is_family_extends by (force simp: grows_def)
qed

lemma declaredTypeNamespace_grows:
  assumes "core_ok u c"
  shows "grows u c (\<lambda>c' p. fst p = 0 \<or> has_namespace c' (fst p)) (declaredTypeNamespace name)"
proof -
  have new: "grows u c (\<lambda>c' p. fst p = 0 \<or> has_namespace c' (fst p)) (bind_op (CreateNamespace ns) (\<lambda>oid. ret (oid, bare)))"
    for ns bare
    by (rule grows_bind [OF CreateNamespace_grows [OF assms]]) (simp add: grows_ret)
  define ns where "ns = (if fst (splitQualifiedName name) = [] then own_flag c FlagDefaultSchema else fst (splitQualifiedName name))"
  define bare where "bare = snd (splitQualifiedName name)"
  have eq: "declaredTypeNamespace name c =
      (if ns = [] then (Inr (0, bare), c)
       else (case NamespaceOID c ns of
               Inr oid \<Rightarrow> (Inr (oid, bare), c)
             | Inl e \<Rightarrow> bind_op (CreateNamespace ns) (\<lambda>oid. ret (oid, bare)) c))"
    by (simp only: declaredTypeNamespace_def Let_def ns_def bare_def)
  show ?thesis
    using new [of ns bare] assms NamespaceOID_has [of c ns] by (cases "NamespaceOID c ns") (simp_all add: grows_def eq)
qed

lemma CreateUserType_grows:
  assumes u: "lower_idem u"
  assumes "core_ok u c"
  shows "grows u c is_family (CreateUserType u name category)"
  unfolding CreateUserType_def
proof (rule grows_bind [OF grows_wrapping [OF declaredTypeNamespace_grows [OF assms(2)]]], clarify)
  fix ns :: int and bare :: string and c'
  assume c': "core_ok u c'" "extends c c'" "fst (ns, bare) = 0 \<or> has_namespace c' (fst (ns, bare))"
  let ?spec = "(named_spec bare)\<lparr>ts_NamespaceOID := ns, ts_Typtype := (if category = ''E'' then ''e'' else ''b''),
      ts_Category := category, ts_DialectOID := c_dialectOID c'\<rparr>"
  have spec: "family_spec c' ?spec" using c'(3) by (simp add: family_spec_def named_spec_def)
  let ?base = "if category = ''U'' then userTypeBase u c' bare else 0"
  have "grows u c' is_family (bind_op (reading (\<lambda>c. LookupType c ?base)) (\<lambda>base.
      CreateTypeSpec u (?spec\<lparr>ts_BaseOID := ?base, ts_Category := tr_category base\<rparr>)))"
  proof (rule grows_bind)
    show "grows u c' (\<lambda>c r. is_type c ?base) (reading (\<lambda>c. LookupType c ?base))"
      by (rule grows_reading [OF c'(1)]) (auto simp: is_type_def dest: LookupType_oids)
  next
    fix r c''
    assume "core_ok u c''" "extends c' c''" "is_type c'' ?base"
    then show "grows u c'' is_family (CreateTypeSpec u (?spec\<lparr>ts_BaseOID := ?base, ts_Category := tr_category r\<rparr>))"
      using family_spec_extends [OF _ spec] by (intro CreateTypeSpec_grows [OF u]) (auto simp: family_spec_def)
  qed
  moreover have "grows u c' is_family (with_comparisons u (CreateTypeSpec u ?spec))"
    by (intro with_comparisons_grows CreateTypeSpec_grows [OF u] c'(1) spec)
  ultimately have both: "grows u c' is_family (if ?base \<noteq> 0
      then bind_op (reading (\<lambda>c. LookupType c ?base)) (\<lambda>base.
             CreateTypeSpec u (?spec\<lparr>ts_BaseOID := ?base, ts_Category := tr_category base\<rparr>))
      else with_comparisons u (CreateTypeSpec u ?spec))"
    by (rule if_cases_grows)
  show "grows u c' is_family
    (\<lambda>c. let spec = (named_spec bare)\<lparr>ts_NamespaceOID := ns, ts_Typtype := (if category = ''E'' then ''e'' else ''b''),
              ts_Category := category, ts_DialectOID := c_dialectOID c\<rparr>;
           baseOID = (if category = ''U'' then userTypeBase u c bare else 0)
     in if baseOID \<noteq> 0
        then bind_op (reading (\<lambda>c. LookupType c baseOID)) (\<lambda>base.
               CreateTypeSpec u (spec\<lparr>ts_BaseOID := baseOID, ts_Category := tr_category base\<rparr>)) c
        else with_comparisons u (CreateTypeSpec u spec) c)"
    by (rule grows_cong [OF _ both]) (simp only: Let_def if_distribR)
qed

section \<open>Arguments and what they spell\<close>

lemma Key_text: "Key t = TypeExpr_String (with_Nullable False t)"
  by (cases t) (simp add: Key_def)

lemma with_Nullable_simps [simp]:
  "with_Nullable a (with_Nullable b t) = with_Nullable a t" "te_Nullable (with_Nullable b t) = b" "te_Name (with_Nullable b t) = te_Name t"
  "te_Args (with_Nullable b t) = te_Args t" "Key (with_Nullable b t) = Key t"
  by (cases t; simp add: Key_text)+

lemma text_of_Key: "TypeExpr_String (with_Nullable b t) = Key t @ (if b then '' nullable'' else [])"
  by (cases t) (simp add: Key_text)

lemma with_Nullable_self: "with_Nullable (te_Nullable t) t = t"
  by (cases t) simp

definition arg_spelled :: "core \<Rightarrow> type_arg \<times> int \<Rightarrow> bool" where
  "arg_spelled c p \<longleftrightarrow>
     (case ta_Type (fst p) of None \<Rightarrow> snd p = 0 | Some t \<Rightarrow> is_type c (snd p) \<and> spelled c (snd p) (Key t))"

lemma arg_spelled_extends: "extends c c' \<Longrightarrow> core_ok u c \<Longrightarrow> arg_spelled c p \<Longrightarrow> arg_spelled c' p"
  using extends_oids [of c c'] by (auto simp: arg_spelled_def extends_spelled is_type_def split: option.splits)

lemma arg_row_text:
  assumes "core_ok u c" and "arg_spelled c (a, oid)" and "paren_free c"
  shows "\<exists>a'. arg_of_row (TypeExprOf c) (arg_row T i a oid) = Inr a' \<and> type_arg_text a' = type_arg_text a"
proof (cases a)
  case (mk_TypeArg l t n b s d)
  show ?thesis
  proof (cases t)
    case None
    with mk_TypeArg assms(2) show ?thesis
      by (cases n; cases b; cases s) (auto simp: arg_row_def arg_of_row_def literal_arg_def arg_spelled_def)
  next
    case (Some e)
    with mk_TypeArg assms(2) obtain e' where oid: "is_type c oid" and e': "TypeExprOf c oid = Inr e'" "Key e' = Key e"
      using assms(3) by (auto simp: arg_spelled_def spelled_def)
    have "oid \<noteq> 0" using is_type_range [OF assms(1) oid] by simp
    moreover have "TypeExpr_String (with_Nullable (te_Nullable e) e') = TypeExpr_String e"
      using e'(2) text_of_Key [of "te_Nullable e" e'] text_of_Key [of "te_Nullable e" e] by (simp add: with_Nullable_self)
    ultimately show ?thesis
      using mk_TypeArg Some e'(1) by (simp add: arg_row_def arg_of_row_def)
  qed
qed

section \<open>Argument rows\<close>

primrec arg_rows :: "int \<Rightarrow> nat \<Rightarrow> (type_arg \<times> int) list \<Rightarrow> type_arg_row list" where
  "arg_rows T i [] = []"
| "arg_rows T i (p # ps) = arg_row T i (fst p) (snd p) # arg_rows T (Suc i) ps"

lemma arg_row_sel [simp]: "ar_type_oid (arg_row T i a oid) = T" "ar_ord (arg_row T i a oid) = Suc i"
  by (auto simp: arg_row_def Let_def split: option.split)

lemma arg_row_type: "ar_arg_type_oid (arg_row T i a oid) = (case ta_Type a of None \<Rightarrow> 0 | Some t \<Rightarrow> oid)"
  by (auto simp: arg_row_def Let_def split: option.split)

lemma arg_rows_T: "a \<in> set (arg_rows T i ps) \<Longrightarrow> ar_type_oid a = T"
  by (induction ps arbitrary: i) auto

lemma arg_rows_ord: "a \<in> set (arg_rows T i ps) \<Longrightarrow> i < ar_ord a"
  by (induction ps arbitrary: i) (auto dest!: Suc_lessD)

lemma arg_rows_sorted: "sorted (map ar_ord (arg_rows T i ps))"
  by (induction ps arbitrary: i) (auto dest: arg_rows_ord)

lemma arg_rows_in: "a \<in> set (arg_rows T i ps) \<Longrightarrow> \<exists>j. \<exists>p \<in> set ps. a = arg_row T j (fst p) (snd p)"
proof (induction ps arbitrary: i)
  case (Cons p ps)
  then show ?case by (cases "a = arg_row T i (fst p) (snd p)") fastforce+
qed simp

lemma arg_rows_texts:
  assumes "\<And>p. p \<in> set ps \<Longrightarrow> arg_spelled c p" and "core_ok u c" and "paren_free c"
    and "\<And>a. a \<in> set (arg_rows T i ps) \<Longrightarrow> f a = arg_of_row (TypeExprOf c) a"
  shows "\<exists>as. map_ok f (arg_rows T i ps) = Inr as \<and> map type_arg_text as = map type_arg_text (map fst ps)"
  using assms(1,4)
proof (induction ps arbitrary: i)
  case (Cons p ps)
  from Cons.prems have "f (arg_row T i (fst p) (snd p)) = arg_of_row (TypeExprOf c) (arg_row T i (fst p) (snd p))" by simp
  moreover from Cons.prems(1) have "arg_spelled c (fst p, snd p)" by simp
  ultimately obtain a' where "f (arg_row T i (fst p) (snd p)) = Inr a'" "type_arg_text a' = type_arg_text (fst p)"
    using arg_row_text [OF assms(2) _ assms(3)] by metis
  moreover have "\<exists>as. map_ok f (arg_rows T (Suc i) ps) = Inr as \<and> map type_arg_text as = map type_arg_text (map fst ps)"
    by (rule Cons.IH) (use Cons.prems in simp_all)
  ultimately show ?case by auto
qed simp

lemma insert_args_rows:
  assumes "\<forall>r \<in> set (c_type_args c). ar_type_oid r = T \<longrightarrow> ar_ord r \<le> i"
  shows "insert_args_from key T i ps c = (Inr (), c\<lparr>c_type_args := c_type_args c @ arg_rows T i ps\<rparr>)"
  using assms
proof (induction ps arbitrary: i c)
  case Nil
  then show ?case by (simp add: ret_def)
next
  case (Cons p ps)
  obtain a oid where p: "p = (a, oid)" by force
  let ?c = "c\<lparr>c_type_args := c_type_args c @ [arg_row T i a oid]\<rparr>"
  have "q_CreateTypeArg (arg_row T i a oid) c = (Inr (), ?c)"
    using Cons.prems by (fastforce simp: q_CreateTypeArg_def)
  moreover have "insert_args_from key T (Suc i) ps ?c = (Inr (), ?c\<lparr>c_type_args := c_type_args ?c @ arg_rows T (Suc i) ps\<rparr>)"
    using Cons.prems by (intro Cons.IH) auto
  ultimately show ?case by (simp add: p bind_op_def wrapping_def)
qed

lemma insertTypeArgs_rows:
  "\<forall>r \<in> set (c_type_args c). ar_type_oid r \<noteq> T \<Longrightarrow>
   insertTypeArgs T key ps c = (Inr (), c\<lparr>c_type_args := c_type_args c @ arg_rows T 0 ps\<rparr>)"
  by (simp add: insertTypeArgs_def insert_args_rows)

lemma no_args_yet: "core_ok u c \<Longrightarrow> \<forall>r \<in> set (c_type_args c). ar_type_oid r \<noteq> c_next_type c"
  using fresh_oid [of u c] by (auto dest: core_okD(6) simp: arg_ok_def)

section \<open>Writing an instance\<close>

definition instance_row :: "unicode \<Rightarrow> core \<Rightarrow> type_row \<Rightarrow> string \<Rightarrow> (type_arg \<times> int) list \<Rightarrow> type_row" where
  "instance_row u c family key ps = spec_row u (instance_spec c family key ps) (tr_namespace_oid family) (c_next_type c)"

definition with_instance :: "unicode \<Rightarrow> core \<Rightarrow> type_row \<Rightarrow> string \<Rightarrow> (type_arg \<times> int) list \<Rightarrow> core" where
  "with_instance u c family key ps =
     (insert_type (instance_row u c family key ps) c)\<lparr>c_type_args := c_type_args c @ arg_rows (c_next_type c) 0 ps\<rparr>"

lemma instance_row_sel:
  assumes "key \<noteq> []"
  shows "tr_oid (instance_row u c family key ps) = c_next_type c"
    "tr_namespace_oid (instance_row u c family key ps) = tr_namespace_oid family"
    "tr_expr (instance_row u c family key ps) = key"
    "tr_name (instance_row u c family key ps) = strings_ToLower u (tr_name family)"
    "tr_family_oid (instance_row u c family key ps) = tr_oid family"
    "tr_base_oid (instance_row u c family key ps) = 0" "tr_canonical_oid (instance_row u c family key ps) = 0"
    "tr_element_oid (instance_row u c family key ps) =
       (if tr_name family = ''array'' then (case ps of [] \<Rightarrow> 0 | (_, oid) # _ \<Rightarrow> oid) else 0)"
  using assms by (simp_all add: instance_row_def spec_row_def Let_def instance_spec_def named_spec_def)

lemma intern_instance_new:
  assumes "core_ok u c" and "family \<in> set (c_types c)" and "ps \<noteq> []"
    and "find (instance_named (tr_namespace_oid family) (Key (mk_TypeExpr (qualifiedName c family) False (map fst ps)))) (c_types c) = None"
  defines "key \<equiv> Key (mk_TypeExpr (qualifiedName c family) False (map fst ps))"
  shows "intern_instance u True family ps False c =
    (Inr (c_next_type c, mk_TypeExpr (qualifiedName c family) False (map fst ps)), with_instance u c family key ps)"
proof -
  have ns: "has_namespace c (tr_namespace_oid family)"
    using core_okD(5) [OF assms(1,2)] by (simp add: row_ok_def has_namespace_def)
  have "tr_namespace_oid family \<noteq> 0" using has_namespace_pos [OF assms(1) ns] by simp
  then have spec: "spec_namespace c (instance_spec c family key ps) = Inr (tr_namespace_oid family)"
    by (simp add: spec_namespace_def instance_spec_def)
  have key: "key \<noteq> []" using assms(3) by (simp add: key_def Key_text)
  have free: "\<not> (\<exists>r' \<in> set (c_types c). tr_namespace_oid r' = tr_namespace_oid family \<and> tr_expr r' = key)"
    using assms(4) by (auto simp: find_None_iff instance_named_def key_def)
  have "CreateTypeSpec u (instance_spec c family key ps) c = (Inr (c_next_type c), insert_type (instance_row u c family key ps) c)"
    using free instance_row_sel [OF key, of u c family ps]
    by (simp add: CreateTypeSpec_def bind_op_def reading_def spec wrapping_def q_CreateType_def Let_def instance_row_def) blast
  moreover have "insertTypeArgs (c_next_type c) key ps (insert_type (instance_row u c family key ps) c) =
      (Inr (), with_instance u c family key ps)"
    using no_args_yet [OF assms(1)] by (simp add: insertTypeArgs_rows insert_type_def with_instance_def)
  ultimately show ?thesis
    using assms(4) by (simp add: intern_instance_def key_def [symmetric] Let_def)
qed

lemma with_instance_ok:
  assumes "core_ok u c" and "family \<in> set (c_types c)" and "ps \<noteq> []"
    and "find (instance_named (tr_namespace_oid family) key) (c_types c) = None"
    and key: "key = Key (mk_TypeExpr (qualifiedName c family) False (map fst ps))"
    and ps: "\<And>p. p \<in> set ps \<Longrightarrow> arg_spelled c p"
  shows "extends c (with_instance u c family key ps)" (is ?ext)
    and "core_ok u (with_instance u c family key ps)" (is ?ok)
    and "spelled (with_instance u c family key ps) (c_next_type c) key" (is ?spelled)
    and "is_type (with_instance u c family key ps) (c_next_type c)"
proof -
  let ?r = "instance_row u c family key ps" and ?c' = "with_instance u c family key ps"
  have "key \<noteq> []" using assms(3) by (simp add: key Key_text)
  note r = instance_row_sel [OF this, of u c family ps]
  have fam: "row_ok u c family" by (rule core_okD(5) [OF assms(1,2)])
  have types: "c_types ?c' = c_types c @ [?r]" and args: "c_type_args ?c' = c_type_args c @ arg_rows (c_next_type c) 0 ps"
    by (simp_all add: with_instance_def insert_type_def)
  show ext: ?ext
    using r(1) by (auto simp: extends_def with_instance_def insert_type_def dest: arg_rows_T)
  have free: "\<not> (\<exists>r' \<in> set (c_types c). tr_namespace_oid r' = tr_namespace_oid ?r \<and> tr_expr r' = tr_expr ?r)"
    using assms(4) r by (auto simp: find_None_iff instance_named_def)
  note distinct = insert_type_distinct [OF assms(1) r(1) free]
  have ps_oids: "snd p = 0 \<or> snd p \<in> oids c" if "p \<in> set ps" for p
    using ps [OF that] by (auto simp: arg_spelled_def is_type_def split: option.splits)
  have element: "tr_element_oid ?r < c_next_type c"
    unfolding r(8) using ps_oids oids_range [OF assms(1)] core_okD(3) [OF assms(1)] by (cases ps) force+
  have arg: "arg_ok ?c' a" if "a \<in> set (arg_rows (c_next_type c) 0 ps)" for a
  proof -
    from arg_rows_in [OF that] obtain j p where p: "p \<in> set ps" "a = arg_row (c_next_type c) j (fst p) (snd p)" by blast
    have "ar_arg_type_oid a = 0 \<or> ar_arg_type_oid a \<in> oids c"
      using ps_oids [OF p(1)] p(2) by (auto simp: arg_row_type split: option.splits)
    then show ?thesis
      using oids_range [OF assms(1)] extends_oids [OF ext] p(2) r(1) types by (auto simp: arg_ok_def oids_def)
  qed
  have lookup: "LookupType ?c' (c_next_type c) = Inr ?r"
    using distinct(1) r(1) types by (subst LookupType_row) (auto simp: with_instance_def insert_type_def)
  have own: "q_TypeArgs ?c' (c_next_type c) = arg_rows (c_next_type c) 0 ps"
  proof -
    have "filter (\<lambda>r. ar_type_oid r = c_next_type c) (c_type_args c) = []"
      using no_args_yet [OF assms(1)] by (auto simp: filter_empty_conv)
    moreover have "filter (\<lambda>r. ar_type_oid r = c_next_type c) (arg_rows (c_next_type c) 0 ps) = arg_rows (c_next_type c) 0 ps"
      by (intro filter_True) (auto dest: arg_rows_T)
    ultimately show ?thesis using arg_rows_sorted by (simp add: q_TypeArgs_def args sorted_sort_id sort_key_id_if_sorted)
  qed
  have qual: "qualifiedName ?c' ?r = qualifiedName c family"
  proof -
    have "tr_name ?r = tr_name family" using fam r(4) by (simp add: row_ok_def)
    then have "qualifiedName ?c' ?r = qualifiedName ?c' family" using r(2) by (simp add: qualifiedName_def Let_def)
    with extends_qualifiedName [OF ext] fam show ?thesis by (simp add: row_ok_def)
  qed
  define n where "n = nat (c_next_type c)"
  have next': "nat (c_next_type ?c') = Suc n"
    using core_okD(3) [OF assms(1)] by (simp add: with_instance_def insert_type_def n_def nat_add_distrib)
  have read: "arg_of_row (expr_of n ?c') a = arg_of_row (TypeExprOf c) a" if "a \<in> set (arg_rows (c_next_type c) 0 ps)" for a
  proof (cases "ar_arg_type_oid a = 0")
    case False
    from arg_rows_in [OF that] obtain j p where p: "p \<in> set ps" "a = arg_row (c_next_type c) j (fst p) (snd p)" by blast
    with False ps_oids [OF p(1)] have oid: "ar_arg_type_oid a \<in> oids c" by (auto simp: arg_row_type split: option.splits)
    have le: "nat (ar_arg_type_oid a) \<le> n" unfolding n_def using oids_range [OF assms(1) oid] by (intro nat_mono) simp
    have "expr_of n ?c' (ar_arg_type_oid a) = TypeExprOf c (ar_arg_type_oid a)"
      unfolding TypeExprOf_def n_def [symmetric] by (rule expr_of_stable [OF ext assms(1) oid le le])
    with False show ?thesis by (simp add: arg_of_row_def)
  qed (simp add: arg_of_row_def)
  have notfam: "\<not> IsFamily ?r" using oids_range [OF assms(1), of "tr_oid family"] assms(2) r(5) by (simp add: IsFamily_def oids_def)
  show spelled: ?spelled
    unfolding spelled_def
  proof
    assume "paren_free ?c'"
    then have "paren_free c" by (rule extends_paren_free [OF ext])
    from arg_rows_texts [OF ps assms(1) this read] obtain as where
      as: "map_ok (arg_of_row (expr_of n ?c')) (arg_rows (c_next_type c) 0 ps) = Inr as"
      "map type_arg_text as = map type_arg_text (map fst ps)" by blast
    have "TypeExprOf ?c' (c_next_type c) = Inr (mk_TypeExpr (qualifiedName c family) False as)"
      using notfam by (simp add: TypeExprOf_def next' lookup own as(1) qual)
    moreover have "Key (mk_TypeExpr (qualifiedName c family) False as) = key"
      using as(2) by (simp add: key Key_text) (metis map_is_Nil_conv)
    ultimately show "\<exists>e. TypeExprOf ?c' (c_next_type c) = Inr e \<and> Key e = key" by blast
  qed
  have row: "row_ok u ?c' ?r"
    using fam r notfam spelled element core_okD(3) [OF assms(1)] r(3)
    by (simp add: row_ok_def with_instance_def insert_type_def)
  show ?ok
  proof (rule core_ok_extend [OF ext assms(1)])
    show "distinct (map tr_oid (c_types ?c'))" "distinct (map (\<lambda>r. (tr_namespace_oid r, tr_expr r)) (c_types ?c'))"
      using distinct by (simp_all add: with_instance_def)
    show "namespaces_ok ?c'" using core_okD(4) [OF assms(1)] by (simp add: namespaces_ok_def with_instance_def insert_type_def)
  qed (use row arg types args in auto)
  show "is_type ?c' (c_next_type c)" using r(1) types by (simp add: is_type_def oids_def)
qed

section \<open>Interning\<close>

definition interned_ok :: "core \<Rightarrow> int \<times> type_expr \<Rightarrow> bool" where
  "interned_ok c p \<longleftrightarrow> is_type c (fst p) \<and> spelled c (fst p) (Key (snd p))"

definition args_interned :: "core \<Rightarrow> (type_arg \<times> int) list \<times> bool \<Rightarrow> bool" where
  "args_interned c r \<longleftrightarrow> snd r \<or> (\<forall>p \<in> set (fst r). arg_spelled c p)"

lemma args_interned_extends: "extends c c' \<Longrightarrow> core_ok u c \<Longrightarrow> args_interned c r \<Longrightarrow> args_interned c' r"
  by (auto simp: args_interned_def intro: arg_spelled_extends)

lemma interned_arg: "interned_ok c (oid, e) \<Longrightarrow> ta_Type a = Some t \<Longrightarrow> arg_spelled c (with_Type (with_Nullable b e) a, oid)"
  by (simp add: interned_ok_def arg_spelled_def with_Type_def)

definition keeps_length :: "'a list \<Rightarrow> core \<Rightarrow> 'b list \<times> bool \<Rightarrow> bool" where
  "keeps_length as c r \<longleftrightarrow> length (fst r) = length as"

lemma intern_args_grows:
  assumes f: "\<And>t c. core_ok u c \<Longrightarrow> grows u c interned_ok (f t)" and "core_ok u c"
  shows "grows u c (\<lambda>c r. args_interned c r \<and> length (fst r) = length as) (intern_args f as)"
  using assms(2)
proof (induction as arbitrary: c)
  case Nil
  then show ?case by (simp add: grows_def args_interned_def)
next
  case (Cons a as)
  let ?P = "\<lambda>as c r. args_interned c r \<and> length (fst r) = length as"
  have rest: "grows u c' (?P (a # as)) (bind_op (intern_args f as) (\<lambda>(xs, unknown). ret ((p, oid) # xs, unk \<or> unknown)))"
    if c': "core_ok u c'" and p: "unk \<or> arg_spelled c' (p, oid)" for c' p oid unk
  proof (rule grows_bind [OF Cons.IH [OF c']], clarify)
    fix xs unknown c''
    assume c'': "core_ok u c''" "extends c' c''" "args_interned c'' (xs, unknown)" "length (fst (xs, unknown)) = length as"
    have "unk \<or> arg_spelled c'' (p, oid)" using p arg_spelled_extends [OF c''(2) c'] by blast
    with c'' show "grows u c'' (?P (a # as)) (ret ((p, oid) # xs, unk \<or> unknown))"
      by (intro grows_ret) (auto simp: args_interned_def)
  qed
  show ?case
  proof (cases "ta_Type a")
    case None
    have "grows u c (?P (a # as)) (bind_op (intern_args f as) (\<lambda>(xs, unknown). ret ((a, 0) # xs, False \<or> unknown)))"
      by (rule rest [OF Cons.prems]) (simp add: arg_spelled_def None)
    then show ?thesis by (simp add: grows_def None)
  next
    case (Some t)
    from f [OF Cons.prems, of t] show ?thesis
    proof (cases rule: grows_cases)
      case (error e c')
      obtain err ex where e: "e = (err, ex)" by force
      show ?thesis
      proof (cases "ex \<noteq> None \<and> is_unknown err")
        case True
        then obtain x where x: "ex = Some x" by auto
        have "grows u c' (?P (a # as)) (bind_op (intern_args f as) (\<lambda>(xs, unknown).
            ret ((with_Type (with_Nullable (te_Nullable t) x) a, 0) # xs, True \<or> unknown)))"
          by (rule rest [OF error(2)]) simp
        then have "grows u c' (?P (a # as)) (bind_op (intern_args f as) (\<lambda>(xs, unknown).
            ret ((with_Type (with_Nullable (te_Nullable t) x) a, 0) # xs, True)))" by simp
        with error(1,3) e x True show ?thesis
          by (auto simp: Some grows_def intro: extends_trans)
      next
        case False
        with error e show ?thesis by (cases ex) (simp_all add: Some grows_def)
      qed
    next
      case (ok x c')
      obtain oid e where x: "x = (oid, e)" by force
      have "grows u c' (?P (a # as)) (bind_op (intern_args f as) (\<lambda>(xs, unknown).
          ret ((with_Type (with_Nullable (te_Nullable t) e) a, oid) # xs, False \<or> unknown)))"
        by (rule rest [OF ok(2)]) (use ok(4) x interned_arg [OF _ Some] in simp)
      with ok(1,3) x show ?thesis by (auto simp: Some grows_def intro: extends_trans)
    qed
  qed
qed

lemma canonical_family:
  assumes "core_ok u c" and "is_family c oid" and "canonical_loop n c oid = Inr oid'"
  shows "is_family c oid'"
  using assms(2,3)
proof (induction n arbitrary: oid)
  case (Suc n)
  then obtain r where r: "LookupType c oid = Inr r" and
    next': "if tr_canonical_oid r = 0 then oid' = oid else canonical_loop n c (tr_canonical_oid r) = Inr oid'"
    by (auto split: if_splits)
  from r have "r \<in> set (c_types c)" using LookupType_oids by blast
  from core_okD(5) [OF assms(1) this] Suc next' show ?case
    by (auto simp: row_ok_def is_family_def split: if_splits)
qed simp

lemma LookupType_family:
  assumes "core_ok u c" and "is_family c oid" and "LookupType c oid = Inr r"
  shows "IsFamily r \<and> r \<in> set (c_types c) \<and> tr_oid r = oid"
proof -
  from assms(2) obtain f where f: "f \<in> set (c_types c)" "tr_oid f = oid" "IsFamily f" by (auto simp: is_family_def)
  with LookupType_row [OF core_okD(1) [OF assms(1)], of oid f] assms(3) show ?thesis by auto
qed

lemma find_family: "find (family_named n ns) (c_types c) = Some r \<Longrightarrow> is_family c (tr_oid r)"
  by (auto simp: is_family_def family_named_def dest!: find_SomeD)

lemma first_some_SomeD: "first_some f xs = Some y \<Longrightarrow> \<exists>x \<in> set xs. f x = Some y"
  by (induction xs) (auto split: option.splits)

lemma familyOIDByQualifiedName_family: "familyOIDByQualifiedName c name = Inr oid \<Longrightarrow> is_family c oid"
  by (auto simp: familyOIDByQualifiedName_def familyOIDByName_def first_row_def no_rows_def
      dest: first_some_SomeD find_family split: prod.splits if_splits option.splits)

lemma family_for_grows:
  assumes u: "lower_idem u" and nf: "\<And>name c. core_ok u c \<Longrightarrow> grows u c is_family (nf name)" and c: "core_ok u c"
  shows "grows u c is_family (family_for u nf w name)"
proof (cases "familyOIDByQualifiedName c name")
  case (Inr oid)
  then show ?thesis using c familyOIDByQualifiedName_family by (simp add: family_for_def grows_def)
next
  case (Inl e)
  have spec: "family_spec c ((named_spec name)\<lparr>ts_Category := ''A'', ts_DialectOID := c_dialectOID c\<rparr>)"
    by (simp add: family_spec_def named_spec_def)
  have "grows u c is_family (wrapping (''type '' @ Quote name)
      (if name = ''array'' \<and> w then CreateTypeSpec u ((named_spec name)\<lparr>ts_Category := ''A'', ts_DialectOID := c_dialectOID c\<rparr>)
       else nf name))"
    by (intro grows_wrapping if_cases_grows CreateTypeSpec_grows [OF u c spec] nf [OF c])
  then show ?thesis by (rule grows_cong [rotated]) (simp add: family_for_def Inl)
qed

lemma intern_instance_grows:
  assumes "core_ok u c" and "family \<in> set (c_types c)" and "args_interned c (ps, unknown)" and "ps \<noteq> []"
  shows "grows u c interned_ok (intern_instance u w family ps unknown)"
proof -
  let ?e = "mk_TypeExpr (qualifiedName c family) False (map fst ps)"
  consider (known) r where "\<not> unknown" "find (instance_named (tr_namespace_oid family) (Key ?e)) (c_types c) = Some r"
    | (new) "\<not> unknown" "find (instance_named (tr_namespace_oid family) (Key ?e)) (c_types c) = None" "w"
    | (stop) "unknown \<or> find (instance_named (tr_namespace_oid family) (Key ?e)) (c_types c) = None \<and> \<not> w"
    by (cases "find (instance_named (tr_namespace_oid family) (Key ?e)) (c_types c)") auto
  then show ?thesis
  proof cases
    case known
    then have r: "r \<in> set (c_types c)" "tr_expr r = Key ?e" by (auto dest!: find_SomeD simp: instance_named_def)
    have "spelled c (tr_oid r) (Key ?e)"
    proof (cases "IsFamily r")
      case False
      with core_okD(5) [OF assms(1) r(1)] r(2) show ?thesis by (simp add: row_ok_def)
    next
      case True
      moreover have "CHR ''('' \<in> set (Key ?e)" using assms(4) by (simp add: Key_text)
      ultimately have "\<not> paren_free c" using r by (auto simp: paren_free_def)
      then show ?thesis by (simp add: spelled_def)
    qed
    then show ?thesis
      using known r assms(1) by (simp add: grows_def intern_instance_def interned_ok_def is_type_def oids_def)
  next
    case new
    have ps: "\<And>p. p \<in> set ps \<Longrightarrow> arg_spelled c p" using assms(3) new(1) by (auto simp: args_interned_def)
    note inst = with_instance_ok [OF assms(1,2,4) new(2) refl ps]
    show ?thesis
      using intern_instance_new [OF assms(1,2,4) new(2)] inst new(1,3)
      by (simp add: grows_def interned_ok_def)
  next
    case stop
    then show ?thesis using assms(1) by (auto simp: grows_def intern_instance_def Let_def)
  qed
qed

lemma intern_grows:
  assumes u: "lower_idem u" and nf: "\<And>name c. core_ok u c \<Longrightarrow> grows u c is_family (nf name)"
  shows "core_ok u c \<Longrightarrow> grows u c interned_ok (intern u n nf w t)"
proof (induction n arbitrary: t c)
  case 0
  then show ?case by (simp add: grows_def)
next
  case (Suc n)
  note c = Suc.prems
  show ?case
  proof (cases "TrimSpace (te_Name t) = [] \<or> (\<exists>e. canonicalize u c t = Inl e)")
    case True
    with c show ?thesis by (auto simp: grows_def not_interned_def)
  next
    case False
    then obtain t' where named: "TrimSpace (te_Name t) \<noteq> []" and t': "canonicalize u c t = Inr t'"
      by (cases "canonicalize u c t") auto
    let ?name = "strings_ToLower u (TrimSpace (te_Name t'))"
    have "grows u c is_family (family_for u nf w ?name)" using u nf c by (rule family_for_grows)
    then show ?thesis
    proof (cases rule: grows_cases)
      case (error e c1)
      with named t' show ?thesis by (simp add: grows_def not_interned_def)
    next
      case (ok declared c1)
      show ?thesis
      proof (cases "and_then (canonicalOID c1 declared) (LookupType c1)")
        case (Inl e)
        with named t' ok show ?thesis by (simp add: grows_def not_interned_def)
      next
        case (Inr family)
        then obtain oid where oid: "canonicalOID c1 declared = Inr oid" "LookupType c1 oid = Inr family" by auto
        have "is_family c1 oid" by (rule canonical_family [OF ok(2,4)]) (use oid(1) in \<open>simp add: canonicalOID_def\<close>)
        with LookupType_family [OF ok(2) _ oid(2)] have family: "IsFamily family" "family \<in> set (c_types c1)" "tr_oid family = oid"
          by auto
        show ?thesis
        proof (cases "te_Args t' = []")
          case True
          have "interned_ok c1 (oid, mk_TypeExpr (qualifiedName c1 family) False [])"
            using family TypeExprOf_family [OF oid(2) family(1) ok(2)] by (auto simp: interned_ok_def is_type_def oids_def spelled_def)
          with named t' ok oid family True show ?thesis by (simp add: grows_def not_interned_def)
        next
          case False
          have "grows u c1 (\<lambda>c r. args_interned c r \<and> length (fst r) = length (te_Args t'))
              (intern_args (intern u n nf w) (te_Args t'))"
            using Suc.IH ok(2) by (rule intern_args_grows)
          then show ?thesis
          proof (cases rule: grows_cases)
            case (error e c2)
            with named t' ok oid False show ?thesis by (auto simp: grows_def not_interned_def intro: extends_trans)
          next
            case args: (ok r c2)
            obtain ps unknown where r: "r = (ps, unknown)" by force
            have "family \<in> set (c_types c2)" using family(2) args(3) by (auto simp: extends_def)
            moreover have "ps \<noteq> []" using args(4) r False by auto
            ultimately have "grows u c2 interned_ok (intern_instance u w family ps unknown)"
              using args(2,4) r by (intro intern_instance_grows) auto
            moreover have "intern u (Suc n) nf w t c = intern_instance u w family ps unknown c2"
              using named t' ok(1) oid False args(1) r by (simp add: not_interned_def)
            ultimately show ?thesis
              using extends_trans [OF ok(3) args(3)] by (auto simp: grows_def intro: extends_trans)
          qed
        qed
      qed
    qed
  qed
qed

section \<open>The operations\<close>

lemma newFamily_grows:
  assumes "lower_idem u" and "core_ok u c"
  shows "grows u c is_family (CreateUserType u name ''U'')"
    and "grows u c is_family (\<lambda>c. CreateTypeSpec u ((named_spec name)\<lparr>ts_Category := ''U'', ts_DialectOID := c_dialectOID c\<rparr>) c)"
proof -
  show "grows u c is_family (CreateUserType u name ''U'')" by (rule CreateUserType_grows [OF assms])
  have "grows u c is_family (CreateTypeSpec u ((named_spec name)\<lparr>ts_Category := ''U'', ts_DialectOID := c_dialectOID c\<rparr>))"
    by (rule CreateTypeSpec_grows [OF assms]) (simp add: family_spec_def named_spec_def)
  then show "grows u c is_family (\<lambda>c. CreateTypeSpec u ((named_spec name)\<lparr>ts_Category := ''U'', ts_DialectOID := c_dialectOID c\<rparr>) c)"
    by (rule grows_cong [rotated]) simp
qed

lemma refuse_grows: "core_ok u c \<Longrightarrow> grows u c is_family (refuse name)"
  by (simp add: grows_def refuse_def)

end
