(* ===== verification/Core_Lookup.thy ===== *)
theory Core_Lookup
  imports Core_Intern
begin

text \<open>
  Looking a type expression up and interning it agree.  A lookup writes nothing; when it knows the families of an
  expression, interning the expression adds instances only, and a lookup then finds the row that interning returned.
\<close>

section \<open>A lookup does not write\<close>

abbreviation look :: "unicode \<Rightarrow> nat \<Rightarrow> type_expr \<Rightarrow> core \<Rightarrow> interned \<times> core" where
  "look u n \<equiv> intern u n refuse False"

lemma intern_args_pure: "(\<And>t c. snd (f t c) = c) \<Longrightarrow> snd (intern_args f as c) = c"
proof (induction as arbitrary: c)
  case (Cons a as)
  have rest: "intern_args f as c = (fst (intern_args f as c), c)" using Cons by (metis prod.collapse)
  have step: "snd (bind_op (intern_args f as) (\<lambda>(xs, unknown). ret (g xs unknown)) c) = c"
    for g :: "(type_arg \<times> int) list \<Rightarrow> bool \<Rightarrow> (type_arg \<times> int) list \<times> bool"
    unfolding bind_op_def by (subst rest) (cases "fst (intern_args f as c)"; auto simp: ret_def split: prod.splits)
  show ?case
  proof (cases "ta_Type a")
    case None
    then show ?thesis using step [of "\<lambda>xs unknown. ((a, 0) # xs, unknown)"] by simp
  next
    case (Some t)
    have c': "snd (f t c) = c" by (rule Cons.prems)
    show ?thesis
    proof (cases "f t c")
      case (Pair r c'')
      with c' have "f t c = (r, c)" by simp
      then show ?thesis
        using step [of "\<lambda>xs unknown. ((with_Type (with_Nullable (te_Nullable t) (snd (projr r))) a, fst (projr r)) # xs, unknown)"]
          step [of "\<lambda>xs unknown. ((with_Type (with_Nullable (te_Nullable t) (the (snd (projl r)))) a, 0) # xs, True)"] Some
        by (cases r) (auto split: option.splits prod.splits)
    qed
  qed
qed simp

lemma family_for_refuse: "snd (family_for u refuse False name c) = c"
  by (simp add: family_for_def refuse_def wrapping_def split: sum.split)

lemma intern_instance_pure: "snd (intern_instance u False family ps unknown c) = c"
  by (simp add: intern_instance_def Let_def split: option.split)

lemma look_pure: "snd (look u n t c) = c"
proof (induction n arbitrary: t c)
  case (Suc n)
  have fam: "family_for u refuse False name c = (fst (family_for u refuse False name c), c)" for name
    using family_for_refuse [of u name c] by (metis prod.collapse)
  have args: "intern_args (look u n) as c = (fst (intern_args (look u n) as c), c)" for as
    using intern_args_pure [of "look u n" as c] Suc by (metis prod.collapse)
  show ?case
    using intern_instance_pure
    by (auto simp: not_interned_def split: sum.split) (subst fam, auto simp: not_interned_def split: sum.split, subst args, auto split: sum.split)
qed simp

section \<open>Adding instances only\<close>

definition adds_instances :: "core \<Rightarrow> core \<Rightarrow> bool" where
  "adds_instances c c' \<longleftrightarrow>
     extends c c' \<and> c_namespaces c' = c_namespaces c \<and>
     (\<exists>rs. c_types c' = c_types c @ rs \<and> (\<forall>r \<in> set rs. \<not> IsFamily r))"

lemma adds_instances_refl [simp, intro]: "adds_instances c c"
  by (simp add: adds_instances_def)

lemma adds_instances_extends: "adds_instances c c' \<Longrightarrow> extends c c'"
  by (simp add: adds_instances_def)

lemma adds_instances_trans [trans]: "adds_instances a b \<Longrightarrow> adds_instances b c \<Longrightarrow> adds_instances a c"
  unfolding adds_instances_def using extends_trans [of a b c] by fastforce

lemma with_instance_adds:
  assumes "core_ok u c" and "family \<in> set (c_types c)" and "key \<noteq> []"
  shows "adds_instances c (with_instance u c family key ps)"
proof -
  note r = instance_row_sel [OF assms(3), of u c family ps]
  have "tr_oid family \<noteq> 0" using oids_range [OF assms(1), of "tr_oid family"] assms(2) by (auto simp: oids_def)
  then have "\<not> IsFamily (instance_row u c family key ps)" using r(5) by (simp add: IsFamily_def)
  then show ?thesis
    using r(1) by (auto simp: adds_instances_def extends_def with_instance_def insert_type_def dest: arg_rows_T)
qed

lemma find_families:
  assumes "\<And>r. r \<in> set rs \<Longrightarrow> \<not> P r"
  shows "find P (xs @ rs) = find P xs"
proof -
  have "find P rs = None" using assms by (auto simp: find_None_iff)
  then show ?thesis by (simp add: find_of_append split: option.split)
qed

lemma adds_instances_find:
  assumes "adds_instances c c'"
  shows "find (family_named n ns) (c_types c') = find (family_named n ns) (c_types c)"
proof -
  from assms obtain rs where "c_types c' = c_types c @ rs" "\<forall>r \<in> set rs. \<not> IsFamily r" by (auto simp: adds_instances_def)
  then show ?thesis using find_families [of rs "family_named n ns" "c_types c"] by (simp add: family_named_def)
qed

lemma adds_instances_NamespaceOID: "adds_instances c c' \<Longrightarrow> NamespaceOID c' ns = NamespaceOID c ns"
  by (simp add: adds_instances_def NamespaceOID_def)

lemma adds_instances_familyOID:
  assumes "adds_instances c c'"
  shows "familyOIDByQualifiedName c' name = familyOIDByQualifiedName c name"
proof -
  have "defaultNamespaceOIDs c' = defaultNamespaceOIDs c"
    using adds_instances_NamespaceOID [OF assms] extends_own_flag [OF adds_instances_extends [OF assms]]
    by (simp add: defaultNamespaceOIDs_def)
  then show ?thesis
    using adds_instances_find [OF assms] adds_instances_NamespaceOID [OF assms]
    by (cases "splitQualifiedName name") (simp add: familyOIDByQualifiedName_def familyOIDByName_def first_row_def)
qed

lemma adds_instances_qualifiedName: "adds_instances c c' \<Longrightarrow> qualifiedName c' r = qualifiedName c r"
  by (simp add: adds_instances_def qualifiedName_def Let_def namespaceName_def extends_DefaultNamespaces [of c c'])

lemma canonical_loop_extends:
  assumes "extends c c'" and "core_ok u c"
  shows "is_family c oid \<Longrightarrow> canonical_loop n c' oid = canonical_loop n c oid"
proof (induction n arbitrary: oid)
  case (Suc n)
  then have oid: "oid \<in> oids c" using is_family_type by (auto simp: is_type_def)
  with LookupType_known obtain r where r: "LookupType c oid = Inr r" "r \<in> set (c_types c)" by blast
  from core_okD(5) [OF assms(2) r(2)] have "tr_canonical_oid r \<noteq> 0 \<Longrightarrow> is_family c (tr_canonical_oid r)"
    by (auto simp: row_ok_def is_family_def)
  with Suc.IH show ?case using extends_LookupType [OF assms(1) oid] r(1) by simp
qed simp

lemma adds_instances_resolved:
  assumes "adds_instances c c'" and "core_ok u c" and "is_family c oid"
  shows "and_then (canonicalOID c' oid) (LookupType c') = and_then (canonicalOID c oid) (LookupType c)"
proof -
  have eq: "canonicalOID c' oid = canonicalOID c oid"
    using canonical_loop_extends [OF adds_instances_extends [OF assms(1)] assms(2,3)] by (simp add: canonicalOID_def)
  show ?thesis
  proof (cases "canonicalOID c oid")
    case (Inr oid')
    then have "is_family c oid'" using canonical_family [OF assms(2,3)] by (simp add: canonicalOID_def)
    then have "oid' \<in> oids c" using is_family_type by (auto simp: is_type_def)
    with Inr eq show ?thesis using extends_LookupType [OF adds_instances_extends [OF assms(1)]] by simp
  qed (simp add: eq)
qed

lemma adds_instances_canonicalize:
  assumes "adds_instances c c'" and "core_ok u c"
  shows "canonicalize u c' t = canonicalize u c t"
proof -
  note ext = adds_instances_extends [OF assms(1)]
  have rules: "loadRules u c' = loadRules u c"
    using extendsD [OF ext] extends_own_flag [OF ext] by (simp add: loadRules_def ListTypeRewrites_def)
  have "qualifiedName c' = qualifiedName c" using adds_instances_qualifiedName [OF assms(1)] by blast
  have "canonicalFamilyName u c' name = canonicalFamilyName u c name" for name
  proof (cases "familyOIDByQualifiedName c (strings_ToLower u (TrimSpace name))")
    case (Inr oid)
    then show ?thesis
      using \<open>qualifiedName c' = qualifiedName c\<close>
      by (simp only: canonicalFamilyName_def adds_instances_familyOID [OF assms(1)] and_then.simps
          adds_instances_resolved [OF assms familyOIDByQualifiedName_family [OF Inr]])
  qed (simp add: canonicalFamilyName_def adds_instances_familyOID [OF assms(1)])
  then have "canonicalFamilyName u c' = canonicalFamilyName u c" by blast
  with rules show ?thesis by (simp only: canonicalize_def)
qed

section \<open>What a lookup knows\<close>

text \<open>The canonical expression of a lookup, and the row when there is one.\<close>

fun canonical_expr :: "interned \<Rightarrow> type_expr option" where
  "canonical_expr (Inr (oid, e)) = Some e"
| "canonical_expr (Inl (err, Some e)) = (if is_unknown err then Some e else None)"
| "canonical_expr (Inl (err, None)) = None"

fun known_row :: "interned \<Rightarrow> int option" where
  "known_row (Inr (oid, e)) = Some oid"
| "known_row (Inl r) = None"

lemma look_args_eq: "intern_args (look u n) as c = (fst (intern_args (look u n) as c), c)"
  using intern_args_pure [of "look u n" as c] look_pure by (metis prod.collapse)

lemma look_eq: "look u n t c = (fst (look u n t c), c)"
  using look_pure [of u n t c] by (metis prod.collapse)

text \<open>Two results of the loop over the arguments that agree on the expressions, the second knowing every row the first knows.\<close>

definition args_agree :: "(type_arg \<times> int) list \<times> bool \<Rightarrow> (type_arg \<times> int) list \<times> bool \<Rightarrow> bool" where
  "args_agree r s \<longleftrightarrow> map fst (fst s) = map fst (fst r) \<and> (\<not> snd r \<longrightarrow> s = r)"

lemma intern_args_Cons_row:
  assumes "ta_Type a = Some t" and "f t c = (Inr (oid, e), c')" and "intern_args f as c' = (Inr (ps, unknown), c'')"
  shows "intern_args f (a # as) c = (Inr ((with_Type (with_Nullable (te_Nullable t) e) a, oid) # ps, unknown), c'')"
  using assms by (simp add: bind_op_def ret_def)

lemma intern_args_Cons_unknown:
  assumes "ta_Type a = Some t" and "f t c = (Inl (err, Some e), c')" and "is_unknown err"
    and "intern_args f as c' = (Inr (ps, unknown), c'')"
  shows "intern_args f (a # as) c = (Inr ((with_Type (with_Nullable (te_Nullable t) e) a, 0) # ps, True), c'')"
  using assms by (simp add: bind_op_def ret_def)

lemma intern_args_Cons_literal:
  assumes "ta_Type a = None" and "intern_args f as c = (Inr (ps, unknown), c'')"
  shows "intern_args f (a # as) c = (Inr ((a, 0) # ps, unknown), c'')"
  using assms by (simp add: bind_op_def ret_def)

text \<open>A loop that succeeds over the arguments of a lookup.\<close>

lemma look_args_cases:
  assumes "intern_args (look u n) (a # as) c = (Inr r, c')"
  obtains (literal) ps unknown where "ta_Type a = None" "intern_args (look u n) as c = (Inr (ps, unknown), c)" "r = ((a, 0) # ps, unknown)"
  | (row) t oid e ps unknown where "ta_Type a = Some t" "look u n t c = (Inr (oid, e), c)" "intern_args (look u n) as c = (Inr (ps, unknown), c)"
      "r = ((with_Type (with_Nullable (te_Nullable t) e) a, oid) # ps, unknown)"
  | (unknown) t err e ps unk where "ta_Type a = Some t" "look u n t c = (Inl (err, Some e), c)" "is_unknown err"
      "intern_args (look u n) as c = (Inr (ps, unk), c)" "r = ((with_Type (with_Nullable (te_Nullable t) e) a, 0) # ps, True)"
proof -
  obtain s where s: "intern_args (look u n) as c = (s, c)" using look_args_eq by blast
  have s': "\<exists>ps unknown. s = Inr (ps, unknown) \<and> r = (g ps unknown)"
    if "bind_op (intern_args (look u n) as) (\<lambda>(ps, unknown). ret (g ps unknown)) c = (Inr r, c')" for g
    using that s by (cases s) (auto simp: bind_op_def ret_def split: prod.splits)
  show thesis
  proof (cases "ta_Type a")
    case None
    with assms have "bind_op (intern_args (look u n) as) (\<lambda>(ps, unknown). ret ((a, 0) # ps, unknown)) c = (Inr r, c')" by simp
    from s' [OF this] s None literal show thesis by blast
  next
    case (Some t)
    obtain x where x: "look u n t c = (x, c)" using look_eq by blast
    show thesis
    proof (cases x)
      case (Inr p)
      obtain oid e where p: "p = (oid, e)" by force
      with assms x Some Inr have
        "bind_op (intern_args (look u n) as) (\<lambda>(ps, unknown). ret ((with_Type (with_Nullable (te_Nullable t) e) a, oid) # ps, unknown)) c =
          (Inr r, c')" by simp
      from s' [OF this] s x Inr p Some row show thesis by blast
    next
      case (Inl p)
      obtain err ex where p: "p = (err, ex)" by force
      with assms x Some Inl obtain e where ex: "ex = Some e" and err: "is_unknown err"
        by (cases ex) (auto split: if_splits)
      with assms x Some Inl p have
        "bind_op (intern_args (look u n) as) (\<lambda>(ps, unknown). ret ((with_Type (with_Nullable (te_Nullable t) e) a, 0) # ps, True)) c =
          (Inr r, c')" by simp
      from s' [OF this] s x Inl p ex err Some unknown show thesis by blast
    qed
  qed
qed

section \<open>One step of interning where the family is known\<close>

definition resolved :: "unicode \<Rightarrow> core \<Rightarrow> type_expr \<Rightarrow> type_expr \<Rightarrow> type_row \<Rightarrow> bool" where
  "resolved u c t t' family \<longleftrightarrow>
     TrimSpace (te_Name t) \<noteq> [] \<and> canonicalize u c t = Inr t' \<and>
     (\<exists>declared. familyOIDByQualifiedName c (strings_ToLower u (TrimSpace (te_Name t'))) = Inr declared \<and>
        and_then (canonicalOID c declared) (LookupType c) = Inr family)"

lemma intern_resolved:
  assumes "resolved u c t t' family"
  shows "intern u (Suc n) newFamily w t c =
    (if te_Args t' = [] then (Inr (tr_oid family, mk_TypeExpr (qualifiedName c family) False []), c)
     else (case intern_args (intern u n newFamily w) (te_Args t') c of
             (Inl e, c') \<Rightarrow> (Inl (e, None), c')
           | (Inr (as, unknown), c') \<Rightarrow> intern_instance u w family as unknown c'))"
proof -
  from assms obtain declared oid where "TrimSpace (te_Name t) \<noteq> []" "canonicalize u c t = Inr t'"
    "familyOIDByQualifiedName c (strings_ToLower u (TrimSpace (te_Name t'))) = Inr declared"
    "canonicalOID c declared = Inr oid" "LookupType c oid = Inr family" by (auto simp: resolved_def)
  then show ?thesis by (simp add: family_for_def not_interned_def)
qed

lemma resolved_family:
  assumes "resolved u c t t' family" and "core_ok u c"
  shows "family \<in> set (c_types c) \<and> IsFamily family"
proof -
  from assms(1) obtain declared oid where d: "familyOIDByQualifiedName c (strings_ToLower u (TrimSpace (te_Name t'))) = Inr declared"
    "canonicalOID c declared = Inr oid" "LookupType c oid = Inr family" by (auto simp: resolved_def)
  have "is_family c oid"
    using canonical_family [OF assms(2) familyOIDByQualifiedName_family [OF d(1)]] d(2) by (simp add: canonicalOID_def)
  with LookupType_family [OF assms(2) _ d(3)] show ?thesis by blast
qed

lemma resolved_adds:
  assumes "adds_instances c c'" and "core_ok u c" and "resolved u c t t' family"
  shows "resolved u c' t t' family"
proof -
  from assms(3) obtain declared where d: "TrimSpace (te_Name t) \<noteq> []" "canonicalize u c t = Inr t'"
    "familyOIDByQualifiedName c (strings_ToLower u (TrimSpace (te_Name t'))) = Inr declared"
    "and_then (canonicalOID c declared) (LookupType c) = Inr family" unfolding resolved_def by blast
  have "and_then (canonicalOID c' declared) (LookupType c') = Inr family"
    unfolding adds_instances_resolved [OF assms(1,2) familyOIDByQualifiedName_family [OF d(3)]] by (rule d(4))
  with d show ?thesis
    unfolding resolved_def adds_instances_canonicalize [OF assms(1,2)] adds_instances_familyOID [OF assms(1)] by blast
qed

lemma look_resolved:
  assumes "canonical_expr (fst (look u (Suc n) t c)) = Some e"
  obtains t' family where "resolved u c t t' family"
proof -
  have named: "TrimSpace (te_Name t) \<noteq> []" using assms by auto
  then obtain t' where t': "canonicalize u c t = Inr t'"
    using assms by (cases "canonicalize u c t") (auto simp: not_interned_def)
  obtain declared where d: "familyOIDByQualifiedName c (strings_ToLower u (TrimSpace (te_Name t'))) = Inr declared"
    using assms named t'
    by (cases "familyOIDByQualifiedName c (strings_ToLower u (TrimSpace (te_Name t')))")
      (auto simp: not_interned_def family_for_def refuse_def wrapping_def unknown_type_def)
  obtain family where "and_then (canonicalOID c declared) (LookupType c) = Inr family"
    using assms named t' d
    by (cases "and_then (canonicalOID c declared) (LookupType c)") (auto simp: not_interned_def family_for_def simp del: and_then_Inr)
  with named t' d that show thesis unfolding resolved_def by blast
qed

lemma canonical_instance: "canonical_expr (fst (intern_instance u False family ps unknown c)) =
    Some (mk_TypeExpr (qualifiedName c family) False (map fst ps))"
  by (simp add: intern_instance_def Let_def unknown_type_def split: option.split)

lemma row_of_instance:
  "known_row (fst (intern_instance u False family ps unknown c)) =
     (if unknown then None
      else map_option tr_oid (find (instance_named (tr_namespace_oid family)
             (Key (mk_TypeExpr (qualifiedName c family) False (map fst ps)))) (c_types c)))"
  by (simp add: intern_instance_def Let_def split: option.split)

declare intern.simps(2) [simp del]

text \<open>A lookup with a canonical expression, in one step.\<close>

lemma look_cases:
  assumes "canonical_expr (fst (look u (Suc n) t c)) = Some e"
  obtains (family) t' family where "resolved u c t t' family" "te_Args t' = []"
      "look u (Suc n) t c = (Inr (tr_oid family, e), c)" "e = mk_TypeExpr (qualifiedName c family) False []"
  | (inst) t' family ps unknown where "resolved u c t t' family" "te_Args t' \<noteq> []"
      "intern_args (look u n) (te_Args t') c = (Inr (ps, unknown), c)"
      "look u (Suc n) t c = intern_instance u False family ps unknown c"
      "e = mk_TypeExpr (qualifiedName c family) False (map fst ps)"
proof -
  obtain t' family where res: "resolved u c t t' family" using look_resolved [OF assms] .
  show thesis
  proof (cases "te_Args t' = []")
    case True
    then have eq: "look u (Suc n) t c = (Inr (tr_oid family, mk_TypeExpr (qualifiedName c family) False []), c)"
      by (simp add: intern_resolved [OF res])
    moreover from this assms have "e = mk_TypeExpr (qualifiedName c family) False []" by simp
    ultimately show thesis using that(1) [OF res True] by simp
  next
    case False
    obtain s where s: "intern_args (look u n) (te_Args t') c = (s, c)" using look_args_eq by blast
    show thesis
    proof (cases s)
      case (Inl x)
      with assms False s show thesis by (simp add: intern_resolved [OF res])
    next
      case (Inr r)
      obtain ps unknown where r: "r = (ps, unknown)" by force
      have "look u (Suc n) t c = intern_instance u False family ps unknown c"
        using False s Inr r by (simp add: intern_resolved [OF res])
      moreover from this assms have "e = mk_TypeExpr (qualifiedName c family) False (map fst ps)"
        by (simp only: canonical_instance option.inject)
      ultimately show thesis using that(2) [OF res False] s Inr r by blast
    qed
  qed
qed

section \<open>Lookups stay true\<close>

lemma args_nonempty: "intern_args f as c = (Inr (ps, unknown), c') \<Longrightarrow> length ps = length as"
proof (induction as arbitrary: c ps unknown c')
  case (Cons a as)
  show ?case
  proof (cases "ta_Type a")
    case None
    with Cons show ?thesis by (auto simp: bind_op_def ret_def split: prod.splits sum.splits)
  next
    case (Some t)
    with Cons show ?thesis by (auto simp: bind_op_def ret_def split: prod.splits sum.splits option.splits if_splits)
  qed
qed simp

lemma look_args_stable:
  assumes look: "\<And>t e. canonical_expr (fst (look u n t c)) = Some e \<Longrightarrow>
      canonical_expr (fst (look u n t c')) = Some e \<and>
      (\<forall>oid. known_row (fst (look u n t c)) = Some oid \<longrightarrow> known_row (fst (look u n t c')) = Some oid)"
    and "intern_args (look u n) as c = (Inr r, c)"
  shows "\<exists>r'. intern_args (look u n) as c' = (Inr r', c') \<and> args_agree r r'"
  using assms(2)
proof (induction as arbitrary: r)
  case Nil
  then show ?case by (simp add: args_agree_def)
next
  case (Cons a as)
  from Cons.prems show ?case
  proof (cases rule: look_args_cases)
    case (literal ps unknown)
    with Cons.IH obtain ps' unknown' where "intern_args (look u n) as c' = (Inr (ps', unknown'), c')" "args_agree (ps, unknown) (ps', unknown')"
      by fastforce
    with intern_args_Cons_literal [OF literal(1)] literal(3) show ?thesis by (fastforce simp: args_agree_def)
  next
    case (row t oid e ps unknown)
    with Cons.IH obtain ps' unknown' where rest: "intern_args (look u n) as c' = (Inr (ps', unknown'), c')" "args_agree (ps, unknown) (ps', unknown')"
      by fastforce
    from look [of t e] row(2) have "canonical_expr (fst (look u n t c')) = Some e" "known_row (fst (look u n t c')) = Some oid" by auto
    then have "look u n t c' = (Inr (oid, e), c')"
      using look_eq [of u n t c'] by (cases "fst (look u n t c')") auto
    from intern_args_Cons_row [OF row(1) this rest(1)] rest(2) row(4) show ?thesis by (auto simp: args_agree_def)
  next
    case (unknown t err e ps unk)
    with Cons.IH obtain ps' unk' where rest: "intern_args (look u n) as c' = (Inr (ps', unk'), c')" "args_agree (ps, unk) (ps', unk')"
      by fastforce
    from look [of t e] unknown(2,3) have e: "canonical_expr (fst (look u n t c')) = Some e" by auto
    show ?thesis
    proof (cases "fst (look u n t c')")
      case (Inr p)
      with e obtain oid where "look u n t c' = (Inr (oid, e), c')" using look_eq [of u n t c'] by (cases p) auto
      from intern_args_Cons_row [OF unknown(1) this rest(1)] rest(2) unknown(5) show ?thesis by (auto simp: args_agree_def)
    next
      case (Inl p)
      with e obtain err' where "look u n t c' = (Inl (err', Some e), c')" "is_unknown err'"
        using look_eq [of u n t c'] by (cases p; cases "snd p") (auto split: if_splits)
      from intern_args_Cons_unknown [OF unknown(1) this rest(1)] rest(2) unknown(5) show ?thesis by (auto simp: args_agree_def)
    qed
  qed
qed

lemma look_stable:
  assumes "adds_instances c c'" and "core_ok u c"
  shows "canonical_expr (fst (look u n t c)) = Some e \<Longrightarrow>
    canonical_expr (fst (look u n t c')) = Some e \<and>
    (\<forall>oid. known_row (fst (look u n t c)) = Some oid \<longrightarrow> known_row (fst (look u n t c')) = Some oid)"
proof (induction n arbitrary: t e)
  case (Suc n)
  note qual = adds_instances_qualifiedName [OF assms(1)]
  from Suc.prems show ?case
  proof (cases rule: look_cases)
    case (family t' family)
    with intern_resolved [OF resolved_adds [OF assms family(1)]] qual show ?thesis by simp
  next
    case (inst t' family ps unknown)
    have "\<exists>r'. intern_args (look u n) (te_Args t') c' = (Inr r', c') \<and> args_agree (ps, unknown) r'"
      by (rule look_args_stable [OF Suc.IH inst(3)])
    then obtain ps' unknown' where ps': "intern_args (look u n) (te_Args t') c' = (Inr (ps', unknown'), c')" "args_agree (ps, unknown) (ps', unknown')"
      by auto
    then have "look u (Suc n) t c' = intern_instance u False family ps' unknown' c'"
      using inst(2) by (simp add: intern_resolved [OF resolved_adds [OF assms inst(1)]])
    moreover have "map fst ps' = map fst ps" using ps'(2) by (simp add: args_agree_def)
    moreover have "\<exists>rs. c_types c' = c_types c @ rs" using assms(1) by (auto simp: adds_instances_def)
    ultimately show ?thesis
      using ps'(2) inst(4,5) qual
      by (auto simp: canonical_instance row_of_instance args_agree_def find_of_append split: if_splits option.splits)
  qed
qed simp

section \<open>Interning what a lookup knows\<close>

definition adds_families :: "unicode \<Rightarrow> (string \<Rightarrow> int core_op) \<Rightarrow> bool" where
  "adds_families u nf \<longleftrightarrow> lower_idem u \<and> (\<forall>name c. core_ok u c \<longrightarrow> grows u c is_family (nf name))"

lemma intern_adds:
  assumes nf: "adds_families u nf" and "core_ok u c"
  shows "grows u c interned_ok (intern u n nf w t)"
  by (rule intern_grows [OF _ _ assms(2)]) (use nf in \<open>auto simp: adds_families_def\<close>)

lemma intern_args_adds:
  assumes nf: "adds_families u nf" and "core_ok u c" and "intern_args (intern u n nf w) as c = (r, c')"
  shows "core_ok u c'"
proof -
  have "grows u c (\<lambda>c r. args_interned c r \<and> length (fst r) = length as) (intern_args (intern u n nf w) as)"
    by (rule intern_args_grows [OF intern_adds [OF nf] assms(2)])
  with assms(3) show ?thesis by (simp add: grows_def)
qed

lemma row_look:
  assumes "canonical_expr (fst (look u n t c)) = Some e" and "known_row (fst (look u n t c)) = Some oid"
  shows "look u n t c = (Inr (oid, e), c)"
  using assms look_eq [of u n t c] by (cases "fst (look u n t c)") auto

lemma look_row_stable:
  assumes "adds_instances c c'" and "core_ok u c" and "look u n t c = (Inr (oid, e), c)"
  shows "look u n t c' = (Inr (oid, e), c')"
  using look_stable [OF assms(1,2), of n t e] assms(3) by (intro row_look) auto

lemma intern_args_known:
  assumes nf: "adds_families u nf"
    and step: "\<And>t e c. core_ok u c \<Longrightarrow> canonical_expr (fst (look u n t c)) = Some e \<Longrightarrow>
      \<exists>oid c'. intern u n nf True t c = (Inr (oid, e), c') \<and> adds_instances c c' \<and> look u n t c' = (Inr (oid, e), c')"
  shows "core_ok u c \<Longrightarrow> intern_args (look u n) as c = (Inr r, c) \<Longrightarrow>
    \<exists>ps c'. intern_args (intern u n nf True) as c = (Inr (ps, False), c') \<and> adds_instances c c' \<and>
      map fst ps = map fst (fst r) \<and> intern_args (look u n) as c' = (Inr (ps, False), c')"
proof (induction as arbitrary: c r)
  case Nil
  then show ?case by auto
next
  case (Cons a as)
  have known: ?case
    if t: "ta_Type a = Some t" and e: "canonical_expr (fst (look u n t c)) = Some e"
      and rest: "intern_args (look u n) as c = (Inr (ps, unk), c)"
      and fsts: "map fst (fst r) = with_Type (with_Nullable (te_Nullable t) e) a # map fst ps" for t e ps unk
  proof -
    from step [OF Cons.prems(1) e] obtain oid c1 where
      one: "intern u n nf True t c = (Inr (oid, e), c1)" "adds_instances c c1" "look u n t c1 = (Inr (oid, e), c1)" by blast
    have c1: "core_ok u c1" using intern_adds [OF nf Cons.prems(1), of n True t] one(1) by (simp add: grows_def)
    from look_args_stable [OF look_stable [OF one(2) Cons.prems(1)] rest] obtain ps1 unk1 where
      r1: "intern_args (look u n) as c1 = (Inr (ps1, unk1), c1)" "map fst ps1 = map fst ps"
      by (auto simp: args_agree_def)
    from Cons.IH [OF c1 r1(1)] obtain ps' c' where
      all: "intern_args (intern u n nf True) as c1 = (Inr (ps', False), c')" "adds_instances c1 c'"
        "map fst ps' = map fst ps1" "intern_args (look u n) as c' = (Inr (ps', False), c')" by auto
    have "look u n t c' = (Inr (oid, e), c')" by (rule look_row_stable [OF all(2) c1 one(3)])
    from intern_args_Cons_row [OF t this all(4)] intern_args_Cons_row [OF t one(1) all(1)] show ?thesis
      using adds_instances_trans [OF one(2) all(2)] all(3) r1(2) fsts by auto
  qed
  from Cons.prems(2) show ?case
  proof (cases rule: look_args_cases)
    case (literal ps unknown)
    from Cons.IH [OF Cons.prems(1) literal(2)] obtain ps' c' where
      all: "intern_args (intern u n nf True) as c = (Inr (ps', False), c')" "adds_instances c c'"
        "map fst ps' = map fst ps" "intern_args (look u n) as c' = (Inr (ps', False), c')" by auto
    from intern_args_Cons_literal [OF literal(1) all(1)] intern_args_Cons_literal [OF literal(1) all(4)] show ?thesis
      using all(2,3) literal(3) by auto
  next
    case (row t oid e ps unknown)
    show ?thesis by (rule known [OF row(1) _ row(3), of e]) (simp_all add: row(2,4))
  next
    case (unknown t err e ps unk)
    show ?thesis by (rule known [OF unknown(1) _ unknown(4), of e]) (simp_all add: unknown(2,3,5))
  qed
qed

lemma intern_known:
  assumes nf: "adds_families u nf"
  shows "core_ok u c \<Longrightarrow> canonical_expr (fst (look u n t c)) = Some e \<Longrightarrow>
    \<exists>oid c'. intern u n nf True t c = (Inr (oid, e), c') \<and> adds_instances c c' \<and> look u n t c' = (Inr (oid, e), c')"
proof (induction n arbitrary: t e c)
  case (Suc n)
  note c = Suc.prems(1)
  from Suc.prems(2) show ?case
  proof (cases rule: look_cases)
    case (family t' family)
    then have "intern u (Suc n) nf True t c = (Inr (tr_oid family, e), c)" by (simp add: intern_resolved [OF family(1)])
    with family(3) show ?thesis by blast
  next
    case (inst t' family ps unknown)
    have "\<exists>ps' c1. intern_args (intern u n nf True) (te_Args t') c = (Inr (ps', False), c1) \<and> adds_instances c c1 \<and>
        map fst ps' = map fst (fst (ps, unknown)) \<and> intern_args (look u n) (te_Args t') c1 = (Inr (ps', False), c1)"
      by (rule intern_args_known [OF nf Suc.IH c inst(3)])
    then obtain ps' c1 where
      args: "intern_args (intern u n nf True) (te_Args t') c = (Inr (ps', False), c1)" "adds_instances c c1"
        "map fst ps' = map fst ps" "intern_args (look u n) (te_Args t') c1 = (Inr (ps', False), c1)" by auto
    have c1: "core_ok u c1" by (rule intern_args_adds [OF nf c args(1)])
    have "length ps' = length (te_Args t')" by (rule args_nonempty [OF args(1)])
    with inst(2) have ne: "ps' \<noteq> []" by auto
    have fam: "family \<in> set (c_types c1)"
      using resolved_family [OF inst(1) c] args(2) by (auto simp: adds_instances_def)
    let ?e = "mk_TypeExpr (qualifiedName c1 family) False (map fst ps')"
    have e: "e = ?e" using inst(5) args(3) adds_instances_qualifiedName [OF args(2)] by simp
    have run: "intern u (Suc n) nf True t c = intern_instance u True family ps' False c1"
      using inst(2) args(1) by (simp add: intern_resolved [OF inst(1)])
    have look: "look u (Suc n) t c' = intern_instance u False family ps' False c'"
      if "adds_instances c c'" "intern_args (look u n) (te_Args t') c' = (Inr (ps', False), c')" for c'
      using that(2) inst(2) by (simp add: intern_resolved [OF resolved_adds [OF that(1) c inst(1)]])
    show ?thesis
    proof (cases "find (instance_named (tr_namespace_oid family) (Key ?e)) (c_types c1)")
      case (Some r)
      then show ?thesis
        unfolding run using look [OF args(2,4)] args(2) e by (auto simp: intern_instance_def)
    next
      case None
      let ?c2 = "with_instance u c1 family (Key ?e) ps'"
      have key: "Key ?e \<noteq> []" using ne by (simp add: Key_text)
      have adds: "adds_instances c1 ?c2" by (rule with_instance_adds [OF c1 fam key])
      have "intern_args (look u n) (te_Args t') ?c2 = (Inr (ps', False), ?c2)"
        using look_args_stable [OF look_stable [OF adds c1] args(4)] by (auto simp: args_agree_def)
      note look2 = look [OF adds_instances_trans [OF args(2) adds] this]
      define k where "k = Key ?e"
      note r = instance_row_sel(1-3) [OF key, of u c1 family ps', folded k_def]
      have "find (instance_named (tr_namespace_oid family) k) (c_types (with_instance u c1 family k ps')) = Some (instance_row u c1 family k ps')"
        using None [folded k_def] r by (simp add: with_instance_def insert_type_def find_of_append instance_named_def)
      then have "intern_instance u False family ps' False ?c2 = (Inr (c_next_type c1, ?e), ?c2)"
        using adds_instances_qualifiedName [OF adds] r by (simp add: intern_instance_def k_def [symmetric] Let_def)
      then show ?thesis
        unfolding run intern_instance_new [OF c1 fam ne None] e
        using look2 adds_instances_trans [OF args(2) adds] by auto
    qed
  qed
qed simp

text \<open>Where a lookup finds a row, interning returns it and writes nothing.\<close>

lemma intern_args_again:
  assumes "\<And>t oid e. look u n t c = (Inr (oid, e), c) \<Longrightarrow> intern u n nf w t c = (Inr (oid, e), c)"
  shows "intern_args (look u n) as c = (Inr (ps, False), c) \<Longrightarrow> intern_args (intern u n nf w) as c = (Inr (ps, False), c)"
proof (induction as arbitrary: ps)
  case (Cons a as)
  from Cons.prems show ?case
  proof (cases rule: look_args_cases)
    case (literal xs unknown)
    then show ?thesis using intern_args_Cons_literal [OF literal(1)] Cons.IH by auto
  next
    case (row t oid e xs unknown)
    note one = assms [OF row(2)]
    have "intern_args (intern u n nf w) as c = (Inr (xs, False), c)" using Cons.IH row(3,4) by simp
    with intern_args_Cons_row [where f = "intern u n nf w", OF row(1) one] row(4) show ?thesis by simp
  qed simp
qed simp

lemma intern_again: "look u n t c = (Inr (oid, e), c) \<Longrightarrow> intern u n nf w t c = (Inr (oid, e), c)"
proof (induction n arbitrary: t oid e)
  case (Suc n)
  then have "canonical_expr (fst (look u (Suc n) t c)) = Some e" by simp
  then show ?case
  proof (cases rule: look_cases)
    case (family t' family)
    with Suc.prems show ?thesis by (simp add: intern_resolved [OF family(1)])
  next
    case (inst t' family ps unknown)
    have row: "intern_instance u False family ps unknown c = (Inr (oid, e), c)" using inst(4) Suc.prems by simp
    then have known: "\<not> unknown" by (auto simp: intern_instance_def)
    have "intern_args (intern u n nf w) (te_Args t') c = (Inr (ps, False), c)"
      by (rule intern_args_again) (use Suc.IH inst(3) known in auto)
    then have "intern u (Suc n) nf w t c = intern_instance u w family ps False c"
      using inst(2) by (simp add: intern_resolved [OF inst(1)])
    with row known show ?thesis by (auto simp: intern_instance_def Let_def split: option.splits)
  qed
qed simp

end
