(* ===== verification/Core_Declare.thy ===== *)
theory Core_Declare
  imports Core_Intern
begin

text \<open>
  Declaring a type with arguments of its own (an enum with its labels, a composite type with its fields) keeps the invariant
  of the core catalog: the arguments are interned first, and the arguments of a family are no part of what it is called.
\<close>

section \<open>Interning the arguments\<close>

definition fields_ok :: "core \<Rightarrow> (type_arg \<times> int) list \<Rightarrow> bool" where
  "fields_ok c ps \<longleftrightarrow> (\<forall>p \<in> set ps. ta_Type (fst p) \<noteq> None \<longrightarrow> is_type c (snd p))"

lemma fields_ok_extends: "extends c c' \<Longrightarrow> fields_ok c ps \<Longrightarrow> fields_ok c' ps"
  by (auto simp: fields_ok_def is_type_extends)

lemma intern_fields_grows:
  assumes f: "\<And>t c. core_ok u c \<Longrightarrow> grows u c interned_ok (f t)" and "core_ok u c"
  shows "grows u c fields_ok (intern_fields f as)"
  using assms(2)
proof (induction as arbitrary: c)
  case Nil
  then show ?case by (simp add: grows_def fields_ok_def)
next
  case (Cons a as)
  have rest: "grows u c' fields_ok (bind_op (intern_fields f as) (\<lambda>xs. ret ((a, oid) # xs)))"
    if c': "core_ok u c'" and a: "ta_Type a \<noteq> None \<longrightarrow> is_type c' oid" for c' oid
  proof (rule grows_bind [OF Cons.IH [OF c']])
    fix xs c''
    assume "core_ok u c''" "extends c' c''" "fields_ok c'' xs"
    with a show "grows u c'' fields_ok (ret ((a, oid) # xs))"
      by (intro grows_ret) (auto simp: fields_ok_def is_type_extends)
  qed
  show ?case
  proof (cases "ta_Type a")
    case None
    then show ?thesis using rest [OF Cons.prems, of 0] by (simp add: grows_def)
  next
    case (Some t)
    from f [OF Cons.prems, of t] show ?thesis
    proof (cases rule: grows_cases)
      case (error e c')
      then show ?thesis by (cases e) (simp add: Some grows_def)
    next
      case (ok x c')
      obtain oid e where x: "x = (oid, e)" by force
      have "grows u c' fields_ok (bind_op (intern_fields f as) (\<lambda>xs. ret ((a, oid) # xs)))"
        using ok(4) x by (intro rest [OF ok(2)]) (simp add: interned_ok_def)
      with ok(1,3) x show ?thesis by (auto simp: Some grows_def intro: extends_trans)
    qed
  qed
qed

section \<open>The oid of a new type\<close>

lemma CreateTypeSpec_oid: "CreateTypeSpec u t c = (Inr oid, c') \<Longrightarrow> oid = c_next_type c"
  by (auto simp: CreateTypeSpec_def bind_op_def reading_def wrapping_def q_CreateType_def constraint_failed_def Let_def
      split: sum.splits prod.splits if_splits)

lemma with_comparisons_oid: "with_comparisons u (CreateTypeSpec u t) c = (Inr oid, c') \<Longrightarrow> oid = c_next_type c"
  by (auto simp: with_comparisons_def bind_op_def dest: CreateTypeSpec_oid split: sum.splits prod.splits)

lemma with_comparisons_args: "with_comparisons u (CreateTypeSpec u t) c = (Inr oid, c') \<Longrightarrow> c_type_args c' = c_type_args c"
proof -
  assume run: "with_comparisons u (CreateTypeSpec u t) c = (Inr oid, c')"
  obtain r c1 where c1: "CreateTypeSpec u t c = (r, c1)" by force
  have "c_type_args c1 = c_type_args c"
    using c1 by (auto simp: CreateTypeSpec_def bind_op_def reading_def wrapping_def q_CreateType_def insert_type_def Let_def
        split: sum.splits prod.splits if_splits)
  moreover have "c_type_args (createComparisons u oid c1) = c_type_args c1"
    using createComparisons_ops [of u oid c1] by force
  ultimately show ?thesis using run c1 by (cases r) (auto simp: with_comparisons_def bind_op_def)
qed

section \<open>Arguments of a family\<close>

definition add_arg_rows :: "type_arg_row list \<Rightarrow> core \<Rightarrow> core" where
  "add_arg_rows as c = c\<lparr>c_type_args := c_type_args c @ as\<rparr>"

lemma add_arg_rows_sel [simp]:
  "c_types (add_arg_rows as c) = c_types c" "c_namespaces (add_arg_rows as c) = c_namespaces c"
  "c_next_type (add_arg_rows as c) = c_next_type c" "LookupType (add_arg_rows as c) = LookupType c"
  "qualifiedName (add_arg_rows as c) = qualifiedName c" "oids (add_arg_rows as c) = oids c"
  "paren_free (add_arg_rows as c) = paren_free c" "namespaces_ok (add_arg_rows as c) = namespaces_ok c"
  "c_type_args (add_arg_rows as c) = c_type_args c @ as"
  by (auto simp: add_arg_rows_def LookupType_def q_LookupType_def qualifiedName_def namespaceName_def DefaultNamespaces_def
      own_flag_def DialectFlag_def Let_def oids_def paren_free_def namespaces_ok_def fun_eq_iff)

lemma expr_of_family_args:
  assumes "\<And>a r. a \<in> set as \<Longrightarrow> LookupType c (ar_type_oid a) = Inr r \<Longrightarrow> IsFamily r"
  shows "expr_of n (add_arg_rows as c) oid = expr_of n c oid"
proof (induction n arbitrary: oid)
  case (Suc n)
  show ?case
  proof (cases "\<exists>r. LookupType c oid = Inr r \<and> \<not> IsFamily r")
    case True
    then obtain r where r: "LookupType c oid = Inr r" "\<not> IsFamily r" by blast
    then have "filter (\<lambda>r. ar_type_oid r = oid) as = []" using assms by (auto simp: filter_empty_conv)
    then have "q_TypeArgs (add_arg_rows as c) oid = q_TypeArgs c oid" by (simp add: q_TypeArgs_def)
    moreover have "expr_of n (add_arg_rows as c) = expr_of n c" using Suc by blast
    ultimately show ?thesis using r by simp
  next
    case False
    then show ?thesis by (cases "LookupType c oid") auto
  qed
qed simp

lemma family_args_ok:
  assumes "core_ok u c" and "is_family c T" and "\<And>p. p \<in> set ps \<Longrightarrow> ta_Type (fst p) \<noteq> None \<Longrightarrow> snd p \<in> oids c \<and> snd p < T"
  shows "core_ok u (add_arg_rows (arg_rows T 0 ps) c)"
proof -
  from assms(2) obtain f where f: "f \<in> set (c_types c)" "tr_oid f = T" "IsFamily f" by (auto simp: is_family_def)
  have "IsFamily r" if "a \<in> set (arg_rows T 0 ps)" "LookupType c (ar_type_oid a) = Inr r" for a r
    using that arg_rows_T [OF that(1)] LookupType_family [OF assms(1,2)] by blast
  then have expr: "expr_of n (add_arg_rows (arg_rows T 0 ps) c) oid = expr_of n c oid" for n oid
    by (rule expr_of_family_args)
  have row: "row_ok u (add_arg_rows (arg_rows T 0 ps) c) r = row_ok u c r" for r
    by (simp add: row_ok_def spelled_def TypeExprOf_def expr)
  have arg: "arg_ok c a" if a: "a \<in> set (arg_rows T 0 ps)" for a
  proof -
    from arg_rows_in [OF a] obtain j p where p: "p \<in> set ps" "a = arg_row T j (fst p) (snd p)" by blast
    then show ?thesis
      using assms(3) [OF p(1)] is_family_type [OF assms(2)] by (auto simp: arg_ok_def arg_row_type is_type_def split: option.splits)
  qed
  have "arg_ok (add_arg_rows (arg_rows T 0 ps) c) a = arg_ok c a" for a
    by (simp add: arg_ok_def)
  with row arg show ?thesis using assms(1) by (auto simp: core_ok_def)
qed

section \<open>A declared type\<close>

text \<open>A declaration names the type, and what it stands on is in the catalog.\<close>

definition declares :: "core \<Rightarrow> typeSpec \<Rightarrow> bool" where
  "declares c t \<longleftrightarrow> ts_NamespaceOID t = 0 \<and> family_spec c t"

lemma CreateTypeWithArgs_grows:
  assumes u: "lower_idem u" and c: "core_ok u c" and spec: "declares c spec0"
  shows "grows u c is_family (CreateTypeWithArgs u n spec0 as)"
  unfolding CreateTypeWithArgs_def
proof (rule grows_bind [OF grows_wrapping [OF declaredTypeNamespace_grows [OF c]]], clarify)
  fix ns :: int and bare :: string and c1
  assume c1: "core_ok u c1" "extends c c1" "fst (ns, bare) = 0 \<or> has_namespace c1 (fst (ns, bare))"
  define spec where "spec = spec0\<lparr>ts_Name := bare, ts_NamespaceOID := (if ns \<noteq> 0 then ns else ts_NamespaceOID spec0),
      ts_DialectOID := (if ts_DialectOID spec0 = 0 then c_dialectOID c1 else ts_DialectOID spec0)\<rparr>"
  have spec1: "family_spec c1 spec"
    using family_spec_extends [OF c1(2), of spec0] spec c1(3) by (auto simp: family_spec_def declares_def spec_def)
  let ?fields = "intern_fields (intern u n (\<lambda>name. CreateUserType u name ''U'') True) as"
  have fields: "grows u c1 fields_ok ?fields"
    by (rule intern_fields_grows [OF intern_grows [OF u CreateUserType_grows [OF u]] c1(1)])
  have "grows u c1 is_family (bind_op (wrapping (''create type '' @ Quote bare) ?fields) (\<lambda>fields.
      bind_op (with_comparisons u (CreateTypeSpec u spec)) (\<lambda>oid. bind_op (insertTypeArgs oid (ts_Expr spec) fields) (\<lambda>_. ret oid))))"
  proof (rule grows_bind [OF grows_wrapping [OF fields]])
    fix ps c2
    assume c2: "core_ok u c2" "extends c1 c2" "fields_ok c2 ps"
    have "grows u c2 is_family (with_comparisons u (CreateTypeSpec u spec))"
      by (intro with_comparisons_grows CreateTypeSpec_grows [OF u c2(1)] family_spec_extends [OF c2(2) spec1])
    then show "grows u c2 is_family
        (bind_op (with_comparisons u (CreateTypeSpec u spec)) (\<lambda>oid. bind_op (insertTypeArgs oid (ts_Expr spec) ps) (\<lambda>_. ret oid)))"
    proof (cases rule: grows_cases)
      case (ok oid c3)
      have oid: "oid = c_next_type c2" by (rule with_comparisons_oid [OF ok(1)])
      have args3: "c_type_args c3 = c_type_args c2"
        using ok(1) by (rule with_comparisons_args)
      have "\<forall>r \<in> set (c_type_args c3). ar_type_oid r \<noteq> oid" using no_args_yet [OF c2(1)] by (simp add: args3 oid)
      from insertTypeArgs_rows [OF this] have run:
        "insertTypeArgs oid (ts_Expr spec) ps c3 = (Inr (), add_arg_rows (arg_rows oid 0 ps) c3)" by (simp add: add_arg_rows_def)
      have below: "snd p \<in> oids c3 \<and> snd p < oid" if "p \<in> set ps" "ta_Type (fst p) \<noteq> None" for p
        using that c2(3) is_type_range [OF c2(1)] extends_oids [OF ok(3)] unfolding oid
        by (auto simp: fields_ok_def is_type_def)
      have "core_ok u (add_arg_rows (arg_rows oid 0 ps) c3)" by (rule family_args_ok [OF ok(2,4) below])
      moreover have "extends c2 (add_arg_rows (arg_rows oid 0 ps) c3)"
        using ok(3) args3 by (auto simp: extends_def add_arg_rows_def oid dest: arg_rows_T)
      moreover have "is_family (add_arg_rows (arg_rows oid 0 ps) c3) oid" using ok(4) by (simp add: is_family_def)
      ultimately show ?thesis using ok(1) run by (simp add: grows_def bind_op_def ret_def)
    qed (simp add: grows_def bind_op_def)
  qed
  then show "grows u c1 is_family (\<lambda>c. let spec = spec0\<lparr>ts_Name := bare, ts_NamespaceOID := (if ns \<noteq> 0 then ns else ts_NamespaceOID spec0),
                     ts_DialectOID := (if ts_DialectOID spec0 = 0 then c_dialectOID c else ts_DialectOID spec0)\<rparr>
        in bind_op (wrapping (''create type '' @ Quote bare) ?fields) (\<lambda>fields.
             bind_op (with_comparisons u (CreateTypeSpec u spec)) (\<lambda>oid. bind_op (insertTypeArgs oid (ts_Expr spec) fields) (\<lambda>_. ret oid))) c)"
    by (rule grows_cong [rotated]) (simp only: Let_def spec_def)
qed

end
