(* ===== verification/Core_Drop.thy ===== *)
theory Core_Drop
  imports Core_Inv
begin

text \<open>
  What \<open>DROP TYPE\<close> removes: the type, and the arrays, ranges and domains that stand on it, to any depth; with their
  arguments and their operators.
\<close>

section \<open>Standing on a type\<close>

definition over :: "core \<Rightarrow> (int \<times> int) set" where
  "over c = {(a, tr_oid r) | a r. r \<in> set (c_types c) \<and> a \<noteq> 0 \<and> (tr_element_oid r = a \<or> tr_base_oid r = a)}"

definition without :: "int set \<Rightarrow> core \<Rightarrow> core" where
  "without S c =
     c\<lparr>c_operators := filter (\<lambda>r. \<not> (or_left_type_oid r \<in> S \<or> or_right_type_oid r \<in> S \<or> or_result_type_oid r \<in> S)) (c_operators c),
       c_type_args := filter (\<lambda>r. ar_type_oid r \<notin> S) (c_type_args c),
       c_types := filter (\<lambda>r. tr_oid r \<notin> S) (c_types c)\<rparr>"

lemma without_sel [simp]:
  "c_types (without S c) = filter (\<lambda>r. tr_oid r \<notin> S) (c_types c)" "c_next_type (without S c) = c_next_type c"
  by (simp_all add: without_def)

lemma without_empty [simp]: "without {} c = c"
  by (simp add: without_def)

lemma without_without: "without S (without T c) = without (T \<union> S) c"
  by (simp add: without_def conj_ac)

lemma delete_type_without: "delete_type oid c = without {oid} c"
  by (simp add: delete_type_def without_def)

lemma set_ListTypesOver: "set (ListTypesOver c oid) = over c `` {oid}"
  by (auto simp: ListTypesOver_def over_def)

lemma over_without: "over (without S c) = {(a, b) \<in> over c. b \<notin> S}"
  by (auto simp: over_def)

text \<open>What stands on a type comes after it.\<close>

definition layered :: "core \<Rightarrow> bool" where
  "layered c \<longleftrightarrow> (\<forall>r \<in> set (c_types c). tr_element_oid r < tr_oid r \<and> tr_base_oid r < tr_oid r \<and> tr_oid r < c_next_type c)"

lemma core_ok_layered: "core_ok u c \<Longrightarrow> layered c"
  by (auto simp: layered_def row_ok_def dest: core_okD(5))

lemma layered_over: "layered c \<Longrightarrow> (a, b) \<in> over c \<Longrightarrow> a < b \<and> b < c_next_type c"
  by (auto simp: layered_def over_def)

lemma layered_without: "layered c \<Longrightarrow> layered (without S c)"
  by (simp add: layered_def)

section \<open>Reachability where some types are gone\<close>

lemma reach_without:
  assumes "over c `` S \<subseteq> S"
  shows "S \<union> (over (without S c))\<^sup>* `` {x} = S \<union> (over c)\<^sup>* `` {x}"
proof -
  have "(over (without S c))\<^sup>* \<subseteq> (over c)\<^sup>*" by (rule rtrancl_mono) (auto simp: over_without)
  moreover have "y \<in> S \<or> (x, y) \<in> (over (without S c))\<^sup>*" if "(x, y) \<in> (over c)\<^sup>*" for y
    using that
  proof induction
    case (step y z)
    then show ?case using assms by (auto simp: over_without intro: rtrancl_into_rtrancl)
  qed simp
  ultimately show ?thesis by auto
qed

lemma reach_closed: "over c `` ((over c)\<^sup>* `` A) \<subseteq> (over c)\<^sup>* `` A"
  by (auto intro: rtrancl_into_rtrancl)

lemma reach_unfold: "(over c)\<^sup>* `` {x} = {x} \<union> (over c)\<^sup>* `` (over c `` {x})"
  by (auto intro: converse_rtrancl_into_rtrancl elim: converse_rtranclE)

section \<open>Dropping\<close>

lemma each_drop:
  assumes "\<And>d x. layered d \<Longrightarrow> c_next_type d = c_next_type c \<Longrightarrow> x \<in> set xs \<Longrightarrow> f x d = (Inr (), without ((over d)\<^sup>* `` {x}) d)"
    and "layered c" and "over c `` S \<subseteq> S"
  shows "each_op f xs (without S c) = (Inr (), without (S \<union> (over c)\<^sup>* `` set xs) c)"
  using assms(1,3)
proof (induction xs arbitrary: S)
  case Nil
  then show ?case by (simp add: ret_def)
next
  case (Cons x xs)
  have "f x (without S c) = (Inr (), without ((over (without S c))\<^sup>* `` {x}) (without S c))"
    by (intro Cons.prems(1)) (simp_all add: layered_without assms(2))
  also have "\<dots> = (Inr (), without (S \<union> (over c)\<^sup>* `` {x}) c)"
    by (simp only: without_without reach_without [OF Cons.prems(2)])
  finally have one: "f x (without S c) = (Inr (), without (S \<union> (over c)\<^sup>* `` {x}) c)" .
  have closed: "over c `` (S \<union> (over c)\<^sup>* `` {x}) \<subseteq> S \<union> (over c)\<^sup>* `` {x}"
    using Cons.prems(2) reach_closed [of c "{x}"] by blast
  have "each_op f xs (without (S \<union> (over c)\<^sup>* `` {x}) c) =
      (Inr (), without ((S \<union> (over c)\<^sup>* `` {x}) \<union> (over c)\<^sup>* `` set xs) c)"
    by (rule Cons.IH [OF Cons.prems(1) closed]) simp_all
  moreover have "(S \<union> (over c)\<^sup>* `` {x}) \<union> (over c)\<^sup>* `` set xs = S \<union> (over c)\<^sup>* `` set (x # xs)" by auto
  ultimately show ?case using one by (simp add: bind_op_def)
qed

lemma drop_from_all:
  assumes "layered c" and "0 < oid" and "oid < c_next_type c" and "c_next_type c < int n + oid"
  shows "drop_from n oid c = (Inr (), without ((over c)\<^sup>* `` {oid}) c)"
  using assms
proof (induction n arbitrary: oid c)
  case 0
  then show ?case by simp
next
  case (Suc n)
  have each: "drop_from n x d = (Inr (), without ((over d)\<^sup>* `` {x}) d)"
    if "layered d" "c_next_type d = c_next_type c" "x \<in> set (ListTypesOver c oid)" for d x
  proof -
    have "oid < x" "x < c_next_type c" using that(3) layered_over [OF Suc.prems(1)] by (auto simp: set_ListTypesOver)
    with Suc.prems that(1,2) show ?thesis by (intro Suc.IH) auto
  qed
  have "each_op (drop_from n) (ListTypesOver c oid) (without {} c) =
      (Inr (), without ({} \<union> (over c)\<^sup>* `` set (ListTypesOver c oid)) c)"
    by (rule each_drop [OF each Suc.prems(1)]) simp_all
  then have "drop_from (Suc n) oid c =
      (Inr (), without {oid} (without ((over c)\<^sup>* `` (over c `` {oid})) c))"
    by (simp add: bind_op_def delete_type_without set_ListTypesOver)
  also have "\<dots> = (Inr (), without ((over c)\<^sup>* `` {oid}) c)"
    by (subst reach_unfold) (simp add: without_without Un_commute)
  finally show ?case .
qed

end
