(* ===== verification/Core_Props.thy ===== *)
theory Core_Props
  imports Core_Lookup Core_Declare Core_Drop
begin

text \<open>
  What the core catalog promises of types: adding types never changes what is known of the types it has, an interned
  expression is read back from its row, a lookup and interning agree, and a dropped type takes along what stands on it.
\<close>

section \<open>Lower case outside ASCII letters\<close>

lemma rune_wide: "rune_width s \<noteq> 1 \<Longrightarrow> \<forall>c \<in> set (take (rune_width s) s). 128 \<le> byte_of c"
proof (cases s rule: rune_width.cases)
  case (1 a b c d s')
  let ?two = "in_range 194 223 a \<and> is_cont b"
  let ?three = "((byte_of a = 224 \<and> in_range 160 191 b) \<or> (in_range 225 236 a \<and> is_cont b) \<or>
      (byte_of a = 237 \<and> in_range 128 159 b) \<or> (in_range 238 239 a \<and> is_cont b)) \<and> is_cont c"
  let ?four = "((byte_of a = 240 \<and> in_range 144 191 b) \<or> (in_range 241 243 a \<and> is_cont b) \<or>
      (byte_of a = 244 \<and> in_range 128 143 b)) \<and> is_cont c \<and> is_cont d"
  have w: "rune_width s = (if ?two then 2 else if ?three then 3 else if ?four then 4 else 1)" by (simp only: 1 rune_width.simps)
  have "?two \<Longrightarrow> 128 \<le> byte_of a \<and> 128 \<le> byte_of b" "?three \<Longrightarrow> 128 \<le> byte_of a \<and> 128 \<le> byte_of b \<and> 128 \<le> byte_of c"
    "?four \<Longrightarrow> 128 \<le> byte_of a \<and> 128 \<le> byte_of b \<and> 128 \<le> byte_of c \<and> 128 \<le> byte_of d"
    unfolding in_range_def is_cont_def by linarith+
  moreover assume "rune_width s \<noteq> 1"
  ultimately show ?thesis unfolding w by (simp only: 1 split: if_splits) auto
next
  case (2 a b c)
  let ?two = "in_range 194 223 a \<and> is_cont b"
  let ?three = "((byte_of a = 224 \<and> in_range 160 191 b) \<or> (in_range 225 236 a \<and> is_cont b) \<or>
      (byte_of a = 237 \<and> in_range 128 159 b) \<or> (in_range 238 239 a \<and> is_cont b)) \<and> is_cont c"
  have w: "rune_width s = (if ?two then 2 else if ?three then 3 else 1)" by (simp only: 2 rune_width.simps)
  have "?two \<Longrightarrow> 128 \<le> byte_of a \<and> 128 \<le> byte_of b" "?three \<Longrightarrow> 128 \<le> byte_of a \<and> 128 \<le> byte_of b \<and> 128 \<le> byte_of c"
    unfolding in_range_def is_cont_def by linarith+
  moreover assume "rune_width s \<noteq> 1"
  ultimately show ?thesis unfolding w by (simp only: 2 split: if_splits) auto
qed (auto simp: in_range_def is_cont_def split: if_splits)

lemma runes_wide: "r \<in> set (runes s) \<Longrightarrow> length r \<noteq> 1 \<Longrightarrow> \<forall>c \<in> set r. 128 \<le> byte_of c"
proof (induction s rule: runes.induct)
  case (1 s)
  show ?case
  proof (cases "s = [] \<or> r \<noteq> take (rune_width s) s")
    case True
    with 1 show ?thesis by (subst (asm) (2) runes.simps) (auto split: if_splits)
  next
    case False
    then have "rune_width s \<noteq> 1" using "1.prems"(2) by (cases s) auto
    from rune_wide [OF this] False show ?thesis by simp
  qed
qed

lemma strings_ToLower_ascii_only: "strings_ToLower ascii_only s = map lower_byte s"
proof -
  have "ascii_case lower_byte r = map lower_byte r" if "r \<in> set (runes s)" for r
  proof (cases "length r = 1")
    case True
    then obtain c where "r = [c]" by (auto simp: length_Suc_conv)
    then show ?thesis by (simp add: ascii_case_def)
  next
    case False
    then have "map lower_byte r = r" using runes_wide [OF that] by (intro map_idI) (force simp: lower_byte_def)
    moreover have "ascii_case lower_byte r = r" using False by (auto simp: ascii_case_def split: list.split)
    ultimately show ?thesis by simp
  qed
  then have "concat (map (u_ToLower ascii_only) (runes s)) = map lower_byte (concat (runes s))"
    by (simp add: ascii_only_def map_concat [symmetric] cong: map_cong)
  then show ?thesis by (simp add: strings_ToLower_def)
qed

lemma lower_idem_ascii_only: "lower_idem ascii_only"
  by (simp add: lower_idem_def strings_ToLower_ascii_only)

definition ex_core :: core where
  "ex_core =
     \<lparr>c_namespaces = [(1, ''public'')], c_next_namespace = 2, c_dialects = [], c_next_dialect = 1, c_flags = Map.empty,
      c_types = [], c_next_type = 1, c_type_args = [], c_operators = [], c_next_operator = 1, c_rewrites = [],
      c_affinities = [], c_dialectOID = 0\<rparr>"

definition named_type :: "string \<Rightarrow> type_expr" where
  "named_type n = mk_TypeExpr n False []"

definition type_over :: "string \<Rightarrow> string \<Rightarrow> type_expr" where
  "type_over family n = mk_TypeExpr family False [type_argument [] (named_type n)]"

lemma ex_core_ok: "core_ok u ex_core"
  by (simp add: core_ok_def ex_core_def namespaces_ok_def)

text \<open>A catalog with a family, the type \<open>m\<close>, and the family over \<open>m\<close>.\<close>

definition ex_family :: "int \<Rightarrow> int \<Rightarrow> string \<Rightarrow> string \<Rightarrow> type_row" where
  "ex_family oid dialect name category =
     \<lparr>tr_oid = oid, tr_namespace_oid = 1, tr_dialect_oid = dialect, tr_name = name, tr_expr = name, tr_typtype = ''b'',
      tr_category = category, tr_preferred = False, tr_family_oid = 0, tr_element_oid = 0, tr_base_oid = 0,
      tr_canonical_oid = 0, tr_not_null = False\<rparr>"

definition over_m :: "string \<Rightarrow> string \<Rightarrow> int \<Rightarrow> core" where
  "over_m name category element =
     ex_core\<lparr>c_types :=
         [ex_family 1 0 name category, ex_family 2 0 ''m'' ''U'',
          (ex_family 3 0 name category)\<lparr>tr_expr := name @ ''(m)'', tr_family_oid := 1, tr_element_oid := element\<rparr>],
       c_next_type := 4,
       c_type_args := [\<lparr>ar_type_oid = 3, ar_ord = 1, ar_label = [], ar_arg_type_oid = 2, ar_nullable = False, ar_int_value = None,
         ar_bool_value = None, ar_string_value = None, ar_ident = None\<rparr>]\<rparr>"

text \<open>What a run returns and leaves, but for the flags, which are a function.\<close>

definition tables where
  "tables c = (c_namespaces c, c_next_namespace c, c_dialects c, c_next_dialect c, c_types c, c_next_type c, c_type_args c,
     c_operators c, c_next_operator c, c_rewrites c, c_affinities c, c_dialectOID c)"

definition outcome :: "'a \<times> core \<Rightarrow> 'a \<times> _" where
  "outcome r = (fst r, tables (snd r))"

lemma outcome_eq: "outcome r = outcome s \<Longrightarrow> c_flags (snd r) = c_flags (snd s) \<Longrightarrow> r = s"
  by (cases r; cases s) (simp add: outcome_def tables_def)

section \<open>Adding types\<close>

text \<open>The operations that add to the namespaces, the types and the operators of a catalog.\<close>

inductive type_step :: "unicode \<Rightarrow> nat \<Rightarrow> core \<Rightarrow> core \<Rightarrow> bool" for u n where
  namespace: "type_step u n c (snd (CreateNamespace name c))"
| operator: "type_step u n c (snd (CreateOperator os c))"
| created: "family_spec c t \<Longrightarrow> type_step u n c (snd (CreateTypeSpec u t c))"
| user: "type_step u n c (snd (CreateUserType u name category c))"
| declared: "declares c t \<Longrightarrow> type_step u n c (snd (CreateTypeWithArgs u n t as c))"
| resolved: "type_step u n c (snd (ResolveTypeExpr u n e c))"
| pseudo: "type_step u n c (snd (ResolvePseudoTypeExpr u n e c))"
| named: "type_step u n c (snd (ResolveTypeName u n name c))"
| parsed: "type_step u n c (snd (ResolveType u n tn c))"

lemma internType_grows:
  assumes "lower_idem u" and "\<And>name c. core_ok u c \<Longrightarrow> grows u c is_family (nf name)" and "core_ok u c"
  shows "grows u c interned_ok (internType u n nf w t)"
proof (cases t)
  case None
  with assms(3) show ?thesis by (simp add: internType_def grows_def)
next
  case (Some e)
  have "grows u c interned_ok (intern u n nf w e)" using assms by (rule intern_grows)
  with Some show ?thesis by (simp add: internType_def grows_def)
qed

lemma resolve_grows:
  assumes "lower_idem u" and "core_ok u c"
  shows "core_ok u (snd (ResolveTypeExpr u n t c)) \<and> extends c (snd (ResolveTypeExpr u n t c))"
    and "core_ok u (snd (ResolvePseudoTypeExpr u n t c)) \<and> extends c (snd (ResolvePseudoTypeExpr u n t c))"
proof -
  have "grows u c interned_ok (internType u n (\<lambda>name. CreateUserType u name ''U'') True t)"
    by (rule internType_grows [OF assms(1) newFamily_grows(1) [OF assms(1)] assms(2)])
  then show "core_ok u (snd (ResolveTypeExpr u n t c)) \<and> extends c (snd (ResolveTypeExpr u n t c))"
    by (simp add: ResolveTypeExpr_def interned_oid_def grows_def)
  have "grows u d is_family (CreateTypeSpec u ((named_spec name)\<lparr>ts_Category := ''U'', ts_DialectOID := c_dialectOID c\<rparr>))"
    if "core_ok u d" for d name
    by (rule CreateTypeSpec_grows [OF assms(1) that]) (simp add: family_spec_def named_spec_def)
  then have "grows u c interned_ok (internType u n
      (\<lambda>name. CreateTypeSpec u ((named_spec name)\<lparr>ts_Category := ''U'', ts_DialectOID := c_dialectOID c\<rparr>)) True t)"
    by (rule internType_grows [OF assms(1) _ assms(2)])
  then show "core_ok u (snd (ResolvePseudoTypeExpr u n t c)) \<and> extends c (snd (ResolvePseudoTypeExpr u n t c))"
    by (simp add: ResolvePseudoTypeExpr_def interned_oid_def grows_def)
qed

lemma type_step_grows:
  assumes "lower_idem u" and "type_step u n c c'" and "core_ok u c"
  shows "core_ok u c' \<and> extends c c'"
  using assms(2)
proof cases
  case (namespace name)
  then show ?thesis using CreateNamespace_grows [OF assms(3)] by (simp add: grows_def)
next
  case (operator os)
  then show ?thesis using operators_only [OF assms(3)] by (simp add: CreateOperator_def)
next
  case (created t)
  then show ?thesis using CreateTypeSpec_grows [OF assms(1,3)] by (simp add: grows_def)
next
  case (user name category)
  then show ?thesis using CreateUserType_grows [OF assms(1,3)] by (simp add: grows_def)
next
  case (declared t as)
  then show ?thesis using CreateTypeWithArgs_grows [OF assms(1,3)] by (simp add: grows_def)
next
  case (resolved e)
  then show ?thesis using resolve_grows(1) [OF assms(1,3)] by simp
next
  case (pseudo e)
  then show ?thesis using resolve_grows(2) [OF assms(1,3)] by simp
next
  case (named name)
  then show ?thesis using resolve_grows(1) [OF assms(1,3)] assms(3) by (auto simp: ResolveTypeName_def split: sum.split)
next
  case (parsed tn)
  then show ?thesis
    using resolve_grows(1) [OF assms(1,3)] assms(3) by (auto simp: ResolveType_def split: sum.split option.split)
qed

text \<open>C4: whatever types are added to a core catalog, by declarations, by casts to unknown names or by interning, its
  invariant holds, and each type it had before keeps its row and its expression.\<close>

theorem types_are_stable:
  assumes "lower_idem u" and "core_ok u c" and "(type_step u n)\<^sup>*\<^sup>* c c'"
  shows "core_ok u c' \<and>
    (\<forall>oid \<in> oids c. oid \<in> oids c' \<and> LookupType c' oid = LookupType c oid \<and> TypeExprOf c' oid = TypeExprOf c oid)"
proof -
  from assms(3) have "core_ok u c' \<and> extends c c'"
  proof induction
    case (step y z)
    then show ?case using type_step_grows [OF assms(1) step(2)] extends_trans by blast
  qed (simp add: assms(2))
  then show ?thesis using extends_oids extends_LookupType extends_TypeExprOf [OF _ assms(2)] by blast
qed

theorem types_are_stable_witness:
  "core_ok ascii_only (snd (ResolveTypeExpr ascii_only 3 (Some (type_over ''array'' ''int4'')) (snd (CreateUserType ascii_only ''mood'' ''E'' ex_core))))"
proof -
  have "(type_step ascii_only 3)\<^sup>*\<^sup>* ex_core
      (snd (ResolveTypeExpr ascii_only 3 (Some (type_over ''array'' ''int4'')) (snd (CreateUserType ascii_only ''mood'' ''E'' ex_core))))"
    by (meson type_step.resolved type_step.user rtranclp.rtrancl_into_rtrancl rtranclp.rtrancl_refl)
  from types_are_stable [OF lower_idem_ascii_only ex_core_ok this] show ?thesis by simp
qed

section \<open>Reading an interned type\<close>

text \<open>C6: the row that interning returns for a type expression is read back as an expression with the spelling of the one
  that was returned, in every catalog without a parenthesis in the name of a family.\<close>

theorem internType_reads_back:
  assumes "lower_idem u" and "core_ok u c"
    and "internType u n (\<lambda>name. CreateUserType u name ''U'') True t c = (Inr (oid, e), c')" and "paren_free c'"
  shows "\<exists>e'. TypeExprOf c' oid = Inr e' \<and> Key e' = Key e"
proof -
  have "grows u c interned_ok (internType u n (\<lambda>name. CreateUserType u name ''U'') True t)"
    by (rule internType_grows [OF assms(1) newFamily_grows(1) [OF assms(1)] assms(2)])
  with assms(3,4) show ?thesis by (simp add: grows_def interned_ok_def spelled_def)
qed

abbreviation array_core :: core where
  "array_core \<equiv> over_m ''array'' ''A'' 2"

lemma array_grows: "grows ascii_only ex_core interned_ok
    (internType ascii_only 3 (\<lambda>name. CreateUserType ascii_only name ''U'') True (Some (type_over ''ARRAY'' ''M'')))"
  by (rule internType_grows [OF lower_idem_ascii_only newFamily_grows(1) [OF lower_idem_ascii_only] ex_core_ok])

lemma array_interned:
  "internType ascii_only 3 (\<lambda>name. CreateUserType ascii_only name ''U'') True (Some (type_over ''ARRAY'' ''M'')) ex_core =
    (Inr (3, type_over ''array'' ''m''), array_core)" (is "?run = _")
proof (rule outcome_eq)
  show "outcome ?run = outcome (Inr (3, type_over ''array'' ''m''), array_core)" by code_simp
  show "c_flags (snd ?run) = c_flags (snd (Inr (3, type_over ''array'' ''m''), array_core))"
    using array_grows by (auto simp: grows_def over_m_def dest: extendsD(1))
qed

lemma array_core_ok: "core_ok ascii_only array_core"
  using array_grows by (simp add: grows_def array_interned)

theorem internType_reads_back_witness:
  "\<exists>e'. TypeExprOf array_core 3 = Inr e' \<and> Key e' = Key (type_over ''array'' ''m'')"
proof -
  have "paren_free array_core" by (simp add: paren_free_def over_m_def ex_core_def ex_family_def IsFamily_def)
  from internType_reads_back [OF lower_idem_ascii_only ex_core_ok array_interned this] show ?thesis .
qed

section \<open>Lookups and interning\<close>

lemma CreateUserType_families: "lower_idem u \<Longrightarrow> adds_families u (\<lambda>name. CreateUserType u name ''U'')"
  by (simp add: adds_families_def CreateUserType_grows)

lemma LookupTypeExpr_known:
  assumes "LookupTypeExpr u n c t = Some l"
  obtains e where "t = Some e" "canonical_expr (fst (look u n e c)) = Some (tl_Expr l)"
proof (cases t)
  case None
  with assms show ?thesis by (simp add: LookupTypeExpr_def internType_def)
next
  case (Some e)
  obtain r where r: "fst (look u n e c) = r" by simp
  have "canonical_expr r = Some (tl_Expr l)"
  proof (cases r)
    case (Inl p)
    obtain err ex where "p = (err, ex)" by force
    with assms Some r Inl show ?thesis
      by (cases ex) (auto simp: LookupTypeExpr_def internType_def split: sum.splits if_splits prod.splits)
  next
    case (Inr p)
    obtain oid e' where "p = (oid, e')" by force
    with assms Some r Inr show ?thesis by (auto simp: LookupTypeExpr_def internType_def split: sum.splits)
  qed
  with Some r that show ?thesis by simp
qed

text \<open>C5: when a lookup knows a type expression, resolving the expression succeeds, adds rows of instances only, and from
  then on the lookup answers the row that was resolved, with the same canonical expression, and resolving the expression
  again answers that row and writes nothing.\<close>

theorem LookupTypeExpr_resolved:
  assumes "lower_idem u" and "core_ok u c" and "LookupTypeExpr u n c t = Some l"
  shows "\<exists>oid c' info. ResolveTypeExpr u n t c = (Inr oid, c') \<and> LookupType c' oid = Inr info \<and>
    LookupTypeExpr u n c' t =
      Some \<lparr>tl_OID = oid, tl_FamilyOID = (if IsFamily info then oid else tr_family_oid info), tl_Expr = tl_Expr l\<rparr> \<and>
    ResolveTypeExpr u n t c' = (Inr oid, c') \<and>
    (\<exists>rs. c_types c' = c_types c @ rs \<and> list_all (\<lambda>r. \<not> IsFamily r) rs)"
proof -
  from LookupTypeExpr_known [OF assms(3)] obtain e where
    e: "t = Some e" "canonical_expr (fst (look u n e c)) = Some (tl_Expr l)" by blast
  note nf = CreateUserType_families [OF assms(1)]
  from intern_known [OF nf assms(2) e(2)] obtain oid c' where
    run: "intern u n (\<lambda>name. CreateUserType u name ''U'') True e c = (Inr (oid, tl_Expr l), c')" and
    adds: "adds_instances c c'" and look: "look u n e c' = (Inr (oid, tl_Expr l), c')" by blast
  have "is_type c' oid" using intern_adds [OF nf assms(2), of n True e] run by (simp add: grows_def interned_ok_def)
  then obtain info where info: "LookupType c' oid = Inr info" using LookupType_known by (auto simp: is_type_def)
  have "ResolveTypeExpr u n t c = (Inr oid, c')" "ResolveTypeExpr u n t c' = (Inr oid, c')"
    using run intern_again [OF look] e(1) by (simp_all add: ResolveTypeExpr_def internType_def interned_oid_def)
  moreover have "LookupTypeExpr u n c' t =
      Some \<lparr>tl_OID = oid, tl_FamilyOID = (if IsFamily info then oid else tr_family_oid info), tl_Expr = tl_Expr l\<rparr>"
    using look info e(1) by (simp add: LookupTypeExpr_def internType_def)
  moreover from adds obtain rs where "c_types c' = c_types c @ rs" "list_all (\<lambda>r. \<not> IsFamily r) rs"
    by (auto simp: adds_instances_def list_all_iff)
  ultimately show ?thesis using info by blast
qed

theorem LookupTypeExpr_resolved_witness:
  "\<exists>oid c'. ResolveTypeExpr ascii_only 3 (Some (type_over ''m'' ''m'')) array_core = (Inr oid, c') \<and>
    ResolveTypeExpr ascii_only 3 (Some (type_over ''m'' ''m'')) c' = (Inr oid, c')"
proof -
  have "LookupTypeExpr ascii_only 3 array_core (Some (type_over ''m'' ''m'')) =
      Some \<lparr>tl_OID = 2, tl_FamilyOID = 2, tl_Expr = type_over ''m'' ''m''\<rparr>" by code_simp
  from LookupTypeExpr_resolved [OF lower_idem_ascii_only array_core_ok this] show ?thesis by blast
qed

section \<open>Dropping a type\<close>

text \<open>C21: dropping a type returns, and removes exactly the type and every type that stands on it as its element or base, to
  any depth, with the arguments and the operators of those types.\<close>

theorem DropDeclaredType_removes:
  assumes "core_ok u c" and "familyOIDByQualifiedName c (strings_ToLower u name) = Inr oid"
  shows "\<exists>c'. DropDeclaredType u name c = (Inr (), c') \<and>
    c_types c' = filter (\<lambda>r. (oid, tr_oid r) \<notin> (over c)\<^sup>*) (c_types c) \<and>
    c_type_args c' = filter (\<lambda>r. (oid, ar_type_oid r) \<notin> (over c)\<^sup>*) (c_type_args c) \<and>
    c_operators c' = filter (\<lambda>r. (oid, or_left_type_oid r) \<notin> (over c)\<^sup>* \<and> (oid, or_right_type_oid r) \<notin> (over c)\<^sup>* \<and>
      (oid, or_result_type_oid r) \<notin> (over c)\<^sup>*) (c_operators c) \<and>
    c_namespaces c' = c_namespaces c"
proof -
  have "oid \<in> oids c" using familyOIDByQualifiedName_family [OF assms(2)] is_family_type by (auto simp: is_type_def)
  from oids_range [OF assms(1) this] have range: "0 < oid" "oid < c_next_type c" by simp_all
  have "dropType oid c = (Inr (), without ((over c)\<^sup>* `` {oid}) c)"
    unfolding dropType_def using range by (intro drop_from_all [OF core_ok_layered [OF assms(1)]]) auto
  then have "DropDeclaredType u name c = (Inr (), without ((over c)\<^sup>* `` {oid}) c)"
    by (simp add: DropDeclaredType_def bind_op_def reading_def assms(2))
  then show ?thesis by (simp add: without_def)
qed

theorem DropDeclaredType_removes_witness:
  "\<exists>c'. DropDeclaredType ascii_only ''m'' array_core = (Inr (), c') \<and>
    c_types c' = filter (\<lambda>r. (2, tr_oid r) \<notin> (over array_core)\<^sup>*) (c_types array_core)"
proof -
  have "familyOIDByQualifiedName array_core (strings_ToLower ascii_only ''m'') = Inr 2" by code_simp
  from DropDeclaredType_removes [OF array_core_ok this] show ?thesis by blast
qed

section \<open>Corners\<close>

text \<open>A type is dropped although another has it as an argument that is no element: the row of \<open>tuple(m)\<close> stays, its argument
  is gone, and it is found again, unreadable, when a type of that name is declared anew.\<close>

abbreviation tuple_core :: core where
  "tuple_core \<equiv> over_m ''t'' ''U'' 0"

lemma tuple_resolved: "ResolveTypeExpr ascii_only 3 (Some (type_over ''t'' ''m'')) ex_core = (Inr 3, tuple_core)" (is "?run = _")
proof (rule outcome_eq)
  show "outcome ?run = outcome (Inr 3, tuple_core)" by code_simp
  show "c_flags (snd ?run) = c_flags (snd (Inr 3, tuple_core))"
    using resolve_grows(1) [OF lower_idem_ascii_only ex_core_ok] by (auto simp: over_m_def dest: extendsD(1))
qed

abbreviation type_dropped :: core where
  "type_dropped \<equiv> snd (DropDeclaredType ascii_only ''m'' tuple_core)"

lemma drop_leaves_dangling_argument:
  "map tr_expr (c_types type_dropped) = [''t'', ''t(m)''] \<and>
   TypeExprOf type_dropped 3 = Inl (CoreError ErrNoRows ''lookup type oid 2: sql: no rows in result set'') \<and>
   fst (ResolveTypeExpr ascii_only 3 (Some (type_over ''t'' ''m'')) type_dropped) = Inr 3"
  by code_simp

text \<open>A rewrite that gives a bare type its arguments also rewrites the family a lookup falls back to: with the rewrite of
  \<open>d\<close> to \<open>d(9)\<close>, the lookup of \<open>d(5)\<close>, whose row is not there, answers no type at all while \<open>d(9)\<close> is not there either,
  and \<open>d(9)\<close> as the family of \<open>d(5)\<close> once it is.\<close>

definition rewriting_core :: core where
  "rewriting_core = ex_core\<lparr>c_dialectOID := 1, c_types := [ex_family 1 1 ''d'' ''N''], c_next_type := 2,
     c_rewrites := [\<lparr>rr_dialect_oid = 1, rr_ord = 1, rr_pattern = ''d'', rr_template = ''d(9)'', rr_cond = []\<rparr>]\<rparr>"

definition sized :: "int \<Rightarrow> type_expr" where
  "sized n = mk_TypeExpr ''d'' False [int_argument [] n]"

lemma lookup_falls_back_to_rewritten_family:
  "LookupTypeExpr ascii_only 3 rewriting_core (Some (sized 5)) = None \<and>
   LookupTypeExpr ascii_only 3 (snd (ResolveTypeExpr ascii_only 3 (Some (named_type ''d'')) rewriting_core)) (Some (sized 5)) =
     Some \<lparr>tl_OID = 2, tl_FamilyOID = 2, tl_Expr = sized 5\<rparr> \<and>
   TypeExprOf (snd (ResolveTypeExpr ascii_only 3 (Some (named_type ''d'')) rewriting_core)) 2 = Inr (sized 9)"
  by code_simp

end
