(* ===== verification/Spec2Isabelle.thy ===== *)
theory Spec2Isabelle
  imports Catalog_Corner Placeholders Split Lexical Go_Type_Props Query_Corner Type_Expr_Props Core_Props
begin

text \<open>
  A verification library for sqlc, the compiler from SQL to type-safe code (the Go program under \<open>src/internal\<close>).

  \<^bold>\<open>The program.\<close>  sqlc reads schema files and query files.  Migrations and query files are cleaned and split into
  statements; the statements of the schema build a catalog of schemas, tables, types and functions; a query file is
  rewritten by the preprocessor, which replaces the \<open>sqlc.*\<close> calls by placeholders of the dialect and numbers them;
  each query is parsed by the engine's parser, and the compiler finds its parameters, its output columns and their
  types and nullability against the catalog, and expands its stars; the result is a request to a code generator, of
  which the Go generator is the one built in.  The library follows that pipeline.

  \<^bold>\<open>Schema catalog\<close> (\<open>sql/ast\<close>, \<open>sql/sqlerr\<close>, \<open>sql/catalog\<close>, the schema loop of \<open>compiler/compile.go\<close>).
  \<open>Sqlerr\<close> and \<open>Ast\<close> hold the errors and the statements; \<open>Catalog_State\<close> the state, in which columns live in a store
  because tables share column pointers; \<open>Catalog_Types\<close>, \<open>Catalog_Funcs\<close>, \<open>Catalog_Tables\<close> and \<open>Catalog_Update\<close> the operations,
  one function per method, which return the new catalog and the error, since a failed method keeps what it wrote.
  \<open>Catalog_Inv\<close> states the invariant and \<open>Catalog_Tables_Ok\<close> that every operation keeps it, \<open>Catalog_Create\<close> and
  \<open>Catalog_Props\<close> what the operations do to later lookups (creation with \<open>LIKE\<close> but without \<open>INHERITS\<close> and \<open>USING\<close>), \<open>Catalog_Corner\<close> that failed statements change nothing,
  overload resolution, and the places where the code departs from that.

  \<^bold>\<open>Query text\<close> (\<open>sql/preprocess\<close>, \<open>sql/named\<close>, \<open>source\<close>, \<open>metadata\<close>, \<open>migrations\<close>, \<open>sql/sqlfile\<close>, \<open>multierr\<close>).
  \<open>GoStrings\<close> and \<open>GoText\<close> are what the code uses of Go's string functions; a string is its list of bytes.  \<open>Lexer\<close>,
  \<open>Statements\<close>, \<open>Scan\<close>, \<open>Named\<close> and \<open>Preprocess\<close> are the preprocessor; \<open>Preprocess_Props\<close> shows that the rewritten text
  is the original with the recorded edits, that the offset map inverts them and that the rewriting returns;
  \<open>Placeholders\<close> is about numbering.  \<open>Lexical\<close> states what comments, strings and quoted names are on text alone, and
  shows that the lexer skips exactly them and cuts a file after the semicolons outside them.  \<open>Source\<close>, \<open>Metadata\<close> and \<open>Split\<close> are the text tools.

  \<^bold>\<open>Query analysis\<close> (\<open>compiler\<close>, \<open>sql/astutils\<close>, \<open>sql/validate\<close>, \<open>sql/lang\<close>).  \<open>Nodes\<close> is the syntax tree, a datatype with a
  constructor per node type the compiler inspects, \<open>NilNode\<close> for the nil interface, and \<open>Other\<close> for node types that
  are only walked; a \<open>*ast.ParamRef\<close> is an address, because the compiler writes its number, and its fields live in a
  \<open>param_store\<close>.  \<open>Walk\<close> is the traversal with any visitor, with \<open>Walk_simple\<close> and \<open>Search_filter\<close> relating it to the
  preorder of the tree.  \<open>Query_Catalog\<close> holds the query catalog, names and RETURNING tables, \<open>Query_Columns\<close> the body of
  \<open>output_columns.go\<close> with the function for subqueries as an argument, \<open>Query_Output\<close> ties the recursion up,
  \<open>Query_Validate\<close> the checks, \<open>Query_Params\<close> the search for parameters and their numbers, \<open>Query_Resolve\<close> their types,
  \<open>Query_Analyze\<close> star expansion, \<open>analyzeQuery\<close> and \<open>parseQuery\<close>.  The properties: \<open>Query_Views\<close> (the compiler as the
  catalog's column generator, through the locale \<open>column_generator\<close>), \<open>Query_Joins\<close> (nullability under outer joins against
  a specification by the sides of the FROM clause), \<open>Query_Expand_Props\<close> (star expansion selects the columns that the
  generated code scans; edits replace the references; quoted names read back), \<open>Query_Param_Props\<close> and
  \<open>Query_Resolve_Props\<close> (every placeholder gets a reference, one parameter per number, typed by the catalog),
  \<open>Query_Corner\<close> (accepted INSERT statements, and queries on which the analysis errs).

  \<^bold>\<open>Code generation\<close> (\<open>plugin\<close>, \<open>cmd/shim.go\<close>, \<open>codegen/sdk\<close>, \<open>codegen/golang\<close>, \<open>pattern\<close>, \<open>inflection\<close>).  \<open>Plugin\<close> holds the request
  and how it is made of the catalog and the queries, \<open>Pattern\<close> the patterns of overrides, \<open>Go_Options\<close> the options,
  \<open>Go_Names\<close>, \<open>Go_Types\<close>, \<open>Go_Structs\<close>, \<open>Go_Queries\<close>, \<open>Go_Imports\<close> and \<open>Go_Gen\<close> the generator up to the plan of output
  files.  The theories named \<open>Go_*_Props\<close> hold its properties: names are identifiers and distinct, the integer type
  of every integer name the code knows holds its values, every type of the models is imported, exactly the files that are
  wanted are written, each once, and the variable a row is read into clashes with no argument but in one case.

  \<^bold>\<open>Analysis core: types\<close> (\<open>core\<close>, \<open>core/catalogdb\<close>).  \<open>Type_Expr\<close> is the reader and the printer of type expressions,
  \<open>Type_Expr_Props\<close> their round trip and where it ends; \<open>Type_Rewrite\<close> the rewrites and identifier words of a dialect, and
  how a type is read from a syntax tree.  \<open>Core_Catalog\<close> is the core's catalog, a record of tables with one definition
  \<open>q_*\<close> per query of \<open>query.sql.go\<close> that is more than a filter, and what is read of it; \<open>Core_Types\<close> what writes types:
  declared types, the interning of expressions, the lookups that may not write, \<open>DROP TYPE\<close>.  \<open>Core_Inv\<close> states the
  invariant and what adding rows leaves unchanged, \<open>Core_Intern\<close> and \<open>Core_Declare\<close> that every operation that adds types
  keeps it and that an interned expression is read back, \<open>Core_Lookup\<close> that lookups and interning agree, \<open>Core_Drop\<close> what
  is dropped, and \<open>Core_Props\<close> puts these together and records where the code departs from its comments.

  \<^bold>\<open>Errors, loops and bounds.\<close>  A Go error is a value of \<open>error\<close> (of \<open>core_error\<close> in the core, which keeps the cause that
  \<open>errors.Is\<close> asks for); \<open>Panic\<close> stands for a run-time panic, which no caller recovers.  Every loop is a total function, by
  structural recursion or with a measure.  Three recursions of the core go through its tables and are not bounded by their
  argument: they count nested calls and panic at the bound.  \<open>TypeExprOf\<close> and \<open>dropType\<close> run with the next free oid, which
  is enough under the invariant (\<open>expr_of_stable\<close>, \<open>drop_from_all\<close>); interning takes the bound as an argument, because a
  dialect's rewrites can wrap a type in itself, and what is shown of it holds for every bound.  Integers the code keeps
  in bit masks are words; the others are \<open>int\<close> or \<open>nat\<close>, where an overflow would need a text of \<open>2 ^ 63\<close> bytes.
  \<open>ToLower\<close> and \<open>EqualFold\<close> fold the letters A to Z only; Go also folds letters outside ASCII, so for a schema, function
  or type name written with upper-case letters outside ASCII the model finds it only as it is spelled.

  \<^bold>\<open>Arguments of the model.\<close>  What the sources only call is an argument: Unicode tables (\<open>unicode\<close>, with \<open>ascii_only\<close> as an
  instance), \<open>sort.Slice\<close> (any sorting permutation), the inflection library, the text templates, and of the engine's
  parser its reserved words, its comment syntax and its check of an edited query.

  \<^bold>\<open>Not modelled.\<close>  The conversions from third-party syntax trees (\<open>engine/*/convert.go\<close>), whose input types are not in
  the repository; of the analysis core the inference of expressions and statements (\<open>core/analyzer\<close>), the seeds, the
  caches of its catalog and the tables of relations and functions; \<open>astutils/rewrite.go\<close>; the branch of the analysis
  that asks a connected database (\<open>inferQuery\<close>, \<open>combineAnalysis\<close>);
  the printer of syntax trees; decoding of YAML and JSON; commands, processes, files, caches, WASM and network code;
  generated code; text templates.
\<close>

end
